(* ===== verification/Prelude.thy ===== *)
theory Prelude
  imports Main "HOL-Library.Char_ord" "HOL-Library.List_Lexorder" "HOL-Library.AList"
    "HOL-Library.Multiset"
begin

text \<open>
  Shared vocabulary of the terragraph development.
  \<^item> Go strings are \<^typ>\<open>string\<close>; \<open>List_Lexorder\<close> over \<open>Char_ord\<close> is Go's bytewise order, so
    \<open>sort.Strings\<close> is \<^const>\<open>sort\<close> and \<open>slices.Compact\<close> is \<^const>\<open>remdups_adj\<close>.
  \<^item> A Go map is an association list with distinct keys (\<open>gomap\<close>): \<^const>\<open>map_of\<close> reads,
    \<^const>\<open>AList.update\<close> writes, \<^const>\<open>AList.delete\<close> deletes, and the order of the list stands for
    the unspecified iteration order of the map.
  \<^item> A Go \<open>(T, error)\<close> result is a value of a sum type, \<^const>\<open>Inl\<close> the error; \<open>bindR\<close> is the early
    return \<open>if err != nil { return err }\<close> and \<open>foldR\<close> a loop whose body may return early.
\<close>

type_synonym 'a smap = "(string \<times> 'a) list"

named_theorems resultI \<open>introduction rules for results of fallible operations\<close>
named_theorems inv_keep \<open>operations that keep an invariant\<close>

subsection \<open>Results\<close>

fun bindR :: "'e + 'a \<Rightarrow> ('a \<Rightarrow> 'e + 'b) \<Rightarrow> 'e + 'b" where
  "bindR (Inl e) f = Inl e"
| "bindR (Inr x) f = f x"

fun mapErr :: "('e \<Rightarrow> 'f) \<Rightarrow> 'e + 'a \<Rightarrow> 'f + 'a" where
  "mapErr h (Inl e) = Inl (h e)"
| "mapErr h (Inr x) = Inr x"

fun foldR :: "('s \<Rightarrow> 'x \<Rightarrow> 'e + 's) \<Rightarrow> 's \<Rightarrow> 'x list \<Rightarrow> 'e + 's" where
  "foldR f s [] = Inr s"
| "foldR f s (x # xs) = bindR (f s x) (\<lambda>s'. foldR f s' xs)"

fun mapR :: "('x \<Rightarrow> 'e + 'y) \<Rightarrow> 'x list \<Rightarrow> 'e + 'y list" where
  "mapR f [] = Inr []"
| "mapR f (x # xs) = bindR (f x) (\<lambda>y. bindR (mapR f xs) (\<lambda>ys. Inr (y # ys)))"

definition isOk :: "'e + 'a \<Rightarrow> bool" where
  "isOk r = (case r of Inl _ \<Rightarrow> False | Inr _ \<Rightarrow> True)"

definition require :: "bool \<Rightarrow> 'e \<Rightarrow> 'e + unit" where
  "require b e = (if b then Inr () else Inl e)"

subsection \<open>Strings and sorted keys\<close>

definition HasPrefix :: "string \<Rightarrow> string \<Rightarrow> bool" where
  "HasPrefix s p \<longleftrightarrow> take (length p) s = p"

definition HasSuffix :: "string \<Rightarrow> string \<Rightarrow> bool" where
  "HasSuffix s p \<longleftrightarrow> HasPrefix (rev s) (rev p)"

definition TrimSuffix :: "string \<Rightarrow> string \<Rightarrow> string" where
  "TrimSuffix s p = (if HasSuffix s p then take (length s - length p) s else s)"

definition TrimPrefix :: "string \<Rightarrow> string \<Rightarrow> string" where
  "TrimPrefix s p = (if HasPrefix s p then drop (length p) s else s)"

fun ContainsStr :: "string \<Rightarrow> string \<Rightarrow> bool" where
  "ContainsStr [] p = (p = [])"
| "ContainsStr (c # s) p = (HasPrefix (c # s) p \<or> ContainsStr s p)"

fun joinWith :: "string \<Rightarrow> string list \<Rightarrow> string" where
  "joinWith sep [] = []"
| "joinWith sep [x] = x"
| "joinWith sep (x # y # ys) = x @ sep @ joinWith sep (y # ys)"

fun splitOn :: "char \<Rightarrow> string \<Rightarrow> string list" where
  "splitOn c [] = [[]]"
| "splitOn c (x # xs) =
     (if x = c then [] # splitOn c xs
      else (case splitOn c xs of [] \<Rightarrow> [[x]] | y # ys \<Rightarrow> (x # y) # ys))"

definition sget :: "string smap \<Rightarrow> string \<Rightarrow> string" where
  "sget m k = (case map_of m k of None \<Rightarrow> [] | Some v \<Rightarrow> v)"

definition hasKey :: "'a smap \<Rightarrow> string \<Rightarrow> bool" where
  "hasKey m k = (map_of m k \<noteq> None)"

definition sortedKeys :: "'a smap \<Rightarrow> string list" where
  "sortedKeys m = sort (map fst m)"

definition distinctKeys :: "'a smap \<Rightarrow> bool" where
  "distinctKeys m = distinct (map fst m)"

text \<open>The first occurrence of each element, in order.\<close>

definition firsts :: "'a list \<Rightarrow> 'a list" where
  "firsts xs = rev (remdups (rev xs))"

definition mapsEqual :: "'a smap \<Rightarrow> 'a smap \<Rightarrow> bool" where
  "mapsEqual m n = (length m = length n \<and> list_all (\<lambda>(k, v). map_of n k = Some v) m)"

subsection \<open>Lemmas on results\<close>

lemma bindR_eq_Inr [simp]: "bindR r f = Inr y \<longleftrightarrow> (\<exists>x. r = Inr x \<and> f x = Inr y)"
  by (cases r) auto

lemma bindR_eq_Inl: "bindR r f = Inl e \<longleftrightarrow> (r = Inl e \<or> (\<exists>x. r = Inr x \<and> f x = Inl e))"
  by (cases r) auto

lemma mapErr_eq_Inr [simp]: "mapErr h r = Inr y \<longleftrightarrow> r = Inr y"
  by (cases r) auto

lemma require_eq_Inr [simp]: "require b e = Inr u \<longleftrightarrow> b"
  by (simp add: require_def)

lemma require_eq_Inl [simp]: "require b e = Inl e' \<longleftrightarrow> (\<not> b \<and> e' = e)"
  by (auto simp: require_def)

lemma isOk_simps [simp]: "isOk (Inr x)" "\<not> isOk (Inl e)"
  by (simp_all add: isOk_def)

lemma isOk_iff: "isOk r \<longleftrightarrow> (\<exists>x. r = Inr x)"
  by (cases r) auto

lemma foldR_append: "foldR f s (xs @ ys) = bindR (foldR f s xs) (\<lambda>s'. foldR f s' ys)"
proof (induction xs arbitrary: s)
  case (Cons x xs)
  then show ?case by (cases "f s x") auto
qed simp

text \<open>The Hoare rule of a fallible loop.\<close>

lemma foldR_inv:
  assumes "foldR f s xs = Inr s'" and "I s"
    and "\<And>s x t. x \<in> set xs \<Longrightarrow> I s \<Longrightarrow> f s x = Inr t \<Longrightarrow> I t"
  shows "I s'"
  using assms
proof (induction xs arbitrary: s)
  case (Cons x xs)
  from Cons.prems(1) obtain t where t: "f s x = Inr t" "foldR f t xs = Inr s'" by auto
  from Cons.prems(2,3) t(1) have "I t" by (meson list.set_intros(1))
  with t(2) Cons.prems(3) show ?case by (intro Cons.IH) auto
qed simp

lemma foldR_total:
  assumes "\<And>s x. x \<in> set xs \<Longrightarrow> isOk (f s x)"
  shows "isOk (foldR f s xs)"
  using assms
proof (induction xs arbitrary: s)
  case (Cons x xs)
  then have "isOk (f s x)" by simp
  then show ?case using Cons by (cases "f s x") auto
qed simp

lemma mapR_total: "(\<And>x. x \<in> set xs \<Longrightarrow> isOk (f x)) \<Longrightarrow> isOk (mapR f xs)"
proof (induction xs)
  case (Cons x xs)
  then have "isOk (f x)" "isOk (mapR f xs)" by simp_all
  then show ?case by (cases "f x"; cases "mapR f xs") auto
qed simp

lemma isOk_bindR: "isOk (bindR r f) \<longleftrightarrow> (\<exists>x. r = Inr x \<and> isOk (f x))"
  by (cases r) auto

lemma set_firsts [simp]: "set (firsts xs) = set xs"
  by (simp add: firsts_def)

lemma distinct_firsts [simp]: "distinct (firsts xs)"
  by (simp add: firsts_def)

lemma foldl_inv:
  assumes "I s" and "\<And>s x. x \<in> set xs \<Longrightarrow> I s \<Longrightarrow> I (f s x)"
  shows "I (foldl f s xs)"
  using assms by (induction xs arbitrary: s) auto

lemma mapR_eq_Inr:
  "mapR f xs = Inr ys \<longleftrightarrow> list_all2 (\<lambda>x y. f x = Inr y) xs ys"
proof (induction xs arbitrary: ys)
  case (Cons x xs)
  then show ?case by (cases ys) auto
qed auto

subsection \<open>Lemmas on sorted lists, keys and maps\<close>

lemma sort_cong_mset: "mset xs = mset ys \<Longrightarrow> sort xs = sort ys"
  by (rule properties_for_sort) auto

lemma sort_cong_set:
  "distinct xs \<Longrightarrow> distinct ys \<Longrightarrow> set xs = set ys \<Longrightarrow> sort xs = sort ys"
  by (rule sort_cong_mset) (simp add: set_eq_iff_mset_eq_distinct)

lemma strict_sorted_sort: "distinct xs \<Longrightarrow> sorted_wrt (<) (sort (xs :: 'a :: linorder list))"
  by (simp add: strict_sorted_iff)

lemma set_sortedKeys [simp]: "set (sortedKeys m) = fst ` set m"
  by (simp add: sortedKeys_def)

lemma sorted_sortedKeys [simp]: "sorted (sortedKeys m)"
  by (simp add: sortedKeys_def)

lemma distinct_sortedKeys [simp]: "distinctKeys m \<Longrightarrow> distinct (sortedKeys m)"
  by (simp add: sortedKeys_def distinctKeys_def)

lemma hasKey_iff [simp]: "hasKey m k \<longleftrightarrow> k \<in> fst ` set m"
  by (simp add: hasKey_def map_of_eq_None_iff)

lemma card_keys: "distinctKeys m \<Longrightarrow> card (fst ` set m) = length m"
  unfolding distinctKeys_def by (metis distinct_card length_map set_map)

lemma mapsEqual_iff:
  assumes "distinctKeys m" "distinctKeys n"
  shows "mapsEqual m n \<longleftrightarrow> map_of m = map_of n"
proof
  assume eq: "mapsEqual m n"
  then have len: "length m = length n" by (simp add: mapsEqual_def)
  have sub: "map_of m \<subseteq>\<^sub>m map_of n"
    unfolding map_le_def
  proof
    fix a assume "a \<in> dom (map_of m)"
    then obtain v where v: "map_of m a = Some v" by blast
    then have "(a, v) \<in> set m" by (rule map_of_SomeD)
    with eq have "map_of n a = Some v" by (auto simp: mapsEqual_def list_all_iff)
    with v show "map_of m a = map_of n a" by simp
  qed
  have "card (fst ` set m) = length m" "card (fst ` set n) = length n"
    using assms by (simp_all add: card_keys)
  moreover have "fst ` set m \<subseteq> fst ` set n"
    using sub by (metis dom_map_of_conv_image_fst map_le_implies_dom_le)
  ultimately have "dom (map_of n) = dom (map_of m)"
    using len by (metis List.finite_set card_subset_eq dom_map_of_conv_image_fst finite_imageI)
  then show "map_of m = map_of n"
    using sub by (metis map_le_antisym map_le_def)
next
  assume eq: "map_of m = map_of n"
  then have dom: "fst ` set m = fst ` set n"
    by (metis dom_map_of_conv_image_fst)
  have "length m = card (fst ` set m)" "length n = card (fst ` set n)"
    using assms by (simp_all add: card_keys)
  with dom have "length m = length n" by simp
  moreover have "list_all (\<lambda>(k, v). map_of n k = Some v) m"
    using assms(1) by (auto simp: list_all_iff eq [symmetric] distinctKeys_def)
  ultimately show "mapsEqual m n" by (simp add: mapsEqual_def)
qed

lemma sget_update [simp]: "sget (AList.update k v m) k' = (if k' = k then v else sget m k')"
  by (simp add: sget_def update_conv')

lemma distinctKeys_update [simp, inv_keep]:
  "distinctKeys m \<Longrightarrow> distinctKeys (AList.update k v m)"
  by (simp add: distinctKeys_def distinct_update)

lemma distinctKeys_Nil [simp]: "distinctKeys []"
  by (simp add: distinctKeys_def)

lemma set_keys_update [simp]: "fst ` set (AList.update k v m) = insert k (fst ` set m)"
  by (induction m) auto

lemma HasPrefix_append [simp]: "HasPrefix (p @ s) p"
  by (simp add: HasPrefix_def)

lemma HasPrefix_iff: "HasPrefix s p \<longleftrightarrow> (\<exists>t. s = p @ t)"
proof
  assume "HasPrefix s p"
  then have "s = p @ drop (length p) s"
    unfolding HasPrefix_def by (metis append_take_drop_id)
  then show "\<exists>t. s = p @ t" ..
qed auto

lemma HasSuffix_iff: "HasSuffix s p \<longleftrightarrow> (\<exists>t. s = t @ p)"
  unfolding HasSuffix_def HasPrefix_iff by (metis rev_append rev_rev_ident)

lemma TrimSuffix_append [simp]: "TrimSuffix (s @ p) p = s"
  by (simp add: TrimSuffix_def HasSuffix_iff)

lemma TrimPrefix_append [simp]: "TrimPrefix (p @ s) p = s"
  by (simp add: TrimPrefix_def)

lemma splitOn_neq_Nil [simp]: "splitOn c s \<noteq> []"
  by (induction s) (auto split: list.splits)

lemma joinWith_splitOn: "joinWith [c] (splitOn c s) = s"
proof (induction s)
  case (Cons x xs)
  obtain y ys where s: "splitOn c xs = y # ys"
    by (metis neq_Nil_conv splitOn_neq_Nil)
  show ?case
  proof (cases "x = c")
    case True
    then show ?thesis using Cons s by simp
  next
    case False
    then show ?thesis using Cons s by (cases ys) auto
  qed
qed simp

lemma count_list_pos: "x \<in> set xs \<Longrightarrow> 1 \<le> count_list xs x"
  by (induction xs) auto

lemma count_list_distinct: "distinct xs \<Longrightarrow> count_list xs x \<le> 1"
  by (induction xs) auto

lemma mapR_mem: "mapR f xs = Inr ys \<Longrightarrow> y \<in> set ys \<Longrightarrow> \<exists>x \<in> set xs. f x = Inr y"
  by (induction xs arbitrary: ys) auto

lemma mapR_each: "mapR f xs = Inr ys \<Longrightarrow> x \<in> set xs \<Longrightarrow> \<exists>y. f x = Inr y"
  by (induction xs arbitrary: ys) auto

lemma foldR_eq_Inl: "foldR f s xs = Inl e \<Longrightarrow> \<exists>t. \<exists>x \<in> set xs. f t x = Inl e"
proof (induction xs arbitrary: s)
  case (Cons x xs)
  show ?case
  proof (cases "f s x")
    case (Inr t)
    then show ?thesis using Cons.IH [of t] Cons.prems by auto
  qed (use Cons.prems in auto)
qed simp

lemma mapR_eq_Inl: "mapR f xs = Inl e \<Longrightarrow> \<exists>x \<in> set xs. f x = Inl e"
  by (induction xs) (auto simp: bindR_eq_Inl)

lemma bindR_assoc: "bindR (bindR r f) h = bindR r (\<lambda>x. bindR (f x) h)"
  by (cases r) auto


end
