(* ===== verification/Blueprint_Types.thy ===== *)
theory Blueprint_Types
  imports Prelude
begin

text \<open>
  The blueprint data model (\<open>internal/blueprint/types.go\<close>, \<open>approve.go\<close>, \<open>contract.go\<close>,
  \<open>execution.go\<close>, \<open>plugin_binding.go\<close>) and the accessors and closed vocabularies the later stages
  consult. Go string enumerations stay strings, because persisted records can hold any string in
  those fields. A nil Go map is the empty association list, except where the code distinguishes
  nil from empty (\<open>BackendAddress\<close>), which is an option. Durations are nanoseconds.
\<close>

subsection \<open>References and edges\<close>

abbreviation (input) PortOutput :: string where "PortOutput \<equiv> ''output''"
abbreviation (input) PortInput :: string where "PortInput \<equiv> ''input''"
abbreviation (input) EntityNode :: string where "EntityNode \<equiv> ''''"
abbreviation (input) EntityUse :: string where "EntityUse \<equiv> ''use''"

record PortRef =
  pr_Entity :: string
  pr_Node :: string
  pr_Kind :: string
  pr_Name :: string

definition IsPort :: "PortRef \<Rightarrow> bool" where
  "IsPort p \<longleftrightarrow> pr_Kind p \<noteq> ''''"

definition ref_prefix :: "PortRef \<Rightarrow> string" where
  "ref_prefix p = (if pr_Entity p = EntityUse then ''use'' else ''node'')"

definition PortRef_String :: "PortRef \<Rightarrow> string" where
  "PortRef_String p =
     (if \<not> IsPort p then ref_prefix p @ ''.'' @ pr_Node p
      else ref_prefix p @ ''.'' @ pr_Node p @ ''.'' @ pr_Kind p @ ''.'' @ pr_Name p)"

definition bareRef :: "string \<Rightarrow> PortRef" where
  "bareRef n = \<lparr>pr_Entity = EntityNode, pr_Node = n, pr_Kind = '''', pr_Name = ''''\<rparr>"

record Edge =
  e_From :: PortRef
  e_To :: PortRef

definition IsDataEdge :: "Edge \<Rightarrow> bool" where
  "IsDataEdge e \<longleftrightarrow> IsPort (e_From e) \<and> IsPort (e_To e)"

subsection \<open>Literal values and plugin bindings\<close>

text \<open>A value decoded from JSON with \<open>UseNumber\<close>: numbers keep their token.\<close>

datatype jval =
    JNull
  | JBool bool
  | JNum string
  | JStr string
  | JList "jval list"
  | JObj "(string \<times> jval) list"

record PluginBinding =
  pb_Alias :: string
  pb_Feature :: string
  pb_Reference :: "jval smap"
  pb_Environment :: "string list"

record PluginFeature =
  pf_Mode :: string
  pf_Timeout :: int

record PluginConfig =
  plc_Name :: string
  plc_Source :: string
  plc_Version :: string
  plc_Config :: "jval smap"
  plc_Features :: "PluginFeature smap"
  plc_Environment :: "string list"
  plc_PlanAccess :: bool

subsection \<open>Nodes, uses, exports, groups\<close>

record bpNode =
  bn_Inputs :: "PluginBinding smap"
  bn_Credentials :: "PluginBinding smap"
  bn_Name :: string
  bn_Source :: string
  bn_BackendConfig :: "string smap"
  bn_BackendAddress :: "string smap option"
  bn_Vars :: "jval smap"
  bn_Runtime :: string
  bn_Env :: "string smap"
  bn_Approve :: string

record Use =
  u_GroupName :: string
  u_As :: string
  u_Source :: string
  u_Runtime :: string
  u_Env :: "string smap"
  u_Vars :: "jval smap"
  u_Approve :: string
  u_BackendConfig :: "string smap"
  u_BackendAddress :: "string smap option"

record ExportInput =
  ei_Name :: string
  ei_To :: "PortRef list"

record ExportOutput =
  eo_Name :: string
  eo_From :: PortRef

record Export =
  ex_Inputs :: "ExportInput list"
  ex_Outputs :: "ExportOutput list"

subsection \<open>Contracts\<close>

record PortContract =
  pc_Name :: string
  pc_Scope :: string
  pc_Type :: string
  pc_Nullable :: "bool option"
  pc_Sensitive :: "bool option"

record DirContracts =
  dc_Scope :: string
  dc_Dir :: string
  dc_Producer :: "PortContract smap"
  dc_Consumer :: "PortContract smap"

text \<open>A \<open>*Contracts\<close>: \<^const>\<open>None\<close> is the nil pointer, otherwise the \<open>ByDir\<close> map.\<close>

type_synonym Contracts = "DirContracts smap option"

definition Contracts_Lookup :: "Contracts \<Rightarrow> string \<Rightarrow> DirContracts option" where
  "Contracts_Lookup c dir = (case c of None \<Rightarrow> None | Some m \<Rightarrow> map_of m dir)"

record Group =
  gr_Name :: string
  gr_Nodes :: "bpNode list"
  gr_Edges :: "Edge list"
  gr_Uses :: "Use list"
  gr_Export :: Export
  gr_Contracts :: Contracts

subsection \<open>Runtimes, locks, project configuration\<close>

record Runtime =
  rt_Name :: string
  rt_Binary :: string
  rt_Version :: string
  rt_Default :: bool

record VendorConfig =
  vc_Directory :: string
  vc_ManifestFile :: string

record S3Lock =
  s3_Bucket :: string
  s3_Key :: string
  s3_Region :: string

record Lock =
  lk_S3 :: "S3Lock option"

record ExecutionConfig =
  xc_Bucket :: string
  xc_Prefix :: string
  xc_Region :: string
  xc_PlanTTL :: int
  xc_RecordRetention :: int

record Blueprint =
  bp_Plugins :: "PluginConfig list"
  bp_Execution :: "ExecutionConfig option"
  bp_Nodes :: "bpNode list"
  bp_Edges :: "Edge list"
  bp_Groups :: "Group list"
  bp_Uses :: "Use list"
  bp_Vendor :: "VendorConfig option"
  bp_TFVars :: "string option"
  bp_Lock :: "Lock option"
  bp_Runtimes :: "Runtime list"
  bp_ContractMode :: string
  bp_Contracts :: Contracts
  bp_Snapshots :: "bool option"

definition IsRemote :: "string \<Rightarrow> bool" where
  "IsRemote src \<longleftrightarrow> \<not> HasPrefix src ''./'' \<and> \<not> HasPrefix src ''../''"

definition RuntimeByName :: "Runtime list \<Rightarrow> string \<Rightarrow> Runtime option" where
  "RuntimeByName rts name = find (\<lambda>rt. rt_Name rt = name) rts"

definition DefaultRuntime :: "Blueprint \<Rightarrow> Runtime option" where
  "DefaultRuntime b = find rt_Default (bp_Runtimes b)"

definition VendorDirectory :: "Blueprint \<Rightarrow> string" where
  "VendorDirectory b =
     (case bp_Vendor b of
        Some v \<Rightarrow> (if vc_Directory v \<noteq> '''' then vc_Directory v else ''vendor'')
      | None \<Rightarrow> ''vendor'')"

definition VendorManifestFile :: "Blueprint \<Rightarrow> string" where
  "VendorManifestFile b =
     (case bp_Vendor b of
        Some v \<Rightarrow> (if vc_ManifestFile v \<noteq> '''' then vc_ManifestFile v else ''vendor.yaml'')
      | None \<Rightarrow> ''vendor.yaml'')"

definition TFVarsLocation :: "Blueprint \<Rightarrow> string" where
  "TFVarsLocation b =
     (case bp_TFVars b of
        Some l \<Rightarrow> (if l \<noteq> '''' then l else ''workdir'')
      | None \<Rightarrow> ''workdir'')"

definition NodeByName :: "Blueprint \<Rightarrow> string \<Rightarrow> bpNode option" where
  "NodeByName b name = find (\<lambda>n. bn_Name n = name) (bp_Nodes b)"

definition nsPerHour :: int where "nsPerHour = 3600000000000"

definition defaultExecution :: ExecutionConfig where
  "defaultExecution =
     \<lparr>xc_Bucket = '''', xc_Prefix = '''', xc_Region = '''', xc_PlanTTL = 24 * nsPerHour,
      xc_RecordRetention = 30 * 24 * nsPerHour\<rparr>"

text \<open>The receiver may be nil: \<open>ExecutionSettings\<close> is called on a nil \<open>*Blueprint\<close> too.\<close>

definition ExecutionSettings :: "Blueprint option \<Rightarrow> ExecutionConfig" where
  "ExecutionSettings ob =
     (case ob of
        Some b \<Rightarrow> (case bp_Execution b of Some c \<Rightarrow> c | None \<Rightarrow> defaultExecution)
      | None \<Rightarrow> defaultExecution)"

datatype config_error = ExecutionNeedsLock | PrefixContainsLock

definition validateExecutionConfig :: "Blueprint \<Rightarrow> config_error + unit" where
  "validateExecutionConfig b =
     (let cfg = ExecutionSettings (Some b) in
      if xc_Bucket cfg = '''' then Inr ()
      else (case bp_Lock b of
              None \<Rightarrow> Inl ExecutionNeedsLock
            | Some l \<Rightarrow> (case lk_S3 l of
                None \<Rightarrow> Inl ExecutionNeedsLock
              | Some s \<Rightarrow>
                  if xc_Bucket cfg = s3_Bucket s
                     \<and> (s3_Key s = xc_Prefix cfg \<or> HasPrefix (s3_Key s) (xc_Prefix cfg @ ''/''))
                  then Inl PrefixContainsLock else Inr ())))"

subsection \<open>Approve levels\<close>

abbreviation (input) ApproveNone :: string where "ApproveNone \<equiv> ''none''"
abbreviation (input) ApproveSafe :: string where "ApproveSafe \<equiv> ''safe''"
abbreviation (input) ApproveAll :: string where "ApproveAll \<equiv> ''all''"

definition ParseApprove :: "string \<Rightarrow> string + string" where
  "ParseApprove s = (if s \<in> {ApproveNone, ApproveSafe, ApproveAll} then Inr s else Inl s)"

definition Permits :: "string \<Rightarrow> string \<Rightarrow> bool" where
  "Permits a action =
     (if action = ''no-op'' \<or> action = ''read'' then True
      else if action = ''create'' \<or> action = ''update'' then a = ApproveSafe \<or> a = ApproveAll
      else if action = ''delete'' then a = ApproveAll
      else a = ApproveAll)"

definition approveRank :: "string \<Rightarrow> nat" where
  "approveRank a = (if a = ApproveAll then 2 else if a = ApproveSafe then 1 else 0)"

subsection \<open>Names and credential environment\<close>

definition isNameChar :: "char \<Rightarrow> bool" where
  "isNameChar c =
     (let n = of_char c :: nat in
      (65 \<le> n \<and> n \<le> 90) \<or> (97 \<le> n \<and> n \<le> 122) \<or> (48 \<le> n \<and> n \<le> 57) \<or> n = 95 \<or> n = 45)"

text \<open>\<open>nameRegexp\<close>: one or more of letters, digits, underscore and hyphen.\<close>

definition validName :: "string \<Rightarrow> bool" where
  "validName s \<longleftrightarrow> s \<noteq> [] \<and> list_all isNameChar s"

definition isLowerChar :: "char \<Rightarrow> bool" where
  "isLowerChar c \<longleftrightarrow> c \<in> set ''abcdefghijklmnopqrstuvwxyz''"

definition isDigitChar :: "char \<Rightarrow> bool" where
  "isDigitChar c \<longleftrightarrow> c \<in> set ''0123456789''"

text \<open>\<open>^[a-z][a-z0-9_]*$\<close>\<close>

definition identifierName :: "string \<Rightarrow> bool" where
  "identifierName s \<longleftrightarrow> s \<noteq> '''' \<and> isLowerChar (hd s) \<and>
     list_all (\<lambda>c. isLowerChar c \<or> isDigitChar c \<or> c = CHR ''_'') s"

definition toUpperChar :: "char \<Rightarrow> char" where
  "toUpperChar c = (if 97 \<le> (of_char c :: nat) \<and> (of_char c :: nat) \<le> 122 then char_of ((of_char c :: nat) - 32) else c)"

definition toUpper :: "string \<Rightarrow> string" where
  "toUpper s = map toUpperChar s"

definition isEnvChar :: "char \<Rightarrow> bool" where
  "isEnvChar c \<longleftrightarrow> c \<in> set ''ABCDEFGHIJKLMNOPQRSTUVWXYZ_''"

definition CredentialEnvironmentAllowed :: "string \<Rightarrow> bool" where
  "CredentialEnvironmentAllowed name =
     (let key = toUpper name in
      if \<not> (key \<noteq> '''' \<and> isEnvChar (hd key) \<and> list_all (\<lambda>c. isEnvChar c \<or> isDigitChar c) key) then False
      else if HasPrefix key ''TF_TOKEN_'' \<or> key = ''TF_HTTP_USERNAME'' \<or> key = ''TF_HTTP_PASSWORD'' then True
      else if HasPrefix key ''TF_'' \<or> HasPrefix key ''TOFU_'' \<or> HasPrefix key ''TERRAGRAPH_'' \<or> HasPrefix key ''LD_'' \<or> HasPrefix key ''DYLD_'' then False
      else key \<notin> {''PATH'', ''HOME'', ''USERPROFILE'', ''SYSTEMROOT'', ''COMSPEC'', ''SHELL'', ''BASH_ENV'', ''ENV'', ''AWS_PROFILE'',
        ''AWS_REGION'', ''AWS_DEFAULT_REGION'', ''AWS_ENDPOINT_URL''})"

subsection \<open>Reference checks of a parse scope\<close>

datatype scope_error =
    UnknownUse string
  | UnknownNode string
  | ManyDefaults nat
  | UndeclaredRuntime string string

definition validateEndpointKnown ::
    "PortRef \<Rightarrow> string set \<Rightarrow> string set \<Rightarrow> scope_error + unit" where
  "validateEndpointKnown ref seenNodes seenUses =
     (if pr_Entity ref = EntityUse
      then require (pr_Node ref \<in> seenUses) (UnknownUse (pr_Node ref))
      else require (pr_Node ref \<in> seenNodes) (UnknownNode (pr_Node ref)))"

definition validateEdges ::
    "Blueprint \<Rightarrow> string set \<Rightarrow> string set \<Rightarrow> scope_error + unit" where
  "validateEdges b seenNodes seenUses =
     foldR (\<lambda>_ e. bindR (validateEndpointKnown (e_From e) seenNodes seenUses)
                    (\<lambda>_. validateEndpointKnown (e_To e) seenNodes seenUses)) () (bp_Edges b)"

definition checkRuntimeRef :: "Blueprint \<Rightarrow> string \<Rightarrow> string \<Rightarrow> scope_error + unit" where
  "checkRuntimeRef b owner ref =
     (if ref = '''' then Inr ()
      else require (RuntimeByName (bp_Runtimes b) ref \<noteq> None) (UndeclaredRuntime owner ref))"

definition validateRuntimes :: "Blueprint \<Rightarrow> scope_error + unit" where
  "validateRuntimes b =
     (let defaults = length (filter rt_Default (bp_Runtimes b)) in
      bindR (require (defaults \<le> 1) (ManyDefaults defaults)) (\<lambda>_.
      bindR (foldR (\<lambda>_ n. checkRuntimeRef b (bn_Name n) (bn_Runtime n)) () (bp_Nodes b)) (\<lambda>_.
      bindR (foldR (\<lambda>_ u. checkRuntimeRef b (u_As u) (u_Runtime u)) () (bp_Uses b)) (\<lambda>_.
      foldR (\<lambda>_ g.
        bindR (foldR (\<lambda>_ n. checkRuntimeRef b (gr_Name g @ ''.'' @ bn_Name n) (bn_Runtime n)) ()
                 (gr_Nodes g)) (\<lambda>_.
        foldR (\<lambda>_ u. checkRuntimeRef b (gr_Name g @ ''.'' @ u_As u) (u_Runtime u)) ()
                 (gr_Uses g))) () (bp_Groups b)))))"

subsection \<open>Facts\<close>

lemma IsPort_bareRef [simp]: "\<not> IsPort (bareRef n)" "pr_Node (bareRef n) = n"
  by (simp_all add: IsPort_def bareRef_def)

lemma validName_no_dot: "validName s \<Longrightarrow> CHR ''.'' \<notin> set s"
  by (auto simp: validName_def list_all_iff isNameChar_def)

lemma validName_no_slash: "validName s \<Longrightarrow> CHR ''/'' \<notin> set s"
  by (auto simp: validName_def list_all_iff isNameChar_def)

lemma foldR_unit_iff:
  "foldR (\<lambda>_ x. f x) () xs = Inr u \<longleftrightarrow> (\<forall>x \<in> set xs. f x = Inr ())"
  by (induction xs) auto

lemma validateEdges_iff:
  "validateEdges b ns us = Inr u \<longleftrightarrow>
     (\<forall>e \<in> set (bp_Edges b). \<forall>r \<in> {e_From e, e_To e}.
        if pr_Entity r = EntityUse then pr_Node r \<in> us else pr_Node r \<in> ns)"
  unfolding validateEdges_def foldR_unit_iff
  by (auto simp: validateEndpointKnown_def)

end
