(* ===== verification/Graph_Core.thy ===== *)
theory Graph_Core
  imports Blueprint_Types
begin

text \<open>
  The built graph (\<open>internal/graph/build.go\<close>, types \<open>Node\<close> and \<open>Graph\<close>; \<open>internal/module/inspect.go\<close>,
  types \<open>Variable\<close>, \<open>Output\<close>, \<open>Schema\<close>), the well-formedness invariant that \<open>Build\<close> establishes and
  every scheduler relies on (adjacency lists agree with the edge list, edges stay inside the node
  map), and the dependency relation with its strongly connected components.
\<close>

subsection \<open>Module schemas\<close>

text \<open>Values and types of the expression library, as far as declarations carry them.\<close>

datatype cty =
    CDynamic | CString | CNumber | CBool
  | CList cty | CSet cty | CMap cty
  | CTuple "cty list"
  | CObject "(string \<times> cty \<times> bool) list"

datatype ctyval =
    VNull cty
  | VUnknown cty
  | VString string | VNumber string | VBool bool
  | VList cty "ctyval list" | VSet cty "ctyval list" | VMap cty "(string \<times> ctyval) list"
  | VTuple "ctyval list" | VObject "(string \<times> ctyval) list"

record Variable =
  v_Name :: string
  v_Type :: string
  v_Sensitive :: bool
  v_Required :: bool
  v_Nullable :: "bool option"
  v_Default :: "ctyval option"
  v_Ephemeral :: bool
  v_Const :: bool

record Output =
  o_Name :: string
  o_Type :: string
  o_Sensitive :: bool

record Schema =
  sc_RequiresTofuFiles :: bool
  sc_Variables :: "Variable smap"
  sc_Outputs :: "bool smap"
  sc_OutputDetails :: "Output smap"
  sc_Backend :: string
  sc_BackendConfig :: "string smap"
  sc_BackendAttributes :: "bool smap option"
  sc_BackendConfigKnown :: bool

definition HasOutput :: "Schema \<Rightarrow> string \<Rightarrow> bool" where
  "HasOutput s name = (map_of (sc_Outputs s) name = Some True)"

definition HasVariable :: "Schema \<Rightarrow> string \<Rightarrow> bool" where
  "HasVariable s name = hasKey (sc_Variables s) name"

subsection \<open>Nodes and graphs\<close>

record gNode =
  gn_Node :: bpNode
  gn_Schema :: "Schema option"
  gn_ObservationError :: bool
  gn_Dir :: string
  gn_Runtime :: "Runtime option"
  gn_Env :: "string smap"
  gn_Approve :: string

record Graph =
  g_Nodes :: "gNode smap"
  g_Edges :: "Edge list"
  g_Out :: "string \<Rightarrow> string list"
  g_In :: "string \<Rightarrow> string list"
  g_Lock :: "Lock option"
  g_Contracts :: Contracts
  g_ContractMode :: string
  g_Snapshots :: bool

definition emptyGraph :: Graph where
  "emptyGraph =
     \<lparr>g_Nodes = [], g_Edges = [], g_Out = (\<lambda>_. []), g_In = (\<lambda>_. []), g_Lock = None,
      g_Contracts = None, g_ContractMode = '''', g_Snapshots = False\<rparr>"

definition nodeNames :: "Graph \<Rightarrow> string set" where
  "nodeNames g = fst ` set (g_Nodes g)"

text \<open>The three statements that splice one edge into a graph, shared by both loops of \<open>build\<close>.\<close>

definition addEdge :: "Graph \<Rightarrow> Edge \<Rightarrow> Graph" where
  "addEdge g e =
     (let a = pr_Node (e_From e); b = pr_Node (e_To e) in
      g\<lparr>g_Edges := g_Edges g @ [e],
        g_Out := (g_Out g)(a := g_Out g a @ [b]),
        g_In := (g_In g)(b := g_In g b @ [a])\<rparr>)"

subsection \<open>Well-formedness\<close>

definition edgeSrc :: "Edge \<Rightarrow> string" where "edgeSrc e = pr_Node (e_From e)"
definition edgeDst :: "Edge \<Rightarrow> string" where "edgeDst e = pr_Node (e_To e)"

definition adjacent :: "Graph \<Rightarrow> bool" where
  "adjacent g \<longleftrightarrow>
     (\<forall>n. g_Out g n = map edgeDst (filter (\<lambda>e. edgeSrc e = n) (g_Edges g))) \<and>
     (\<forall>n. g_In g n = map edgeSrc (filter (\<lambda>e. edgeDst e = n) (g_Edges g)))"

definition edgesClosed :: "Graph \<Rightarrow> bool" where
  "edgesClosed g \<longleftrightarrow> (\<forall>e \<in> set (g_Edges g). edgeSrc e \<in> nodeNames g \<and> edgeDst e \<in> nodeNames g)"

definition wfGraph :: "Graph \<Rightarrow> bool" where
  "wfGraph g \<longleftrightarrow> distinctKeys (g_Nodes g) \<and> adjacent g \<and> edgesClosed g"

definition depends :: "Graph \<Rightarrow> (string \<times> string) set" where
  "depends g = {(a, b). b \<in> set (g_Out g a)}"

text \<open>A strongly connected component, and when the source calls one cyclic.\<close>

definition isScc :: "(string \<times> string) set \<Rightarrow> string set \<Rightarrow> string set \<Rightarrow> bool" where
  "isScc r V K \<longleftrightarrow> (\<exists>x \<in> V. K = {y. (x, y) \<in> r\<^sup>* \<and> (y, x) \<in> r\<^sup>*})"

definition cyclicSet :: "(string \<times> string) set \<Rightarrow> string set \<Rightarrow> bool" where
  "cyclicSet r K \<longleftrightarrow> (\<exists>x \<in> K. (x, x) \<in> r\<^sup>+)"

subsection \<open>Facts\<close>

lemma addEdge_simps [simp]:
  "g_Nodes (addEdge g e) = g_Nodes g" "g_Edges (addEdge g e) = g_Edges g @ [e]"
  "g_Lock (addEdge g e) = g_Lock g" "g_Contracts (addEdge g e) = g_Contracts g"
  "nodeNames (addEdge g e) = nodeNames g"
  by (simp_all add: addEdge_def Let_def nodeNames_def)

lemma adjacent_empty [simp]: "adjacent emptyGraph"
  by (simp add: adjacent_def emptyGraph_def)

lemma adjacent_addEdge [inv_keep]: "adjacent g \<Longrightarrow> adjacent (addEdge g e)"
  by (auto simp: adjacent_def addEdge_def Let_def edgeSrc_def edgeDst_def)

lemma adjacent_update_nodes [simp]: "adjacent (g\<lparr>g_Nodes := ns\<rparr>) = adjacent g"
  by (simp add: adjacent_def)

lemma adjacent_OutIn: "adjacent g \<Longrightarrow> b \<in> set (g_Out g a) \<longleftrightarrow> a \<in> set (g_In g b)"
  by (auto simp: adjacent_def)

lemma adjacent_Out_iff:
  "adjacent g \<Longrightarrow> b \<in> set (g_Out g a) \<longleftrightarrow> (\<exists>e \<in> set (g_Edges g). edgeSrc e = a \<and> edgeDst e = b)"
  by (auto simp: adjacent_def)

text \<open>The multiplicity of a dependency is the same seen from either end.\<close>

lemma adjacent_count:
  assumes "adjacent g"
  shows "count_list (g_Out g a) b = count_list (g_In g b) a"
proof -
  have "count_list (map edgeDst (filter (\<lambda>e. edgeSrc e = a) es)) b =
        count_list (map edgeSrc (filter (\<lambda>e. edgeDst e = b) es)) a" for es
    by (induction es) auto
  with assms show ?thesis by (simp add: adjacent_def)
qed

lemma wfGraphD [dest]:
  assumes "wfGraph g"
  shows "distinctKeys (g_Nodes g)" "adjacent g" "edgesClosed g"
  using assms by (auto simp: wfGraph_def)

lemma depends_iff: "(a, b) \<in> depends g \<longleftrightarrow> b \<in> set (g_Out g a)"
  by (simp add: depends_def)

lemma wfGraph_depends:
  assumes "wfGraph g" "(a, b) \<in> depends g"
  shows "a \<in> nodeNames g" "b \<in> nodeNames g"
  using wfGraphD [OF assms(1)] assms(2)
  by (auto simp: depends_iff adjacent_Out_iff edgesClosed_def)

lemma wfGraph_reach:
  assumes "wfGraph g" "(a, b) \<in> (depends g)\<^sup>*" "a \<in> nodeNames g"
  shows "b \<in> nodeNames g"
  using assms(2,3) by (induction rule: rtrancl_induct) (auto dest: wfGraph_depends [OF assms(1)])

lemma finite_nodeNames [simp]: "finite (nodeNames g)"
  by (simp add: nodeNames_def)

text \<open>The source's test of a component, more than one node or a self edge, is a cycle through it.\<close>

lemma cyclicSet_scc:
  assumes "x \<in> V" and K: "K = {y. (x, y) \<in> r\<^sup>* \<and> (y, x) \<in> r\<^sup>*}"
  shows "cyclicSet r K \<longleftrightarrow> (\<exists>y \<in> K. y \<noteq> x) \<or> (x, x) \<in> r"
proof
  assume "cyclicSet r K"
  then obtain y where y: "(x, y) \<in> r\<^sup>*" "(y, x) \<in> r\<^sup>*" "(y, y) \<in> r\<^sup>+" by (auto simp: cyclicSet_def K)
  show "(\<exists>y \<in> K. y \<noteq> x) \<or> (x, x) \<in> r"
  proof (cases "y = x")
    case True
    with y(3) obtain z where z: "(x, z) \<in> r" "(z, x) \<in> r\<^sup>*" by (metis tranclD)
    show ?thesis
    proof (cases "z = x")
      case False
      have "z \<in> K" using z by (auto simp: K)
      with False show ?thesis by blast
    qed (use z in blast)
  next
    case False
    with y show ?thesis by (auto simp: K)
  qed
next
  assume "(\<exists>y \<in> K. y \<noteq> x) \<or> (x, x) \<in> r"
  then show "cyclicSet r K"
  proof
    assume "\<exists>y \<in> K. y \<noteq> x"
    then obtain y where "y \<noteq> x" "(x, y) \<in> r\<^sup>*" "(y, x) \<in> r\<^sup>*" by (auto simp: K)
    then have "(x, x) \<in> r\<^sup>+" by (metis rtranclD trancl_rtrancl_trancl)
    then show ?thesis by (auto simp: cyclicSet_def K)
  next
    assume "(x, x) \<in> r"
    then show ?thesis by (auto simp: cyclicSet_def K intro!: bexI [where x = x])
  qed
qed


subsection \<open>A concrete graph\<close>

text \<open>
  A diamond, \<open>network\<close> feeding \<open>cluster\<close> and \<open>database\<close>, both before
  \<open>app\<close>; and the same graph with an edge back to \<open>network\<close>. Both are used to instantiate the
  properties.
\<close>

definition sampleSchema :: "string list \<Rightarrow> string list \<Rightarrow> Schema" where
  "sampleSchema vars outs =
     \<lparr>sc_RequiresTofuFiles = False,
      sc_Variables = map (\<lambda>v. (v, \<lparr>v_Name = v, v_Type = '''', v_Sensitive = False, v_Required = True,
         v_Nullable = None, v_Default = None, v_Ephemeral = False, v_Const = False\<rparr>)) vars,
      sc_Outputs = map (\<lambda>o'. (o', True)) outs, sc_OutputDetails = [], sc_Backend = '''', sc_BackendConfig = [],
      sc_BackendAttributes = None, sc_BackendConfigKnown = True\<rparr>"

definition sampleNode :: "string \<Rightarrow> string list \<Rightarrow> string list \<Rightarrow> string \<times> gNode" where
  "sampleNode name vars outs =
     (name, \<lparr>gn_Node = \<lparr>bn_Inputs = [], bn_Credentials = [], bn_Name = name, bn_Source = ''./'' @ name,
               bn_BackendConfig = [], bn_BackendAddress = None, bn_Vars = [], bn_Runtime = '''', bn_Env = [],
               bn_Approve = ''''\<rparr>,
             gn_Schema = Some (sampleSchema vars outs), gn_ObservationError = False, gn_Dir = ''/bp/'' @ name,
             gn_Runtime = None, gn_Env = [], gn_Approve = ''''\<rparr>)"

definition dataEdge :: "string \<Rightarrow> string \<Rightarrow> string \<Rightarrow> string \<Rightarrow> Edge" where
  "dataEdge a p b q =
     \<lparr>e_From = \<lparr>pr_Entity = EntityNode, pr_Node = a, pr_Kind = PortOutput, pr_Name = p\<rparr>,
      e_To = \<lparr>pr_Entity = EntityNode, pr_Node = b, pr_Kind = PortInput, pr_Name = q\<rparr>\<rparr>"

definition orderEdge :: "string \<Rightarrow> string \<Rightarrow> Edge" where
  "orderEdge a b = \<lparr>e_From = bareRef a, e_To = bareRef b\<rparr>"

definition sampleGraph :: Graph where
  "sampleGraph =
     foldl addEdge
       (emptyGraph\<lparr>g_Nodes := [sampleNode ''network'' [] [''vpc''], sampleNode ''cluster'' [''vpc''] [''host''],
                              sampleNode ''database'' [''vpc''] [], sampleNode ''app'' [''host''] []]\<rparr>)
       [dataEdge ''network'' ''vpc'' ''cluster'' ''vpc'', dataEdge ''network'' ''vpc'' ''database'' ''vpc'',
        dataEdge ''cluster'' ''host'' ''app'' ''host'', orderEdge ''database'' ''app'']"

definition cyclicGraph :: Graph where
  "cyclicGraph = addEdge sampleGraph (orderEdge ''app'' ''network'')"

lemma wfGraph_foldl_addEdge:
  assumes "wfGraph g" "\<forall>e \<in> set es. edgeSrc e \<in> nodeNames g \<and> edgeDst e \<in> nodeNames g"
  shows "wfGraph (foldl addEdge g es)"
  using assms
proof (induction es arbitrary: g)
  case (Cons e es)
  have "wfGraph (addEdge g e)"
    using Cons.prems adjacent_addEdge by (auto simp: wfGraph_def edgesClosed_def)
  then show ?case using Cons by simp
qed simp

lemmas sample_defs = sampleGraph_def cyclicGraph_def sampleNode_def dataEdge_def orderEdge_def bareRef_def
  edgeSrc_def edgeDst_def emptyGraph_def nodeNames_def

lemma wfGraph_no_edges:
  "distinctKeys ns \<Longrightarrow> wfGraph (emptyGraph\<lparr>g_Nodes := ns\<rparr>)"
  by (simp add: wfGraph_def edgesClosed_def emptyGraph_def adjacent_def)

lemma sampleGraph_names: "nodeNames sampleGraph = {''network'', ''cluster'', ''database'', ''app''}"
  by (simp add: sample_defs addEdge_def Let_def)

lemma wf_sampleGraph [simp]: "wfGraph sampleGraph"
  unfolding sampleGraph_def
proof (rule wfGraph_foldl_addEdge)
qed (simp_all add: wfGraph_no_edges distinctKeys_def sampleNode_def nodeNames_def edgeSrc_def edgeDst_def
      dataEdge_def orderEdge_def bareRef_def)

lemma wf_cyclicGraph [simp]: "wfGraph cyclicGraph"
proof -
  have "wfGraph (foldl addEdge sampleGraph [orderEdge ''app'' ''network''])"
    by (rule wfGraph_foldl_addEdge) (simp_all add: sampleGraph_names orderEdge_def bareRef_def edgeSrc_def edgeDst_def)
  then show ?thesis by (simp add: cyclicGraph_def)
qed

end
