(* ===== verification/Tarjan.thy ===== *)
theory Tarjan
  imports Graph_Core
begin

text \<open>
  Cycle detection (\<open>internal/graph/tarjan.go\<close>): Tarjan's algorithm with the maps \<open>indices\<close>,
  \<open>lowlink\<close>, \<open>onStack\<close>, the stack and the list of cyclic components as one state record. The Go
  slice's end is the head of \<open>t_stack\<close>. The recursion \<open>strongConnect\<close> takes fuel, one unit per
  nested call; \<^const>\<open>None\<close> is running out of fuel or popping an empty stack (a Go panic), and the
  correctness theorem shows that neither happens.
\<close>

subsection \<open>The algorithm\<close>

record tstate =
  t_index :: nat
  t_indices :: "string \<Rightarrow> nat option"
  t_lowlink :: "string \<Rightarrow> nat"
  t_onStack :: "string \<Rightarrow> bool"
  t_stack :: "string list"
  t_sccs :: "string list list"

definition t_init :: tstate where
  "t_init = \<lparr>t_index = 0, t_indices = (\<lambda>_. None), t_lowlink = (\<lambda>_. 0), t_onStack = (\<lambda>_. False),
             t_stack = [], t_sccs = []\<rparr>"

definition t_enter :: "string \<Rightarrow> tstate \<Rightarrow> tstate" where
  "t_enter v st =
     st\<lparr>t_indices := (t_indices st)(v \<mapsto> t_index st),
        t_lowlink := (t_lowlink st)(v := t_index st),
        t_index := Suc (t_index st),
        t_stack := v # t_stack st,
        t_onStack := (t_onStack st)(v := True)\<rparr>"

definition t_lower :: "string \<Rightarrow> nat \<Rightarrow> tstate \<Rightarrow> tstate" where
  "t_lower v n st =
     (if n < t_lowlink st v then st\<lparr>t_lowlink := (t_lowlink st)(v := n)\<rparr> else st)"

definition isCyclic :: "(string \<Rightarrow> string list) \<Rightarrow> string list \<Rightarrow> bool" where
  "isCyclic out scc =
     (if length scc > 1 then True
      else (case scc of [] \<Rightarrow> False | n # _ \<Rightarrow> n \<in> set (out n)))"

fun popUntil :: "string \<Rightarrow> string list \<Rightarrow> (string list \<times> string list) option" where
  "popUntil v [] = None"
| "popUntil v (w # ws) =
     (if w = v then Some ([w], ws)
      else (case popUntil v ws of None \<Rightarrow> None | Some (scc, rest) \<Rightarrow> Some (w # scc, rest)))"

definition t_close :: "(string \<Rightarrow> string list) \<Rightarrow> string \<Rightarrow> tstate \<Rightarrow> tstate option" where
  "t_close out v st =
     (case popUntil v (t_stack st) of
        None \<Rightarrow> None
      | Some (scc, rest) \<Rightarrow>
          Some (st\<lparr>t_stack := rest,
                   t_onStack := (\<lambda>w. if w \<in> set scc then False else t_onStack st w),
                   t_sccs := (if isCyclic out scc then t_sccs st @ [sort scc] else t_sccs st)\<rparr>))"

function (sequential) strongConnect ::
    "(string \<Rightarrow> string list) \<Rightarrow> nat \<Rightarrow> string \<Rightarrow> tstate \<Rightarrow> tstate option"
  and visitNext ::
    "(string \<Rightarrow> string list) \<Rightarrow> nat \<Rightarrow> string \<Rightarrow> string list \<Rightarrow> tstate \<Rightarrow> tstate option" where
  "strongConnect out 0 v st = None"
| "strongConnect out (Suc k) v st =
     (case visitNext out k v (sort (out v)) (t_enter v st) of
        None \<Rightarrow> None
      | Some st' \<Rightarrow>
          if Some (t_lowlink st' v) = t_indices st' v then t_close out v st' else Some st')"
| "visitNext out k v [] st = Some st"
| "visitNext out k v (w # ws) st =
     (case t_indices st w of
        None \<Rightarrow>
          (case strongConnect out k w st of
             None \<Rightarrow> None
           | Some st' \<Rightarrow> visitNext out k v ws (t_lower v (t_lowlink st' w) st'))
      | Some i \<Rightarrow>
          visitNext out k v ws (if t_onStack st w then t_lower v i st else st))"
  by pat_completeness auto
termination
  by (relation "measures [\<lambda>x. case x of Inl (_, k, _) \<Rightarrow> k | Inr (_, k, _) \<Rightarrow> k,
                          \<lambda>x. case x of Inl _ \<Rightarrow> 0 | Inr (_, _, _, ws, _) \<Rightarrow> Suc (length ws)]") auto

fun visitAll :: "(string \<Rightarrow> string list) \<Rightarrow> nat \<Rightarrow> string list \<Rightarrow> tstate \<Rightarrow> tstate option" where
  "visitAll out k [] st = Some st"
| "visitAll out k (n # ns) st =
     (case t_indices st n of
        Some _ \<Rightarrow> visitAll out k ns st
      | None \<Rightarrow> (case strongConnect out k n st of
                  None \<Rightarrow> None | Some st' \<Rightarrow> visitAll out k ns st'))"

text \<open>
  The fuel, one unit per node, is enough: every nested call enters a node not entered before.
  \<open>sort.Slice\<close> by first element is \<^const>\<open>sort_key\<close>; components are disjoint, so ties cannot occur.
\<close>

definition FindCycles :: "Graph \<Rightarrow> string list list" where
  "FindCycles g =
     (case visitAll (g_Out g) (length (g_Nodes g)) (sortedKeys (g_Nodes g)) t_init of
        None \<Rightarrow> []
      | Some st \<Rightarrow> sort_key hd (t_sccs st))"

definition FindCycle :: "Graph \<Rightarrow> string list" where
  "FindCycle g = (case FindCycles g of [] \<Rightarrow> [] | c # _ \<Rightarrow> c)"


subsection \<open>The invariant\<close>

text \<open>
  \<open>G\<close> is the set of nodes whose call is still open. The nodes that left the stack are closed under
  successors, the stack is ordered by index and by reachability, every node on it reaches an open
  node below, and the components recorded are exactly the cyclic ones among the nodes that left.
\<close>

definition succs :: "(string \<Rightarrow> string list) \<Rightarrow> (string \<times> string) set" where
  "succs out = {(a, b). b \<in> set (out a)}"

definition vis :: "tstate \<Rightarrow> string set" where
  "vis st = dom (t_indices st)"

definition num :: "tstate \<Rightarrow> string \<Rightarrow> nat" where
  "num st x = the (t_indices st x)"

definition gone :: "tstate \<Rightarrow> string set" where
  "gone st = vis st - set (t_stack st)"

definition stackInv :: "(string \<Rightarrow> string list) \<Rightarrow> string set \<Rightarrow> string set \<Rightarrow> tstate \<Rightarrow> bool" where
  "stackInv out V G st \<longleftrightarrow>
     G \<subseteq> set (t_stack st) \<and> set (t_stack st) \<subseteq> vis st \<and> vis st \<subseteq> V \<and>
     (\<forall>x. t_onStack st x \<longleftrightarrow> x \<in> set (t_stack st)) \<and>
     sorted_wrt (\<lambda>x y. num st y < num st x) (t_stack st) \<and>
     (\<forall>x \<in> vis st. num st x < t_index st)"

definition reachInv :: "(string \<Rightarrow> string list) \<Rightarrow> string set \<Rightarrow> tstate \<Rightarrow> bool" where
  "reachInv out G st \<longleftrightarrow>
     (\<forall>x \<in> vis st - G. set (out x) \<subseteq> vis st) \<and>
     (\<forall>x \<in> gone st. set (out x) \<subseteq> gone st) \<and>
     (\<forall>x \<in> set (t_stack st). \<forall>y \<in> set (t_stack st).
        num st x \<le> num st y \<longrightarrow> (x, y) \<in> (succs out)\<^sup>*) \<and>
     (\<forall>y \<in> set (t_stack st). \<exists>x \<in> G. num st x \<le> num st y \<and> (y, x) \<in> (succs out)\<^sup>*)"

definition sccInv :: "(string \<Rightarrow> string list) \<Rightarrow> string set \<Rightarrow> tstate \<Rightarrow> bool" where
  "sccInv out V st \<longleftrightarrow>
     set ` set (t_sccs st) = {K. K \<subseteq> gone st \<and> isScc (succs out) V K \<and> cyclicSet (succs out) K} \<and>
     (\<forall>c \<in> set (t_sccs st). sorted c \<and> distinct c) \<and> distinct (t_sccs st)"

definition tinv :: "(string \<Rightarrow> string list) \<Rightarrow> string set \<Rightarrow> string set \<Rightarrow> tstate \<Rightarrow> bool" where
  "tinv out V G st \<longleftrightarrow> stackInv out V G st \<and> reachInv out G st \<and> sccInv out V st"

lemmas tinv_defs = tinv_def stackInv_def reachInv_def sccInv_def

text \<open>What one call adds to the state it started from, and what it reports through the lowlink.\<close>

definition texts :: "tstate \<Rightarrow> string list \<Rightarrow> tstate \<Rightarrow> bool" where
  "texts st s st' \<longleftrightarrow>
     t_indices st \<subseteq>\<^sub>m t_indices st' \<and> (\<forall>x \<in> vis st. t_lowlink st' x = t_lowlink st x) \<and>
     t_stack st' = s @ t_stack st \<and> set s \<inter> vis st = {}"

definition crossBound :: "(string \<Rightarrow> string list) \<Rightarrow> string set \<Rightarrow> tstate \<Rightarrow> tstate \<Rightarrow> nat \<Rightarrow> bool" where
  "crossBound out S st0 st l \<longleftrightarrow>
     (\<forall>x \<in> S. \<forall>y \<in> set (out x) \<inter> set (t_stack st0). l \<le> num st y)"

definition callPost ::
    "(string \<Rightarrow> string list) \<Rightarrow> string set \<Rightarrow> string set \<Rightarrow> string \<Rightarrow> tstate \<Rightarrow> tstate \<Rightarrow> bool" where
  "callPost out V G v st st' \<longleftrightarrow>
     tinv out V G st' \<and> t_indices st' v = Some (t_index st) \<and>
     (\<exists>s. texts st s st' \<and> crossBound out (set s) st st' (t_lowlink st' v)) \<and>
     (t_lowlink st' v = num st' v \<or>
      (\<exists>y \<in> set (t_stack st). num st' y = t_lowlink st' v \<and> (v, y) \<in> (succs out)\<^sup>*))"

text \<open>The state inside the loop of \<open>v\<close>'s call, with \<open>ws\<close> still to visit.\<close>

definition loopInv ::
    "(string \<Rightarrow> string list) \<Rightarrow> string set \<Rightarrow> string set \<Rightarrow> string \<Rightarrow> tstate \<Rightarrow> string list \<Rightarrow> tstate \<Rightarrow> bool"
  where
  "loopInv out V G v st0 ws st \<longleftrightarrow>
     tinv out V (insert v G) st \<and> t_indices st v = Some (t_index st0) \<and>
     t_indices st0 \<subseteq>\<^sub>m t_indices st \<and> (\<forall>x \<in> vis st0. t_lowlink st x = t_lowlink st0 x) \<and>
     (\<exists>s. t_stack st = s @ v # t_stack st0 \<and> set s \<inter> vis st0 = {} \<and>
          crossBound out (set s) st0 st (t_lowlink st v)) \<and>
     t_lowlink st v \<le> num st v \<and>
     (\<exists>y \<in> set (t_stack st). num st y = t_lowlink st v \<and> (v, y) \<in> (succs out)\<^sup>*) \<and>
     (\<forall>w \<in> set (out v) - set ws. w \<in> vis st \<and> (w \<in> set (t_stack st0) \<longrightarrow> t_lowlink st v \<le> num st w))"

subsection \<open>The steps keep the invariant\<close>

lemma tinv_lower [simp]: "tinv out V G (t_lower v n st) = tinv out V G st"
  by (simp add: tinv_defs t_lower_def vis_def num_def gone_def)

lemma t_lower_simps [simp]:
  "t_indices (t_lower v n st) = t_indices st" "t_stack (t_lower v n st) = t_stack st"
  "vis (t_lower v n st) = vis st" "num (t_lower v n st) = num st"
  "t_lowlink (t_lower v n st) v = min n (t_lowlink st v)"
  "x \<noteq> v \<Longrightarrow> t_lowlink (t_lower v n st) x = t_lowlink st x"
  by (auto simp: t_lower_def vis_def num_def fun_eq_iff)

lemma num_mono: "t_indices st \<subseteq>\<^sub>m t_indices st' \<Longrightarrow> x \<in> vis st \<Longrightarrow> num st' x = num st x"
  by (auto simp: vis_def num_def map_le_def)

lemma vis_mono: "t_indices st \<subseteq>\<^sub>m t_indices st' \<Longrightarrow> vis st \<subseteq> vis st'"
  by (auto simp: vis_def dest: map_le_implies_dom_le)

lemma tinv_stackD:
  assumes "tinv out V G st"
  shows "G \<subseteq> set (t_stack st)" "set (t_stack st) \<subseteq> vis st" "vis st \<subseteq> V"
    "t_onStack st x \<longleftrightarrow> x \<in> set (t_stack st)"
    "sorted_wrt (\<lambda>x y. num st y < num st x) (t_stack st)"
    "x \<in> vis st \<Longrightarrow> num st x < t_index st"
  using assms by (auto simp: tinv_def stackInv_def)

lemma tinv_reachD:
  assumes "tinv out V G st"
  shows "x \<in> vis st \<Longrightarrow> x \<notin> G \<Longrightarrow> set (out x) \<subseteq> vis st"
    "x \<in> gone st \<Longrightarrow> set (out x) \<subseteq> gone st"
    "x \<in> set (t_stack st) \<Longrightarrow> y \<in> set (t_stack st) \<Longrightarrow> num st x \<le> num st y
       \<Longrightarrow> (x, y) \<in> (succs out)\<^sup>*"
    "y \<in> set (t_stack st) \<Longrightarrow> \<exists>x \<in> G. num st x \<le> num st y \<and> (y, x) \<in> (succs out)\<^sup>*"
  using assms unfolding tinv_def reachInv_def by blast+

lemma sorted_wrt_num_distinct:
  "sorted_wrt (\<lambda>x y. num st y < num st x) xs \<Longrightarrow> distinct xs"
  by (induction xs) auto

lemma tinv_enter:
  assumes inv: "tinv out V G st" and v: "v \<notin> vis st" "v \<in> V"
    and G: "\<forall>g \<in> G. (g, v) \<in> (succs out)\<^sup>*"
  shows "tinv out V (insert v G) (t_enter v st)"
proof -
  note d = tinv_stackD [OF inv] and r = tinv_reachD [OF inv]
  have nv: "v \<notin> set (t_stack st)" "v \<notin> G" using v d(1,2) by auto
  have vis': "vis (t_enter v st) = insert v (vis st)" by (auto simp: vis_def t_enter_def)
  have num': "num (t_enter v st) v = t_index st" "\<And>x. x \<in> vis st \<Longrightarrow> num (t_enter v st) x = num st x"
    using v by (auto simp: num_def t_enter_def vis_def)
  have stk: "t_stack (t_enter v st) = v # t_stack st" by (simp add: t_enter_def)
  have gone': "gone (t_enter v st) = gone st" using v by (auto simp: gone_def vis' stk)
  have numS: "\<And>x. x \<in> set (t_stack st) \<Longrightarrow> num (t_enter v st) x = num st x \<and> num st x < t_index st"
    using num'(2) d(2,6) by auto
  have "sorted_wrt (\<lambda>x y. num (t_enter v st) y < num (t_enter v st) x) (t_stack st)"
    using d(5) by (rule sorted_wrt_mono_rel [rotated]) (simp add: numS)
  then have "stackInv out V (insert v G) (t_enter v st)"
    using d(1-4) v(2) numS num' unfolding stackInv_def stk vis'
    by (auto simp: t_enter_def intro: less_SucI d(6))
  moreover have "reachInv out (insert v G) (t_enter v st)"
    unfolding reachInv_def stk vis' gone'
  proof (intro conjI ballI impI)
    fix x y assume "x \<in> set (v # t_stack st)" "y \<in> set (v # t_stack st)"
      and le: "num (t_enter v st) x \<le> num (t_enter v st) y"
    then consider "x = y" | "x \<in> set (t_stack st)" "y \<in> set (t_stack st)"
      | "x = v" "y \<in> set (t_stack st)" | "x \<in> set (t_stack st)" "y = v" by auto
    then show "(x, y) \<in> (succs out)\<^sup>*"
    proof cases
      case 2 then show ?thesis using r(3) numS le by simp
    next
      case 3 then show ?thesis using numS num'(1) le by (metis leD)
    next
      case 4 then show ?thesis using r(4) G by (meson rtrancl_trans)
    qed simp
  next
    fix y assume y: "y \<in> set (v # t_stack st)"
    show "\<exists>x \<in> insert v G. num (t_enter v st) x \<le> num (t_enter v st) y \<and> (y, x) \<in> (succs out)\<^sup>*"
    proof (cases "y = v")
      case False
      then obtain x where "x \<in> G" "num st x \<le> num st y" "(y, x) \<in> (succs out)\<^sup>*" "y \<in> set (t_stack st)"
        using y r(4) by auto
      moreover then have "x \<in> set (t_stack st)" using d(1) by blast
      ultimately show ?thesis using numS by (metis insertI2)
    qed simp
  qed (use r in auto)
  moreover have "sccInv out V (t_enter v st)"
    using inv unfolding tinv_def sccInv_def gone' by (simp add: t_enter_def)
  ultimately show ?thesis by (simp add: tinv_def)
qed

lemma loopInv_enter:
  assumes inv: "tinv out V G st" and v: "v \<notin> vis st" "v \<in> V"
    and G: "\<forall>g \<in> G. (g, v) \<in> (succs out)\<^sup>*"
  shows "loopInv out V G v st (sort (out v)) (t_enter v st)"
proof -
  have "t_indices st \<subseteq>\<^sub>m t_indices (t_enter v st)" "\<forall>x \<in> vis st. t_lowlink (t_enter v st) x = t_lowlink st x"
    using v by (auto simp: t_enter_def map_le_def vis_def)
  moreover have "\<exists>s. t_stack (t_enter v st) = s @ v # t_stack st \<and> set s \<inter> vis st = {} \<and>
          crossBound out (set s) st (t_enter v st) (t_lowlink (t_enter v st) v)"
    by (rule exI [where x = "[]"]) (simp add: t_enter_def crossBound_def)
  moreover have "t_indices (t_enter v st) v = Some (t_index st)" "t_lowlink (t_enter v st) v = t_index st"
    "v \<in> set (t_stack (t_enter v st))"
    by (simp_all add: t_enter_def)
  moreover then have "num (t_enter v st) v = t_lowlink (t_enter v st) v" by (simp add: num_def)
  ultimately show ?thesis
    using tinv_enter [OF assms] unfolding loopInv_def by auto
qed

lemma loopInvD:
  assumes "loopInv out V G v st0 ws st"
  shows "tinv out V (insert v G) st" "t_indices st v = Some (t_index st0)" "v \<in> vis st"
    "num st v = t_index st0" "t_indices st0 \<subseteq>\<^sub>m t_indices st"
    "x \<in> vis st0 \<Longrightarrow> t_lowlink st x = t_lowlink st0 x"
    "\<exists>s. t_stack st = s @ v # t_stack st0 \<and> set s \<inter> vis st0 = {} \<and>
          crossBound out (set s) st0 st (t_lowlink st v)"
    "t_lowlink st v \<le> num st v"
    "\<exists>y \<in> set (t_stack st). num st y = t_lowlink st v \<and> (v, y) \<in> (succs out)\<^sup>*"
    "w \<in> set (out v) \<Longrightarrow> w \<notin> set ws \<Longrightarrow> w \<in> vis st"
    "w \<in> set (out v) \<Longrightarrow> w \<notin> set ws \<Longrightarrow> w \<in> set (t_stack st0) \<Longrightarrow> t_lowlink st v \<le> num st w"
  using assms unfolding loopInv_def by (auto simp: vis_def num_def)

lemma crossBound_le: "crossBound out S st0 st l \<Longrightarrow> l' \<le> l \<Longrightarrow> crossBound out S st0 st l'"
  unfolding crossBound_def using le_trans by blast

lemma loopInv_seen:
  assumes L: "loopInv out V G v st0 (w # ws) st" and v: "v \<notin> vis st0" and st0: "set (t_stack st0) \<subseteq> vis st0"
    and w: "w \<in> set (out v)" "t_indices st w = Some i"
  shows "loopInv out V G v st0 ws (if t_onStack st w then t_lower v i st else st)"
proof -
  note l = loopInvD [OF L]
  let ?st = "if t_onStack st w then t_lower v i st else st"
  have i: "num st w = i" "w \<in> vis st" using w by (auto simp: num_def vis_def)
  have on: "t_onStack st w \<longleftrightarrow> w \<in> set (t_stack st)" using tinv_stackD(4) [OF l(1)] .
  obtain s where s: "t_stack st = s @ v # t_stack st0" "set s \<inter> vis st0 = {}"
    "crossBound out (set s) st0 st (t_lowlink st v)" using l(7) by blast
  have same: "vis ?st = vis st" "num ?st = num st" "t_indices ?st = t_indices st" "t_stack ?st = t_stack st"
    "tinv out V (insert v G) ?st" using l(1) by simp_all
  have low: "t_lowlink ?st v = (if w \<in> set (t_stack st) then min i (t_lowlink st v) else t_lowlink st v)"
    by (simp add: on)
  then have le: "t_lowlink ?st v \<le> t_lowlink st v" by simp
  have "\<exists>y \<in> set (t_stack st). num st y = t_lowlink ?st v \<and> (v, y) \<in> (succs out)\<^sup>*"
  proof (cases "w \<in> set (t_stack st) \<and> i < t_lowlink st v")
    case True
    moreover have "(v, w) \<in> (succs out)\<^sup>*" using w(1) by (auto simp: succs_def)
    ultimately show ?thesis using i low by (intro bexI [where x = w]) auto
  next
    case False
    then show ?thesis using l(9) low by (auto simp: min_def)
  qed
  moreover have "crossBound out (set s) st0 ?st (t_lowlink ?st v)"
    using crossBound_le [OF s(3) le] by (simp add: crossBound_def same)
  moreover have "\<forall>u \<in> set (out v) - set ws. u \<in> vis st \<and> (u \<in> set (t_stack st0) \<longrightarrow> t_lowlink ?st v \<le> num st u)"
  proof (intro ballI conjI impI)
    fix u assume u: "u \<in> set (out v) - set ws"
    then show "u \<in> vis st" using l(10) i(2) by auto
    assume "u \<in> set (t_stack st0)"
    then show "t_lowlink ?st v \<le> num st u"
      using u l(11) [of u] le low i(1) s(1) by (cases "u = w") auto
  qed
  moreover have "\<forall>x \<in> vis st0. t_lowlink ?st x = t_lowlink st0 x"
    using l(6) v by (auto simp: t_lower_def)
  ultimately show ?thesis
    unfolding loopInv_def same using l(2,5,8) s le same(5) by auto
qed

lemma loopInv_call:
  assumes L: "loopInv out V G v st0 (w # ws) st" and v: "v \<notin> vis st0" and st0: "set (t_stack st0) \<subseteq> vis st0"
    and w: "w \<in> set (out v)" "w \<notin> vis st"
    and post: "callPost out V (insert v G) w st st'"
  shows "loopInv out V G v st0 ws (t_lower v (t_lowlink st' w) st')"
proof -
  note l = loopInvD [OF L]
  let ?st = "t_lower v (t_lowlink st' w) st'"
  obtain s' where s': "texts st s' st'" "crossBound out (set s') st st' (t_lowlink st' w)"
    and p: "tinv out V (insert v G) st'" "t_indices st' w = Some (t_index st)"
    using post unfolding callPost_def by blast
  have ext: "t_indices st \<subseteq>\<^sub>m t_indices st'" "\<And>x. x \<in> vis st \<Longrightarrow> t_lowlink st' x = t_lowlink st x"
    "t_stack st' = s' @ t_stack st" "set s' \<inter> vis st = {}" using s'(1) by (auto simp: texts_def)
  have vv: "vis st0 \<subseteq> vis st" "vis st \<subseteq> vis st'" using l(5) ext(1) by (auto dest: vis_mono)
  have nm: "\<And>x. x \<in> vis st \<Longrightarrow> num st' x = num st x" using num_mono [OF ext(1)] .
  have stv: "set (t_stack st) \<subseteq> vis st" using tinv_stackD(2) [OF l(1)] .
  obtain s where s: "t_stack st = s @ v # t_stack st0" "set s \<inter> vis st0 = {}"
    "crossBound out (set s) st0 st (t_lowlink st v)" using l(7) by blast
  have low: "t_lowlink ?st v = min (t_lowlink st' w) (t_lowlink st v)" using ext(2) l(3) by simp
  have wit: "\<exists>y \<in> set (t_stack st'). num st' y = t_lowlink ?st v \<and> (v, y) \<in> (succs out)\<^sup>*"
  proof (cases "t_lowlink st' w < t_lowlink st v")
    case True
    have "num st' w = t_index st" using p(2) by (simp add: num_def)
    then have "t_lowlink st' w \<noteq> num st' w" using True l(8) tinv_stackD(6) [OF l(1) l(3)] by simp
    then obtain y where "y \<in> set (t_stack st)" "num st' y = t_lowlink st' w" "(w, y) \<in> (succs out)\<^sup>*"
      using post unfolding callPost_def by blast
    moreover have "(v, w) \<in> succs out" using w(1) by (simp add: succs_def)
    ultimately show ?thesis using True low ext(3) by (intro bexI [where x = y]) auto
  next
    case False
    obtain y where "y \<in> set (t_stack st)" "num st y = t_lowlink st v" "(v, y) \<in> (succs out)\<^sup>*"
      using l(9) by blast
    then show ?thesis using False low ext(3) nm stv by (intro bexI [where x = y]) (auto simp: min_def)
  qed
  have cross: "crossBound out (set (s' @ s)) st0 ?st (t_lowlink ?st v)"
    unfolding crossBound_def
  proof (intro ballI)
    fix x y assume x: "x \<in> set (s' @ s)" and y: "y \<in> set (out x) \<inter> set (t_stack st0)"
    then have y': "y \<in> set (t_stack st)" "y \<in> vis st" using s(1) stv by auto
    from x consider "x \<in> set s'" | "x \<in> set s" by auto
    then show "t_lowlink ?st v \<le> num ?st y"
    proof cases
      case 1
      then have "t_lowlink st' w \<le> num st' y" using s'(2) y y' unfolding crossBound_def by blast
      then show ?thesis using low by simp
    next
      case 2
      then have "t_lowlink st v \<le> num st y" using s(3) y unfolding crossBound_def by blast
      then show ?thesis using y' nm low by simp
    qed
  qed
  have processed: "\<forall>u \<in> set (out v) - set ws. u \<in> vis st' \<and> (u \<in> set (t_stack st0) \<longrightarrow> t_lowlink ?st v \<le> num st' u)"
  proof (intro ballI conjI impI)
    fix u assume u: "u \<in> set (out v) - set ws"
    show "u \<in> vis st'"
      using u l(10) [of u] p(2) vv by (cases "u = w") (auto simp: vis_def)
    assume u0: "u \<in> set (t_stack st0)"
    then have "u \<in> vis st" "u \<noteq> w" using st0 vv w(2) by auto
    then show "t_lowlink ?st v \<le> num st' u" using u u0 l(11) [of u] nm low by auto
  qed
  have "num st' v = num st v" "t_indices st' v = t_indices st v"
    using nm [OF l(3)] ext(1) l(2,3) by (auto simp: map_le_def vis_def)
  moreover have "\<forall>x \<in> vis st0. t_lowlink ?st x = t_lowlink st0 x"
    using l(6) ext(2) vv v by (metis subsetD t_lower_simps(6))
  moreover have "t_indices st0 \<subseteq>\<^sub>m t_indices st'" using l(5) ext(1) by (rule map_le_trans)
  moreover have "t_stack st' = (s' @ s) @ v # t_stack st0" "set (s' @ s) \<inter> vis st0 = {}"
    using ext(3,4) s vv by auto
  ultimately show ?thesis
    unfolding loopInv_def using p(1) l(2,8) wit cross processed low
    by (intro conjI) (auto simp del: set_append append_assoc)
qed

subsection \<open>Leaving a call\<close>

lemma popUntil_split: "v \<notin> set s \<Longrightarrow> popUntil v (s @ v # rest) = Some (s @ [v], rest)"
  by (induction s) auto

lemma loopInv_stay:
  assumes L: "loopInv out V G v st0 [] st" and v: "v \<notin> vis st0" and inv0: "tinv out V G st0"
    and low: "t_lowlink st v \<noteq> num st v"
  shows "callPost out V G v st0 st"
proof -
  note l = loopInvD [OF L] and d = tinv_stackD [OF loopInvD(1) [OF L]] and r = tinv_reachD [OF loopInvD(1) [OF L]]
  obtain s where s: "t_stack st = s @ v # t_stack st0" "set s \<inter> vis st0 = {}"
    "crossBound out (set s) st0 st (t_lowlink st v)" using l(7) by blast
  obtain y where y: "y \<in> set (t_stack st)" "num st y = t_lowlink st v" "(v, y) \<in> (succs out)\<^sup>*"
    using l(9) by blast
  have "num st y < num st v" using y(2) l(8) low by simp
  then have y0: "y \<in> set (t_stack st0)" using y(1) d(5) s(1) by (auto simp: sorted_wrt_append)
  obtain g where g: "g \<in> G" "num st g \<le> num st y" "(y, g) \<in> (succs out)\<^sup>*"
    using r(4) [OF y(1)] \<open>num st y < num st v\<close> by auto
  have "reachInv out G st"
    unfolding reachInv_def
  proof (intro conjI ballI impI)
    fix x assume "x \<in> vis st - G"
    then show "set (out x) \<subseteq> vis st" using r(1) [of x] l(10) by (cases "x = v") auto
  next
    fix z assume z: "z \<in> set (t_stack st)"
    then obtain x where x: "x \<in> insert v G" "num st x \<le> num st z" "(z, x) \<in> (succs out)\<^sup>*"
      using r(4) by blast
    show "\<exists>x \<in> G. num st x \<le> num st z \<and> (z, x) \<in> (succs out)\<^sup>*"
    proof (cases "x = v")
      case True
      have "(z, g) \<in> (succs out)\<^sup>*" using x(3) y(3) g(3) True by (meson rtrancl_trans)
      moreover have "num st g \<le> num st z" using g(2) x(2) True \<open>num st y < num st v\<close> by simp
      ultimately show ?thesis using g(1) by blast
    qed (use x in blast)
  qed (use r in auto)
  moreover have "stackInv out V G st" "sccInv out V st"
    using l(1) by (auto simp: tinv_def stackInv_def)
  moreover have "texts st0 (s @ [v]) st"
    unfolding texts_def using l(5,6) s(1,2) v by auto
  moreover have "crossBound out (set (s @ [v])) st0 st (t_lowlink st v)"
    using s(3) l(11) by (auto simp: crossBound_def)
  ultimately show ?thesis
    unfolding callPost_def tinv_def using l(2) y y0 by blast
qed

text \<open>When \<open>v\<close> is the root of its component, the nodes above it on the stack are that component.\<close>

lemma loopInv_component:
  assumes L: "loopInv out V G v st0 [] st" and low: "t_lowlink st v = num st v"
    and s: "t_stack st = s @ v # t_stack st0" "crossBound out (set s) st0 st (t_lowlink st v)" "set s \<inter> G = {}"
  shows "{y. (v, y) \<in> (succs out)\<^sup>* \<and> (y, v) \<in> (succs out)\<^sup>*} = insert v (set s)"
    and "\<forall>x \<in> gone st \<union> insert v (set s). set (out x) \<subseteq> gone st \<union> insert v (set s)"
proof -
  note l = loopInvD [OF L] and d = tinv_stackD [OF loopInvD(1) [OF L]] and r = tinv_reachD [OF loopInvD(1) [OF L]]
  let ?K = "insert v (set s)"
  have below: "\<And>y. y \<in> set (t_stack st0) \<Longrightarrow> num st y < num st v"
    and above: "\<And>x. x \<in> set s \<Longrightarrow> num st v < num st x"
    using d(5) s(1) by (auto simp: sorted_wrt_append)
  have K: "?K \<subseteq> set (t_stack st)" using s(1) by auto
  show closed: "\<forall>x \<in> gone st \<union> ?K. set (out x) \<subseteq> gone st \<union> ?K"
  proof
    fix x assume x: "x \<in> gone st \<union> ?K"
    show "set (out x) \<subseteq> gone st \<union> ?K"
    proof (cases "x \<in> gone st")
      case False
      with x have xK: "x \<in> ?K" by simp
      show ?thesis
      proof
        fix y assume y: "y \<in> set (out x)"
        have "y \<notin> set (t_stack st0)"
          using xK y s(2) l(11) [of y] below [of y] low unfolding crossBound_def by force
        moreover have "y \<in> vis st"
          using xK y l(10) [of y] r(1) [of x] s(3) K d(2) above by (cases "x = v") auto
        ultimately show "y \<in> gone st \<union> ?K" using s(1) by (auto simp: gone_def)
      qed
    qed (use r(2) in blast)
  qed
  have stays: "z \<in> gone st \<union> ?K" if "(v, z) \<in> (succs out)\<^sup>*" for z
    using that
  proof (induction rule: rtrancl_induct)
    case (step y z)
    then show ?case using closed by (auto simp: succs_def)
  qed simp
  have left: "z \<in> gone st" if "(y, z) \<in> (succs out)\<^sup>*" "y \<in> gone st" for y z
    using that
  proof (induction rule: rtrancl_induct)
    case (step a b)
    then show ?case using r(2) by (auto simp: succs_def)
  qed simp
  have up: "(v, x) \<in> (succs out)\<^sup>*" if "x \<in> set s" for x
    using r(3) [of v x] that K above [OF that] by auto
  have down: "(x, v) \<in> (succs out)\<^sup>*" if x: "x \<in> set s" for x
  proof -
    obtain g where g: "g \<in> insert v G" "(x, g) \<in> (succs out)\<^sup>*" using r(4) [of x] x K by auto
    have "g \<in> set (t_stack st)" "g = v \<or> g \<in> set (t_stack st0)" using g(1) d(1) s(1,3) by auto
    then have "(g, v) \<in> (succs out)\<^sup>*" using r(3) [of g v] below [of g] K by auto
    with g(2) show ?thesis by (rule rtrancl_trans)
  qed
  show "{y. (v, y) \<in> (succs out)\<^sup>* \<and> (y, v) \<in> (succs out)\<^sup>*} = ?K"
  proof (intro equalityI subsetI)
    fix y assume "y \<in> {y. (v, y) \<in> (succs out)\<^sup>* \<and> (y, v) \<in> (succs out)\<^sup>*}"
    moreover have "v \<notin> gone st" using K by (simp add: gone_def)
    ultimately show "y \<in> ?K" using stays left by blast
  qed (use up down in auto)
qed

lemma isCyclic_iff:
  assumes "set c = {y. (x, y) \<in> (succs out)\<^sup>* \<and> (y, x) \<in> (succs out)\<^sup>*}" "x \<in> V" "distinct c"
  shows "isCyclic out c \<longleftrightarrow> cyclicSet (succs out) (set c)"
proof -
  have x: "x \<in> set c" using assms(1) by simp
  have "cyclicSet (succs out) (set c) \<longleftrightarrow> (\<exists>y \<in> set c. y \<noteq> x) \<or> (x, x) \<in> succs out"
    by (rule cyclicSet_scc [OF assms(2,1)])
  moreover have "(\<exists>y \<in> set c. y \<noteq> x) \<longleftrightarrow> 1 < length c"
    using assms(3) x by (cases c; cases "tl c") auto
  moreover have "c = [x]" if "\<not> 1 < length c"
    using x that by (cases c) auto
  ultimately show ?thesis by (auto simp: isCyclic_def succs_def split: list.splits)
qed

lemma isScc_member:
  assumes "isScc r V K" "x \<in> K"
  shows "K = {y. (x, y) \<in> r\<^sup>* \<and> (y, x) \<in> r\<^sup>*}"
  using assms unfolding isScc_def by (blast intro: rtrancl_trans)

lemma sccInv_add:
  assumes inv: "sccInv out V st" and closed: "\<forall>x \<in> gone st. set (out x) \<subseteq> gone st"
    and c: "set c = {y. (v, y) \<in> (succs out)\<^sup>* \<and> (y, v) \<in> (succs out)\<^sup>*}" "distinct c" "set c \<inter> gone st = {}"
    and v: "v \<in> V" and gone': "gone st' = gone st \<union> set c"
    and sccs': "t_sccs st' = (if isCyclic out c then t_sccs st @ [sort c] else t_sccs st)"
  shows "sccInv out V st'"
proof -
  let ?P = "\<lambda>K. isScc (succs out) V K \<and> cyclicSet (succs out) K"
  have old: "set ` set (t_sccs st) = {K. K \<subseteq> gone st \<and> ?P K}"
    "\<forall>c \<in> set (t_sccs st). sorted c \<and> distinct c" "distinct (t_sccs st)"
    using inv by (auto simp: sccInv_def)
  have cyc: "isCyclic out c \<longleftrightarrow> cyclicSet (succs out) (set c)" by (rule isCyclic_iff [OF c(1) v c(2)])
  have scc: "isScc (succs out) V (set c)" unfolding isScc_def using v c(1) by blast
  have left: "z \<in> gone st" if "(y, z) \<in> (succs out)\<^sup>*" "y \<in> gone st" for y z
    using that
  proof (induction rule: rtrancl_induct)
    case (step a b)
    then show ?case using closed by (auto simp: succs_def)
  qed simp
  have split: "K \<subseteq> gone st \<or> K = set c" if K: "K \<subseteq> gone st \<union> set c" "isScc (succs out) V K" for K
  proof -
    obtain x where x: "x \<in> K" using K(2) by (auto simp: isScc_def)
    note Kx = isScc_member [OF K(2) x]
    show ?thesis
    proof (cases "x \<in> gone st")
      case True then show ?thesis using Kx left by blast
    next
      case False
      then have "x \<in> set c" using K(1) x by blast
      then show ?thesis using Kx isScc_member [OF scc] by blast
    qed
  qed
  have "sort c \<notin> set (t_sccs st)"
  proof
    assume "sort c \<in> set (t_sccs st)"
    then have "set (sort c) \<subseteq> gone st" using old(1) by blast
    moreover have "v \<in> set c" using c(1) by simp
    ultimately show False using c(3) by auto
  qed
  moreover have "{K. K \<subseteq> gone st \<union> set c \<and> ?P K} =
      {K. K \<subseteq> gone st \<and> ?P K} \<union> (if isCyclic out c then {set c} else {})"
    using split scc cyc by auto
  ultimately show ?thesis
    unfolding sccInv_def gone' sccs' using old c(2) by auto
qed

lemma loopInv_close:
  assumes L: "loopInv out V G v st0 [] st" and v: "v \<notin> vis st0" and inv0: "tinv out V G st0"
    and low: "t_lowlink st v = num st v"
  shows "\<exists>st'. t_close out v st = Some st' \<and> callPost out V G v st0 st'"
proof -
  note l = loopInvD [OF L] and d = tinv_stackD [OF loopInvD(1) [OF L]] and r = tinv_reachD [OF loopInvD(1) [OF L]]
  note d0 = tinv_stackD [OF inv0]
  obtain s where s: "t_stack st = s @ v # t_stack st0" "set s \<inter> vis st0 = {}"
    "crossBound out (set s) st0 st (t_lowlink st v)" using l(7) by blast
  have G0: "G \<subseteq> vis st0" using d0(1,2) by blast
  have sG: "set s \<inter> G = {}" using s(2) G0 by blast
  note comp = loopInv_component [OF L low s(1,3) sG]
  have dst: "distinct (t_stack st)" using sorted_wrt_num_distinct [OF d(5)] .
  let ?c = "s @ [v]" and ?K = "insert v (set s)"
  have setc: "set ?c = ?K" by auto
  define st' where "st' = st\<lparr>t_stack := t_stack st0,
                   t_onStack := (\<lambda>w. if w \<in> set ?c then False else t_onStack st w),
                   t_sccs := (if isCyclic out ?c then t_sccs st @ [sort ?c] else t_sccs st)\<rparr>"
  have "v \<notin> set s" using dst s(1) by auto
  then have cl: "t_close out v st = Some st'"
    by (simp add: t_close_def s(1) popUntil_split st'_def)
  have same: "vis st' = vis st" "num st' = num st" "t_indices st' = t_indices st" "t_stack st' = t_stack st0"
    "t_lowlink st' = t_lowlink st" "t_index st' = t_index st"
    by (auto simp: st'_def vis_def num_def fun_eq_iff)
  have gone': "gone st' = gone st \<union> ?K"
    using dst d(2) s(1) by (auto simp: gone_def same)
  have below: "\<And>y. y \<in> set (t_stack st0) \<Longrightarrow> num st y < num st v"
    using d(5) s(1) by (auto simp: sorted_wrt_append)
  have "stackInv out V G st'"
    unfolding stackInv_def same using d0(1) d s(1) dst
    by (auto simp: st'_def sorted_wrt_append)
  moreover have "reachInv out G st'"
    unfolding reachInv_def same gone'
  proof (intro conjI ballI impI)
    fix x assume "x \<in> vis st - G"
    then show "set (out x) \<subseteq> vis st" using r(1) [of x] l(10) by (cases "x = v") auto
  next
    fix y assume "y \<in> set (t_stack st0)"
    then show "\<exists>x \<in> G. num st x \<le> num st y \<and> (y, x) \<in> (succs out)\<^sup>*"
      using r(4) [of y] below [of y] s(1) by fastforce
  qed (use comp(2) r(3) s(1) in auto)
  moreover have "sccInv out V st'"
  proof (rule sccInv_add)
    show "sccInv out V st" using l(1) by (simp add: tinv_def)
    show "\<forall>x \<in> gone st. set (out x) \<subseteq> gone st" using r(2) by blast
    show "set ?c = {y. (v, y) \<in> (succs out)\<^sup>* \<and> (y, v) \<in> (succs out)\<^sup>*}" using comp(1) setc by simp
    show "distinct ?c" using dst s(1) by auto
    show "set ?c \<inter> gone st = {}" using s(1) by (auto simp: gone_def)
    show "v \<in> V" using l(3) d(3) by blast
    show "gone st' = gone st \<union> set ?c" using gone' setc by simp
    show "t_sccs st' = (if isCyclic out ?c then t_sccs st @ [sort ?c] else t_sccs st)"
      by (simp add: st'_def)
  qed
  moreover have "texts st0 [] st'"
    unfolding texts_def same using l(5,6) by auto
  ultimately have "callPost out V G v st0 st'"
    unfolding callPost_def tinv_def using l(2) low by (auto simp: same crossBound_def)
  with cl show ?thesis by blast
qed

subsection \<open>Total correctness\<close>

lemma callPostD:
  assumes "callPost out V G v st st'"
  shows "tinv out V G st'" "vis st \<subseteq> vis st'" "v \<in> vis st'"
proof -
  have "t_indices st \<subseteq>\<^sub>m t_indices st'" using assms by (auto simp: callPost_def texts_def)
  then show "vis st \<subseteq> vis st'" by (rule vis_mono)
qed (use assms in \<open>auto simp: callPost_def vis_def\<close>)

text \<open>Enough fuel gives a result, and the result meets the contract of the call.\<close>

lemma strongConnect_visitNext_total:
  assumes fin: "finite V" and closed: "\<forall>x \<in> V. set (out x) \<subseteq> V"
  shows "tinv out V G st \<Longrightarrow> v \<notin> vis st \<Longrightarrow> v \<in> V \<Longrightarrow> \<forall>g \<in> G. (g, v) \<in> (succs out)\<^sup>* \<Longrightarrow>
         card (V - vis st) \<le> k \<Longrightarrow>
         \<exists>st'. strongConnect out k v st = Some st' \<and> callPost out V G v st st'"
    and "loopInv out V G v st0 ws st \<Longrightarrow> v \<notin> vis st0 \<Longrightarrow> tinv out V G st0 \<Longrightarrow> set ws \<subseteq> set (out v) \<Longrightarrow>
         v \<in> V \<Longrightarrow> \<forall>g \<in> G. (g, v) \<in> (succs out)\<^sup>* \<Longrightarrow> card (V - vis st) \<le> k \<Longrightarrow>
         \<exists>st'. visitNext out k v ws st = Some st' \<and> loopInv out V G v st0 [] st'"
  using closed
proof (induction out k v st and out k v ws st arbitrary: G and G st0 rule: strongConnect_visitNext.induct)
  case (1 out v st)
  have "v \<in> V - vis st" using 1 by blast
  then show ?case using 1 fin by (metis card_gt_0_iff empty_iff finite_Diff leD)
next
  case (2 out k v st)
  have vis': "vis (t_enter v st) = insert v (vis st)" by (auto simp: vis_def t_enter_def)
  have "card (V - vis (t_enter v st)) < card (V - vis st)"
    using 2 fin unfolding vis' by (intro psubset_card_mono) auto
  then have "card (V - vis (t_enter v st)) \<le> k" using 2 by simp
  then obtain st' where st': "visitNext out k v (sort (out v)) (t_enter v st) = Some st'"
    "loopInv out V G v st [] st'"
    using 2 loopInv_enter [of out V G st v] by (metis order_refl set_sort)
  have num: "t_indices st' v = Some (num st' v)" using loopInvD(2,4) [OF st'(2)] by simp
  show ?case
  proof (cases "t_lowlink st' v = num st' v")
    case True
    then show ?thesis using loopInv_close [OF st'(2)] 2 st'(1) num by simp
  next
    case False
    then show ?thesis using loopInv_stay [OF st'(2)] 2 st'(1) num by simp
  qed
next
  case (3 out k v st)
  then show ?case by auto
next
  case (4 out k v w ws st)
  note l = loopInvD [OF "4.prems"(1)]
  have st0: "set (t_stack st0) \<subseteq> vis st0" using tinv_stackD(2) "4.prems" by blast
  have w: "w \<in> set (out v)" using "4.prems" by simp
  show ?case
  proof (cases "t_indices st w")
    case (Some i)
    have "card (V - vis (if t_onStack st w then t_lower v i st else st)) \<le> k" using "4.prems" by simp
    then show ?thesis
      using "4.IH"(3) [OF Some] loopInv_seen [OF "4.prems"(1,2) st0 w Some] "4.prems" Some by auto
  next
    case None
    then have nv: "w \<notin> vis st" by (auto simp: vis_def)
    have wV: "w \<in> V" using w "4.prems" by blast
    have vw: "(v, w) \<in> succs out" using w by (simp add: succs_def)
    then have "\<forall>g \<in> insert v G. (g, w) \<in> (succs out)\<^sup>*" using "4.prems"(6) by (auto intro: rtrancl_into_rtrancl)
    then obtain st' where st': "strongConnect out k w st = Some st'" "callPost out V (insert v G) w st st'"
      using "4.IH"(1) [OF None, of "insert v G"] l(1) nv wV "4.prems" by blast
    have "vis st \<subseteq> vis st'" by (rule callPostD(2) [OF st'(2)])
    then have "card (V - vis (t_lower v (t_lowlink st' w) st')) \<le> k"
      using "4.prems"(7) by (metis Diff_mono card_mono fin finite_Diff le_trans order_refl t_lower_simps(3))
    then show ?thesis
      using "4.IH"(2) [OF None st'(1)] loopInv_call [OF "4.prems"(1,2) st0 w nv st'(2)] "4.prems" None st'(1)
      by auto
  qed
qed

lemma tinv_init: "tinv out V {} t_init"
proof -
  have "\<not> isScc (succs out) V {}" by (auto simp: isScc_def)
  then show ?thesis
    by (auto simp: tinv_defs t_init_def vis_def gone_def)
qed

lemma visitAll_total:
  assumes "finite V" "\<forall>x \<in> V. set (out x) \<subseteq> V"
  shows "tinv out V {} st \<Longrightarrow> set ns \<subseteq> V \<Longrightarrow> card V \<le> k \<Longrightarrow>
         \<exists>st'. visitAll out k ns st = Some st' \<and> tinv out V {} st' \<and> vis st \<union> set ns \<subseteq> vis st'"
proof (induction ns arbitrary: st)
  case (Cons n ns)
  show ?case
  proof (cases "t_indices st n")
    case None
    then have n: "n \<notin> vis st" by (auto simp: vis_def)
    have "card (V - vis st) \<le> k"
      using Cons.prems(3) assms(1) by (meson Diff_subset card_mono le_trans)
    then obtain st' where st': "strongConnect out k n st = Some st'" "callPost out V {} n st st'"
      using strongConnect_visitNext_total(1) [OF assms Cons.prems(1) n, of k] Cons.prems by auto
    note c = callPostD [OF st'(2)]
    then show ?thesis using Cons.IH [OF c(1)] Cons.prems st'(1) c None by fastforce
  next
    case (Some i)
    then have "n \<in> vis st" by (auto simp: vis_def)
    then show ?thesis using Cons.IH [OF Cons.prems(1)] Cons.prems Some by fastforce
  qed
qed simp

text \<open>With no open call the stack is empty, so every node has left it.\<close>

lemma tinv_no_open: "tinv out V {} st \<Longrightarrow> gone st = vis st"
  using tinv_reachD(4) by (fastforce simp: gone_def)

lemma succs_depends [simp]: "succs (g_Out g) = depends g"
  by (simp add: succs_def depends_def)

lemma FindCycles_run:
  assumes wf: "wfGraph g"
  shows "\<exists>st. visitAll (g_Out g) (length (g_Nodes g)) (sortedKeys (g_Nodes g)) t_init = Some st \<and>
              set ` set (t_sccs st) = {K. isScc (depends g) (nodeNames g) K \<and> cyclicSet (depends g) K} \<and>
              (\<forall>c \<in> set (t_sccs st). sorted c \<and> distinct c) \<and> distinct (t_sccs st)"
proof -
  let ?V = "nodeNames g"
  have closed: "\<forall>x \<in> ?V. set (g_Out g x) \<subseteq> ?V"
    using wfGraph_depends [OF wf] by (auto simp: depends_iff)
  have "card ?V \<le> length (g_Nodes g)" using wf by (simp add: nodeNames_def card_keys wfGraphD)
  moreover have "set (sortedKeys (g_Nodes g)) = ?V" by (simp add: nodeNames_def)
  ultimately obtain st where st: "visitAll (g_Out g) (length (g_Nodes g)) (sortedKeys (g_Nodes g)) t_init = Some st"
    "tinv (g_Out g) ?V {} st" "?V \<subseteq> vis st"
    using visitAll_total [OF finite_nodeNames closed tinv_init, of "sortedKeys (g_Nodes g)"] by blast
  have "gone st = ?V" using st(2,3) tinv_no_open tinv_stackD(3) by blast
  moreover have "K \<subseteq> ?V" if "isScc (depends g) ?V K" for K
    using that wfGraph_reach [OF wf] by (auto simp: isScc_def)
  moreover have "sccInv (g_Out g) ?V st" using st(2) by (simp add: tinv_def)
  ultimately show ?thesis using st(1) by (auto simp: sccInv_def)
qed

text \<open>The contract of \<open>FindCycles\<close>: exactly the cyclic components, each once, each sorted.\<close>

lemma FindCycles_spec:
  assumes wf: "wfGraph g"
  shows "set ` set (FindCycles g) = {K. isScc (depends g) (nodeNames g) K \<and> cyclicSet (depends g) K}"
    and "\<forall>c \<in> set (FindCycles g). sorted c \<and> distinct c \<and> c \<noteq> []"
    and "distinct (FindCycles g)"
    and "sorted (map hd (FindCycles g))"
proof -
  obtain st where st: "visitAll (g_Out g) (length (g_Nodes g)) (sortedKeys (g_Nodes g)) t_init = Some st"
    "set ` set (t_sccs st) = {K. isScc (depends g) (nodeNames g) K \<and> cyclicSet (depends g) K}"
    "\<forall>c \<in> set (t_sccs st). sorted c \<and> distinct c" "distinct (t_sccs st)"
    using FindCycles_run [OF wf] by blast
  have F: "FindCycles g = sort_key hd (t_sccs st)" by (simp add: FindCycles_def st(1))
  show a: "set ` set (FindCycles g) = {K. isScc (depends g) (nodeNames g) K \<and> cyclicSet (depends g) K}"
    using st(2) by (simp add: F)
  have "c \<noteq> []" if "c \<in> set (FindCycles g)" for c
  proof -
    have "set c \<in> set ` set (FindCycles g)" using that by blast
    then show ?thesis unfolding a by (auto simp: cyclicSet_def)
  qed
  then show "\<forall>c \<in> set (FindCycles g). sorted c \<and> distinct c \<and> c \<noteq> []"
    using st(3) by (auto simp: F)
  show "distinct (FindCycles g)" "sorted (map hd (FindCycles g))"
    using st(4) by (simp_all add: F)
qed

lemma FindCycle_cyclic:
  assumes wf: "wfGraph g"
  shows "FindCycle g = [] \<longleftrightarrow> acyclic (depends g)"
    and "FindCycle g \<noteq> [] \<Longrightarrow>
         isScc (depends g) (nodeNames g) (set (FindCycle g)) \<and> cyclicSet (depends g) (set (FindCycle g))"
proof -
  note spec = FindCycles_spec [OF wf]
  have "FindCycles g = [] \<longleftrightarrow> acyclic (depends g)"
  proof
    assume "FindCycles g = []"
    then have none: "\<not> (isScc (depends g) (nodeNames g) K \<and> cyclicSet (depends g) K)" for K
      using spec(1) by auto
    show "acyclic (depends g)"
      unfolding acyclic_def
    proof (intro allI notI)
      fix x assume x: "(x, x) \<in> (depends g)\<^sup>+"
      then have "x \<in> nodeNames g" using wfGraph_depends(1) [OF wf] by (meson tranclD)
      then show False
        using none [of "{y. (x, y) \<in> (depends g)\<^sup>* \<and> (y, x) \<in> (depends g)\<^sup>*}"] x
        by (auto simp: isScc_def cyclicSet_def)
    qed
  next
    assume "acyclic (depends g)"
    then have "set ` set (FindCycles g) = {}" unfolding spec(1) by (auto simp: cyclicSet_def acyclic_def)
    then show "FindCycles g = []" by simp
  qed
  moreover have "FindCycle g = [] \<longleftrightarrow> FindCycles g = []"
    using spec(2) by (auto simp: FindCycle_def split: list.splits)
  ultimately show "FindCycle g = [] \<longleftrightarrow> acyclic (depends g)" by simp
  assume "FindCycle g \<noteq> []"
  then have "FindCycle g \<in> set (FindCycles g)" by (auto simp: FindCycle_def split: list.splits)
  then show "isScc (depends g) (nodeNames g) (set (FindCycle g)) \<and> cyclicSet (depends g) (set (FindCycle g))"
    using spec(1) by blast
qed

subsection \<open>Property\<close>

text \<open>
  C3: on a well-formed graph \<open>FindCycles\<close> terminates without popping an empty stack and reports
  exactly the strongly connected components that contain a cycle, each once, each as a sorted list
  without repetition, ordered by first name; \<open>FindCycle\<close> is empty precisely when there is no cycle.
\<close>

theorem FindCycles_exact:
  assumes "wfGraph g"
  shows "set ` set (FindCycles g) = {K. isScc (depends g) (nodeNames g) K \<and> cyclicSet (depends g) K} \<and>
         list_all (\<lambda>c. sorted c \<and> distinct c) (FindCycles g) \<and> distinct (FindCycles g) \<and>
         sorted (map hd (FindCycles g)) \<and>
         visitAll (g_Out g) (length (g_Nodes g)) (sortedKeys (g_Nodes g)) t_init \<noteq> None \<and>
         (FindCycle g = [] \<longleftrightarrow> acyclic (depends g))"
  using FindCycles_spec [OF assms] FindCycle_cyclic(1) [OF assms] FindCycles_run [OF assms]
  by (auto simp: list_all_iff)

theorem FindCycles_exact_witness:
  "FindCycles cyclicGraph = [[''app'', ''cluster'', ''database'', ''network'']] \<and>
   isScc (depends cyclicGraph) (nodeNames cyclicGraph) {''app'', ''cluster'', ''database'', ''network''} \<and>
   \<not> acyclic (depends cyclicGraph)"
proof -
  have run: "FindCycles cyclicGraph = [[''app'', ''cluster'', ''database'', ''network'']]" by code_simp
  then have "FindCycle cyclicGraph \<noteq> []" by (simp add: FindCycle_def)
  then show ?thesis using FindCycles_exact [OF wf_cyclicGraph] run by auto
qed

end
