(* ===== verification/Topo.thy ===== *)
theory Topo
  imports Tarjan
begin

text \<open>
  Execution layers (\<open>internal/graph/topo.go\<close>): Kahn's algorithm by whole layers. The in-degree map is
  an association list; each round sorts the names of in-degree zero, deletes them and decrements
  their successors. \<open>layered\<close> is the specification: a layer is exactly the set of remaining names
  with no remaining predecessor.
\<close>

subsection \<open>The algorithm\<close>

definition decr :: "int smap \<Rightarrow> string \<Rightarrow> int smap" where
  "decr indeg m = (case map_of indeg m of None \<Rightarrow> indeg | Some d \<Rightarrow> AList.update m (d - 1) indeg)"

definition placeNode :: "(string \<Rightarrow> string list) \<Rightarrow> int smap \<Rightarrow> string \<Rightarrow> int smap" where
  "placeNode out indeg n = foldl decr (AList.delete n indeg) (out n)"

definition zeroDegree :: "int smap \<Rightarrow> string list" where
  "zeroDegree indeg = sort (map fst (filter (\<lambda>(_, d). d = 0) indeg))"

lemma length_decr [simp]: "length (decr indeg m) = length indeg"
proof -
  have "hasKey xs m \<Longrightarrow> length (AList.update m v xs) = length xs" for v and xs :: "int smap"
    by (induction xs) auto
  then show ?thesis by (auto simp: decr_def hasKey_def simp del: hasKey_iff split: option.splits)
qed

lemma length_foldl_decr [simp]: "length (foldl decr indeg ms) = length indeg"
  by (induction ms arbitrary: indeg) auto

lemma length_placeNode: "length (placeNode out indeg n) \<le> length indeg"
  by (simp add: placeNode_def length_delete_le)

lemma length_foldl_placeNode: "length (foldl (placeNode out) indeg ns) \<le> length indeg"
  by (induction ns arbitrary: indeg) (auto intro: le_trans length_placeNode)

lemma length_placeNode_less: "n \<in> fst ` set indeg \<Longrightarrow> length (placeNode out indeg n) < length indeg"
proof -
  have "n \<in> fst ` set xs \<Longrightarrow> length (AList.delete n xs) < length xs" for xs :: "int smap"
    unfolding AList.delete_eq by (auto intro!: length_filter_less)
  then show "n \<in> fst ` set indeg \<Longrightarrow> ?thesis" by (simp add: placeNode_def)
qed

function levelsLoop :: "(string \<Rightarrow> string list) \<Rightarrow> int smap \<Rightarrow> string list list" where
  "levelsLoop out indeg =
     (let level = zeroDegree indeg in
      if level = [] then []
      else level # levelsLoop out (foldl (placeNode out) indeg level))"
  by pat_completeness auto
termination
proof (relation "measure (\<lambda>(_, indeg). length indeg)", simp, clarsimp)
  fix out and indeg :: "int smap" assume "zeroDegree indeg \<noteq> []"
  then obtain n ns where z: "zeroDegree indeg = n # ns" by (meson neq_Nil_conv)
  then have "n \<in> set (zeroDegree indeg)" by simp
  then have "n \<in> fst ` set indeg" by (force simp: zeroDegree_def)
  then have "length (placeNode out indeg n) < length indeg" by (rule length_placeNode_less)
  then show "length (foldl (placeNode out) indeg (zeroDegree indeg)) < length indeg"
    unfolding z using length_foldl_placeNode [of out "placeNode out indeg n" ns] by simp
qed

declare levelsLoop.simps [simp del]

datatype topoError = CycleInvolving "string list"

definition inDegree :: "Graph \<Rightarrow> int smap" where
  "inDegree g = map (\<lambda>(n, _). (n, int (length (g_In g n)))) (g_Nodes g)"

definition Levels :: "Graph \<Rightarrow> topoError + string list list" where
  "Levels g =
     (let levels = levelsLoop (g_Out g) (inDegree g);
          placed = sum_list (map length levels) in
      if placed \<noteq> length (g_Nodes g) then Inl (CycleInvolving (FindCycle g)) else Inr levels)"

definition TopoSort :: "Graph \<Rightarrow> topoError + string list" where
  "TopoSort g = bindR (Levels g) (\<lambda>levels. Inr (concat levels))"


subsection \<open>Specification\<close>

fun layered :: "(string \<Rightarrow> string list) \<Rightarrow> string set \<Rightarrow> string list list \<Rightarrow> bool" where
  "layered inn R [] \<longleftrightarrow> (\<forall>n \<in> R. set (inn n) \<inter> R \<noteq> {})"
| "layered inn R (l # ls) \<longleftrightarrow>
     l \<noteq> [] \<and> sorted l \<and> distinct l \<and> set l = {n \<in> R. set (inn n) \<inter> R = {}} \<and>
     layered inn (R - set l) ls"

definition indegInv :: "Graph \<Rightarrow> string set \<Rightarrow> int smap \<Rightarrow> bool" where
  "indegInv g R indeg \<longleftrightarrow>
     distinctKeys indeg \<and> fst ` set indeg = R \<and>
     (\<forall>m \<in> R. map_of indeg m = Some (int (length (filter (\<lambda>p. p \<in> R) (g_In g m)))))"

subsection \<open>The loop computes the layers\<close>

lemma keys_decr [simp]: "fst ` set (decr indeg m) = fst ` set indeg"
  by (auto simp: decr_def split: option.splits dest: map_of_SomeD intro: rev_image_eqI)

lemma distinctKeys_decr [simp, inv_keep]: "distinctKeys indeg \<Longrightarrow> distinctKeys (decr indeg m)"
  by (simp add: decr_def split: option.splits)

lemma foldl_decr:
  "fst ` set (foldl decr indeg ms) = fst ` set indeg"
  "distinctKeys indeg \<Longrightarrow> distinctKeys (foldl decr indeg ms)"
  "map_of (foldl decr indeg ms) k = map_option (\<lambda>d. d - int (count_list ms k)) (map_of indeg k)"
proof -
  show "fst ` set (foldl decr indeg ms) = fst ` set indeg"
    by (induction ms arbitrary: indeg) auto
  show "distinctKeys indeg \<Longrightarrow> distinctKeys (foldl decr indeg ms)"
    by (induction ms arbitrary: indeg) auto
  show "map_of (foldl decr indeg ms) k = map_option (\<lambda>d. d - int (count_list ms k)) (map_of indeg k)"
  proof (induction ms arbitrary: indeg)
    case (Cons m ms)
    have "map_of (decr indeg m) k = map_option (\<lambda>d. d - (if k = m then 1 else 0)) (map_of indeg k)"
      by (auto simp: decr_def update_conv' option.map_ident split: option.splits)
    then show ?case using Cons by (auto simp: option.map_comp o_def algebra_simps)
  qed (simp add: option.map_ident)
qed

lemma length_filter_remove:
  "n \<in> R \<Longrightarrow> length (filter (\<lambda>p. p \<in> R) xs) = length (filter (\<lambda>p. p \<in> R - {n}) xs) + count_list xs n"
  by (induction xs) auto

lemma indegInv_place:
  assumes inv: "indegInv g R indeg" and n: "n \<in> R" and adj: "adjacent g"
  shows "indegInv g (R - {n}) (placeNode (g_Out g) indeg n)"
proof -
  have d: "distinctKeys indeg" "fst ` set indeg = R" using inv by (auto simp: indegInv_def)
  have del: "fst ` set (AList.delete n indeg) = R - {n}" "distinctKeys (AList.delete n indeg)"
    using d by (auto simp: AList.delete_eq distinctKeys_def intro: distinct_map_filter)
  have "map_of (placeNode (g_Out g) indeg n) m = Some (int (length (filter (\<lambda>p. p \<in> R - {n}) (g_In g m))))"
    if m: "m \<in> R - {n}" for m
  proof -
    have "map_of (AList.delete n indeg) m = Some (int (length (filter (\<lambda>p. p \<in> R) (g_In g m))))"
      using inv m by (auto simp: indegInv_def delete_conv')
    then show ?thesis
      using adjacent_count [OF adj, of n m]
      by (simp add: placeNode_def foldl_decr(3) length_filter_remove [OF n])
  qed
  then show ?thesis
    using del foldl_decr by (auto simp: indegInv_def placeNode_def)
qed

lemma indegInv_level:
  assumes "indegInv g R indeg" "set ns \<subseteq> R" "distinct ns" "adjacent g"
  shows "indegInv g (R - set ns) (foldl (placeNode (g_Out g)) indeg ns)"
  using assms
proof (induction ns arbitrary: R indeg)
  case (Cons n ns)
  have "indegInv g (R - {n}) (placeNode (g_Out g) indeg n)" using Cons.prems by (intro indegInv_place) auto
  then have "indegInv g (R - {n} - set ns) (foldl (placeNode (g_Out g)) (placeNode (g_Out g) indeg n) ns)"
    using Cons.prems by (intro Cons.IH) auto
  moreover have "R - {n} - set ns = R - set (n # ns)" by auto
  ultimately show ?case by simp
qed simp

lemma zeroDegree_spec:
  assumes "indegInv g R indeg"
  shows "set (zeroDegree indeg) = {n \<in> R. set (g_In g n) \<inter> R = {}}" "sorted (zeroDegree indeg)"
    "distinct (zeroDegree indeg)"
proof -
  have d: "distinct (map fst indeg)" "fst ` set indeg = R" using assms by (auto simp: indegInv_def distinctKeys_def)
  have "(n, 0) \<in> set indeg \<longleftrightarrow> n \<in> R \<and> set (g_In g n) \<inter> R = {}" for n
  proof -
    have "(n, 0) \<in> set indeg \<longleftrightarrow> n \<in> R \<and> map_of indeg n = Some 0" using d by (force simp: map_of_eq_Some_iff)
    moreover have "n \<in> R \<Longrightarrow> map_of indeg n = Some (int (length (filter (\<lambda>p. p \<in> R) (g_In g n))))"
      using assms by (auto simp: indegInv_def)
    ultimately show ?thesis by (auto simp: filter_empty_conv)
  qed
  then show "set (zeroDegree indeg) = {n \<in> R. set (g_In g n) \<inter> R = {}}"
    by (force simp: zeroDegree_def)
  show "sorted (zeroDegree indeg)" by (simp add: zeroDegree_def)
  show "distinct (zeroDegree indeg)" using d(1) by (simp add: zeroDegree_def distinct_map_filter)
qed

lemma levelsLoop_layered:
  assumes "adjacent g"
  shows "indegInv g R indeg \<Longrightarrow> layered (g_In g) R (levelsLoop (g_Out g) indeg)"
proof (induction "g_Out g" indeg arbitrary: R rule: levelsLoop.induct)
  case (1 indeg)
  note z = zeroDegree_spec [OF "1.prems"]
  show ?case
  proof (cases "zeroDegree indeg = []")
    case True
    then show ?thesis using z(1) by (auto simp: levelsLoop.simps)
  next
    case False
    have "indegInv g (R - set (zeroDegree indeg)) (foldl (placeNode (g_Out g)) indeg (zeroDegree indeg))"
      using "1.prems" z assms by (intro indegInv_level) auto
    then show ?thesis
      using "1.hyps" [OF refl False] False z by (subst levelsLoop.simps) (simp add: Let_def)
  qed
qed

lemma indegInv_init: "wfGraph g \<Longrightarrow> indegInv g (nodeNames g) (inDegree g)"
proof -
  assume wf: "wfGraph g"
  have keys: "map fst (inDegree g) = map fst (g_Nodes g)" by (auto simp: inDegree_def)
  have "filter (\<lambda>p. p \<in> nodeNames g) (g_In g m) = g_In g m" for m
    using wfGraph_depends(1) [OF wf] adjacent_OutIn [OF wfGraphD(2) [OF wf]]
    by (auto simp: depends_iff intro!: filter_True)
  moreover have "map_of (inDegree g) m = Some (int (length (g_In g m)))" if m: "m \<in> nodeNames g" for m
  proof -
    have "(m, int (length (g_In g m))) \<in> set (inDegree g)"
      using m by (force simp: inDegree_def nodeNames_def)
    then show ?thesis using wf keys by (simp add: wfGraph_def distinctKeys_def)
  qed
  moreover have "fst ` set (inDegree g) = nodeNames g"
    using keys by (metis nodeNames_def set_map)
  ultimately show ?thesis
    using wf keys by (simp add: indegInv_def distinctKeys_def wfGraph_def)
qed

lemma levels_layered:
  "wfGraph g \<Longrightarrow> layered (g_In g) (nodeNames g) (levelsLoop (g_Out g) (inDegree g))"
  by (intro levelsLoop_layered indegInv_init wfGraphD(2))

subsection \<open>What the layers mean\<close>

lemma layered_ConsD:
  "layered inn R (l # ls) \<Longrightarrow> layered inn (R - set l) ls"
  "layered inn R (l # ls) \<Longrightarrow> set l = {n \<in> R. set (inn n) \<inter> R = {}}"
  unfolding layered.simps by blast+

lemma layered_partition:
  "layered inn R ls \<Longrightarrow> set (concat ls) \<subseteq> R \<and> distinct (concat ls) \<and> (\<forall>l \<in> set ls. l \<noteq> [] \<and> sorted l)"
proof (induction ls arbitrary: R)
  case (Cons l ls)
  have IH: "set (concat ls) \<subseteq> R - set l" "distinct (concat ls)" "\<forall>l \<in> set ls. l \<noteq> [] \<and> sorted l"
    using Cons by auto
  moreover have "set l \<subseteq> R" "distinct l" "l \<noteq> []" "sorted l" using Cons.prems by auto
  ultimately show ?case by auto
qed simp

text \<open>Every dependency goes from an earlier layer to a strictly later one.\<close>

lemma layered_order:
  assumes "layered inn R ls" "i < length ls" "j < length ls" "a \<in> set (ls ! i)" "b \<in> set (ls ! j)"
    "a \<in> set (inn b)"
  shows "i < j"
  using assms
proof (induction ls arbitrary: R i j)
  case (Cons l ls)
  have "set (concat ls) \<subseteq> R - set l" 
    using layered_partition [OF layered_ConsD(1) [OF Cons.prems(1)]] by blast
  then have sub: "\<And>k x. k < length ls \<Longrightarrow> x \<in> set (ls ! k) \<Longrightarrow> x \<in> R - set l"
    by (force dest: nth_mem)
  have lv: "set l = {n \<in> R. set (inn n) \<inter> R = {}}" using Cons.prems(1) by simp
  show ?case
  proof (cases j)
    case 0
    then have "b \<in> set l" using Cons.prems by simp
    moreover have "a \<in> R" using Cons.prems sub lv by (cases i) auto
    ultimately show ?thesis using lv Cons.prems(6) by blast
  next
    case (Suc j')
    show ?thesis
    proof (cases i)
      case (Suc i')
      with \<open>j = Suc j'\<close> show ?thesis using Cons.prems Cons.IH [of "R - set l" i' j'] by auto
    qed (simp add: Suc)
  qed
qed simp

text \<open>A layer is as early as possible: what is not in the first layer depends on the layer before.\<close>

lemma layered_tight:
  assumes "layered inn R ls" "Suc i < length ls" "b \<in> set (ls ! Suc i)"
  shows "\<exists>a \<in> set (ls ! i). a \<in> set (inn b)"
  using assms
proof (induction ls arbitrary: R i)
  case (Cons l ls)
  have lv: "set l = {n \<in> R. set (inn n) \<inter> R = {}}" and tl: "layered inn (R - set l) ls"
    using Cons.prems(1) by auto
  show ?case
  proof (cases i)
    case 0
    obtain l' ls' where ls: "ls = l' # ls'" using Cons.prems(2) by (cases ls) auto
    have "b \<in> set l'" using Cons.prems 0 ls by simp
    then have "b \<in> R - set l" "set (inn b) \<inter> (R - set l) = {}" using tl ls by auto
    then show ?thesis using lv 0 by auto
  qed (use Cons tl in auto)
qed simp

text \<open>What the loop leaves unplaced has a predecessor that is also unplaced.\<close>

lemma layered_rest:
  "layered inn R ls \<Longrightarrow> n \<in> R - set (concat ls) \<Longrightarrow> set (inn n) \<inter> (R - set (concat ls)) \<noteq> {}"
proof (induction ls arbitrary: R)
  case (Cons l ls)
  have eq: "R - set (concat (l # ls)) = (R - set l) - set (concat ls)" by auto
  show ?case unfolding eq using Cons.prems(2) eq layered_ConsD(1) [OF Cons.prems(1)] by (intro Cons.IH) blast+
qed auto

lemma no_source_cyclic:
  assumes fin: "finite S" and ne: "S \<noteq> {}" and pred: "\<forall>n \<in> S. \<exists>p \<in> S. (p, n) \<in> r"
  shows "\<not> acyclic r"
proof
  assume ac: "acyclic r"
  let ?r = "r \<inter> S \<times> S"
  have "finite ?r" using fin by simp
  moreover have "acyclic ?r" using ac by (rule acyclic_subset) simp
  ultimately have "wf ?r" by (rule finite_acyclic_wf)
  then obtain z where "z \<in> S" "\<And>y. (y, z) \<in> ?r \<Longrightarrow> y \<notin> S" using ne by (metis all_not_in_conv wfE_min)
  then show False using pred by blast
qed

text \<open>Numbers that grow along every edge rule out a cycle.\<close>

lemma rank_acyclic:
  fixes f :: "'a \<Rightarrow> nat"
  assumes "\<And>a b. (a, b) \<in> r \<Longrightarrow> f a < f b"
  shows "acyclic r"
proof -
  have "(a, b) \<in> r\<^sup>+ \<Longrightarrow> f a < f b" for a b
    by (induction rule: trancl_induct) (auto dest: assms intro: less_trans)
  then show ?thesis by (fastforce simp: acyclic_def)
qed

lemma layered_complete_acyclic:
  assumes wf: "wfGraph g" and ly: "layered (g_In g) (nodeNames g) ls" and all: "set (concat ls) = nodeNames g"
  shows "acyclic (depends g)"
proof (rule rank_acyclic)
  fix a b assume ab: "(a, b) \<in> depends g"
  let ?i = "\<lambda>x. LEAST i. i < length ls \<and> x \<in> set (ls ! i)"
  have "\<exists>i. i < length ls \<and> x \<in> set (ls ! i)" if "x \<in> nodeNames g" for x
    using that unfolding all [symmetric] by (metis UN_E in_set_conv_nth set_concat)
  then have ii: "?i x < length ls \<and> x \<in> set (ls ! ?i x)" if "x \<in> nodeNames g" for x
    using that by (metis (mono_tags, lifting) LeastI)
  have "a \<in> set (g_In g b)" using ab adjacent_OutIn [OF wfGraphD(2) [OF wf]] by (simp add: depends_iff)
  then show "?i a < ?i b"
    using layered_order [OF ly] ii wfGraph_depends [OF wf ab] by blast
qed

subsection \<open>The contract of \<open>Levels\<close>\<close>

lemma placed_iff:
  assumes wf: "wfGraph g" and ly: "layered (g_In g) (nodeNames g) ls"
  shows "sum_list (map length ls) = length (g_Nodes g) \<longleftrightarrow> set (concat ls) = nodeNames g"
proof -
  note p = layered_partition [OF ly]
  have "card (set (concat ls)) = sum_list (map length ls)" using p by (metis distinct_card length_concat)
  moreover have "card (nodeNames g) = length (g_Nodes g)" using wf by (simp add: nodeNames_def card_keys wfGraphD)
  ultimately show ?thesis using p by (metis card_subset_eq finite_nodeNames)
qed

lemma Levels_ok_iff:
  assumes wf: "wfGraph g"
  shows "isOk (Levels g) \<longleftrightarrow> acyclic (depends g)"
proof -
  let ?ls = "levelsLoop (g_Out g) (inDegree g)"
  note ly = levels_layered [OF wf]
  have ok: "isOk (Levels g) \<longleftrightarrow> set (concat ?ls) = nodeNames g"
    using placed_iff [OF wf ly] by (simp add: Levels_def Let_def)
  show ?thesis
  proof
    assume "isOk (Levels g)"
    then show "acyclic (depends g)" using layered_complete_acyclic [OF wf ly] ok by simp
  next
    assume ac: "acyclic (depends g)"
    let ?S = "nodeNames g - set (concat ?ls)"
    have "\<exists>p \<in> ?S. (p, n) \<in> depends g" if "n \<in> ?S" for n
      using layered_rest [OF ly that] adjacent_OutIn [OF wfGraphD(2) [OF wf]] by (auto simp: depends_iff)
    then have "?S = {}" using no_source_cyclic [of ?S "depends g"] ac by auto
    then show "isOk (Levels g)" using ok layered_partition [OF ly] by blast
  qed
qed

lemma Levels_Inr:
  assumes wf: "wfGraph g" and ok: "Levels g = Inr ls"
  shows "layered (g_In g) (nodeNames g) ls" "set (concat ls) = nodeNames g" "distinct (concat ls)"
    "\<forall>l \<in> set ls. l \<noteq> [] \<and> sorted l"
proof -
  have ls: "ls = levelsLoop (g_Out g) (inDegree g)"
    using ok by (auto simp: Levels_def Let_def split: if_splits)
  show ly: "layered (g_In g) (nodeNames g) ls" unfolding ls by (rule levels_layered [OF wf])
  have "sum_list (map length ls) = length (g_Nodes g)"
    using ok ls by (auto simp: Levels_def Let_def split: if_splits)
  then show "set (concat ls) = nodeNames g" using placed_iff [OF wf ly] by simp
  show "distinct (concat ls)" "\<forall>l \<in> set ls. l \<noteq> [] \<and> sorted l" using layered_partition [OF ly] by auto
qed

lemma Levels_edge:
  assumes "wfGraph g" "Levels g = Inr ls" "i < length ls" "j < length ls" "a \<in> set (ls ! i)" "b \<in> set (ls ! j)"
    "(a, b) \<in> depends g"
  shows "i < j"
  using assms layered_order [OF Levels_Inr(1)] adjacent_OutIn [OF wfGraphD(2)] by (metis depends_iff)

lemma Levels_Inl:
  assumes wf: "wfGraph g" and err: "Levels g = Inl (CycleInvolving c)"
  shows "isScc (depends g) (nodeNames g) (set c)" "cyclicSet (depends g) (set c)"
proof -
  have c: "c = FindCycle g" using err by (auto simp: Levels_def Let_def split: if_splits)
  have "\<not> isOk (Levels g)" using err by simp
  then have "FindCycle g \<noteq> []" using Levels_ok_iff [OF wf] FindCycle_cyclic(1) [OF wf] by simp
  then show "isScc (depends g) (nodeNames g) (set c)" "cyclicSet (depends g) (set c)"
    using FindCycle_cyclic(2) [OF wf] c by auto
qed

lemma sampleGraph_levels: "Levels sampleGraph = Inr [[''network''], [''cluster'', ''database''], [''app'']]"
  by code_simp

subsection \<open>Properties\<close>

text \<open>
  C5: \<open>Levels\<close> succeeds exactly on the acyclic graphs; when it fails, the nodes the error names are
  one cyclic strongly connected component of the graph.
\<close>

theorem Levels_iff_acyclic:
  assumes "wfGraph g"
  shows "(isOk (Levels g) \<longleftrightarrow> acyclic (depends g)) \<and>
         (\<forall>c. Levels g = Inl (CycleInvolving c) \<longrightarrow>
            isScc (depends g) (nodeNames g) (set c) \<and> cyclicSet (depends g) (set c))"
  using Levels_ok_iff [OF assms] Levels_Inl [OF assms] by auto

theorem Levels_iff_acyclic_witness:
  "acyclic (depends sampleGraph) \<and> Levels sampleGraph = Inr [[''network''], [''cluster'', ''database''], [''app'']] \<and>
   cyclicSet (depends cyclicGraph) {''app'', ''cluster'', ''database'', ''network''}"
proof -
  have "Levels sampleGraph = Inr [[''network''], [''cluster'', ''database''], [''app'']]" by code_simp
  moreover have "Levels cyclicGraph = Inl (CycleInvolving [''app'', ''cluster'', ''database'', ''network''])"
    by code_simp
  ultimately show ?thesis
    using Levels_iff_acyclic [OF wf_sampleGraph] Levels_iff_acyclic [OF wf_cyclicGraph] by simp
qed

text \<open>
  C4: a schedule places every node exactly once, in non-empty layers sorted by name; a dependency
  always runs from an earlier layer to a strictly later one, so the nodes of one layer are
  independent; and every node outside the first layer depends on a node of the layer just before,
  so no node waits longer than it must.
\<close>

theorem Levels_schedule:
  assumes "wfGraph g" and "Levels g = Inr ls"
  shows "mset (concat ls) = mset (map fst (g_Nodes g)) \<and> list_all (\<lambda>l. l \<noteq> [] \<and> sorted l) ls \<and>
         (\<forall>i j a b. i < length ls \<and> j < length ls \<and> a \<in> set (ls ! i) \<and> b \<in> set (ls ! j) \<and> (a, b) \<in> depends g
            \<longrightarrow> i < j) \<and>
         (\<forall>i b. Suc i < length ls \<and> b \<in> set (ls ! Suc i) \<longrightarrow> (\<exists>a \<in> set (ls ! i). (a, b) \<in> depends g))"
proof -
  note l = Levels_Inr [OF assms]
  have "mset (concat ls) = mset (map fst (g_Nodes g))"
    using l(2,3) wfGraphD(1) [OF assms(1)]
    by (intro set_eq_iff_mset_eq_distinct [THEN iffD1]) (auto simp: nodeNames_def distinctKeys_def)
  moreover have "\<exists>a \<in> set (ls ! i). (a, b) \<in> depends g" if "Suc i < length ls" "b \<in> set (ls ! Suc i)" for i b
    using layered_tight [OF l(1) that] adjacent_OutIn [OF wfGraphD(2) [OF assms(1)]] by (auto simp: depends_iff)
  ultimately show ?thesis using l(4) Levels_edge [OF assms] by (auto simp: list_all_iff)
qed

theorem Levels_schedule_witness:
  "mset [''network'', ''cluster'', ''database'', ''app''] = mset (map fst (g_Nodes sampleGraph)) \<and>
   (\<exists>a \<in> set [''cluster'', ''database'']. (a, ''app'') \<in> depends sampleGraph)"
proof -
  have "Levels sampleGraph = Inr [[''network''], [''cluster'', ''database''], [''app'']]" by code_simp
  from Levels_schedule [OF wf_sampleGraph this] show ?thesis
    by (auto dest!: conjunct2 dest: spec [where x = 1])
qed

end
