(* ===== verification/Selection.thy ===== *)
theory Selection
  imports Topo
begin

text \<open>
  Partial runs (\<open>internal/graph/selection.go\<close>): resolving \<open>--node\<close> and \<open>--downstream\<close> to a set of
  leaves with the reason each one is in it, filtering the schedule, and checking the metadata that a
  stored execution record carries. Fields that arrive from JSON and are compared with nil are
  options. A Go set (\<open>map[string]bool\<close> holding only true) is a list without repetition.
\<close>

subsection \<open>Data\<close>

record SelectionNode =
  sn_Node :: string
  sn_Reason :: string
  sn_Via :: "string list option"

record Selection =
  sl_SchemaVersion :: int
  sl_Mode :: string
  sl_Requested :: "string list"
  sl_Nodes :: "SelectionNode list option"
  sl_BoundaryEdges :: "Edge list option"

datatype selectError =
    NoNodeGiven
  | EmptyNodeName
  | GroupSelected string string
  | UnknownLeaf string
  | RemovedFromGraph string
  | LevelsFailed topoError
  | QueueExhausted

definition viaList :: "SelectionNode \<Rightarrow> string list" where
  "viaList n = (case sn_Via n of None \<Rightarrow> [] | Some v \<Rightarrow> v)"

definition selNodes :: "Selection \<Rightarrow> SelectionNode list" where
  "selNodes s = (case sl_Nodes s of None \<Rightarrow> [] | Some ns \<Rightarrow> ns)"

definition selBoundary :: "Selection \<Rightarrow> Edge list" where
  "selBoundary s = (case sl_BoundaryEdges s of None \<Rightarrow> [] | Some es \<Rightarrow> es)"

subsection \<open>Select\<close>

definition edgeKind :: "Edge \<Rightarrow> string" where
  "edgeKind e = (if IsDataEdge e then ''data'' else ''ordering'')"

definition boundaryKey :: "Edge \<Rightarrow> string list" where
  "boundaryKey e = [pr_Node (e_From e), pr_Name (e_From e), pr_Node (e_To e), pr_Name (e_To e), edgeKind e]"

text \<open>\<open>slices.Compare\<close> is the lexicographic order.\<close>

definition compareBoundaryEdges :: "Edge \<Rightarrow> Edge \<Rightarrow> int" where
  "compareBoundaryEdges a b =
     (if boundaryKey a < boundaryKey b then - 1 else if boundaryKey b < boundaryKey a then 1 else 0)"

text \<open>The checks of one requested name.\<close>

definition checkSeed :: "Graph \<Rightarrow> string \<Rightarrow> selectError + unit" where
  "checkSeed g name =
     (if name = '''' then Inl EmptyNodeName
      else if \<not> hasKey (g_Nodes g) name then
        (case sort (filter (\<lambda>leaf. HasPrefix leaf (name @ ''.'')) (map fst (g_Nodes g))) of
           [] \<Rightarrow> Inl (UnknownLeaf name)
         | ex # _ \<Rightarrow> Inl (GroupSelected name ex))
      else Inr ())"

text \<open>
  The inner loop over the successors of the queue's head: it marks and enqueues the new ones. The
  outer loop runs over a queue that grows while it is read; the fuel is one unit per entry read.
\<close>

fun enqueue :: "string list \<Rightarrow> string list \<times> string list \<Rightarrow> string list \<times> string list" where
  "enqueue [] (queue, selected) = (queue, selected)"
| "enqueue (name # names) (queue, selected) =
     (if name \<in> set selected then enqueue names (queue, selected)
      else enqueue names (queue @ [name], selected @ [name]))"

fun downstreamLoop ::
    "(string \<Rightarrow> string list) \<Rightarrow> nat \<Rightarrow> string list \<Rightarrow> string list \<Rightarrow> string list option" where
  "downstreamLoop out fuel [] selected = Some selected"
| "downstreamLoop out 0 (q # queue) selected = None"
| "downstreamLoop out (Suc fuel) (q # queue) selected =
     (case enqueue (out q) (queue, selected) of
        (queue', selected') \<Rightarrow> downstreamLoop out fuel queue' selected')"

definition selectionNode :: "Graph \<Rightarrow> string list \<Rightarrow> string list \<Rightarrow> string \<Rightarrow> SelectionNode" where
  "selectionNode g requestedSet selected name =
     (if name \<in> set requestedSet
      then \<lparr>sn_Node = name, sn_Reason = ''requested'', sn_Via = Some []\<rparr>
      else \<lparr>sn_Node = name, sn_Reason = ''downstream'',
            sn_Via = Some (remdups_adj (sort (filter (\<lambda>p. p \<in> set selected) (g_In g name))))\<rparr>)"

definition describeSelection :: "Graph \<Rightarrow> string list \<Rightarrow> string list \<Rightarrow> bool \<Rightarrow> Selection" where
  "describeSelection g seeds selected downstream =
     \<lparr>sl_SchemaVersion = 1,
      sl_Mode = (if downstream then ''downstream'' else ''exact''),
      sl_Requested = seeds,
      sl_Nodes = Some (map (selectionNode g seeds selected) (sort selected)),
      sl_BoundaryEdges =
        Some (sort_key boundaryKey
          (filter (\<lambda>e. (pr_Node (e_From e) \<in> set selected) \<noteq> (pr_Node (e_To e) \<in> set selected))
             (g_Edges g)))\<rparr>"

definition Select :: "Graph \<Rightarrow> string list option \<Rightarrow> bool \<Rightarrow> selectError + Selection option" where
  "Select g requested downstream =
     (if requested = None \<and> \<not> downstream then Inr None
      else (case requested of
          None \<Rightarrow> Inl NoNodeGiven
        | Some req \<Rightarrow>
            if req = [] then Inl NoNodeGiven
            else
              let seeds = remdups_adj (sort req) in
              bindR (foldR (\<lambda>_ name. checkSeed g name) () seeds) (\<lambda>_.
              bindR (if downstream
                     then (case downstreamLoop (g_Out g) (length (g_Nodes g)) seeds seeds of
                             None \<Rightarrow> Inl QueueExhausted | Some sel \<Rightarrow> Inr sel)
                     else Inr seeds) (\<lambda>selected.
              Inr (Some (describeSelection g seeds selected downstream))))))"

definition Names :: "Selection \<Rightarrow> string list" where
  "Names s = map sn_Node (selNodes s)"

subsection \<open>SelectedLevels\<close>

definition keepLevels :: "string list \<Rightarrow> string list list \<Rightarrow> string list list" where
  "keepLevels names levels =
     filter (\<lambda>kept. kept \<noteq> []) (map (filter (\<lambda>n. n \<in> set names)) levels)"

definition SelectedLevels ::
    "Graph \<Rightarrow> string list option \<Rightarrow> bool \<Rightarrow> selectError + string list list" where
  "SelectedLevels g names reverse =
     bindR (mapErr LevelsFailed (Levels g)) (\<lambda>levels.
       case names of
         None \<Rightarrow> Inr (if reverse then rev levels else levels)
       | Some ns \<Rightarrow>
           bindR (foldR (\<lambda>_ name. require (hasKey (g_Nodes g) name) (RemovedFromGraph name)) () ns) (\<lambda>_.
             Inr (if reverse then rev (keepLevels ns levels) else keepLevels ns levels)))"

subsection \<open>ValidateMembership\<close>

text \<open>One pass of the fixpoint loop over the recorded nodes, and the loop.\<close>

definition reachNode :: "string list \<Rightarrow> SelectionNode \<Rightarrow> string list" where
  "reachNode reach n =
     foldl (\<lambda>r p. if p \<in> set r \<and> sn_Node n \<notin> set r then r @ [sn_Node n] else r) reach (viaList n)"

definition reachPass :: "SelectionNode list \<Rightarrow> string list \<Rightarrow> string list" where
  "reachPass nodes reach = foldl reachNode reach nodes"

lemma reachNode_cases:
  "reachNode reach n =
     (if (\<exists>p \<in> set (viaList n). p \<in> set reach) \<and> sn_Node n \<notin> set reach then reach @ [sn_Node n] else reach)"
proof -
  have "foldl (\<lambda>r p. if p \<in> set r \<and> m \<notin> set r then r @ [m] else r) reach ps =
        (if (\<exists>p \<in> set ps. p \<in> set reach) \<and> m \<notin> set reach then reach @ [m] else reach)" for m ps
  proof (induction ps arbitrary: reach)
    case (Cons p ps)
    then show ?case by (cases "p \<in> set reach") auto
  qed simp
  then show ?thesis by (simp add: reachNode_def)
qed

lemma reachPass_grows:
  "\<exists>new. reachPass nodes reach = reach @ new \<and> set new \<subseteq> sn_Node ` set nodes - set reach"
proof (induction nodes arbitrary: reach)
  case (Cons n nodes)
  obtain new where "reachPass nodes (reachNode reach n) = reachNode reach n @ new"
    "set new \<subseteq> sn_Node ` set nodes - set (reachNode reach n)" using Cons by blast
  then show ?case
    unfolding reachPass_def by (auto simp: reachNode_cases split: if_splits)
qed (simp add: reachPass_def)

function reachLoop :: "SelectionNode list \<Rightarrow> string list \<Rightarrow> string list" where
  "reachLoop nodes reach =
     (let r' = reachPass nodes reach in if r' = reach then reach else reachLoop nodes r')"
  by pat_completeness auto
termination
proof (relation "measure (\<lambda>(nodes, reach). card (sn_Node ` set nodes - set reach))", simp, clarsimp)
  fix nodes reach assume ne: "reachPass nodes reach \<noteq> reach"
  obtain new where new: "reachPass nodes reach = reach @ new" "set new \<subseteq> sn_Node ` set nodes - set reach"
    using reachPass_grows by blast
  then have "new \<noteq> []" using ne by auto
  with new show "card (sn_Node ` set nodes - set (reachPass nodes reach)) < card (sn_Node ` set nodes - set reach)"
    by (intro psubset_card_mono) (auto simp: neq_Nil_conv)
qed

declare reachLoop.simps [simp del]

datatype membershipError = InvalidSelection

fun checkMembers :: "string list \<Rightarrow> string list \<Rightarrow> bool" where
  "checkMembers members [] = True"
| "checkMembers members (name # names) =
     (name \<notin> set members \<and> name \<noteq> '''' \<and> checkMembers (members @ [name]) names)"

fun checkSeeds :: "string list \<Rightarrow> string list \<Rightarrow> string list \<Rightarrow> bool" where
  "checkSeeds members seeds [] = True"
| "checkSeeds members seeds (name # names) =
     (name \<in> set members \<and> name \<notin> set seeds \<and> checkSeeds members (seeds @ [name]) names)"

fun checkVia :: "string list \<Rightarrow> string \<Rightarrow> string option \<Rightarrow> string list \<Rightarrow> bool" where
  "checkVia members node prev [] = True"
| "checkVia members node prev (p # ps) =
     (p \<in> set members \<and> p \<noteq> node \<and> prev \<noteq> Some p \<and> checkVia members node (Some p) ps)"

definition checkReason :: "Selection \<Rightarrow> string list \<Rightarrow> SelectionNode \<Rightarrow> bool" where
  "checkReason s members n =
     (if sn_Node n \<in> set (sl_Requested s)
      then sn_Reason n = ''requested'' \<and> viaList n = []
      else sl_Mode s = ''downstream'' \<and> sn_Reason n = ''downstream'' \<and> viaList n \<noteq> [] \<and>
           sorted (viaList n) \<and> checkVia members (sn_Node n) None (viaList n))"

fun checkNodes :: "Selection \<Rightarrow> string list \<Rightarrow> string list \<Rightarrow> SelectionNode option \<Rightarrow> SelectionNode list \<Rightarrow> bool" where
  "checkNodes s members seen prev [] = True"
| "checkNodes s members seen prev (n # ns) =
     (sn_Node n \<in> set members \<and> sn_Node n \<notin> set seen \<and> sn_Via n \<noteq> None \<and>
      (case prev of None \<Rightarrow> True | Some m \<Rightarrow> sn_Node m < sn_Node n) \<and>
      checkReason s members n \<and> checkNodes s members (seen @ [sn_Node n]) (Some n) ns)"

definition checkBoundaryEdge :: "string list \<Rightarrow> Edge \<Rightarrow> bool" where
  "checkBoundaryEdge members e =
     (pr_Node (e_From e) \<noteq> '''' \<and> pr_Node (e_To e) \<noteq> '''' \<and>
      (pr_Node (e_From e) \<in> set members) \<noteq> (pr_Node (e_To e) \<in> set members) \<and>
      (if IsDataEdge e
       then pr_Kind (e_From e) = PortOutput \<and> pr_Kind (e_To e) = PortInput \<and>
            pr_Name (e_From e) \<noteq> '''' \<and> pr_Name (e_To e) \<noteq> ''''
       else \<not> IsPort (e_From e) \<and> \<not> IsPort (e_To e) \<and>
            pr_Name (e_From e) = '''' \<and> pr_Name (e_To e) = ''''))"

fun checkBoundary :: "string list \<Rightarrow> Edge option \<Rightarrow> Edge list \<Rightarrow> bool" where
  "checkBoundary members prev [] = True"
| "checkBoundary members prev (e # es) =
     ((case prev of None \<Rightarrow> True | Some p \<Rightarrow> \<not> compareBoundaryEdges p e > 0) \<and>
      checkBoundaryEdge members e \<and> checkBoundary members (Some e) es)"

definition ValidateMembership :: "Selection \<Rightarrow> string list \<Rightarrow> membershipError + unit" where
  "ValidateMembership s names =
     (if sl_SchemaVersion s \<noteq> 1 \<or> (sl_Mode s \<noteq> ''exact'' \<and> sl_Mode s \<noteq> ''downstream'') \<or>
         sl_Requested s = [] \<or> sl_Nodes s = None \<or> sl_BoundaryEdges s = None
      then Inl InvalidSelection
      else if \<not> checkMembers [] names then Inl InvalidSelection
      else if length (selNodes s) \<noteq> length names \<or> \<not> sorted (sl_Requested s) then Inl InvalidSelection
      else if \<not> checkSeeds names [] (sl_Requested s) then Inl InvalidSelection
      else if \<not> checkNodes s names [] None (selNodes s) then Inl InvalidSelection
      else if length (reachLoop (selNodes s) (sl_Requested s)) \<noteq> length names then Inl InvalidSelection
      else if \<not> checkBoundary names None (selBoundary s) then Inl InvalidSelection
      else Inr ())"


subsection \<open>The downstream closure\<close>

lemma enqueue_new:
  "\<exists>new. enqueue names (queue, selected) = (queue @ new, selected @ new) \<and> distinct new \<and>
         set new = set names - set selected"
proof (induction names arbitrary: queue selected)
  case (Cons name names)
  show ?case
  proof (cases "name \<in> set selected")
    case True
    then show ?thesis using Cons [of queue selected] by auto
  next
    case False
    obtain new where "enqueue names (queue @ [name], selected @ [name]) = (queue @ [name] @ new, selected @ [name] @ new)"
      "distinct new" "set new = set names - set (selected @ [name])"
      using Cons [of "queue @ [name]" "selected @ [name]"] by auto
    then show ?thesis using False by (intro exI [where x = "name # new"]) auto
  qed
qed simp

lemma downstreamLoop_total:
  assumes fin: "finite V" and "\<forall>x \<in> V. set (out x) \<subseteq> V" "distinct queue" "distinct selected"
    "set queue \<subseteq> set selected" "set selected \<subseteq> V"
    "\<forall>x \<in> set selected - set queue. set (out x) \<subseteq> set selected"
    "card (V - (set selected - set queue)) \<le> fuel"
  shows "\<exists>sel. downstreamLoop out fuel queue selected = Some sel \<and> distinct sel \<and>
               set sel = (succs out)\<^sup>* `` set selected"
  using assms(2-)
proof (induction out fuel queue selected rule: downstreamLoop.induct)
  case (1 out fuel selected)
  have "y \<in> set selected" if "(x, y) \<in> (succs out)\<^sup>*" "x \<in> set selected" for x y
    using that
  proof (induction rule: rtrancl_induct)
    case (step a b)
    then show ?case using "1.prems"(6) by (auto simp: succs_def)
  qed simp
  then have "set selected = (succs out)\<^sup>* `` set selected" by blast
  then show ?case using "1.prems"(3) by simp
next
  case (2 out q queue selected)
  have "q \<in> V - (set selected - set (q # queue))" using "2.prems" by auto
  then show ?case using "2.prems"(7) fin by (metis card_0_eq empty_iff finite_Diff le_zero_eq)
next
  case (3 out fuel q queue selected)
  obtain new where new: "enqueue (out q) (queue, selected) = (queue @ new, selected @ new)"
    "distinct new" "set new = set (out q) - set selected" using enqueue_new by blast
  have q: "q \<in> set selected" "q \<notin> set queue" "set queue \<subseteq> set selected" "q \<in> V" using "3.prems" by auto
  have left: "set (selected @ new) - set (queue @ new) = insert q (set selected - set (q # queue))"
    using new(3) q by auto
  have "V - (set (selected @ new) - set (queue @ new)) = V - (set selected - set (q # queue)) - {q}"
    unfolding left by auto
  moreover have "q \<in> V - (set selected - set (q # queue))" using q by auto
  ultimately have "card (V - (set (selected @ new) - set (queue @ new))) \<le> fuel"
    using "3.prems"(7) fin by (simp add: card_Diff_singleton_if)
  moreover have "set (selected @ new) \<subseteq> V" using "3.prems"(1,5) new(3) q by auto
  moreover have "\<forall>x \<in> set (selected @ new) - set (queue @ new). set (out x) \<subseteq> set (selected @ new)"
    unfolding left using "3.prems"(6) new(3) by auto
  moreover have "distinct (queue @ new)" "distinct (selected @ new)" "set (queue @ new) \<subseteq> set (selected @ new)"
    using "3.prems" new by auto
  ultimately obtain sel where sel: "downstreamLoop out fuel (queue @ new) (selected @ new) = Some sel"
    "distinct sel" "set sel = (succs out)\<^sup>* `` set (selected @ new)"
    using "3.IH" [OF new(1) [symmetric] "3.prems"(1)] by blast
  have "(q, x) \<in> succs out" if "x \<in> set new" for x using that new(3) by (simp add: succs_def)
  then have "(succs out)\<^sup>* `` set (selected @ new) = (succs out)\<^sup>* `` set selected"
    using q(1) by (auto intro: converse_rtrancl_into_rtrancl)
  then show ?case using sel new(1) by simp
qed

subsection \<open>The contract of \<open>Select\<close>\<close>

lemma checkSeed_ok [simp]: "checkSeed g name = Inr u \<longleftrightarrow> name \<noteq> '''' \<and> name \<in> nodeNames g"
  by (auto simp: checkSeed_def nodeNames_def split: list.splits)

lemma Names_describe [simp]: "Names (describeSelection g seeds sel d) = sort sel"
proof -
  have "sn_Node (selectionNode g seeds sel n) = n" for n by (simp add: selectionNode_def)
  then show ?thesis by (simp add: Names_def selNodes_def describeSelection_def comp_def)
qed

text \<open>The set a request stands for: the leaves themselves, or everything reachable from them.\<close>

definition selectedBy :: "Graph \<Rightarrow> string list \<Rightarrow> bool \<Rightarrow> string set" where
  "selectedBy g req downstream = (if downstream then (depends g)\<^sup>* `` set req else set req)"

definition validRequest :: "Graph \<Rightarrow> string list \<Rightarrow> bool" where
  "validRequest g req \<longleftrightarrow> req \<noteq> [] \<and> '''' \<notin> set req \<and> set req \<subseteq> nodeNames g"

lemma distinct_remdups_adj_sort [simp]: "distinct (remdups_adj (sort (xs :: 'a :: linorder list)))"
proof -
  have "sorted xs \<Longrightarrow> distinct (remdups_adj xs)" for xs :: "'a list"
    by (induction xs rule: remdups_adj.induct) (auto simp: order_le_less)
  then show ?thesis by simp
qed

lemma seeds_facts:
  "set (remdups_adj (sort req)) = set req" "distinct (remdups_adj (sort req))" "sorted (remdups_adj (sort req))"
  for req :: "string list"
  by (simp_all add: sorted_remdups_adj)

lemma Select_total:
  assumes wf: "wfGraph g" and req: "validRequest g req"
  shows "\<exists>sel. Select g (Some req) d = Inr (Some (describeSelection g (remdups_adj (sort req)) sel d)) \<and>
               distinct sel \<and> set sel = selectedBy g req d"
proof -
  let ?seeds = "remdups_adj (sort req)"
  have ok: "foldR (\<lambda>_ name. checkSeed g name) () ?seeds = Inr ()"
    using req by (auto simp: foldR_unit_iff validRequest_def)
  have closed: "\<forall>x \<in> nodeNames g. set (g_Out g x) \<subseteq> nodeNames g"
    using wfGraph_depends [OF wf] by (auto simp: depends_iff)
  have "card (nodeNames g) \<le> length (g_Nodes g)" using wf by (simp add: nodeNames_def card_keys wfGraphD)
  then obtain sel where sel: "downstreamLoop (g_Out g) (length (g_Nodes g)) ?seeds ?seeds = Some sel"
    "distinct sel" "set sel = (depends g)\<^sup>* `` set req"
    using downstreamLoop_total [OF finite_nodeNames closed, of ?seeds ?seeds "length (g_Nodes g)"]
      req by (auto simp: validRequest_def)
  show ?thesis
  proof (cases d)
    case True
    then show ?thesis
      using ok sel req by (auto simp: Select_def Let_def validRequest_def selectedBy_def)
  next
    case False
    then show ?thesis
      using ok req by (auto simp: Select_def Let_def validRequest_def selectedBy_def)
  qed
qed

lemma Select_Inr:
  assumes wf: "wfGraph g" and ok: "Select g (Some req) d = Inr r"
  shows "validRequest g req"
    and "\<exists>sel. r = Some (describeSelection g (remdups_adj (sort req)) sel d) \<and>
               distinct sel \<and> set sel = selectedBy g req d"
proof -
  show v: "validRequest g req"
    using ok by (auto simp: Select_def Let_def foldR_unit_iff validRequest_def split: if_splits)
  then show "\<exists>sel. r = Some (describeSelection g (remdups_adj (sort req)) sel d) \<and>
               distinct sel \<and> set sel = selectedBy g req d"
    using Select_total [OF wf v, of d] ok by auto
qed

lemma selectedBy_nodes: "wfGraph g \<Longrightarrow> validRequest g req \<Longrightarrow> selectedBy g req d \<subseteq> nodeNames g"
  by (auto simp: selectedBy_def validRequest_def intro: wfGraph_reach)

subsection \<open>The contract of \<open>ValidateMembership\<close>\<close>

lemma checkMembers_iff:
  "checkMembers members names \<longleftrightarrow> distinct names \<and> set members \<inter> set names = {} \<and> '''' \<notin> set names"
  by (induction names arbitrary: members) auto

lemma checkSeeds_iff:
  "checkSeeds members seeds names \<longleftrightarrow> distinct names \<and> set seeds \<inter> set names = {} \<and> set names \<subseteq> set members"
  by (induction names arbitrary: seeds) auto

lemma checkVia_iff:
  "sorted ps \<Longrightarrow> checkVia members node prev ps \<longleftrightarrow>
     set ps \<subseteq> set members - {node} \<and> distinct ps \<and> (\<forall>p. prev = Some p \<longrightarrow> (\<forall>q \<in> set ps. p \<le> q) \<longrightarrow> p \<notin> set ps)"
proof (induction ps arbitrary: prev)
  case (Cons p ps)
  then have IH: "checkVia members node (Some p) ps \<longleftrightarrow>
    set ps \<subseteq> set members - {node} \<and> distinct ps \<and> p \<notin> set ps" by auto
  have le: "\<forall>q \<in> set ps. p \<le> q" using Cons.prems by simp
  show ?case
  proof (cases "prev = Some p")
    case True
    then show ?thesis using le by auto
  next
    case False
    then have "prev = Some r \<Longrightarrow> (\<forall>q \<in> set (p # ps). r \<le> q) \<Longrightarrow> r \<notin> set (p # ps)" for r
      using le by (auto dest: order_antisym)
    then show ?thesis using IH False by auto
  qed
qed simp

lemma checkNodes_iff:
  "checkNodes s members seen prev ns \<longleftrightarrow>
     (\<forall>n \<in> set ns. sn_Node n \<in> set members \<and> sn_Node n \<notin> set seen \<and> sn_Via n \<noteq> None \<and> checkReason s members n) \<and>
     sorted_wrt (<) (map sn_Node ns) \<and> (\<forall>m. prev = Some m \<longrightarrow> (\<forall>n \<in> set ns. sn_Node m < sn_Node n))"
proof (induction ns arbitrary: seen prev)
  case (Cons n ns)
  have "(case prev of None \<Rightarrow> True | Some m \<Rightarrow> sn_Node m < sn_Node n) \<and> (\<forall>k \<in> set ns. sn_Node n < sn_Node k) \<longleftrightarrow>
        (\<forall>m. prev = Some m \<longrightarrow> (\<forall>k \<in> set (n # ns). sn_Node m < sn_Node k)) \<and> (\<forall>k \<in> set ns. sn_Node n < sn_Node k)"
    by (auto split: option.splits)
  then show ?case using Cons [of "seen @ [sn_Node n]" "Some n"] by auto
qed simp

lemma compare_pos: "compareBoundaryEdges a b > 0 \<longleftrightarrow> boundaryKey b < boundaryKey a"
  by (auto simp: compareBoundaryEdges_def)

lemma checkBoundary_iff:
  "checkBoundary members prev es \<longleftrightarrow>
     (\<forall>e \<in> set es. checkBoundaryEdge members e) \<and> sorted (map boundaryKey es) \<and>
     (\<forall>p. prev = Some p \<longrightarrow> (\<forall>e \<in> set es. boundaryKey p \<le> boundaryKey e))"
proof (induction es arbitrary: prev)
  case (Cons e es)
  have "(case prev of None \<Rightarrow> True | Some p \<Rightarrow> \<not> compareBoundaryEdges p e > 0) \<and> (\<forall>k \<in> set es. boundaryKey e \<le> boundaryKey k) \<longleftrightarrow>
        (\<forall>p. prev = Some p \<longrightarrow> (\<forall>k \<in> set (e # es). boundaryKey p \<le> boundaryKey k)) \<and> (\<forall>k \<in> set es. boundaryKey e \<le> boundaryKey k)"
    by (auto simp: compare_pos not_less split: option.splits)
  then show ?case using Cons [of "Some e"] by auto
qed simp

text \<open>The relation the recorded \<open>Via\<close> lists describe, and the set the fixpoint loop computes.\<close>

definition viaRel :: "SelectionNode list \<Rightarrow> (string \<times> string) set" where
  "viaRel nodes = {(p, sn_Node n) | p n. n \<in> set nodes \<and> p \<in> set (viaList n)}"

lemma reachPass_sound:
  "set (reachPass nodes reach) \<subseteq> (viaRel nodes)\<^sup>* `` set reach"
proof -
  have "set ns \<subseteq> set nodes \<Longrightarrow> set reach0 \<subseteq> (viaRel nodes)\<^sup>* `` set reach \<Longrightarrow>
        set (foldl reachNode reach0 ns) \<subseteq> (viaRel nodes)\<^sup>* `` set reach" for ns reach0
  proof (induction ns arbitrary: reach0)
    case (Cons n ns)
    have "set (reachNode reach0 n) \<subseteq> (viaRel nodes)\<^sup>* `` set reach"
    proof (cases "(\<exists>p \<in> set (viaList n). p \<in> set reach0) \<and> sn_Node n \<notin> set reach0")
      case True
      then obtain p where p: "p \<in> set (viaList n)" "p \<in> (viaRel nodes)\<^sup>* `` set reach" using Cons.prems by blast
      have "(p, sn_Node n) \<in> viaRel nodes" using p(1) Cons.prems(1) by (auto simp: viaRel_def)
      then have "sn_Node n \<in> (viaRel nodes)\<^sup>* `` set reach" using p(2) by (auto intro: rtrancl_into_rtrancl)
      then show ?thesis using Cons.prems(2) by (auto simp: reachNode_cases)
    qed (use Cons.prems(2) in \<open>auto simp: reachNode_cases\<close>)
    then show ?case using Cons by simp
  qed simp
  then show ?thesis unfolding reachPass_def by blast
qed

lemma reachPass_fixed:
  assumes "reachPass nodes reach = reach" "n \<in> set nodes" "p \<in> set (viaList n)" "p \<in> set reach"
  shows "sn_Node n \<in> set reach"
proof -
  have grow: "\<exists>new. foldl reachNode r ns = r @ new" for r ns
    using reachPass_grows [of ns r] by (auto simp: reachPass_def)
  obtain ns1 ns2 where ns: "nodes = ns1 @ n # ns2" using assms(2) by (meson split_list)
  obtain a where a: "foldl reachNode reach ns1 = reach @ a" using grow by blast
  obtain b where b: "reachPass nodes reach = reachNode (reach @ a) n @ b"
    using grow [of "reachNode (reach @ a) n" ns2] by (auto simp: reachPass_def ns a)
  have "sn_Node n \<in> set (reachNode (reach @ a) n)" using assms(3,4) by (auto simp: reachNode_cases)
  then show ?thesis using b assms(1) by (metis Un_iff set_append)
qed

lemma rtrancl_Image_absorb:
  assumes "B \<subseteq> r\<^sup>* `` A" "A \<subseteq> B"
  shows "r\<^sup>* `` B = r\<^sup>* `` A"
proof
  have "r\<^sup>* `` B \<subseteq> r\<^sup>* `` (r\<^sup>* `` A)" using assms(1) by (rule Image_mono [OF order_refl])
  then show "r\<^sup>* `` B \<subseteq> r\<^sup>* `` A" by (simp flip: relcomp_Image)
qed (use assms(2) in blast)

lemma reachLoop_spec: "set (reachLoop nodes reach) = (viaRel nodes)\<^sup>* `` set reach"
proof (induction nodes reach rule: reachLoop.induct)
  case (1 nodes reach)
  show ?case
  proof (cases "reachPass nodes reach = reach")
    case True
    have "y \<in> set reach" if "(x, y) \<in> (viaRel nodes)\<^sup>*" "x \<in> set reach" for x y
      using that
      by (induction rule: rtrancl_induct) (auto simp: viaRel_def dest: reachPass_fixed [OF True])
    then show ?thesis using True by (subst reachLoop.simps) auto
  next
    case False
    obtain new where new: "reachPass nodes reach = reach @ new" using reachPass_grows by blast
    have "(viaRel nodes)\<^sup>* `` set (reachPass nodes reach) = (viaRel nodes)\<^sup>* `` set reach"
      using reachPass_sound [of nodes reach] by (rule rtrancl_Image_absorb) (simp add: new)
    then show ?thesis using False 1 [OF refl False] by (subst reachLoop.simps) (simp add: Let_def)
  qed
qed

lemma reachPass_distinct: "distinct reach \<Longrightarrow> distinct (reachPass nodes reach)"
  unfolding reachPass_def by (rule foldl_inv) (auto simp: reachNode_cases)

lemma reachLoop_distinct: "distinct reach \<Longrightarrow> distinct (reachLoop nodes reach)"
proof (induction nodes reach rule: reachLoop.induct)
  case (1 nodes reach)
  then show ?case using reachPass_distinct by (subst reachLoop.simps) (auto simp: Let_def)
qed

text \<open>What an accepted record guarantees, as one predicate.\<close>

definition soundSelection :: "Selection \<Rightarrow> string list \<Rightarrow> bool" where
  "soundSelection s names \<longleftrightarrow>
     sl_SchemaVersion s = 1 \<and> sl_Mode s \<in> {''exact'', ''downstream''} \<and>
     sl_Nodes s \<noteq> None \<and> sl_BoundaryEdges s \<noteq> None \<and> sl_Requested s \<noteq> [] \<and>
     distinct names \<and> '''' \<notin> set names \<and>
     sorted_wrt (<) (Names s) \<and> set (Names s) = set names \<and>
     sorted_wrt (<) (sl_Requested s) \<and> set (sl_Requested s) \<subseteq> set names \<and>
     (\<forall>n \<in> set (selNodes s). sn_Via n \<noteq> None \<and> checkReason s names n) \<and>
     (viaRel (selNodes s))\<^sup>* `` set (sl_Requested s) = set names \<and>
     sorted (map boundaryKey (selBoundary s)) \<and> (\<forall>e \<in> set (selBoundary s). checkBoundaryEdge names e)"

lemma viaRel_members:
  assumes "\<forall>n \<in> set nodes. sn_Node n \<in> S" "set seeds \<subseteq> S"
  shows "(viaRel nodes)\<^sup>* `` set seeds \<subseteq> S"
proof -
  have "y \<in> S" if "(x, y) \<in> (viaRel nodes)\<^sup>*" "x \<in> set seeds" for x y
    using that by (induction rule: rtrancl_induct) (use assms in \<open>auto simp: viaRel_def\<close>)
  then show ?thesis by blast
qed

lemma ValidateMembership_iff: "ValidateMembership s names = Inr () \<longleftrightarrow> soundSelection s names"
proof -
  have card: "length (selNodes s) = length names \<longleftrightarrow> set (Names s) = set names"
    if "distinct names" "sorted_wrt (<) (Names s)" "set (Names s) \<subseteq> set names"
  proof -
    have "card (set (Names s)) = length (selNodes s)"
      using that(2) by (metis Names_def distinct_card length_map strict_sorted_iff)
    then show ?thesis using that by (metis List.finite_set card_subset_eq distinct_card)
  qed
  have reach: "length (reachLoop (selNodes s) (sl_Requested s)) = length names \<longleftrightarrow>
      (viaRel (selNodes s))\<^sup>* `` set (sl_Requested s) = set names"
    if "distinct names" "distinct (sl_Requested s)" "\<forall>n \<in> set (selNodes s). sn_Node n \<in> set names"
      "set (sl_Requested s) \<subseteq> set names"
    using reachLoop_distinct [OF that(2), of "selNodes s"] reachLoop_spec [of "selNodes s" "sl_Requested s"]
      viaRel_members [OF that(3,4)] that(1)
    by (metis List.finite_set card_subset_eq distinct_card)
  show ?thesis
  proof
    assume "ValidateMembership s names = Inr ()"
    then have ok: "sl_SchemaVersion s = 1" "sl_Mode s \<in> {''exact'', ''downstream''}" "sl_Requested s \<noteq> []"
      "sl_Nodes s \<noteq> None" "sl_BoundaryEdges s \<noteq> None" "checkMembers [] names"
      "length (selNodes s) = length names" "sorted (sl_Requested s)" "checkSeeds names [] (sl_Requested s)"
      "checkNodes s names [] None (selNodes s)"
      "length (reachLoop (selNodes s) (sl_Requested s)) = length names"
      "checkBoundary names None (selBoundary s)"
      by (auto simp: ValidateMembership_def split: if_splits)
    have m: "distinct names" "'''' \<notin> set names" using ok(6) by (auto simp: checkMembers_iff)
    have q: "distinct (sl_Requested s)" "set (sl_Requested s) \<subseteq> set names" using ok(9) by (auto simp: checkSeeds_iff)
    have n: "\<forall>n \<in> set (selNodes s). sn_Node n \<in> set names \<and> sn_Via n \<noteq> None \<and> checkReason s names n"
      "sorted_wrt (<) (Names s)" using ok(10) by (auto simp: checkNodes_iff Names_def)
    have "set (Names s) \<subseteq> set names" using n(1) by (auto simp: Names_def)
    then show "soundSelection s names"
      unfolding soundSelection_def
      using ok m q n card [OF m(1) n(2)] reach [OF m(1) q(1) _ q(2)]
      by (auto simp: checkBoundary_iff strict_sorted_iff)
  next
    assume sd: "soundSelection s names"
    then have d: "distinct names" "distinct (sl_Requested s)" "\<forall>n \<in> set (selNodes s). sn_Node n \<in> set names"
      "set (sl_Requested s) \<subseteq> set names" "sorted_wrt (<) (Names s)" "set (Names s) \<subseteq> set names"
      by (auto simp: soundSelection_def strict_sorted_iff Names_def)
    then show "ValidateMembership s names = Inr ()"
      using sd card [OF d(1,5,6)] reach [OF d(1-4)]
      by (auto simp: ValidateMembership_def soundSelection_def checkMembers_iff checkSeeds_iff
          checkNodes_iff checkBoundary_iff Names_def strict_sorted_iff)
  qed
qed

text \<open>
  The shape of edges that \<open>Build\<close> leaves in a graph: a data edge runs from a named output to a named
  input, an ordering edge has bare ends.
\<close>

definition edgeShape :: "Edge \<Rightarrow> bool" where
  "edgeShape e \<longleftrightarrow>
     (if IsDataEdge e
      then pr_Kind (e_From e) = PortOutput \<and> pr_Kind (e_To e) = PortInput \<and>
           pr_Name (e_From e) \<noteq> '''' \<and> pr_Name (e_To e) \<noteq> ''''
      else \<not> IsPort (e_From e) \<and> \<not> IsPort (e_To e) \<and> pr_Name (e_From e) = '''' \<and> pr_Name (e_To e) = '''')"

text \<open>The recorded predecessors of a node that was not requested lead back to a requested one.\<close>

lemma describe_reaches:
  assumes wf: "wfGraph g" and seeds: "set seeds = set req" and sel: "set sel = (depends g)\<^sup>* `` set req"
    and S: "set sel \<subseteq> nodeNames g"
  shows "(viaRel (map (selectionNode g seeds sel) (sort sel)))\<^sup>* `` set seeds = set sel" (is "?R\<^sup>* `` _ = _")
proof
  have "?R\<^sup>* `` set seeds \<subseteq> set sel"
  proof (rule viaRel_members)
    show "set seeds \<subseteq> set sel" using seeds sel by auto
  qed (auto simp: selectionNode_def)
  then show "?R\<^sup>* `` set seeds \<subseteq> set sel" .
  have "y \<in> ?R\<^sup>* `` set seeds" if "(x, y) \<in> (depends g)\<^sup>*" "x \<in> set req" for x y
    using that
  proof (induction rule: rtrancl_induct)
    case (step y z)
    show ?case
    proof (cases "z \<in> set seeds")
      case False
      have "y \<in> set sel" "z \<in> set sel" using step sel by (auto intro: rtrancl_into_rtrancl)
      moreover have "y \<in> set (g_In g z)"
        using step(2) adjacent_OutIn [OF wfGraphD(2) [OF wf]] by (simp add: depends_iff)
      ultimately have "(y, z) \<in> ?R" using False
        by (auto simp: viaRel_def selectionNode_def viaList_def intro!: exI [where x = "selectionNode g seeds sel z"])
      then show ?thesis using step by (auto intro: rtrancl_into_rtrancl)
    qed auto
  qed (use seeds in auto)
  then show "set sel \<subseteq> ?R\<^sup>* `` set seeds" using sel by auto
qed

lemma describe_reason:
  assumes wf: "wfGraph g" and seeds: "set seeds = set req" and sel: "set sel = selectedBy g req d"
    and loopfree: "\<forall>n. (n, n) \<notin> depends g" and n: "n \<in> set sel" and names: "set names = set sel"
  shows "checkReason (describeSelection g seeds sel d) names (selectionNode g seeds sel n)"
proof (cases "n \<in> set seeds")
  case True
  then show ?thesis
    by (simp add: checkReason_def selectionNode_def describeSelection_def viaList_def)
next
  case False
  let ?via = "remdups_adj (sort (filter (\<lambda>p. p \<in> set sel) (g_In g n)))"
  have d: d using False n sel seeds by (auto simp: selectedBy_def split: if_splits)
  then obtain x where x: "x \<in> set req" "(x, n) \<in> (depends g)\<^sup>*" using n sel by (auto simp: selectedBy_def)
  then have "x \<noteq> n" using False seeds by auto
  then obtain y where y: "(x, y) \<in> (depends g)\<^sup>*" "(y, n) \<in> depends g" using x(2) by (meson rtranclE)
  note inn = adjacent_OutIn [OF wfGraphD(2) [OF wf], of n]
  have "y \<in> set ?via" using x y sel d inn by (auto simp: selectedBy_def depends_iff)
  then have ne: "?via \<noteq> []" by (metis empty_iff empty_set)
  have "n \<notin> set (g_In g n)" using loopfree inn by (auto simp: depends_iff)
  then have "set ?via \<subseteq> set names - {n}" using names by auto
  moreover have "sorted ?via" "distinct ?via" by (simp_all add: sorted_remdups_adj)
  ultimately have "checkVia names n None ?via" by (subst checkVia_iff) auto
  then show ?thesis using False d ne \<open>sorted ?via\<close>
    by (simp add: checkReason_def selectionNode_def describeSelection_def viaList_def)
qed

lemma Select_sound:
  assumes wf: "wfGraph g" and ok: "Select g (Some req) d = Inr (Some s)"
    and loopfree: "\<forall>n. (n, n) \<notin> depends g" and names: "'''' \<notin> nodeNames g"
    and shape: "\<forall>e \<in> set (g_Edges g). edgeShape e"
    and perm: "distinct ns" "set ns = set (Names s)"
  shows "soundSelection s ns"
proof -
  let ?seeds = "remdups_adj (sort req)"
  note v = Select_Inr(1) [OF wf ok]
  obtain sel where s: "s = describeSelection g ?seeds sel d" and sel: "distinct sel" "set sel = selectedBy g req d"
    using Select_Inr(2) [OF wf ok] by auto
  have ns: "set ns = set sel" "set sel \<subseteq> nodeNames g" using perm(2) s sel(2) selectedBy_nodes [OF wf v] by auto
  have seeds: "set ?seeds = set req" "sorted_wrt (<) ?seeds" "?seeds \<noteq> []" "set ?seeds \<subseteq> set sel"
    using v sel(2) by (auto simp: strict_sorted_iff sorted_remdups_adj validRequest_def selectedBy_def
        simp flip: set_empty)
  have reach: "(viaRel (selNodes s))\<^sup>* `` set (sl_Requested s) = set ns"
  proof (cases d)
    case True
    then show ?thesis
      using describe_reaches [OF wf seeds(1) _ ns(2)] sel(2) ns(1)
      by (simp add: s selNodes_def describeSelection_def selectedBy_def)
  next
    case False
    then have "viaRel (selNodes s) = {}"
      using sel(2) seeds(1) by (auto simp: s selNodes_def describeSelection_def selectedBy_def viaRel_def
          selectionNode_def viaList_def)
    then show ?thesis using False sel(2) seeds(1) ns(1)
      by (simp add: s describeSelection_def selectedBy_def)
  qed
  have edges: "checkBoundaryEdge ns e" if "e \<in> set (selBoundary s)" for e
  proof -
    have e: "e \<in> set (g_Edges g)" "(pr_Node (e_From e) \<in> set sel) \<noteq> (pr_Node (e_To e) \<in> set sel)"
      using that by (auto simp: s selBoundary_def describeSelection_def)
    then have "edgeSrc e \<in> nodeNames g" "edgeDst e \<in> nodeNames g"
      using wfGraphD(3) [OF wf] by (auto simp: edgesClosed_def)
    then have "pr_Node (e_From e) \<noteq> ''''" "pr_Node (e_To e) \<noteq> ''''"
      using names by (auto simp: edgeSrc_def edgeDst_def)
    then show ?thesis
      using shape e ns(1) unfolding checkBoundaryEdge_def edgeShape_def by auto
  qed
  have nodes: "selNodes s = map (selectionNode g ?seeds sel) (sort sel)"
    by (simp add: s selNodes_def describeSelection_def)
  have "sn_Via (selectionNode g ?seeds sel n) \<noteq> None" for n by (simp add: selectionNode_def)
  then have reason: "\<forall>n \<in> set (selNodes s). sn_Via n \<noteq> None \<and> checkReason s ns n"
    unfolding nodes using describe_reason [OF wf seeds(1) sel(2) loopfree _ ns(1)] by (simp add: s)
  show ?thesis
    unfolding soundSelection_def
    using reach edges reason seeds ns perm(1) sel(1) names
    by (auto simp: s strict_sorted_sort) (auto simp: describeSelection_def selBoundary_def)
qed

subsection \<open>The filtered schedule\<close>

lemma keepLevels_concat: "concat (keepLevels ns ls) = filter (\<lambda>n. n \<in> set ns) (concat ls)"
  by (induction ls) (auto simp: keepLevels_def filter_concat)

text \<open>Dropping names and empty levels keeps the order of the levels.\<close>

lemma keepLevels_index:
  assumes "i \<le> j" "j < length (keepLevels ns ls)" "a \<in> set (keepLevels ns ls ! i)" "b \<in> set (keepLevels ns ls ! j)"
  shows "\<exists>i' j'. i' \<le> j' \<and> j' < length ls \<and> a \<in> set (ls ! i') \<and> b \<in> set (ls ! j')"
  using assms
proof (induction ls arbitrary: i j)
  case (Cons l ls)
  let ?k = "filter (\<lambda>n. n \<in> set ns) l"
  have shift: "\<exists>i' j'. i' \<le> j' \<and> j' < length (l # ls) \<and> a \<in> set ((l # ls) ! i') \<and> b \<in> set ((l # ls) ! j')"
    if "\<exists>i' j'. i' \<le> j' \<and> j' < length ls \<and> a \<in> set (ls ! i') \<and> b \<in> set (ls ! j')"
    using that by (metis Suc_le_mono Suc_less_eq length_Cons nth_Cons_Suc)
  show ?case
  proof (cases "?k = []")
    case True
    then have "keepLevels ns (l # ls) = keepLevels ns ls" by (simp add: keepLevels_def)
    then show ?thesis using Cons by (intro shift) metis
  next
    case False
    then have k: "keepLevels ns (l # ls) = ?k # keepLevels ns ls" by (simp add: keepLevels_def)
    show ?thesis
    proof (cases i)
      case 0
      have "b \<in> set (concat (keepLevels ns (l # ls)))" using Cons.prems by (auto intro: nth_mem)
      then have "b \<in> set (concat (l # ls))" by (auto simp: keepLevels_concat)
      then obtain j' where "j' < length (l # ls)" "b \<in> set ((l # ls) ! j')" by (metis UN_E in_set_conv_nth set_concat)
      then show ?thesis using Cons.prems(3) k 0 by (intro exI [where x = 0] exI [where x = j']) auto
    next
      case (Suc i0)
      then obtain j0 where "j = Suc j0" using Cons.prems(1) by (cases j) auto
      then show ?thesis using Cons.IH [of i0 j0] Cons.prems k Suc by (intro shift) auto
    qed
  qed
qed (simp add: keepLevels_def)

lemma Levels_path:
  assumes wf: "wfGraph g" and ok: "Levels g = Inr ls"
    and path: "(a, b) \<in> (depends g)\<^sup>+" and i: "i < length ls" "a \<in> set (ls ! i)"
  shows "j < length ls \<Longrightarrow> b \<in> set (ls ! j) \<Longrightarrow> i < j"
  using path
proof (induction arbitrary: j rule: trancl_induct)
  case (base y)
  then show ?case using Levels_edge [OF wf ok] i by blast
next
  case (step y z)
  have "y \<in> set (concat ls)" using wfGraph_depends(1) [OF wf step(2)] Levels_Inr(2) [OF wf ok] by simp
  then obtain k where k: "k < length ls" "y \<in> set (ls ! k)" by (metis UN_E in_set_conv_nth set_concat)
  then have "i < k" using step by blast
  also have "k < j" using Levels_edge [OF wf ok k(1) _ k(2) _ step(2)] step.prems by blast
  finally show ?case .
qed

lemma SelectedLevels_Some:
  "SelectedLevels g (Some ns) r = Inr out \<longleftrightarrow>
     (\<exists>ls. Levels g = Inr ls \<and> set ns \<subseteq> nodeNames g \<and> out = (if r then rev (keepLevels ns ls) else keepLevels ns ls))"
  by (auto simp: SelectedLevels_def foldR_unit_iff nodeNames_def)

lemma keepLevels_order:
  assumes wf: "wfGraph g" and ok: "Levels g = Inr ls" and path: "(a, b) \<in> (depends g)\<^sup>+"
    and i: "i < length (keepLevels ns ls)" "a \<in> set (keepLevels ns ls ! i)"
    and j: "j < length (keepLevels ns ls)" "b \<in> set (keepLevels ns ls ! j)"
  shows "i < j"
proof (rule ccontr)
  assume "\<not> i < j"
  then obtain j' i' where "j' \<le> i'" "i' < length ls" "b \<in> set (ls ! j')" "a \<in> set (ls ! i')"
    using keepLevels_index [of j i ns ls b a] i j by auto
  then show False using Levels_path [OF wf ok path, of i' j'] by simp
qed

lemma keepLevels_members:
  assumes wf: "wfGraph g" and ok: "Levels g = Inr ls" and ns: "set ns \<subseteq> nodeNames g"
  shows "set (concat (keepLevels ns ls)) = set ns" "distinct (concat (keepLevels ns ls))" "[] \<notin> set (keepLevels ns ls)"
  using Levels_Inr(2,3) [OF wf ok] ns unfolding keepLevels_concat
  by (auto simp: keepLevels_def)

lemma describe_parts:
  "sl_Requested (describeSelection g seeds sel d) = seeds"
  "selBoundary (describeSelection g seeds sel d) = sort_key boundaryKey
     (filter (\<lambda>e. (pr_Node (e_From e) \<in> set sel) \<noteq> (pr_Node (e_To e) \<in> set sel)) (g_Edges g))"
  by (simp_all add: describeSelection_def selBoundary_def)

subsection \<open>Properties\<close>

text \<open>
  C13: for a non-empty request of exact leaf names \<open>Select\<close> always returns a selection: its members are
  the requested leaves, or with \<open>--downstream\<close> everything reachable from them, in strictly increasing
  order; \<open>Requested\<close> is the request without repetition; the boundary edges are the edges of the graph
  with exactly one selected end, in the order of \<open>compareBoundaryEdges\<close>. Any other request is an error.
\<close>

theorem Select_closure:
  assumes wf: "wfGraph g"
  shows "(validRequest g req \<longrightarrow>
           (\<exists>s. Select g (Some req) d = Inr (Some s) \<and>
             set (Names s) = selectedBy g req d \<and> sorted_wrt (<) (Names s) \<and>
             set (sl_Requested s) = set req \<and> sorted_wrt (<) (sl_Requested s) \<and>
             mset (selBoundary s) =
               filter_mset (\<lambda>e. (edgeSrc e \<in> set (Names s)) \<noteq> (edgeDst e \<in> set (Names s))) (mset (g_Edges g)) \<and>
             sorted (map boundaryKey (selBoundary s)))) \<and>
         (\<not> validRequest g req \<longrightarrow> (\<exists>e. Select g (Some req) d = Inl e))"
proof (cases "validRequest g req")
  case True
  then obtain sel where "Select g (Some req) d = Inr (Some (describeSelection g (remdups_adj (sort req)) sel d))"
    "distinct sel" "set sel = selectedBy g req d" using Select_total [OF wf] by blast
  with True show ?thesis
    by (intro conjI impI exI [where x = "describeSelection g (remdups_adj (sort req)) sel d"])
      (simp_all add: describe_parts strict_sorted_sort strict_sorted_iff sorted_remdups_adj edgeSrc_def edgeDst_def)
next
  case False
  then show ?thesis using Select_Inr(1) [OF wf] by (cases "Select g (Some req) d") auto
qed

theorem Select_closure_witness:
  "(\<exists>s. Select sampleGraph (Some [''cluster'']) True = Inr (Some s) \<and> set (Names s) = {''cluster'', ''app''}) \<and>
   (\<exists>e. Select sampleGraph (Some [''nope'']) True = Inl e)"
proof -
  have run: "map_sum id (map_option Names) (Select sampleGraph (Some [''cluster'']) True) = Inr (Some [''app'', ''cluster''])"
    by code_simp
  have "validRequest sampleGraph [''cluster'']" "\<not> validRequest sampleGraph [''nope'']"
    by (simp_all add: validRequest_def sampleGraph_names)
  then show ?thesis
    using Select_closure [OF wf_sampleGraph, of "[''cluster'']" True]
      Select_closure [OF wf_sampleGraph, of "[''nope'']" True] run by auto
qed

text \<open>
  The check applied to stored selection metadata accepts what \<open>Select\<close> produced, for any
  repetition-free listing of the selected nodes: on a graph without self edges and empty names, whose
  edges have the shape \<open>Build\<close> gives them, \<open>ValidateMembership\<close> succeeds on every selection.
\<close>

lemma Select_accepted:
  assumes "wfGraph g" "\<forall>n. (n, n) \<notin> depends g" "'''' \<notin> nodeNames g" "\<forall>e \<in> set (g_Edges g). edgeShape e"
    and "Select g (Some req) d = Inr (Some s)" "distinct ns" "set ns = set (Names s)"
  shows "ValidateMembership s ns = Inr ()"
  using Select_sound [OF assms(1,5,2,3,4,6,7)] ValidateMembership_iff by blast

text \<open>
  C14: \<open>ValidateMembership\<close> accepts exactly the metadata with these guarantees (\<open>soundSelection\<close>): known
  schema version and mode, nodes strictly sorted and equal to the recorded members, every requested
  name a member, every other member reached from a requested one along recorded predecessors, and
  boundary edges sorted, well shaped and crossing the boundary.
\<close>

theorem ValidateMembership_exact: "isOk (ValidateMembership s names) \<longleftrightarrow> soundSelection s names"
  using ValidateMembership_iff [of s names] by (auto simp: isOk_iff)

text \<open>
  A filtered schedule holds exactly the selected nodes, once each, in non-empty levels, and keeps
  the order of the whole graph: whenever one selected node reaches another, even only through nodes
  that were left out, it is scheduled in an earlier level (a later one when reversed for destroy).
\<close>

lemma SelectedLevels_order:
  assumes "wfGraph g" "SelectedLevels g (Some ns) r = Inr ls"
  shows "set (concat ls) = set ns \<and> distinct (concat ls) \<and> [] \<notin> set ls \<and>
         (\<forall>a b i j. (a, b) \<in> (depends g)\<^sup>+ \<and> i < length ls \<and> j < length ls \<and> a \<in> set (ls ! i) \<and> b \<in> set (ls ! j)
            \<longrightarrow> (if r then j < i else i < j))"
proof -
  obtain lv where lv: "Levels g = Inr lv" "set ns \<subseteq> nodeNames g"
    and ls: "ls = (if r then rev (keepLevels ns lv) else keepLevels ns lv)"
    using assms(2) by (auto simp: SelectedLevels_Some)
  note m = keepLevels_members [OF assms(1) lv]
  have "distinct (concat (rev xs)) \<longleftrightarrow> distinct (concat xs)" for xs :: "string list list"
    by (rule mset_eq_imp_distinct_iff, induction xs) (simp_all add: union_commute)
  then have "set (concat ls) = set ns \<and> distinct (concat ls) \<and> [] \<notin> set ls"
    using m by (auto simp: ls)
  moreover have "if r then j < i else i < j"
    if "(a, b) \<in> (depends g)\<^sup>+" "i < length ls" "j < length ls" "a \<in> set (ls ! i)" "b \<in> set (ls ! j)" for a b i j
    using that keepLevels_order [OF assms(1) lv(1), of a b "if r then length ls - Suc i else i" ns "if r then length ls - Suc j else j"]
    by (cases r; simp add: ls rev_nth; linarith)
  ultimately show ?thesis by blast
qed

end
