(* ===== verification/Paths.thy ===== *)
theory Paths
  imports Prelude
begin

text \<open>
  The parts of Go's \<open>path/filepath\<close> the graph builder uses (Unix rules), and the operating system as
  a record of queries. The record stands for calls the program makes to the outside: environment
  variables, \<open>os.Stat\<close> and \<open>os.Lstat\<close>, \<open>exec.LookPath\<close>, the filesystem identity test of
  \<open>internal/pathidentity\<close>, and the readers of vendored metadata. Nothing is assumed about them.
\<close>

subsection \<open>Paths\<close>

definition IsAbs :: "string \<Rightarrow> bool" where
  "IsAbs p \<longleftrightarrow> HasPrefix p ''/''"

text \<open>\<open>Clean\<close>: components are processed left to right on a stack whose head is the last one kept.\<close>

definition cleanStep :: "bool \<Rightarrow> string list \<Rightarrow> string \<Rightarrow> string list" where
  "cleanStep rooted acc c =
     (if c = '''' \<or> c = ''.'' then acc
      else if c = ''..'' then
        (case acc of
           [] \<Rightarrow> if rooted then [] else [c]
         | x # xs \<Rightarrow> if x = ''..'' then c # acc else xs)
      else c # acc)"

definition Clean :: "string \<Rightarrow> string" where
  "Clean p =
     (if p = '''' then ''.''
      else let cs = rev (foldl (cleanStep (IsAbs p)) [] (splitOn CHR ''/'' p)) in
           if IsAbs p then ''/'' @ joinWith ''/'' cs
           else if cs = [] then ''.'' else joinWith ''/'' cs)"

definition Join :: "string list \<Rightarrow> string" where
  "Join elems =
     (case filter (\<lambda>e. e \<noteq> '''') elems of
        [] \<Rightarrow> ''''
      | es \<Rightarrow> Clean (joinWith ''/'' es))"

definition isAbsoluteAnywhere :: "string \<Rightarrow> bool" where
  "isAbsoluteAnywhere scope \<longleftrightarrow>
     IsAbs scope \<or> HasPrefix scope ''/'' \<or> HasPrefix scope [CHR 0x5C] \<or>
     (2 \<le> length scope \<and> scope ! 1 = CHR '':'' \<and>
      (let c = of_char (scope ! 0) :: nat in (97 \<le> c \<and> c \<le> 122) \<or> (65 \<le> c \<and> c \<le> 90)))"

definition IsBlueprintFilename :: "string \<Rightarrow> bool" where
  "IsBlueprintFilename name \<longleftrightarrow> HasSuffix name ''.hcl'' \<and> name \<noteq> ''.terraform.lock.hcl''"

text \<open>\<open>strings.TrimSpace\<close> (ASCII white space).\<close>

definition isSpace :: "char \<Rightarrow> bool" where
  "isSpace c \<longleftrightarrow> (of_char c :: nat) \<in> {9, 10, 11, 12, 13, 32}"

definition TrimSpace :: "string \<Rightarrow> string" where
  "TrimSpace s = rev (dropWhile isSpace (rev (dropWhile isSpace s)))"

subsection \<open>The operating system\<close>

record FileInfo =
  fi_Id :: nat
  fi_IsDir :: bool

datatype statResult = StatOk FileInfo | StatNotExist | StatFailed

record VendoredSource =
  vs_Subdir :: string

record OS =
  os_Getenv :: "string \<Rightarrow> string"
  os_Stat :: "string \<Rightarrow> statResult"
  os_Lstat :: "string \<Rightarrow> statResult"
  os_LookPath :: "string \<Rightarrow> string option"
  os_SamePath :: "string \<Rightarrow> string \<Rightarrow> unit + bool \<times> bool"
  os_ReadVendoredSource :: "string \<Rightarrow> unit + VendoredSource option"
  os_SourceDirectory :: "VendoredSource \<Rightarrow> string \<Rightarrow> unit + string"

definition SameFile :: "FileInfo \<Rightarrow> FileInfo \<Rightarrow> bool" where
  "SameFile a b \<longleftrightarrow> fi_Id a = fi_Id b"

subsection \<open>Which files a runtime reads\<close>

datatype FileMode = TerraformFiles | OpenTofuFiles | UnknownFiles

definition matchesRuntime :: "OS \<Rightarrow> FileInfo \<Rightarrow> string \<Rightarrow> bool" where
  "matchesRuntime os target name =
     (case os_LookPath os name of
        None \<Rightarrow> False
      | Some path \<Rightarrow> (case os_Stat os path of StatOk canonical \<Rightarrow> SameFile target canonical | _ \<Rightarrow> False))"

definition FileModeForBinary :: "OS \<Rightarrow> string \<Rightarrow> FileMode" where
  "FileModeForBinary os binary =
     (if binary = ''terraform'' then TerraformFiles
      else if binary = ''tofu'' then OpenTofuFiles
      else if \<not> IsAbs binary then UnknownFiles
      else (case os_Stat os binary of
              StatOk target \<Rightarrow>
                (case filter (\<lambda>(name, _). matchesRuntime os target name)
                        [(''terraform'', TerraformFiles), (''tofu'', OpenTofuFiles)] of
                   [(_, mode)] \<Rightarrow> mode
                 | _ \<Rightarrow> UnknownFiles)
            | _ \<Rightarrow> UnknownFiles))"

subsection \<open>Facts\<close>

text \<open>A cleaned rooted path stays rooted.\<close>

lemma Clean_abs: "IsAbs p \<Longrightarrow> IsAbs (Clean p)"
proof -
  assume "IsAbs p"
  then have "p \<noteq> []" by (auto simp: IsAbs_def HasPrefix_def)
  then show ?thesis using \<open>IsAbs p\<close> by (simp add: Clean_def Let_def IsAbs_def HasPrefix_def)
qed

text \<open>\<open>Clean\<close> leaves no empty or dot component, and in a rooted path no dot-dot either.\<close>

definition cleanComp :: "string \<Rightarrow> bool" where
  "cleanComp c \<longleftrightarrow> c \<noteq> '''' \<and> c \<noteq> ''.'' \<and> c \<noteq> ''..''"

lemma cleanStep_rooted:
  assumes "list_all cleanComp acc"
  shows "list_all cleanComp (foldl (cleanStep True) acc cs)"
proof (rule foldl_inv [where I = "list_all cleanComp"])
  fix s c assume "list_all cleanComp s"
  then show "list_all cleanComp (cleanStep True s c)"
    by (cases s) (simp_all add: cleanStep_def cleanComp_def)
qed (rule assms)

text \<open>A concrete system for examples: no environment, an empty filesystem, and path identity by name.\<close>

definition sampleOS :: OS where
  "sampleOS =
     \<lparr>os_Getenv = (\<lambda>_. ''''), os_Stat = (\<lambda>_. StatNotExist), os_Lstat = (\<lambda>_. StatNotExist), os_LookPath = (\<lambda>_. None),
      os_SamePath = (\<lambda>a b. Inr (a = b, True)), os_ReadVendoredSource = (\<lambda>_. Inr None),
      os_SourceDirectory = (\<lambda>s root. Inr (Join [root, vs_Subdir s]))\<rparr>"

end
