(* ===== verification/Backend.thy ===== *)
theory Backend
  imports Graph_Core Paths
begin

text \<open>
  State addresses (\<open>internal/graph/backend_address.go\<close>, \<open>backend_identity.go\<close>, and the functions
  \<open>backendProblems\<close> and \<open>remoteLockProblems\<close> of \<open>validate.go\<close>; \<open>mergeEnv\<close> and
  \<open>fillLocalBackendPath\<close> of \<open>build.go\<close>): how a node's backend configuration is inherited and
  completed, when two nodes are known or suspected to share a state, and when the graph lock object
  collides with a state object. A problem keeps its code, subject and severity; remedy and message
  texts are not modelled.
\<close>

subsection \<open>Problems\<close>

datatype Severity = SeverityError | SeverityWarning

record Problem =
  p_Code :: string
  p_Subject :: string
  p_Severity :: Severity

definition IsError :: "Problem \<Rightarrow> bool" where
  "IsError p \<longleftrightarrow> p_Severity p = SeverityError"

definition errorP :: "string \<Rightarrow> string \<Rightarrow> Problem" where
  "errorP code subject = \<lparr>p_Code = code, p_Subject = subject, p_Severity = SeverityError\<rparr>"

definition warningP :: "string \<Rightarrow> string \<Rightarrow> Problem" where
  "warningP code subject = \<lparr>p_Code = code, p_Subject = subject, p_Severity = SeverityWarning\<rparr>"

definition noErrors :: "Problem list \<Rightarrow> bool" where
  "noErrors ps \<longleftrightarrow> (\<forall>p \<in> set ps. \<not> IsError p)"

subsection \<open>Inheriting and completing a backend configuration\<close>

text \<open>Later writes win; a nil result and an empty one are both the empty list.\<close>

definition mergeEnv :: "string smap \<Rightarrow> string smap \<Rightarrow> string smap" where
  "mergeEnv base override = foldl (\<lambda>m (k, v). AList.update k v m) base override"

definition mergeBackendAddress :: "string smap option \<Rightarrow> string smap option \<Rightarrow> string smap option" where
  "mergeBackendAddress base override =
     (if override = Some [] then override
      else (case mergeEnv (case base of None \<Rightarrow> [] | Some b \<Rightarrow> b) (case override of None \<Rightarrow> [] | Some c \<Rightarrow> c) of
              [] \<Rightarrow> None | m \<Rightarrow> Some m))"

datatype addressError = KeyNotEstablished string

definition fillBackendAddress :: "bpNode \<Rightarrow> Schema option \<Rightarrow> addressError + bpNode" where
  "fillBackendAddress n schema =
     (case (bn_BackendAddress n, schema) of
        (Some (a # as), Some s) \<Rightarrow>
          let addr = a # as in
          if sc_Backend s \<noteq> ''s3'' then Inr n
          else if hasKey (bn_BackendConfig n) ''key'' then Inr n
          else if hasKey (sc_BackendConfig s) ''key'' \<or>
                  (case sc_BackendAttributes s of None \<Rightarrow> False | Some m \<Rightarrow> map_of m ''key'' = Some True) then Inr n
          else if sc_BackendAttributes s = None then Inl (KeyNotEstablished (bn_Name n))
          else
            let name = (if sget addr ''s3_key_name'' = '''' then ''terraform.tfstate'' else sget addr ''s3_key_name'');
                key = bn_Name n @ ''/'' @ name;
                prefix = sget addr ''s3_key_prefix'';
                key' = (if prefix = '''' then key else TrimSuffix prefix ''/'' @ ''/'' @ key) in
            Inr (n\<lparr>bn_BackendConfig := AList.update ''key'' key' (bn_BackendConfig n)\<rparr>)
      | _ \<Rightarrow> Inr n)"

definition fillLocalBackendPath :: "string smap \<Rightarrow> Schema option \<Rightarrow> string \<Rightarrow> string \<Rightarrow> string smap" where
  "fillLocalBackendPath cfg schema rootDir name =
     (case schema of
        None \<Rightarrow> cfg
      | Some s \<Rightarrow>
          if sc_Backend s \<noteq> ''local'' then cfg
          else if sget cfg ''path'' \<noteq> '''' then cfg
          else AList.update ''path'' (Join [rootDir, ''.terragraph'', ''state'', name @ ''.tfstate'']) cfg)"

subsection \<open>Addresses\<close>

definition effectiveBackendConfig :: "gNode \<Rightarrow> string smap" where
  "effectiveBackendConfig n =
     (case gn_Schema n of
        None \<Rightarrow> bn_BackendConfig (gn_Node n)
      | Some s \<Rightarrow> mergeEnv (sc_BackendConfig s) (bn_BackendConfig (gn_Node n)))"

definition nodeEnvironment :: "OS \<Rightarrow> gNode \<Rightarrow> string \<Rightarrow> string" where
  "nodeEnvironment os n key = (case map_of (gn_Env n) key of Some v \<Rightarrow> v | None \<Rightarrow> os_Getenv os key)"

definition orElse :: "string \<Rightarrow> string \<Rightarrow> string" where
  "orElse a b = (if a = '''' then b else a)"

definition localStatePath :: "OS \<Rightarrow> gNode \<Rightarrow> string option" where
  "localStatePath os n =
     (case gn_Schema n of
        None \<Rightarrow> None
      | Some s \<Rightarrow>
          if \<not> sc_BackendConfigKnown s \<or> (sc_Backend s \<noteq> '''' \<and> sc_Backend s \<noteq> ''local'') \<or> gn_Dir n = '''' then None
          else
            let cfg = effectiveBackendConfig n;
                workspace = nodeEnvironment os n ''TF_WORKSPACE'';
                state = (if workspace \<noteq> '''' \<and> workspace \<noteq> ''default''
                         then Join [orElse (sget cfg ''workspace_dir'') ''terraform.tfstate.d'', workspace, ''terraform.tfstate'']
                         else orElse (sget cfg ''path'') ''terraform.tfstate'') in
            Some (if IsAbs state then state else Join [gn_Dir n, state]))"

record s3StateAddress =
  sa_bucket :: string
  sa_key :: string
  sa_endpoint :: string
  sa_partition :: string

definition awsPartition :: "string \<Rightarrow> string" where
  "awsPartition region =
     (if region = '''' \<or> ContainsStr region ''-iso'' then ''''
      else if HasPrefix region ''cn-'' then ''aws-cn''
      else if HasPrefix region ''us-gov-'' then ''aws-us-gov''
      else ''aws'')"

definition noAddress :: s3StateAddress where
  "noAddress = \<lparr>sa_bucket = '''', sa_key = '''', sa_endpoint = '''', sa_partition = ''''\<rparr>"

definition s3Address :: "OS \<Rightarrow> gNode \<Rightarrow> s3StateAddress \<times> bool" where
  "s3Address os n =
     (case gn_Schema n of
        None \<Rightarrow> (noAddress, False)
      | Some s \<Rightarrow>
          if \<not> sc_BackendConfigKnown s \<or> sc_Backend s \<noteq> ''s3'' then (noAddress, False)
          else
            let cfg = effectiveBackendConfig n in
            if sget cfg ''bucket'' = '''' \<or> sget cfg ''key'' = '''' then (noAddress, False)
            else
              let workspace = nodeEnvironment os n ''TF_WORKSPACE'';
                  prefix = (case map_of cfg ''workspace_key_prefix'' of None \<Rightarrow> ''env:'' | Some p \<Rightarrow> p);
                  key = (if workspace \<noteq> '''' \<and> workspace \<noteq> ''default''
                         then Join [prefix, workspace, sget cfg ''key''] else sget cfg ''key'');
                  endpoint = orElse (orElse (sget cfg ''endpoint'') (nodeEnvironment os n ''AWS_ENDPOINT_URL_S3''))
                               (nodeEnvironment os n ''AWS_ENDPOINT_URL'');
                  region = orElse (orElse (sget cfg ''region'') (nodeEnvironment os n ''AWS_REGION''))
                             (nodeEnvironment os n ''AWS_DEFAULT_REGION'');
                  partition = awsPartition region in
              (\<lparr>sa_bucket = sget cfg ''bucket'', sa_key = key, sa_endpoint = endpoint, sa_partition = partition\<rparr>,
               partition \<noteq> ''''))"

definition possibleS3Collision :: "s3StateAddress \<Rightarrow> s3StateAddress \<Rightarrow> bool" where
  "possibleS3Collision a b \<longleftrightarrow>
     sa_bucket a \<noteq> '''' \<and> sa_key a \<noteq> '''' \<and> sa_bucket a = sa_bucket b \<and> sa_key a = sa_key b \<and>
     (sa_endpoint a = '''' \<or> sa_endpoint b = '''' \<or> sa_endpoint a = sa_endpoint b) \<and>
     (sa_partition a = '''' \<or> sa_partition b = '''')"

subsection \<open>Comparing nodes pairwise\<close>

definition pairSubject :: "string \<Rightarrow> string \<Rightarrow> string" where
  "pairSubject a b = ''node.'' @ a @ '',node.'' @ b"

definition localPairProblems :: "OS \<Rightarrow> string \<times> gNode \<Rightarrow> string \<times> gNode \<Rightarrow> Problem list" where
  "localPairProblems os a b =
     (case (localStatePath os (snd a), localStatePath os (snd b)) of
        (Some aPath, Some bPath) \<Rightarrow>
          (case os_SamePath os aPath bPath of
             Inl _ \<Rightarrow> [errorP ''state_identity_failed'' (pairSubject (fst a) (fst b))]
           | Inr (same, known) \<Rightarrow>
               if known \<and> same then [errorP ''state_conflict'' (pairSubject (fst a) (fst b))]
               else if \<not> known then [warningP ''state_identity_unverified'' (pairSubject (fst a) (fst b))]
               else [])
      | _ \<Rightarrow> [])"

definition s3PairProblems :: "OS \<Rightarrow> string \<times> gNode \<Rightarrow> string \<times> gNode \<Rightarrow> Problem list" where
  "s3PairProblems os a b =
     (let (aAddr, knownA) = s3Address os (snd a); (bAddr, knownB) = s3Address os (snd b) in
      if knownA \<and> knownB \<and> aAddr = bAddr then [errorP ''state_conflict'' (pairSubject (fst a) (fst b))]
      else if possibleS3Collision aAddr bAddr
      then [warningP ''state_identity_unverified'' (pairSubject (fst a) (fst b))] else [])"

definition pairProblems :: "OS \<Rightarrow> string \<times> gNode \<Rightarrow> string \<times> gNode \<Rightarrow> Problem list" where
  "pairProblems os a b =
     (if gn_Dir (snd a) = gn_Dir (snd b) \<and>
         mapsEqual (bn_BackendConfig (gn_Node (snd a))) (bn_BackendConfig (gn_Node (snd b)))
      then [] else localPairProblems os a b @ s3PairProblems os a b)"

fun allPairs :: "('a \<Rightarrow> 'a \<Rightarrow> 'b list) \<Rightarrow> 'a list \<Rightarrow> 'b list" where
  "allPairs f [] = []"
| "allPairs f (x # xs) = concat (map (f x) xs) @ allPairs f xs"

text \<open>The nodes in the order of their names, each with its value.\<close>

definition sortedNodes :: "Graph \<Rightarrow> (string \<times> gNode) list" where
  "sortedNodes g = sort_key fst (g_Nodes g)"

definition knownBackendProblems :: "OS \<Rightarrow> Graph \<Rightarrow> Problem list" where
  "knownBackendProblems os g = allPairs (pairProblems os) (sortedNodes g)"

subsection \<open>backendProblems\<close>

definition nodeBackend :: "gNode \<Rightarrow> string" where
  "nodeBackend n = (case gn_Schema n of None \<Rightarrow> '''' | Some s \<Rightarrow> sc_Backend s)"

definition nodeBackendProblems :: "string \<times> gNode \<Rightarrow> Problem list" where
  "nodeBackendProblems x =
     (let (name, n) = x; cfg = bn_BackendConfig (gn_Node n); statePath = sget cfg ''path'' in
      (if cfg \<noteq> [] \<and> (nodeBackend n = '''' \<or> nodeBackend n = ''cloud'')
       then [errorP ''backend_missing'' (''node.'' @ name)] else []) @
      (if nodeBackend n = ''local'' \<and> statePath \<noteq> '''' \<and> \<not> IsAbs statePath
       then [warningP ''relative_state_path'' (''node.'' @ name @ ''.backend_config.path'')] else []))"

text \<open>The partitions of the nodes of one directory by equal configuration, in order of appearance.\<close>

fun addToParts :: "(string smap \<times> string list) list \<Rightarrow> string smap \<Rightarrow> string \<Rightarrow> (string smap \<times> string list) list" where
  "addToParts [] cfg name = [(cfg, [name])]"
| "addToParts ((c, ns) # parts) cfg name =
     (if mapsEqual c cfg then (c, ns @ [name]) # parts else (c, ns) # addToParts parts cfg name)"

definition partsOf :: "(string \<times> gNode) list \<Rightarrow> (string smap \<times> string list) list" where
  "partsOf ns = foldl (\<lambda>parts (name, n). addToParts parts (bn_BackendConfig (gn_Node n)) name) [] ns"

definition dirProblems :: "(string \<times> gNode) list \<Rightarrow> string \<Rightarrow> Problem list" where
  "dirProblems ns dir =
     (let here = filter (\<lambda>(_, n). gn_Dir n = dir) ns in
      if length here < 2 then []
      else concat (map (\<lambda>(_, names). if length names < 2 then [] else [errorP ''backend_conflict'' dir]) (partsOf here)))"

definition backendProblems :: "Graph \<Rightarrow> Problem list" where
  "backendProblems g =
     (let ns = sortedNodes g;
          dirs = sort (remdups (filter (\<lambda>d. d \<noteq> '''') (map (\<lambda>(_, n). gn_Dir n) ns))) in
      concat (map nodeBackendProblems ns) @ concat (map (dirProblems ns) dirs))"

subsection \<open>remoteLockProblems\<close>

definition remoteLockBackends :: "string list" where
  "remoteLockBackends = [''s3'', ''gcs'', ''azurerm'', ''http'', ''remote'', ''cloud'']"

definition lockAddress :: "OS \<Rightarrow> S3Lock \<Rightarrow> s3StateAddress" where
  "lockAddress os l =
     \<lparr>sa_bucket = s3_Bucket l, sa_key = s3_Key l,
      sa_endpoint = orElse (os_Getenv os ''AWS_ENDPOINT_URL_S3'') (os_Getenv os ''AWS_ENDPOINT_URL''),
      sa_partition = awsPartition (s3_Region l)\<rparr>"

definition lockCollision :: "OS \<Rightarrow> S3Lock \<Rightarrow> gNode \<Rightarrow> bool \<times> bool" where
  "lockCollision os l n =
     (let cfg = bn_BackendConfig (gn_Node n);
          partial = s3_Key l \<noteq> '''' \<and> nodeBackend n = ''s3'' \<and> sget cfg ''key'' = s3_Key l \<and>
                    (sget cfg ''bucket'' = '''' \<or> sget cfg ''bucket'' = s3_Bucket l);
          (address, known) = s3Address os n in
      (if known then address = lockAddress os l else partial, possibleS3Collision address (lockAddress os l)))"

definition nodeLockProblems :: "OS \<Rightarrow> Lock \<Rightarrow> string \<times> gNode \<Rightarrow> Problem list" where
  "nodeLockProblems os lk x =
     (let (name, n) = x in
      (if nodeBackend n \<in> set remoteLockBackends then [] else [errorP ''remote_backend_required'' (''node.'' @ name)]) @
      (case lk_S3 lk of
         None \<Rightarrow> []
       | Some l \<Rightarrow>
           if fst (lockCollision os l n) then [errorP ''lock_state_conflict'' (''node.'' @ name)]
           else if snd (lockCollision os l n) then [warningP ''lock_state_unverified'' (''node.'' @ name)]
           else []))"

definition remoteLockProblems :: "OS \<Rightarrow> Graph \<Rightarrow> Problem list" where
  "remoteLockProblems os g =
     (case g_Lock g of None \<Rightarrow> [] | Some lk \<Rightarrow> concat (map (nodeLockProblems os lk) (sortedNodes g)))"

subsection \<open>Facts\<close>

lemma noErrors_simps [simp]:
  "noErrors []" "noErrors (p # ps) \<longleftrightarrow> \<not> IsError p \<and> noErrors ps"
  "noErrors (ps @ qs) \<longleftrightarrow> noErrors ps \<and> noErrors qs"
  by (auto simp: noErrors_def)

lemma noErrors_concat_map [simp]: "noErrors (concat (map f xs)) \<longleftrightarrow> (\<forall>x \<in> set xs. noErrors (f x))"
  by (auto simp: noErrors_def)

lemma IsError_simps [simp]: "IsError (errorP c s)" "\<not> IsError (warningP c s)"
  by (simp_all add: IsError_def errorP_def warningP_def)

lemma map_of_mergeEnv:
  assumes "distinctKeys override"
  shows "map_of (mergeEnv base override) k = (case map_of override k of Some v \<Rightarrow> Some v | None \<Rightarrow> map_of base k)"
  using assms
proof (induction override arbitrary: base)
  case (Cons kv override)
  obtain k' v' where kv: "kv = (k', v')" by fastforce
  have "map_of override k' = None" using Cons.prems kv by (simp add: distinctKeys_def map_of_eq_None_iff)
  then show ?case
    using Cons kv by (auto simp: mergeEnv_def distinctKeys_def update_conv' split: option.splits)
qed (simp add: mergeEnv_def)

lemma distinctKeys_mergeEnv [simp, inv_keep]: "distinctKeys base \<Longrightarrow> distinctKeys (mergeEnv base override)"
  unfolding mergeEnv_def by (rule foldl_inv [where I = distinctKeys]) auto

lemma noErrors_allPairs:
  "noErrors (allPairs f xs) \<Longrightarrow> xs = us @ x # vs \<Longrightarrow> y \<in> set vs \<Longrightarrow> noErrors (f x y)"
  by (induction xs arbitrary: us) (auto simp: Cons_eq_append_conv)

lemma sortedNodes_facts:
  assumes "wfGraph g"
  shows "set (sortedNodes g) = set (g_Nodes g)" "sorted_wrt (<) (map fst (sortedNodes g))"
proof -
  show "set (sortedNodes g) = set (g_Nodes g)" by (simp add: sortedNodes_def)
  have "distinct (map fst (sortedNodes g))"
    using assms by (simp add: wfGraph_def distinctKeys_def sortedNodes_def distinct_map)
  then show "sorted_wrt (<) (map fst (sortedNodes g))"
    by (simp add: sortedNodes_def strict_sorted_iff)
qed

lemma noErrors_knownPair:
  assumes wf: "wfGraph g" and ok: "noErrors (knownBackendProblems os g)"
    and ab: "(a, m) \<in> set (g_Nodes g)" "(b, n) \<in> set (g_Nodes g)" "a < b"
  shows "noErrors (pairProblems os (a, m) (b, n))"
proof -
  have a: "(a, m) \<in> set (sortedNodes g)" and b: "(b, n) \<in> set (sortedNodes g)"
    using ab sortedNodes_facts(1) [OF wf] by auto
  obtain us vs where s: "sortedNodes g = us @ (a, m) # vs" using a by (meson split_list)
  have "(b, n) \<notin> set us"
    using sortedNodes_facts(2) [OF wf] ab(3) unfolding s by (force simp: sorted_wrt_append)
  then have "(b, n) \<in> set vs" using b ab(3) s by auto
  then show ?thesis using noErrors_allPairs [OF ok [unfolded knownBackendProblems_def] s] by blast
qed

text \<open>The nodes of the first partition with a given configuration are all the nodes that have it.\<close>

fun namesIn :: "(string smap \<times> string list) list \<Rightarrow> string smap \<Rightarrow> string list" where
  "namesIn [] cfg = []"
| "namesIn ((c, ns) # parts) cfg = (if map_of c = map_of cfg then ns else namesIn parts cfg)"

abbreviation (input) cfgOf :: "gNode \<Rightarrow> string smap" where
  "cfgOf n \<equiv> bn_BackendConfig (gn_Node n)"

lemma addToParts_names:
  assumes "\<forall>(c, _) \<in> set parts. distinctKeys c" "distinctKeys cfg"
  shows "namesIn (addToParts parts cfg name) c' =
           (if map_of c' = map_of cfg then namesIn parts cfg @ [name] else namesIn parts c')"
    and "\<forall>(c, _) \<in> set (addToParts parts cfg name). distinctKeys c"
  using assms by (induction parts cfg name rule: addToParts.induct) (auto simp: mapsEqual_iff)

lemma partsOf_names:
  assumes "\<forall>(_, n) \<in> set ns. distinctKeys (cfgOf n)"
  shows "namesIn (partsOf ns) cfg = map fst (filter (\<lambda>(_, n). map_of (cfgOf n) = map_of cfg) ns)"
proof -
  have "namesIn (foldl (\<lambda>parts (name, n). addToParts parts (cfgOf n) name) parts ns) cfg =
        namesIn parts cfg @ map fst (filter (\<lambda>(_, n). map_of (cfgOf n) = map_of cfg) ns)"
    if "\<forall>(c, _) \<in> set parts. distinctKeys c" for parts
    using assms that
  proof (induction ns arbitrary: parts)
    case (Cons x ns)
    obtain name n where x: "x = (name, n)" by fastforce
    have d: "distinctKeys (cfgOf n)" using Cons.prems(1) x by simp
    note a = addToParts_names [OF Cons.prems(2) d, of name]
    have "namesIn parts (cfgOf n) = namesIn parts cfg" if "map_of (cfgOf n) = map_of cfg"
      using that by (induction parts) auto
    then show ?case using Cons.IH [OF _ a(2)] Cons.prems(1) a(1) [of cfg] x by auto
  qed simp
  then show ?thesis by (simp add: partsOf_def)
qed

lemma namesIn_long: "2 \<le> length (namesIn parts cfg) \<Longrightarrow> \<exists>(c, ns) \<in> set parts. 2 \<le> length ns"
  by (induction parts cfg rule: namesIn.induct) (auto split: if_splits)

lemma two_members: "x \<in> set xs \<Longrightarrow> y \<in> set xs \<Longrightarrow> x \<noteq> y \<Longrightarrow> 2 \<le> length xs"
  by (cases xs; cases "tl xs") auto

lemma noErrors_dirs:
  assumes wf: "wfGraph g" and keys: "\<forall>(_, n) \<in> set (g_Nodes g). distinctKeys (cfgOf n)"
    and ok: "noErrors (backendProblems g)"
    and ab: "(a, m) \<in> set (g_Nodes g)" "(b, n) \<in> set (g_Nodes g)" "a \<noteq> b"
    and dir: "gn_Dir m = gn_Dir n" "gn_Dir n \<noteq> ''''"
  shows "map_of (cfgOf m) \<noteq> map_of (cfgOf n)"
proof
  assume eq: "map_of (cfgOf m) = map_of (cfgOf n)"
  let ?here = "filter (\<lambda>(_, k). gn_Dir k = gn_Dir n) (sortedNodes g)"
  have mem: "(a, m) \<in> set ?here" "(b, n) \<in> set ?here"
    using ab dir sortedNodes_facts(1) [OF wf] by auto
  have "a \<in> set (namesIn (partsOf ?here) (cfgOf n))" "b \<in> set (namesIn (partsOf ?here) (cfgOf n))"
    using mem eq keys sortedNodes_facts(1) [OF wf] by (subst partsOf_names; force)+
  then have "2 \<le> length (namesIn (partsOf ?here) (cfgOf n))" using ab(3) by (rule two_members)
  then obtain c ns where "(c, ns) \<in> set (partsOf ?here)" "2 \<le> length ns" using namesIn_long by blast
  moreover have "2 \<le> length ?here" using mem ab(3) by (intro two_members [of "(a, m)" _ "(b, n)"]) auto
  ultimately have "\<not> noErrors (dirProblems (sortedNodes g) (gn_Dir n))"
    by (auto simp: dirProblems_def Let_def not_less intro!: bexI [where x = "(c, ns)"])
  moreover have "gn_Dir n \<in> (\<lambda>(_, k). gn_Dir k) ` set (sortedNodes g)" using mem(2) by force
  ultimately show False using ok dir(2) by (force simp: backendProblems_def Let_def)
qed

text \<open>What one generated key looks like.\<close>

lemma fillBackendAddress_key:
  assumes "fillBackendAddress n s = Inr n'" "bn_BackendConfig n' \<noteq> bn_BackendConfig n"
  shows "\<exists>addr. bn_BackendAddress n = Some addr \<and> map_of (bn_BackendConfig n) ''key'' = None \<and>
     bn_BackendConfig n' = AList.update ''key''
       ((if sget addr ''s3_key_prefix'' = '''' then '''' else TrimSuffix (sget addr ''s3_key_prefix'') ''/'' @ ''/'')
        @ bn_Name n @ ''/'' @ orElse (sget addr ''s3_key_name'') ''terraform.tfstate'') (bn_BackendConfig n)"
  using assms
  by (auto simp: fillBackendAddress_def Let_def orElse_def map_of_eq_None_iff
      split: option.splits list.splits if_splits)

subsection \<open>Properties\<close>

text \<open>
  C15: state isolation. When the backend checks of a graph report no error, two different nodes never
  have the same fully known S3 state address, and never have local state paths that the filesystem
  identifies as one file (nor paths it failed to compare). This includes nodes that share a module
  directory, which the pairwise comparison skips.
\<close>

theorem backend_isolation:
  assumes wf: "wfGraph g" and keys: "\<forall>(_, n) \<in> set (g_Nodes g). distinctKeys (bn_BackendConfig (gn_Node n)) \<and> gn_Dir n \<noteq> ''''"
    and ok: "noErrors (backendProblems g @ knownBackendProblems os g)"
    and ab: "(a, m) \<in> set (g_Nodes g)" "(b, n) \<in> set (g_Nodes g)" "a < b"
  shows "\<not> (snd (s3Address os m) \<and> snd (s3Address os n) \<and> fst (s3Address os m) = fst (s3Address os n)) \<and>
         (case (localStatePath os m, localStatePath os n) of
            (Some p, Some q) \<Rightarrow> (case os_SamePath os p q of Inl _ \<Rightarrow> False | Inr (same, known) \<Rightarrow> \<not> (same \<and> known))
          | _ \<Rightarrow> True)"
proof -
  have "\<not> (gn_Dir m = gn_Dir n \<and> mapsEqual (bn_BackendConfig (gn_Node m)) (bn_BackendConfig (gn_Node n)))"
  proof
    assume same: "gn_Dir m = gn_Dir n \<and> mapsEqual (bn_BackendConfig (gn_Node m)) (bn_BackendConfig (gn_Node n))"
    have k: "\<forall>(_, n) \<in> set (g_Nodes g). distinctKeys (bn_BackendConfig (gn_Node n))" using keys by blast
    have d: "distinctKeys (bn_BackendConfig (gn_Node m))" "distinctKeys (bn_BackendConfig (gn_Node n))" "gn_Dir n \<noteq> ''''"
      using keys ab by auto
    then have "map_of (bn_BackendConfig (gn_Node m)) = map_of (bn_BackendConfig (gn_Node n))"
      using same by (simp add: mapsEqual_iff)
    then show False using noErrors_dirs [OF wf k _ ab(1,2)] ok ab(3) same d(3) by auto
  qed
  then have "noErrors (localPairProblems os (a, m) (b, n))" "noErrors (s3PairProblems os (a, m) (b, n))"
    using noErrors_knownPair [OF wf _ ab] ok by (auto simp: pairProblems_def split: if_splits)
  then show ?thesis
    by (auto simp: localPairProblems_def s3PairProblems_def split: option.splits sum.splits if_splits prod.splits)
qed

theorem backend_isolation_witness:
  "noErrors (backendProblems sampleGraph @ knownBackendProblems sampleOS sampleGraph) \<and>
   localStatePath sampleOS (snd (sampleNode ''cluster'' [''vpc''] [''host''])) = Some ''/bp/cluster/terraform.tfstate'' \<and>
   \<not> (case os_SamePath sampleOS ''/bp/cluster/terraform.tfstate'' ''/bp/network/terraform.tfstate'' of
        Inl _ \<Rightarrow> False | Inr (same, known) \<Rightarrow> same \<and> known)"
proof -
  have ok: "noErrors (backendProblems sampleGraph @ knownBackendProblems sampleOS sampleGraph)"
    unfolding noErrors_def by code_simp
  have p: "localStatePath sampleOS (snd (sampleNode ''cluster'' [''vpc''] [''host''])) = Some ''/bp/cluster/terraform.tfstate''"
    "localStatePath sampleOS (snd (sampleNode ''network'' [] [''vpc''])) = Some ''/bp/network/terraform.tfstate''"
    by code_simp+
  have nodes: "g_Nodes sampleGraph = [sampleNode ''network'' [] [''vpc''], sampleNode ''cluster'' [''vpc''] [''host''],
      sampleNode ''database'' [''vpc''] [], sampleNode ''app'' [''host''] []]"
    by (simp add: sampleGraph_def)
  have keys: "\<forall>(_, n) \<in> set (g_Nodes sampleGraph). distinctKeys (bn_BackendConfig (gn_Node n)) \<and> gn_Dir n \<noteq> ''''"
    by (simp add: nodes sampleNode_def)
  have "(''cluster'', snd (sampleNode ''cluster'' [''vpc''] [''host''])) \<in> set (g_Nodes sampleGraph)"
    "(''network'', snd (sampleNode ''network'' [] [''vpc''])) \<in> set (g_Nodes sampleGraph)"
    by (simp_all add: nodes sampleNode_def)
  from backend_isolation [OF wf_sampleGraph keys ok this] show ?thesis
    using ok p by (auto split: sum.splits prod.splits)
qed

end
