(* ===== verification/Contract_Types.thy ===== *)
theory Contract_Types
  imports Graph_Core
begin

text \<open>
  Contract type constraints (\<open>internal/blueprint/contract_type.go\<close>): the canonical spelling that makes
  two claims comparable. The expression library, which parses a type expression, is a record of functions; nothing is
  assumed about them. The check of a value against a constraint is in theory \<open>Values\<close>.
\<close>

subsection \<open>The expression library\<close>

record CtyLib =
  cl_TypeConstraint :: "string \<Rightarrow> cty option"
  cl_ModuleType :: "string \<Rightarrow> cty option"
  cl_TypeString :: "cty \<Rightarrow> string"
  cl_GetConversion :: "cty \<Rightarrow> cty \<Rightarrow> bool"
  cl_GetConversionUnsafe :: "cty \<Rightarrow> cty \<Rightarrow> bool"
  cl_Convert :: "ctyval \<Rightarrow> cty \<Rightarrow> ctyval option"

subsection \<open>Canonical spelling\<close>

fun constraintString :: "CtyLib \<Rightarrow> cty \<Rightarrow> string" where
  "constraintString lib (CObject attrs) =
     ''object({'' @ joinWith '', ''
       (map (\<lambda>(k, v, opt). k @ '' = '' @ (if opt then ''optional('' @ v @ '')'' else v))
          (sort_key fst (map (\<lambda>(k, t, opt). (k, constraintString lib t, opt)) attrs))) @ ''})''"
| "constraintString lib (CTuple ts) = ''tuple(['' @ joinWith '', '' (map (constraintString lib) ts) @ ''])''"
| "constraintString lib (CList t) = ''list('' @ constraintString lib t @ '')''"
| "constraintString lib (CSet t) = ''set('' @ constraintString lib t @ '')''"
| "constraintString lib (CMap t) = ''map('' @ constraintString lib t @ '')''"
| "constraintString lib t = cl_TypeString lib t"

definition CanonicalContractType :: "CtyLib \<Rightarrow> string \<Rightarrow> string option" where
  "CanonicalContractType lib text =
     (if text = '''' then Some '''' else map_option (constraintString lib) (cl_TypeConstraint lib text))"

definition eqBoolPtr :: "bool option \<Rightarrow> bool option \<Rightarrow> bool" where
  "eqBoolPtr a b =
     (case (a, b) of
        (Some x, Some y) \<Rightarrow> x = y
      | (None, None) \<Rightarrow> True
      | _ \<Rightarrow> False)"

definition sameClaims :: "CtyLib \<Rightarrow> PortContract \<Rightarrow> PortContract \<Rightarrow> bool" where
  "sameClaims lib a b =
     (case (CanonicalContractType lib (pc_Type a), CanonicalContractType lib (pc_Type b)) of
        (Some ta, Some tb) \<Rightarrow> ta = tb \<and> eqBoolPtr (pc_Nullable a) (pc_Nullable b) \<and>
                              eqBoolPtr (pc_Sensitive a) (pc_Sensitive b)
      | _ \<Rightarrow> False)"

subsection \<open>Facts\<close>

lemma eqBoolPtr_iff [simp]: "eqBoolPtr a b \<longleftrightarrow> a = b"
  by (auto simp: eqBoolPtr_def split: option.splits)

lemma sameClaims_sym: "sameClaims lib a b \<longleftrightarrow> sameClaims lib b a"
  by (auto simp: sameClaims_def split: option.splits)

lemma sameClaims_trans: "sameClaims lib a b \<Longrightarrow> sameClaims lib b c \<Longrightarrow> sameClaims lib a c"
  by (auto simp: sameClaims_def split: option.splits)

text \<open>The order in which a record lists an object's attributes does not matter.\<close>

lemma constraintString_perm:
  assumes "mset as = mset bs" "distinct (map fst as)"
  shows "constraintString lib (CObject as) = constraintString lib (CObject bs)"
proof -
  let ?f = "\<lambda>(k, t, opt). (k, constraintString lib t, opt)"
  have "map fst (map ?f as) = map fst as" by (induction as) auto
  then have "inj_on fst (set (map ?f as))" using assms(2) by (metis distinct_map)
  then have "sort_key fst (map ?f as) = sort_key fst (map ?f bs)"
    using assms(1) by (intro sort_key_inj_key_eq) simp_all
  then show ?thesis by (simp add: case_prod_unfold)
qed

text \<open>A concrete library for examples: primitive type names, conversion only to the dynamic type.\<close>

definition sampleLib :: CtyLib where
  "sampleLib =
     \<lparr>cl_TypeConstraint = (\<lambda>s. if s = ''string'' then Some CString else if s = ''number'' then Some CNumber else None),
      cl_ModuleType = (\<lambda>s. if s = ''string'' then Some CString else if s = ''number'' then Some CNumber else None),
      cl_TypeString = (\<lambda>t. case t of CString \<Rightarrow> ''string'' | CNumber \<Rightarrow> ''number'' | CBool \<Rightarrow> ''bool'' | _ \<Rightarrow> ''any''),
      cl_GetConversion = (\<lambda>a b. b = CDynamic), cl_GetConversionUnsafe = (\<lambda>a b. b = CDynamic),
      cl_Convert = (\<lambda>v t. Some v)\<rparr>"

end
