(* ===== verification/Validate.thy ===== *)
theory Validate
  imports Tarjan Backend Contract_Types
begin

text \<open>
  Graph validation (\<open>internal/graph/validate.go\<close>, \<open>validate_contracts.go\<close>): the passes over edges,
  literal variables, plugin inputs and required variables that share the map \<open>wired\<close>, the cycle report,
  the backend and lock checks of theory \<open>Backend\<close>, and the contract checks. Reading a field of a
  missing node or of a node without a schema is a nil dereference in Go: the passes return
  \<^term>\<open>Inl NilDeref\<close> for it, and a property shows that a built graph never takes that branch.
\<close>

subsection \<open>Lookups that may dereference nil\<close>

datatype panic = NilDeref

definition nodeOf :: "Graph \<Rightarrow> string \<Rightarrow> panic + gNode" where
  "nodeOf g name = (case map_of (g_Nodes g) name of None \<Rightarrow> Inl NilDeref | Some n \<Rightarrow> Inr n)"

definition schemaOf :: "gNode \<Rightarrow> panic + Schema" where
  "schemaOf n = (case gn_Schema n of None \<Rightarrow> Inl NilDeref | Some s \<Rightarrow> Inr s)"

subsection \<open>The passes over suppliers\<close>

record vstate =
  vs_problems :: "Problem list"
  vs_wired :: "string list"
  vs_multi :: "string list"

definition wireKey :: "string \<Rightarrow> string \<Rightarrow> string" where
  "wireKey node name = node @ ''.'' @ name"

definition inputSubject :: "string \<Rightarrow> string \<Rightarrow> string" where
  "inputSubject node name = ''node.'' @ node @ ''.input.'' @ name"

definition report :: "Problem \<Rightarrow> vstate \<Rightarrow> vstate" where
  "report p st = st\<lparr>vs_problems := vs_problems st @ [p]\<rparr>"

definition wire :: "string \<Rightarrow> vstate \<Rightarrow> vstate" where
  "wire key st = st\<lparr>vs_wired := key # vs_wired st\<rparr>"

text \<open>The tail of the edge loop: a second writer of an input is reported once.\<close>

definition wireEdge :: "string \<Rightarrow> string \<Rightarrow> vstate \<Rightarrow> vstate" where
  "wireEdge node name st =
     (let key = wireKey node name in
      if key \<in> set (vs_wired st) then
        if key \<in> set (vs_multi st) then st
        else (report (errorP ''input_conflict'' (inputSubject node name)) st)\<lparr>vs_multi := key # vs_multi st\<rparr>
      else wire key st)"

definition checkEdge :: "Graph \<Rightarrow> vstate \<Rightarrow> Edge \<Rightarrow> panic + vstate" where
  "checkEdge g st e =
     (if \<not> IsDataEdge e then Inr st
      else
        bindR (bindR (nodeOf g (pr_Node (e_From e))) schemaOf) (\<lambda>from.
        let st1 = (if HasOutput from (pr_Name (e_From e)) then st
                   else report (errorP ''missing_output'' (PortRef_String (e_From e))) st) in
        bindR (bindR (nodeOf g (pr_Node (e_To e))) schemaOf) (\<lambda>to.
        let st2 = (if HasVariable to (pr_Name (e_To e)) then st1
                   else report (errorP ''missing_input'' (PortRef_String (e_To e))) st1) in
        Inr (wireEdge (pr_Node (e_To e)) (pr_Name (e_To e)) st2))))"

definition checkVar :: "string \<Rightarrow> gNode \<Rightarrow> vstate \<Rightarrow> string \<Rightarrow> panic + vstate" where
  "checkVar name n st varName =
     bindR (schemaOf n) (\<lambda>s.
       Inr (if \<not> HasVariable s varName then report (errorP ''missing_input'' (inputSubject name varName)) st
            else if wireKey name varName \<in> set (vs_wired st)
            then report (errorP ''input_conflict'' (inputSubject name varName)) st
            else wire (wireKey name varName) st))"

definition checkVars :: "vstate \<Rightarrow> string \<times> gNode \<Rightarrow> panic + vstate" where
  "checkVars st x = (let (name, n) = x in foldR (checkVar name n) st (sortedKeys (bn_Vars (gn_Node n))))"

definition checkPluginInput :: "string \<Rightarrow> gNode \<Rightarrow> vstate \<Rightarrow> string \<Rightarrow> panic + vstate" where
  "checkPluginInput name n st input =
     bindR (schemaOf n) (\<lambda>s.
       let subject = inputSubject name input;
           st1 = (case map_of (sc_Variables s) input of
                    Some v \<Rightarrow> if v_Sensitive v then st else report (errorP ''plugin_input_not_sensitive'' subject) st
                  | None \<Rightarrow> st);
           st2 = (if wireKey name input \<in> set (vs_wired st1) then report (errorP ''input_conflict'' subject) st1 else st1);
           st3 = (if HasVariable s input then st2 else report (errorP ''missing_input'' subject) st2) in
       Inr (wire (wireKey name input) st3))"

definition checkPluginInputs :: "vstate \<Rightarrow> string \<times> gNode \<Rightarrow> panic + vstate" where
  "checkPluginInputs st x =
     (let (name, n) = x in foldR (checkPluginInput name n) st (map fst (bn_Inputs (gn_Node n))))"

definition checkRequired :: "vstate \<Rightarrow> string \<times> gNode \<Rightarrow> panic + vstate" where
  "checkRequired st x =
     (let (name, n) = x in
      bindR (schemaOf n) (\<lambda>s.
        Inr (foldl (\<lambda>st' varName.
               case map_of (sc_Variables s) varName of
                 Some v \<Rightarrow> if v_Required v \<and> wireKey name varName \<notin> set (vs_wired st')
                            then report (warningP ''required_input_unwired'' (inputSubject name varName)) st' else st'
               | None \<Rightarrow> st') st (sortedKeys (sc_Variables s)))))"

definition supplierPasses :: "Graph \<Rightarrow> panic + vstate" where
  "supplierPasses g =
     bindR (foldR (checkEdge g) \<lparr>vs_problems = [], vs_wired = [], vs_multi = []\<rparr> (g_Edges g)) (\<lambda>st1.
     bindR (foldR checkVars st1 (sortedNodes g)) (\<lambda>st2.
     bindR (foldR checkPluginInputs st2 (sortedNodes g)) (\<lambda>st3.
     foldR checkRequired st3 (sortedNodes g))))"

subsection \<open>Contracts\<close>

definition contractKey :: "gNode \<Rightarrow> string" where
  "contractKey n = (if IsRemote (bn_Source (gn_Node n)) then bn_Source (gn_Node n) else gn_Dir n)"

definition sortedContracts :: "DirContracts smap \<Rightarrow> DirContracts list" where
  "sortedContracts m = sort_key (\<lambda>dc. [dc_Scope dc, dc_Dir dc]) (map snd m)"

text \<open>
  The text of a finding about one port of one schema, with the arguments of its format. Equal texts
  of several owners are merged into one problem.
\<close>

datatype portFinding =
    NoSuchOutput string
  | OutputSensitivity string bool bool
  | NoSuchVariable string
  | TypeUnparsed string
  | ModuleTypeUnparsed string string
  | TypeNotAccepted string string string
  | InputSensitivity string bool bool

fun findingCode :: "portFinding \<Rightarrow> string" where
  "findingCode (NoSuchOutput _) = ''C001''"
| "findingCode (OutputSensitivity _ _ _) = ''C009''"
| "findingCode (NoSuchVariable _) = ''C002''"
| "findingCode (TypeUnparsed _) = ''C007''"
| "findingCode (ModuleTypeUnparsed _ _) = ''C007''"
| "findingCode (TypeNotAccepted _ _ _) = ''C007''"
| "findingCode (InputSensitivity _ _ _) = ''C008''"

definition outputSensitive :: "Schema \<Rightarrow> string \<Rightarrow> bool" where
  "outputSensitive s name = (case map_of (sc_OutputDetails s) name of Some d \<Rightarrow> o_Sensitive d | None \<Rightarrow> False)"

definition producerFindings :: "DirContracts \<Rightarrow> Schema \<Rightarrow> string \<Rightarrow> portFinding list" where
  "producerFindings dc s name =
     (if \<not> HasOutput s name then [NoSuchOutput name]
      else (case map_of (dc_Producer dc) name of
              Some p \<Rightarrow> (case pc_Sensitive p of
                  Some claim \<Rightarrow> if claim \<noteq> outputSensitive s name
                                 then [OutputSensitivity name claim (outputSensitive s name)] else []
                | None \<Rightarrow> [])
            | None \<Rightarrow> []))"

definition consumerFindings :: "CtyLib \<Rightarrow> DirContracts \<Rightarrow> Schema \<Rightarrow> string \<Rightarrow> portFinding list" where
  "consumerFindings lib dc s name =
     (case (map_of (sc_Variables s) name, map_of (dc_Consumer dc) name) of
        (Some v, Some c) \<Rightarrow>
          let sens = (case pc_Sensitive c of
                        Some claim \<Rightarrow> if claim \<noteq> v_Sensitive v then [InputSensitivity name claim (v_Sensitive v)] else []
                      | None \<Rightarrow> []) in
          if pc_Type c \<noteq> '''' \<and> v_Type v \<noteq> '''' then
            (case cl_TypeConstraint lib (pc_Type c) of
               None \<Rightarrow> [TypeUnparsed name]
             | Some ct \<Rightarrow>
                 (case cl_ModuleType lib (v_Type v) of
                    None \<Rightarrow> [ModuleTypeUnparsed name (v_Type v)]
                  | Some mt \<Rightarrow>
                      (if ct \<noteq> mt \<and> \<not> cl_GetConversion lib ct mt
                       then [TypeNotAccepted name (pc_Type c) (v_Type v)] else []) @ sens))
          else sens
      | _ \<Rightarrow> [NoSuchVariable name])"

definition ownerFindings :: "CtyLib \<Rightarrow> DirContracts \<Rightarrow> Schema \<Rightarrow> portFinding list" where
  "ownerFindings lib dc s =
     concat (map (producerFindings dc s) (sortedKeys (dc_Producer dc))) @
     concat (map (consumerFindings lib dc s) (sortedKeys (dc_Consumer dc)))"

definition owners :: "Graph \<Rightarrow> string \<Rightarrow> gNode list" where
  "owners g key = sort_key (\<lambda>n. bn_Name (gn_Node n)) (filter (\<lambda>n. contractKey n = key) (map snd (g_Nodes g)))"

definition contractP :: "Graph \<Rightarrow> string \<Rightarrow> string \<Rightarrow> Problem" where
  "contractP g code subject =
     \<lparr>p_Code = code, p_Subject = subject,
      p_Severity = (if g_ContractMode g = ''enforce'' then SeverityError else SeverityWarning)\<rparr>"

definition scopeProblems :: "CtyLib \<Rightarrow> Graph \<Rightarrow> DirContracts \<Rightarrow> panic + Problem list" where
  "scopeProblems lib g dc =
     (case owners g (dc_Dir dc) of
        [] \<Rightarrow> Inr [contractP g ''C006'' (dc_Scope dc)]
      | ns \<Rightarrow>
          bindR (mapR schemaOf ns) (\<lambda>schemas.
            Inr (map (\<lambda>f. contractP g (findingCode f) (dc_Scope dc))
                   (firsts (concat (map (ownerFindings lib dc) schemas))))))"

definition edgeTypeProblem :: "CtyLib \<Rightarrow> PortContract \<Rightarrow> PortContract \<Rightarrow> bool option" where
  "edgeTypeProblem lib p c =
     (if pc_Type p = '''' \<or> pc_Type c = '''' then Some False
      else (case (cl_TypeConstraint lib (pc_Type p), cl_TypeConstraint lib (pc_Type c)) of
              (Some pt, Some ct) \<Rightarrow> Some (pt \<noteq> ct \<and> \<not> cl_GetConversionUnsafe lib pt ct)
            | _ \<Rightarrow> None))"

text \<open>A null reaches the module only when the variable has no non-null default to replace it with.\<close>

definition nullDefault :: "Variable option \<Rightarrow> bool" where
  "nullDefault v =
     (case v of
        None \<Rightarrow> False
      | Some x \<Rightarrow> v_Nullable x = Some False \<and>
                  (case v_Default x of None \<Rightarrow> False | Some (VNull _) \<Rightarrow> False | Some _ \<Rightarrow> True))"

text \<open>The three checks of a contracted pair of ports; a type that does not parse ends the edge's checks.\<close>

definition claimProblems :: "CtyLib \<Rightarrow> Graph \<Rightarrow> string \<Rightarrow> PortContract \<Rightarrow> PortContract \<Rightarrow> Variable option \<Rightarrow> Problem list" where
  "claimProblems lib g subject p c v =
     (case edgeTypeProblem lib p c of
        None \<Rightarrow> [contractP g ''C003'' subject]
      | Some bad \<Rightarrow>
          (if bad then [contractP g ''C003'' subject] else []) @
          (if pc_Nullable c = Some False \<and> (pc_Nullable p = None \<or> pc_Nullable p = Some True) \<and> \<not> nullDefault v
           then [contractP g ''C004'' subject] else []) @
          (if pc_Sensitive p = Some True \<and> (pc_Sensitive c = None \<or> pc_Sensitive c = Some False)
           then [contractP g ''C005'' subject] else []))"

definition edgeContractProblems :: "CtyLib \<Rightarrow> Graph \<Rightarrow> DirContracts smap \<Rightarrow> Edge \<Rightarrow> panic + Problem list" where
  "edgeContractProblems lib g cs e =
     (if \<not> IsDataEdge e then Inr []
      else
        bindR (nodeOf g (pr_Node (e_From e))) (\<lambda>nf.
        bindR (nodeOf g (pr_Node (e_To e))) (\<lambda>nt.
        case (map_of cs (contractKey nf), map_of cs (contractKey nt)) of
          (Some from, Some to) \<Rightarrow>
            (case (map_of (dc_Producer from) (pr_Name (e_From e)), map_of (dc_Consumer to) (pr_Name (e_To e))) of
               (Some p, Some c) \<Rightarrow>
                 if edgeTypeProblem lib p c = None
                 then Inr (claimProblems lib g (inputSubject (pr_Node (e_To e)) (pr_Name (e_To e))) p c None)
                 else bindR (schemaOf nt) (\<lambda>s.
                        Inr (claimProblems lib g (inputSubject (pr_Node (e_To e)) (pr_Name (e_To e))) p c
                               (map_of (sc_Variables s) (pr_Name (e_To e)))))
             | _ \<Rightarrow> Inr [])
        | _ \<Rightarrow> Inr [])))"

definition contractProblems :: "CtyLib \<Rightarrow> Graph \<Rightarrow> panic + Problem list" where
  "contractProblems lib g =
     (case g_Contracts g of
        None \<Rightarrow> Inr []
      | Some cs \<Rightarrow>
          bindR (mapR (scopeProblems lib g) (sortedContracts cs)) (\<lambda>scopes.
          bindR (mapR (edgeContractProblems lib g cs) (g_Edges g)) (\<lambda>edges.
          Inr (concat scopes @ concat edges))))"

subsection \<open>Validate\<close>

definition Validate :: "OS \<Rightarrow> CtyLib \<Rightarrow> Graph \<Rightarrow> panic + Problem list" where
  "Validate os lib g =
     bindR (supplierPasses g) (\<lambda>st.
     bindR (contractProblems lib g) (\<lambda>contracts.
       Inr (vs_problems st @ map (\<lambda>_. errorP ''dependency_cycle'' ''graph'') (FindCycles g) @
            backendProblems g @ knownBackendProblems os g @ remoteLockProblems os g @ contracts)))"

subsection \<open>Totality\<close>

definition schemasKnown :: "Graph \<Rightarrow> bool" where
  "schemasKnown g \<longleftrightarrow> (\<forall>(_, n) \<in> set (g_Nodes g). gn_Schema n \<noteq> None)"

lemma nodeOf_ok: "wfGraph g \<Longrightarrow> name \<in> nodeNames g \<Longrightarrow> \<exists>n. nodeOf g name = Inr n \<and> (name, n) \<in> set (g_Nodes g)"
  by (auto simp: nodeOf_def nodeNames_def map_of_eq_None_iff split: option.splits dest: map_of_SomeD)

lemma edgeNodes_ok:
  assumes "wfGraph g" "e \<in> set (g_Edges g)"
  shows "\<exists>n. nodeOf g (pr_Node (e_From e)) = Inr n \<and> (pr_Node (e_From e), n) \<in> set (g_Nodes g)"
    "\<exists>n. nodeOf g (pr_Node (e_To e)) = Inr n \<and> (pr_Node (e_To e), n) \<in> set (g_Nodes g)"
  using assms nodeOf_ok wfGraphD(3) [OF assms(1)] by (auto simp: edgesClosed_def edgeSrc_def edgeDst_def)

lemma schemaOf_ok: "schemasKnown g \<Longrightarrow> (name, n) \<in> set (g_Nodes g) \<Longrightarrow> \<exists>s. schemaOf n = Inr s \<and> gn_Schema n = Some s"
  by (auto simp: schemasKnown_def schemaOf_def)

lemma supplierPasses_total:
  assumes wf: "wfGraph g" and sk: "schemasKnown g"
  shows "isOk (supplierPasses g)"
proof -
  have nodes: "\<exists>s. schemaOf (snd x) = Inr s" if "x \<in> set (sortedNodes g)" for x
    using that schemaOf_ok [OF sk] sortedNodes_facts(1) [OF wf] by (metis prod.collapse)
  have "isOk (checkEdge g st e)" if e: "e \<in> set (g_Edges g)" for st e
  proof -
    obtain m n s t where "nodeOf g (pr_Node (e_From e)) = Inr m" "nodeOf g (pr_Node (e_To e)) = Inr n"
      "schemaOf m = Inr s" "schemaOf n = Inr t"
      using edgeNodes_ok [OF wf e] schemaOf_ok [OF sk] by metis
    then show ?thesis by (simp add: checkEdge_def Let_def)
  qed
  then have 1: "isOk (foldR (checkEdge g) st (g_Edges g))" for st by (rule foldR_total)
  have "isOk (checkVars st x)" if "x \<in> set (sortedNodes g)" for st x
    using nodes [OF that] by (auto simp: checkVars_def case_prod_unfold checkVar_def Let_def intro!: foldR_total)
  then have 2: "isOk (foldR checkVars st (sortedNodes g))" for st by (rule foldR_total)
  have "isOk (checkPluginInputs st x)" if "x \<in> set (sortedNodes g)" for st x
    using nodes [OF that] by (auto simp: checkPluginInputs_def case_prod_unfold checkPluginInput_def Let_def intro!: foldR_total)
  then have 3: "isOk (foldR checkPluginInputs st (sortedNodes g))" for st by (rule foldR_total)
  have "isOk (checkRequired st x)" if "x \<in> set (sortedNodes g)" for st x
    using nodes [OF that] by (auto simp: checkRequired_def case_prod_unfold)
  then have 4: "isOk (foldR checkRequired st (sortedNodes g))" for st by (rule foldR_total)
  obtain s1 where s1: "foldR (checkEdge g) \<lparr>vs_problems = [], vs_wired = [], vs_multi = []\<rparr> (g_Edges g) = Inr s1"
    using 1 [unfolded isOk_iff] by blast
  obtain s2 where s2: "foldR checkVars s1 (sortedNodes g) = Inr s2" using 2 [unfolded isOk_iff] by blast
  obtain s3 where s3: "foldR checkPluginInputs s2 (sortedNodes g) = Inr s3" using 3 [unfolded isOk_iff] by blast
  show ?thesis unfolding supplierPasses_def s1 bindR.simps s2 s3 by (rule 4)
qed

lemma contractProblems_total:
  assumes wf: "wfGraph g" and sk: "schemasKnown g"
  shows "isOk (contractProblems lib g)"
proof -
  have "isOk (edgeContractProblems lib g cs e)" if "e \<in> set (g_Edges g)" for cs e
    using edgeNodes_ok [OF wf that] schemaOf_ok [OF sk]
    by (fastforce simp: edgeContractProblems_def Let_def split: option.splits)
  then have edges: "isOk (mapR (edgeContractProblems lib g cs) (g_Edges g))" for cs by (rule mapR_total)
  have "isOk (scopeProblems lib g dc)" for dc
  proof -
    have "isOk (mapR schemaOf (owners g (dc_Dir dc)))"
      using schemaOf_ok [OF sk] by (fastforce simp: owners_def intro!: mapR_total)
    then show ?thesis by (auto simp: scopeProblems_def isOk_iff split: list.splits)
  qed
  then have "isOk (mapR (scopeProblems lib g) dcs)" for dcs by (intro mapR_total)
  then show ?thesis using edges by (fastforce simp: contractProblems_def isOk_iff isOk_bindR split: option.splits)
qed

subsection \<open>A pass that supplies inputs\<close>

text \<open>
  The contract the three supplying passes share: without an error in the result there was none before,
  the keys of the item were not wired yet, they are wired now, and the item satisfies \<open>P\<close>.
\<close>

definition cleanState :: "vstate \<Rightarrow> bool" where
  "cleanState st \<longleftrightarrow> noErrors (vs_problems st) \<and> vs_multi st = []"

definition quiet :: "vstate \<Rightarrow> bool" where
  "quiet st \<longleftrightarrow> (noErrors (vs_problems st) \<longrightarrow> vs_multi st = [])"

locale supply_pass =
  fixes f :: "vstate \<Rightarrow> 'x \<Rightarrow> panic + vstate" and ks :: "'x \<Rightarrow> string list" and P :: "'x \<Rightarrow> bool"
  assumes keeps: "f st x = Inr st' \<Longrightarrow> quiet st \<Longrightarrow> quiet st'"
    and supplies: "f st x = Inr st' \<Longrightarrow> quiet st \<Longrightarrow> noErrors (vs_problems st') \<Longrightarrow>
          noErrors (vs_problems st) \<and> distinct (ks x) \<and> set (ks x) \<inter> set (vs_wired st) = {} \<and>
          set (vs_wired st') = set (ks x) \<union> set (vs_wired st) \<and> P x"
begin

text \<open>The loop over a list of items is again such a pass.\<close>

lemma loop: "supply_pass (foldR f) (\<lambda>xs. concat (map ks xs)) (\<lambda>xs. \<forall>x \<in> set xs. P x)"
proof
  fix st xs st' assume "foldR f st xs = Inr st'" "quiet st"
  then show "quiet st'" by (rule foldR_inv) (rule keeps)
next
  fix st xs st'
  show "foldR f st xs = Inr st' \<Longrightarrow> quiet st \<Longrightarrow> noErrors (vs_problems st') \<Longrightarrow>
          noErrors (vs_problems st) \<and> distinct (concat (map ks xs)) \<and>
          set (concat (map ks xs)) \<inter> set (vs_wired st) = {} \<and>
          set (vs_wired st') = set (concat (map ks xs)) \<union> set (vs_wired st) \<and> (\<forall>x \<in> set xs. P x)"
  proof (induction xs arbitrary: st)
    case (Cons x xs)
    from Cons.prems(1) obtain t where t: "f st x = Inr t" "foldR f t xs = Inr st'" by auto
    have q: "quiet t" using keeps [OF t(1) Cons.prems(2)] .
    note rest = Cons.IH [OF t(2) q Cons.prems(3)]
    have "noErrors (vs_problems t)" using rest by blast
    from supplies [OF t(1) Cons.prems(2) this] rest show ?case by auto
  qed simp
qed

end

lemma vstate_simps [simp]:
  "vs_problems (report p st) = vs_problems st @ [p]" "vs_wired (report p st) = vs_wired st"
  "vs_multi (report p st) = vs_multi st"
  "vs_problems (wire k st) = vs_problems st" "vs_wired (wire k st) = k # vs_wired st"
  "vs_multi (wire k st) = vs_multi st"
  by (simp_all add: report_def wire_def)

lemma quiet_report [simp]: "quiet st \<Longrightarrow> quiet (report p st)"
  by (simp add: quiet_def)

lemma quiet_wire [simp]: "quiet (wire k st) = quiet st"
  by (simp add: quiet_def)

text \<open>What an item contributes: the input a data edge, a literal or a binding writes to.\<close>

definition edgeKeys :: "Edge \<Rightarrow> string list" where
  "edgeKeys e = (if IsDataEdge e then [wireKey (pr_Node (e_To e)) (pr_Name (e_To e))] else [])"

definition portsExist :: "Graph \<Rightarrow> Edge \<Rightarrow> bool" where
  "portsExist g e \<longleftrightarrow>
     (IsDataEdge e \<longrightarrow>
        (\<exists>m n s t. map_of (g_Nodes g) (pr_Node (e_From e)) = Some m \<and> gn_Schema m = Some s \<and> HasOutput s (pr_Name (e_From e)) \<and>
                   map_of (g_Nodes g) (pr_Node (e_To e)) = Some n \<and> gn_Schema n = Some t \<and> HasVariable t (pr_Name (e_To e))))"

definition varDeclared :: "gNode \<Rightarrow> string \<Rightarrow> bool" where
  "varDeclared n v \<longleftrightarrow> (\<exists>s. gn_Schema n = Some s \<and> HasVariable s v)"

definition secretDeclared :: "gNode \<Rightarrow> string \<Rightarrow> bool" where
  "secretDeclared n v \<longleftrightarrow>
     (\<exists>s x. gn_Schema n = Some s \<and> map_of (sc_Variables s) v = Some x \<and> v_Sensitive x)"

lemma HasVariable_map_of: "HasVariable s v \<longleftrightarrow> (\<exists>x. map_of (sc_Variables s) v = Some x)"
  by (auto simp: HasVariable_def hasKey_def simp del: hasKey_iff)

lemma nodeOf_Inr [simp]: "nodeOf g name = Inr n \<longleftrightarrow> map_of (g_Nodes g) name = Some n"
  by (simp add: nodeOf_def split: option.splits)

lemma schemaOf_Inr [simp]: "schemaOf n = Inr s \<longleftrightarrow> gn_Schema n = Some s"
  by (simp add: schemaOf_def split: option.splits)

lemma quiet_wireEdge [simp]: "quiet st \<Longrightarrow> quiet (wireEdge node name st)"
  by (simp add: wireEdge_def Let_def quiet_def)

lemma wireEdge_clean:
  "quiet st \<Longrightarrow> noErrors (vs_problems (wireEdge node name st)) \<Longrightarrow>
     noErrors (vs_problems st) \<and> wireKey node name \<notin> set (vs_wired st) \<and>
     vs_wired (wireEdge node name st) = wireKey node name # vs_wired st"
  by (auto simp: wireEdge_def Let_def quiet_def split: if_splits)

lemma checkEdge_data:
  assumes "checkEdge g st e = Inr st'" "IsDataEdge e"
  obtains m s n t st2 where "map_of (g_Nodes g) (pr_Node (e_From e)) = Some m" "gn_Schema m = Some s"
    "map_of (g_Nodes g) (pr_Node (e_To e)) = Some n" "gn_Schema n = Some t"
    "st' = wireEdge (pr_Node (e_To e)) (pr_Name (e_To e)) st2"
    "vs_wired st2 = vs_wired st" "quiet st \<Longrightarrow> quiet st2"
    "noErrors (vs_problems st2) \<longleftrightarrow>
       noErrors (vs_problems st) \<and> HasOutput s (pr_Name (e_From e)) \<and> HasVariable t (pr_Name (e_To e))"
proof -
  obtain m s n t where mn: "map_of (g_Nodes g) (pr_Node (e_From e)) = Some m" "gn_Schema m = Some s"
    "map_of (g_Nodes g) (pr_Node (e_To e)) = Some n" "gn_Schema n = Some t"
    using assms by (auto simp: checkEdge_def Let_def)
  let ?st1 = "if HasOutput s (pr_Name (e_From e)) then st
              else report (errorP ''missing_output'' (PortRef_String (e_From e))) st"
  let ?st2 = "if HasVariable t (pr_Name (e_To e)) then ?st1
              else report (errorP ''missing_input'' (PortRef_String (e_To e))) ?st1"
  show ?thesis
    by (rule that [OF mn, of ?st2]) (use assms mn in \<open>auto simp: checkEdge_def nodeOf_def schemaOf_def\<close>)
qed

interpretation edges: supply_pass "checkEdge g" edgeKeys "portsExist g" for g
proof
  fix st e st' assume run: "checkEdge g st e = Inr st'" and q: "quiet st"
  show "quiet st'"
  proof (cases "IsDataEdge e")
    case True
    from checkEdge_data [OF run True] q show ?thesis by (metis quiet_wireEdge)
  qed (use run q in \<open>simp add: checkEdge_def\<close>)
  assume ok: "noErrors (vs_problems st')"
  show "noErrors (vs_problems st) \<and> distinct (edgeKeys e) \<and> set (edgeKeys e) \<inter> set (vs_wired st) = {} \<and>
      set (vs_wired st') = set (edgeKeys e) \<union> set (vs_wired st) \<and> portsExist g e"
  proof (cases "IsDataEdge e")
    case True
    from checkEdge_data [OF run True] obtain m s n t st2 where
      d: "map_of (g_Nodes g) (pr_Node (e_From e)) = Some m" "gn_Schema m = Some s"
        "map_of (g_Nodes g) (pr_Node (e_To e)) = Some n" "gn_Schema n = Some t"
        "st' = wireEdge (pr_Node (e_To e)) (pr_Name (e_To e)) st2" "vs_wired st2 = vs_wired st" "quiet st2"
        "noErrors (vs_problems st2) \<longleftrightarrow>
           noErrors (vs_problems st) \<and> HasOutput s (pr_Name (e_From e)) \<and> HasVariable t (pr_Name (e_To e))"
      using q by metis
    from wireEdge_clean [OF d(7)] ok d show ?thesis
      by (auto simp: edgeKeys_def portsExist_def True)
  qed (use run ok in \<open>auto simp: checkEdge_def edgeKeys_def portsExist_def\<close>)
qed

interpretation var: supply_pass "checkVar name n" "\<lambda>v. [wireKey name v]" "varDeclared n" for name n
proof
  fix st v st' assume "checkVar name n st v = Inr st'" "quiet st"
  then show "quiet st'" by (auto simp: checkVar_def quiet_def split: if_splits)
next
  fix st v st' assume "checkVar name n st v = Inr st'" "quiet st" "noErrors (vs_problems st')"
  then show "noErrors (vs_problems st) \<and> distinct [wireKey name v] \<and> set [wireKey name v] \<inter> set (vs_wired st) = {} \<and>
      set (vs_wired st') = set [wireKey name v] \<union> set (vs_wired st) \<and> varDeclared n v"
    by (auto simp: checkVar_def varDeclared_def split: if_splits)
qed

interpretation binding: supply_pass "checkPluginInput name n" "\<lambda>v. [wireKey name v]" "secretDeclared n" for name n
proof
  fix st v st' assume run: "checkPluginInput name n st v = Inr st'" and q: "quiet st"
  then obtain s where s: "gn_Schema n = Some s" by (auto simp: checkPluginInput_def)
  show "quiet st'" using run q by (cases "map_of (sc_Variables s) v") (auto simp: checkPluginInput_def Let_def schemaOf_def s)
  assume "noErrors (vs_problems st')"
  then show "noErrors (vs_problems st) \<and> distinct [wireKey name v] \<and> set [wireKey name v] \<inter> set (vs_wired st) = {} \<and>
      set (vs_wired st') = set [wireKey name v] \<union> set (vs_wired st) \<and> secretDeclared n v"
    using run q by (cases "map_of (sc_Variables s) v")
      (auto simp: checkPluginInput_def Let_def schemaOf_def s secretDeclared_def HasVariable_map_of split: if_splits)
qed

definition nodeVarKeys :: "string \<times> gNode \<Rightarrow> string list" where
  "nodeVarKeys x = map (wireKey (fst x)) (sortedKeys (bn_Vars (gn_Node (snd x))))"

definition nodeInputKeys :: "string \<times> gNode \<Rightarrow> string list" where
  "nodeInputKeys x = map (wireKey (fst x)) (map fst (bn_Inputs (gn_Node (snd x))))"

lemma concat_singletons: "concat (map (\<lambda>v. [h v]) xs) = map h xs"
  by (induction xs) auto

interpretation vars: supply_pass checkVars nodeVarKeys
  "\<lambda>x. \<forall>v \<in> set (sortedKeys (bn_Vars (gn_Node (snd x)))). varDeclared (snd x) v"
proof
  fix st x st' assume run: "checkVars st x = Inr st'" and q: "quiet st"
  then have run': "foldR (checkVar (fst x) (snd x)) st (sortedKeys (bn_Vars (gn_Node (snd x)))) = Inr st'"
    by (simp add: checkVars_def case_prod_unfold)
  show "quiet st'" by (rule supply_pass.keeps [OF var.loop run' q])
  assume "noErrors (vs_problems st')"
  from supply_pass.supplies [OF var.loop run' q this]
  show "noErrors (vs_problems st) \<and> distinct (nodeVarKeys x) \<and> set (nodeVarKeys x) \<inter> set (vs_wired st) = {} \<and>
      set (vs_wired st') = set (nodeVarKeys x) \<union> set (vs_wired st) \<and>
      (\<forall>v \<in> set (sortedKeys (bn_Vars (gn_Node (snd x)))). varDeclared (snd x) v)"
    by (simp add: nodeVarKeys_def concat_singletons)
qed

interpretation bindings: supply_pass checkPluginInputs nodeInputKeys
  "\<lambda>x. \<forall>v \<in> set (map fst (bn_Inputs (gn_Node (snd x)))). secretDeclared (snd x) v"
proof
  fix st x st' assume run: "checkPluginInputs st x = Inr st'" and q: "quiet st"
  then have run': "foldR (checkPluginInput (fst x) (snd x)) st (map fst (bn_Inputs (gn_Node (snd x)))) = Inr st'"
    by (simp add: checkPluginInputs_def case_prod_unfold)
  show "quiet st'" by (rule supply_pass.keeps [OF binding.loop run' q])
  assume "noErrors (vs_problems st')"
  from supply_pass.supplies [OF binding.loop run' q this]
  show "noErrors (vs_problems st) \<and> distinct (nodeInputKeys x) \<and> set (nodeInputKeys x) \<inter> set (vs_wired st) = {} \<and>
      set (vs_wired st') = set (nodeInputKeys x) \<union> set (vs_wired st) \<and>
      (\<forall>v \<in> set (map fst (bn_Inputs (gn_Node (snd x)))). secretDeclared (snd x) v)"
    unfolding nodeInputKeys_def concat_singletons by blast
qed

subsection \<open>Soundness\<close>

lemma foldl_required_problems:
  assumes "checkRequired st x = Inr st'"
  shows "noErrors (vs_problems st') \<longleftrightarrow> noErrors (vs_problems st)"
proof -
  have "noErrors (vs_problems (foldl (\<lambda>st' varName.
               case map_of vars varName of
                 Some v \<Rightarrow> if v_Required v \<and> wireKey name varName \<notin> set (vs_wired st')
                            then report (warningP ''required_input_unwired'' (inputSubject name varName)) st' else st'
               | None \<Rightarrow> st') st names)) \<longleftrightarrow> noErrors (vs_problems st)" for vars name names
    by (induction names arbitrary: st) (auto split: option.splits)
  then show ?thesis using assms by (auto simp: checkRequired_def case_prod_unfold)
qed

lemma foldR_required_problems:
  "foldR checkRequired st xs = Inr st' \<Longrightarrow> noErrors (vs_problems st') \<longleftrightarrow> noErrors (vs_problems st)"
  by (induction xs arbitrary: st) (auto dest: foldl_required_problems)

text \<open>The keys of every supplier of the graph.\<close>

definition supplierKeys :: "Graph \<Rightarrow> string list" where
  "supplierKeys g =
     concat (map edgeKeys (g_Edges g)) @ concat (map nodeVarKeys (sortedNodes g)) @
     concat (map nodeInputKeys (sortedNodes g))"

lemma supplierPasses_sound:
  assumes run: "supplierPasses g = Inr st" and ok: "noErrors (vs_problems st)"
  shows "distinct (supplierKeys g)" "\<forall>e \<in> set (g_Edges g). portsExist g e"
    "\<forall>x \<in> set (sortedNodes g). \<forall>v \<in> fst ` set (bn_Vars (gn_Node (snd x))). varDeclared (snd x) v"
    "\<forall>x \<in> set (sortedNodes g). \<forall>v \<in> fst ` set (bn_Inputs (gn_Node (snd x))). secretDeclared (snd x) v"
proof -
  let ?st0 = "\<lparr>vs_problems = [], vs_wired = [], vs_multi = []\<rparr> :: vstate"
  obtain s1 s2 s3 where runs: "foldR (checkEdge g) ?st0 (g_Edges g) = Inr s1" "foldR checkVars s1 (sortedNodes g) = Inr s2"
    "foldR checkPluginInputs s2 (sortedNodes g) = Inr s3" "foldR checkRequired s3 (sortedNodes g) = Inr st"
    using run by (auto simp: supplierPasses_def)
  have ok3: "noErrors (vs_problems s3)"
    using foldR_required_problems [OF runs(4)] ok by simp
  have q0: "quiet ?st0" by (simp add: quiet_def)
  note q1 = supply_pass.keeps [OF edges.loop runs(1) q0]
  note q2 = supply_pass.keeps [OF vars.loop runs(2) q1]
  note a3 = supply_pass.supplies [OF bindings.loop runs(3) q2 ok3]
  note a2 = supply_pass.supplies [OF vars.loop runs(2) q1 conjunct1 [OF a3]]
  note a1 = supply_pass.supplies [OF edges.loop runs(1) q0 conjunct1 [OF a2]]
  show "distinct (supplierKeys g)" using a1 a2 a3 by (auto simp: supplierKeys_def)
  show "\<forall>e \<in> set (g_Edges g). portsExist g e" using a1 by blast
  show "\<forall>x \<in> set (sortedNodes g). \<forall>v \<in> fst ` set (bn_Vars (gn_Node (snd x))). varDeclared (snd x) v"
    using a2 by simp
  show "\<forall>x \<in> set (sortedNodes g). \<forall>v \<in> fst ` set (bn_Inputs (gn_Node (snd x))). secretDeclared (snd x) v"
    using a3 by simp
qed

definition dataEdgesInto :: "Graph \<Rightarrow> string \<Rightarrow> string \<Rightarrow> Edge list" where
  "dataEdgesInto g node v =
     filter (\<lambda>e. IsDataEdge e \<and> pr_Node (e_To e) = node \<and> pr_Name (e_To e) = v) (g_Edges g)"

definition suppliers :: "Graph \<Rightarrow> string \<Rightarrow> gNode \<Rightarrow> string \<Rightarrow> nat" where
  "suppliers g node n v =
     length (dataEdgesInto g node v) + (if hasKey (bn_Vars (gn_Node n)) v then 1 else 0) +
     (if hasKey (bn_Inputs (gn_Node n)) v then 1 else 0)"

lemma single_supplier:
  assumes wf: "wfGraph g" and d: "distinct (supplierKeys g)" and n: "(node, n) \<in> set (g_Nodes g)"
  shows "suppliers g node n v \<le> 1"
proof -
  let ?k = "wireKey node v"
  have "length (filter (\<lambda>e. IsDataEdge e \<and> pr_Node (e_To e) = node \<and> pr_Name (e_To e) = v) es) \<le>
        count_list (concat (map edgeKeys es)) ?k" for es
    by (induction es) (auto simp: edgeKeys_def)
  then have "length (dataEdgesInto g node v) \<le> count_list (concat (map edgeKeys (g_Edges g))) ?k"
    by (simp add: dataEdgesInto_def)
  moreover have sn: "(node, n) \<in> set (sortedNodes g)" using n sortedNodes_facts(1) [OF wf] by simp
  have occurs: "(if b then 1 else 0) \<le> count_list (concat (map f (sortedNodes g))) ?k"
    if "b \<Longrightarrow> ?k \<in> set (f (node, n))" for b and f :: "string \<times> gNode \<Rightarrow> string list"
  proof (cases b)
    case True
    then have "?k \<in> set (concat (map f (sortedNodes g)))" using that sn by auto
    then show ?thesis using True count_list_pos by metis
  qed simp
  have "(if hasKey (bn_Vars (gn_Node n)) v then 1 else 0) \<le> count_list (concat (map nodeVarKeys (sortedNodes g))) ?k"
    by (rule occurs) (simp add: nodeVarKeys_def)
  moreover have "(if hasKey (bn_Inputs (gn_Node n)) v then 1 else 0) \<le> count_list (concat (map nodeInputKeys (sortedNodes g))) ?k"
    by (rule occurs) (auto simp: nodeInputKeys_def)
  moreover have "count_list (supplierKeys g) ?k \<le> 1" using d by (rule count_list_distinct)
  ultimately show ?thesis unfolding suppliers_def supplierKeys_def count_list_append by linarith
qed

lemma Validate_parts:
  assumes "Validate os lib g = Inr ps"
  obtains st cs where "supplierPasses g = Inr st" "contractProblems lib g = Inr cs"
    "noErrors ps \<longleftrightarrow> noErrors (vs_problems st) \<and> FindCycles g = [] \<and> noErrors (backendProblems g) \<and>
       noErrors (knownBackendProblems os g) \<and> noErrors (remoteLockProblems os g) \<and> noErrors cs"
proof -
  have "noErrors (map (\<lambda>_. errorP c s) xs) \<longleftrightarrow> xs = []" for c s and xs :: "string list list"
    by (cases xs) auto
  then show ?thesis using assms that by (auto simp: Validate_def)
qed

subsection \<open>Contracts\<close>

lemma contractP_error [simp]: "IsError (contractP g c s) \<longleftrightarrow> g_ContractMode g = ''enforce''"
  by (simp add: IsError_def contractP_def)

lemma edgeContractProblems_form:
  assumes run: "edgeContractProblems lib g cs e = Inr ps"
  shows "ps = [] \<or> (\<exists>subj p c v. ps = claimProblems lib g subj p c v)"
proof (cases "IsDataEdge e")
  case True
  then obtain nf nt where n: "nodeOf g (pr_Node (e_From e)) = Inr nf" "nodeOf g (pr_Node (e_To e)) = Inr nt"
    using run by (auto simp: edgeContractProblems_def simp del: nodeOf_Inr)
  show ?thesis
  proof (cases "map_of cs (contractKey nf) = None \<or> map_of cs (contractKey nt) = None")
    case False
    then obtain f t where ft: "map_of cs (contractKey nf) = Some f" "map_of cs (contractKey nt) = Some t" by auto
    show ?thesis
      using run True n ft
      by (cases "map_of (dc_Producer f) (pr_Name (e_From e))"; cases "map_of (dc_Consumer t) (pr_Name (e_To e))")
        (auto simp: edgeContractProblems_def simp del: nodeOf_Inr split: if_splits)
  qed (use run True n in \<open>auto simp: edgeContractProblems_def simp del: nodeOf_Inr split: option.splits\<close>)
qed (use run in \<open>simp add: edgeContractProblems_def\<close>)

lemma contractProblems_warn:
  assumes "contractProblems lib g = Inr cs" "g_ContractMode g \<noteq> ''enforce''"
  shows "noErrors cs"
proof -
  have "noErrors ps" if "scopeProblems lib g dc = Inr ps" for dc ps
    using that assms(2) by (auto simp: scopeProblems_def noErrors_def split: list.splits)
  moreover have "noErrors (claimProblems lib g subj p c v)" for subj p c v
    using assms(2) by (auto simp: claimProblems_def split: option.splits)
  then have "noErrors ps" if "edgeContractProblems lib g ds e = Inr ps" for ds e ps
    using edgeContractProblems_form [OF that] by auto
  ultimately have "\<forall>ps \<in> set scopes. noErrors ps" "\<forall>ps \<in> set edges. noErrors ps"
    if "mapR (scopeProblems lib g) dcs = Inr scopes" "mapR (edgeContractProblems lib g ds) es = Inr edges" for dcs scopes ds es edges
    using mapR_mem [OF that(1)] mapR_mem [OF that(2)] by blast+
  then show ?thesis using assms(1) by (auto simp: contractProblems_def noErrors_def split: option.splits)
qed

text \<open>
  What an enforced contract pair promises about the values that cross an edge: types convertible,
  no null into a non-null input unless a default replaces it, no secret into an input that does not
  accept one.
\<close>

definition claimsCompatible :: "CtyLib \<Rightarrow> PortContract \<Rightarrow> PortContract \<Rightarrow> Variable option \<Rightarrow> bool" where
  "claimsCompatible lib p c v \<longleftrightarrow>
     (pc_Type p \<noteq> '''' \<and> pc_Type c \<noteq> '''' \<longrightarrow>
        (\<exists>pt ct. cl_TypeConstraint lib (pc_Type p) = Some pt \<and> cl_TypeConstraint lib (pc_Type c) = Some ct \<and>
                 (pt = ct \<or> cl_GetConversionUnsafe lib pt ct))) \<and>
     (pc_Nullable c = Some False \<longrightarrow> pc_Nullable p = Some False \<or> nullDefault v) \<and>
     (pc_Sensitive p = Some True \<longrightarrow> pc_Sensitive c = Some True)"

lemma claimProblems_clean:
  assumes "g_ContractMode g = ''enforce''"
    and "noErrors (claimProblems lib g subj p c (if edgeTypeProblem lib p c = None then None else v))"
  shows "claimsCompatible lib p c v"
proof -
  obtain bad where bad: "edgeTypeProblem lib p c = Some bad"
    using assms by (cases "edgeTypeProblem lib p c") (auto simp: claimProblems_def)
  then have ok: "\<not> bad" "\<not> (pc_Nullable c = Some False \<and> (pc_Nullable p = None \<or> pc_Nullable p = Some True) \<and> \<not> nullDefault v)"
    "\<not> (pc_Sensitive p = Some True \<and> (pc_Sensitive c = None \<or> pc_Sensitive c = Some False))"
    using assms by (auto simp: claimProblems_def split: if_splits)
  have "pc_Type p \<noteq> '''' \<Longrightarrow> pc_Type c \<noteq> '''' \<Longrightarrow>
        \<exists>pt ct. cl_TypeConstraint lib (pc_Type p) = Some pt \<and> cl_TypeConstraint lib (pc_Type c) = Some ct \<and>
                 (pt = ct \<or> cl_GetConversionUnsafe lib pt ct)"
    using bad ok(1) by (auto simp: edgeTypeProblem_def split: option.splits)
  moreover have "pc_Nullable p \<in> {None, Some True, Some False}" "pc_Sensitive c \<in> {None, Some True, Some False}"
    by (cases "pc_Nullable p"; cases "pc_Sensitive c"; auto)+
  ultimately show ?thesis using ok(2,3) by (auto simp: claimsCompatible_def)
qed

lemma edgeContracts_enforced:
  assumes "edgeContractProblems lib g cs e = Inr ps" "noErrors ps" "g_ContractMode g = ''enforce''" "IsDataEdge e"
    "map_of (g_Nodes g) (pr_Node (e_From e)) = Some nf" "map_of (g_Nodes g) (pr_Node (e_To e)) = Some nt"
    "map_of cs (contractKey nf) = Some f" "map_of cs (contractKey nt) = Some t"
    "map_of (dc_Producer f) (pr_Name (e_From e)) = Some p" "map_of (dc_Consumer t) (pr_Name (e_To e)) = Some c"
    "gn_Schema nt = Some s"
  shows "claimsCompatible lib p c (map_of (sc_Variables s) (pr_Name (e_To e)))"
proof -
  have "noErrors (claimProblems lib g (inputSubject (pr_Node (e_To e)) (pr_Name (e_To e))) p c
          (if edgeTypeProblem lib p c = None then None else map_of (sc_Variables s) (pr_Name (e_To e))))"
    using assms by (cases "edgeTypeProblem lib p c") (simp_all add: edgeContractProblems_def nodeOf_def schemaOf_def)
  then show ?thesis using claimProblems_clean [OF assms(3)] by blast
qed

lemma contractProblems_edge:
  assumes "contractProblems lib g = Inr ps" "g_Contracts g = Some cs" "e \<in> set (g_Edges g)"
  shows "\<exists>es. edgeContractProblems lib g cs e = Inr es \<and> set es \<subseteq> set ps"
proof -
  obtain edges where edges: "mapR (edgeContractProblems lib g cs) (g_Edges g) = Inr edges"
    and sub: "set (concat edges) \<subseteq> set ps" using assms(1,2) by (auto simp: contractProblems_def)
  obtain i where i: "i < length (g_Edges g)" "g_Edges g ! i = e" using assms(3) by (auto simp: in_set_conv_nth)
  have "edgeContractProblems lib g cs e = Inr (edges ! i)" "edges ! i \<in> set edges"
    using edges i by (auto simp: mapR_eq_Inr list_all2_conv_all_nth)
  then show ?thesis using sub by auto
qed

subsection \<open>Properties\<close>

text \<open>
  C6: \<open>Validate\<close> never dereferences nil on a well-formed graph whose nodes have schemas, and a graph it
  accepts (no error-level problem) is safe to schedule: it has no cycle, every data edge connects a
  declared output to a declared variable, and every input of every node has at most one supplier
  among data edges, literal variables and plugin bindings; a plugin binding only feeds a variable
  declared sensitive.
\<close>

theorem Validate_accepts_safe:
  assumes wf: "wfGraph g" and sk: "schemasKnown g"
  shows "\<exists>ps. Validate os lib g = Inr ps \<and>
     (noErrors ps \<longrightarrow>
        acyclic (depends g) \<and> (\<forall>e \<in> set (g_Edges g). portsExist g e) \<and>
        (\<forall>(name, n) \<in> set (g_Nodes g).
           (\<forall>v. suppliers g name n v \<le> 1) \<and>
           (\<forall>v \<in> fst ` set (bn_Vars (gn_Node n)). varDeclared n v) \<and>
           (\<forall>v \<in> fst ` set (bn_Inputs (gn_Node n)). secretDeclared n v)))"
proof -
  obtain st where st: "supplierPasses g = Inr st"
    using supplierPasses_total [OF wf sk] by (auto simp: isOk_iff)
  obtain cs where cs: "contractProblems lib g = Inr cs"
    using contractProblems_total [OF wf sk] by (auto simp: isOk_iff)
  obtain ps where ps: "Validate os lib g = Inr ps" using st cs by (simp add: Validate_def)
  have "acyclic (depends g) \<and> (\<forall>e \<in> set (g_Edges g). portsExist g e) \<and>
        (\<forall>(name, n) \<in> set (g_Nodes g). (\<forall>v. suppliers g name n v \<le> 1) \<and>
           (\<forall>v \<in> fst ` set (bn_Vars (gn_Node n)). varDeclared n v) \<and>
           (\<forall>v \<in> fst ` set (bn_Inputs (gn_Node n)). secretDeclared n v))" if "noErrors ps"
  proof -
    have ok: "noErrors (vs_problems st)" "FindCycles g = []"
      using Validate_parts [OF ps] that st by (metis sum.inject(2))+
    have "acyclic (depends g)" using FindCycle_cyclic(1) [OF wf] ok(2) by (simp add: FindCycle_def)
    with supplierPasses_sound [OF st ok(1)] single_supplier [OF wf] sortedNodes_facts(1) [OF wf]
    show ?thesis by fastforce
  qed
  with ps show ?thesis by blast
qed

theorem Validate_accepts_safe_witness:
  "\<exists>ps. Validate sampleOS sampleLib sampleGraph = Inr ps \<and> noErrors ps \<and> acyclic (depends sampleGraph)"
proof -
  have sk: "schemasKnown sampleGraph" by (simp add: schemasKnown_def sampleGraph_def sampleNode_def)
  have run: "map_sum id noErrors (Validate sampleOS sampleLib sampleGraph) = Inr True"
    unfolding noErrors_def by code_simp
  from Validate_accepts_safe [OF wf_sampleGraph sk, of sampleOS sampleLib] run show ?thesis by auto
qed

text \<open>
  C16: contracts. Outside the mode \<open>enforce\<close> no contract finding is an error. Under \<open>enforce\<close>, when the
  contract checks report no error, every data edge whose two ports are contracted carries compatible
  claims: convertible types, no possibly-null output into a non-null input without a default, no
  sensitive output into an input that does not accept sensitive values.
\<close>

theorem contracts_enforced:
  assumes "contractProblems lib g = Inr ps"
  shows "(g_ContractMode g \<noteq> ''enforce'' \<longrightarrow> noErrors ps) \<and>
     (g_ContractMode g = ''enforce'' \<and> noErrors ps \<longrightarrow>
        (\<forall>cs e nf nt f t p c s. g_Contracts g = Some cs \<and> e \<in> set (g_Edges g) \<and> IsDataEdge e \<and>
           map_of (g_Nodes g) (pr_Node (e_From e)) = Some nf \<and> map_of (g_Nodes g) (pr_Node (e_To e)) = Some nt \<and>
           map_of cs (contractKey nf) = Some f \<and> map_of cs (contractKey nt) = Some t \<and>
           map_of (dc_Producer f) (pr_Name (e_From e)) = Some p \<and>
           map_of (dc_Consumer t) (pr_Name (e_To e)) = Some c \<and> gn_Schema nt = Some s
           \<longrightarrow> claimsCompatible lib p c (map_of (sc_Variables s) (pr_Name (e_To e)))))"
proof (intro conjI impI allI)
  assume "g_ContractMode g \<noteq> ''enforce''"
  then show "noErrors ps" by (rule contractProblems_warn [OF assms])
next
  fix cs e nf nt f t p c s
  assume mode: "g_ContractMode g = ''enforce'' \<and> noErrors ps"
    and H: "g_Contracts g = Some cs \<and> e \<in> set (g_Edges g) \<and> IsDataEdge e \<and>
           map_of (g_Nodes g) (pr_Node (e_From e)) = Some nf \<and> map_of (g_Nodes g) (pr_Node (e_To e)) = Some nt \<and>
           map_of cs (contractKey nf) = Some f \<and> map_of cs (contractKey nt) = Some t \<and>
           map_of (dc_Producer f) (pr_Name (e_From e)) = Some p \<and>
           map_of (dc_Consumer t) (pr_Name (e_To e)) = Some c \<and> gn_Schema nt = Some s"
  obtain es where es: "edgeContractProblems lib g cs e = Inr es" "set es \<subseteq> set ps"
    using contractProblems_edge [OF assms] H by blast
  then have "noErrors es" using mode by (auto simp: noErrors_def)
  then show "claimsCompatible lib p c (map_of (sc_Variables s) (pr_Name (e_To e)))"
    using edgeContracts_enforced [OF es(1) _ conjunct1 [OF mode]] H by blast
qed

text \<open>A graph with a contracted edge: the network promises a non-null string, the cluster requires one.\<close>

definition sampleContracts :: "DirContracts smap" where
  "sampleContracts =
     [(''/bp/network'', \<lparr>dc_Scope = ''./network'', dc_Dir = ''/bp/network'',
         dc_Producer = [(''vpc'', \<lparr>pc_Name = ''vpc'', pc_Scope = ''./network'', pc_Type = ''string'',
                                  pc_Nullable = Some False, pc_Sensitive = None\<rparr>)], dc_Consumer = []\<rparr>),
      (''/bp/cluster'', \<lparr>dc_Scope = ''./cluster'', dc_Dir = ''/bp/cluster'', dc_Producer = [],
         dc_Consumer = [(''vpc'', \<lparr>pc_Name = ''vpc'', pc_Scope = ''./cluster'', pc_Type = ''string'',
                                  pc_Nullable = Some False, pc_Sensitive = None\<rparr>)]\<rparr>)]"

definition contractedGraph :: Graph where
  "contractedGraph = sampleGraph\<lparr>g_Contracts := Some sampleContracts, g_ContractMode := ''enforce''\<rparr>"

theorem contracts_enforced_witness:
  "contractProblems sampleLib contractedGraph = Inr [] \<and>
   claimsCompatible sampleLib (snd (hd (dc_Producer (snd (sampleContracts ! 0)))))
     (snd (hd (dc_Consumer (snd (sampleContracts ! 1)))))
     (map_of (sc_Variables (sampleSchema [''vpc''] [''host''])) ''vpc'')"
proof -
  have run: "contractProblems sampleLib contractedGraph = Inr []" by code_simp
  let ?e = "dataEdge ''network'' ''vpc'' ''cluster'' ''vpc''"
  have f: "g_ContractMode contractedGraph = ''enforce''" "g_Contracts contractedGraph = Some sampleContracts"
    "?e \<in> set (g_Edges contractedGraph)" "IsDataEdge ?e"
    "map_of (g_Nodes contractedGraph) (pr_Node (e_From ?e)) = Some (snd (sampleNode ''network'' [] [''vpc'']))"
    "map_of (g_Nodes contractedGraph) (pr_Node (e_To ?e)) = Some (snd (sampleNode ''cluster'' [''vpc''] [''host'']))"
    "map_of sampleContracts (contractKey (snd (sampleNode ''network'' [] [''vpc'']))) = Some (snd (sampleContracts ! 0))"
    "map_of sampleContracts (contractKey (snd (sampleNode ''cluster'' [''vpc''] [''host'']))) = Some (snd (sampleContracts ! 1))"
    "map_of (dc_Producer (snd (sampleContracts ! 0))) (pr_Name (e_From ?e)) = Some (snd (hd (dc_Producer (snd (sampleContracts ! 0)))))"
    "map_of (dc_Consumer (snd (sampleContracts ! 1))) (pr_Name (e_To ?e)) = Some (snd (hd (dc_Consumer (snd (sampleContracts ! 1)))))"
    by (simp_all add: contractedGraph_def sampleGraph_def sampleNode_def dataEdge_def IsDataEdge_def IsPort_def
        sampleContracts_def contractKey_def IsRemote_def HasPrefix_def)
  have "gn_Schema (snd (sampleNode ''cluster'' [''vpc''] [''host''])) = Some (sampleSchema [''vpc''] [''host''])"
    "pr_Name (e_To ?e) = ''vpc''" by (simp_all add: sampleNode_def dataEdge_def)
  with contracts_enforced [OF run] f run show ?thesis by (metis noErrors_simps(1))
qed

end
