(* ===== verification/Group_Expand.thy ===== *)
theory Group_Expand
  imports Validate
begin

text \<open>
  The pieces of group expansion (\<open>internal/graph/group.go\<close>, \<open>source.go\<close>, and the contract merging and
  cloning helpers of \<open>build.go\<close>): the resolution context with its cycle check and its two caches,
  export resolution, edge rewriting, literal variables of a \<open>use\<close> block, contract merging, and the
  lookup of vendored sources. Disk readers (\<open>blueprint.ParseDir\<close>, \<open>module.Inspect\<close>) are fields of a
  record. Error values carry the names the Go messages are built from; the wrapping texts are dropped.
\<close>

subsection \<open>World, errors, context\<close>

datatype buildError =
    ReadFailed string
  | PluginsInGroup string
  | CircularUse "string list" string
  | NoGroup string string
  | NotVendored string
  | VendorFailed
  | NotDirectory string
  | AddressFailed addressError
  | ContractConflict string string string
  | GroupInvalid
  | UnknownUseInstance string
  | NotExported PortRef
  | ExportNotSingle string nat
  | ExportNoTargets string
  | ExportNoNode string string
  | ExportNoPort string string string
  | FanOutBothSides Edge
  | NotAnExportInput string string
  | VarsUnknownNode string string
  | VarsTwice string string
  | Panicked
  | OutOfFuel

record World =
  w_OS :: OS
  w_Lib :: CtyLib
  w_ParseDir :: "string \<Rightarrow> unit + Blueprint"
  w_Inspect :: "string \<Rightarrow> FileMode \<Rightarrow> unit + Schema"

record resolveContext =
  rc_observation :: bool
  rc_stack :: "string list"
  rc_rootDir :: string
  rc_fallbackBinary :: string
  rc_rootVendorDir :: string

definition groupKey :: "string \<Rightarrow> string \<Rightarrow> string" where
  "groupKey dir name = dir @ ''::'' @ name"

definition push :: "resolveContext \<Rightarrow> string \<Rightarrow> string \<Rightarrow> buildError + resolveContext" where
  "push rc dir name =
     (let key = groupKey dir name in
      if key \<in> set (rc_stack rc) then Inl (CircularUse (rc_stack rc) key)
      else Inr (rc\<lparr>rc_stack := rc_stack rc @ [key]\<rparr>))"

subsection \<open>Reading with and without the caches\<close>

definition readGroupDir :: "World \<Rightarrow> string \<Rightarrow> buildError + Blueprint" where
  "readGroupDir w dir =
     (case w_ParseDir w dir of
        Inl _ \<Rightarrow> Inl (ReadFailed dir)
      | Inr bp \<Rightarrow> if bp_Plugins bp \<noteq> [] then Inl (PluginsInGroup dir) else Inr bp)"

type_synonym groupCache = "Blueprint smap"

definition parseGroupDir :: "World \<Rightarrow> string \<Rightarrow> groupCache \<Rightarrow> (buildError + Blueprint) \<times> groupCache" where
  "parseGroupDir w dir cache =
     (case map_of cache dir of
        Some bp \<Rightarrow> (Inr bp, cache)
      | None \<Rightarrow>
          (case readGroupDir w dir of
             Inl e \<Rightarrow> (Inl e, cache)
           | Inr bp \<Rightarrow> (Inr bp, AList.update dir bp cache)))"

definition readSchema :: "World \<Rightarrow> string \<Rightarrow> FileMode \<Rightarrow> buildError + Schema" where
  "readSchema w dir mode = (case w_Inspect w dir mode of Inl _ \<Rightarrow> Inl (ReadFailed dir) | Inr s \<Rightarrow> Inr s)"

type_synonym schemaCache = "((string \<times> FileMode) \<times> Schema) list"

definition inspect :: "World \<Rightarrow> string \<Rightarrow> FileMode \<Rightarrow> schemaCache \<Rightarrow> (buildError + Schema) \<times> schemaCache" where
  "inspect w dir mode cache =
     (case map_of cache (dir, mode) of
        Some s \<Rightarrow> (Inr s, cache)
      | None \<Rightarrow>
          (case readSchema w dir mode of
             Inl e \<Rightarrow> (Inl e, cache)
           | Inr s \<Rightarrow> (Inr s, AList.update (dir, mode) s cache)))"

definition loadGroupDef :: "World \<Rightarrow> string \<Rightarrow> string \<Rightarrow> buildError + Group \<times> Blueprint" where
  "loadGroupDef w dir groupName =
     bindR (readGroupDir w dir) (\<lambda>bp.
       case find (\<lambda>gr. gr_Name gr = groupName) (bp_Groups bp) of
         None \<Rightarrow> Inl (NoGroup groupName dir)
       | Some gr \<Rightarrow> Inr (gr, bp))"

subsection \<open>Names and vendored sources\<close>

definition qualifyName :: "string \<Rightarrow> string \<Rightarrow> string" where
  "qualifyName namespace name = (if namespace = '''' then name else namespace @ ''.'' @ name)"

definition legacyGroupSourceDir :: "OS \<Rightarrow> string \<Rightarrow> string \<Rightarrow> string \<Rightarrow> string" where
  "legacyGroupSourceDir os scopeDir vendorDir name =
     (let previous = Join [scopeDir, ''vendor'', name] in
      if os_Lstat os previous \<noteq> StatNotExist then previous else Join [scopeDir, vendorDir, name])"

definition vendoredModuleDir :: "OS \<Rightarrow> string \<Rightarrow> buildError + string" where
  "vendoredModuleDir os dir =
     (case os_ReadVendoredSource os dir of
        Inl _ \<Rightarrow> Inl VendorFailed
      | Inr None \<Rightarrow> Inr dir
      | Inr (Some s) \<Rightarrow> (case os_SourceDirectory os s dir of Inl _ \<Rightarrow> Inl VendorFailed | Inr d \<Rightarrow> Inr d))"

definition remoteModuleDir :: "OS \<Rightarrow> string \<Rightarrow> string \<Rightarrow> string \<Rightarrow> string \<Rightarrow> string \<Rightarrow> buildError + string" where
  "remoteModuleDir os rootVendorDir scopeDir scopeVendorDir qualifiedName localName =
     (let dir0 = Join [rootVendorDir, qualifiedName] in
      bindR (case os_Lstat os dir0 of
               StatNotExist \<Rightarrow> Inr (if qualifiedName \<noteq> localName
                                   then legacyGroupSourceDir os scopeDir scopeVendorDir localName else dir0)
             | StatFailed \<Rightarrow> Inl VendorFailed
             | StatOk _ \<Rightarrow> Inr dir0) (\<lambda>dir.
      case os_Stat os dir of
        StatNotExist \<Rightarrow> Inl (NotVendored qualifiedName)
      | StatFailed \<Rightarrow> Inl VendorFailed
      | StatOk info \<Rightarrow> if fi_IsDir info then vendoredModuleDir os dir else Inl (NotDirectory dir)))"

subsection \<open>Exports and edges\<close>

record useInfo =
  ui_export :: Export
  ui_roots :: "string list"
  ui_sinks :: "string list"

definition emptyExport :: Export where
  "emptyExport = \<lparr>ex_Inputs = [], ex_Outputs = []\<rparr>"

definition exportedPort :: "useInfo \<Rightarrow> PortRef \<Rightarrow> buildError + PortRef list" where
  "exportedPort info ref =
     (if pr_Kind ref = PortOutput then
        (case find (\<lambda>o'. eo_Name o' = pr_Name ref) (ex_Outputs (ui_export info)) of
           Some o' \<Rightarrow> Inr [eo_From o'] | None \<Rightarrow> Inl (NotExported ref))
      else
        (case find (\<lambda>i. ei_Name i = pr_Name ref) (ex_Inputs (ui_export info)) of
           Some i \<Rightarrow> Inr (ei_To i) | None \<Rightarrow> Inl (NotExported ref)))"

definition resolveExportEndpoint ::
    "useInfo smap \<Rightarrow> (string \<Rightarrow> string) \<Rightarrow> PortRef \<Rightarrow> buildError + PortRef list" where
  "resolveExportEndpoint uses qualify ref =
     (if pr_Entity ref \<noteq> EntityUse then Inr [ref\<lparr>pr_Node := qualify (pr_Node ref)\<rparr>]
      else (case map_of uses (pr_Node ref) of
              None \<Rightarrow> Inl (UnknownUseInstance (pr_Node ref))
            | Some info \<Rightarrow> exportedPort info ref))"

definition resolveExportInput :: "useInfo smap \<Rightarrow> (string \<Rightarrow> string) \<Rightarrow> ExportInput \<Rightarrow> buildError + ExportInput" where
  "resolveExportInput uses qualify i =
     bindR (mapR (resolveExportEndpoint uses qualify) (ei_To i)) (\<lambda>ts.
       Inr \<lparr>ei_Name = ei_Name i, ei_To = concat ts\<rparr>)"

definition resolveExportOutput :: "useInfo smap \<Rightarrow> (string \<Rightarrow> string) \<Rightarrow> ExportOutput \<Rightarrow> buildError + ExportOutput" where
  "resolveExportOutput uses qualify o' =
     bindR (resolveExportEndpoint uses qualify (eo_From o')) (\<lambda>r.
       case r of
         [p] \<Rightarrow> Inr \<lparr>eo_Name = eo_Name o', eo_From = p\<rparr>
       | _ \<Rightarrow> Inl (ExportNotSingle (eo_Name o') (length r)))"

definition resolveExport :: "useInfo smap \<Rightarrow> (string \<Rightarrow> string) \<Rightarrow> Export \<Rightarrow> buildError + Export" where
  "resolveExport uses qualify e =
     bindR (mapR (resolveExportInput uses qualify) (ex_Inputs e)) (\<lambda>ins.
     bindR (mapR (resolveExportOutput uses qualify) (ex_Outputs e)) (\<lambda>outs.
     Inr \<lparr>ex_Inputs = ins, ex_Outputs = outs\<rparr>))"

definition rewriteEndpoint ::
    "useInfo smap \<Rightarrow> (string \<Rightarrow> string) \<Rightarrow> bool \<Rightarrow> PortRef \<Rightarrow> buildError + PortRef list" where
  "rewriteEndpoint uses qualify wantRoots ref =
     (if pr_Entity ref \<noteq> EntityUse then Inr [ref\<lparr>pr_Node := qualify (pr_Node ref)\<rparr>]
      else (case map_of uses (pr_Node ref) of
              None \<Rightarrow> Inl (UnknownUseInstance (pr_Node ref))
            | Some info \<Rightarrow>
                if \<not> IsPort ref then Inr (map bareRef (if wantRoots then ui_roots info else ui_sinks info))
                else exportedPort info ref))"

definition rewriteEdge :: "useInfo smap \<Rightarrow> (string \<Rightarrow> string) \<Rightarrow> Edge \<Rightarrow> buildError + Edge list" where
  "rewriteEdge uses qualify e =
     bindR (rewriteEndpoint uses qualify False (e_From e)) (\<lambda>froms.
     bindR (rewriteEndpoint uses qualify True (e_To e)) (\<lambda>tos.
     if IsDataEdge e \<and> length froms > 1 \<and> length tos > 1 then Inl (FanOutBothSides e)
     else Inr (concat (map (\<lambda>f. map (\<lambda>t. \<lparr>e_From = f, e_To = t\<rparr>) tos) froms))))"

subsection \<open>Checking an export and applying literals\<close>

definition checkExportTarget :: "Graph \<Rightarrow> string \<Rightarrow> PortRef \<Rightarrow> buildError + bool" where
  "checkExportTarget g inName ref =
     (case map_of (g_Nodes g) (pr_Node ref) of
        None \<Rightarrow> Inl (ExportNoNode inName (pr_Node ref))
      | Some n \<Rightarrow>
          (case gn_Schema n of
             None \<Rightarrow> Inl Panicked
           | Some s \<Rightarrow>
               (case map_of (sc_Variables s) (pr_Name ref) of
                  None \<Rightarrow> Inl (ExportNoPort inName (pr_Node ref) (pr_Name ref))
                | Some v \<Rightarrow> Inr (v_Required v))))"

definition synthesizeInput :: "Graph \<Rightarrow> ExportInput \<Rightarrow> buildError + string \<times> bool" where
  "synthesizeInput g i =
     (if ei_To i = [] then Inl (ExportNoTargets (ei_Name i))
      else bindR (mapR (checkExportTarget g (ei_Name i)) (ei_To i)) (\<lambda>rs.
             Inr (ei_Name i, list_ex (\<lambda>r. r) rs)))"

definition synthesizeOutput :: "Graph \<Rightarrow> ExportOutput \<Rightarrow> buildError + string" where
  "synthesizeOutput g o' =
     (case map_of (g_Nodes g) (pr_Node (eo_From o')) of
        None \<Rightarrow> Inl (ExportNoNode (eo_Name o') (pr_Node (eo_From o')))
      | Some n \<Rightarrow>
          (case gn_Schema n of
             None \<Rightarrow> Inl Panicked
           | Some s \<Rightarrow>
               if HasOutput s (pr_Name (eo_From o')) then Inr (eo_Name o')
               else Inl (ExportNoPort (eo_Name o') (pr_Node (eo_From o')) (pr_Name (eo_From o')))))"

text \<open>The synthesized schema: each exported input with whether it is required, and the outputs.\<close>

definition synthesizeSchema :: "Export \<Rightarrow> Graph \<Rightarrow> buildError + bool smap \<times> string list" where
  "synthesizeSchema e g =
     bindR (mapR (synthesizeInput g) (ex_Inputs e)) (\<lambda>vars.
     bindR (mapR (synthesizeOutput g) (ex_Outputs e)) (\<lambda>outs.
     Inr (vars, outs)))"

definition setVar :: "string \<Rightarrow> jval \<Rightarrow> gNode smap \<Rightarrow> PortRef \<Rightarrow> buildError + gNode smap" where
  "setVar key val nodes ref =
     (case map_of nodes (pr_Node ref) of
        None \<Rightarrow> Inl (VarsUnknownNode key (pr_Node ref))
      | Some n \<Rightarrow>
          if hasKey (bn_Vars (gn_Node n)) (pr_Name ref) then Inl (VarsTwice (pr_Node ref) (pr_Name ref))
          else Inr (AList.update (pr_Node ref)
                 (n\<lparr>gn_Node := (gn_Node n)\<lparr>bn_Vars := AList.update (pr_Name ref) val (bn_Vars (gn_Node n))\<rparr>\<rparr>) nodes))"

text \<open>\<open>byName\<close> is filled in order, so the last of two inputs of one name would win.\<close>

definition applyUseVar :: "jval smap \<Rightarrow> Export \<Rightarrow> string \<Rightarrow> gNode smap \<Rightarrow> string \<Rightarrow> buildError + gNode smap" where
  "applyUseVar vars e instanceAs nodes key =
     (case map_of (rev (map (\<lambda>i. (ei_Name i, ei_To i)) (ex_Inputs e))) key of
        None \<Rightarrow> Inl (NotAnExportInput instanceAs key)
      | Some targets \<Rightarrow>
          (case map_of vars key of
             None \<Rightarrow> Inr nodes
           | Some val \<Rightarrow> foldR (setVar key val) nodes targets))"

definition applyUseVars ::
    "jval smap \<Rightarrow> Export \<Rightarrow> string \<Rightarrow> gNode smap \<Rightarrow> buildError + gNode smap" where
  "applyUseVars vars e instanceAs nodes = foldR (applyUseVar vars e instanceAs) nodes (sortedKeys vars)"

subsection \<open>Merging contracts\<close>

definition mergePort ::
    "CtyLib \<Rightarrow> string \<Rightarrow> string \<Rightarrow> PortContract smap \<Rightarrow> string \<times> PortContract \<Rightarrow> buildError + PortContract smap" where
  "mergePort lib role scope ports x =
     (let (name, p) = x in
      case map_of ports name of
        Some cur \<Rightarrow> if sameClaims lib cur p then Inr ports else Inl (ContractConflict role scope name)
      | None \<Rightarrow> Inr (AList.update name p ports))"

definition mergeDirContracts :: "CtyLib \<Rightarrow> DirContracts \<Rightarrow> DirContracts \<Rightarrow> buildError + DirContracts" where
  "mergeDirContracts lib base add =
     bindR (foldR (mergePort lib ''producer'' (dc_Scope base)) (dc_Producer base) (dc_Producer add)) (\<lambda>prod.
     bindR (foldR (mergePort lib ''consumer'' (dc_Scope base)) (dc_Consumer base) (dc_Consumer add)) (\<lambda>cons.
     Inr \<lparr>dc_Scope = dc_Scope base, dc_Dir = dc_Dir base, dc_Producer = prod, dc_Consumer = cons\<rparr>))"

definition mergeDir :: "CtyLib \<Rightarrow> DirContracts smap \<Rightarrow> DirContracts \<Rightarrow> buildError + DirContracts smap" where
  "mergeDir lib m dc =
     (case map_of m (dc_Dir dc) of
        None \<Rightarrow> Inr (AList.update (dc_Dir dc) dc m)
      | Some existing \<Rightarrow>
          bindR (mergeDirContracts lib existing dc) (\<lambda>merged. Inr (AList.update (dc_Dir dc) merged m)))"

definition mergeContracts :: "CtyLib \<Rightarrow> Graph \<Rightarrow> Contracts \<Rightarrow> buildError + Graph" where
  "mergeContracts lib g src =
     (case src of
        None \<Rightarrow> Inr g
      | Some byDir \<Rightarrow>
          bindR (foldR (mergeDir lib) (case g_Contracts g of None \<Rightarrow> [] | Some m \<Rightarrow> m) (map snd byDir)) (\<lambda>m.
          Inr (g\<lparr>g_Contracts := Some m\<rparr>)))"

subsection \<open>The caches change nothing\<close>

definition coherentGroups :: "World \<Rightarrow> groupCache \<Rightarrow> bool" where
  "coherentGroups w cache \<longleftrightarrow> (\<forall>dir bp. map_of cache dir = Some bp \<longrightarrow> readGroupDir w dir = Inr bp)"

definition coherentSchemas :: "World \<Rightarrow> schemaCache \<Rightarrow> bool" where
  "coherentSchemas w cache \<longleftrightarrow> (\<forall>dir mode s. map_of cache (dir, mode) = Some s \<longrightarrow> readSchema w dir mode = Inr s)"

lemma parseGroupDir_coherent:
  assumes "coherentGroups w cache" "parseGroupDir w dir cache = (r, cache')"
  shows "r = readGroupDir w dir" "coherentGroups w cache'"
  using assms by (auto simp: parseGroupDir_def coherentGroups_def update_conv' split: option.splits sum.splits if_splits)

lemma inspect_coherent:
  assumes "coherentSchemas w cache" "inspect w dir mode cache = (r, cache')"
  shows "r = readSchema w dir mode" "coherentSchemas w cache'"
  using assms by (auto simp: inspect_def coherentSchemas_def update_conv' split: option.splits sum.splits if_splits)

text \<open>A sequence of reads through both caches, as one \<open>Build\<close> call performs it.\<close>

datatype readRequest = ReadGroup string | ReadSchema string FileMode

fun cachedReads ::
    "World \<Rightarrow> groupCache \<Rightarrow> schemaCache \<Rightarrow> readRequest list \<Rightarrow> ((buildError + Blueprint) + (buildError + Schema)) list" where
  "cachedReads w gc sc [] = []"
| "cachedReads w gc sc (ReadGroup dir # rs) =
     (let (r, gc') = parseGroupDir w dir gc in Inl r # cachedReads w gc' sc rs)"
| "cachedReads w gc sc (ReadSchema dir mode # rs) =
     (let (r, sc') = inspect w dir mode sc in Inr r # cachedReads w gc sc' rs)"

fun directRead :: "World \<Rightarrow> readRequest \<Rightarrow> (buildError + Blueprint) + (buildError + Schema)" where
  "directRead w (ReadGroup dir) = Inl (readGroupDir w dir)"
| "directRead w (ReadSchema dir mode) = Inr (readSchema w dir mode)"

lemma cachedReads_direct:
  "coherentGroups w gc \<Longrightarrow> coherentSchemas w sc \<Longrightarrow> cachedReads w gc sc rs = map (directRead w) rs"
proof (induction w gc sc rs rule: cachedReads.induct)
  case (2 w gc sc dir rs)
  then show ?case
    using parseGroupDir_coherent [OF 2(2)] by (cases "parseGroupDir w dir gc") auto
next
  case (3 w gc sc dir mode rs)
  then show ?case
    using inspect_coherent [OF 3(3)] by (cases "inspect w dir mode sc") auto
qed simp

subsection \<open>Merging never overwrites a claim\<close>

lemma mergePorts_keep:
  assumes "foldR (mergePort lib role scope) ports xs = Inr ports'"
  shows "map_of ports name = Some p \<Longrightarrow> map_of ports' name = Some p"
    and "(name, p) \<in> set xs \<Longrightarrow> \<exists>q. map_of ports' name = Some q \<and> (q = p \<or> sameClaims lib q p)"
proof -
  have step: "map_of t n = Some q" if "mergePort lib role scope s x = Inr t" "map_of s n = Some q" for s x t n q
    using that by (auto simp: mergePort_def update_conv' split: option.splits if_splits prod.splits)
  have keep: "map_of m n = Some q \<Longrightarrow> foldR (mergePort lib role scope) m ys = Inr m' \<Longrightarrow> map_of m' n = Some q" for m ys m' n q
    by (erule foldR_inv [where I = "\<lambda>m. map_of m n = Some q", rotated]) (auto dest: step)
  show "map_of ports name = Some p \<Longrightarrow> map_of ports' name = Some p" using keep assms by blast
  assume "(name, p) \<in> set xs"
  then obtain ys zs where xs: "xs = ys @ (name, p) # zs" by (meson split_list)
  obtain m m' where m: "mergePort lib role scope m (name, p) = Inr m'" "foldR (mergePort lib role scope) m' zs = Inr ports'"
    using assms by (auto simp: xs foldR_append)
  from m(1) have "\<exists>q. map_of m' name = Some q \<and> (q = p \<or> sameClaims lib q p)"
    by (auto simp: mergePort_def update_conv' split: option.splits if_splits)
  then show "\<exists>q. map_of ports' name = Some q \<and> (q = p \<or> sameClaims lib q p)" using keep [OF _ m(2)] by blast
qed

subsection \<open>Properties\<close>

text \<open>
  Within one \<open>Build\<close> call, reading group directories and module schemas through the two caches
  returns, for every sequence of requests, exactly what reading the disk each time would return; in
  particular a directory inspected under two file modes keeps two schemas.
\<close>

lemma caches_transparent: "cachedReads w [] [] rs = map (directRead w) rs"
  by (rule cachedReads_direct) (simp_all add: coherentGroups_def coherentSchemas_def)

text \<open>
  Merging two contract sets of one directory never resolves a contradiction silently: every claim
  of the first set survives unchanged, every claim of the second set is present or an equal claim
  stands in its place; otherwise the merge is an error.
\<close>

lemma mergeDirContracts_no_overwrite:
  assumes "mergeDirContracts lib base add = Inr m"
  shows "dc_Dir m = dc_Dir base \<and>
     (\<forall>name p. map_of (dc_Producer base) name = Some p \<longrightarrow> map_of (dc_Producer m) name = Some p) \<and>
     (\<forall>name p. map_of (dc_Consumer base) name = Some p \<longrightarrow> map_of (dc_Consumer m) name = Some p) \<and>
     (\<forall>name p. map_of (dc_Producer add) name = Some p \<longrightarrow>
        (\<exists>q. map_of (dc_Producer m) name = Some q \<and> (q = p \<or> sameClaims lib q p))) \<and>
     (\<forall>name p. map_of (dc_Consumer add) name = Some p \<longrightarrow>
        (\<exists>q. map_of (dc_Consumer m) name = Some q \<and> (q = p \<or> sameClaims lib q p)))"
proof -
  obtain ps cs where p: "foldR (mergePort lib ''producer'' (dc_Scope base)) (dc_Producer base) (dc_Producer add) = Inr ps"
    and c: "foldR (mergePort lib ''consumer'' (dc_Scope base)) (dc_Consumer base) (dc_Consumer add) = Inr cs"
    and m: "m = \<lparr>dc_Scope = dc_Scope base, dc_Dir = dc_Dir base, dc_Producer = ps, dc_Consumer = cs\<rparr>"
    using assms by (auto simp: mergeDirContracts_def)
  show ?thesis
    using mergePorts_keep [OF p] mergePorts_keep [OF c] by (auto simp: m dest: map_of_SomeD)
qed

end
