(* ===== verification/Build.thy ===== *)
theory Build
  imports Group_Expand
begin

text \<open>
  Building the graph (\<open>internal/graph/build.go\<close>, \<open>source.go\<close>): \<open>build\<close> and \<open>resolveUse\<close> are mutually
  recursive through nested \<open>use\<close> blocks. They take fuel, one unit per nesting level; a property shows
  that a disk with finitely many group definitions never exhausts it. Settings inherited from the
  enclosing \<open>use\<close> blocks form one record. The caches of the context do not occur here, because the
  readers are functions; theory \<open>Group_Expand\<close> shows that reading through them gives the same result.
  Copying a node (\<open>cloneNode\<close>) is the identity on values.
\<close>

subsection \<open>Inherited settings\<close>

record Ambient =
  am_Runtime :: "Runtime option"
  am_Env :: "string smap"
  am_Backend :: "string smap"
  am_Address :: "string smap option"
  am_Approve :: string

definition noAmbient :: Ambient where
  "noAmbient = \<lparr>am_Runtime = None, am_Env = [], am_Backend = [], am_Address = None, am_Approve = ''''\<rparr>"

text \<open>\<open>runtimeFor\<close>: a miss yields the zero \<open>Runtime\<close>, as the Go closure does.\<close>

definition runtimeOr :: "Blueprint \<Rightarrow> Runtime option \<Rightarrow> string \<Rightarrow> Runtime option" where
  "runtimeOr bp ambient name =
     (if name = '''' then ambient
      else Some (case RuntimeByName (bp_Runtimes bp) name of
                   Some rt \<Rightarrow> rt
                 | None \<Rightarrow> \<lparr>rt_Name = '''', rt_Binary = '''', rt_Version = '''', rt_Default = False\<rparr>))"

definition useAmbient :: "Blueprint \<Rightarrow> Ambient \<Rightarrow> Use \<Rightarrow> Ambient" where
  "useAmbient bp am u =
     \<lparr>am_Runtime = runtimeOr bp (am_Runtime am) (u_Runtime u),
      am_Env = mergeEnv (am_Env am) (u_Env u),
      am_Backend = mergeEnv (am_Backend am) (u_BackendConfig u),
      am_Address = mergeBackendAddress (am_Address am) (u_BackendAddress u),
      am_Approve = (if u_Approve u \<noteq> '''' then u_Approve u else am_Approve am)\<rparr>"

subsection \<open>One node\<close>

text \<open>
  The directory of a node and whether finding it failed. Under observation a failure is recorded and
  the directory is empty; otherwise it ends the build.
\<close>

definition nodeDir :: "World \<Rightarrow> resolveContext \<Rightarrow> Blueprint \<Rightarrow> string \<Rightarrow> string \<Rightarrow> bpNode \<Rightarrow> buildError + string \<times> bool" where
  "nodeDir w rc bp baseDir namespace n =
     (if \<not> IsRemote (bn_Source n) then Inr (Join [baseDir, bn_Source n], False)
      else (case remoteModuleDir (w_OS w) (rc_rootVendorDir rc) baseDir (VendorDirectory bp)
                   (qualifyName namespace (bn_Name n)) (bn_Name n) of
              Inr dir \<Rightarrow> Inr (dir, False)
            | Inl e \<Rightarrow> if rc_observation rc then Inr ('''', True) else Inl e))"

definition nodeSchema :: "World \<Rightarrow> resolveContext \<Rightarrow> string \<Rightarrow> string \<Rightarrow> bool \<Rightarrow> buildError + Schema option \<times> bool" where
  "nodeSchema w rc dir binary failed =
     (case readSchema w dir (FileModeForBinary (w_OS w) binary) of
        Inr s \<Rightarrow> Inr (Some s, failed)
      | Inl e \<Rightarrow> if rc_observation rc then Inr (None, True) else Inl e)"

definition nodeAddress :: "resolveContext \<Rightarrow> bpNode \<Rightarrow> Schema option \<Rightarrow> bool \<Rightarrow> buildError + bpNode \<times> bool" where
  "nodeAddress rc qn schema failed =
     (case fillBackendAddress qn schema of
        Inr qn' \<Rightarrow> Inr (qn', failed)
      | Inl e \<Rightarrow> if rc_observation rc then Inr (qn, True) else Inl (AddressFailed e))"

definition buildNode ::
    "World \<Rightarrow> resolveContext \<Rightarrow> Blueprint \<Rightarrow> string \<Rightarrow> string \<Rightarrow> Ambient \<Rightarrow> bpNode \<Rightarrow> buildError + gNode" where
  "buildNode w rc bp baseDir namespace am n =
     bindR (nodeDir w rc bp baseDir namespace n) (\<lambda>(dir, failed).
     let resolved = runtimeOr bp (am_Runtime am) (bn_Runtime n);
         binary = (case resolved of Some rt \<Rightarrow> rt_Binary rt | None \<Rightarrow> rc_fallbackBinary rc) in
     bindR (nodeSchema w rc dir binary failed) (\<lambda>(schema, failed').
     let qn = n\<lparr>bn_Name := qualifyName namespace (bn_Name n),
                bn_BackendAddress := mergeBackendAddress (am_Address am) (bn_BackendAddress n),
                bn_BackendConfig := mergeEnv (am_Backend am) (bn_BackendConfig n)\<rparr> in
     bindR (nodeAddress rc qn schema failed') (\<lambda>(qn', failed'').
     Inr \<lparr>gn_Node = qn'\<lparr>bn_BackendConfig :=
             fillLocalBackendPath (bn_BackendConfig qn') schema (rc_rootDir rc) (bn_Name qn')\<rparr>,
          gn_Schema = schema, gn_ObservationError = failed'', gn_Dir = dir, gn_Runtime = resolved,
          gn_Env = mergeEnv (am_Env am) (bn_Env n),
          gn_Approve = (if bn_Approve n \<noteq> '''' then bn_Approve n else am_Approve am)\<rparr>)))"

definition addNode ::
    "World \<Rightarrow> resolveContext \<Rightarrow> Blueprint \<Rightarrow> string \<Rightarrow> string \<Rightarrow> Ambient \<Rightarrow> Graph \<Rightarrow> bpNode \<Rightarrow> buildError + Graph" where
  "addNode w rc bp baseDir namespace am g n =
     bindR (buildNode w rc bp baseDir namespace am n) (\<lambda>gn.
       Inr (g\<lparr>g_Nodes := AList.update (bn_Name (gn_Node gn)) gn (g_Nodes g)\<rparr>))"

subsection \<open>Splicing an instance and adding edges\<close>

definition spliceGraph :: "CtyLib \<Rightarrow> Graph \<Rightarrow> Graph \<Rightarrow> buildError + Graph" where
  "spliceGraph lib g internal =
     mergeContracts lib
       (foldl addEdge (g\<lparr>g_Nodes := foldl (\<lambda>m (k, n). AList.update k n m) (g_Nodes g) (g_Nodes internal)\<rparr>)
          (g_Edges internal))
       (g_Contracts internal)"

definition addRewritten :: "useInfo smap \<Rightarrow> string \<Rightarrow> Graph \<Rightarrow> Edge \<Rightarrow> buildError + Graph" where
  "addRewritten uses namespace g e =
     bindR (rewriteEdge uses (qualifyName namespace) e) (\<lambda>es. Inr (foldl addEdge g es))"

subsection \<open>Finishing an instance\<close>

text \<open>The part of \<open>resolveUse\<close> after the recursive call.\<close>

definition innerBlueprint :: "Group \<Rightarrow> Blueprint \<Rightarrow> Blueprint" where
  "innerBlueprint def dirBP =
     \<lparr>bp_Plugins = [], bp_Execution = None, bp_Nodes = gr_Nodes def, bp_Edges = gr_Edges def, bp_Groups = [],
      bp_Uses = gr_Uses def, bp_Vendor = bp_Vendor dirBP, bp_TFVars = None, bp_Lock = None,
      bp_Runtimes = bp_Runtimes dirBP, bp_ContractMode = '''', bp_Contracts = None, bp_Snapshots = None\<rparr>"

definition rootsOf :: "Graph \<Rightarrow> string list" where
  "rootsOf g = sort (filter (\<lambda>n. g_In g n = []) (map fst (g_Nodes g)))"

definition sinksOf :: "Graph \<Rightarrow> string list" where
  "sinksOf g = sort (filter (\<lambda>n. g_Out g n = []) (map fst (g_Nodes g)))"

definition finishUse ::
    "World \<Rightarrow> Use \<Rightarrow> string \<Rightarrow> Group \<Rightarrow> Blueprint \<Rightarrow> useInfo smap \<Rightarrow> Graph \<Rightarrow> buildError + useInfo \<times> Graph" where
  "finishUse w u instancePrefix def dirBP innerUses internal0 =
     bindR (mergeContracts (w_Lib w) internal0 (gr_Contracts def)) (\<lambda>internal1.
     bindR (mergeContracts (w_Lib w) internal1 (bp_Contracts dirBP)) (\<lambda>internal.
     bindR (case Validate (w_OS w) (w_Lib w) internal of
              Inl _ \<Rightarrow> Inl Panicked
            | Inr ps \<Rightarrow> require (noErrors ps) GroupInvalid) (\<lambda>_.
     bindR (resolveExport innerUses (qualifyName instancePrefix) (gr_Export def)) (\<lambda>e.
     bindR (synthesizeSchema e internal) (\<lambda>_.
     bindR (applyUseVars (u_Vars u) e (u_As u) (g_Nodes internal)) (\<lambda>nodes.
     let internal' = internal\<lparr>g_Nodes := nodes\<rparr> in
     Inr (\<lparr>ui_export = e, ui_roots = rootsOf internal', ui_sinks = sinksOf internal'\<rparr>, internal')))))))"

subsection \<open>build and resolveUse\<close>

function (sequential) build ::
    "World \<Rightarrow> nat \<Rightarrow> resolveContext \<Rightarrow> Blueprint \<Rightarrow> string \<Rightarrow> string \<Rightarrow> Ambient \<Rightarrow> buildError + Graph \<times> useInfo smap"
  and resolveUses ::
    "World \<Rightarrow> nat \<Rightarrow> resolveContext \<Rightarrow> Blueprint \<Rightarrow> string \<Rightarrow> string \<Rightarrow> Ambient \<Rightarrow> Use list \<Rightarrow> Graph \<times> useInfo smap
       \<Rightarrow> buildError + Graph \<times> useInfo smap"
  and resolveUse ::
    "World \<Rightarrow> nat \<Rightarrow> resolveContext \<Rightarrow> Use \<Rightarrow> string \<Rightarrow> string \<Rightarrow> Ambient \<Rightarrow> buildError + useInfo \<times> Graph" where
  "build w fuel rc bp baseDir namespace am =
     bindR (mergeContracts (w_Lib w) emptyGraph (bp_Contracts bp)) (\<lambda>g0.
     bindR (foldR (addNode w rc bp baseDir namespace am) g0 (bp_Nodes bp)) (\<lambda>g1.
     bindR (resolveUses w fuel rc bp baseDir namespace am (bp_Uses bp) (g1, [])) (\<lambda>(g2, uses).
     if rc_observation rc then Inr (g2, uses)
     else bindR (foldR (addRewritten uses namespace) g2 (bp_Edges bp)) (\<lambda>g3. Inr (g3, uses)))))"
| "resolveUses w fuel rc bp baseDir namespace am [] acc = Inr acc"
| "resolveUses w fuel rc bp baseDir namespace am (u # us) acc =
     bindR (resolveUse w fuel rc u baseDir (qualifyName namespace (u_As u)) (useAmbient bp am u)) (\<lambda>(info, internal).
     bindR (spliceGraph (w_Lib w) (fst acc) internal) (\<lambda>g.
     resolveUses w fuel rc bp baseDir namespace am us (g, AList.update (u_As u) info (snd acc))))"
| "resolveUse w 0 rc u referencingDir instancePrefix am = Inl OutOfFuel"
| "resolveUse w (Suc fuel) rc u referencingDir instancePrefix am =
     (let groupDir = Join [referencingDir, u_Source u] in
      bindR (push rc groupDir (u_GroupName u)) (\<lambda>rc'.
      bindR (loadGroupDef w groupDir (u_GroupName u)) (\<lambda>(def, dirBP).
      bindR (build w fuel rc' (innerBlueprint def dirBP) groupDir instancePrefix am) (\<lambda>(internal, innerUses).
      if rc_observation rc then Inr (\<lparr>ui_export = emptyExport, ui_roots = [], ui_sinks = []\<rparr>, internal)
      else finishUse w u instancePrefix def dirBP innerUses internal))))"
  by pat_completeness auto
termination
  by (relation "measures [\<lambda>x. case x of Inl (_, k, _) \<Rightarrow> k | Inr (Inl (_, k, _)) \<Rightarrow> k | Inr (Inr (_, k, _)) \<Rightarrow> k,
        \<lambda>x. case x of Inl _ \<Rightarrow> 2 | Inr (Inl _) \<Rightarrow> 1 | Inr (Inr _) \<Rightarrow> 0,
        \<lambda>x. case x of Inr (Inl (_, _, _, _, _, _, _, us, _)) \<Rightarrow> length us | _ \<Rightarrow> 0]") auto

definition buildRoot :: "World \<Rightarrow> nat \<Rightarrow> Blueprint \<Rightarrow> string \<Rightarrow> bool \<Rightarrow> string \<Rightarrow> buildError + Graph" where
  "buildRoot w fuel bp baseDir observation cliBinary =
     (let fallback0 = (if cliBinary \<noteq> '''' then cliBinary else ''terraform'');
          fallback = (case DefaultRuntime bp of Some rt \<Rightarrow> rt_Binary rt | None \<Rightarrow> fallback0);
          rc = \<lparr>rc_observation = observation, rc_stack = [], rc_rootDir = baseDir, rc_fallbackBinary = fallback,
                rc_rootVendorDir = Join [baseDir, VendorDirectory bp]\<rparr> in
      bindR (build w fuel rc bp baseDir '''' noAmbient) (\<lambda>(g, _).
      Inr (g\<lparr>g_Lock := bp_Lock bp, g_Snapshots := (bp_Snapshots bp = Some True)\<rparr>)))"

definition Build :: "World \<Rightarrow> nat \<Rightarrow> Blueprint \<Rightarrow> string \<Rightarrow> string \<Rightarrow> buildError + Graph" where
  "Build w fuel bp baseDir cliBinary = buildRoot w fuel bp baseDir False cliBinary"

definition BuildObservation :: "World \<Rightarrow> nat \<Rightarrow> Blueprint \<Rightarrow> string \<Rightarrow> string \<Rightarrow> buildError + Graph" where
  "BuildObservation w fuel bp baseDir cliBinary = buildRoot w fuel bp baseDir True cliBinary"

subsection \<open>SourceNodes\<close>

record SourceNode =
  so_Node :: bpNode
  so_LegacyDir :: string

definition sourceLeaf :: "World \<Rightarrow> Blueprint \<Rightarrow> string \<Rightarrow> string \<Rightarrow> string smap \<Rightarrow> bpNode \<Rightarrow> SourceNode" where
  "sourceLeaf w bp baseDir namespace backend n =
     \<lparr>so_Node = n\<lparr>bn_Name := qualifyName namespace (bn_Name n), bn_BackendConfig := mergeEnv backend (bn_BackendConfig n)\<rparr>,
      so_LegacyDir = (if namespace \<noteq> '''' \<and> IsRemote (bn_Source n)
                      then legacyGroupSourceDir (w_OS w) baseDir (VendorDirectory bp) (bn_Name n) else '''')\<rparr>"

function (sequential) sourceNodes ::
    "World \<Rightarrow> nat \<Rightarrow> resolveContext \<Rightarrow> Blueprint \<Rightarrow> string \<Rightarrow> string \<Rightarrow> string smap \<Rightarrow> buildError + SourceNode list"
  and sourceUses ::
    "World \<Rightarrow> nat \<Rightarrow> resolveContext \<Rightarrow> string \<Rightarrow> string \<Rightarrow> string smap \<Rightarrow> Use list \<Rightarrow> SourceNode list
       \<Rightarrow> buildError + SourceNode list" where
  "sourceNodes w fuel rc bp baseDir namespace backend =
     sourceUses w fuel rc baseDir namespace backend (bp_Uses bp)
       (map (sourceLeaf w bp baseDir namespace backend) (bp_Nodes bp))"
| "sourceUses w fuel rc baseDir namespace backend [] acc = Inr acc"
| "sourceUses w 0 rc baseDir namespace backend (u # us) acc = Inl OutOfFuel"
| "sourceUses w (Suc fuel) rc baseDir namespace backend (u # us) acc =
     (let groupDir = Join [baseDir, u_Source u] in
      bindR (push rc groupDir (u_GroupName u)) (\<lambda>rc'.
      bindR (loadGroupDef w groupDir (u_GroupName u)) (\<lambda>(def, dirBP).
      bindR (sourceNodes w fuel rc' ((innerBlueprint def dirBP)\<lparr>bp_Edges := []\<rparr>) groupDir
               (qualifyName namespace (u_As u)) (mergeEnv backend (u_BackendConfig u))) (\<lambda>leaves.
      sourceUses w (Suc fuel) rc baseDir namespace backend us (acc @ leaves)))))"
  by pat_completeness auto
termination
  by (relation "measures [\<lambda>x. case x of Inl (_, k, _) \<Rightarrow> k | Inr (_, k, _) \<Rightarrow> k,
        \<lambda>x. case x of Inl _ \<Rightarrow> Suc 0 | Inr _ \<Rightarrow> 0,
        \<lambda>x. case x of Inr (_, _, _, _, _, _, us, _) \<Rightarrow> length us | _ \<Rightarrow> 0]") auto

declare build.simps [simp del] resolveUses.simps [simp del] resolveUse.simps [simp del]
  sourceNodes.simps [simp del] sourceUses.simps [simp del]

definition SourceNodes :: "World \<Rightarrow> nat \<Rightarrow> Blueprint \<Rightarrow> string \<Rightarrow> buildError + SourceNode list" where
  "SourceNodes w fuel bp baseDir =
     sourceNodes w fuel
       \<lparr>rc_observation = False, rc_stack = [], rc_rootDir = '''', rc_fallbackBinary = '''', rc_rootVendorDir = ''''\<rparr>
       bp baseDir '''' []"

subsection \<open>What a build keeps\<close>

definition namesAgree :: "Graph \<Rightarrow> bool" where
  "namesAgree g \<longleftrightarrow> (\<forall>(k, n) \<in> set (g_Nodes g). bn_Name (gn_Node n) = k)"

definition goodGraph :: "bool \<Rightarrow> Graph \<Rightarrow> bool" where
  "goodGraph observation g \<longleftrightarrow> wfGraph g \<and> namesAgree g \<and> (\<not> observation \<longrightarrow> schemasKnown g)"

text \<open>Every node an instance's interface mentions belongs to the graph.\<close>

definition refsIn :: "string set \<Rightarrow> useInfo \<Rightarrow> bool" where
  "refsIn N info \<longleftrightarrow>
     (\<forall>i \<in> set (ex_Inputs (ui_export info)). \<forall>r \<in> set (ei_To i). pr_Node r \<in> N) \<and>
     (\<forall>o' \<in> set (ex_Outputs (ui_export info)). pr_Node (eo_From o') \<in> N) \<and>
     set (ui_roots info) \<subseteq> N \<and> set (ui_sinks info) \<subseteq> N"

definition usesIn :: "string set \<Rightarrow> useInfo smap \<Rightarrow> bool" where
  "usesIn N uses \<longleftrightarrow> (\<forall>x \<in> set uses. refsIn N (snd x))"

text \<open>What the parser guarantees of a scope: a plain reference names a node of the scope.\<close>

definition scopeRefs :: "bpNode list \<Rightarrow> Edge list \<Rightarrow> bool" where
  "scopeRefs nodes es \<longleftrightarrow>
     (\<forall>e \<in> set es. \<forall>r \<in> {e_From e, e_To e}. pr_Entity r \<noteq> EntityUse \<longrightarrow> pr_Node r \<in> bn_Name ` set nodes)"

definition diskScoped :: "World \<Rightarrow> bool" where
  "diskScoped w \<longleftrightarrow>
     (\<forall>dir bp gr. w_ParseDir w dir = Inr bp \<and> gr \<in> set (bp_Groups bp) \<longrightarrow> scopeRefs (gr_Nodes gr) (gr_Edges gr))"

lemma refsIn_mono: "refsIn N info \<Longrightarrow> N \<subseteq> M \<Longrightarrow> refsIn M info"
  by (auto simp: refsIn_def)

lemma usesIn_mono: "usesIn N uses \<Longrightarrow> N \<subseteq> M \<Longrightarrow> usesIn M uses"
  by (auto simp: usesIn_def intro: refsIn_mono)

lemma set_update_cases: "x \<in> set (AList.update k v m) \<Longrightarrow> x = (k, v) \<or> x \<in> set m"
  by (induction m) (auto split: if_splits)

lemma usesIn_update: "usesIn N uses \<Longrightarrow> refsIn N info \<Longrightarrow> usesIn N (AList.update k info uses)"
  by (auto simp: usesIn_def dest!: set_update_cases)

lemma usesIn_lookup: "usesIn N uses \<Longrightarrow> map_of uses k = Some info \<Longrightarrow> refsIn N info"
  by (auto simp: usesIn_def dest!: map_of_SomeD)

lemma mergeContracts_shape: "mergeContracts lib g src = Inr g' \<Longrightarrow> \<exists>c. g' = g\<lparr>g_Contracts := c\<rparr>"
  by (cases src) (auto simp: mergeContracts_def intro: exI [where x = "g_Contracts g"])

lemma goodGraph_contracts [simp]: "goodGraph b (g\<lparr>g_Contracts := c\<rparr>) = goodGraph b g"
  by (simp add: goodGraph_def wfGraph_def adjacent_def edgesClosed_def nodeNames_def namesAgree_def schemasKnown_def)

lemma nodeNames_contracts [simp]: "nodeNames (g\<lparr>g_Contracts := c\<rparr>) = nodeNames g"
  by (simp add: nodeNames_def)

lemma goodGraph_empty [simp]: "goodGraph b emptyGraph" "nodeNames emptyGraph = {}"
  by (simp_all add: goodGraph_def emptyGraph_def wfGraph_def adjacent_def edgesClosed_def nodeNames_def namesAgree_def
      schemasKnown_def)


lemma goodGraph_addNode:
  assumes "goodGraph b g" "bn_Name (gn_Node n) = k" "\<not> b \<longrightarrow> gn_Schema n \<noteq> None"
  shows "goodGraph b (g\<lparr>g_Nodes := AList.update k n (g_Nodes g)\<rparr>)"
    and "nodeNames (g\<lparr>g_Nodes := AList.update k n (g_Nodes g)\<rparr>) = insert k (nodeNames g)"
  using assms
  by (auto simp: goodGraph_def wfGraph_def edgesClosed_def nodeNames_def namesAgree_def schemasKnown_def
      dest!: set_update_cases)

lemma goodGraph_addEdge:
  assumes "goodGraph b g" "edgeSrc e \<in> nodeNames g" "edgeDst e \<in> nodeNames g"
  shows "goodGraph b (addEdge g e)"
  using assms by (auto simp: goodGraph_def wfGraph_def adjacent_addEdge edgesClosed_def namesAgree_def schemasKnown_def)

lemma goodGraph_addEdges:
  assumes "goodGraph b g" "\<forall>e \<in> set es. edgeSrc e \<in> nodeNames g \<and> edgeDst e \<in> nodeNames g"
  shows "goodGraph b (foldl addEdge g es) \<and> nodeNames (foldl addEdge g es) = nodeNames g"
  using assms by (induction es arbitrary: g) (auto simp: goodGraph_addEdge)

lemma goodGraph_addNodes:
  assumes "goodGraph b g" "\<forall>(k, n) \<in> set ns. bn_Name (gn_Node n) = k \<and> (\<not> b \<longrightarrow> gn_Schema n \<noteq> None)"
  shows "goodGraph b (g\<lparr>g_Nodes := foldl (\<lambda>m (k, n). AList.update k n m) (g_Nodes g) ns\<rparr>) \<and>
         nodeNames (g\<lparr>g_Nodes := foldl (\<lambda>m (k, n). AList.update k n m) (g_Nodes g) ns\<rparr>) = nodeNames g \<union> fst ` set ns"
  using assms
proof (induction ns arbitrary: g)
  case (Cons x ns)
  obtain k n where x: "x = (k, n)" by fastforce
  let ?g = "g\<lparr>g_Nodes := AList.update k n (g_Nodes g)\<rparr>"
  have "goodGraph b ?g" "nodeNames ?g = insert k (nodeNames g)"
    using goodGraph_addNode [OF Cons.prems(1)] Cons.prems(2) x by auto
  then show ?case using Cons.IH [of ?g] Cons.prems(2) x by auto
qed (simp add: nodeNames_def)

subsection \<open>The steps of a build\<close>

lemma fillBackendAddress_name: "fillBackendAddress n s = Inr n' \<Longrightarrow> bn_Name n' = bn_Name n"
  by (auto simp: fillBackendAddress_def Let_def split: option.splits list.splits if_splits)

lemma buildNode_result:
  assumes "buildNode w rc bp d ns am n = Inr gn"
  shows "bn_Name (gn_Node gn) = qualifyName ns (bn_Name n)" "\<not> rc_observation rc \<longrightarrow> gn_Schema gn \<noteq> None"
proof -
  obtain dir failed schema failed' qn qn' failed'' binary where s: "nodeSchema w rc dir binary failed = Inr (schema, failed')"
    and a: "nodeAddress rc qn schema failed' = Inr (qn', failed'')" "bn_Name qn = qualifyName ns (bn_Name n)"
    and gn: "bn_Name (gn_Node gn) = bn_Name qn'" "gn_Schema gn = schema"
    using assms by (auto simp: buildNode_def Let_def)
  show "bn_Name (gn_Node gn) = qualifyName ns (bn_Name n)"
    using a gn(1) by (auto simp: nodeAddress_def dest: fillBackendAddress_name split: sum.splits if_splits)
  show "\<not> rc_observation rc \<longrightarrow> gn_Schema gn \<noteq> None"
    using s unfolding gn(2) by (auto simp: nodeSchema_def split: sum.splits if_splits)
qed

lemma addNodes_good:
  assumes "foldR (addNode w rc bp d ns am) g xs = Inr g'" "goodGraph (rc_observation rc) g"
  shows "goodGraph (rc_observation rc) g' \<and> nodeNames g' = nodeNames g \<union> (qualifyName ns \<circ> bn_Name) ` set xs"
  using assms
proof (induction xs arbitrary: g)
  case (Cons x xs)
  obtain gn where gn: "buildNode w rc bp d ns am x = Inr gn"
    and rest: "foldR (addNode w rc bp d ns am) (g\<lparr>g_Nodes := AList.update (bn_Name (gn_Node gn)) gn (g_Nodes g)\<rparr>) xs = Inr g'"
    using Cons.prems(1) by (auto simp: addNode_def [of w rc bp d ns am g x])
  note step = goodGraph_addNode [OF Cons.prems(2) refl buildNode_result(2) [OF gn]]
  show ?case using Cons.IH [OF rest step(1)] step(2) buildNode_result(1) [OF gn] by auto
qed simp

lemma splice_good:
  assumes "spliceGraph lib g internal = Inr g'" "goodGraph b g" "goodGraph b internal"
  shows "goodGraph b g' \<and> nodeNames g' = nodeNames g \<union> nodeNames internal"
proof -
  let ?g1 = "g\<lparr>g_Nodes := foldl (\<lambda>m (k, n). AList.update k n m) (g_Nodes g) (g_Nodes internal)\<rparr>"
  have g1: "goodGraph b ?g1 \<and> nodeNames ?g1 = nodeNames g \<union> nodeNames internal"
    unfolding nodeNames_def [of internal] using assms(2,3)
    by (intro goodGraph_addNodes) (auto simp: goodGraph_def namesAgree_def schemasKnown_def)
  have "\<forall>e \<in> set (g_Edges internal). edgeSrc e \<in> nodeNames ?g1 \<and> edgeDst e \<in> nodeNames ?g1"
    using assms(3) g1 by (auto simp: goodGraph_def wfGraph_def edgesClosed_def)
  from goodGraph_addEdges [OF conjunct1 [OF g1] this] g1 mergeContracts_shape [OF assms(1) [unfolded spliceGraph_def]]
  show ?thesis by auto
qed

lemma exportedPort_in: "exportedPort info ref = Inr rs \<Longrightarrow> refsIn N info \<Longrightarrow> r \<in> set rs \<Longrightarrow> pr_Node r \<in> N"
  by (auto simp: exportedPort_def refsIn_def find_Some_iff split: if_splits option.splits dest!: nth_mem)

lemma rewriteEndpoint_in:
  assumes "rewriteEndpoint uses q b ref = Inr rs" "usesIn N uses" "pr_Entity ref \<noteq> EntityUse \<Longrightarrow> q (pr_Node ref) \<in> N"
    "r \<in> set rs"
  shows "pr_Node r \<in> N"
proof (cases "pr_Entity ref = EntityUse")
  case True
  then obtain info where i: "map_of uses (pr_Node ref) = Some info"
    using assms(1) by (auto simp: rewriteEndpoint_def split: option.splits)
  have ok: "refsIn N info" using usesIn_lookup [OF assms(2) i] .
  show ?thesis
  proof (cases "IsPort ref")
    case True
    then have "exportedPort info ref = Inr rs"
      using assms(1) i \<open>pr_Entity ref = EntityUse\<close> by (simp add: rewriteEndpoint_def)
    then show ?thesis using exportedPort_in [OF _ ok assms(4)] by simp
  next
    case False
    then have "r \<in> bareRef ` (set (ui_roots info) \<union> set (ui_sinks info))"
      using assms(1,4) i \<open>pr_Entity ref = EntityUse\<close> by (auto simp: rewriteEndpoint_def split: if_splits)
    then show ?thesis using ok by (auto simp: refsIn_def)
  qed
qed (use assms in \<open>auto simp: rewriteEndpoint_def\<close>)

lemma addRewritten_good:
  assumes "foldR (addRewritten uses ns) g es = Inr g'" "goodGraph b g" "usesIn (nodeNames g) uses"
    "\<forall>e \<in> set es. \<forall>r \<in> {e_From e, e_To e}. pr_Entity r \<noteq> EntityUse \<longrightarrow> qualifyName ns (pr_Node r) \<in> nodeNames g"
  shows "goodGraph b g' \<and> nodeNames g' = nodeNames g"
  using assms
proof (induction es arbitrary: g)
  case (Cons e es)
  obtain rs where rs: "rewriteEdge uses (qualifyName ns) e = Inr rs"
    and rest: "foldR (addRewritten uses ns) (foldl addEdge g rs) es = Inr g'"
    using Cons.prems(1) by (auto simp: addRewritten_def [of uses ns g e])
  have "\<forall>x \<in> set rs. edgeSrc x \<in> nodeNames g \<and> edgeDst x \<in> nodeNames g"
    using rs Cons.prems(3,4) rewriteEndpoint_in [OF _ Cons.prems(3)]
    by (auto simp: rewriteEdge_def edgeSrc_def edgeDst_def split: if_splits)
  from goodGraph_addEdges [OF Cons.prems(2) this] show ?case
    using Cons.IH [OF rest] Cons.prems(3,4) by auto
qed simp

text \<open>What applying literals does not touch: keys, names and schemas.\<close>

definition nodeShape :: "gNode smap \<Rightarrow> (string \<times> string \<times> Schema option) list" where
  "nodeShape ns = map (\<lambda>x. (fst x, bn_Name (gn_Node (snd x)), gn_Schema (snd x))) ns"

lemma nodeShape_update:
  "map_of ns k = Some n \<Longrightarrow> bn_Name (gn_Node n') = bn_Name (gn_Node n) \<Longrightarrow> gn_Schema n' = gn_Schema n \<Longrightarrow>
     nodeShape (AList.update k n' ns) = nodeShape ns"
  by (induction ns) (auto simp: nodeShape_def split: if_splits)

lemma setVar_keeps: "setVar key val ns ref = Inr ns' \<Longrightarrow> nodeShape ns' = nodeShape ns"
  by (auto simp: setVar_def nodeShape_update split: option.splits if_splits)

lemma applyUseVar_keeps:
  assumes "applyUseVar vars e as ns key = Inr ns'"
  shows "nodeShape ns' = nodeShape ns"
proof (cases "map_of vars key")
  case None
  then show ?thesis using assms by (simp add: applyUseVar_def split: option.split_asm)
next
  case (Some val)
  then obtain targets where "foldR (setVar key val) ns targets = Inr ns'"
    using assms by (simp add: applyUseVar_def split: option.split_asm)
  then show ?thesis by (rule foldR_inv [where I = "\<lambda>m. nodeShape m = nodeShape ns"]) (auto dest: setVar_keeps)
qed

lemma applyUseVars_keeps: "applyUseVars vars e as ns = Inr ns' \<Longrightarrow> nodeShape ns' = nodeShape ns"
  unfolding applyUseVars_def
  by (rule foldR_inv [where I = "\<lambda>m. nodeShape m = nodeShape ns"]) (auto dest: applyUseVar_keeps)

lemma goodGraph_sameShape:
  assumes "goodGraph b g" and eq: "nodeShape ns = nodeShape (g_Nodes g)"
  shows "goodGraph b (g\<lparr>g_Nodes := ns\<rparr>)" "nodeNames (g\<lparr>g_Nodes := ns\<rparr>) = nodeNames g"
proof -
  have fst: "map fst (nodeShape xs) = map fst xs" for xs by (simp add: nodeShape_def)
  have keys: "map fst ns = map fst (g_Nodes g)" using arg_cong [OF eq, of "map fst"] by (simp only: fst)
  then show nn: "nodeNames (g\<lparr>g_Nodes := ns\<rparr>) = nodeNames g"
    using arg_cong [OF keys, of set] unfolding nodeNames_def set_map by simp
  have agree: "namesAgree h \<longleftrightarrow> (\<forall>(k, name, s) \<in> set (nodeShape (g_Nodes h)). name = k)" for h
    by (auto simp: namesAgree_def nodeShape_def)
  have known: "schemasKnown h \<longleftrightarrow> (\<forall>(k, name, s) \<in> set (nodeShape (g_Nodes h)). s \<noteq> None)" for h
    by (force simp: schemasKnown_def nodeShape_def)
  have "wfGraph (g\<lparr>g_Nodes := ns\<rparr>) \<longleftrightarrow> wfGraph g"
    using keys nn by (simp add: wfGraph_def distinctKeys_def adjacent_def edgesClosed_def)
  then show "goodGraph b (g\<lparr>g_Nodes := ns\<rparr>)" using assms by (simp add: goodGraph_def agree known)
qed

lemma synthesizeSchema_in:
  assumes "synthesizeSchema e g = Inr r"
  shows "i \<in> set (ex_Inputs e) \<Longrightarrow> p \<in> set (ei_To i) \<Longrightarrow> pr_Node p \<in> nodeNames g"
    and "o' \<in> set (ex_Outputs e) \<Longrightarrow> pr_Node (eo_From o') \<in> nodeNames g"
proof -
  have node: "map_of (g_Nodes g) k = Some n \<Longrightarrow> k \<in> nodeNames g" for k n
    by (force simp: nodeNames_def dest: map_of_SomeD)
  obtain vars outs where ins: "mapR (synthesizeInput g) (ex_Inputs e) = Inr vars"
    and outs: "mapR (synthesizeOutput g) (ex_Outputs e) = Inr outs"
    using assms by (auto simp: synthesizeSchema_def)
  show "i \<in> set (ex_Inputs e) \<Longrightarrow> p \<in> set (ei_To i) \<Longrightarrow> pr_Node p \<in> nodeNames g"
  proof -
    assume "i \<in> set (ex_Inputs e)" and p: "p \<in> set (ei_To i)"
    from mapR_each [OF ins this(1)] obtain rs where "mapR (checkExportTarget g (ei_Name i)) (ei_To i) = Inr rs"
      by (auto simp: synthesizeInput_def split: if_splits)
    from mapR_each [OF this p] show ?thesis
      by (auto simp: checkExportTarget_def split: option.splits intro: node)
  qed
  show "o' \<in> set (ex_Outputs e) \<Longrightarrow> pr_Node (eo_From o') \<in> nodeNames g"
    using mapR_each [OF outs] by (fastforce simp: synthesizeOutput_def split: option.splits intro: node)
qed

lemma finishUse_good:
  assumes "finishUse w u pre def dirBP inner g = Inr (info, g')" "goodGraph False g"
  shows "goodGraph False g' \<and> refsIn (nodeNames g') info \<and> nodeNames g' = nodeNames g"
proof -
  obtain g1 g2 e r ns where m: "mergeContracts (w_Lib w) g (gr_Contracts def) = Inr g1"
    "mergeContracts (w_Lib w) g1 (bp_Contracts dirBP) = Inr g2"
    and s: "synthesizeSchema e g2 = Inr r" and v: "applyUseVars (u_Vars u) e (u_As u) (g_Nodes g2) = Inr ns"
    and res: "info = \<lparr>ui_export = e, ui_roots = rootsOf (g2\<lparr>g_Nodes := ns\<rparr>), ui_sinks = sinksOf (g2\<lparr>g_Nodes := ns\<rparr>)\<rparr>"
      "g' = g2\<lparr>g_Nodes := ns\<rparr>"
    using assms(1) by (auto simp: finishUse_def Let_def)
  have g2: "goodGraph False g2" "nodeNames g2 = nodeNames g"
    using assms(2) mergeContracts_shape [OF m(1)] mergeContracts_shape [OF m(2)] by auto
  note keep = goodGraph_sameShape [OF g2(1) applyUseVars_keeps [OF v]]
  have "refsIn (nodeNames g2) info"
    using synthesizeSchema_in [OF s] keep(2)
    by (auto simp: refsIn_def res rootsOf_def sinksOf_def nodeNames_def)
  then show ?thesis using keep g2(2) res(2) by simp
qed

subsection \<open>The recursion\<close>

lemma push_keeps: "push rc d n = Inr rc' \<Longrightarrow> rc_observation rc' = rc_observation rc \<and> rc_stack rc' = rc_stack rc @ [groupKey d n] \<and> groupKey d n \<notin> set (rc_stack rc)"
  by (auto simp: push_def Let_def split: if_splits)

lemma loadGroupDef_scoped:
  assumes "loadGroupDef w d n = Inr (def, dirBP)" "diskScoped w"
  shows "scopeRefs (gr_Nodes def) (gr_Edges def)"
proof -
  obtain bp where bp: "readGroupDir w d = Inr bp" "find (\<lambda>gr. gr_Name gr = n) (bp_Groups bp) = Some def"
    using assms(1) by (auto simp: loadGroupDef_def split: option.splits)
  have "w_ParseDir w d = Inr bp" using bp(1) by (auto simp: readGroupDir_def split: sum.splits if_splits)
  moreover have "def \<in> set (bp_Groups bp)" using bp(2) by (auto simp: find_Some_iff)
  ultimately show ?thesis using assms(2) by (auto simp: diskScoped_def)
qed

lemma build_good:
  shows "build w fuel rc bp d ns am = Inr (g, uses) \<Longrightarrow> diskScoped w \<Longrightarrow> scopeRefs (bp_Nodes bp) (bp_Edges bp) \<Longrightarrow>
           goodGraph (rc_observation rc) g \<and> usesIn (nodeNames g) uses"
    and "resolveUses w fuel rc bp d ns am us acc = Inr (g, uses) \<Longrightarrow> diskScoped w \<Longrightarrow>
           goodGraph (rc_observation rc) (fst acc) \<Longrightarrow> usesIn (nodeNames (fst acc)) (snd acc) \<Longrightarrow>
           goodGraph (rc_observation rc) g \<and> usesIn (nodeNames g) uses \<and> nodeNames (fst acc) \<subseteq> nodeNames g"
    and "resolveUse w fuel rc u d pre am = Inr (info, g) \<Longrightarrow> diskScoped w \<Longrightarrow>
           goodGraph (rc_observation rc) g \<and> refsIn (nodeNames g) info"
proof (induction w fuel rc bp d ns am and w fuel rc bp d ns am us acc and w fuel rc u d pre am
    arbitrary: g uses and g uses and info g rule: build_resolveUses_resolveUse.induct)
  case (1 w fuel rc bp d ns am)
  obtain g0 g1 g2 where g0: "mergeContracts (w_Lib w) emptyGraph (bp_Contracts bp) = Inr g0"
    and g1: "foldR (addNode w rc bp d ns am) g0 (bp_Nodes bp) = Inr g1"
    and g2: "resolveUses w fuel rc bp d ns am (bp_Uses bp) (g1, []) = Inr (g2, uses)"
    and fin: "if rc_observation rc then g = g2 else foldR (addRewritten uses ns) g2 (bp_Edges bp) = Inr g"
    using "1.prems"(1) by (auto simp: build.simps split: if_splits)
  have "goodGraph (rc_observation rc) g0" using mergeContracts_shape [OF g0] by auto
  note a1 = addNodes_good [OF g1 this]
  have a2: "goodGraph (rc_observation rc) g2 \<and> usesIn (nodeNames g2) uses \<and> nodeNames g1 \<subseteq> nodeNames g2"
    using "1.IH" [OF g2 "1.prems"(2)] a1 by (auto simp: usesIn_def)
  show ?case
  proof (cases "rc_observation rc")
    case False
    have "\<forall>e \<in> set (bp_Edges bp). \<forall>r \<in> {e_From e, e_To e}. pr_Entity r \<noteq> EntityUse \<longrightarrow> qualifyName ns (pr_Node r) \<in> nodeNames g2"
    proof (intro ballI impI)
      fix e r assume "e \<in> set (bp_Edges bp)" "r \<in> {e_From e, e_To e}" "pr_Entity r \<noteq> EntityUse"
      then have "pr_Node r \<in> bn_Name ` set (bp_Nodes bp)" using "1.prems"(3) unfolding scopeRefs_def by blast
      then have "qualifyName ns (pr_Node r) \<in> nodeNames g1" using a1 by auto
      then show "qualifyName ns (pr_Node r) \<in> nodeNames g2" using a2 by blast
    qed
    from addRewritten_good [OF _ _ _ this] show ?thesis using fin False a2 by auto
  qed (use fin a2 in auto)
next
  case (2 w fuel rc bp d ns am acc)
  then show ?case by (cases acc) (auto simp: resolveUses.simps)
next
  case (3 w fuel rc bp d ns am u us acc)
  obtain info internal g' where r: "resolveUse w fuel rc u d (qualifyName ns (u_As u)) (useAmbient bp am u) = Inr (info, internal)"
    and s: "spliceGraph (w_Lib w) (fst acc) internal = Inr g'"
    and rest: "resolveUses w fuel rc bp d ns am us (g', AList.update (u_As u) info (snd acc)) = Inr (g, uses)"
    using "3.prems"(1) by (auto simp: resolveUses.simps)
  have i: "goodGraph (rc_observation rc) internal \<and> refsIn (nodeNames internal) info"
    using "3.IH"(1) [OF r "3.prems"(2)] .
  note g' = splice_good [OF s "3.prems"(3) conjunct1 [OF i]]
  have "usesIn (nodeNames g') (AList.update (u_As u) info (snd acc))"
    using g' i "3.prems"(4) by (intro usesIn_update) (auto intro: usesIn_mono refsIn_mono)
  then show ?case using "3.IH"(2) [OF rest "3.prems"(2)] g' by auto
next
  case (4 w rc u d pre am)
  then show ?case by (simp add: resolveUse.simps)
next
  case (5 w fuel rc u d pre am)
  let ?gd = "Join [d, u_Source u]"
  obtain rc' def dirBP internal inner where p: "push rc ?gd (u_GroupName u) = Inr rc'"
    and l: "loadGroupDef w ?gd (u_GroupName u) = Inr (def, dirBP)"
    and b: "build w fuel rc' (innerBlueprint def dirBP) ?gd pre am = Inr (internal, inner)"
    and fin: "if rc_observation rc then info = \<lparr>ui_export = emptyExport, ui_roots = [], ui_sinks = []\<rparr> \<and> g = internal
              else finishUse w u pre def dirBP inner internal = Inr (info, g)"
    using "5.prems"(1) by (auto simp: resolveUse.simps Let_def split: if_splits)
  have "scopeRefs (bp_Nodes (innerBlueprint def dirBP)) (bp_Edges (innerBlueprint def dirBP))"
    using loadGroupDef_scoped [OF l "5.prems"(2)] by (simp add: innerBlueprint_def)
  then have i: "goodGraph (rc_observation rc) internal \<and> usesIn (nodeNames internal) inner"
    using "5.IH" [OF refl b "5.prems"(2)] push_keeps [OF p] by simp
  show ?case
  proof (cases "rc_observation rc")
    case False
    then show ?thesis using finishUse_good [of w u pre def dirBP inner internal info g] fin i by auto
  qed (use fin i in \<open>simp add: refsIn_def emptyExport_def\<close>)
qed

subsection \<open>Enough fuel\<close>

text \<open>
  Only \<open>resolveUse\<close> reports \<open>OutOfFuel\<close>. Each nested level pushes a key that was not on the stack, and
  a level is entered only if the group could be loaded, so with finitely many loadable groups the
  nesting is bounded by their number.
\<close>

lemma foldR_not: "(\<And>s x. f s x \<noteq> Inl e) \<Longrightarrow> foldR f s xs \<noteq> Inl e"
  using foldR_eq_Inl by metis

lemma mapR_not: "(\<And>x. f x \<noteq> Inl e) \<Longrightarrow> mapR f xs \<noteq> Inl e"
  using mapR_eq_Inl by metis

lemma mergeContracts_fuel: "mergeContracts lib g src \<noteq> Inl OutOfFuel"
proof -
  have "mergePort lib role scope ports x \<noteq> Inl OutOfFuel" for role scope ports x
    by (auto simp: mergePort_def split: prod.splits option.splits)
  then have port: "foldR (mergePort lib role scope) ports xs \<noteq> Inl OutOfFuel" for role scope ports xs
    by (rule foldR_not)
  have "mergeDir lib m dc \<noteq> Inl OutOfFuel" for m dc
    using port by (auto simp: mergeDir_def mergeDirContracts_def bindR_eq_Inl split: option.splits)
  then have "foldR (mergeDir lib) m dcs \<noteq> Inl OutOfFuel" for m dcs by (rule foldR_not)
  then show ?thesis by (auto simp: mergeContracts_def bindR_eq_Inl split: option.splits)
qed

lemma addNode_fuel: "addNode w rc bp d ns am g n \<noteq> Inl OutOfFuel"
proof -
  have "vendoredModuleDir os dir \<noteq> Inl OutOfFuel" for os dir
    by (auto simp: vendoredModuleDir_def split: sum.splits option.splits)
  then have "remoteModuleDir os a b c q l \<noteq> Inl OutOfFuel" for os a b c q l
    by (auto simp: remoteModuleDir_def Let_def bindR_eq_Inl split: statResult.splits)
  then have "nodeDir w rc bp d ns n \<noteq> Inl OutOfFuel" by (auto simp: nodeDir_def split: sum.splits)
  moreover have "nodeSchema w rc dir binary failed \<noteq> Inl OutOfFuel" for dir binary failed
    by (auto simp: nodeSchema_def readSchema_def split: sum.splits)
  moreover have "nodeAddress rc qn schema failed \<noteq> Inl OutOfFuel" for qn schema failed
    by (auto simp: nodeAddress_def split: sum.splits)
  ultimately show ?thesis by (auto simp: addNode_def buildNode_def bindR_eq_Inl Let_def split: prod.splits)
qed

lemma exportedPort_fuel: "exportedPort info ref \<noteq> Inl OutOfFuel"
  by (auto simp: exportedPort_def split: option.splits)

lemma addRewritten_fuel: "addRewritten uses ns g e \<noteq> Inl OutOfFuel"
proof -
  have "rewriteEndpoint uses q b ref \<noteq> Inl OutOfFuel" for q b ref
    using exportedPort_fuel by (auto simp: rewriteEndpoint_def split: option.splits)
  then show ?thesis by (auto simp: addRewritten_def rewriteEdge_def bindR_eq_Inl split: if_splits)
qed

lemma applyUseVars_fuel: "applyUseVars vars e as ns \<noteq> Inl OutOfFuel"
proof -
  have "setVar key val m ref \<noteq> Inl OutOfFuel" for key val m ref
    by (auto simp: setVar_def split: option.splits)
  then have "foldR (setVar key val) m refs \<noteq> Inl OutOfFuel" for key val m refs by (rule foldR_not)
  then have "applyUseVar vars e as m key \<noteq> Inl OutOfFuel" for m key
    by (auto simp: applyUseVar_def split: option.splits)
  then show ?thesis unfolding applyUseVars_def by (rule foldR_not)
qed

lemma synthesizeSchema_fuel: "synthesizeSchema e g \<noteq> Inl OutOfFuel"
proof -
  have "checkExportTarget g i r \<noteq> Inl OutOfFuel" for i r
    by (auto simp: checkExportTarget_def split: option.splits)
  then have "mapR (checkExportTarget g i) rs \<noteq> Inl OutOfFuel" for i rs by (rule mapR_not)
  then have "synthesizeInput g i \<noteq> Inl OutOfFuel" for i by (auto simp: synthesizeInput_def bindR_eq_Inl)
  then have "mapR (synthesizeInput g) xs \<noteq> Inl OutOfFuel" for xs by (rule mapR_not)
  moreover have "synthesizeOutput g o' \<noteq> Inl OutOfFuel" for o'
    by (auto simp: synthesizeOutput_def split: option.splits)
  then have "mapR (synthesizeOutput g) xs \<noteq> Inl OutOfFuel" for xs by (rule mapR_not)
  ultimately show ?thesis by (auto simp: synthesizeSchema_def bindR_eq_Inl)
qed

lemma resolveExport_fuel: "resolveExport uses q e \<noteq> Inl OutOfFuel"
proof -
  have ep: "resolveExportEndpoint uses q r \<noteq> Inl OutOfFuel" for r
    using exportedPort_fuel by (auto simp: resolveExportEndpoint_def split: option.splits)
  then have "mapR (resolveExportEndpoint uses q) rs \<noteq> Inl OutOfFuel" for rs by (rule mapR_not)
  then have "resolveExportInput uses q i \<noteq> Inl OutOfFuel" for i by (simp add: resolveExportInput_def bindR_eq_Inl)
  then have "mapR (resolveExportInput uses q) xs \<noteq> Inl OutOfFuel" for xs by (rule mapR_not)
  moreover have "resolveExportOutput uses q o' \<noteq> Inl OutOfFuel" for o'
    using ep by (auto simp: resolveExportOutput_def bindR_eq_Inl split: list.splits)
  then have "mapR (resolveExportOutput uses q) xs \<noteq> Inl OutOfFuel" for xs by (rule mapR_not)
  ultimately show ?thesis by (simp add: resolveExport_def bindR_eq_Inl)
qed

lemma finishUse_fuel: "finishUse w u pre def dirBP inner g \<noteq> Inl OutOfFuel"
  using mergeContracts_fuel resolveExport_fuel synthesizeSchema_fuel applyUseVars_fuel
  by (auto simp: finishUse_def bindR_eq_Inl Let_def split: sum.splits)

definition loadableGroups :: "World \<Rightarrow> string set" where
  "loadableGroups w = {groupKey d n | d n x. loadGroupDef w d n = Inr x}"

lemma build_fuel:
  assumes fin: "finite (loadableGroups w)"
  shows "card (loadableGroups w - set (rc_stack rc)) < fuel \<Longrightarrow> build w fuel rc bp d ns am \<noteq> Inl OutOfFuel"
    and "card (loadableGroups w - set (rc_stack rc)) < fuel \<Longrightarrow> resolveUses w fuel rc bp d ns am us acc \<noteq> Inl OutOfFuel"
    and "card (loadableGroups w - set (rc_stack rc)) < fuel \<Longrightarrow> resolveUse w fuel rc u d pre am \<noteq> Inl OutOfFuel"
  using fin
proof (induction w fuel rc bp d ns am and w fuel rc bp d ns am us acc and w fuel rc u d pre am
    rule: build_resolveUses_resolveUse.induct)
  case (1 w fuel rc bp d ns am)
  have "foldR (addNode w rc bp d ns am) g xs \<noteq> Inl OutOfFuel" for g xs by (intro foldR_not addNode_fuel)
  moreover have "foldR (addRewritten uses ns) g xs \<noteq> Inl OutOfFuel" for uses g xs by (intro foldR_not addRewritten_fuel)
  ultimately show ?case
    using 1 mergeContracts_fuel by (auto simp: build.simps bindR_eq_Inl split: if_splits prod.splits)
next
  case (2 w fuel rc bp d ns am acc)
  then show ?case by (simp add: resolveUses.simps)
next
  case (3 w fuel rc bp d ns am u us acc)
  then show ?case
    using mergeContracts_fuel by (auto simp: resolveUses.simps bindR_eq_Inl spliceGraph_def split: prod.splits)
next
  case (4 w rc u d pre am)
  then show ?case by simp
next
  case (5 w fuel rc u d pre am)
  let ?gd = "Join [d, u_Source u]"
  have load: "loadGroupDef w ?gd n \<noteq> Inl OutOfFuel" for n
    by (auto simp: loadGroupDef_def readGroupDir_def bindR_eq_Inl split: sum.splits if_splits option.splits)
  have push: "push rc ?gd n \<noteq> Inl OutOfFuel" for n by (simp add: push_def Let_def)
  have "build w fuel rc' (innerBlueprint def dirBP) ?gd pre am \<noteq> Inl OutOfFuel"
    if p: "push rc ?gd (u_GroupName u) = Inr rc'" and l: "loadGroupDef w ?gd (u_GroupName u) = Inr (def, dirBP)" for rc' def dirBP
  proof -
    let ?k = "groupKey ?gd (u_GroupName u)"
    have "?k \<in> loadableGroups w - set (rc_stack rc)" using push_keeps [OF p] l by (auto simp: loadableGroups_def)
    moreover have "loadableGroups w - set (rc_stack rc') = loadableGroups w - set (rc_stack rc) - {?k}"
      using push_keeps [OF p] by auto
    moreover have "finite (loadableGroups w - set (rc_stack rc))" using "5.prems"(2) by simp
    ultimately have "card (loadableGroups w - set (rc_stack rc')) < card (loadableGroups w - set (rc_stack rc))"
      using card_Diff1_less by metis
    then have "card (loadableGroups w - set (rc_stack rc')) < fuel" using "5.prems"(1) by simp
    then show ?thesis using "5.IH" [OF refl] "5.prems"(2) by blast
  qed
  note inner = this
  have "bindR (loadGroupDef w ?gd (u_GroupName u)) (\<lambda>(def, dirBP).
      bindR (build w fuel rc' (innerBlueprint def dirBP) ?gd pre am) (\<lambda>(internal, innerUses).
      if rc_observation rc then Inr (\<lparr>ui_export = emptyExport, ui_roots = [], ui_sinks = []\<rparr>, internal)
      else finishUse w u pre def dirBP innerUses internal)) \<noteq> Inl OutOfFuel"
    if p: "push rc ?gd (u_GroupName u) = Inr rc'" for rc'
  proof (cases "loadGroupDef w ?gd (u_GroupName u)")
    case (Inr x)
    obtain def dirBP where x: "x = (def, dirBP)" by (cases x)
    show ?thesis
    proof (cases "build w fuel rc' (innerBlueprint def dirBP) ?gd pre am")
      case (Inr y)
      then show ?thesis using \<open>loadGroupDef w ?gd (u_GroupName u) = Inr x\<close> finishUse_fuel by (cases y) (simp add: x)
    qed (use inner [OF p] Inr x in simp)
  qed (use load in auto)
  then show ?case
    using push by (simp add: resolveUse.simps Let_def bindR_eq_Inl)
qed

subsection \<open>Source discovery finds the same leaves\<close>

definition leafNames :: "SourceNode list \<Rightarrow> string set" where
  "leafNames ls = (\<lambda>l. bn_Name (so_Node l)) ` set ls"

lemma sourceUses_acc:
  "sourceUses w fuel rc d ns be us acc = bindR (sourceUses w fuel rc d ns be us []) (\<lambda>ls. Inr (acc @ ls))"
proof (induction us arbitrary: acc)
  case Nil
  show ?case by (cases fuel) (simp_all add: sourceUses.simps)
next
  case (Cons u us)
  show ?case
  proof (cases fuel)
    case (Suc k)
    have ih: "sourceUses w (Suc k) rc d ns be us a = bindR (sourceUses w (Suc k) rc d ns be us []) (\<lambda>ls. Inr (a @ ls))" for a
      using Cons.IH [of a] Suc by simp
    show ?thesis
    proof (cases "push rc (Join [d, u_Source u]) (u_GroupName u)")
      case (Inr rc')
      note p = Inr
      show ?thesis
      proof (cases "loadGroupDef w (Join [d, u_Source u]) (u_GroupName u)")
        case (Inr x)
        obtain def dirBP where x: "x = (def, dirBP)" by (cases x)
        show ?thesis
        proof (cases "sourceNodes w k rc' ((innerBlueprint def dirBP)\<lparr>bp_Edges := []\<rparr>) (Join [d, u_Source u])
               (qualifyName ns (u_As u)) (mergeEnv be (u_BackendConfig u))")
          case (Inr ls)
          then show ?thesis
            using p \<open>loadGroupDef w (Join [d, u_Source u]) (u_GroupName u) = Inr x\<close>
            by (simp add: Suc sourceUses.simps x ih [of "acc @ ls"] ih [of ls] bindR_assoc)
        qed (simp add: Suc sourceUses.simps p Inr x)
      qed (simp add: Suc sourceUses.simps p)
    qed (simp add: Suc sourceUses.simps)
  qed (simp add: sourceUses.simps)
qed

lemma leafNames_append [simp]: "leafNames (xs @ ys) = leafNames xs \<union> leafNames ys" "leafNames [] = {}"
  by (auto simp: leafNames_def)

lemma finishUse_names:
  assumes "finishUse w u pre def dirBP inner g = Inr (info, g')"
  shows "nodeNames g' = nodeNames g"
proof -
  obtain g1 g2 e ns where m: "mergeContracts (w_Lib w) g (gr_Contracts def) = Inr g1"
    "mergeContracts (w_Lib w) g1 (bp_Contracts dirBP) = Inr g2"
    and v: "applyUseVars (u_Vars u) e (u_As u) (g_Nodes g2) = Inr ns" and res: "g' = g2\<lparr>g_Nodes := ns\<rparr>"
    using assms by (auto simp: finishUse_def Let_def)
  have "nodeNames g2 = nodeNames g" using mergeContracts_shape [OF m(1)] mergeContracts_shape [OF m(2)] by auto
  moreover have "map fst (nodeShape xs) = map fst xs" for xs by (simp add: nodeShape_def)
  then have "map fst ns = map fst (g_Nodes g2)" using arg_cong [OF applyUseVars_keeps [OF v], of "map fst"] by simp
  then have "set (map fst ns) = set (map fst (g_Nodes g2))" by simp
  ultimately show ?thesis unfolding res nodeNames_def set_map by simp
qed

lemma foldl_addEdge_nodes [simp]: "nodeNames (foldl addEdge g es) = nodeNames g"
  by (induction es arbitrary: g) auto

lemma addNodes_names:
  "foldR (addNode w rc bp d ns am) g xs = Inr g' \<Longrightarrow> nodeNames g' = nodeNames g \<union> (qualifyName ns \<circ> bn_Name) ` set xs"
proof (induction xs arbitrary: g)
  case (Cons x xs)
  obtain gn where gn: "buildNode w rc bp d ns am x = Inr gn"
    and rest: "foldR (addNode w rc bp d ns am) (g\<lparr>g_Nodes := AList.update (bn_Name (gn_Node gn)) gn (g_Nodes g)\<rparr>) xs = Inr g'"
    using Cons.prems(1) by (auto simp: addNode_def [of w rc bp d ns am g x])
  show ?case using Cons.IH [OF rest] buildNode_result(1) [OF gn] by (auto simp: nodeNames_def)
qed simp

lemma addRewritten_names:
  assumes "foldR (addRewritten uses ns) g es = Inr g'"
  shows "nodeNames g' = nodeNames g"
proof (rule foldR_inv [where I = "\<lambda>h. nodeNames h = nodeNames g", OF assms])
  fix s e t assume I: "nodeNames s = nodeNames g" and "addRewritten uses ns s e = Inr t"
  then obtain es where "t = foldl addEdge s es" unfolding addRewritten_def bindR_eq_Inr by blast
  then show "nodeNames t = nodeNames g" using I by (simp only: foldl_addEdge_nodes)
qed (rule refl)

lemma splice_names:
  assumes "spliceGraph lib g internal = Inr g'"
  shows "nodeNames g' = nodeNames g \<union> nodeNames internal"
proof -
  have "fst ` set (foldl (\<lambda>m (k, n). AList.update k n m) ns xs) = fst ` set ns \<union> fst ` set xs" for ns xs :: "gNode smap"
    by (induction xs arbitrary: ns) (simp_all add: case_prod_unfold)
  then have "nodeNames (g\<lparr>g_Nodes := foldl (\<lambda>m (k, n). AList.update k n m) (g_Nodes g) (g_Nodes internal)\<rparr>) =
      nodeNames g \<union> nodeNames internal" by (simp add: nodeNames_def)
  moreover obtain c where "g' = (foldl addEdge (g\<lparr>g_Nodes := foldl (\<lambda>m (k, n). AList.update k n m) (g_Nodes g) (g_Nodes internal)\<rparr>)
      (g_Edges internal))\<lparr>g_Contracts := c\<rparr>"
    using mergeContracts_shape [OF assms [unfolded spliceGraph_def]] by blast
  ultimately show ?thesis by simp
qed

lemma build_sources:
  shows "build w fuel rc bp d ns am = Inr (g, uses) \<Longrightarrow> rc_stack rs = rc_stack rc \<Longrightarrow> bp_Nodes bp' = bp_Nodes bp \<Longrightarrow>
           bp_Uses bp' = bp_Uses bp \<Longrightarrow>
           \<exists>ls. sourceNodes w fuel rs bp' d ns be = Inr ls \<and> leafNames ls = nodeNames g"
    and "resolveUses w fuel rc bp d ns am us acc = Inr (g, uses) \<Longrightarrow> rc_stack rs = rc_stack rc \<Longrightarrow>
           \<exists>ls. sourceUses w fuel rs d ns be us [] = Inr ls \<and> nodeNames g = nodeNames (fst acc) \<union> leafNames ls"
    and "resolveUse w fuel rc u d pre am = Inr (info, g) \<Longrightarrow> rc_stack rs = rc_stack rc \<Longrightarrow>
           \<exists>k rs' def dirBP ls. fuel = Suc k \<and> push rs (Join [d, u_Source u]) (u_GroupName u) = Inr rs' \<and>
             loadGroupDef w (Join [d, u_Source u]) (u_GroupName u) = Inr (def, dirBP) \<and>
             sourceNodes w k rs' ((innerBlueprint def dirBP)\<lparr>bp_Edges := []\<rparr>) (Join [d, u_Source u]) pre be = Inr ls \<and>
             leafNames ls = nodeNames g"
proof (induction w fuel rc bp d ns am and w fuel rc bp d ns am us acc and w fuel rc u d pre am
    arbitrary: g uses rs bp' be and g uses rs be and info g rs be rule: build_resolveUses_resolveUse.induct)
  case (1 w fuel rc bp d ns am)
  obtain g0 g1 g2 where g0: "mergeContracts (w_Lib w) emptyGraph (bp_Contracts bp) = Inr g0"
    and g1: "foldR (addNode w rc bp d ns am) g0 (bp_Nodes bp) = Inr g1"
    and g2: "resolveUses w fuel rc bp d ns am (bp_Uses bp) (g1, []) = Inr (g2, uses)"
    and fin: "if rc_observation rc then g = g2 else foldR (addRewritten uses ns) g2 (bp_Edges bp) = Inr g"
    using "1.prems"(1) by (auto simp: build.simps split: if_splits)
  have "nodeNames g = nodeNames g2" using fin addRewritten_names by (auto split: if_splits)
  moreover obtain ls where "sourceUses w fuel rs d ns be (bp_Uses bp) [] = Inr ls" "nodeNames g2 = nodeNames g1 \<union> leafNames ls"
    using "1.IH" [OF g2 "1.prems"(2)] by fastforce
  moreover have "nodeNames g0 = {}" using mergeContracts_shape [OF g0] by auto
  moreover have "leafNames (map (sourceLeaf w bp' d ns be) xs) = (qualifyName ns \<circ> bn_Name) ` set xs" for xs
    by (auto simp: leafNames_def sourceLeaf_def image_image)
  ultimately show ?case
    using addNodes_names [OF g1] "1.prems"(3,4)
    by (simp add: sourceNodes.simps sourceUses_acc [of w fuel rs d ns be _ "map _ _"])
next
  case (2 w fuel rc bp d ns am acc)
  then show ?case by (cases fuel) (auto simp: resolveUses.simps sourceUses.simps)
next
  case (3 w fuel rc bp d ns am u us acc)
  obtain info internal g' where r: "resolveUse w fuel rc u d (qualifyName ns (u_As u)) (useAmbient bp am u) = Inr (info, internal)"
    and s: "spliceGraph (w_Lib w) (fst acc) internal = Inr g'"
    and rest: "resolveUses w fuel rc bp d ns am us (g', AList.update (u_As u) info (snd acc)) = Inr (g, uses)"
    using "3.prems"(1) by (auto simp: resolveUses.simps)
  obtain k rs' def dirBP l1 where one: "fuel = Suc k" "push rs (Join [d, u_Source u]) (u_GroupName u) = Inr rs'"
    "loadGroupDef w (Join [d, u_Source u]) (u_GroupName u) = Inr (def, dirBP)"
    "sourceNodes w k rs' ((innerBlueprint def dirBP)\<lparr>bp_Edges := []\<rparr>) (Join [d, u_Source u]) (qualifyName ns (u_As u))
       (mergeEnv be (u_BackendConfig u)) = Inr l1" "leafNames l1 = nodeNames internal"
    using "3.IH"(1) [OF r "3.prems"(2)] by blast
  obtain l2 where two: "sourceUses w fuel rs d ns be us [] = Inr l2" "nodeNames g = nodeNames g' \<union> leafNames l2"
    using "3.IH"(2) [OF rest "3.prems"(2)] by auto
  have "sourceUses w fuel rs d ns be (u # us) [] = Inr (l1 @ l2)"
    using one two(1) by (simp add: sourceUses.simps sourceUses_acc [of w "Suc k" rs d ns be us l1])
  then show ?case using two(2) one(5) splice_names [OF s] by (simp add: Un_assoc)
next
  case (4 w rc u d pre am)
  then show ?case by (simp add: resolveUse.simps)
next
  case (5 w fuel rc u d pre am)
  let ?gd = "Join [d, u_Source u]"
  obtain rc' def dirBP internal inner where p: "push rc ?gd (u_GroupName u) = Inr rc'"
    and l: "loadGroupDef w ?gd (u_GroupName u) = Inr (def, dirBP)"
    and b: "build w fuel rc' (innerBlueprint def dirBP) ?gd pre am = Inr (internal, inner)"
    and fin: "if rc_observation rc then g = internal else finishUse w u pre def dirBP inner internal = Inr (info, g)"
    using "5.prems"(1) by (auto simp: resolveUse.simps Let_def split: if_splits)
  obtain rs' where p': "push rs ?gd (u_GroupName u) = Inr rs'" "rc_stack rs' = rc_stack rc'"
    using p "5.prems"(2) by (auto simp: push_def Let_def split: if_splits)
  have "nodeNames g = nodeNames internal" using fin finishUse_names by (auto split: if_splits)
  moreover obtain ls where "sourceNodes w fuel rs' ((innerBlueprint def dirBP)\<lparr>bp_Edges := []\<rparr>) ?gd pre be = Inr ls"
    "leafNames ls = nodeNames internal"
    using "5.IH" [OF refl b p'(2), of "(innerBlueprint def dirBP)\<lparr>bp_Edges := []\<rparr>" be] by auto
  ultimately show ?case using p'(1) l by auto
qed

subsection \<open>A concrete blueprint\<close>

text \<open>
  One root node \<open>app\<close> and one instance \<open>net\<close> of a group with a node \<open>vpc\<close>, whose exported output feeds
  the input of \<open>app\<close>.
\<close>

definition plainNode :: "string \<Rightarrow> string \<Rightarrow> bpNode" where
  "plainNode name source =
     \<lparr>bn_Inputs = [], bn_Credentials = [], bn_Name = name, bn_Source = source, bn_BackendConfig = [],
      bn_BackendAddress = None, bn_Vars = [], bn_Runtime = '''', bn_Env = [], bn_Approve = ''''\<rparr>"

definition emptyBlueprint :: Blueprint where
  "emptyBlueprint =
     \<lparr>bp_Plugins = [], bp_Execution = None, bp_Nodes = [], bp_Edges = [], bp_Groups = [], bp_Uses = [],
      bp_Vendor = None, bp_TFVars = None, bp_Lock = None, bp_Runtimes = [], bp_ContractMode = '''',
      bp_Contracts = None, bp_Snapshots = None\<rparr>"

definition sampleGroup :: Group where
  "sampleGroup =
     \<lparr>gr_Name = ''net'', gr_Nodes = [plainNode ''vpc'' ''./vpc''], gr_Edges = [], gr_Uses = [],
      gr_Export = \<lparr>ex_Inputs = [],
        ex_Outputs = [\<lparr>eo_Name = ''id'', eo_From = \<lparr>pr_Entity = '''', pr_Node = ''vpc'', pr_Kind = ''output'', pr_Name = ''id''\<rparr>\<rparr>]\<rparr>,
      gr_Contracts = None\<rparr>"

definition sampleBlueprint :: Blueprint where
  "sampleBlueprint = emptyBlueprint
     \<lparr>bp_Nodes := [plainNode ''app'' ''./app''],
      bp_Uses := [\<lparr>u_GroupName = ''net'', u_As = ''net'', u_Source = ''./groups'', u_Runtime = '''', u_Env = [], u_Vars = [],
                   u_Approve = '''', u_BackendConfig = [], u_BackendAddress = None\<rparr>],
      bp_Edges := [\<lparr>e_From = \<lparr>pr_Entity = ''use'', pr_Node = ''net'', pr_Kind = ''output'', pr_Name = ''id''\<rparr>,
                    e_To = \<lparr>pr_Entity = '''', pr_Node = ''app'', pr_Kind = ''input'', pr_Name = ''vpc''\<rparr>\<rparr>]\<rparr>"

definition sampleWorld :: World where
  "sampleWorld =
     \<lparr>w_OS = sampleOS, w_Lib = sampleLib,
      w_ParseDir = (\<lambda>d. if d = ''/bp/groups'' then Inr (emptyBlueprint\<lparr>bp_Groups := [sampleGroup]\<rparr>) else Inl ()),
      w_Inspect = (\<lambda>d mode. if d = ''/bp/app'' then Inr (sampleSchema [''vpc''] [])
                            else if d = ''/bp/groups/vpc'' then Inr (sampleSchema [] [''id'']) else Inl ())\<rparr>"

lemma sampleWorld_finite: "loadableGroups sampleWorld \<subseteq> {groupKey ''/bp/groups'' ''net''}"
  by (auto simp: loadableGroups_def loadGroupDef_def readGroupDir_def sampleWorld_def sampleGroup_def emptyBlueprint_def
      split: if_splits option.splits)

lemma sampleBuild_names:
  "map_sum id (\<lambda>g. map fst (g_Nodes g)) (Build sampleWorld 2 sampleBlueprint ''/bp'' ''terraform'') = Inr [''app'', ''net.vpc'']"
  by code_simp

subsection \<open>Properties\<close>

text \<open>
  A built graph is well formed. If the parser delivered scopes whose plain references name nodes of
  the scope, then every graph \<open>Build\<close> returns, however deeply groups nest, has adjacency lists that
  agree with its edges, edges whose ends are nodes of the graph, nodes registered under their
  qualified names, and a schema on every node.
\<close>

lemma Build_wellformed:
  assumes "diskScoped w" "scopeRefs (bp_Nodes bp) (bp_Edges bp)" "Build w fuel bp baseDir cli = Inr g"
  shows "wfGraph g \<and> namesAgree g \<and> schemasKnown g"
proof -
  obtain rc g0 uses where b: "build w fuel rc bp baseDir '''' noAmbient = Inr (g0, uses)" "\<not> rc_observation rc"
    and g: "g = g0\<lparr>g_Lock := bp_Lock bp, g_Snapshots := (bp_Snapshots bp = Some True)\<rparr>"
    using assms(3) by (auto simp: Build_def buildRoot_def Let_def)
  have "goodGraph False g0" using build_good(1) [OF b(1) assms(1,2)] b(2) by simp
  then show ?thesis
    by (simp add: g goodGraph_def wfGraph_def adjacent_def edgesClosed_def nodeNames_def namesAgree_def schemasKnown_def)
qed

text \<open>
  C11: group expansion terminates. When finitely many groups can be loaded from disk, fuel one larger
  than their number is never exhausted: a chain of nested uses either reaches groups without uses or
  is cut by the circular-use error. Real paths through symbolic links can be unboundedly many, which
  is why finiteness is a hypothesis.
\<close>

theorem Build_terminates:
  assumes "finite (loadableGroups w)" "card (loadableGroups w) < fuel"
  shows "Build w fuel bp baseDir cli \<noteq> Inl OutOfFuel"
proof -
  have "build w fuel rc bp baseDir '''' noAmbient \<noteq> Inl OutOfFuel" if "rc_stack rc = []" for rc
    using build_fuel(1) [OF assms(1)] assms(2) that by simp
  then show ?thesis by (auto simp: Build_def buildRoot_def Let_def bindR_eq_Inl split: prod.splits)
qed

theorem Build_terminates_witness:
  "finite (loadableGroups sampleWorld) \<and> card (loadableGroups sampleWorld) < 2 \<and>
   Build sampleWorld 2 sampleBlueprint ''/bp'' ''terraform'' \<noteq> Inl OutOfFuel"
proof -
  have fin: "finite (loadableGroups sampleWorld)" using sampleWorld_finite by (rule finite_subset) simp
  have "card (loadableGroups sampleWorld) \<le> card {groupKey ''/bp/groups'' ''net''}"
    by (rule card_mono [OF _ sampleWorld_finite]) simp
  then have "card (loadableGroups sampleWorld) < 2" by simp
  with fin Build_terminates [OF fin this] show ?thesis by simp
qed

text \<open>
  C12: source discovery and graph building agree on the identity of leaves. Whenever \<open>Build\<close> succeeds,
  \<open>SourceNodes\<close> on the same blueprint succeeds too, and the qualified names it lists are exactly the
  names of the graph's nodes, so a name given to \<open>vendor --node\<close> denotes the node that later runs.
\<close>

theorem SourceNodes_agree:
  assumes "Build w fuel bp baseDir cli = Inr g"
  shows "\<exists>ls. SourceNodes w fuel bp baseDir = Inr ls \<and> leafNames ls = nodeNames g"
proof -
  obtain rc g0 uses where b: "build w fuel rc bp baseDir '''' noAmbient = Inr (g0, uses)" "rc_stack rc = []"
    and g: "g = g0\<lparr>g_Lock := bp_Lock bp, g_Snapshots := (bp_Snapshots bp = Some True)\<rparr>"
    using assms by (auto simp: Build_def buildRoot_def Let_def)
  have "nodeNames g = nodeNames g0" by (simp add: g nodeNames_def)
  then show ?thesis
    using build_sources(1) [OF b(1), of _ bp "[]"] b(2) unfolding SourceNodes_def by simp
qed

theorem SourceNodes_agree_witness:
  "\<exists>ls. SourceNodes sampleWorld 2 sampleBlueprint ''/bp'' = Inr ls \<and> leafNames ls = {''app'', ''net.vpc''}"
proof -
  obtain g where g: "Build sampleWorld 2 sampleBlueprint ''/bp'' ''terraform'' = Inr g" "map fst (g_Nodes g) = [''app'', ''net.vpc'']"
    using sampleBuild_names by (cases "Build sampleWorld 2 sampleBlueprint ''/bp'' ''terraform''") auto
  have "nodeNames g = set (map fst (g_Nodes g))" by (simp add: nodeNames_def)
  then show ?thesis using SourceNodes_agree [OF g(1)] g(2) by auto
qed

end
