(* ===== verification/Effects.thy ===== *)
theory Effects
  imports Prelude
begin

text \<open>
  Stateful, fallible code of the engine.  A Go method that mutates state and returns
  \<open>(T, error)\<close> is a function from a state to the new state and a result; unlike a rollback
  monad, an early \<open>return err\<close> keeps every effect that already happened.  \<open>bindE\<close> is
  \<open>if err != nil { return err }\<close>, \<open>tryE\<close> hands the error to the caller's own branch, and
  \<open>forE\<close> is a loop whose body may return early.  \<open>relates R m\<close> says that every run of \<open>m\<close>
  relates its start and end state by \<open>R\<close>, whatever its result; it is proved once per
  operation and composed by the rules collected in \<open>relatesI\<close>.
\<close>

subsection \<open>Errors\<close>

text \<open>Sentinel errors that the code branches on, messages (named by a short tag), diagnostic
  wrappers and joined errors.\<close>

datatype goErr =
    ErrExecutionMissing
  | ErrExecutionConflict
  | ErrNotStarted
  | ErrCanceled
  | ErrText string
  | WithDiagnostic string goErr
  | Joined "goErr list"

fun errIs :: "goErr \<Rightarrow> goErr \<Rightarrow> bool" where
  "errIs (WithDiagnostic c e) t = (WithDiagnostic c e = t \<or> errIs e t)"
| "errIs (Joined es) t = (Joined es = t \<or> list_ex (\<lambda>e. errIs e t) es)"
| "errIs e t = (e = t)"

text \<open>\<open>errors.Join\<close>: nil arguments are dropped, and all nil gives nil.\<close>

definition joinErr :: "goErr option list \<Rightarrow> goErr option" where
  "joinErr es = (case List.map_filter id es of [] \<Rightarrow> None | e # r \<Rightarrow> Some (Joined (e # r)))"

subsection \<open>The effect type\<close>

type_synonym ('w, 'a) eff = "'w \<Rightarrow> 'w \<times> (goErr + 'a)"

definition retE :: "'a \<Rightarrow> ('w, 'a) eff" where
  "retE x = (\<lambda>w. (w, Inr x))"

definition throwE :: "goErr \<Rightarrow> ('w, 'a) eff" where
  "throwE e = (\<lambda>w. (w, Inl e))"

definition bindE :: "('w, 'a) eff \<Rightarrow> ('a \<Rightarrow> ('w, 'b) eff) \<Rightarrow> ('w, 'b) eff" where
  "bindE m f = (\<lambda>w. case m w of (w', Inl e) \<Rightarrow> (w', Inl e) | (w', Inr x) \<Rightarrow> f x w')"

definition thenE :: "('w, 'a) eff \<Rightarrow> ('w, 'b) eff \<Rightarrow> ('w, 'b) eff" where
  "thenE m k = bindE m (\<lambda>_. k)"

definition tryE :: "('w, 'a) eff \<Rightarrow> ('w, goErr + 'a) eff" where
  "tryE m = (\<lambda>w. case m w of (w', r) \<Rightarrow> (w', Inr r))"

definition liftR :: "goErr + 'a \<Rightarrow> ('w, 'a) eff" where
  "liftR r = (\<lambda>w. (w, r))"

definition getE :: "('w \<Rightarrow> 'a) \<Rightarrow> ('w, 'a) eff" where
  "getE f = (\<lambda>w. (w, Inr (f w)))"

definition modifyE :: "('w \<Rightarrow> 'w) \<Rightarrow> ('w, unit) eff" where
  "modifyE f = (\<lambda>w. (f w, Inr ()))"

definition guardE :: "bool \<Rightarrow> goErr \<Rightarrow> ('w, unit) eff" where
  "guardE b e = (if b then retE () else throwE e)"

definition whenE :: "bool \<Rightarrow> ('w, unit) eff \<Rightarrow> ('w, unit) eff" where
  "whenE b m = (if b then m else retE ())"

fun forE :: "'x list \<Rightarrow> ('x \<Rightarrow> ('w, unit) eff) \<Rightarrow> ('w, unit) eff" where
  "forE [] f = retE ()"
| "forE (x # xs) f = thenE (f x) (forE xs f)"

text \<open>The error of a call, for callers that join it with another.\<close>

definition errOf :: "goErr + 'a \<Rightarrow> goErr option" where
  "errOf r = (case r of Inl e \<Rightarrow> Some e | Inr _ \<Rightarrow> None)"

lemmas effect_defs = retE_def throwE_def bindE_def thenE_def tryE_def liftR_def getE_def
  modifyE_def guardE_def whenE_def errOf_def

lemma errOf_simps [simp]: "errOf (Inl e) = Some e" "errOf (Inr x) = None"
  by (simp_all add: errOf_def)

lemma retE_app [simp]: "retE x w = (w, Inr x)"
  by (simp add: retE_def)

lemma throwE_app [simp]: "throwE e w = (w, Inl e)"
  by (simp add: throwE_def)

lemma liftR_app [simp]: "liftR r w = (w, r)"
  by (simp add: liftR_def)

lemma getE_app [simp]: "getE f w = (w, Inr (f w))"
  by (simp add: getE_def)

lemma modifyE_app [simp]: "modifyE f w = (f w, Inr ())"
  by (simp add: modifyE_def)

lemma tryE_app [simp]: "tryE m w = (w', r) \<longleftrightarrow> (\<exists>r'. m w = (w', r') \<and> r = Inr r')"
  by (cases "m w") (auto simp: tryE_def)

lemma tryE_eq: "m w = (w', r) \<Longrightarrow> tryE m w = (w', Inr r)"
  by simp

lemma guardE_simps [simp]: "guardE True e w = (w, Inr ())" "guardE False e w = (w, Inl e)"
  by (simp_all add: guardE_def)

lemma whenE_simps [simp]: "whenE True m = m" "whenE False m = retE ()"
  by (simp_all add: whenE_def)

lemma bindE_ok: "m w = (w1, Inr x) \<Longrightarrow> bindE m f w = f x w1"
  by (simp add: bindE_def)

lemma bindE_err: "m w = (w1, Inl e) \<Longrightarrow> bindE m f w = (w1, Inl e)"
  by (simp add: bindE_def)

lemma bindE_app:
  "bindE m f w = (case m w of (w', Inl e) \<Rightarrow> (w', Inl e) | (w', Inr x) \<Rightarrow> f x w')"
  by (simp add: bindE_def)

lemma thenE_app:
  "thenE m k w = (case m w of (w', Inl e) \<Rightarrow> (w', Inl e) | (w', Inr x) \<Rightarrow> k w')"
  by (simp add: thenE_def bindE_def)

text \<open>How a sequence can have ended: in its first part, or in its second.\<close>

lemma bindE_cases:
  assumes "bindE m f w = (w', r)"
  obtains (fail) e where "m w = (w', Inl e)" and "r = Inl e"
  | (ok) x w1 where "m w = (w1, Inr x)" and "f x w1 = (w', r)"
proof (cases "m w")
  case (Pair w1 s)
  then show ?thesis using assms that by (cases s) (auto simp: bindE_def)
qed

lemma bindE_Inr:
  "bindE m f w = (w', Inr y) \<longleftrightarrow> (\<exists>w1 x. m w = (w1, Inr x) \<and> f x w1 = (w', Inr y))"
  by (auto simp: bindE_def split: prod.splits sum.splits)

lemma thenE_Inr:
  "thenE m k w = (w', Inr y) \<longleftrightarrow> (\<exists>w1 x. m w = (w1, Inr x) \<and> k w1 = (w', Inr y))"
  by (auto simp: thenE_def bindE_Inr)

lemma guardE_Inr: "guardE b e w = (w', Inr u) \<longleftrightarrow> b \<and> w' = w"
  by (auto simp: guardE_def)

subsection \<open>Two-state properties\<close>

definition relates :: "('w \<Rightarrow> 'w \<Rightarrow> bool) \<Rightarrow> ('w, 'a) eff \<Rightarrow> bool" where
  "relates R m \<longleftrightarrow> (\<forall>w w' r. m w = (w', r) \<longrightarrow> R w w')"

named_theorems relatesI \<open>composition rules of two-state properties\<close>

lemma relatesD: "relates R m \<Longrightarrow> m w = (w', r) \<Longrightarrow> R w w'"
  by (auto simp: relates_def)

lemma relates_fst: "relates R m \<Longrightarrow> R w (fst (m w))"
  by (metis prod.collapse relatesD)

text \<open>A preorder on states is kept by every composition of operations that keep it.\<close>

locale effect_order =
  fixes R :: "'w \<Rightarrow> 'w \<Rightarrow> bool"
  assumes refl: "R w w"
    and trans: "R w w1 \<Longrightarrow> R w1 w2 \<Longrightarrow> R w w2"
begin

lemma ret [relatesI]: "relates R (retE x)"
  by (simp add: relates_def retE_def refl)

lemma throw [relatesI]: "relates R (throwE e)"
  by (simp add: relates_def throwE_def refl)

lemma lift [relatesI]: "relates R (liftR r)"
  by (simp add: relates_def liftR_def refl)

lemma get [relatesI]: "relates R (getE f)"
  by (simp add: relates_def getE_def refl)

lemma guard [relatesI]: "relates R (guardE b e)"
  by (simp add: guardE_def ret throw)

lemma bind [relatesI]:
  assumes "relates R m" and "\<And>x. relates R (f x)"
  shows "relates R (bindE m f)"
  unfolding relates_def
proof (intro allI impI)
  fix w w' r assume run: "bindE m f w = (w', r)"
  then show "R w w'"
  proof (cases rule: bindE_cases)
    case (fail e)
    then show ?thesis using relatesD [OF assms(1)] by blast
  next
    case (ok x w1)
    then show ?thesis
      using relatesD [OF assms(1)] relatesD [OF assms(2)] trans by blast
  qed
qed

lemma andthen [relatesI]: "relates R m \<Longrightarrow> relates R k \<Longrightarrow> relates R (thenE m k)"
  by (simp add: thenE_def bind)

lemma attempt [relatesI]:
  assumes "relates R m"
  shows "relates R (tryE m)"
  unfolding relates_def using relatesD [OF assms] by auto

lemma conditional [relatesI]: "relates R m \<Longrightarrow> relates R (whenE b m)"
  by (simp add: whenE_def ret)

lemma loop [relatesI]: "(\<And>x. x \<in> set xs \<Longrightarrow> relates R (f x)) \<Longrightarrow> relates R (forE xs f)"
  by (induction xs) (simp_all add: ret andthen)

end

lemma relates_if [relatesI]:
  "(b \<Longrightarrow> relates R m) \<Longrightarrow> (\<not> b \<Longrightarrow> relates R k) \<Longrightarrow> relates R (if b then m else k)"
  by simp

lemma relates_case_sum [relatesI]:
  "(\<And>e. relates R (f e)) \<Longrightarrow> (\<And>x. relates R (g x)) \<Longrightarrow> relates R (case s of Inl e \<Rightarrow> f e | Inr x \<Rightarrow> g x)"
  by (cases s) auto

lemma relates_case_option [relatesI]:
  "relates R m \<Longrightarrow> (\<And>x. relates R (g x)) \<Longrightarrow> relates R (case s of None \<Rightarrow> m | Some x \<Rightarrow> g x)"
  by (cases s) auto

lemma relates_conj:
  "relates R m \<Longrightarrow> relates Q m \<Longrightarrow> relates (\<lambda>w w'. R w w' \<and> Q w w') m"
  by (auto simp: relates_def)

lemma relates_mono: "relates R m \<Longrightarrow> (\<And>w w'. R w w' \<Longrightarrow> Q w w') \<Longrightarrow> relates Q m"
  by (auto simp: relates_def)

end
