(* ===== verification/Exec_Store.thy ===== *)
theory Exec_Store
  imports Effects
begin

text \<open>
  The execution store (\<open>internal/engine/execution_store.go\<close>).  \<open>executionStore\<close> is the Go
  interface as a record of operations; \<open>localStore\<close> is the file-system implementation, whose
  state is the directory \<open>.terragraph/executions\<close>.  Every call takes an \<open>ioFault\<close>: which of the
  operating system calls it makes fail, and the random bytes it draws.  The bytes of a file are
  represented by the object they decode to and their length.  The locale \<open>execution_store\<close> is
  the contract the journal relies on: compare-and-swap on revisions, and that a failed write
  leaves either the old object or exactly the object it tried to write.
\<close>

subsection \<open>Objects and the interface\<close>

record 'd executionObject =
  eo_Revision :: string
  eo_Data :: 'd

record ioFault =
  io_ctx :: bool
  io_ctxRead :: bool
  io_lstat :: bool
  io_open :: bool
  io_readAll :: bool
  io_create :: bool
  io_writeFile :: bool
  io_ctxRename :: bool
  io_rename :: bool
  io_rmTemp :: bool
  io_syncDir :: bool
  io_unlink :: bool
  io_readDir :: bool
  io_random :: string

definition noFault :: "string \<Rightarrow> ioFault" where
  "noFault rnd = \<lparr>io_ctx = False, io_ctxRead = False, io_lstat = False, io_open = False,
     io_readAll = False, io_create = False, io_writeFile = False, io_ctxRename = False,
     io_rename = False, io_rmTemp = False, io_syncDir = False, io_unlink = False,
     io_readDir = False, io_random = rnd\<rparr>"

record ('st, 'd) executionStore =
  es_read :: "ioFault \<Rightarrow> 'st \<Rightarrow> string \<Rightarrow> goErr + 'd executionObject"
  es_write :: "ioFault \<Rightarrow> 'st \<Rightarrow> string \<Rightarrow> 'd \<Rightarrow> string \<Rightarrow> 'st \<times> (goErr + string)"
  es_remove :: "ioFault \<Rightarrow> 'st \<Rightarrow> string \<Rightarrow> string \<Rightarrow> 'st \<times> (goErr + unit)"
  es_list :: "ioFault \<Rightarrow> 'st \<Rightarrow> goErr + string list"

subsection \<open>Keys and identifiers\<close>

definition isHexChar :: "char \<Rightarrow> bool" where
  "isHexChar c \<longleftrightarrow> c \<in> set ''abcdef0123456789''"

definition isHexID :: "string \<Rightarrow> bool" where
  "isHexID s \<longleftrightarrow> length s = 32 \<and> list_all isHexChar s"

text \<open>\<open>^(run|plan)-[a-f0-9]{32}\.(json|bin)$\<close>\<close>

definition keyBody :: "string \<Rightarrow> bool" where
  "keyBody s \<longleftrightarrow> isHexID (take 32 s) \<and> (drop 32 s = ''.json'' \<or> drop 32 s = ''.bin'')"

definition executionKeyPattern :: "string \<Rightarrow> bool" where
  "executionKeyPattern key \<longleftrightarrow>
     (HasPrefix key ''run-'' \<and> keyBody (drop 4 key)) \<or>
     (HasPrefix key ''plan-'' \<and> keyBody (drop 5 key))"

definition newExecutionID :: "string \<Rightarrow> string \<Rightarrow> string" where
  "newExecutionID prefix rnd = prefix @ ''-'' @ rnd"

definition checkExecutionKey :: "string \<Rightarrow> goErr + unit" where
  "checkExecutionKey key = require (executionKeyPattern key) (ErrText ''invalid execution object'')"

definition executionObjectLimit :: nat where
  "executionObjectLimit = 128 * 2 ^ 20"

subsection \<open>The local store\<close>

datatype 'd content = Encoded "'d executionObject" nat | Garbage nat

fun contentLen :: "'d content \<Rightarrow> nat" where
  "contentLen (Encoded obj n) = n"
| "contentLen (Garbage n) = n"

datatype 'd dirEntry = RegularFile "'d content" | SpecialFile

type_synonym 'd executionDir = "'d dirEntry smap"

text \<open>\<open>len(json.Marshal(obj))\<close>: the revision as it is, the data in padded base64.\<close>

definition encodedLen :: "('d \<Rightarrow> nat) \<Rightarrow> 'd executionObject \<Rightarrow> nat" where
  "encodedLen dlen obj = 25 + length (eo_Revision obj) + 4 * ((dlen (eo_Data obj) + 2) div 3)"

definition decodeObject :: "'d content \<Rightarrow> goErr + 'd executionObject" where
  "decodeObject c =
     (if contentLen c > executionObjectLimit then Inl (ErrText ''object exceeds size limit'')
      else (case c of
              Garbage n \<Rightarrow> Inl (ErrText ''decoding execution object'')
            | Encoded obj n \<Rightarrow>
                if eo_Revision obj = '''' then Inl (ErrText ''object has no revision'') else Inr obj))"

definition readLocked :: "ioFault \<Rightarrow> 'd executionDir \<Rightarrow> string \<Rightarrow> goErr + 'd executionObject" where
  "readLocked io dir key =
     (if io_ctxRead io then Inl ErrCanceled
      else bindR (checkExecutionKey key) (\<lambda>_.
        if io_lstat io then Inl (ErrText ''lstat'')
        else (case map_of dir key of
                None \<Rightarrow> Inl ErrExecutionMissing
              | Some SpecialFile \<Rightarrow> Inl (ErrText ''not a regular file'')
              | Some (RegularFile c) \<Rightarrow>
                  if io_open io then Inl (ErrText ''open'')
                  else if io_readAll io then Inl (ErrText ''read'')
                  else decodeObject c)))"

text \<open>The deferred removal of the temporary file; its own failure is ignored.\<close>

definition dropTemp :: "ioFault \<Rightarrow> 'd executionDir \<Rightarrow> string \<Rightarrow> 'd executionDir" where
  "dropTemp io dir temp = (if io_rmTemp io then dir else AList.delete temp dir)"

definition pendingName :: "string \<Rightarrow> string" where
  "pendingName revision = ''.pending-'' @ revision"

text \<open>Everything after the revision check: encode, write a temporary file, rename, sync.\<close>

definition replaceObject ::
  "('d \<Rightarrow> nat) \<Rightarrow> ioFault \<Rightarrow> 'd executionDir \<Rightarrow> string \<Rightarrow> 'd \<Rightarrow> 'd executionDir \<times> (goErr + string)" where
  "replaceObject dlen io dir key data =
     (let obj = \<lparr>eo_Revision = newExecutionID ''rev'' (io_random io), eo_Data = data\<rparr>;
          n = encodedLen dlen obj;
          temp = pendingName (eo_Revision obj);
          dir1 = AList.update temp (RegularFile (Encoded obj n)) dir in
      if n > executionObjectLimit then (dir, Inl (ErrText ''object exceeds size limit''))
      else if io_create io \<or> hasKey dir temp then (dir, Inl (ErrText ''create''))
      else if io_writeFile io
        then (dropTemp io (AList.update temp (RegularFile (Garbage 0)) dir) temp, Inl (ErrText ''write''))
      else if io_ctxRename io then (dropTemp io dir1 temp, Inl ErrCanceled)
      else if io_rename io then (dropTemp io dir1 temp, Inl (ErrText ''rename''))
      else (let dir2 = AList.update key (RegularFile (Encoded obj n)) (AList.delete temp dir1) in
            if io_syncDir io then (dir2, Inl (ErrText ''sync''))
            else (dir2, Inr (eo_Revision obj))))"

definition localWrite ::
  "('d \<Rightarrow> nat) \<Rightarrow> ioFault \<Rightarrow> 'd executionDir \<Rightarrow> string \<Rightarrow> 'd \<Rightarrow> string \<Rightarrow> 'd executionDir \<times> (goErr + string)" where
  "localWrite dlen io dir key data revision =
     (if io_ctx io then (dir, Inl ErrCanceled)
      else (case checkExecutionKey key of
              Inl e \<Rightarrow> (dir, Inl e)
            | Inr _ \<Rightarrow>
                (case readLocked io dir key of
                   Inl e \<Rightarrow>
                     if e \<noteq> ErrExecutionMissing then (dir, Inl e)
                     else if revision \<noteq> '''' then (dir, Inl ErrExecutionConflict)
                     else replaceObject dlen io dir key data
                 | Inr old \<Rightarrow>
                     if revision = '''' \<or> revision \<noteq> eo_Revision old then (dir, Inl ErrExecutionConflict)
                     else replaceObject dlen io dir key data)))"

definition localRemove ::
  "ioFault \<Rightarrow> 'd executionDir \<Rightarrow> string \<Rightarrow> string \<Rightarrow> 'd executionDir \<times> (goErr + unit)" where
  "localRemove io dir key revision =
     (case readLocked io dir key of
        Inl e \<Rightarrow> (dir, Inl e)
      | Inr obj \<Rightarrow>
          if revision = '''' \<or> revision \<noteq> eo_Revision obj then (dir, Inl ErrExecutionConflict)
          else if io_unlink io then (dir, Inl (ErrText ''remove''))
          else (AList.delete key dir, if io_syncDir io then Inl (ErrText ''sync'') else Inr ()))"

definition isPending :: "string \<Rightarrow> bool" where
  "isPending name \<longleftrightarrow> HasPrefix name ''.pending-''"

definition listEntry :: "string list \<Rightarrow> string \<times> 'd dirEntry \<Rightarrow> goErr + string list" where
  "listEntry keys entry =
     (if isPending (fst entry) then Inr keys
      else if executionKeyPattern (fst entry) then
        (case snd entry of
           SpecialFile \<Rightarrow> Inl (ErrText ''unsafe object'')
         | RegularFile _ \<Rightarrow> Inr (keys @ [fst entry]))
      else Inr keys)"

definition localList :: "ioFault \<Rightarrow> 'd executionDir \<Rightarrow> goErr + string list" where
  "localList io dir =
     (if io_ctx io then Inl ErrCanceled
      else if io_open io then Inl (ErrText ''open'')
      else if io_readDir io then Inl (ErrText ''read directory'')
      else bindR (foldR listEntry [] dir) (\<lambda>keys. Inr (sort keys)))"

definition localStore :: "('d \<Rightarrow> nat) \<Rightarrow> ('d executionDir, 'd) executionStore" where
  "localStore dlen = \<lparr>es_read = readLocked, es_write = localWrite dlen, es_remove = localRemove,
     es_list = localList\<rparr>"

text \<open>Comparisons with the limit are evaluated on integers.\<close>

lemma limit_code [code_unfold]:
  "executionObjectLimit < n \<longleftrightarrow> (134217728::int) < int n" "n \<le> executionObjectLimit \<longleftrightarrow> int n \<le> (134217728::int)"
  by (simp_all add: executionObjectLimit_def)

subsection \<open>The contract\<close>

text \<open>
  \<open>obj st key\<close> is the readable object under a key and \<open>names st\<close> the keys in use (a key in use
  may hold something unreadable).  \<open>cas\<close> is the condition of a conditional write.
\<close>

definition cas :: "('st \<Rightarrow> string \<Rightarrow> 'd executionObject option) \<Rightarrow> ('st \<Rightarrow> string set) \<Rightarrow> 'st \<Rightarrow> string \<Rightarrow> string \<Rightarrow> bool" where
  "cas obj names st key revision \<longleftrightarrow>
     (if revision = '''' then key \<notin> names st
      else (\<exists>old. obj st key = Some old \<and> eo_Revision old = revision))"

definition replaced ::
  "('st \<Rightarrow> string \<Rightarrow> 'd executionObject option) \<Rightarrow> ('st \<Rightarrow> string set) \<Rightarrow> string \<Rightarrow> 'd \<Rightarrow> string \<Rightarrow> 'st \<Rightarrow> 'st \<Rightarrow> bool" where
  "replaced obj names key data revision st st' \<longleftrightarrow>
     obj st' = (obj st)(key \<mapsto> \<lparr>eo_Revision = revision, eo_Data = data\<rparr>) \<and>
     names st' = insert key (names st)"

locale execution_store =
  fixes S :: "('st, 'd) executionStore"
    and obj :: "'st \<Rightarrow> string \<Rightarrow> 'd executionObject option"
    and names :: "'st \<Rightarrow> string set"
    and newRev :: "ioFault \<Rightarrow> string"
  assumes read_ok: "es_read S io st key = Inr ob \<Longrightarrow> obj st key = Some ob"
    and read_missing: "es_read S io st key = Inl ErrExecutionMissing \<Longrightarrow> key \<notin> names st"
    and obj_names: "obj st key = Some ob \<Longrightarrow> key \<in> names st"
    and newRev_nonempty: "newRev io \<noteq> ''''"
    and write_ok: "es_write S io st key data revision = (st', Inr r) \<Longrightarrow>
      cas obj names st key revision \<and> r = newRev io \<and> replaced obj names key data r st st'"
    and write_err: "es_write S io st key data revision = (st', Inl e) \<Longrightarrow>
      (obj st' = obj st \<and> names st' = names st) \<or>
      (e \<noteq> ErrExecutionConflict \<and> cas obj names st key revision \<and>
       replaced obj names key data (newRev io) st st')"
    and remove_ok: "es_remove S io st key revision = (st', Inr u) \<Longrightarrow>
      (\<exists>old. obj st key = Some old \<and> eo_Revision old = revision) \<and>
      obj st' = (obj st)(key := None) \<and> names st' = names st - {key}"
    and remove_err: "es_remove S io st key revision = (st', Inl e) \<Longrightarrow>
      (obj st' = obj st \<and> names st' = names st) \<or>
      ((\<exists>old. obj st key = Some old \<and> eo_Revision old = revision) \<and>
       obj st' = (obj st)(key := None) \<and> names st' = names st - {key})"
    and list_ok: "es_list S io st = Inr keys \<Longrightarrow> set keys = names st"
begin

lemma write_cases:
  assumes "es_write S io st key data revision = (st', r)"
  obtains (kept) "obj st' = obj st" "names st' = names st" "\<not> isOk r"
  | (stored) "cas obj names st key revision" "replaced obj names key data (newRev io) st st'"
      "r \<noteq> Inl ErrExecutionConflict" "isOk r \<Longrightarrow> r = Inr (newRev io)"
proof (cases r)
  case (Inl e)
  with assms have "es_write S io st key data revision = (st', Inl e)" by simp
  from write_err [OF this] show ?thesis
  proof
    assume "obj st' = obj st \<and> names st' = names st"
    then show ?thesis using Inl by (intro kept) simp_all
  next
    assume "e \<noteq> ErrExecutionConflict \<and> cas obj names st key revision \<and>
      replaced obj names key data (newRev io) st st'"
    then show ?thesis using Inl by (intro stored) simp_all
  qed
next
  case (Inr x)
  with assms have "es_write S io st key data revision = (st', Inr x)" by simp
  from write_ok [OF this] show ?thesis using Inr by (intro stored) auto
qed

text \<open>A write never touches another key.\<close>

lemma write_other:
  assumes "es_write S io st key data revision = (st', r)" and "key' \<noteq> key"
  shows "obj st' key' = obj st key' \<and> (key' \<in> names st' \<longleftrightarrow> key' \<in> names st)"
  using assms by (cases rule: write_cases) (auto simp: replaced_def)

lemma remove_other:
  assumes "es_remove S io st key revision = (st', r)" and "key' \<noteq> key"
  shows "obj st' key' = obj st key' \<and> (key' \<in> names st' \<longleftrightarrow> key' \<in> names st)"
proof (cases r)
  case (Inl e)
  with assms(1) have "es_remove S io st key revision = (st', Inl e)" by simp
  from remove_err [OF this] assms(2) show ?thesis by (elim disjE conjE) simp_all
next
  case (Inr u)
  with assms(1) have "es_remove S io st key revision = (st', Inr u)" by simp
  from remove_ok [OF this] assms(2) show ?thesis by simp
qed

text \<open>A writer holding a stale revision changes nothing.\<close>

lemma stale_write:
  assumes "es_write S io st key data revision = (st', r)" and "\<not> cas obj names st key revision"
  shows "obj st' = obj st \<and> names st' = names st \<and> \<not> isOk r"
  using assms by (cases rule: write_cases) auto

text \<open>No lost update: after a write with a fresh revision, the revision another writer still
  holds is stale.\<close>

lemma superseded:
  assumes "es_write S io st key data revision = (st', Inr r)" and "held \<noteq> newRev io" and "held \<noteq> ''''"
  shows "\<not> cas obj names st' key held"
  using assms write_ok by (auto simp: cas_def replaced_def)

lemma created_once:
  assumes "es_write S io st key data revision = (st', Inr r)"
  shows "\<not> cas obj names st' key ''''"
  using assms write_ok by (auto simp: cas_def replaced_def)

end

subsection \<open>The local store keeps the contract\<close>

definition localObj :: "'d executionDir \<Rightarrow> string \<Rightarrow> 'd executionObject option" where
  "localObj dir key =
     (if executionKeyPattern key then
        (case map_of dir key of
           Some (RegularFile c) \<Rightarrow> (case decodeObject c of Inr ob \<Rightarrow> Some ob | Inl _ \<Rightarrow> None)
         | _ \<Rightarrow> None)
      else None)"

definition localNames :: "'d executionDir \<Rightarrow> string set" where
  "localNames dir = {key. executionKeyPattern key \<and> map_of dir key \<noteq> None}"

definition localRev :: "ioFault \<Rightarrow> string" where
  "localRev io = newExecutionID ''rev'' (io_random io)"

lemma pending_not_key [simp]: "\<not> executionKeyPattern (pendingName r)"
  by (simp add: executionKeyPattern_def pendingName_def HasPrefix_def)

lemma pending_neq_key: "executionKeyPattern key \<Longrightarrow> pendingName r \<noteq> key"
  by auto

lemma isPending_not_key: "isPending name \<Longrightarrow> \<not> executionKeyPattern name"
  by (auto simp: isPending_def executionKeyPattern_def HasPrefix_iff)

lemma localObj_update [simp]:
  "localObj (AList.update (pendingName r) v dir) = localObj dir"
  "localNames (AList.update (pendingName r) v dir) = localNames dir"
  by (auto simp: localObj_def localNames_def update_conv' fun_eq_iff)

lemma localObj_delete [simp]:
  "localObj (AList.delete (pendingName r) dir) = localObj dir"
  "localNames (AList.delete (pendingName r) dir) = localNames dir"
  by (auto simp: localObj_def localNames_def delete_conv' fun_eq_iff)

lemma localObj_dropTemp [simp]:
  "localObj (dropTemp io dir (pendingName r)) = localObj dir"
  "localNames (dropTemp io dir (pendingName r)) = localNames dir"
  by (simp_all add: dropTemp_def)

lemma localRev_nonempty [simp]: "localRev io \<noteq> ''''"
  by (simp add: localRev_def newExecutionID_def)

lemma localObj_put:
  assumes "executionKeyPattern key" and "n \<le> executionObjectLimit" and "eo_Revision ob \<noteq> ''''"
  shows "localObj (AList.update key (RegularFile (Encoded ob n)) dir) = (localObj dir)(key \<mapsto> ob)"
    and "localNames (AList.update key (RegularFile (Encoded ob n)) dir) = insert key (localNames dir)"
  using assms by (auto simp: localObj_def localNames_def update_conv' fun_eq_iff decodeObject_def)

lemma localObj_drop:
  "localObj (AList.delete key dir) = (localObj dir)(key := None)"
  "localNames (AList.delete key dir) = localNames dir - {key}"
  by (auto simp: localObj_def localNames_def delete_conv' fun_eq_iff)

lemma readLocked_Inr:
  "readLocked io dir key = Inr ob \<Longrightarrow> executionKeyPattern key \<and> localObj dir key = Some ob"
  by (auto simp: readLocked_def checkExecutionKey_def localObj_def
      split: if_splits option.splits dirEntry.splits)

lemma decodeObject_not_missing: "decodeObject c \<noteq> Inl ErrExecutionMissing"
  by (auto simp: decodeObject_def split: content.splits)

lemma readLocked_missing:
  "readLocked io dir key = Inl ErrExecutionMissing \<Longrightarrow> executionKeyPattern key \<and> key \<notin> localNames dir"
  by (auto simp: readLocked_def checkExecutionKey_def localNames_def require_def decodeObject_not_missing
      split: if_splits option.splits dirEntry.splits)

lemma replaceObject_ok:
  assumes "replaceObject dlen io dir key data = (dir', Inr r)" and "executionKeyPattern key"
  shows "r = localRev io \<and> replaced localObj localNames key data r dir dir'"
  using assms localRev_nonempty [of io]
  by (auto simp: replaceObject_def Let_def replaced_def localRev_def localObj_put split: if_splits)

lemma replaceObject_err:
  assumes "replaceObject dlen io dir key data = (dir', Inl e)" and "executionKeyPattern key"
  shows "e \<noteq> ErrExecutionConflict \<and>
    ((localObj dir' = localObj dir \<and> localNames dir' = localNames dir) \<or>
     replaced localObj localNames key data (localRev io) dir dir')"
  using assms localRev_nonempty [of io]
  by (auto simp: replaceObject_def Let_def replaced_def localRev_def localObj_put split: if_splits)

lemma localWrite_reaches:
  assumes "localWrite dlen io dir key data revision = (dir', r)"
  obtains (kept) "dir' = dir" "\<not> isOk r"
  | (put) "executionKeyPattern key" "cas localObj localNames dir key revision"
      "replaceObject dlen io dir key data = (dir', r)"
proof (cases "io_ctx io \<or> \<not> executionKeyPattern key")
  case True
  then show ?thesis using assms kept by (auto simp: localWrite_def checkExecutionKey_def require_def split: if_splits)
next
  case False
  show ?thesis
  proof (cases "readLocked io dir key")
    case (Inl e)
    with False assms show ?thesis
      using readLocked_missing [of io dir key] that
      by (auto simp: localWrite_def checkExecutionKey_def require_def cas_def split: if_splits)
  next
    case (Inr ob)
    with False assms show ?thesis
      using readLocked_Inr [of io dir key ob] that
      by (auto simp: localWrite_def checkExecutionKey_def require_def cas_def split: if_splits)
  qed
qed

lemma localRemove_cases:
  assumes "localRemove io dir key revision = (dir', r)"
  obtains (kept) "dir' = dir" "\<not> isOk r"
  | (gone) ob where "localObj dir key = Some ob" "eo_Revision ob = revision" "dir' = AList.delete key dir"
proof (cases "readLocked io dir key")
  case (Inl e)
  then show ?thesis using assms kept by (auto simp: localRemove_def)
next
  case (Inr ob)
  then show ?thesis using assms that readLocked_Inr [OF Inr] by (auto simp: localRemove_def split: if_splits)
qed

lemma listEntry_keys:
  assumes "foldR listEntry keys dir = Inr keys'"
  shows "set keys' = set keys \<union> {k \<in> fst ` set dir. executionKeyPattern k}"
  using assms
proof (induction dir arbitrary: keys)
  case (Cons entry dir)
  then obtain ks where ks: "listEntry keys entry = Inr ks" "foldR listEntry ks dir = Inr keys'" by auto
  have "set ks = set keys \<union> (if executionKeyPattern (fst entry) then {fst entry} else {})"
    using ks(1) isPending_not_key by (auto simp: listEntry_def split: if_splits dirEntry.splits)
  then show ?case using Cons.IH [OF ks(2)] by auto
qed simp

lemma localList_keys:
  assumes "localList io dir = Inr keys"
  shows "set keys = localNames dir"
proof -
  from assms obtain ks where "foldR listEntry [] dir = Inr ks" and "keys = sort ks"
    by (auto simp: localList_def split: if_splits)
  then show ?thesis
    using listEntry_keys [of "[]" dir ks] by (auto simp: localNames_def map_of_eq_None_iff)
qed

interpretation local_store: execution_store "localStore dlen" localObj localNames localRev
proof (unfold_locales, goal_cases)
  case (1 io st key ob)
  then show ?case using readLocked_Inr by (auto simp: localStore_def)
next
  case (2 io st key)
  then show ?case using readLocked_missing by (auto simp: localStore_def)
next
  case (3 st key ob)
  then show ?case by (auto simp: localObj_def localNames_def split: if_splits option.splits)
next
  case (4 io)
  then show ?case by simp
next
  case (5 io st key data revision st' r)
  then have "localWrite dlen io st key data revision = (st', Inr r)" by (simp add: localStore_def)
  then show ?case by (cases rule: localWrite_reaches) (auto dest: replaceObject_ok)
next
  case (6 io st key data revision st' e)
  then have "localWrite dlen io st key data revision = (st', Inl e)" by (simp add: localStore_def)
  then show ?case by (cases rule: localWrite_reaches) (auto dest: replaceObject_err)
next
  case (7 io st key revision st' u)
  then have "localRemove io st key revision = (st', Inr u)" by (simp add: localStore_def)
  then show ?case by (cases rule: localRemove_cases) (auto simp: localObj_drop)
next
  case (8 io st key revision st' e)
  then have "localRemove io st key revision = (st', Inl e)" by (simp add: localStore_def)
  then show ?case by (cases rule: localRemove_cases) (auto simp: localObj_drop)
next
  case (9 io st keys)
  then show ?case using localList_keys by (auto simp: localStore_def)
qed

subsection \<open>The property of the local store\<close>

lemma localWrite_accepts:
  assumes "executionKeyPattern key" and "cas localObj localNames dir key revision"
    and "encodedLen dlen \<lparr>eo_Revision = localRev (noFault rnd), eo_Data = data\<rparr> \<le> executionObjectLimit"
    and "pendingName (localRev (noFault rnd)) \<notin> fst ` set dir"
  shows "isOk (snd (localWrite dlen (noFault rnd) dir key data revision))"
proof -
  have put: "isOk (snd (replaceObject dlen (noFault rnd) dir key data))"
    using assms(3,4) by (simp add: replaceObject_def Let_def localRev_def noFault_def)
  show ?thesis
  proof (cases "revision = ''''")
    case True
    then have "map_of dir key = None" using assms(1,2) by (simp add: cas_def localNames_def)
    then have "readLocked (noFault rnd) dir key = Inl ErrExecutionMissing"
      using assms(1) by (simp add: readLocked_def checkExecutionKey_def noFault_def require_def)
    then show ?thesis using True put assms(1)
      by (simp add: localWrite_def checkExecutionKey_def require_def noFault_def)
  next
    case False
    then obtain old where old: "localObj dir key = Some old" "eo_Revision old = revision"
      using assms(2) by (auto simp: cas_def)
    then have "readLocked (noFault rnd) dir key = Inr old"
      using assms(1) by (auto simp: readLocked_def checkExecutionKey_def noFault_def localObj_def require_def
          split: if_splits option.splits dirEntry.splits sum.splits)
    then show ?thesis using False old put assms(1)
      by (simp add: localWrite_def checkExecutionKey_def require_def noFault_def)
  qed
qed

lemma localWrite_refused:
  assumes "\<not> cas localObj localNames dir key held"
  shows "\<not> isOk (snd (localWrite dlen io dir key data held)) \<and>
    localObj (fst (localWrite dlen io dir key data held)) = localObj dir"
  using local_store.stale_write [of dlen io dir key data held] assms
  by (metis localStore_def executionStore.select_convs(2) prod.collapse)

text \<open>
  C27: The local store is a compare-and-swap register per key, whatever system calls fail. A write
  that succeeds found the key absent (empty revision) or under the given revision, and stores the data
  under a new revision; without system failures every write under a valid condition that fits the
  size limit succeeds. A write that fails leaves every readable object as it was, or has stored
  exactly its own object under a valid condition (a failed directory sync after the rename). Once a
  write succeeded, a writer holding any earlier revision, or none, is refused and changes nothing.
\<close>

theorem local_store_no_lost_update:
  assumes "localWrite dlen io dir key data revision = (dir', r)"
  shows "(isOk r \<longrightarrow>
      cas localObj localNames dir key revision \<and> r = Inr (localRev io) \<and>
      localObj dir' = (localObj dir)(key \<mapsto> \<lparr>eo_Revision = localRev io, eo_Data = data\<rparr>)) \<and>
    (\<not> isOk r \<longrightarrow>
      localObj dir' = localObj dir \<or>
      (cas localObj localNames dir key revision \<and>
       localObj dir' = (localObj dir)(key \<mapsto> \<lparr>eo_Revision = localRev io, eo_Data = data\<rparr>))) \<and>
    (isOk r \<longrightarrow> (\<forall>held io2 data2. held \<noteq> localRev io \<longrightarrow>
      \<not> isOk (snd (localWrite dlen io2 dir' key data2 held)) \<and>
      localObj (fst (localWrite dlen io2 dir' key data2 held)) = localObj dir')) \<and>
    (io = noFault rnd \<and> executionKeyPattern key \<and> cas localObj localNames dir key revision \<and>
     encodedLen dlen \<lparr>eo_Revision = localRev io, eo_Data = data\<rparr> \<le> executionObjectLimit \<and>
     pendingName (localRev io) \<notin> fst ` set dir \<longrightarrow> isOk r)"
proof -
  have run: "es_write (localStore dlen) io dir key data revision = (dir', r)"
    using assms by (simp add: localStore_def)
  have later: "\<not> cas localObj localNames dir' key held" if "isOk r" "held \<noteq> localRev io" for held
    using run that
  proof (cases rule: local_store.write_cases)
    case stored
    then show ?thesis using that by (auto simp: cas_def replaced_def)
  qed auto
  have accepts: "io = noFault rnd \<and> executionKeyPattern key \<and> cas localObj localNames dir key revision \<and>
     encodedLen dlen \<lparr>eo_Revision = localRev io, eo_Data = data\<rparr> \<le> executionObjectLimit \<and>
     pendingName (localRev io) \<notin> fst ` set dir \<longrightarrow> isOk r"
    using localWrite_accepts [of key dir revision dlen rnd data] assms by auto
  from run show ?thesis
  proof (cases rule: local_store.write_cases)
    case kept
    then show ?thesis using accepts by simp
  next
    case stored
    then show ?thesis using localWrite_refused [OF later] accepts by (auto simp: replaced_def)
  qed
qed

definition sampleID :: string where
  "sampleID = ''run-0123456789abcdef0123456789abcdef''"

lemma sampleID_key: "executionKeyPattern (sampleID @ ''.json'')"
  by code_simp

theorem local_store_no_lost_update_witness:
  "localObj (fst (localWrite length (noFault ''1'') [] (sampleID @ ''.json'') ''first'' '''')) (sampleID @ ''.json'') =
     Some \<lparr>eo_Revision = ''rev-1'', eo_Data = ''first''\<rparr> \<and>
   \<not> isOk (snd (localWrite length (noFault ''2'')
     (fst (localWrite length (noFault ''1'') [] (sampleID @ ''.json'') ''first'' ''''))
     (sampleID @ ''.json'') ''second'' ''''))"
proof -
  obtain dir' r where run: "localWrite length (noFault ''1'') [] (sampleID @ ''.json'') ''first'' '''' = (dir', r)"
    by (meson surj_pair)
  have "cas localObj localNames [] (sampleID @ ''.json'') ''''" by (simp add: cas_def localNames_def)
  moreover have "encodedLen length \<lparr>eo_Revision = localRev (noFault ''1''), eo_Data = ''first''\<rparr> \<le> executionObjectLimit"
    by (simp add: encodedLen_def executionObjectLimit_def localRev_def newExecutionID_def noFault_def)
  ultimately have ok: "isOk r" and res: "localObj dir' = (localObj [])((sampleID @ ''.json'') \<mapsto>
        \<lparr>eo_Revision = localRev (noFault ''1''), eo_Data = ''first''\<rparr>)"
    "\<forall>held io2 data2. held \<noteq> localRev (noFault ''1'') \<longrightarrow>
      \<not> isOk (snd (localWrite length io2 dir' (sampleID @ ''.json'') data2 held))"
    using local_store_no_lost_update [OF run, of "''1''"] sampleID_key by auto
  then show ?thesis
    using res run by (simp add: localRev_def newExecutionID_def noFault_def)
qed

end
