(* ===== verification/Approve_Gate.thy ===== *)
theory Approve_Gate
  imports Blueprint_Types Graph_Core Effects
begin

text \<open>
  The approval gate (\<open>internal/engine/approve.go\<close>) and the plan review that reports its decision
  (\<open>internal/engine/plan_review.go\<close>), over the resource changes the runner reads from a saved plan
  (\<open>internal/exec/runner.go\<close>).  Counts stand for the rendered summary line and errors carry a tag
  instead of their text.
\<close>

subsection \<open>Resource changes\<close>

record ResourceChange =
  rc_Address :: string
  rc_Actions :: "string list"

record OutputChange =
  oc_Name :: string
  oc_Actions :: "string list"

definition IsReplace :: "ResourceChange \<Rightarrow> bool" where
  "IsReplace c \<longleftrightarrow> ''create'' \<in> set (rc_Actions c) \<and> ''delete'' \<in> set (rc_Actions c)"

text \<open>\<^const>\<open>None\<close> is the nil dereference of an unknown node.\<close>

definition approveFor :: "Graph \<Rightarrow> string \<Rightarrow> string \<Rightarrow> string option" where
  "approveFor g name runDefault =
     map_option
       (\<lambda>n. if gn_Approve n \<noteq> '''' then gn_Approve n
            else if runDefault \<noteq> '''' then runDefault else ApproveSafe)
       (map_of (g_Nodes g) name)"

text \<open>The counters add, change and destroy of the summary line.\<close>

fun countActions :: "nat \<times> nat \<times> nat \<Rightarrow> string list \<Rightarrow> nat \<times> nat \<times> nat" where
  "countActions (add, change, destroy) [] = (add, change, destroy)"
| "countActions (add, change, destroy) (a # as) =
     countActions
       (if a = ''create'' then (add + 1, change, destroy)
        else if a = ''update'' then (add, change + 1, destroy)
        else if a = ''delete'' then (add, change, destroy + 1)
        else (add, change, destroy)) as"

fun summarizeFrom :: "nat \<times> nat \<times> nat \<Rightarrow> ResourceChange list \<Rightarrow> nat \<times> nat \<times> nat" where
  "summarizeFrom n [] = n"
| "summarizeFrom (add, change, destroy) (c # cs) =
     summarizeFrom
       (if IsReplace c then (add + 1, change, destroy + 1)
        else countActions (add, change, destroy) (rc_Actions c)) cs"

definition summarizeChanges :: "ResourceChange list \<Rightarrow> nat \<times> nat \<times> nat" where
  "summarizeChanges changes = summarizeFrom (0, 0, 0) changes"

definition describeAction :: "ResourceChange \<Rightarrow> string" where
  "describeAction c =
     (if IsReplace c then ''replace''
      else (case filter (\<lambda>a. a \<noteq> ''no-op'' \<and> a \<noteq> ''read'') (rc_Actions c) of
              [] \<Rightarrow> ''no-op'' | a # _ \<Rightarrow> a))"

definition notPermitted :: "ResourceChange list \<Rightarrow> string \<Rightarrow> ResourceChange list" where
  "notPermitted changes level =
     sort_key rc_Address (filter (\<lambda>c. list_ex (\<lambda>a. \<not> Permits level a) (rc_Actions c)) changes)"

text \<open>The remedy names the CLI override only when no declaration would keep the retry blocked.
  The gate runs after \<open>approveFor\<close>, so the node exists.\<close>

definition gateError :: "Graph \<Rightarrow> string \<Rightarrow> string \<Rightarrow> ResourceChange list \<Rightarrow> goErr" where
  "gateError g name level blocked =
     WithDiagnostic ''policy_blocked''
       (ErrText (if (case map_of (g_Nodes g) name of Some n \<Rightarrow> gn_Approve n \<noteq> '''' | None \<Rightarrow> False)
                 then ''declared'' else ''rerun''))"

subsection \<open>Plan reviews\<close>

record InputBasis =
  ib_Input :: string
  ib_Node :: string
  ib_Output :: string
  ib_Source :: string

datatype ContractResult = ContractViolation | ContractDeferred | ContractConfirmed | ContractUnconstrained

record ContractCheck =
  cc_Port :: string
  cc_Condition :: string
  cc_Result :: ContractResult

record ReviewDiagnostic =
  rd_Category :: string
  rd_Code :: string
  rd_Phase :: string
  rd_Subject :: string

record PlanReview =
  rv_Evidence :: bool
  rv_HasChanges :: "bool option"
  rv_Resources :: "ResourceChange list"
  rv_Outputs :: "OutputChange list"
  rv_Policy :: string
  rv_PolicyDecision :: string
  rv_Inputs :: "InputBasis list"
  rv_Contracts :: "ContractCheck list"
  rv_Limitations :: "string list"
  rv_Diagnostic :: "ReviewDiagnostic option"

definition newPlanReview :: "string \<Rightarrow> PlanReview" where
  "newPlanReview policy = \<lparr>rv_Evidence = False, rv_HasChanges = None, rv_Resources = [], rv_Outputs = [],
     rv_Policy = policy, rv_PolicyDecision = ''unknown'', rv_Inputs = [], rv_Contracts = [],
     rv_Limitations = [''node-local evidence only''], rv_Diagnostic = None\<rparr>"

definition errUpstreamOutputMissing :: goErr where
  "errUpstreamOutputMissing = ErrText ''upstream output is unavailable''"

definition errPlanBlocked :: goErr where
  "errPlanBlocked = ErrText ''plan not reached''"

definition reviewFailure :: "PlanReview \<Rightarrow> string \<Rightarrow> string \<Rightarrow> string \<Rightarrow> goErr \<Rightarrow> PlanReview" where
  "reviewFailure review name code phase e =
     (let code1 = (if errIs e ErrCanceled then ''cancelled'' else code);
          code2 = (if errIs e errUpstreamOutputMissing then ''upstream_output_unavailable'' else code1);
          code3 = (if errIs e errPlanBlocked then ''dependency_not_reached'' else code2) in
      review\<lparr>rv_Diagnostic := Some \<lparr>rd_Category = (if code3 = ''cancelled'' then ''cancelled'' else ''runtime''),
        rd_Code = code3, rd_Phase = phase, rd_Subject = ''node.'' @ name\<rparr>\<rparr>)"

definition reviewLimitation :: "InputBasis \<Rightarrow> string" where
  "reviewLimitation i =
     ''input '' @ ib_Input i @
     (if ib_Source i = ''snapshot'' then '' uses an opt-in output snapshot, not live state''
      else '' uses existing upstream output, not the upstream planned value'')"

definition normalize :: "PlanReview \<Rightarrow> bool \<Rightarrow> PlanReview" where
  "normalize review changed =
     (let changed' = (changed \<or>
            list_ex (\<lambda>out. list_ex (\<lambda>a. a \<noteq> ''no-op'') (oc_Actions out)) (rv_Outputs review) \<or>
            list_ex (\<lambda>c. list_ex (\<lambda>a. a \<noteq> ''no-op'') (rc_Actions c)) (rv_Resources review));
          resources = sort_key rc_Address (rv_Resources review) in
      review\<lparr>rv_Resources := resources,
        rv_Evidence := True,
        rv_HasChanges := Some changed',
        rv_PolicyDecision := (if notPermitted resources (rv_Policy review) \<noteq> [] then ''block'' else ''pass''),
        rv_Limitations := rv_Limitations review @ map reviewLimitation (rv_Inputs review)\<rparr>)"

subsection \<open>Facts of the gate\<close>

lemma notPermitted_set:
  "set (notPermitted changes level) = {c \<in> set changes. \<exists>a \<in> set (rc_Actions c). \<not> Permits level a}"
  by (auto simp: notPermitted_def list_ex_iff)

lemma notPermitted_Nil:
  "notPermitted changes level = [] \<longleftrightarrow> (\<forall>c \<in> set changes. \<forall>a \<in> set (rc_Actions c). Permits level a)"
proof -
  have "notPermitted changes level = [] \<longleftrightarrow> set (notPermitted changes level) = {}" by simp
  also have "\<dots> \<longleftrightarrow> (\<forall>c \<in> set changes. \<forall>a \<in> set (rc_Actions c). Permits level a)"
    unfolding notPermitted_set by blast
  finally show ?thesis .
qed

lemma notPermitted_sorted: "sorted (map rc_Address (notPermitted changes level))"
  by (simp add: notPermitted_def)

lemma permits_delete: "Permits level ''delete'' \<longleftrightarrow> level = ApproveAll"
  by (simp add: Permits_def)

lemma permits_rank:
  "Permits level a \<Longrightarrow> approveRank level \<le> approveRank level' \<Longrightarrow> Permits level' a"
  by (auto simp: Permits_def approveRank_def split: if_splits)

lemma notPermitted_cong_set:
  "set xs = set ys \<Longrightarrow> notPermitted xs level = [] \<longleftrightarrow> notPermitted ys level = []"
  by (simp add: notPermitted_Nil)

text \<open>
  C28: The approval gate is exact. The blocked list is empty if and only if the level permits every
  action of every planned change, it lists exactly the offending changes in address order, and a
  change that deletes (a replacement included) is blocked at every level but \<open>all\<close>; raising the
  level never blocks more; and the review of a plan says pass exactly when nothing is blocked.
\<close>

theorem approve_gate_exact:
  "set (notPermitted changes level) = {c \<in> set changes. \<exists>a \<in> set (rc_Actions c). \<not> Permits level a} \<and>
   sorted (map rc_Address (notPermitted changes level)) \<and>
   {c \<in> set changes. ''delete'' \<in> set (rc_Actions c) \<and> level \<noteq> ApproveAll}
     \<subseteq> set (notPermitted changes level) \<and>
   (approveRank level \<le> approveRank level' \<longrightarrow>
     set (notPermitted changes level') \<subseteq> set (notPermitted changes level)) \<and>
   (rv_PolicyDecision (normalize (newPlanReview level\<lparr>rv_Resources := changes\<rparr>) changed) = ''pass''
     \<longleftrightarrow> notPermitted changes level = [])"
proof (intro conjI impI)
  show "rv_PolicyDecision (normalize (newPlanReview level\<lparr>rv_Resources := changes\<rparr>) changed) = ''pass''
     \<longleftrightarrow> notPermitted changes level = []"
    using notPermitted_cong_set [of "sort_key rc_Address changes" changes level]
    by (simp add: normalize_def Let_def newPlanReview_def)
  show "{c \<in> set changes. ''delete'' \<in> set (rc_Actions c) \<and> level \<noteq> ApproveAll}
      \<subseteq> set (notPermitted changes level)"
    unfolding notPermitted_set using permits_delete by blast
  assume "approveRank level \<le> approveRank level'"
  then show "set (notPermitted changes level') \<subseteq> set (notPermitted changes level)"
    unfolding notPermitted_set using permits_rank by blast
qed (simp_all add: notPermitted_set notPermitted_sorted)

theorem approve_gate_exact_witness:
  "notPermitted [\<lparr>rc_Address = ''b'', rc_Actions = [''delete'', ''create'']\<rparr>,
                 \<lparr>rc_Address = ''a'', rc_Actions = [''update'']\<rparr>] ApproveSafe =
     [\<lparr>rc_Address = ''b'', rc_Actions = [''delete'', ''create'']\<rparr>] \<and>
   set (notPermitted [\<lparr>rc_Address = ''b'', rc_Actions = [''delete'', ''create'']\<rparr>] ApproveAll) \<subseteq>
   set (notPermitted [\<lparr>rc_Address = ''b'', rc_Actions = [''delete'', ''create'']\<rparr>] ApproveSafe)"
proof
  show "notPermitted [\<lparr>rc_Address = ''b'', rc_Actions = [''delete'', ''create'']\<rparr>,
                 \<lparr>rc_Address = ''a'', rc_Actions = [''update'']\<rparr>] ApproveSafe =
     [\<lparr>rc_Address = ''b'', rc_Actions = [''delete'', ''create'']\<rparr>]"
    by (simp add: notPermitted_def Permits_def)
  have "approveRank ApproveSafe \<le> approveRank ApproveAll"
    by (simp add: approveRank_def)
  then show "set (notPermitted [\<lparr>rc_Address = ''b'', rc_Actions = [''delete'', ''create'']\<rparr>] ApproveAll) \<subseteq>
    set (notPermitted [\<lparr>rc_Address = ''b'', rc_Actions = [''delete'', ''create'']\<rparr>] ApproveSafe)"
    using approve_gate_exact [of "[\<lparr>rc_Address = ''b'', rc_Actions = [''delete'', ''create'']\<rparr>]"
        ApproveSafe ApproveAll False] by blast
qed

end
