(* ===== verification/Values.thy ===== *)
theory Values
  imports Contract_Types Effects Approve_Gate
begin

text \<open>
  Observed values and their contract checks: runtime outputs and planned values
  (\<open>internal/exec/runner.go\<close>, \<open>plan_values.go\<close>), the effective value of a module variable
  (\<open>internal/module/input.go\<close>) and the structural check of a value against a contract type
  (\<open>internal/blueprint/contract_type.go\<close>).  The value and type algebra of the expression library is
  a pair of datatypes; its conversions and JSON decoders are parameters (\<open>ValueLib\<close>).  \<^const>\<open>None\<close>
  stands for \<open>cty.NilVal\<close>.
\<close>

subsection \<open>The value algebra\<close>

fun typeOf :: "ctyval \<Rightarrow> cty" where
  "typeOf (VNull t) = t"
| "typeOf (VUnknown t) = t"
| "typeOf (VString s) = CString"
| "typeOf (VNumber n) = CNumber"
| "typeOf (VBool b) = CBool"
| "typeOf (VList t vs) = CList t"
| "typeOf (VSet t vs) = CSet t"
| "typeOf (VMap t kvs) = CMap t"
| "typeOf (VTuple vs) = CTuple (map typeOf vs)"
| "typeOf (VObject kvs) = CObject (map (\<lambda>(k, v). (k, typeOf v, False)) kvs)"

fun isNull :: "ctyval \<Rightarrow> bool" where
  "isNull (VNull t) = True"
| "isNull v = False"

fun isKnown :: "ctyval \<Rightarrow> bool" where
  "isKnown (VUnknown t) = False"
| "isKnown v = True"

text \<open>The elements an \<open>ElementIterator\<close> visits.\<close>

fun elements :: "ctyval \<Rightarrow> ctyval list" where
  "elements (VList t vs) = vs"
| "elements (VSet t vs) = vs"
| "elements (VMap t kvs) = map snd kvs"
| "elements (VTuple vs) = vs"
| "elements (VObject kvs) = map snd kvs"
| "elements v = []"

lemma size_map_snd: "(a, v) \<in> set kvs \<Longrightarrow> size v < Suc (size_list (size_prod (\<lambda>_. 0) size) kvs)"
  by (induction kvs) auto

lemma size_attr: "(k, t, b) \<in> set attrs \<Longrightarrow>
    size t < Suc (size_list (size_prod (\<lambda>_. 0) (size_prod size (\<lambda>_. 0))) attrs)" for t :: cty
  by (induction attrs) auto

lemma size_mem: "v \<in> set vs \<Longrightarrow> size v < Suc (size_list size vs)" for v :: "'a :: size"
  by (induction vs) auto

lemma elements_size: "v \<in> set (elements u) \<Longrightarrow> size v < size u"
  by (cases u rule: elements.cases) (auto dest: size_mem size_map_snd)

function isWhollyKnown :: "ctyval \<Rightarrow> bool" where
  "isWhollyKnown v = (isKnown v \<and> list_all isWhollyKnown (elements v))"
  by auto
termination by (relation "measure size") (auto dest: elements_size)

declare isWhollyKnown.simps [simp del]

definition isObjectLike :: "ctyval \<Rightarrow> bool" where
  "isObjectLike v = (case v of VObject _ \<Rightarrow> True | VMap _ _ \<Rightarrow> True | _ \<Rightarrow> False)"

definition isTupleLike :: "ctyval \<Rightarrow> bool" where
  "isTupleLike v = (case v of VTuple _ \<Rightarrow> True | VList _ _ \<Rightarrow> True | _ \<Rightarrow> False)"

text \<open>\<open>GetAttr\<close> and \<open>Index\<close> by a string key.\<close>

definition member :: "ctyval \<Rightarrow> string \<Rightarrow> ctyval option" where
  "member v key = (case v of VObject kvs \<Rightarrow> map_of kvs key | VMap _ kvs \<Rightarrow> map_of kvs key | _ \<Rightarrow> None)"

lemma member_elements: "member u key = Some v \<Longrightarrow> v \<in> set (elements u)"
  by (auto simp: member_def split: ctyval.splits dest!: map_of_SomeD intro: rev_image_eqI)

fun hasDynamicTypes :: "cty \<Rightarrow> bool" where
  "hasDynamicTypes CDynamic = True"
| "hasDynamicTypes (CList t) = hasDynamicTypes t"
| "hasDynamicTypes (CSet t) = hasDynamicTypes t"
| "hasDynamicTypes (CMap t) = hasDynamicTypes t"
| "hasDynamicTypes (CTuple ts) = list_ex hasDynamicTypes ts"
| "hasDynamicTypes (CObject attrs) = list_ex (\<lambda>(k, t, opt). hasDynamicTypes t) attrs"
| "hasDynamicTypes t = False"

fun elementType :: "cty \<Rightarrow> cty" where
  "elementType (CList t) = t"
| "elementType (CSet t) = t"
| "elementType (CMap t) = t"
| "elementType t = CDynamic"

subsection \<open>Contract types\<close>

function (sequential) preserveOptional :: "cty \<Rightarrow> cty \<Rightarrow> cty" where
  "preserveOptional (CObject attrs) (CObject cs) =
     CObject (map (\<lambda>(k, t, opt).
       case map_of cs k of
         Some (ct, copt) \<Rightarrow> (k, preserveOptional t ct, copt)
       | None \<Rightarrow> (k, t, False)) attrs)"
| "preserveOptional (CList t) c =
     (case c of CList ct \<Rightarrow> CList (preserveOptional t ct) | CSet ct \<Rightarrow> CList (preserveOptional t ct)
      | CMap ct \<Rightarrow> CList (preserveOptional t ct) | _ \<Rightarrow> CList t)"
| "preserveOptional (CSet t) c =
     (case c of CList ct \<Rightarrow> CSet (preserveOptional t ct) | CSet ct \<Rightarrow> CSet (preserveOptional t ct)
      | CMap ct \<Rightarrow> CSet (preserveOptional t ct) | _ \<Rightarrow> CSet t)"
| "preserveOptional (CMap t) c =
     (case c of CList ct \<Rightarrow> CMap (preserveOptional t ct) | CSet ct \<Rightarrow> CMap (preserveOptional t ct)
      | CMap ct \<Rightarrow> CMap (preserveOptional t ct) | _ \<Rightarrow> CMap t)"
| "preserveOptional (CTuple ts) (CTuple cs) =
     (if length ts = length cs then CTuple (map (\<lambda>(t, c). preserveOptional t c) (zip ts cs)) else CTuple ts)"
| "preserveOptional t c = t"
  by pat_completeness auto
termination
  by (relation "measure (size \<circ> fst)") (auto dest!: set_zip_leftD simp: size_mem size_attr)

definition combineResults :: "ContractResult list \<Rightarrow> ContractResult" where
  "combineResults rs =
     foldl (\<lambda>result r. if r = ContractViolation \<or> (result \<noteq> ContractViolation \<and> r = ContractDeferred) then r else result)
       ContractConfirmed rs"

text \<open>Whether a known value has the outer shape a collection constraint asks for.\<close>

definition collectionShape :: "cty \<Rightarrow> ctyval \<Rightarrow> bool" where
  "collectionShape c v =
     (case c of
        CList _ \<Rightarrow> isTupleLike v
      | CSet _ \<Rightarrow> (case v of VSet _ _ \<Rightarrow> True | _ \<Rightarrow> False)
      | CMap _ \<Rightarrow> isObjectLike v
      | _ \<Rightarrow> False)"

text \<open>The check of a non-nil value.  The converted value of a collection constraint is a collection,
  so its element type exists.\<close>

function checkValue :: "CtyLib \<Rightarrow> ctyval \<Rightarrow> cty \<Rightarrow> ContractResult" where
  "checkValue lib value c =
     (if c = CDynamic then ContractConfirmed
      else if isNull value then ContractConfirmed
      else if \<not> isKnown value then ContractDeferred
      else (case c of
          CObject attrs \<Rightarrow>
            if \<not> isObjectLike value then ContractViolation
            else combineResults (map (\<lambda>(key, el, opt).
              case member value key of
                None \<Rightarrow> if opt then ContractConfirmed else ContractViolation
              | Some v \<Rightarrow> checkValue lib v el) attrs)
        | CTuple els \<Rightarrow>
            if \<not> isTupleLike value then ContractViolation
            else if length (elements value) \<noteq> length els then ContractViolation
            else combineResults (map (\<lambda>(v, el). checkValue lib v el) (zip (elements value) els))
        | CString \<Rightarrow> if typeOf value = c then ContractConfirmed else ContractViolation
        | CNumber \<Rightarrow> if typeOf value = c then ContractConfirmed else ContractViolation
        | CBool \<Rightarrow> if typeOf value = c then ContractConfirmed else ContractViolation
        | _ \<Rightarrow>
            if \<not> collectionShape c value then ContractViolation
            else combineResults
              (map (\<lambda>v. checkValue lib v (elementType c)) (elements value) @
               (if \<not> hasDynamicTypes c then []
                else (if isWhollyKnown value then [] else [ContractDeferred]) @
                  (case cl_Convert lib value c of
                     None \<Rightarrow> [ContractViolation]
                   | Some converted \<Rightarrow>
                       map (\<lambda>v. checkValue lib v
                              (preserveOptional (elementType (typeOf converted)) (elementType c)))
                         (elements value))))))"
  by auto
termination
  by (relation "measure (\<lambda>(lib, value, c). size value)")
    (auto dest: elements_size member_elements dest!: set_zip_leftD)

declare checkValue.simps [simp del]

definition CheckContractType :: "CtyLib \<Rightarrow> ctyval option \<Rightarrow> cty \<Rightarrow> ContractResult" where
  "CheckContractType lib value c =
     (case value of None \<Rightarrow> ContractDeferred | Some v \<Rightarrow> checkValue lib v c)"

subsection \<open>Facts of the check\<close>

lemma foldl_combine:
  "foldl (\<lambda>result r. if r = ContractViolation \<or> (result \<noteq> ContractViolation \<and> r = ContractDeferred) then r else result) acc rs =
   (if acc = ContractViolation \<or> ContractViolation \<in> set rs then ContractViolation
    else if ContractDeferred \<in> set rs then ContractDeferred else acc)"
  by (induction rs arbitrary: acc) auto

lemma combineResults_eq:
  "combineResults rs =
   (if ContractViolation \<in> set rs then ContractViolation
    else if ContractDeferred \<in> set rs then ContractDeferred else ContractConfirmed)"
  by (simp add: combineResults_def foldl_combine)

lemma combine_Confirmed:
  "combineResults rs = ContractConfirmed \<longleftrightarrow> ContractViolation \<notin> set rs \<and> ContractDeferred \<notin> set rs"
  by (simp add: combineResults_eq)

lemma combine_Violation: "combineResults rs = ContractViolation \<longleftrightarrow> ContractViolation \<in> set rs"
  by (simp add: combineResults_eq)

lemma combine_Deferred: "combineResults rs = ContractDeferred \<Longrightarrow> ContractDeferred \<in> set rs"
  by (auto simp: combineResults_eq split: if_splits)

lemma combine_not_Unconstrained [simp]: "combineResults rs \<noteq> ContractUnconstrained"
  by (simp add: combineResults_eq)

lemma checkValue_not_Unconstrained: "checkValue lib v c \<noteq> ContractUnconstrained"
  by (subst checkValue.simps) (simp split: cty.splits)

lemma Confirmed_iff: "checkValue lib v c = ContractConfirmed \<longleftrightarrow>
    checkValue lib v c \<noteq> ContractViolation \<and> checkValue lib v c \<noteq> ContractDeferred"
  using checkValue_not_Unconstrained [of lib v c] by (cases "checkValue lib v c") auto

definition isPrimitive :: "cty \<Rightarrow> bool" where
  "isPrimitive c \<longleftrightarrow> c = CString \<or> c = CNumber \<or> c = CBool"

definition isCollection :: "cty \<Rightarrow> bool" where
  "isCollection c = (case c of CList _ \<Rightarrow> True | CSet _ \<Rightarrow> True | CMap _ \<Rightarrow> True | _ \<Rightarrow> False)"

text \<open>The check by cases, for a known non-null value.\<close>

lemma check_object:
  assumes "\<not> isNull v" "isKnown v"
  shows "checkValue lib v (CObject attrs) =
    (if isObjectLike v then combineResults (map (\<lambda>(key, el, opt).
        case member v key of None \<Rightarrow> if opt then ContractConfirmed else ContractViolation
        | Some u \<Rightarrow> checkValue lib u el) attrs) else ContractViolation)"
  using assms by (subst checkValue.simps) simp

lemma check_tuple:
  assumes "\<not> isNull v" "isKnown v"
  shows "checkValue lib v (CTuple els) =
    (if isTupleLike v \<and> length (elements v) = length els
     then combineResults (map (\<lambda>(u, el). checkValue lib u el) (zip (elements v) els)) else ContractViolation)"
  using assms by (subst checkValue.simps) simp

lemma check_primitive:
  "isPrimitive c \<Longrightarrow> \<not> isNull v \<Longrightarrow> isKnown v \<Longrightarrow>
   checkValue lib v c = (if typeOf v = c then ContractConfirmed else ContractViolation)"
  by (subst checkValue.simps) (auto simp: isPrimitive_def)

definition dynamicChecks :: "CtyLib \<Rightarrow> ctyval \<Rightarrow> cty \<Rightarrow> ContractResult list" where
  "dynamicChecks lib v c =
     (if \<not> hasDynamicTypes c then []
      else (if isWhollyKnown v then [] else [ContractDeferred]) @
        (case cl_Convert lib v c of
           None \<Rightarrow> [ContractViolation]
         | Some converted \<Rightarrow>
             map (\<lambda>u. checkValue lib u (preserveOptional (elementType (typeOf converted)) (elementType c))) (elements v)))"

lemma check_collection:
  assumes "isCollection c" "\<not> isNull v" "isKnown v"
  shows "checkValue lib v c =
    (if collectionShape c v
     then combineResults (map (\<lambda>u. checkValue lib u (elementType c)) (elements v) @ dynamicChecks lib v c)
     else ContractViolation)"
  using assms unfolding isCollection_def
  by (cases c) (simp_all add: dynamicChecks_def checkValue.simps [of lib v])

lemma check_trivial:
  "checkValue lib v CDynamic = ContractConfirmed"
  "isNull v \<Longrightarrow> checkValue lib v c = ContractConfirmed"
  "\<not> isKnown v \<Longrightarrow> c \<noteq> CDynamic \<Longrightarrow> checkValue lib v c = ContractDeferred"
proof -
  assume "\<not> isKnown v" "c \<noteq> CDynamic"
  then show "checkValue lib v c = ContractDeferred" by (subst checkValue.simps) (cases v; simp)
qed (subst checkValue.simps, simp)+

lemma combine_all:
  "combineResults (map f xs) = ContractConfirmed \<Longrightarrow> x \<in> set xs \<Longrightarrow> f x \<noteq> ContractViolation \<and> f x \<noteq> ContractDeferred"
  by (auto simp: combine_Confirmed image_iff)

lemma notin_map: "(\<And>x. x \<in> set xs \<Longrightarrow> f x \<noteq> r) \<Longrightarrow> r \<notin> set (map f xs)"
  by auto

lemma cty_kinds:
  obtains "c = CDynamic" | "isPrimitive c" | attrs where "c = CObject attrs" | els where "c = CTuple els"
  | "isCollection c"
  by (cases c) (auto simp: isPrimitive_def isCollection_def)

text \<open>Reference: the shapes a constraint admits, without any notion of evidence.\<close>

inductive conforms :: "ctyval \<Rightarrow> cty \<Rightarrow> bool" where
  conformsAny: "conforms v CDynamic"
| conformsNull: "isNull v \<Longrightarrow> conforms v c"
| conformsPrimitive: "isPrimitive c \<Longrightarrow> typeOf v = c \<Longrightarrow> conforms v c"
| conformsObject: "isObjectLike v \<Longrightarrow>
    (\<forall>k el opt. (k, el, opt) \<in> set attrs \<longrightarrow>
       (member v k = None \<and> opt) \<or> (\<exists>u. member v k = Some u \<and> conforms u el)) \<Longrightarrow>
    conforms v (CObject attrs)"
| conformsTuple: "isTupleLike v \<Longrightarrow> list_all2 conforms (elements v) els \<Longrightarrow> conforms v (CTuple els)"
| conformsCollection: "isCollection c \<Longrightarrow> collectionShape c v \<Longrightarrow>
    (\<forall>u \<in> set (elements v). conforms u (elementType c)) \<Longrightarrow> conforms v c"

inductive_cases conformsObjectE: "conforms v (CObject attrs)"
inductive_cases conformsTupleE: "conforms v (CTuple els)"

lemma known_elements: "isWhollyKnown v \<Longrightarrow> u \<in> set (elements v) \<Longrightarrow> isWhollyKnown u"
  by (subst (asm) isWhollyKnown.simps) (auto simp: list_all_iff)

lemma known_isKnown: "isWhollyKnown v \<Longrightarrow> isKnown v"
  by (subst (asm) isWhollyKnown.simps) simp

text \<open>A wholly known value always gets a verdict.\<close>

lemma known_not_deferred: "isWhollyKnown v \<Longrightarrow> checkValue lib v c \<noteq> ContractDeferred"
proof (induction "size v" arbitrary: v c rule: less_induct)
  case less
  have IH: "checkValue lib u d \<noteq> ContractDeferred" if "u \<in> set (elements v)" for u d
    using less.hyps [OF elements_size [OF that]] known_elements [OF less.prems that] by blast
  show ?case
  proof (cases "isNull v")
    case False
    note kn = False known_isKnown [OF less.prems]
    show ?thesis
    proof (cases c rule: cty_kinds)
      case (3 attrs)
      have "ContractDeferred \<notin> set (map (\<lambda>(key, el, opt).
          case member v key of None \<Rightarrow> if opt then ContractConfirmed else ContractViolation
          | Some u \<Rightarrow> checkValue lib u el) attrs)"
        using IH [OF member_elements] by (intro notin_map) (auto split: option.splits if_splits)
      then show ?thesis using kn 3 by (auto simp: check_object dest: combine_Deferred)
    next
      case (4 els)
      have "ContractDeferred \<notin> set (map (\<lambda>(u, el). checkValue lib u el) (zip (elements v) els))"
        using IH by (intro notin_map) (auto dest!: set_zip_leftD)
      then show ?thesis using kn 4 by (auto simp: check_tuple dest: combine_Deferred)
    next
      case 5
      have "ContractDeferred \<notin> set (dynamicChecks lib v c)"
        using IH less.prems by (auto simp: dynamicChecks_def split: option.splits dest: sym)
      moreover have "ContractDeferred \<notin> set (map (\<lambda>u. checkValue lib u (elementType c)) (elements v))"
        using IH by (intro notin_map) auto
      ultimately show ?thesis using kn 5 by (auto simp: check_collection dest: combine_Deferred)
    qed (use kn in \<open>simp_all add: check_trivial check_primitive\<close>)
  qed (simp add: check_trivial)
qed

text \<open>A confirmed value has the admitted shape.\<close>

lemma confirmed_conforms: "checkValue lib v c = ContractConfirmed \<Longrightarrow> conforms v c"
proof (induction "size v" arbitrary: v c rule: less_induct)
  case less
  have IH: "conforms u d" if "u \<in> set (elements v)" "checkValue lib u d = ContractConfirmed" for u d
    using less.hyps [OF elements_size [OF that(1)] that(2)] .
  show ?case
  proof (cases "isNull v \<or> c = CDynamic")
    case True
    then show ?thesis by (auto intro: conformsNull conformsAny)
  next
    case False
    then have kn: "\<not> isNull v" "isKnown v"
      using less.prems check_trivial(3) [of v c lib] by auto
    show ?thesis
    proof (cases c rule: cty_kinds)
      case 2
      then show ?thesis using less.prems kn
        by (auto simp: check_primitive split: if_splits intro: conformsPrimitive)
    next
      case (3 attrs)
      have obj: "isObjectLike v"
        and all: "combineResults (map (\<lambda>(key, el, opt).
          case member v key of None \<Rightarrow> if opt then ContractConfirmed else ContractViolation
          | Some u \<Rightarrow> checkValue lib u el) attrs) = ContractConfirmed"
        using less.prems kn 3 by (auto simp: check_object split: if_splits)
      have "(member v k = None \<and> opt) \<or> (\<exists>u. member v k = Some u \<and> conforms u el)"
        if "(k, el, opt) \<in> set attrs" for k el opt
      proof (cases "member v k")
        case None
        then show ?thesis using combine_all [OF all that] by (simp split: if_splits)
      next
        case (Some u)
        then have "checkValue lib u el = ContractConfirmed"
          using combine_all [OF all that] Confirmed_iff by simp
        then show ?thesis using Some IH member_elements by blast
      qed
      then show ?thesis unfolding 3 by (intro conformsObject [OF obj]) blast
    next
      case (4 els)
      have tup: "isTupleLike v" "length (elements v) = length els"
        and all: "combineResults (map (\<lambda>(u, el). checkValue lib u el) (zip (elements v) els)) = ContractConfirmed"
        using less.prems kn 4 by (auto simp: check_tuple split: if_splits)
      have "conforms u el" if "(u, el) \<in> set (zip (elements v) els)" for u el
        using combine_all [OF all that] IH [OF set_zip_leftD [OF that]] Confirmed_iff by simp
      then show ?thesis unfolding 4 using tup by (intro conformsTuple) (auto simp: list_all2_iff)
    next
      case 5
      have sh: "collectionShape c v"
        and all: "combineResults (map (\<lambda>u. checkValue lib u (elementType c)) (elements v) @ dynamicChecks lib v c) = ContractConfirmed"
        using less.prems kn 5 by (auto simp: check_collection split: if_splits)
      have "conforms u (elementType c)" if "u \<in> set (elements v)" for u
      proof -
        have "checkValue lib u (elementType c) \<in> set (map (\<lambda>u. checkValue lib u (elementType c)) (elements v) @ dynamicChecks lib v c)"
          using that by simp
        then have "checkValue lib u (elementType c) = ContractConfirmed"
          using all unfolding combine_Confirmed Confirmed_iff by metis
        then show ?thesis using IH that by blast
      qed
      then show ?thesis using sh 5 by (intro conformsCollection) blast+
    qed (use False in simp)
  qed
qed

text \<open>A static constraint never rejects an admitted value.\<close>

lemma static_element: "isCollection c \<Longrightarrow> \<not> hasDynamicTypes c \<Longrightarrow> \<not> hasDynamicTypes (elementType c)"
  by (cases c) (auto simp: isCollection_def)

lemma primitive_type_kind: "isPrimitive (typeOf v) \<Longrightarrow> \<not> isNull v \<Longrightarrow> isKnown v \<Longrightarrow> elements v = []"
  by (cases v rule: elements.cases) (auto simp: isPrimitive_def)

lemma conforms_not_violation:
  assumes "conforms v c" "\<not> hasDynamicTypes c"
  shows "checkValue lib v c \<noteq> ContractViolation"
proof (cases "isNull v \<or> \<not> isKnown v")
  case True
  then show ?thesis by (cases "c = CDynamic") (auto simp: check_trivial)
next
  case False
  with assms show ?thesis
  proof (induction rule: conforms.induct)
    case (conformsObject v attrs)
    have sub: "checkValue lib u el \<noteq> ContractViolation" if "(k, el, opt) \<in> set attrs" "member v k = Some u" for k el opt u
    proof (cases "isNull u \<or> \<not> isKnown u")
      case True
      then show ?thesis by (cases "el = CDynamic") (auto simp: check_trivial)
    next
      case False
      then show ?thesis using conformsObject that by (fastforce simp: list_ex_iff)
    qed
    have "ContractViolation \<notin> set (map (\<lambda>(key, el, opt).
          case member v key of None \<Rightarrow> if opt then ContractConfirmed else ContractViolation
          | Some u \<Rightarrow> checkValue lib u el) attrs)"
      using sub conformsObject.IH by (intro notin_map) (fastforce split: option.splits)
    then show ?case using conformsObject by (simp add: check_object combine_Violation)
  next
    case (conformsTuple v els)
    have "checkValue lib u el \<noteq> ContractViolation" if "(u, el) \<in> set (zip (elements v) els)" for u el
    proof (cases "isNull u \<or> \<not> isKnown u")
      case True
      then show ?thesis by (cases "el = CDynamic") (auto simp: check_trivial)
    next
      case False
      then show ?thesis using conformsTuple that set_zip_rightD [OF that]
        by (fastforce simp: list_ex_iff list_all2_iff)
    qed
    then have "ContractViolation \<notin> set (map (\<lambda>(u, el). checkValue lib u el) (zip (elements v) els))"
      by (intro notin_map) (auto simp: split_beta)
    then show ?case using conformsTuple by (auto simp: check_tuple combine_Violation list_all2_iff)
  next
    case (conformsCollection c v)
    have el: "checkValue lib u (elementType c) \<noteq> ContractViolation" if "u \<in> set (elements v)" for u
    proof (cases "isNull u \<or> \<not> isKnown u")
      case True
      then show ?thesis by (cases "elementType c = CDynamic") (auto simp: check_trivial)
    next
      case False
      then show ?thesis using conformsCollection that static_element by blast
    qed
    show ?case using el conformsCollection by (auto simp: check_collection combine_Violation dynamicChecks_def dest: sym)
  qed (auto simp: check_trivial check_primitive)
qed

text \<open>
  C31: Contract checks are evidence based and exact.  For every non-nil value: a confirmed check implies the value has a
  shape the constraint admits (the reference relation \<open>conforms\<close>, which knows nothing about evidence);
  a value without unknown parts is never deferred; and for a constraint without dynamic parts a
  violation is reported only for a value the constraint does not admit, so that a wholly known value
  is confirmed exactly when it conforms.
\<close>

theorem contract_check_exact:
  "(CheckContractType lib (Some v) c = ContractConfirmed \<longrightarrow> conforms v c) \<and>
   (isWhollyKnown v \<longrightarrow> CheckContractType lib (Some v) c \<in> {ContractConfirmed, ContractViolation}) \<and>
   (\<not> hasDynamicTypes c \<longrightarrow> CheckContractType lib (Some v) c = ContractViolation \<longrightarrow> \<not> conforms v c) \<and>
   (\<not> hasDynamicTypes c \<longrightarrow> isWhollyKnown v \<longrightarrow>
      (CheckContractType lib (Some v) c = ContractConfirmed \<longleftrightarrow> conforms v c))"
proof -
  have verdict: "checkValue lib v c \<in> {ContractConfirmed, ContractViolation}" if "isWhollyKnown v"
    using known_not_deferred [OF that, of lib c] Confirmed_iff [of lib v c] by auto
  show ?thesis
    using confirmed_conforms [of lib v c] verdict conforms_not_violation [of v c lib]
    by (auto simp: CheckContractType_def)
qed

theorem contract_check_exact_witness:
  "\<not> hasDynamicTypes (CList CString) \<and> isWhollyKnown (VTuple [VString ''a'']) \<and>
   CheckContractType sampleLib (Some (VTuple [VString ''a''])) (CList CString) = ContractConfirmed \<and>
   conforms (VTuple [VString ''a'']) (CList CString) \<and>
   CheckContractType sampleLib (Some (VTuple [VNull CDynamic, VNumber ''1''])) (CList CString) = ContractViolation \<and>
   \<not> conforms (VTuple [VNull CDynamic, VNumber ''1'']) (CList CString)"
proof -
  have "checkValue sampleLib (VTuple [VString ''a'']) (CList CString) = ContractConfirmed"
    "checkValue sampleLib (VTuple [VNull CDynamic, VNumber ''1'']) (CList CString) = ContractViolation"
    by (simp_all add: checkValue.simps combineResults_eq isTupleLike_def collectionShape_def)
  then show ?thesis
    using contract_check_exact [of sampleLib "VTuple [VString ''a'']" "CList CString"]
      contract_check_exact [of sampleLib "VTuple [VNull CDynamic, VNumber ''1'']" "CList CString"]
    by (simp add: CheckContractType_def isWhollyKnown.simps)
qed

end
