(* ===== verification/Observed.thy ===== *)
theory Observed
  imports Values
begin

text \<open>
  Values observed from the runtime: decoded outputs with their type and unknown mask
  (\<open>internal/exec/runner.go\<close>), the values of a saved plan (\<open>internal/exec/plan_values.go\<close>) and the
  effective value of a module variable (\<open>internal/module/input.go\<close>).  JSON text is represented by its
  decoded value, a missing or null mask by \<^const>\<open>JNull\<close>, absent type metadata by the empty string.  The
  decoders of the expression library are parameters.
\<close>

record ValueLib =
  vl_Cty :: CtyLib
  vl_UnmarshalType :: "string \<Rightarrow> cty option"
  vl_Unmarshal :: "jval \<Rightarrow> cty \<Rightarrow> ctyval option"
  vl_Simple :: "jval \<Rightarrow> ctyval option"
  vl_TypeWithDefaults :: "string \<Rightarrow> (cty \<times> (ctyval \<Rightarrow> ctyval) option) option"

record runOutput =
  ro_Value :: jval
  ro_Type :: string
  ro_Unknown :: jval
  ro_Sensitive :: "bool option"

type_synonym Outputs = "runOutput smap"

definition zeroOutput :: runOutput where
  "zeroOutput = \<lparr>ro_Value = JNull, ro_Type = '''', ro_Unknown = JNull, ro_Sensitive = None\<rparr>"

definition Outputs_Values :: "Outputs \<Rightarrow> jval smap" where
  "Outputs_Values outputs = map (\<lambda>(name, out). (name, ro_Value out)) outputs"

subsection \<open>Unknown masks\<close>

fun hasUnknown :: "jval \<Rightarrow> bool" where
  "hasUnknown (JBool m) = m"
| "hasUnknown (JObj m) = list_ex (\<lambda>(k, v). hasUnknown v) m"
| "hasUnknown (JList m) = list_ex hasUnknown m"
| "hasUnknown m = False"

definition asObject :: "jval \<Rightarrow> (string \<times> jval) list" where
  "asObject raw = (case raw of JObj o' \<Rightarrow> o' | _ \<Rightarrow> [])"

definition asArray :: "jval \<Rightarrow> jval list" where
  "asArray raw = (case raw of JList a \<Rightarrow> a | _ \<Rightarrow> [])"

text \<open>Map and slice reads that yield the zero value nil when there is no entry.\<close>

definition keyOrNil :: "(string \<times> jval) list \<Rightarrow> string \<Rightarrow> jval" where
  "keyOrNil m k = (case map_of m k of Some v \<Rightarrow> v | None \<Rightarrow> JNull)"

definition atOrNil :: "jval list \<Rightarrow> nat \<Rightarrow> jval" where
  "atOrNil xs i = (if i < length xs then xs ! i else JNull)"

fun sequenceO :: "'a option list \<Rightarrow> 'a list option" where
  "sequenceO [] = Some []"
| "sequenceO (x # xs) = (case (x, sequenceO xs) of (Some y, Some ys) \<Rightarrow> Some (y # ys) | _ \<Rightarrow> None)"

lemma size_atOrNil: "size (atOrNil m i) < Suc (size_list size m)"
  using size_mem [OF nth_mem, of i m] by (auto simp: atOrNil_def)

lemma size_keyOrNil: "size (keyOrNil m k) < Suc (size_list (size_prod (\<lambda>_. 0) size) m)"
proof (cases "map_of m k")
  case (Some v)
  then have "(k, v) \<in> set m" by (rule map_of_SomeD)
  then have "size v < Suc (size_list (size_prod (\<lambda>_. 0) size) m)" by (induction m) auto
  then show ?thesis using Some by (simp add: keyOrNil_def)
qed (simp add: keyOrNil_def)

lemma size_jobj: "(k, v) \<in> set m \<Longrightarrow> size v < Suc (size_list (size_prod (\<lambda>_. 0) size) m)" for v :: jval
  by (induction m) auto

text \<open>\<^const>\<open>None\<close> is an error; every caller treats all of them alike.\<close>

function (sequential) maskedValue :: "ValueLib \<Rightarrow> jval \<Rightarrow> jval \<Rightarrow> ctyval option" where
  "maskedValue lib raw (JBool True) = Some (VUnknown CDynamic)"
| "maskedValue lib raw (JObj m) =
     (let obj = asObject raw in
      map_option VObject (sequenceO
        (map (\<lambda>(k, v). map_option (\<lambda>value. (k, value)) (maskedValue lib v (keyOrNil m k))) obj @
         map (\<lambda>(k, v). map_option (\<lambda>value. (k, value)) (maskedValue lib JNull v))
           (filter (\<lambda>(k, v). \<not> hasKey obj k) m))))"
| "maskedValue lib raw (JList m) =
     (let array = asArray raw in
      map_option VTuple (sequenceO
        (map (\<lambda>i. maskedValue lib (atOrNil array i) (atOrNil m i)) [0 ..< max (length array) (length m)])))"
| "maskedValue lib raw msk = vl_Simple lib raw"
  by pat_completeness auto
termination
  by (relation "measure (\<lambda>(lib, raw, msk). size msk)")
    (auto simp: size_atOrNil size_keyOrNil dest: size_jobj)

definition CtyValue :: "ValueLib \<Rightarrow> runOutput \<Rightarrow> ctyval option" where
  "CtyValue lib out =
     (if hasUnknown (ro_Unknown out) then
        Option.bind (maskedValue lib (ro_Value out) (ro_Unknown out)) (\<lambda>value.
          if ro_Type out \<noteq> '''' then
            Option.bind (vl_UnmarshalType lib (ro_Type out)) (\<lambda>typ. cl_Convert (vl_Cty lib) value typ)
          else Some value)
      else if ro_Type out \<noteq> '''' then
        Option.bind (vl_UnmarshalType lib (ro_Type out)) (vl_Unmarshal lib (ro_Value out))
      else vl_Simple lib (ro_Value out))"

subsection \<open>Values of a saved plan\<close>

record outputChangeDoc =
  od_Actions :: "string list"
  od_After :: "jval option"
  od_Unknown :: jval
  od_Sensitive :: "bool option"

text \<open>The decoded document of \<open>show -json\<close>.  \<open>pd_Trailing\<close>: something follows it.\<close>

record planDoc =
  pd_FormatVersion :: string
  pd_Variables :: "runOutput smap"
  pd_Outputs :: Outputs
  pd_OutputChanges :: "outputChangeDoc smap"
  pd_ResourceChanges :: "ResourceChange list"
  pd_Trailing :: bool

record PlanValues =
  pv_Variables :: "runOutput smap"
  pv_Outputs :: Outputs

definition applyOutputChange :: "Outputs \<Rightarrow> string \<times> outputChangeDoc \<Rightarrow> Outputs" where
  "applyOutputChange outputs nc =
     (case nc of (name, change) \<Rightarrow>
        if ''delete'' \<in> set (od_Actions change) then AList.delete name outputs
        else
          let out = (case map_of outputs name of Some v \<Rightarrow> v | None \<Rightarrow> zeroOutput)
                      \<lparr>ro_Sensitive := od_Sensitive change, ro_Unknown := od_Unknown change\<rparr> in
          AList.update name
            (case od_After change of
               Some v \<Rightarrow> out\<lparr>ro_Value := v\<rparr>
             | None \<Rightarrow> (if hasUnknown (od_Unknown change) then out else out\<lparr>ro_Unknown := JBool True\<rparr>)) outputs)"

definition readPlanValues :: "goErr + planDoc \<Rightarrow> goErr + PlanValues" where
  "readPlanValues decoded =
     bindR decoded (\<lambda>doc.
       if pd_Trailing doc \<or> \<not> HasPrefix (pd_FormatVersion doc) ''1.'' then Inl (ErrText ''unsupported plan JSON'')
       else Inr \<lparr>pv_Variables = pd_Variables doc,
                  pv_Outputs = foldl applyOutputChange (pd_Outputs doc) (pd_OutputChanges doc)\<rparr>)"

subsection \<open>Effective input values\<close>

definition EffectiveValue :: "ValueLib \<Rightarrow> Variable \<Rightarrow> ctyval option \<Rightarrow> goErr + ctyval" where
  "EffectiveValue lib v supplied =
     bindR (if v_Type v = '''' then Inr (CDynamic, None)
            else (case vl_TypeWithDefaults lib (v_Type v) of
                    None \<Rightarrow> Inl (ErrText ''invalid variable type'') | Some td \<Rightarrow> Inr td)) (\<lambda>(target, defaults).
     bindR (case (case supplied of None \<Rightarrow> v_Default v | Some x \<Rightarrow> Some x) of
              None \<Rightarrow> Inl (ErrText ''input value is unavailable'') | Some x \<Rightarrow> Inr x) (\<lambda>val.
     bindR (if isKnown val \<and> isNull val \<and> v_Nullable v = Some False then
              (case v_Default v of
                 None \<Rightarrow> Inl (ErrText ''null is not allowed'')
               | Some d \<Rightarrow> if isNull d then Inl (ErrText ''null is not allowed'') else Inr d)
            else Inr val) (\<lambda>val.
     let val = (case defaults of Some apply \<Rightarrow> (if isNull val then val else apply val) | None \<Rightarrow> val) in
     (case cl_Convert (vl_Cty lib) val target of
        None \<Rightarrow> Inl (ErrText ''does not match declared type'')
      | Some result \<Rightarrow> Inr result))))"

subsection \<open>Unknown evidence survives decoding\<close>

lemma sequenceO_Some: "sequenceO xs = Some ys \<longleftrightarrow> xs = map Some ys"
proof
  show "sequenceO xs = Some ys \<Longrightarrow> xs = map Some ys"
    by (induction xs arbitrary: ys) (auto split: option.splits)
  have "sequenceO (map Some ys) = Some ys" by (induction ys) auto
  then show "xs = map Some ys \<Longrightarrow> sequenceO xs = Some ys" by simp
qed

lemma pairs_known:
  assumes "map (\<lambda>(k, v). map_option (Pair k) (f k v)) kvs = map Some ys"
    and "\<And>k v u. (k, v) \<in> set kvs \<Longrightarrow> f k v = Some u \<Longrightarrow> isWhollyKnown u \<longleftrightarrow> P k v"
  shows "list_all isWhollyKnown (map snd ys) \<longleftrightarrow> (\<forall>(k, v) \<in> set kvs. P k v)"
  using assms
proof (induction kvs arbitrary: ys)
  case (Cons kv kvs)
  obtain k v where kv: "kv = (k, v)" by (cases kv)
  obtain u zs where u: "f k v = Some u" "ys = (k, u) # zs"
    "map (\<lambda>(k, v). map_option (Pair k) (f k v)) kvs = map Some zs"
    using Cons.prems(1) kv by auto
  have "list_all isWhollyKnown (map snd zs) \<longleftrightarrow> (\<forall>(k, v) \<in> set kvs. P k v)"
    using Cons.prems(2) by (intro Cons.IH [OF u(3)]) auto
  moreover have "isWhollyKnown u \<longleftrightarrow> P k v" using Cons.prems(2) u(1) kv by auto
  ultimately show ?case using u(2) kv by simp
qed simp

lemma object_known: "isWhollyKnown (VObject kvs) \<longleftrightarrow> list_all isWhollyKnown (map snd kvs)"
  by (subst isWhollyKnown.simps) simp

lemma tuple_known: "isWhollyKnown (VTuple vs) \<longleftrightarrow> list_all isWhollyKnown vs"
  by (subst isWhollyKnown.simps) simp

lemma keyOrNil_of: "distinct (map fst m) \<Longrightarrow> (k, v) \<in> set m \<Longrightarrow> keyOrNil m k = v"
  by (simp add: keyOrNil_def)

lemma atOrNil_unknown: "(\<exists>i < n. hasUnknown (atOrNil m i)) \<longleftrightarrow> list_ex hasUnknown m" if "length m \<le> n"
  using that by (auto simp: atOrNil_def list_ex_length split: if_splits intro: less_le_trans)

text \<open>Decoded JSON objects have one entry per key.\<close>

fun distinctObjects :: "jval \<Rightarrow> bool" where
  "distinctObjects (JObj m) = (distinct (map fst m) \<and> list_all (\<lambda>(k, v). distinctObjects v) m)"
| "distinctObjects (JList m) = list_all distinctObjects m"
| "distinctObjects m = True"

lemma distinct_keyOrNil: "distinctObjects (JObj m) \<Longrightarrow> distinctObjects (keyOrNil m k)"
  by (auto simp: keyOrNil_def list_all_iff split: option.splits dest!: map_of_SomeD)

lemma distinct_atOrNil: "distinctObjects (JList m) \<Longrightarrow> distinctObjects (atOrNil m i)"
  by (auto simp: atOrNil_def list_all_length)

lemma masked_split:
  assumes "distinct (map fst m)"
  shows "(\<forall>(k, x) \<in> set obj. \<not> hasUnknown (keyOrNil m k)) \<and>
      (\<forall>(k, x) \<in> set (filter (\<lambda>(k, v). \<not> hasKey obj k) m). \<not> hasUnknown x)
      \<longleftrightarrow> (\<forall>(k, x) \<in> set m. \<not> hasUnknown x)" (is "?L \<longleftrightarrow> ?R")
proof
  assume L: ?L
  have "\<not> hasUnknown x" if kx: "(k, x) \<in> set m" for k x
  proof (cases "hasKey obj k")
    case True
    then obtain y where "(k, y) \<in> set obj" by (auto simp: hasKey_def)
    then show ?thesis using L keyOrNil_of [OF assms kx] by auto
  qed (use L kx in auto)
  then show ?R by blast
next
  assume ?R
  moreover from this have "\<not> hasUnknown (keyOrNil m k)" for k
    by (auto simp: keyOrNil_def split: option.splits dest!: map_of_SomeD)
  ultimately show ?L by auto
qed

lemma masked_known_iff:
  assumes simple: "\<forall>j v. vl_Simple lib j = Some v \<longrightarrow> isWhollyKnown v"
  shows "distinctObjects msk \<Longrightarrow> maskedValue lib raw msk = Some v \<Longrightarrow> isWhollyKnown v \<longleftrightarrow> \<not> hasUnknown msk"
  using simple
proof (induction lib raw msk arbitrary: v rule: maskedValue.induct)
  case (1 lib raw)
  then show ?case by (auto simp: isWhollyKnown.simps [of "VUnknown CDynamic"])
next
  case (2 lib raw m)
  let ?o = "asObject raw" and ?r = "filter (\<lambda>(k, v). \<not> hasKey (asObject raw) k) m"
  obtain as bs where v: "v = VObject (as @ bs)"
    and as: "map (\<lambda>(k, v). map_option (Pair k) (maskedValue lib v (keyOrNil m k))) ?o = map Some as"
    and bs: "map (\<lambda>(k, v). map_option (Pair k) (maskedValue lib JNull v)) ?r = map Some bs"
    using "2.prems"(2) by (auto simp: sequenceO_Some Let_def append_eq_map_conv)
  have A: "list_all isWhollyKnown (map snd as) \<longleftrightarrow> (\<forall>(k, x) \<in> set ?o. \<not> hasUnknown (keyOrNil m k))"
    by (rule pairs_known [OF as])
      (rule "2.IH"(1) [OF refl _ refl distinct_keyOrNil [OF "2.prems"(1)] _ "2.prems"(3)])
  have B: "list_all isWhollyKnown (map snd bs) \<longleftrightarrow> (\<forall>(k, x) \<in> set ?r. \<not> hasUnknown x)"
  proof (rule pairs_known [OF bs])
    fix k x u assume kx: "(k, x) \<in> set ?r" "maskedValue lib JNull x = Some u"
    then have "distinctObjects x" using "2.prems"(1) by (auto simp: list_all_iff)
    then show "isWhollyKnown u \<longleftrightarrow> \<not> hasUnknown x"
      using "2.IH"(2) [OF refl kx(1) refl _ kx(2) "2.prems"(3)] by blast
  qed
  have C: "(\<forall>(k, x) \<in> set ?o. \<not> hasUnknown (keyOrNil m k)) \<and> (\<forall>(k, x) \<in> set ?r. \<not> hasUnknown x)
      \<longleftrightarrow> (\<forall>(k, x) \<in> set m. \<not> hasUnknown x)"
    using "2.prems"(1) by (intro masked_split) simp
  show ?case unfolding v object_known using A B C by (auto simp: list_ex_iff)
next
  case (3 lib raw m)
  let ?n = "max (length (asArray raw)) (length m)"
  obtain vs where v: "v = VTuple vs"
    and vs: "map (\<lambda>i. maskedValue lib (atOrNil (asArray raw) i) (atOrNil m i)) [0 ..< ?n] = map Some vs"
    using "3.prems"(2) by (auto simp: sequenceO_Some Let_def)
  have len: "length vs = ?n" using arg_cong [OF vs, of length] by simp
  have el: "maskedValue lib (atOrNil (asArray raw) i) (atOrNil m i) = Some (vs ! i)" if "i < ?n" for i
    using arg_cong [OF vs, of "\<lambda>l. l ! i"] that len by simp
  have "isWhollyKnown (vs ! i) \<longleftrightarrow> \<not> hasUnknown (atOrNil m i)" if "i < ?n" for i
    using "3.IH" [OF refl _ distinct_atOrNil [OF "3.prems"(1)] el [OF that] "3.prems"(3)] that by simp
  then have "isWhollyKnown v \<longleftrightarrow> \<not> (\<exists>i < ?n. hasUnknown (atOrNil m i))"
    unfolding v tuple_known list_all_length len by blast
  then show ?case using atOrNil_unknown [of m ?n] by simp
qed (simp_all; blast)+

text \<open>
  Unknown evidence survives decoding.  Assuming only that decoding plain JSON yields no unknown
  values, the value rebuilt from a planned output and its unknown mask is wholly known exactly when
  the mask marks nothing, at any nesting depth, also where the mask mentions attributes or elements
  the raw value lacks; so without runtime type metadata a planned output with an unknown part is
  never seen as wholly known.
\<close>

lemma unknown_mask_exact:
  assumes simple: "\<forall>j v. vl_Simple lib j = Some v \<longrightarrow> isWhollyKnown v"
    and decoded: "distinctObjects (ro_Unknown out)"
    and untyped: "ro_Type out = ''''"
    and read: "CtyValue lib out = Some v"
  shows "isWhollyKnown v \<longleftrightarrow> \<not> hasUnknown (ro_Unknown out)"
proof (cases "hasUnknown (ro_Unknown out)")
  case True
  then show ?thesis
    using masked_known_iff [OF simple decoded, of "ro_Value out" v] read untyped by (simp add: CtyValue_def)
next
  case False
  then show ?thesis using read untyped simple by (simp add: CtyValue_def)
qed

text \<open>A concrete library for examples: strings and null.\<close>

definition sampleValueLib :: ValueLib where
  "sampleValueLib =
     \<lparr>vl_Cty = sampleLib, vl_UnmarshalType = (\<lambda>_. None), vl_Unmarshal = (\<lambda>_ _. None),
      vl_Simple = (\<lambda>j. case j of JStr s \<Rightarrow> Some (VString s) | JNull \<Rightarrow> Some (VNull CDynamic) | _ \<Rightarrow> None),
      vl_TypeWithDefaults = (\<lambda>s. if s = ''string'' then Some (CString, None) else None)\<rparr>"

lemma sampleValueLib_simple: "\<forall>j v. vl_Simple sampleValueLib j = Some v \<longrightarrow> isWhollyKnown v"
  by (auto simp: sampleValueLib_def isWhollyKnown.simps split: jval.splits)

end
