(* ===== verification/Exec_Record.thy ===== *)
theory Exec_Record
  imports Selection Paths Backend Exec_Store Approve_Gate Observed
begin

text \<open>
  The records of an execution (\<open>internal/engine/execution_journal.go\<close>, \<open>plan_bundle.go\<close>) with the
  recorded plugin calls (\<open>plugin/protocol.go\<close>), the recovery test (\<open>executionNeedsRecovery\<close> and
  \<open>plugins.NeedsRecovery\<close>), and the engine and world the stateful operations run in.  Instants are
  nanoseconds since Go's zero time.  A world holds the store, the session in hand and a counter:
  every call whose outcome the program does not determine (a store call, the clock, random bytes, a
  plugin, the runtime, a prompt) takes the next answer of the engine's oracles, so a theorem for all
  engines is a theorem for all interleavings of failures.
\<close>

subsection \<open>Plugin calls\<close>

record pluginEvent =
  ev_ID :: string
  ev_ExecutionID :: string
  ev_Operation :: string
  ev_Phase :: string
  ev_Node :: string
  ev_Nodes :: "string list"
  ev_Status :: string
  ev_PlanID :: string
  ev_Plan :: "string option"
  ev_Metadata :: "string smap"

record Lease =
  ls_ID :: string
  ls_ExpiresAt :: int
  ls_RenewAt :: int

record CredentialCleanup =
  cl_Reference :: "jval smap"
  cl_Lease :: "Lease option"

record CallRecord =
  cr_ID :: string
  cr_Alias :: string
  cr_Feature :: string
  cr_Kind :: string
  cr_Effect :: string
  cr_Digest :: string
  cr_ConfigDigest :: string
  cr_Mode :: string
  cr_Event :: pluginEvent
  cr_Status :: string
  cr_Code :: string
  cr_Decision :: string
  cr_Version :: string
  cr_Report :: string
  cr_Cleanup :: "CredentialCleanup option"

definition callLease :: "CallRecord \<Rightarrow> Lease option" where
  "callLease c = (case cr_Cleanup c of None \<Rightarrow> None | Some cl \<Rightarrow> cl_Lease cl)"

definition leaseKey :: "CallRecord \<Rightarrow> Lease \<Rightarrow> string" where
  "leaseKey c l = cr_Alias c @ ''/'' @ ev_Node (cr_Event c) @ ''/'' @ ls_ID l"

definition releasedLeases :: "CallRecord list \<Rightarrow> string list" where
  "releasedLeases calls = List.map_filter
     (\<lambda>c. case callLease c of
            Some l \<Rightarrow>
              if ev_Phase (cr_Event c) = ''credential.release'' \<and>
                 (cr_Status c = ''completed'' \<or> cr_Status c = ''acknowledged'')
              then Some (leaseKey c l) else None
          | None \<Rightarrow> None) calls"

definition callNeedsRecovery :: "string list \<Rightarrow> CallRecord \<Rightarrow> bool" where
  "callNeedsRecovery released c =
     (if cr_Status c = ''acknowledged'' then False
      else if cr_Kind c = ''credential_provider'' \<and>
              (case callLease c of Some l \<Rightarrow> leaseKey c l \<in> set released | None \<Rightarrow> False) then False
      else if callLease c \<noteq> None \<and> ev_Phase (cr_Event c) = ''credential.acquire'' then True
      else if cr_Kind c = ''credential_provider'' \<and> (cr_Status c = ''pending'' \<or> cr_Status c = ''unknown'') then True
      else if cr_Mode c \<noteq> ''enforce'' then False
      else HasSuffix (cr_Effect c) ''external'' \<and>
           (cr_Status c = ''pending'' \<or> cr_Status c = ''unknown'' \<or>
            (cr_Status c = ''failed'' \<and> (cr_Kind c = ''observer'' \<or> cr_Kind c = ''credential_provider''))))"

definition NeedsRecovery :: "CallRecord list \<Rightarrow> bool" where
  "NeedsRecovery calls = list_ex (callNeedsRecovery (releasedLeases calls)) calls"

subsection \<open>Execution records and plan bundles\<close>

record ExecutionNode =
  xn_Name :: string
  xn_Review :: "PlanReview option"
  xn_Target :: string
  xn_Phase :: string
  xn_PlanID :: string
  xn_Code :: string

record ExecutionRecord =
  xr_PluginCalls :: "CallRecord list"
  xr_Selection :: "Selection option"
  xr_SchemaVersion :: int
  xr_Preparation :: string
  xr_Backup :: bool
  xr_ID :: string
  xr_Scope :: string
  xr_Binding :: string
  xr_Operation :: string
  xr_Status :: string
  xr_CreatedAt :: int
  xr_UpdatedAt :: int
  xr_FinishedAt :: "int option"
  xr_RecoveryAt :: "int option"
  xr_Nodes :: "ExecutionNode list"

record planBundle =
  pb_SchemaVersion :: int
  pb_ID :: string
  pb_ExecutionID :: string
  pb_Node :: string
  pb_Binding :: string
  pb_CreatedAt :: int
  pb_ExpiresAt :: int
  pb_Changed :: bool
  pb_Plan :: string

text \<open>The stored bytes: a journal, a plan bundle, or anything else.\<close>

datatype payload = RecordData ExecutionRecord | BundleData planBundle | RawData string

definition pluginRecoveryRequired :: "ExecutionRecord \<Rightarrow> bool" where
  "pluginRecoveryRequired r = NeedsRecovery (xr_PluginCalls r)"

definition uncertainPhases :: "string list" where
  "uncertainPhases = [''initializing'', ''applying'', ''operating'', ''indeterminate'', ''applied'']"

definition executionNeedsRecovery :: "ExecutionRecord \<Rightarrow> bool" where
  "executionNeedsRecovery r =
     (if pluginRecoveryRequired r then True
      else if xr_RecoveryAt r \<noteq> None then False
      else if xr_Preparation r \<noteq> '''' then True
      else list_ex (\<lambda>n. xn_Phase n \<in> set uncertainPhases) (xr_Nodes r))"

subsection \<open>Engine and world\<close>

record savedNode =
  sn_Declaration :: bpNode
  sn_Runtime :: "Runtime option"
  sn_Env :: "string smap"
  sn_Approve :: string
  sn_Binary :: string
  sn_Files :: "string smap"

text \<open>What the code hashes: the coordination scope, a backend target, plan bytes, a backend
  declaration, the bindings of a plan and of a graph, and their combination with plugin identities.\<close>

datatype digestInput =
    DigestLock Lock
  | DigestPath string
  | DigestTarget "string smap"
  | DigestBytes string
  | DigestBackend string string "string smap" "string smap"
  | DigestPlan "string list" "string smap" "jval smap"
  | DigestGraph string string "savedNode smap" "Edge list"
  | DigestPlugins string string "string smap"
  | DigestStrings "string list"
  | DigestContracts Contracts

text \<open>The source tree of a node below its directory, as a directory walk meets it.\<close>

datatype srcTree =
    SrcDir string "srcTree list"
  | SrcFile string bool nat "goErr + string"

record pluginAnswer =
  pa_Calls :: "CallRecord list"
  pa_Err :: "goErr option"

record 'st engine =
  en_Store :: "('st, payload) executionStore"
  en_OpenErr :: "goErr option"
  en_Graph :: Graph
  en_Blueprint :: "Blueprint option"
  en_BaseDir :: string
  en_Digest :: "digestInput \<Rightarrow> string"
  en_EnvValue :: "string \<Rightarrow> string \<Rightarrow> goErr + string"
  en_WorkspaceFile :: "string \<Rightarrow> goErr + string option"
  en_IO :: "nat \<Rightarrow> ioFault"
  en_Now :: "nat \<Rightarrow> int"
  en_Random :: "nat \<Rightarrow> string"
  en_Plugin :: "nat \<Rightarrow> pluginAnswer"
  en_Err :: "nat \<Rightarrow> goErr option"
  en_OS :: OS
  en_Binary :: string
  en_Stdin :: bool
  en_Value :: ValueLib
  en_Has :: "string \<Rightarrow> bool"
  en_Line :: "nat \<Rightarrow> string \<times> bool"
  en_Bool :: "nat \<Rightarrow> bool"
  en_Text :: "nat \<Rightarrow> goErr + string"
  en_Input :: "nat \<Rightarrow> goErr + jval"
  en_Outputs :: "nat \<Rightarrow> goErr + Outputs"
  en_PlanDoc :: "nat \<Rightarrow> goErr + planDoc"
  en_Changed :: "nat \<Rightarrow> goErr + bool"
  en_Tree :: "nat \<Rightarrow> goErr + srcTree list"
  en_Creds :: "nat \<Rightarrow> string smap"

text \<open>An output snapshot as \<open>snapshot.go\<close> writes it; on disk it may be followed by other data, or be
  something else altogether.\<close>

record snapshotFile =
  sf_Schema :: int
  sf_Node :: string
  sf_Types :: "string smap"
  sf_Outputs :: "jval smap option"
  sf_Withheld :: "string list"

datatype snapshotData = SnapshotData snapshotFile bool | OtherData

record 'st world =
  w_Store :: 'st
  w_Tick :: nat
  w_Record :: ExecutionRecord
  w_Revision :: string
  w_Plugins :: bool
  w_Completion :: "goErr option"
  w_Backups :: "string list"
  w_Mutations :: "(string \<times> 'st) list"
  w_Snapshots :: "snapshotData smap"
  w_Contexts :: "(string \<times> string) option smap"
  w_Reviews :: "PlanReview smap"

text \<open>
  \<open>w_Mutations\<close> is a ghost: the infrastructure mutations started so far, each with the contents of
  the store at the moment the runtime was started.  \<open>w_Snapshots\<close> and \<open>w_Contexts\<close> are the output
  snapshots and the initialized backend contexts on disk, by node; \<open>w_Reviews\<close> holds the reviews the
  node actions of a plan inspection collect.
\<close>

definition tick :: "(nat \<Rightarrow> 'a) \<Rightarrow> ('st world, 'a) eff" where
  "tick f = (\<lambda>w. (w\<lparr>w_Tick := Suc (w_Tick w)\<rparr>, Inr (f (w_Tick w))))"

definition storeRead :: "'st engine \<Rightarrow> string \<Rightarrow> ('st world, payload executionObject) eff" where
  "storeRead E key = bindE (tick (en_IO E)) (\<lambda>io. bindE (getE w_Store) (\<lambda>st.
     liftR (es_read (en_Store E) io st key)))"

definition storeWrite :: "'st engine \<Rightarrow> string \<Rightarrow> payload \<Rightarrow> string \<Rightarrow> ('st world, string) eff" where
  "storeWrite E key data revision = bindE (tick (en_IO E)) (\<lambda>io.
     (\<lambda>w. case es_write (en_Store E) io (w_Store w) key data revision of
            (st, r) \<Rightarrow> (w\<lparr>w_Store := st\<rparr>, r)))"

definition storeRemove :: "'st engine \<Rightarrow> string \<Rightarrow> string \<Rightarrow> ('st world, unit) eff" where
  "storeRemove E key revision = bindE (tick (en_IO E)) (\<lambda>io.
     (\<lambda>w. case es_remove (en_Store E) io (w_Store w) key revision of
            (st, r) \<Rightarrow> (w\<lparr>w_Store := st\<rparr>, r)))"

definition storeList :: "'st engine \<Rightarrow> ('st world, string list) eff" where
  "storeList E = bindE (tick (en_IO E)) (\<lambda>io. bindE (getE w_Store) (\<lambda>st. liftR (es_list (en_Store E) io st)))"

definition now :: "'st engine \<Rightarrow> ('st world, int) eff" where
  "now E = tick (en_Now E)"

definition recordKey :: "string \<Rightarrow> string" where
  "recordKey ident = ident @ ''.json''"

definition bundleKey :: "string \<Rightarrow> string" where
  "bundleKey ident = ident @ ''.bin''"

subsection \<open>Scope, workspace and target\<close>

definition executionScope :: "'st engine \<Rightarrow> string" where
  "executionScope E =
     (case en_Blueprint E of
        Some b \<Rightarrow> (case bp_Lock b of
            Some l \<Rightarrow> en_Digest E (DigestLock l)
          | None \<Rightarrow> en_Digest E (DigestPath (Clean (en_BaseDir E))))
      | None \<Rightarrow> en_Digest E (DigestPath (Clean (en_BaseDir E))))"

definition executionWorkspace :: "'st engine \<Rightarrow> string \<Rightarrow> goErr + string" where
  "executionWorkspace E name =
     bindR (en_EnvValue E name ''TF_WORKSPACE'') (\<lambda>workspace.
     bindR (if workspace = '''' then
              bindR (en_WorkspaceFile E name) (\<lambda>f. Inr (case f of Some data \<Rightarrow> TrimSpace data | None \<Rightarrow> ''''))
            else Inr workspace) (\<lambda>workspace.
     Inr (if workspace = '''' then ''default'' else workspace)))"

definition identityKeys :: "string list" where
  "identityKeys = [''bucket'', ''key'', ''workspace_key_prefix'', ''region'', ''endpoint'', ''address'',
     ''path'', ''hostname'', ''organization'', ''resource_group_name'', ''storage_account_name'',
     ''container_name'', ''prefix'']"

definition copyMap :: "string smap \<Rightarrow> string smap \<Rightarrow> string smap" where
  "copyMap m config = foldl (\<lambda>acc (k, v). AList.update k v acc) config m"

definition targetConfig :: "gNode \<Rightarrow> string smap" where
  "targetConfig node =
     copyMap (bn_BackendConfig (gn_Node node))
       (case gn_Schema node of Some s \<Rightarrow> copyMap (sc_BackendConfig s) [] | None \<Rightarrow> [])"

definition targetBackend :: "gNode \<Rightarrow> string" where
  "targetBackend node =
     (case gn_Schema node of
        Some s \<Rightarrow> (if sc_Backend s \<noteq> '''' then sc_Backend s else ''local'')
      | None \<Rightarrow> ''local'')"

definition targetIdentity :: "gNode \<Rightarrow> string smap" where
  "targetIdentity node =
     foldl (\<lambda>acc k. case map_of (targetConfig node) k of Some v \<Rightarrow> AList.update k v acc | None \<Rightarrow> acc)
       [(''backend'', targetBackend node)] identityKeys"

definition executionTarget :: "'st engine \<Rightarrow> string \<Rightarrow> goErr + string" where
  "executionTarget E name =
     (case map_of (g_Nodes (en_Graph E)) name of
        None \<Rightarrow> Inl (ErrText ''unknown node'')
      | Some node \<Rightarrow>
          bindR (executionWorkspace E name) (\<lambda>workspace.
            let identity = AList.update ''workspace'' workspace (targetIdentity node) in
            if targetBackend node = ''http'' \<and> sget identity ''address'' = '''' then
              bindR (en_EnvValue E name ''TF_HTTP_ADDRESS'') (\<lambda>address.
                Inr (en_Digest E (DigestTarget (AList.update ''address'' address identity))))
            else Inr (en_Digest E (DigestTarget identity))))"

subsection \<open>Opening the store\<close>

text \<open>A node whose S3 state lies inside the configured artifact prefix.\<close>

definition stateInsidePrefix :: "ExecutionConfig \<Rightarrow> gNode \<Rightarrow> bool" where
  "stateInsidePrefix cfg node =
     (case gn_Schema node of
        None \<Rightarrow> False
      | Some s \<Rightarrow>
          sc_Backend s = ''s3'' \<and>
          (let config = bn_BackendConfig (gn_Node node);
               bucket = (case map_of config ''bucket'' of Some v \<Rightarrow> v | None \<Rightarrow> sget (sc_BackendConfig s) ''bucket'');
               key = (case map_of config ''key'' of Some v \<Rightarrow> v | None \<Rightarrow> sget (sc_BackendConfig s) ''key'') in
           bucket = xc_Bucket cfg \<and> (key = xc_Prefix cfg \<or> HasPrefix key (xc_Prefix cfg @ ''/''))))"

definition openExecutionStore :: "'st engine \<Rightarrow> goErr + unit" where
  "openExecutionStore E =
     (let cfg = ExecutionSettings (en_Blueprint E);
          opened = (case en_OpenErr E of Some e \<Rightarrow> Inl e | None \<Rightarrow> Inr ()) in
      if xc_Bucket cfg = '''' then opened
      else (case en_Blueprint E of
              None \<Rightarrow> Inl (ErrText ''S3 storage requires a lock'')
            | Some b \<Rightarrow>
                (case bp_Lock b of
                   None \<Rightarrow> Inl (ErrText ''S3 storage requires a lock'')
                 | Some _ \<Rightarrow>
                     if list_ex (\<lambda>(name, node). stateInsidePrefix cfg node) (g_Nodes (en_Graph E))
                     then Inl (ErrText ''state is inside execution.prefix'')
                     else opened)))"

subsection \<open>Reading records\<close>

text \<open>Data that is not a record does not decode to one with a scope, so it is refused.\<close>

definition decodeRecord :: "payload \<Rightarrow> goErr + ExecutionRecord" where
  "decodeRecord d = (case d of RecordData r \<Rightarrow> Inr r | _ \<Rightarrow> Inl (ErrText ''reading execution record''))"

definition checkRecord :: "string \<Rightarrow> ExecutionRecord \<Rightarrow> goErr + ExecutionRecord" where
  "checkRecord ident r =
     (if (xr_SchemaVersion r \<noteq> 1 \<and> xr_SchemaVersion r \<noteq> 2) \<or> xr_ID r \<noteq> ident \<or> xr_Scope r = '''' \<or> xr_Status r = ''''
      then Inl (ErrText ''incompatible record'')
      else (case xr_Selection r of
              None \<Rightarrow> Inr r
            | Some s \<Rightarrow>
                (case ValidateMembership s (map xn_Name (xr_Nodes r)) of
                   Inl _ \<Rightarrow> Inl (ErrText ''invalid selection'') | Inr _ \<Rightarrow> Inr r)))"

definition readExecutionRecord :: "'st engine \<Rightarrow> string \<Rightarrow> ('st world, ExecutionRecord \<times> string) eff" where
  "readExecutionRecord E ident =
     thenE (guardE (HasPrefix ident ''run-'') (ErrText ''invalid execution ID''))
     (bindE (storeRead E (recordKey ident)) (\<lambda>obj.
      liftR (bindR (decodeRecord (eo_Data obj)) (\<lambda>r.
             bindR (checkRecord ident r) (\<lambda>r. Inr (r, eo_Revision obj))))))"

lemma checkRecord_Inr: "checkRecord ident r = Inr r' \<Longrightarrow> r' = r \<and> xr_ID r = ident"
  by (auto simp: checkRecord_def split: if_splits option.splits sum.splits)

lemma decodeRecord_Inr: "decodeRecord d = Inr r \<longleftrightarrow> d = RecordData r"
  by (cases d) (auto simp: decodeRecord_def)

lemma recordKey_inj [simp]: "recordKey a = recordKey b \<longleftrightarrow> a = b"
  by (simp add: recordKey_def)

lemma bundleKey_neq_recordKey [simp]: "bundleKey a \<noteq> recordKey b" "recordKey b \<noteq> bundleKey a"
proof -
  have "rev (bundleKey a) \<noteq> rev (recordKey b)"
    by (simp add: bundleKey_def recordKey_def)
  then show "bundleKey a \<noteq> recordKey b" "recordKey b \<noteq> bundleKey a" by auto
qed

end
