(* ===== verification/Journal.thy ===== *)
theory Journal
  imports Exec_Record
begin

text \<open>
  The execution journal (\<open>internal/engine/execution_journal.go\<close>): a session publishes every
  transition to the store before it changes its own copy.  Also here: the plugin call recorder
  (\<open>internal/engine/plugins.go\<close>), the session operations of saved executions
  (\<open>internal/engine/saved_execution.go\<close>), and artifact cleanup, retention, cancellation and recovery
  (\<open>execution_cleanup.go\<close>, \<open>execution_recovery.go\<close>, \<open>recovery_outputs.go\<close>).  The plugin host is a
  parameter: an answer is the list of calls it records through the session and its error.
\<close>

subsection \<open>Publishing\<close>

definition writeRecord :: "'st engine \<Rightarrow> ExecutionRecord \<Rightarrow> string \<Rightarrow> ('st world, string) eff" where
  "writeRecord E next revision =
     bindE (tryE (storeWrite E (recordKey (xr_ID next)) (RecordData next) revision)) (\<lambda>r.
       case r of
         Inl e \<Rightarrow> throwE (WithDiagnostic ''execution_record_write_failed'' e)
       | Inr written \<Rightarrow> retE written)"

definition publish :: "'st engine \<Rightarrow> ExecutionRecord \<Rightarrow> ('st world, unit) eff" where
  "publish E next =
     bindE (getE w_Revision) (\<lambda>old.
     bindE (writeRecord E next old) (\<lambda>written.
     modifyE (\<lambda>w. w\<lparr>w_Record := next, w_Revision := written\<rparr>)))"

text \<open>The loops over \<open>next.Nodes\<close> that update the first node of a name and stop.\<close>

fun updateNode :: "string \<Rightarrow> (ExecutionNode \<Rightarrow> ExecutionNode) \<Rightarrow> ExecutionNode list \<Rightarrow> ExecutionNode list option" where
  "updateNode name f [] = None"
| "updateNode name f (n # ns) =
     (if xn_Name n = name then Some (f n # ns) else map_option (\<lambda>r. n # r) (updateNode name f ns))"

fun findNode :: "string \<Rightarrow> ExecutionNode list \<Rightarrow> ExecutionNode option" where
  "findNode name [] = None"
| "findNode name (n # ns) = (if xn_Name n = name then Some n else findNode name ns)"

subsection \<open>Plugin calls\<close>

fun replaceCall :: "CallRecord \<Rightarrow> CallRecord list \<Rightarrow> CallRecord list option" where
  "replaceCall call [] = None"
| "replaceCall call (c # cs) =
     (if cr_ID c = cr_ID call then Some (call # cs) else map_option (\<lambda>r. c # r) (replaceCall call cs))"

definition recordPlugin :: "'st engine \<Rightarrow> CallRecord \<Rightarrow> ('st world, unit) eff" where
  "recordPlugin E call =
     bindE (getE w_Record) (\<lambda>r.
       let next = r\<lparr>xr_SchemaVersion := 2\<rparr> in
       case replaceCall call (xr_PluginCalls r) of
         Some calls \<Rightarrow> publish E (next\<lparr>xr_PluginCalls := calls\<rparr>)
       | None \<Rightarrow>
           if length (xr_PluginCalls r) \<ge> 10000 then throwE (ErrText ''plugin execution call limit reached'')
           else publish E (next\<lparr>xr_PluginCalls := xr_PluginCalls r @ [call]\<rparr>))"

text \<open>Any method of the plugin host: it records calls (the host sees a failed recording) and returns
  an error or nil.  A nil host does nothing.\<close>

definition pluginHost :: "'st engine \<Rightarrow> ('st world, unit) eff" where
  "pluginHost E =
     bindE (getE w_Plugins) (\<lambda>on.
       if \<not> on then retE ()
       else bindE (tick (en_Plugin E)) (\<lambda>answer.
         thenE (forE (pa_Calls answer) (\<lambda>call. thenE (tryE (recordPlugin E call)) (retE ())))
           (case pa_Err answer of None \<Rightarrow> retE () | Some e \<Rightarrow> throwE e)))"

definition addCompletionError :: "goErr \<Rightarrow> ('st world, unit) eff" where
  "addCompletionError e = modifyE (\<lambda>w. w\<lparr>w_Completion := joinErr [w_Completion w, Some e]\<rparr>)"

subsection \<open>Transitions\<close>

definition setPhase :: "string \<Rightarrow> string \<Rightarrow> string \<Rightarrow> ExecutionNode \<Rightarrow> ExecutionNode" where
  "setPhase phase code planID n =
     n\<lparr>xn_Phase := phase, xn_Code := code, xn_PlanID := (if planID \<noteq> '''' then planID else xn_PlanID n)\<rparr>"

definition mutationFinished :: "string \<Rightarrow> string \<Rightarrow> bool" where
  "mutationFinished previous phase \<longleftrightarrow>
     (previous = ''applying'' \<or> previous = ''operating'') \<and>
     (phase = ''applied'' \<or> phase = ''completed'' \<or> phase = ''indeterminate'')"

definition previousPhase :: "string \<Rightarrow> ExecutionNode list \<Rightarrow> string" where
  "previousPhase name nodes = (case findNode name nodes of Some n \<Rightarrow> xn_Phase n | None \<Rightarrow> '''')"

text \<open>The part under the session's mutex, which gives the previous phase, and the deferred event
  after it.\<close>

definition lockedTransition :: "'st engine \<Rightarrow> string \<Rightarrow> string \<Rightarrow> string \<Rightarrow> string \<Rightarrow> ('st world, string) eff" where
  "lockedTransition E name phase code planID =
     bindE (getE w_Record) (\<lambda>r.
       case updateNode name (setPhase phase code planID) (xr_Nodes r) of
         None \<Rightarrow> throwE (ErrText ''absent from execution'')
       | Some nodes \<Rightarrow>
           bindE (now E) (\<lambda>t.
           thenE (publish E (r\<lparr>xr_Nodes := nodes, xr_UpdatedAt := t\<rparr>))
             (retE (previousPhase name (xr_Nodes r)))))"

definition transition :: "'st engine \<Rightarrow> string \<Rightarrow> string \<Rightarrow> string \<Rightarrow> string \<Rightarrow> ('st world, unit) eff" where
  "transition E name phase code planID =
     bindE (lockedTransition E name phase code planID) (\<lambda>previous.
       whenE (mutationFinished previous phase)
         (bindE (tryE (pluginHost E)) (\<lambda>res.
            case res of Inl e \<Rightarrow> addCompletionError e | Inr _ \<Rightarrow> retE ())))"

definition failNode :: "'st engine \<Rightarrow> string \<Rightarrow> string \<Rightarrow> goErr \<Rightarrow> ('st world, 'a) eff" where
  "failNode E name phase cause =
     bindE (tryE (transition E name (if errIs cause ErrNotStarted then ''failed'' else phase) ''runtime_failed'' ''''))
       (\<lambda>r. case joinErr [Some cause, errOf r] of Some e \<Rightarrow> throwE e | None \<Rightarrow> throwE cause)"

definition setReview :: "'st engine \<Rightarrow> string \<Rightarrow> PlanReview \<Rightarrow> ('st world, unit) eff" where
  "setReview E name review =
     bindE (getE w_Record) (\<lambda>r.
       case updateNode name (\<lambda>n. n\<lparr>xn_Review := Some review\<rparr>) (xr_Nodes r) of
         None \<Rightarrow> throwE (ErrText ''absent from execution'')
       | Some nodes \<Rightarrow> publish E (r\<lparr>xr_Nodes := nodes\<rparr>))"

definition noteSavedFailure :: "'st engine \<Rightarrow> string \<Rightarrow> string \<Rightarrow> ('st world, unit) eff" where
  "noteSavedFailure E name code =
     bindE (getE w_Record) (\<lambda>r.
       case updateNode name (\<lambda>n. n\<lparr>xn_Code := code\<rparr>) (xr_Nodes r) of
         None \<Rightarrow> throwE (ErrText ''absent from execution'')
       | Some nodes \<Rightarrow> publish E (r\<lparr>xr_Nodes := nodes\<rparr>))"

subsection \<open>The barrier\<close>

definition isRecordKey :: "string \<Rightarrow> bool" where
  "isRecordKey key \<longleftrightarrow> HasPrefix key ''run-'' \<and> HasSuffix key ''.json''"

definition barrierKey :: "'st engine \<Rightarrow> string \<Rightarrow> string \<Rightarrow> bool \<Rightarrow> string \<Rightarrow> ('st world, unit) eff" where
  "barrierKey E scope exceptID readOnly key =
     (if \<not> isRecordKey key then retE ()
      else bindE (readExecutionRecord E (TrimSuffix key ''.json'')) (\<lambda>(old, _).
        if xr_Scope old \<noteq> scope then throwE (WithDiagnostic ''execution_scope_mismatch'' (ErrText (xr_ID old)))
        else if xr_ID old \<noteq> exceptID \<and> executionNeedsRecovery old \<and> \<not> readOnly
          then throwE (WithDiagnostic ''recovery_required'' (ErrText (xr_ID old)))
        else retE ()))"

definition checkExecutionBarrier :: "'st engine \<Rightarrow> string \<Rightarrow> string \<Rightarrow> bool \<Rightarrow> ('st world, unit) eff" where
  "checkExecutionBarrier E scope exceptID readOnly =
     bindE (storeList E) (\<lambda>keys. forE keys (barrierKey E scope exceptID readOnly))"

subsection \<open>Cleanup\<close>

definition cleanupNode :: "'st engine \<Rightarrow> ExecutionNode \<Rightarrow> ('st world, unit) eff" where
  "cleanupNode E node =
     (if xn_PlanID node = '''' then retE ()
      else bindE (tryE (storeRead E (bundleKey (xn_PlanID node)))) (\<lambda>r.
        case r of
          Inl e \<Rightarrow> if errIs e ErrExecutionMissing then retE () else throwE e
        | Inr obj \<Rightarrow>
            bindE (tryE (storeRemove E (bundleKey (xn_PlanID node)) (eo_Revision obj))) (\<lambda>r.
              case r of
                Inl e \<Rightarrow> if errIs e ErrExecutionMissing then retE () else throwE e
              | Inr _ \<Rightarrow> retE ())))"

definition cleanupExecution :: "'st engine \<Rightarrow> ExecutionRecord \<Rightarrow> ('st world, unit) eff" where
  "cleanupExecution E r =
     (if xr_FinishedAt r = None \<or> executionNeedsRecovery r then retE ()
      else forE (xr_Nodes r) (cleanupNode E))"

subsection \<open>Finishing\<close>

text \<open>The node events, the run event and the close of the plugin host; their errors are joined.\<close>

fun pluginHosts :: "'st engine \<Rightarrow> nat \<Rightarrow> ('st world, goErr option) eff" where
  "pluginHosts E 0 = retE None"
| "pluginHosts E (Suc n) =
     bindE (tryE (pluginHost E)) (\<lambda>r. bindE (pluginHosts E n) (\<lambda>e. retE (joinErr [errOf r, e])))"

definition finishPlugins :: "'st engine \<Rightarrow> ('st world, goErr option) eff" where
  "finishPlugins E =
     bindE (getE w_Plugins) (\<lambda>on.
       if \<not> on then retE None
       else bindE (getE w_Record) (\<lambda>r.
         bindE (pluginHosts E (length (xr_Nodes r) + 2)) (\<lambda>e.
         thenE (modifyE (\<lambda>w. w\<lparr>w_Plugins := False\<rparr>))
           (retE (map_option (WithDiagnostic ''plugin_completion_failed'') e)))))"

definition finishedRecord :: "ExecutionRecord \<Rightarrow> goErr option \<Rightarrow> int \<Rightarrow> ExecutionRecord" where
  "finishedRecord r runErr t =
     (let next = r\<lparr>xr_UpdatedAt := t, xr_Status := (if runErr = None then ''completed'' else ''failed'')\<rparr> in
      if executionNeedsRecovery next then next\<lparr>xr_Status := ''needs_recovery''\<rparr>
      else next\<lparr>xr_FinishedAt := Some t\<rparr>)"

definition finishLocked :: "'st engine \<Rightarrow> goErr option \<Rightarrow> ('st world, ExecutionRecord) eff" where
  "finishLocked E runErr =
     bindE (getE w_Record) (\<lambda>r.
     bindE (now E) (\<lambda>t.
       thenE (publish E (finishedRecord r runErr t)) (retE (finishedRecord r runErr t))))"

definition finish :: "'st engine \<Rightarrow> goErr option \<Rightarrow> ('st world, unit) eff" where
  "finish E runErr =
     bindE (finishPlugins E) (\<lambda>pluginErr.
     bindE (finishLocked E (joinErr [runErr, pluginErr])) (\<lambda>next.
       thenE (tryE (cleanupExecution E next))
         (case pluginErr of None \<Rightarrow> retE () | Some e \<Rightarrow> throwE e)))"

text \<open>\<open>finishSaved\<close>: a frontier that failed before a mutation stays resumable.\<close>

definition savedNodes :: "ExecutionNode list \<Rightarrow> ExecutionNode list" where
  "savedNodes nodes = map (\<lambda>n. if xn_Phase n = ''preparing'' then n\<lparr>xn_Phase := ''pending''\<rparr> else n) nodes"

definition savedRecord :: "ExecutionRecord \<Rightarrow> goErr option \<Rightarrow> int \<Rightarrow> ExecutionRecord" where
  "savedRecord r runErr t =
     (let next = r\<lparr>xr_Nodes := savedNodes (xr_Nodes r), xr_UpdatedAt := t, xr_FinishedAt := None,
                   xr_Status := ''ready_for_next_plan''\<rparr>;
          planned = list_ex (\<lambda>n. xn_Phase n = ''planned'') (xr_Nodes next);
          pending = list_ex (\<lambda>n. xn_Phase n = ''pending'') (xr_Nodes next) in
      if executionNeedsRecovery next then next\<lparr>xr_Status := ''needs_recovery''\<rparr>
      else if planned then next\<lparr>xr_Status := ''waiting_for_apply''\<rparr>
      else if \<not> pending then
        next\<lparr>xr_Status := (if runErr = None then ''completed'' else ''failed''), xr_FinishedAt := Some t\<rparr>
      else next)"

definition finishSaved :: "'st engine \<Rightarrow> goErr option \<Rightarrow> ('st world, unit) eff" where
  "finishSaved E runErr =
     bindE (getE w_Record) (\<lambda>r.
       if xr_FinishedAt r \<noteq> None \<and> \<not> executionNeedsRecovery r then retE ()
       else bindE (now E) (\<lambda>t. publish E (savedRecord r runErr t)))"

definition finishSavedSession :: "'st engine \<Rightarrow> goErr option \<Rightarrow> bool \<Rightarrow> ('st world, goErr option) eff" where
  "finishSavedSession E runErr finalize =
     bindE (finishPlugins E) (\<lambda>pluginErr.
       let result = joinErr [runErr, pluginErr] in
       if \<not> finalize then retE result
       else bindE (getE w_Record) (\<lambda>r.
         bindE (if result \<noteq> None \<or> executionNeedsRecovery r then tryE (finishSaved E result) else retE (Inr ()))
           (\<lambda>saved. case saved of
               Inl e \<Rightarrow> retE (joinErr [result, Some e])
             | Inr _ \<Rightarrow>
                 bindE (getE w_Record) (\<lambda>r.
                 thenE (tryE (cleanupExecution E r)) (retE result)))))"

subsection \<open>Expiry and retention\<close>

text \<open>A call whose only outcome is an error or nil: a lock, the runtime, the file system.\<close>

definition callE :: "'st engine \<Rightarrow> ('st world, unit) eff" where
  "callE E = bindE (tick (en_Err E)) (\<lambda>r. case r of None \<Rightarrow> retE () | Some e \<Rightarrow> throwE e)"

definition bundleExpired :: "ExecutionRecord \<Rightarrow> ExecutionNode \<Rightarrow> int \<Rightarrow> payload \<Rightarrow> goErr + bool" where
  "bundleExpired r node t d =
     (case d of
        BundleData b \<Rightarrow>
          if pb_ID b \<noteq> xn_PlanID node \<or> pb_ExecutionID b \<noteq> xr_ID r \<or> pb_ExpiresAt b = 0
          then Inl (ErrText ''invalid plan reference'')
          else Inr (\<not> t < pb_ExpiresAt b)
      | _ \<Rightarrow> Inl (ErrText ''invalid plan reference''))"

fun frontierNodes :: "'st engine \<Rightarrow> ExecutionRecord \<Rightarrow> int \<Rightarrow> ExecutionNode list \<Rightarrow> ('st world, bool) eff" where
  "frontierNodes E r t [] = retE False"
| "frontierNodes E r t (n # ns) =
     (if xn_Phase n \<noteq> ''planned'' then frontierNodes E r t ns
      else bindE (storeRead E (bundleKey (xn_PlanID n))) (\<lambda>obj.
           bindE (liftR (bundleExpired r n t (eo_Data obj))) (\<lambda>expired.
           if expired then retE True else frontierNodes E r t ns)))"

definition frontierExpired :: "'st engine \<Rightarrow> ExecutionRecord \<Rightarrow> int \<Rightarrow> ('st world, bool) eff" where
  "frontierExpired E r t = frontierNodes E r t (xr_Nodes r)"

definition expireRecord :: "'st engine \<Rightarrow> ExecutionRecord \<Rightarrow> string \<Rightarrow> int \<Rightarrow> ('st world, ExecutionRecord \<times> string) eff" where
  "expireRecord E r revision t =
     (if xr_Status r \<noteq> ''waiting_for_apply'' then retE (r, revision)
      else bindE (frontierExpired E r t) (\<lambda>expired.
        if \<not> expired then retE (r, revision)
        else let r' = r\<lparr>xr_Status := ''expired'', xr_UpdatedAt := t, xr_FinishedAt := Some t\<rparr> in
             bindE (writeRecord E r' revision) (\<lambda>revision'. retE (r', revision'))))"

text \<open>The archived native backup and the local backup file of a record.\<close>

definition removeBackups :: "'st engine \<Rightarrow> ExecutionRecord \<Rightarrow> ('st world, unit) eff" where
  "removeBackups E r =
     thenE (bindE (tryE (storeRead E (bundleKey (xr_ID r)))) (\<lambda>res.
              case res of
                Inl e \<Rightarrow> if errIs e ErrExecutionMissing then retE () else throwE e
              | Inr backup \<Rightarrow> storeRemove E (bundleKey (xr_ID r)) (eo_Revision backup)))
     (thenE (callE E) (modifyE (\<lambda>w. w\<lparr>w_Backups := filter (\<lambda>i. i \<noteq> xr_ID r) (w_Backups w)\<rparr>)))"

text \<open>One iteration of the prune loop: whether the record was removed.\<close>

definition pruneRecord :: "'st engine \<Rightarrow> int \<Rightarrow> string \<Rightarrow> ExecutionRecord \<Rightarrow> string \<Rightarrow> ('st world, bool) eff" where
  "pruneRecord E t key r revision =
     bindE (expireRecord E r revision t) (\<lambda>(r, revision).
       case xr_FinishedAt r of
         None \<Rightarrow> retE False
       | Some f \<Rightarrow>
           thenE (cleanupExecution E r)
           (if t - f < xc_RecordRetention (ExecutionSettings (en_Blueprint E)) then retE False
            else thenE (removeBackups E r) (thenE (storeRemove E key revision) (retE True))))"

definition pruneKey :: "'st engine \<Rightarrow> string \<Rightarrow> int \<Rightarrow> string \<Rightarrow> ('st world, bool) eff" where
  "pruneKey E scope t key =
     (if \<not> isRecordKey key then retE False
      else bindE (readExecutionRecord E (TrimSuffix key ''.json'')) (\<lambda>(r, revision).
        if xr_Scope r \<noteq> scope \<or> executionNeedsRecovery r then retE False
        else pruneRecord E t key r revision))"

fun pruneLoop :: "'st engine \<Rightarrow> string \<Rightarrow> int \<Rightarrow> string list \<Rightarrow> string list \<Rightarrow> ('st world, string list \<times> goErr option) eff" where
  "pruneLoop E scope t [] removed = retE (removed, None)"
| "pruneLoop E scope t (key # keys) removed =
     bindE (tryE (pruneKey E scope t key)) (\<lambda>r.
       case r of
         Inl e \<Rightarrow> retE (removed, Some e)
       | Inr pruned \<Rightarrow> pruneLoop E scope t keys (if pruned then removed @ [TrimSuffix key ''.json''] else removed))"

definition pruneExecutions :: "'st engine \<Rightarrow> ('st world, string list \<times> goErr option) eff" where
  "pruneExecutions E =
     bindE (storeList E) (\<lambda>keys. bindE (now E) (\<lambda>t. pruneLoop E (executionScope E) t keys []))"

definition PruneExecutions :: "'st engine \<Rightarrow> ('st world, string list \<times> goErr option) eff" where
  "PruneExecutions E =
     thenE (callE E) (thenE (callE E) (thenE (liftR (openExecutionStore E)) (pruneExecutions E)))"

subsection \<open>Opening records\<close>

definition openSession :: "ExecutionRecord \<Rightarrow> string \<Rightarrow> ('st world, unit) eff" where
  "openSession r revision = modifyE (\<lambda>w. w\<lparr>w_Record := r, w_Revision := revision\<rparr>)"

text \<open>The locks, the store and a record of this coordination scope, as \<open>CancelExecution\<close>,
  \<open>RecoverExecution\<close> and \<open>RecoverPluginCall\<close> open them.\<close>

definition openRecord :: "'st engine \<Rightarrow> string \<Rightarrow> ('st world, ExecutionRecord \<times> string) eff" where
  "openRecord E ident =
     thenE (callE E) (thenE (callE E) (thenE (liftR (openExecutionStore E))
     (bindE (readExecutionRecord E ident) (\<lambda>(r, revision).
      thenE (guardE (xr_Scope r = executionScope E) (ErrText ''another coordination scope''))
        (retE (r, revision))))))"

definition cancelledRecord :: "ExecutionRecord \<Rightarrow> int \<Rightarrow> ExecutionRecord" where
  "cancelledRecord r t = r\<lparr>xr_Status := ''cancelled'', xr_UpdatedAt := t, xr_FinishedAt := Some t\<rparr>"

definition CancelExecution :: "'st engine \<Rightarrow> string \<Rightarrow> ('st world, ExecutionRecord) eff" where
  "CancelExecution E ident =
     bindE (openRecord E ident) (\<lambda>(r, revision).
       if executionNeedsRecovery r then throwE (WithDiagnostic ''recovery_required'' (ErrText (xr_ID r)))
       else if xr_FinishedAt r \<noteq> None then thenE (cleanupExecution E r) (retE r)
       else thenE (openSession r revision) (bindE (now E) (\<lambda>t.
         let r' = cancelledRecord r t in
         thenE (publish E r') (thenE (cleanupExecution E r') (retE r')))))"

definition GetExecution :: "'st engine \<Rightarrow> string \<Rightarrow> ('st world, ExecutionRecord) eff" where
  "GetExecution E ident =
     thenE (callE E) (thenE (liftR (openExecutionStore E))
     (bindE (readExecutionRecord E ident) (\<lambda>(r, revision).
      thenE (guardE (xr_Scope r = executionScope E) (ErrText ''another coordination scope'')) (retE r))))"

text \<open>\<open>ListExecutions\<close> returns the readable records and an issue per unreadable or foreign one.\<close>

fun listLoop :: "'st engine \<Rightarrow> string list \<Rightarrow> ExecutionRecord list \<Rightarrow> goErr option list
    \<Rightarrow> ('st world, ExecutionRecord list \<times> goErr option list) eff" where
  "listLoop E [] records issues = retE (records, issues)"
| "listLoop E (key # keys) records issues =
     (if \<not> isRecordKey key then listLoop E keys records issues
      else bindE (tryE (readExecutionRecord E (TrimSuffix key ''.json''))) (\<lambda>res.
        case res of
          Inl e \<Rightarrow> listLoop E keys records (issues @ [Some e])
        | Inr (r, revision) \<Rightarrow>
            listLoop E keys (records @ [r])
              (if xr_Scope r \<noteq> executionScope E
               then issues @ [Some (ErrText ''different coordination scope'')] else issues)))"

definition ListExecutions :: "'st engine \<Rightarrow> ('st world, ExecutionRecord list \<times> goErr option) eff" where
  "ListExecutions E =
     thenE (callE E) (thenE (liftR (openExecutionStore E))
     (bindE (storeList E) (\<lambda>keys.
      bindE (listLoop E keys [] []) (\<lambda>(records, issues).
      retE (sort_key (\<lambda>r. - xr_CreatedAt r) (sort_key xr_ID records), joinErr issues)))))"

subsection \<open>Beginning an execution\<close>

definition hasPlugins :: "'st engine \<Rightarrow> bool" where
  "hasPlugins E = (case en_Blueprint E of Some b \<Rightarrow> bp_Plugins b \<noteq> [] | None \<Rightarrow> False)"

definition startPlugins :: "'st engine \<Rightarrow> ('st world, unit) eff" where
  "startPlugins E =
     (if \<not> hasPlugins E then retE ()
      else thenE (callE E)
        (thenE (modifyE (\<lambda>w. w\<lparr>w_Plugins := True\<rparr>)) (thenE (pluginHost E) (pluginHost E))))"

definition newRecord :: "'st engine \<Rightarrow> string \<Rightarrow> string \<Rightarrow> Selection option \<Rightarrow> int \<Rightarrow> ExecutionNode list \<Rightarrow> ExecutionRecord" where
  "newRecord E ident operation selection t nodes =
     \<lparr>xr_PluginCalls = [], xr_Selection = selection,
      xr_SchemaVersion = (if hasPlugins E then 2 else 1), xr_Preparation = '''', xr_Backup = False,
      xr_ID = ident, xr_Scope = executionScope E, xr_Binding = '''', xr_Operation = operation,
      xr_Status = ''preparing'', xr_CreatedAt = t, xr_UpdatedAt = t, xr_FinishedAt = None,
      xr_RecoveryAt = None, xr_Nodes = nodes\<rparr>"

definition pendingNode :: "'st engine \<Rightarrow> string \<Rightarrow> goErr + ExecutionNode" where
  "pendingNode E name =
     bindR (executionTarget E name) (\<lambda>target.
       Inr \<lparr>xn_Name = name, xn_Review = None, xn_Target = target, xn_Phase = ''pending'', xn_PlanID = '''', xn_Code = ''''\<rparr>)"

text \<open>Starting the plugins of a new session; a plugin that refuses the run finishes it.\<close>

definition startOrFinish :: "'st engine \<Rightarrow> ('st world, unit) eff" where
  "startOrFinish E =
     bindE (tryE (startPlugins E)) (\<lambda>started.
       case started of
         Inr _ \<Rightarrow> retE ()
       | Inl e \<Rightarrow>
           bindE (tryE (finish E (Some e))) (\<lambda>fin.
           throwE (case joinErr [Some e, errOf fin] of Some e' \<Rightarrow> e' | None \<Rightarrow> e)))"

definition createExecution :: "'st engine \<Rightarrow> ExecutionRecord \<Rightarrow> ('st world, unit) eff" where
  "createExecution E r =
     bindE (tryE (storeWrite E (recordKey (xr_ID r)) (RecordData r) '''')) (\<lambda>res.
       case res of
         Inl e \<Rightarrow> throwE (WithDiagnostic ''execution_record_write_failed'' e)
       | Inr revision \<Rightarrow> thenE (openSession r revision) (startOrFinish E))"

definition beginExecution ::
  "'st engine \<Rightarrow> string \<Rightarrow> string list \<Rightarrow> Selection option \<Rightarrow> bool \<Rightarrow> ('st world, unit) eff" where
  "beginExecution E operation names selection readOnly =
     thenE (liftR (openExecutionStore E))
     (thenE (checkExecutionBarrier E (executionScope E) '''' readOnly)
     (bindE (pruneExecutions E) (\<lambda>(removed, pruneErr).
      case pruneErr of
        Some e \<Rightarrow> throwE e
      | None \<Rightarrow>
          bindE (now E) (\<lambda>t.
          bindE (tick (en_Random E)) (\<lambda>rnd.
          bindE (liftR (mapR (pendingNode E) names)) (\<lambda>nodes.
          createExecution E (newRecord E (newExecutionID ''run'' rnd) operation selection t nodes)))))))"

definition openSavedExecution :: "'st engine \<Rightarrow> string \<Rightarrow> ('st world, unit) eff" where
  "openSavedExecution E ident =
     thenE (liftR (openExecutionStore E))
     (bindE (readExecutionRecord E ident) (\<lambda>(r, revision).
      if xr_Scope r \<noteq> executionScope E \<or> xr_Operation r \<noteq> ''saved_apply'' \<or> xr_RecoveryAt r \<noteq> None \<or>
         executionNeedsRecovery r
      then throwE (WithDiagnostic ''saved_plan_incompatible'' (ErrText ident))
      else thenE (checkExecutionBarrier E (executionScope E) ident False) (openSession r revision)))"

subsection \<open>Recovery\<close>

text \<open>A credential host of its own answers the runtime hooks of output recovery; like the plugin
  host it reaches the engine only through the session's recorder.\<close>

definition credentialHost :: "'st engine \<Rightarrow> bool \<Rightarrow> ('st world, unit) eff" where
  "credentialHost E needed =
     (if \<not> needed then retE ()
      else bindE (tick (en_Plugin E)) (\<lambda>answer.
        thenE (forE (pa_Calls answer) (\<lambda>call. thenE (tryE (recordPlugin E call)) (retE ())))
          (case pa_Err answer of None \<Rightarrow> retE () | Some e \<Rightarrow> throwE e)))"

definition setPreparation :: "'st engine \<Rightarrow> string \<Rightarrow> ('st world, unit) eff" where
  "setPreparation E preparation =
     bindE (getE w_Record) (\<lambda>r. publish E (r\<lparr>xr_Preparation := preparation\<rparr>))"

definition readOnlyBackend :: "string \<Rightarrow> string \<Rightarrow> bool" where
  "readOnlyBackend backend workspace \<longleftrightarrow>
     (backend = '''' \<or> backend = ''local'' \<or> backend = ''http'') \<and> (workspace = '''' \<or> workspace = ''default'')"

text \<open>The body after the credential host is open: prepare an isolated cache, read the outputs
  and publish the snapshot.\<close>

definition collectOutputs :: "'st engine \<Rightarrow> string \<Rightarrow> gNode \<Rightarrow> bool \<Rightarrow> bool \<Rightarrow> ('st world, unit) eff" where
  "collectOutputs E name node creds allowInit =
     bindE (liftR (executionWorkspace E name)) (\<lambda>workspace.
     let ro = readOnlyBackend (case gn_Schema node of Some s \<Rightarrow> sc_Backend s | None \<Rightarrow> '''') workspace in
     thenE (guardE (ro \<or> allowInit) (ErrText ''no verified read-only preparation''))
     (bindE (getE w_Record) (\<lambda>r.
      thenE (guardE (ro \<or> xr_Preparation r = '''') (ErrText ''unresolved preparation''))
     (thenE (callE E) (thenE (callE E)
     (thenE (whenE (\<not> ro) (setPreparation E (''initializing:'' @ name)))
     (thenE (thenE (credentialHost E creds) (callE E))
     (thenE (whenE (\<not> ro) (setPreparation E ''''))
     (thenE (thenE (credentialHost E creds) (callE E))
     (thenE (callE E) (callE E)))))))))))"

definition recoverNodeOutputs :: "'st engine \<Rightarrow> string \<Rightarrow> bool \<Rightarrow> ('st world, unit) eff" where
  "recoverNodeOutputs E name allowInit =
     (case map_of (g_Nodes (en_Graph E)) name of
        None \<Rightarrow> throwE (ErrText ''nil dereference'')
      | Some node \<Rightarrow>
          if (case gn_Schema node of None \<Rightarrow> True | Some s \<Rightarrow> \<not> sc_BackendConfigKnown s)
          then throwE (ErrText ''backend configuration cannot be verified'')
          else
            let creds = bn_Credentials (gn_Node node) \<noteq> [] in
            thenE (whenE creds (callE E))
            (bindE (tryE (collectOutputs E name node creds allowInit)) (\<lambda>r.
             bindE (tryE (credentialHost E creds)) (\<lambda>c.
             case joinErr [errOf r, errOf c] of None \<Rightarrow> retE () | Some e \<Rightarrow> throwE e))))"

definition retiredRecord :: "ExecutionRecord \<Rightarrow> int \<Rightarrow> ExecutionRecord" where
  "retiredRecord r t = r\<lparr>xr_Status := ''recovered_replan_required'', xr_RecoveryAt := Some t,
     xr_FinishedAt := Some t, xr_UpdatedAt := t\<rparr>"

definition retire :: "'st engine \<Rightarrow> ('st world, ExecutionRecord) eff" where
  "retire E =
     bindE (now E) (\<lambda>t. bindE (getE w_Record) (\<lambda>r.
     thenE (publish E (retiredRecord r t)) (getE w_Record)))"

definition unknownPhases :: "string list" where
  "unknownPhases = [''initializing'', ''applying'', ''operating'', ''indeterminate'']"

definition recoverNode :: "'st engine \<Rightarrow> bool \<Rightarrow> goErr option list \<Rightarrow> ExecutionNode \<Rightarrow> ('st world, goErr option list) eff" where
  "recoverNode E allowInit issues node =
     (if xn_Phase node \<in> set unknownPhases then retE (issues @ [Some (ErrText ''outcome is unknown'')])
      else if xn_Phase node = ''applied'' then
        (case executionTarget E (xn_Name node) of
           Inl e \<Rightarrow> retE (issues @ [Some e])
         | Inr target \<Rightarrow>
             if target \<noteq> xn_Target node then retE (issues @ [Some (ErrText ''backend target changed'')])
             else bindE (tryE (recoverNodeOutputs E (xn_Name node) allowInit)) (\<lambda>r.
               case r of
                 Inl e \<Rightarrow> retE (issues @ [Some e])
               | Inr _ \<Rightarrow> thenE (transition E (xn_Name node) ''completed'' ''outputs_recovered'' '''') (retE issues)))
      else retE issues)"

fun recoverNodes :: "'st engine \<Rightarrow> bool \<Rightarrow> goErr option list \<Rightarrow> ExecutionNode list \<Rightarrow> ('st world, goErr option list) eff" where
  "recoverNodes E allowInit issues [] = retE issues"
| "recoverNodes E allowInit issues (n # ns) =
     bindE (recoverNode E allowInit issues n) (\<lambda>issues'. recoverNodes E allowInit issues' ns)"

definition recoverSession :: "'st engine \<Rightarrow> bool \<Rightarrow> bool \<Rightarrow> ExecutionRecord \<Rightarrow> ('st world, ExecutionRecord) eff" where
  "recoverSession E replan allowInit r =
     (if replan then retire E
      else bindE (recoverNodes E allowInit
             (if xr_Preparation r \<noteq> '''' then [Some (ErrText ''preparation outcome is unknown'')] else []) (xr_Nodes r))
           (\<lambda>issues. case joinErr issues of Some e \<Rightarrow> throwE e | None \<Rightarrow> retire E))"

definition RecoverExecution ::
  "'st engine \<Rightarrow> string \<Rightarrow> bool \<Rightarrow> bool \<Rightarrow> bool \<Rightarrow> bool \<Rightarrow> ('st world, ExecutionRecord) eff" where
  "RecoverExecution E ident confirmStopped stateReviewed replan allowInit =
     thenE (guardE confirmStopped (WithDiagnostic ''invalid_arguments'' (ErrText ''confirm-stopped'')))
     (thenE (guardE (replan \<longrightarrow> stateReviewed) (WithDiagnostic ''invalid_arguments'' (ErrText ''state-reviewed'')))
     (bindE (openRecord E ident) (\<lambda>(r, revision).
      if \<not> executionNeedsRecovery r then throwE (ErrText ''does not need recovery'')
      else if pluginRecoveryRequired r then throwE (ErrText ''unresolved plugin effects'')
      else thenE (openSession r revision) (recoverSession E replan allowInit r))))"

definition outstandingLease :: "CallRecord \<Rightarrow> bool" where
  "outstandingLease c \<longleftrightarrow> callLease c \<noteq> None \<and> ev_Phase (cr_Event c) = ''credential.acquire''"

definition RecoverPluginCall :: "'st engine \<Rightarrow> string \<Rightarrow> string \<Rightarrow> bool \<Rightarrow> bool \<Rightarrow> ('st world, ExecutionRecord) eff" where
  "RecoverPluginCall E ident callID confirmStopped acknowledge =
     thenE (guardE confirmStopped (ErrText ''confirm-stopped''))
     (bindE (openRecord E ident) (\<lambda>(r, revision).
      case find (\<lambda>c. cr_ID c = callID) (xr_PluginCalls r) of
        None \<Rightarrow> throwE (ErrText ''plugin call not found'')
      | Some call \<Rightarrow>
          if cr_Status call = ''acknowledged'' then throwE (ErrText ''already acknowledged'')
          else if cr_Status call = ''completed'' \<and> \<not> outstandingLease call then throwE (ErrText ''already complete'')
          else thenE (openSession r revision)
            (thenE (if acknowledge
                    then recordPlugin E (call\<lparr>cr_Status := ''acknowledged'', cr_Code := ''operator_reviewed_external_state''\<rparr>)
                    else thenE (callE E)
                      (bindE (tryE (credentialHost E True)) (\<lambda>replay.
                       bindE (tryE (callE E)) (\<lambda>closed.
                       case joinErr [errOf replay, errOf closed] of None \<Rightarrow> retE () | Some e \<Rightarrow> throwE e))))
            (thenE (if xr_Operation r = ''saved_apply'' then finishSaved E None else finish E None)
              (getE w_Record)))))"

end
