(* ===== verification/Journal_Session.thy ===== *)
theory Journal_Session
  imports Journal
begin

text \<open>
  Sessions of the execution journal: which records an operation can change, and that a session's copy
  of its record is the stored one unless the session is fenced for good.  Two-state properties are
  preorders (\<open>effect_order\<close>); the contract of the store enters through the locale
  \<open>journal_store\<close>, interpreted for an engine whose settings select the local store.
\<close>
subsection \<open>Two-state properties of the journal\<close>

definition sameMutations :: "'st world \<Rightarrow> 'st world \<Rightarrow> bool" where
  "sameMutations w w' \<longleftrightarrow> w_Mutations w' = w_Mutations w"

definition sameStore :: "'st world \<Rightarrow> 'st world \<Rightarrow> bool" where
  "sameStore w w' \<longleftrightarrow> w_Store w' = w_Store w \<and> w_Record w' = w_Record w \<and> w_Revision w' = w_Revision w"

text \<open>Nothing but bundles changes; nothing but the record of the session in hand changes.\<close>

definition sameRecords :: "('st \<Rightarrow> string \<Rightarrow> payload executionObject option) \<Rightarrow> 'st world \<Rightarrow> 'st world \<Rightarrow> bool" where
  "sameRecords obj w w' \<longleftrightarrow>
     (\<forall>ident. obj (w_Store w') (recordKey ident) = obj (w_Store w) (recordKey ident)) \<and>
     w_Record w' = w_Record w \<and> w_Revision w' = w_Revision w"

definition sessionOf :: "('st \<Rightarrow> string \<Rightarrow> payload executionObject option) \<Rightarrow> string \<Rightarrow> 'st world \<Rightarrow> 'st world \<Rightarrow> bool" where
  "sessionOf obj i w w' \<longleftrightarrow>
     (xr_ID (w_Record w) = i \<longrightarrow>
        xr_ID (w_Record w') = i \<and>
        (\<forall>ident. ident \<noteq> i \<longrightarrow> obj (w_Store w') (recordKey ident) = obj (w_Store w) (recordKey ident)))"

definition onlyRecord :: "('st \<Rightarrow> string \<Rightarrow> payload executionObject option) \<Rightarrow> string \<Rightarrow> 'st world \<Rightarrow> 'st world \<Rightarrow> bool" where
  "onlyRecord obj i w w' \<longleftrightarrow>
     (\<forall>j. j \<noteq> i \<longrightarrow> obj (w_Store w') (recordKey j) = obj (w_Store w) (recordKey j))"

text \<open>The journals that are evidence of an unresolved mutation, and that they are all kept.\<close>

definition evidence :: "('st \<Rightarrow> string \<Rightarrow> payload executionObject option) \<Rightarrow> 'st \<Rightarrow> string \<Rightarrow> payload executionObject \<Rightarrow> bool" where
  "evidence obj st ident ob \<longleftrightarrow>
     obj st (recordKey ident) = Some ob \<and> (\<exists>r. eo_Data ob = RecordData r \<and> executionNeedsRecovery r)"

definition keepsEvidence :: "('st \<Rightarrow> string \<Rightarrow> payload executionObject option) \<Rightarrow> 'st world \<Rightarrow> 'st world \<Rightarrow> bool" where
  "keepsEvidence obj w w' \<longleftrightarrow>
     (\<forall>ident ob. evidence obj (w_Store w) ident ob \<longrightarrow> evidence obj (w_Store w') ident ob)"

interpretation same_mutations: effect_order sameMutations
  by unfold_locales (simp_all add: sameMutations_def)

interpretation same_store: effect_order sameStore
  by unfold_locales (simp_all add: sameStore_def)

interpretation same_records: effect_order "sameRecords obj"
  by unfold_locales (simp_all add: sameRecords_def)

interpretation session_of: effect_order "sessionOf obj i"
  by unfold_locales (auto simp: sessionOf_def)

interpretation only_record: effect_order "onlyRecord obj i"
  by unfold_locales (auto simp: onlyRecord_def)

interpretation keeps_evidence: effect_order "keepsEvidence obj"
  by unfold_locales (auto simp: keepsEvidence_def)

lemma sameStore_records: "sameStore w w' \<Longrightarrow> sameRecords obj w w'"
  by (simp add: sameStore_def sameRecords_def)

lemma sameRecords_session: "sameRecords obj w w' \<Longrightarrow> sessionOf obj i w w'"
  by (simp add: sameRecords_def sessionOf_def)

lemma sameRecords_only: "sameRecords obj w w' \<Longrightarrow> onlyRecord obj i w w'"
  by (simp add: sameRecords_def onlyRecord_def)

lemma sameRecords_evidence: "sameRecords obj w w' \<Longrightarrow> keepsEvidence obj w w'"
  by (simp add: sameRecords_def keepsEvidence_def evidence_def)

subsection \<open>No mutation in journal operations\<close>

lemma mut_tick [relatesI]: "relates sameMutations (tick f)"
  by (simp add: relates_def tick_def sameMutations_def)

lemma mut_modify [relatesI]:
  "(\<And>w. w_Mutations (f w) = w_Mutations w) \<Longrightarrow> relates sameMutations (modifyE f)"
  by (simp add: relates_def sameMutations_def)

lemma mut_storeRead [relatesI]: "relates sameMutations (storeRead E key)"
  unfolding storeRead_def by (intro relatesI)

lemma mut_store_update:
  "relates sameMutations (\<lambda>w. case g (w_Store w) of (st, r) \<Rightarrow> (w\<lparr>w_Store := st\<rparr>, r))"
  by (auto simp: relates_def sameMutations_def split: prod.splits)

lemma mut_storeWrite [relatesI]: "relates sameMutations (storeWrite E key data revision)"
  unfolding storeWrite_def by (intro relatesI mut_store_update)

lemma mut_storeRemove [relatesI]: "relates sameMutations (storeRemove E key revision)"
  unfolding storeRemove_def by (intro relatesI mut_store_update)

lemma mut_storeList [relatesI]: "relates sameMutations (storeList E)"
  unfolding storeList_def by (intro relatesI)

lemma mut_callE [relatesI]: "relates sameMutations (callE E)"
  unfolding callE_def by (intro relatesI)

lemma mut_now [relatesI]: "relates sameMutations (now E)"
  unfolding now_def by (intro relatesI)

lemma mut_publish [relatesI]: "relates sameMutations (publish E next)"
  unfolding publish_def writeRecord_def by (intro relatesI) simp

lemma mut_recordPlugin [relatesI]: "relates sameMutations (recordPlugin E call)"
  unfolding recordPlugin_def Let_def by (intro relatesI)

lemma mut_pluginHost [relatesI]: "relates sameMutations (pluginHost E)"
  unfolding pluginHost_def by (intro relatesI)

lemma mut_credentialHost [relatesI]: "relates sameMutations (credentialHost E needed)"
  unfolding credentialHost_def by (intro relatesI)

lemma mut_addCompletionError [relatesI]: "relates sameMutations (addCompletionError e)"
  unfolding addCompletionError_def by (intro relatesI) simp

lemma mut_transition [relatesI]: "relates sameMutations (transition E name phase code planID)"
  unfolding transition_def lockedTransition_def by (intro relatesI)

lemma mut_readExecutionRecord [relatesI]: "relates sameMutations (readExecutionRecord E ident)"
  unfolding readExecutionRecord_def by (intro relatesI)

lemma relates_case_prod [relatesI]:
  "(\<And>a b. relates R (f a b)) \<Longrightarrow> relates R (case p of (a, b) \<Rightarrow> f a b)"
  by (cases p) simp

lemma mut_openRecord [relatesI]: "relates sameMutations (openRecord E ident)"
  unfolding openRecord_def by (intro relatesI)

lemma mut_openSession [relatesI]: "relates sameMutations (openSession r revision)"
  unfolding openSession_def by (intro relatesI) simp

lemma mut_recoverNodeOutputs [relatesI]: "relates sameMutations (recoverNodeOutputs E name allowInit)"
  unfolding recoverNodeOutputs_def collectOutputs_def setPreparation_def Let_def by (intro relatesI)

lemma mut_recoverNode [relatesI]: "relates sameMutations (recoverNode E allowInit issues node)"
  unfolding recoverNode_def by (intro relatesI)

lemma mut_recoverNodes [relatesI]: "relates sameMutations (recoverNodes E allowInit issues nodes)"
  by (induction nodes arbitrary: issues) (auto intro!: relatesI)

lemma mut_retire [relatesI]: "relates sameMutations (retire E)"
  unfolding retire_def by (intro relatesI)

lemma mut_RecoverExecution [relatesI]:
  "relates sameMutations (RecoverExecution E ident confirmStopped stateReviewed replan allowInit)"
  unfolding RecoverExecution_def recoverSession_def by (intro relatesI)

lemma mut_pluginHosts [relatesI]: "relates sameMutations (pluginHosts E n)"
proof (induction n)
  case (Suc n)
  then show ?case unfolding pluginHosts.simps by (intro relatesI)
qed (simp only: pluginHosts.simps, rule same_mutations.ret)

lemma mut_finishPlugins [relatesI]: "relates sameMutations (finishPlugins E)"
  unfolding finishPlugins_def by (intro relatesI) simp

lemma mut_cleanup [relatesI]: "relates sameMutations (cleanupExecution E r)"
  unfolding cleanupExecution_def cleanupNode_def by (intro relatesI)

lemma mut_finish [relatesI]: "relates sameMutations (finish E runErr)"
  unfolding finish_def finishLocked_def by (intro relatesI)

lemma mut_barrier [relatesI]: "relates sameMutations (checkExecutionBarrier E scope exceptID readOnly)"
  unfolding checkExecutionBarrier_def barrierKey_def by (intro relatesI)

lemma mut_frontierNodes [relatesI]: "relates sameMutations (frontierNodes E r t nodes)"
proof (induction nodes)
  case (Cons n ns)
  then show ?case unfolding frontierNodes.simps by (intro relatesI)
qed (simp only: frontierNodes.simps, rule same_mutations.ret)

lemma mut_writeRecord [relatesI]: "relates sameMutations (writeRecord E next revision)"
  unfolding writeRecord_def by (intro relatesI)

lemma mut_pruneKey [relatesI]: "relates sameMutations (pruneKey E scope t key)"
  unfolding pruneKey_def pruneRecord_def expireRecord_def frontierExpired_def removeBackups_def Let_def
  by (intro relatesI) simp

lemma mut_pruneLoop [relatesI]: "relates sameMutations (pruneLoop E scope t keys removed)"
proof (induction keys arbitrary: removed)
  case (Cons key keys)
  then show ?case unfolding pruneLoop.simps by (intro relatesI)
qed (simp only: pruneLoop.simps, rule same_mutations.ret)

lemma mut_pruneExecutions [relatesI]: "relates sameMutations (pruneExecutions E)"
  unfolding pruneExecutions_def by (intro relatesI)

lemma mut_beginExecution [relatesI]:
  "relates sameMutations (beginExecution E operation ns selection readOnly)"
  unfolding beginExecution_def createExecution_def startOrFinish_def startPlugins_def
  by (intro relatesI) simp

subsection \<open>Reads and clocks change nothing\<close>

lemma tick_app: "tick f w = (w\<lparr>w_Tick := Suc (w_Tick w)\<rparr>, Inr (f (w_Tick w)))"
  by (simp add: tick_def)

lemma same_tick [relatesI]: "relates sameStore (tick f)"
  by (simp add: relates_def tick_def sameStore_def)

lemma same_storeRead [relatesI]: "relates sameStore (storeRead E key)"
  unfolding storeRead_def by (intro relatesI)

lemma same_storeList [relatesI]: "relates sameStore (storeList E)"
  unfolding storeList_def by (intro relatesI)

lemma same_callE [relatesI]: "relates sameStore (callE E)"
  unfolding callE_def by (intro relatesI)

lemma same_now [relatesI]: "relates sameStore (now E)"
  unfolding now_def by (intro relatesI)

lemma same_readExecutionRecord [relatesI]: "relates sameStore (readExecutionRecord E ident)"
  unfolding readExecutionRecord_def by (intro relatesI)

lemma same_barrier [relatesI]: "relates sameStore (checkExecutionBarrier E scope exceptID readOnly)"
  unfolding checkExecutionBarrier_def barrierKey_def by (intro relatesI)

lemma same_frontierNodes [relatesI]: "relates sameStore (frontierNodes E r t nodes)"
proof (induction nodes)
  case (Cons n ns)
  then show ?case unfolding frontierNodes.simps by (intro relatesI)
qed (simp only: frontierNodes.simps, rule same_store.ret)

lemma same_openRecord [relatesI]: "relates sameStore (openRecord E ident)"
  unfolding openRecord_def by (intro relatesI)

lemma records_of_same: "relates sameStore m \<Longrightarrow> relates (sameRecords obj) m"
  by (erule relates_mono) (rule sameStore_records)

lemmas records_reads [relatesI] = records_of_same [OF same_storeRead] records_of_same [OF same_callE]

lemma session_of_same: "relates sameStore m \<Longrightarrow> relates (sessionOf obj i) m"
  by (erule relates_mono) (rule sameRecords_session [OF sameStore_records])

subsection \<open>What a publication does to the store\<close>

locale journal_store = execution_store "en_Store E" obj names newRev
  for E :: "'st engine" and obj :: "'st \<Rightarrow> string \<Rightarrow> payload executionObject option"
    and names :: "'st \<Rightarrow> string set" and newRev :: "ioFault \<Rightarrow> string"
begin

lemma storeRead_ok:
  assumes "storeRead E key w = (w', Inr ob)"
  shows "obj (w_Store w) key = Some ob \<and> sameStore w w'"
  using assms read_ok relatesD [OF same_storeRead assms]
  by (auto simp: storeRead_def bindE_def tick_app)

lemma storeRead_missing:
  assumes "storeRead E key w = (w', Inl e)" and "errIs e ErrExecutionMissing"
  shows "sameStore w w'"
  using relatesD [OF same_storeRead assms(1)] .

lemma storeWrite_cases:
  assumes "storeWrite E key data revision w = (w', r)"
  obtains (kept) "obj (w_Store w') = obj (w_Store w)" "names (w_Store w') = names (w_Store w)" "\<not> isOk r"
      "w_Record w' = w_Record w" "w_Revision w' = w_Revision w" "w_Tick w' = Suc (w_Tick w)"
  | (stored) "cas obj names (w_Store w) key revision"
      "replaced obj names key data (newRev (en_IO E (w_Tick w))) (w_Store w) (w_Store w')"
      "isOk r \<Longrightarrow> r = Inr (newRev (en_IO E (w_Tick w)))"
      "w_Record w' = w_Record w" "w_Revision w' = w_Revision w" "w_Tick w' = Suc (w_Tick w)"
proof -
  obtain st where st: "es_write (en_Store E) (en_IO E (w_Tick w)) (w_Store w) key data revision = (st, r)"
    and w': "w' = w\<lparr>w_Tick := Suc (w_Tick w), w_Store := st\<rparr>"
    using assms by (auto simp: storeWrite_def bindE_def tick_app split: prod.splits)
  from st show ?thesis
  proof (cases rule: write_cases)
    case kept
    then show ?thesis using w' by (intro that(1)) simp_all
  next
    case stored
    then show ?thesis using w' by (intro that(2)) simp_all
  qed
qed

lemma storeRemove_records:
  assumes "storeRemove E key revision w = (w', r)" and "key' \<noteq> key"
  shows "obj (w_Store w') key' = obj (w_Store w) key'"
proof -
  obtain st where "es_remove (en_Store E) (en_IO E (w_Tick w)) (w_Store w) key revision = (st, r)"
    and "w' = w\<lparr>w_Tick := Suc (w_Tick w), w_Store := st\<rparr>"
    using assms(1) by (auto simp: storeRemove_def bindE_def tick_app split: prod.splits)
  then show ?thesis using remove_other assms(2) by simp
qed

lemma storeRemove_session: "storeRemove E key revision w = (w', r) \<Longrightarrow> w_Record w' = w_Record w \<and> w_Revision w' = w_Revision w"
  by (auto simp: storeRemove_def bindE_def tick_app split: prod.splits)

lemma storeRemove_bundle [relatesI]: "relates (sameRecords obj) (storeRemove E (bundleKey i) revision)"
  using storeRemove_records storeRemove_session by (fastforce simp: relates_def sameRecords_def)

lemma publish_cases:
  assumes "publish E next w = (w', r)"
  obtains (ok) "r = Inr ()" "w_Record w' = next" "w_Revision w' = newRev (en_IO E (w_Tick w))"
      "cas obj names (w_Store w) (recordKey (xr_ID next)) (w_Revision w)"
      "replaced obj names (recordKey (xr_ID next)) (RecordData next) (newRev (en_IO E (w_Tick w))) (w_Store w) (w_Store w')"
      "w_Tick w' = Suc (w_Tick w)"
  | (lost) e where "r = Inl e" "w_Record w' = w_Record w" "w_Revision w' = w_Revision w"
      "cas obj names (w_Store w) (recordKey (xr_ID next)) (w_Revision w)"
      "replaced obj names (recordKey (xr_ID next)) (RecordData next) (newRev (en_IO E (w_Tick w))) (w_Store w) (w_Store w')"
      "w_Tick w' = Suc (w_Tick w)"
  | (kept) e where "r = Inl e" "w_Record w' = w_Record w" "w_Revision w' = w_Revision w"
      "obj (w_Store w') = obj (w_Store w)" "names (w_Store w') = names (w_Store w)" "w_Tick w' = Suc (w_Tick w)"
proof -
  obtain w1 res where wr: "storeWrite E (recordKey (xr_ID next)) (RecordData next) (w_Revision w) w = (w1, res)"
    by (meson surj_pair)
  have out: "w' = (case res of Inl e \<Rightarrow> w1 | Inr v \<Rightarrow> w1\<lparr>w_Record := next, w_Revision := v\<rparr>)"
    "r = (case res of Inl e \<Rightarrow> Inl (WithDiagnostic ''execution_record_write_failed'' e) | Inr _ \<Rightarrow> Inr ())"
    using assms wr by (auto simp: publish_def writeRecord_def bindE_def tryE_def split: sum.splits)
  from wr show ?thesis
  proof (cases rule: storeWrite_cases)
    case kept
    then show ?thesis using out that(3) by (cases res) auto
  next
    case stored
    then show ?thesis using out that(1,2) by (cases res) auto
  qed
qed

end

subsection \<open>A session writes only its own record\<close>

lemma session_get_record:
  assumes "\<And>r. xr_ID r = i \<Longrightarrow> relates (sessionOf obj i) (f r)"
  shows "relates (sessionOf obj i) (bindE (getE w_Record) f)"
  unfolding relates_def
proof (intro allI impI)
  fix w w' r assume run: "bindE (getE w_Record) f w = (w', r)"
  show "sessionOf obj i w w'"
  proof (cases "xr_ID (w_Record w) = i")
    case True
    with run relatesD [OF assms] show ?thesis by (simp add: bindE_def)
  qed (simp add: sessionOf_def)
qed

lemma session_modify:
  "(\<And>w. w_Store (f w) = w_Store w \<and> w_Record (f w) = w_Record w) \<Longrightarrow> relates (sessionOf obj i) (modifyE f)"
  by (simp add: relates_def sessionOf_def)

lemma session_addCompletionError: "relates (sessionOf obj i) (addCompletionError e)"
  unfolding addCompletionError_def by (rule session_modify) simp

lemmas session_reads = session_of_same [OF same_tick] session_of_same [OF same_now]
  session_of_same [OF same_callE] session_of_same [OF same_storeRead]

lemma updateNode_props:
  "updateNode name f ns = Some ns' \<Longrightarrow> (\<And>n. xn_Name (f n) = xn_Name n) \<Longrightarrow> map xn_Name ns' = map xn_Name ns"
  by (induction ns arbitrary: ns') (auto split: if_splits)

context journal_store
begin

lemma publish_own:
  assumes "xr_ID next = i"
  shows "relates (sessionOf obj i) (publish E next)"
  unfolding relates_def
proof (intro allI impI)
  fix w w' r assume "publish E next w = (w', r)"
  then show "sessionOf obj i w w'"
    by (cases rule: publish_cases) (use assms in \<open>auto simp: sessionOf_def replaced_def\<close>)
qed

lemma own_lockedTransition: "relates (sessionOf obj i) (lockedTransition E name phase code planID)"
  unfolding lockedTransition_def
  by (rule session_get_record) (intro relatesI session_reads publish_own, simp)

lemma own_recordPlugin: "relates (sessionOf obj i) (recordPlugin E call)"
  unfolding recordPlugin_def Let_def
  by (rule session_get_record) (intro relatesI publish_own; simp)

lemma own_pluginHost: "relates (sessionOf obj i) (pluginHost E)"
  unfolding pluginHost_def by (intro relatesI session_reads own_recordPlugin)

lemma own_credentialHost: "relates (sessionOf obj i) (credentialHost E needed)"
  unfolding credentialHost_def by (intro relatesI session_reads own_recordPlugin)

lemma own_transition: "relates (sessionOf obj i) (transition E name phase code planID)"
  unfolding transition_def
  by (intro relatesI own_lockedTransition own_pluginHost session_addCompletionError)

lemma own_failNode: "relates (sessionOf obj i) (failNode E name phase cause)"
  unfolding failNode_def by (intro relatesI own_transition)

lemma own_setReview: "relates (sessionOf obj i) (setReview E name review)"
  unfolding setReview_def
  by (rule session_get_record) (intro relatesI publish_own, simp)

lemma own_noteSavedFailure: "relates (sessionOf obj i) (noteSavedFailure E name code)"
  unfolding noteSavedFailure_def
  by (rule session_get_record) (intro relatesI publish_own, simp)

lemma own_setPreparation: "relates (sessionOf obj i) (setPreparation E p)"
  unfolding setPreparation_def
  by (rule session_get_record) (intro relatesI publish_own, simp)

lemma own_finishSaved: "relates (sessionOf obj i) (finishSaved E runErr)"
  unfolding finishSaved_def
  by (rule session_get_record) (intro relatesI session_reads publish_own, simp add: savedRecord_def Let_def)

lemma own_retire: "relates (sessionOf obj i) (retire E)"
  unfolding retire_def
  by (rule session_of.bind [OF session_reads(2)], rule session_get_record)
    (intro relatesI publish_own, simp add: retiredRecord_def)

subsection \<open>Cleanup touches bundles only\<close>

lemma records_cleanupNode [relatesI]: "relates (sameRecords obj) (cleanupNode E node)"
  unfolding cleanupNode_def by (intro relatesI)

lemma records_cleanup [relatesI]: "relates (sameRecords obj) (cleanupExecution E r)"
  unfolding cleanupExecution_def by (intro relatesI)

lemma records_removeBackups [relatesI]: "relates (sameRecords obj) (removeBackups E r)"
  unfolding removeBackups_def
  by (intro relatesI) (simp add: relates_def sameRecords_def)

lemma own_cleanup: "relates (sessionOf obj i) (cleanupExecution E r)"
  by (rule relates_mono [OF records_cleanup]) (rule sameRecords_session)

lemma own_pluginHosts: "relates (sessionOf obj i) (pluginHosts E n)"
proof (induction n)
  case (Suc n)
  then show ?case unfolding pluginHosts.simps by (intro relatesI own_pluginHost)
qed (simp only: pluginHosts.simps, rule session_of.ret)

lemma own_finishPlugins: "relates (sessionOf obj i) (finishPlugins E)"
  unfolding finishPlugins_def by (intro relatesI own_pluginHosts session_modify) simp

lemma finishedRecord_ID [simp]: "xr_ID (finishedRecord r e t) = xr_ID r"
  by (simp add: finishedRecord_def Let_def)

lemma own_finishLocked: "relates (sessionOf obj i) (finishLocked E runErr)"
  unfolding finishLocked_def
  by (rule session_get_record) (intro relatesI session_reads publish_own, simp)

lemma own_finish: "relates (sessionOf obj i) (finish E runErr)"
  unfolding finish_def by (intro relatesI own_finishPlugins own_finishLocked own_cleanup)

subsection \<open>Retention keeps evidence\<close>

text \<open>Writing or removing a record that does not need recovery keeps all evidence.\<close>

lemma evidence_other:
  assumes "\<And>j. j \<noteq> i \<Longrightarrow> obj (w_Store w') (recordKey j) = obj (w_Store w) (recordKey j)"
    and "\<And>ob. \<not> evidence obj (w_Store w) i ob"
  shows "keepsEvidence obj w w'"
  using assms unfolding keepsEvidence_def evidence_def by metis

lemma session_keeps_evidence:
  assumes "sessionOf obj i w w'" and "xr_ID (w_Record w) = i" and "\<And>ob. \<not> evidence obj (w_Store w) i ob"
  shows "keepsEvidence obj w w'"
  using assms by (intro evidence_other [of i]) (auto simp: sessionOf_def)

lemma readExecutionRecord_ok:
  assumes "readExecutionRecord E ident w = (w', Inr (r, revision))"
  shows "obj (w_Store w) (recordKey ident) = Some \<lparr>eo_Revision = revision, eo_Data = RecordData r\<rparr> \<and>
    xr_ID r = ident \<and> sameStore w w'"
proof -
  from assms obtain ob where rd: "storeRead E (recordKey ident) w = (w', Inr ob)"
    and ok: "bindR (decodeRecord (eo_Data ob)) (\<lambda>r. bindR (checkRecord ident r) (\<lambda>r. Inr (r, eo_Revision ob))) = Inr (r, revision)"
    by (auto simp: readExecutionRecord_def thenE_Inr bindE_Inr guardE_Inr)
  from ok have d: "eo_Data ob = RecordData r" "xr_ID r = ident" "eo_Revision ob = revision"
    by (auto simp: decodeRecord_Inr dest: checkRecord_Inr)
  then have "ob = \<lparr>eo_Revision = revision, eo_Data = RecordData r\<rparr>" by (cases ob) simp
  with storeRead_ok [OF rd] d show ?thesis by simp
qed

lemma writeRecord_other:
  assumes "writeRecord E next revision w = (w', res)" and "j \<noteq> xr_ID next"
  shows "obj (w_Store w') (recordKey j) = obj (w_Store w) (recordKey j)"
proof -
  obtain w1 r1 where wr: "storeWrite E (recordKey (xr_ID next)) (RecordData next) revision w = (w1, r1)"
    by (meson surj_pair)
  then have "w' = w1" using assms(1) by (cases r1) (auto simp: writeRecord_def bindE_def tryE_def)
  moreover from wr have "obj (w_Store w1) (recordKey j) = obj (w_Store w) (recordKey j)"
    by (cases rule: storeWrite_cases) (use assms(2) in \<open>auto simp: replaced_def\<close>)
  ultimately show ?thesis by simp
qed

end

subsection \<open>Sessions as a state machine\<close>

text \<open>
  The critical sections of a session.  Node workers, plugin recorders and the closing code run
  concurrently, but each of these bodies holds the session's mutex, so a concurrent run is some
  sequence of these steps.
\<close>

inductive sessionStep :: "'st engine \<Rightarrow> 'st world \<Rightarrow> 'st world \<Rightarrow> bool" for E where
  stepTransition: "lockedTransition E name phase code planID w = (w', r1) \<Longrightarrow> sessionStep E w w'"
| stepPlugin: "recordPlugin E call w = (w', r2) \<Longrightarrow> sessionStep E w w'"
| stepReview: "setReview E name review w = (w', r3) \<Longrightarrow> sessionStep E w w'"
| stepNote: "noteSavedFailure E name code w = (w', r4) \<Longrightarrow> sessionStep E w w'"
| stepPreparation: "setPreparation E preparation w = (w', r5) \<Longrightarrow> sessionStep E w w'"
| stepFinish: "finishLocked E runErr w = (w', r6) \<Longrightarrow> sessionStep E w w'"
| stepFinishSaved: "finishSaved E runErr w = (w', r7) \<Longrightarrow> sessionStep E w w'"
| stepRetire: "retire E w = (w', r8) \<Longrightarrow> sessionStep E w w'"

inductive_cases sessionStepE: "sessionStep E w w'"

text \<open>What a run never changes about its record.\<close>

definition recordIdentity :: "ExecutionRecord \<Rightarrow> string \<times> string \<times> string \<times> int \<times> (string \<times> string) list" where
  "recordIdentity r = (xr_ID r, xr_Scope r, xr_Operation r, xr_CreatedAt r,
     map (\<lambda>n. (xn_Name n, xn_Target n)) (xr_Nodes r))"

text \<open>The shape of every step: at most one publication of a record with the same identity.\<close>

definition publishing :: "'st engine \<Rightarrow> ('st world, 'a) eff \<Rightarrow> bool" where
  "publishing E m \<longleftrightarrow>
     (\<forall>w w' r. m w = (w', r) \<longrightarrow>
        (\<exists>w1. sameStore w w1 \<and> w_Tick w \<le> w_Tick w1 \<and>
           (w' = w1 \<or> (\<exists>next res. recordIdentity next = recordIdentity (w_Record w) \<and>
                        publish E next w1 = (w', res)))))"

lemma updateNode_identity:
  assumes "updateNode name f ns = Some ns'" and "\<And>n. (xn_Name (f n), xn_Target (f n)) = (xn_Name n, xn_Target n)"
  shows "map (\<lambda>n. (xn_Name n, xn_Target n)) ns' = map (\<lambda>n. (xn_Name n, xn_Target n)) ns"
  using assms by (induction ns arbitrary: ns') (auto split: if_splits)

lemma identity_simps [simp]:
  "recordIdentity (r\<lparr>xr_UpdatedAt := t\<rparr>) = recordIdentity r"
  "recordIdentity (r\<lparr>xr_SchemaVersion := v\<rparr>) = recordIdentity r"
  "recordIdentity (r\<lparr>xr_PluginCalls := cs\<rparr>) = recordIdentity r"
  "recordIdentity (r\<lparr>xr_Preparation := p\<rparr>) = recordIdentity r"
  "recordIdentity (r\<lparr>xr_Status := s\<rparr>) = recordIdentity r"
  "recordIdentity (r\<lparr>xr_FinishedAt := f\<rparr>) = recordIdentity r"
  "recordIdentity (r\<lparr>xr_RecoveryAt := f\<rparr>) = recordIdentity r"
  by (simp_all add: recordIdentity_def)

lemma identity_nodes:
  "map (\<lambda>n. (xn_Name n, xn_Target n)) ns = map (\<lambda>n. (xn_Name n, xn_Target n)) (xr_Nodes r) \<Longrightarrow>
   recordIdentity (r\<lparr>xr_Nodes := ns\<rparr>) = recordIdentity r"
  by (simp add: recordIdentity_def)

lemma identity_finished [simp]: "recordIdentity (finishedRecord r e t) = recordIdentity r"
  by (simp add: finishedRecord_def Let_def)

lemma identity_retired [simp]: "recordIdentity (retiredRecord r t) = recordIdentity r"
  by (simp add: retiredRecord_def)

lemma identity_saved [simp]: "recordIdentity (savedRecord r e t) = recordIdentity r"
proof -
  have "recordIdentity (r\<lparr>xr_Nodes := savedNodes (xr_Nodes r)\<rparr>) = recordIdentity r"
    by (rule identity_nodes) (simp add: savedNodes_def comp_def)
  then show ?thesis by (simp add: savedRecord_def Let_def recordIdentity_def)
qed

text \<open>How a step ends after reading its record: an error, or a publication, maybe after reading
  the clock.\<close>

definition endsWith :: "'st engine \<Rightarrow> ExecutionRecord \<Rightarrow> 'st world \<Rightarrow> 'st world \<Rightarrow> bool" where
  "endsWith E r w w' \<longleftrightarrow>
     (\<exists>w1. sameStore w w1 \<and> w_Tick w \<le> w_Tick w1 \<and>
       (w' = w1 \<or> (\<exists>next res. recordIdentity next = recordIdentity r \<and> publish E next w1 = (w', res))))"

lemma ends_nothing: "endsWith E r w w"
  by (auto simp: endsWith_def sameStore_def)

lemma ends_publish: "publish E next w = (w', res) \<Longrightarrow> recordIdentity next = recordIdentity r \<Longrightarrow> endsWith E r w w'"
  unfolding endsWith_def by (rule exI [of _ w]) (auto simp: sameStore_def)

lemma ends_publish_then:
  assumes "thenE (publish E next) (retE x) w = (w', res)" and "recordIdentity next = recordIdentity r"
  shows "endsWith E r w w'"
proof -
  from assms(1) have "\<exists>res'. publish E next w = (w', res')"
    by (cases "publish E next w") (auto simp: thenE_app split: sum.splits)
  then show ?thesis using assms(2) ends_publish by blast
qed

lemma ends_now:
  assumes "bindE (now E) f w = (w', res)"
    and "\<And>t w1. f t w1 = (w', res) \<Longrightarrow> endsWith E r w1 w'"
  shows "endsWith E r w w'"
proof -
  let ?w1 = "w\<lparr>w_Tick := Suc (w_Tick w)\<rparr>"
  have "f (en_Now E (w_Tick w)) ?w1 = (w', res)"
    using assms(1) by (simp add: now_def bindE_def tick_app)
  from assms(2) [OF this] show ?thesis
    by (auto simp: endsWith_def sameStore_def intro: Suc_leD)
qed

lemma publishing_get:
  assumes "\<And>r w w' res. f r w = (w', res) \<Longrightarrow> endsWith E r w w'"
  shows "publishing E (bindE (getE w_Record) f)"
  unfolding publishing_def using assms unfolding endsWith_def by (fastforce simp: bindE_def)

lemma publishing_lockedTransition: "publishing E (lockedTransition E name phase code planID)"
  unfolding lockedTransition_def
proof (rule publishing_get, goal_cases)
  case (1 r w w' res)
  show ?case
  proof (cases "updateNode name (setPhase phase code planID) (xr_Nodes r)")
    case None
    then show ?thesis using 1 by (simp add: ends_nothing)
  next
    case (Some nodes)
    have "recordIdentity (r\<lparr>xr_Nodes := nodes\<rparr>) = recordIdentity r"
      by (rule identity_nodes [OF updateNode_identity [OF Some]]) (simp add: setPhase_def)
    then show ?thesis using 1 Some
      by (auto elim!: ends_now ends_publish_then simp: recordIdentity_def)
  qed
qed

lemma publishing_recordPlugin: "publishing E (recordPlugin E call)"
  unfolding recordPlugin_def Let_def
  by (rule publishing_get) (auto split: option.splits if_splits elim!: ends_publish intro: ends_nothing)

lemma publishing_setReview: "publishing E (setReview E name review)"
  unfolding setReview_def
  by (rule publishing_get)
    (auto split: option.splits intro: ends_nothing elim!: ends_publish intro!: identity_nodes
      dest: updateNode_identity)

lemma publishing_noteSavedFailure: "publishing E (noteSavedFailure E name code)"
  unfolding noteSavedFailure_def
  by (rule publishing_get)
    (auto split: option.splits intro: ends_nothing elim!: ends_publish intro!: identity_nodes
      dest: updateNode_identity)

lemma publishing_setPreparation: "publishing E (setPreparation E p)"
  unfolding setPreparation_def by (rule publishing_get) (auto elim!: ends_publish)

lemma publishing_finishLocked: "publishing E (finishLocked E runErr)"
  unfolding finishLocked_def by (rule publishing_get) (auto elim!: ends_now ends_publish_then)

lemma publishing_finishSaved: "publishing E (finishSaved E runErr)"
  unfolding finishSaved_def
  by (rule publishing_get) (auto split: if_splits intro: ends_nothing elim!: ends_now ends_publish)

lemma publishing_retire: "publishing E (retire E)"
  unfolding publishing_def
proof (intro allI impI)
  fix w w' res assume run: "retire E w = (w', res)"
  let ?w1 = "w\<lparr>w_Tick := Suc (w_Tick w)\<rparr>"
  have "\<exists>res'. publish E (retiredRecord (w_Record w) (en_Now E (w_Tick w))) ?w1 = (w', res')"
    using run by (cases "publish E (retiredRecord (w_Record w) (en_Now E (w_Tick w))) ?w1")
      (auto simp: retire_def now_def bindE_def thenE_def tick_app split: sum.splits)
  then show "\<exists>w1. sameStore w w1 \<and> w_Tick w \<le> w_Tick w1 \<and>
      (w' = w1 \<or> (\<exists>next res. recordIdentity next = recordIdentity (w_Record w) \<and> publish E next w1 = (w', res)))"
    by (intro exI [of _ ?w1]) (auto simp: sameStore_def)
qed

lemma publishingD:
  "publishing E m \<Longrightarrow> m w = (w', r) \<Longrightarrow>
   \<exists>w1. sameStore w w1 \<and> w_Tick w \<le> w_Tick w1 \<and>
     (w' = w1 \<or> (\<exists>next res. recordIdentity next = recordIdentity (w_Record w) \<and> publish E next w1 = (w', res)))"
  by (simp add: publishing_def)

lemmas publishing_steps = publishing_lockedTransition publishing_recordPlugin publishing_setReview
  publishing_noteSavedFailure publishing_setPreparation publishing_finishLocked publishing_finishSaved
  publishing_retire

lemma sessionStep_publish:
  assumes "sessionStep E w w'"
  shows "\<exists>w1. sameStore w w1 \<and> w_Tick w \<le> w_Tick w1 \<and>
      (w' = w1 \<or> (\<exists>next res. recordIdentity next = recordIdentity (w_Record w) \<and> publish E next w1 = (w', res)))"
  using assms by cases (elim publishing_steps [THEN publishingD])+

text \<open>The stored record is the session's; or another writer's revision (or an outcome the session
  never learned) is stored, and the session can no longer write.\<close>

definition coherent :: "('st \<Rightarrow> string \<Rightarrow> payload executionObject option) \<Rightarrow> 'st world \<Rightarrow> bool" where
  "coherent obj w \<longleftrightarrow>
     obj (w_Store w) (recordKey (xr_ID (w_Record w))) =
       Some \<lparr>eo_Revision = w_Revision w, eo_Data = RecordData (w_Record w)\<rparr>"

definition fenced :: "('st \<Rightarrow> string \<Rightarrow> payload executionObject option) \<Rightarrow> 'st world \<Rightarrow> bool" where
  "fenced obj w \<longleftrightarrow>
     w_Revision w \<noteq> '''' \<and>
     (\<forall>ob. obj (w_Store w) (recordKey (xr_ID (w_Record w))) = Some ob \<longrightarrow> eo_Revision ob \<noteq> w_Revision w)"

definition freshFrom :: "(ioFault \<Rightarrow> string) \<Rightarrow> 'st engine \<Rightarrow> 'st world \<Rightarrow> bool" where
  "freshFrom newRev E w \<longleftrightarrow>
     inj (\<lambda>n. newRev (en_IO E n)) \<and> (\<forall>n \<ge> w_Tick w. newRev (en_IO E n) \<noteq> w_Revision w)"

text \<open>The invariant of a session.\<close>

definition sessionInv :: "('st \<Rightarrow> string \<Rightarrow> payload executionObject option) \<Rightarrow> (ioFault \<Rightarrow> string) \<Rightarrow> 'st engine \<Rightarrow> 'st world \<Rightarrow> bool" where
  "sessionInv obj newRev E w \<longleftrightarrow>
     w_Revision w \<noteq> '''' \<and> freshFrom newRev E w \<and> (coherent obj w \<or> fenced obj w)"

context journal_store
begin

lemma sameStore_coherent: "sameStore w w' \<Longrightarrow> coherent obj w' = coherent obj w \<and> fenced obj w' = fenced obj w"
  by (simp add: sameStore_def coherent_def fenced_def)

lemma sameStore_fresh: "sameStore w w' \<Longrightarrow> w_Tick w \<le> w_Tick w' \<Longrightarrow> freshFrom newRev E w \<Longrightarrow> freshFrom newRev E w'"
  by (simp add: sameStore_def freshFrom_def)

lemma identity_ID: "recordIdentity r = recordIdentity r' \<Longrightarrow> xr_ID r = xr_ID r'"
  by (simp add: recordIdentity_def)

text \<open>A fenced session cannot write; a coherent one stays coherent or becomes fenced, and it is
  fenced only by a write whose result it did not learn.\<close>

lemma publish_fenced:
  assumes "publish E next w = (w', r)" and "fenced obj w" and "xr_ID next = xr_ID (w_Record w)"
  shows "\<not> isOk r \<and> obj (w_Store w') = obj (w_Store w) \<and> fenced obj w'"
  using assms by (cases rule: publish_cases) (auto simp: fenced_def cas_def)

lemma publish_coherent:
  assumes run: "publish E next w = (w', r)" and coh: "coherent obj w"
    and ident: "xr_ID next = xr_ID (w_Record w)" and fresh: "newRev (en_IO E (w_Tick w)) \<noteq> w_Revision w"
    and nonempty: "w_Revision w \<noteq> ''''"
  shows "(isOk r \<longrightarrow> coherent obj w' \<and> w_Record w' = next) \<and>
    (\<not> isOk r \<longrightarrow> w_Record w' = w_Record w \<and>
      ((coherent obj w' \<and> obj (w_Store w') = obj (w_Store w)) \<or>
       (fenced obj w' \<and> (\<exists>v. obj (w_Store w') = (obj (w_Store w))
          (recordKey (xr_ID next) \<mapsto> \<lparr>eo_Revision = v, eo_Data = RecordData next\<rparr>)))))"
  using run
proof (cases rule: publish_cases)
  case ok
  then show ?thesis by (auto simp: coherent_def replaced_def)
next
  case (lost e)
  then show ?thesis using ident fresh nonempty by (auto simp: fenced_def replaced_def)
next
  case (kept e)
  then show ?thesis using coh by (auto simp: coherent_def)
qed

lemma publish_inv:
  assumes run: "publish E next w = (w', r)" and inv: "sessionInv obj newRev E w" and ident: "xr_ID next = xr_ID (w_Record w)"
  shows "sessionInv obj newRev E w'"
proof -
  have fresh: "newRev (en_IO E (w_Tick w)) \<noteq> w_Revision w"
    using inv by (simp add: sessionInv_def freshFrom_def)
  have "coherent obj w' \<or> fenced obj w'"
    using inv publish_fenced [OF run _ ident] publish_coherent [OF run _ ident fresh]
    by (auto simp: sessionInv_def)
  moreover have "w_Revision w' \<noteq> '''' \<and> freshFrom newRev E w'"
    using run
  proof (cases rule: publish_cases)
    case ok
    have "newRev (en_IO E n) \<noteq> newRev (en_IO E (w_Tick w))" if "Suc (w_Tick w) \<le> n" for n
      using inv that unfolding sessionInv_def freshFrom_def inj_def by (metis Suc_n_not_le_n)
    then show ?thesis using ok inv newRev_nonempty by (auto simp: sessionInv_def freshFrom_def)
  qed (use inv in \<open>auto simp: sessionInv_def freshFrom_def\<close>)
  ultimately show ?thesis by (simp add: sessionInv_def)
qed

lemma step_inv:
  assumes "sessionStep E w w'" and inv: "sessionInv obj newRev E w"
  shows "sessionInv obj newRev E w' \<and> recordIdentity (w_Record w') = recordIdentity (w_Record w) \<and>
    onlyRecord obj (xr_ID (w_Record w)) w w' \<and> (fenced obj w \<longrightarrow> fenced obj w' \<and> obj (w_Store w') = obj (w_Store w))"
proof -
  obtain w1 where w1: "sameStore w w1" "w_Tick w \<le> w_Tick w1"
    and fin: "w' = w1 \<or> (\<exists>next res. recordIdentity next = recordIdentity (w_Record w) \<and> publish E next w1 = (w', res))"
    using sessionStep_publish [OF assms(1)] by blast
  have inv1: "sessionInv obj newRev E w1"
    using inv w1 sameStore_coherent [OF w1(1)] sameStore_fresh [OF w1]
    by (simp add: sessionInv_def sameStore_def)
  from fin show ?thesis
  proof
    assume "w' = w1"
    then show ?thesis using inv1 w1 sameStore_coherent [OF w1(1)] by (simp add: sameStore_def onlyRecord_def)
  next
    assume "\<exists>next res. recordIdentity next = recordIdentity (w_Record w) \<and> publish E next w1 = (w', res)"
    then obtain "next" res where nx: "recordIdentity next = recordIdentity (w_Record w)"
      and pub: "publish E next w1 = (w', res)" by blast
    have id1: "xr_ID next = xr_ID (w_Record w1)" using identity_ID [OF nx] w1 by (simp add: sameStore_def)
    have "recordIdentity (w_Record w') = recordIdentity (w_Record w)"
      using pub by (cases rule: publish_cases) (use nx w1 in \<open>simp_all add: sameStore_def\<close>)
    moreover have "onlyRecord obj (xr_ID (w_Record w)) w w'"
      using pub by (cases rule: publish_cases)
        (use identity_ID [OF nx] w1 in \<open>auto simp: onlyRecord_def replaced_def sameStore_def\<close>)
    ultimately show ?thesis
      using publish_inv [OF pub inv1 id1] publish_fenced [OF pub _ id1] w1 sameStore_coherent [OF w1(1)]
      by (auto simp: sameStore_def)
  qed
qed

lemma steps_inv:
  assumes "(sessionStep E)\<^sup>*\<^sup>* w w'" and "sessionInv obj newRev E w"
  shows "sessionInv obj newRev E w' \<and> recordIdentity (w_Record w') = recordIdentity (w_Record w) \<and>
    onlyRecord obj (xr_ID (w_Record w)) w w' \<and> (fenced obj w \<longrightarrow> fenced obj w' \<and> obj (w_Store w') = obj (w_Store w))"
  using assms
proof (induction rule: rtranclp_induct)
  case base
  then show ?case by (simp add: onlyRecord_def)
next
  case (step w1 w2)
  then have prev: "sessionInv obj newRev E w1" "recordIdentity (w_Record w1) = recordIdentity (w_Record w)"
    "onlyRecord obj (xr_ID (w_Record w)) w w1"
    "fenced obj w \<longrightarrow> fenced obj w1 \<and> obj (w_Store w1) = obj (w_Store w)" by blast+
  from step_inv [OF step.hyps(2) prev(1)] prev identity_ID [OF prev(2)] show ?case
    by (auto intro: only_record.trans)
qed

end

subsection \<open>The local engine\<close>

text \<open>An engine whose execution settings name no bucket uses the local store.\<close>

definition localEngine :: "(payload \<Rightarrow> nat) \<Rightarrow> (payload executionDir) engine \<Rightarrow> (payload executionDir) engine" where
  "localEngine dlen E = E\<lparr>en_Store := localStore dlen\<rparr>"

interpretation local_journal: journal_store "localEngine dlen E" localObj localNames localRev
  by (simp add: journal_store_def localEngine_def local_store.execution_store_axioms)

text \<open>
  C17: Journal sessions never overwrite and never diverge. After any sequence of critical sections of
  concurrent workers, plugin recorders and closing code, under any failures of the store, the stored
  record is exactly the session's record, or the session is fenced: another revision is stored, and
  every later operation leaves the store as it is (revisions are random draws, taken not to repeat). The identity of the run (ID, scope, operation,
  creation time, node names and targets) never changes, and no other record is touched.
\<close>

theorem session_coherent_or_fenced:
  assumes "(sessionStep (localEngine dlen E))\<^sup>*\<^sup>* w w'"
    and "sessionInv localObj localRev (localEngine dlen E) w"
  shows "(coherent localObj w' \<or> fenced localObj w') \<and>
    recordIdentity (w_Record w') = recordIdentity (w_Record w) \<and>
    (\<forall>i. i \<noteq> xr_ID (w_Record w) \<longrightarrow>
       localObj (w_Store w') (recordKey i) = localObj (w_Store w) (recordKey i)) \<and>
    (fenced localObj w \<longrightarrow> fenced localObj w' \<and> localObj (w_Store w') = localObj (w_Store w))"
  using local_journal.steps_inv [OF assms] by (auto simp: sessionInv_def onlyRecord_def)

definition sampleExecution :: ExecutionRecord where
  "sampleExecution = \<lparr>xr_PluginCalls = [], xr_Selection = None, xr_SchemaVersion = 1, xr_Preparation = '''',
     xr_Backup = False, xr_ID = sampleID, xr_Scope = ''scope'', xr_Binding = '''', xr_Operation = ''apply'',
     xr_Status = ''preparing'', xr_CreatedAt = 0, xr_UpdatedAt = 0, xr_FinishedAt = None, xr_RecoveryAt = None,
     xr_Nodes = [\<lparr>xn_Name = ''a'', xn_Review = None, xn_Target = ''t'', xn_Phase = ''pending'', xn_PlanID = '''', xn_Code = ''''\<rparr>]\<rparr>"

definition storedAs :: "ExecutionRecord \<Rightarrow> payload executionDir" where
  "storedAs r = [(recordKey (xr_ID r), RegularFile (Encoded \<lparr>eo_Revision = ''rev-'', eo_Data = RecordData r\<rparr> 1))]"

definition samplePlanDoc :: planDoc where
  "samplePlanDoc = \<lparr>pd_FormatVersion = ''1.2'', pd_Variables = [], pd_Outputs = [], pd_OutputChanges = [],
     pd_ResourceChanges = [\<lparr>rc_Address = ''x'', rc_Actions = [''create'']\<rparr>], pd_Trailing = False\<rparr>"

definition sampleEngine :: "(payload executionDir) engine" where
  "sampleEngine = \<lparr>en_Store = localStore (\<lambda>_. 0), en_OpenErr = None, en_Graph = sampleGraph, en_Blueprint = None,
     en_BaseDir = ''/w'', en_Digest = (\<lambda>_. ''scope''), en_EnvValue = (\<lambda>_ _. Inr ''''), en_WorkspaceFile = (\<lambda>_. Inr None),
     en_IO = (\<lambda>n. noFault (replicate (Suc n) (CHR ''a''))), en_Now = int, en_Random = (\<lambda>n. replicate 32 (CHR ''b'')),
     en_Plugin = (\<lambda>_. \<lparr>pa_Calls = [], pa_Err = None\<rparr>), en_Err = (\<lambda>_. None), en_OS = sampleOS,
     en_Binary = ''terraform'', en_Stdin = True, en_Value = sampleValueLib, en_Has = (\<lambda>_. False),
     en_Line = (\<lambda>_. (''yes'', False)), en_Bool = (\<lambda>_. True), en_Text = (\<lambda>_. Inr ''text''), en_Input = (\<lambda>_. Inr JNull),
     en_Outputs = (\<lambda>_. Inr []), en_PlanDoc = (\<lambda>_. Inr samplePlanDoc), en_Changed = (\<lambda>_. Inr True),
     en_Tree = (\<lambda>_. Inr []), en_Creds = (\<lambda>_. [])\<rparr>"

definition sampleWorldOf :: "ExecutionRecord \<Rightarrow> (payload executionDir) world" where
  "sampleWorldOf r = \<lparr>w_Store = storedAs r, w_Tick = 0, w_Record = r, w_Revision = ''rev-'', w_Plugins = False,
     w_Completion = None, w_Backups = [], w_Mutations = [], w_Snapshots = [], w_Contexts = [], w_Reviews = []\<rparr>"

lemma sampleEngine_local: "localEngine (\<lambda>_. 0) sampleEngine = sampleEngine"
  by (simp add: localEngine_def sampleEngine_def)

lemma sample_coherent: "executionKeyPattern (recordKey (xr_ID r)) \<Longrightarrow> coherent localObj (sampleWorldOf r)"
  by (simp add: coherent_def localObj_def sampleWorldOf_def storedAs_def decodeObject_def executionObjectLimit_def)

lemma sample_inv:
  assumes "executionKeyPattern (recordKey (xr_ID r))"
  shows "sessionInv localObj localRev sampleEngine (sampleWorldOf r)"
proof -
  have "inj (\<lambda>n. localRev (en_IO sampleEngine n))"
    by (rule injI) (simp add: localRev_def newExecutionID_def noFault_def sampleEngine_def)
  then show ?thesis using sample_coherent [OF assms]
    by (auto simp: sessionInv_def freshFrom_def sampleWorldOf_def localRev_def newExecutionID_def noFault_def sampleEngine_def)
qed

lemma sampleExecution_key: "executionKeyPattern (recordKey (xr_ID sampleExecution))"
  using sampleID_key by (simp add: recordKey_def sampleExecution_def)

theorem session_coherent_or_fenced_witness:
  "recordIdentity (w_Record (fst (lockedTransition sampleEngine ''a'' ''applying'' '''' '''' (sampleWorldOf sampleExecution)))) =
     recordIdentity sampleExecution \<and>
   (coherent localObj (fst (lockedTransition sampleEngine ''a'' ''applying'' '''' '''' (sampleWorldOf sampleExecution))) \<or>
    fenced localObj (fst (lockedTransition sampleEngine ''a'' ''applying'' '''' '''' (sampleWorldOf sampleExecution))))"
proof -
  have "sessionStep sampleEngine (sampleWorldOf sampleExecution)
    (fst (lockedTransition sampleEngine ''a'' ''applying'' '''' '''' (sampleWorldOf sampleExecution)))"
    by (rule stepTransition) (rule surjective_pairing)
  then have "(sessionStep (localEngine (\<lambda>_. 0) sampleEngine))\<^sup>*\<^sup>* (sampleWorldOf sampleExecution)
    (fst (lockedTransition sampleEngine ''a'' ''applying'' '''' '''' (sampleWorldOf sampleExecution)))"
    unfolding sampleEngine_local by blast
  from session_coherent_or_fenced [OF this] sample_inv [OF sampleExecution_key] sampleEngine_local
  show ?thesis by (simp add: sampleWorldOf_def)
qed

end
