(* ===== verification/Journal_History.thy ===== *)
theory Journal_History
  imports Journal_Session
begin

text \<open>
  Retention, cancellation, the barrier before new executions, and recovery: no operation of the
  history destroys the evidence of an unresolved mutation, and recovery never starts one.
\<close>
lemma only_of_records: "relates (sameRecords obj) m \<Longrightarrow> relates (onlyRecord obj i) m"
  by (erule relates_mono) (rule sameRecords_only)

lemma only_of_same: "relates sameStore m \<Longrightarrow> relates (onlyRecord obj i) m"
  by (rule only_of_records) (rule records_of_same)

lemma evidence_of_same: "relates sameStore m \<Longrightarrow> relates (keepsEvidence obj) m"
  by (erule relates_mono) (rule sameRecords_evidence [OF sameStore_records])

lemma evidence_of_records: "relates (sameRecords obj) m \<Longrightarrow> relates (keepsEvidence obj) m"
  by (erule relates_mono) (rule sameRecords_evidence)

context journal_store
begin

lemma only_writeRecord: "xr_ID next = i \<Longrightarrow> relates (onlyRecord obj i) (writeRecord E next revision)"
  by (auto simp: relates_def onlyRecord_def dest: writeRecord_other)

lemma only_storeRemove: "relates (onlyRecord obj i) (storeRemove E (recordKey i) revision)"
  using storeRemove_records by (fastforce simp: relates_def onlyRecord_def)

lemma only_expireRecord: "xr_ID r = i \<Longrightarrow> relates (onlyRecord obj i) (expireRecord E r revision t)"
  unfolding expireRecord_def frontierExpired_def Let_def
  by (intro relatesI only_of_same [OF same_frontierNodes] only_writeRecord) simp

lemma expireRecord_ID:
  assumes "expireRecord E r revision t w = (w', Inr (r', revision'))"
  shows "xr_ID r' = xr_ID r"
  using assms by (auto simp: expireRecord_def Let_def bindE_Inr split: if_splits)

lemma only_pruneRecord:
  assumes "xr_ID r = i"
  shows "relates (onlyRecord obj i) (pruneRecord E t (recordKey i) r revision)"
  unfolding relates_def
proof (intro allI impI)
  fix w w' res assume "pruneRecord E t (recordKey i) r revision w = (w', res)"
  then show "onlyRecord obj i w w'"
    unfolding pruneRecord_def
  proof (cases rule: bindE_cases)
    case (fail e)
    then show ?thesis using relatesD [OF only_expireRecord [OF assms]] by blast
  next
    case (ok x w1)
    have rest: "relates (onlyRecord obj i)
      (case xr_FinishedAt r' of None \<Rightarrow> retE False
       | Some f \<Rightarrow> thenE (cleanupExecution E r')
           (if t - f < xc_RecordRetention (ExecutionSettings (en_Blueprint E)) then retE False
            else thenE (removeBackups E r') (thenE (storeRemove E (recordKey i) revision') (retE True))))"
      for r' revision'
      by (intro relatesI only_of_records [OF records_cleanup]
          only_of_records [OF records_removeBackups] only_storeRemove)
    from ok relatesD [OF only_expireRecord [OF assms] ok(1)] relatesD [OF rest] show ?thesis
      by (cases x) (auto intro: only_record.trans)
  qed
qed

lemma isRecordKey_trim: "isRecordKey key \<Longrightarrow> recordKey (TrimSuffix key ''.json'') = key"
  by (auto simp: isRecordKey_def recordKey_def HasSuffix_iff)

lemma evidence_pruneKey [relatesI]: "relates (keepsEvidence obj) (pruneKey E scope t key)"
  unfolding relates_def
proof (intro allI impI)
  fix w w' res assume run: "pruneKey E scope t key w = (w', res)"
  show "keepsEvidence obj w w'"
  proof (cases "isRecordKey key")
    case False
    then show ?thesis using run by (simp add: pruneKey_def keeps_evidence.refl)
  next
    case True
    let ?i = "TrimSuffix key ''.json''"
    from run True have "bindE (readExecutionRecord E ?i) (\<lambda>(r, revision).
        if xr_Scope r \<noteq> scope \<or> executionNeedsRecovery r then retE False
        else pruneRecord E t key r revision) w = (w', res)" by (simp add: pruneKey_def)
    then show ?thesis
    proof (cases rule: bindE_cases)
      case (fail e)
      then show ?thesis using relatesD [OF evidence_of_same [OF same_readExecutionRecord]] by blast
    next
      case (ok x w1)
      obtain r revision where x: "x = (r, revision)" by fastforce
      note rd = readExecutionRecord_ok [OF ok(1) [unfolded x]]
      show ?thesis
      proof (cases "xr_Scope r \<noteq> scope \<or> executionNeedsRecovery r")
        case True
        then show ?thesis using ok(2) x rd by (auto simp: sameStore_def keepsEvidence_def)
      next
        case False
        with ok(2) x True have "pruneRecord E t (recordKey ?i) r revision w1 = (w', res)"
          by (simp add: isRecordKey_trim)
        then have only: "onlyRecord obj ?i w1 w'" using rd relatesD [OF only_pruneRecord] by blast
        have "keepsEvidence obj w1 w'"
          using only False rd
          by (intro evidence_other [of ?i]) (auto simp: onlyRecord_def evidence_def sameStore_def)
        then show ?thesis using rd by (simp add: sameStore_def keepsEvidence_def)
      qed
    qed
  qed
qed

lemma evidence_pruneLoop [relatesI]: "relates (keepsEvidence obj) (pruneLoop E scope t keys removed)"
proof (induction keys arbitrary: removed)
  case (Cons key keys)
  then show ?case unfolding pruneLoop.simps by (intro relatesI)
qed (simp only: pruneLoop.simps, rule keeps_evidence.ret)

lemma evidence_pruneExecutions [relatesI]: "relates (keepsEvidence obj) (pruneExecutions E)"
  unfolding pruneExecutions_def
  by (intro relatesI evidence_of_same [OF same_storeList] evidence_of_same [OF same_now])

lemma evidence_PruneExecutions: "relates (keepsEvidence obj) (PruneExecutions E)"
  unfolding PruneExecutions_def by (intro relatesI evidence_of_same [OF same_callE])

lemma openRecord_ok:
  assumes "openRecord E ident w = (w', Inr (r, revision))"
  shows "obj (w_Store w) (recordKey ident) = Some \<lparr>eo_Revision = revision, eo_Data = RecordData r\<rparr> \<and>
    xr_ID r = ident \<and> xr_Scope r = executionScope E \<and> sameStore w w'"
proof -
  from assms obtain w1 where rd: "readExecutionRecord E ident w1 = (w', Inr (r, revision))"
    and pre: "w_Store w1 = w_Store w" and sc: "xr_Scope r = executionScope E"
    by (auto simp: openRecord_def thenE_Inr bindE_Inr guardE_Inr sameStore_def dest!: relatesD [OF same_callE])
  from readExecutionRecord_ok [OF rd] pre relatesD [OF same_openRecord assms] sc show ?thesis by simp
qed

lemma evidence_CancelExecution: "relates (keepsEvidence obj) (CancelExecution E ident)"
  unfolding relates_def
proof (intro allI impI)
  fix w w' res assume "CancelExecution E ident w = (w', res)"
  then show "keepsEvidence obj w w'"
    unfolding CancelExecution_def
  proof (cases rule: bindE_cases)
    case (fail e)
    then show ?thesis using relatesD [OF evidence_of_same [OF same_openRecord]] by blast
  next
    case (ok x w1)
    obtain r revision where x: "x = (r, revision)" by fastforce
    note rd = openRecord_ok [OF ok(1) [unfolded x]]
    have start: "keepsEvidence obj w w1" using rd by (simp add: sameStore_def keepsEvidence_def)
    show ?thesis
    proof (cases "executionNeedsRecovery r \<or> xr_FinishedAt r \<noteq> None")
      case True
      have "relates (keepsEvidence obj) (if executionNeedsRecovery r
          then throwE (WithDiagnostic ''recovery_required'' (ErrText (xr_ID r)))
          else thenE (cleanupExecution E r) (retE r))"
        by (intro relatesI evidence_of_records [OF records_cleanup])
      from relatesD [OF this, of w1 w' res] ok(2) x True start show ?thesis
        by (auto split: if_splits intro: keeps_evidence.trans)
    next
      case False
      let ?w2 = "w1\<lparr>w_Record := r, w_Revision := revision\<rparr>"
      have body: "relates (sessionOf obj ident) (bindE (now E) (\<lambda>t. thenE (publish E (cancelledRecord r t))
          (thenE (cleanupExecution E (cancelledRecord r t)) (retE (cancelledRecord r t)))))"
        using rd by (intro relatesI session_reads publish_own own_cleanup) (simp add: cancelledRecord_def)
      have "bindE (now E) (\<lambda>t. thenE (publish E (cancelledRecord r t))
          (thenE (cleanupExecution E (cancelledRecord r t)) (retE (cancelledRecord r t)))) ?w2 = (w', res)"
        using ok(2) x False by (simp add: Let_def openSession_def thenE_def bindE_def)
      from relatesD [OF body this] have "keepsEvidence obj ?w2 w'"
        using rd False by (intro session_keeps_evidence [of ident]) (auto simp: evidence_def sameStore_def)
      then have "keepsEvidence obj w1 w'" by (simp add: keepsEvidence_def)
      with start show ?thesis by (rule keeps_evidence.trans)
    qed
  qed
qed

end

subsection \<open>The barrier, recovery and new executions\<close>

lemma forE_all:
  assumes "forE xs f w = (w', Inr u)" and "\<And>x. x \<in> set xs \<Longrightarrow> relates sameStore (f x)"
  shows "\<forall>x \<in> set xs. \<exists>w1 w2 u'. sameStore w w1 \<and> f x w1 = (w2, Inr u')"
  using assms
proof (induction xs arbitrary: w)
  case (Cons x xs)
  then obtain w1 v where x: "f x w = (w1, Inr v)" and xs: "forE xs f w1 = (w', Inr u)"
    by (auto simp: thenE_Inr)
  have same: "sameStore w w1" using Cons.prems(2) x by (auto dest: relatesD)
  have "\<forall>y \<in> set xs. \<exists>w2 w3 u'. sameStore w1 w2 \<and> f y w2 = (w3, Inr u')"
    using Cons.prems(2) by (intro Cons.IH [OF xs]) simp
  then show ?case using x same same_store.trans same_store.refl by (metis set_ConsD)
qed simp

lemma same_barrierKey: "relates sameStore (barrierKey E scope exceptID readOnly key)"
  unfolding barrierKey_def by (intro relatesI)

text \<open>What a successful barrier has established about every record in the store.\<close>

definition barrierPassed ::
  "('st \<Rightarrow> string \<Rightarrow> payload executionObject option) \<Rightarrow> ('st \<Rightarrow> string set) \<Rightarrow> string \<Rightarrow> string \<Rightarrow> bool \<Rightarrow> 'st \<Rightarrow> bool" where
  "barrierPassed obj names scope exceptID readOnly st \<longleftrightarrow>
     (\<forall>key \<in> names st. isRecordKey key \<longrightarrow>
        (\<exists>r revision. obj st key = Some \<lparr>eo_Revision = revision, eo_Data = RecordData r\<rparr> \<and> xr_Scope r = scope \<and>
           (readOnly \<or> recordKey exceptID = key \<or> \<not> executionNeedsRecovery r)))"

context journal_store
begin

lemma storeList_ok: "storeList E w = (w', Inr keys) \<Longrightarrow> set keys = names (w_Store w)"
  using list_ok by (auto simp: storeList_def bindE_def tick_app)

lemma barrierKey_ok:
  assumes "barrierKey E scope exceptID readOnly key w = (w', Inr u)" and "isRecordKey key"
  shows "\<exists>r revision. obj (w_Store w) key = Some \<lparr>eo_Revision = revision, eo_Data = RecordData r\<rparr> \<and> xr_Scope r = scope \<and>
    (readOnly \<or> recordKey exceptID = key \<or> \<not> executionNeedsRecovery r)"
proof -
  from assms obtain r revision w1 where rd: "readExecutionRecord E (TrimSuffix key ''.json'') w = (w1, Inr (r, revision))"
    and fin: "(if xr_Scope r \<noteq> scope then throwE (WithDiagnostic ''execution_scope_mismatch'' (ErrText (xr_ID r)))
        else if xr_ID r \<noteq> exceptID \<and> executionNeedsRecovery r \<and> \<not> readOnly
          then throwE (WithDiagnostic ''recovery_required'' (ErrText (xr_ID r)))
        else retE ()) w1 = (w', Inr u)"
    by (auto simp: barrierKey_def bindE_Inr)
  note rec = readExecutionRecord_ok [OF rd]
  from fin have "xr_Scope r = scope \<and> (xr_ID r = exceptID \<or> \<not> executionNeedsRecovery r \<or> readOnly)"
    by (auto split: if_splits)
  with rec isRecordKey_trim [OF assms(2)] show ?thesis by auto
qed

lemma barrier_ok:
  assumes "checkExecutionBarrier E scope exceptID readOnly w = (w', Inr u)"
  shows "barrierPassed obj names scope exceptID readOnly (w_Store w)"
proof -
  from assms obtain keys w1 where ls: "storeList E w = (w1, Inr keys)"
    and loop: "forE keys (barrierKey E scope exceptID readOnly) w1 = (w', Inr u)"
    by (auto simp: checkExecutionBarrier_def bindE_Inr)
  have w1: "w_Store w1 = w_Store w" using relatesD [OF same_storeList ls] by (simp add: sameStore_def)
  show ?thesis unfolding barrierPassed_def
  proof (intro ballI impI)
    fix key assume "key \<in> names (w_Store w)" and rk: "isRecordKey key"
    then have "key \<in> set keys" using storeList_ok [OF ls] by simp
    then obtain w2 w3 u' where "sameStore w1 w2" "barrierKey E scope exceptID readOnly key w2 = (w3, Inr u')"
      using forE_all [OF loop same_barrierKey] by blast
    with barrierKey_ok [OF _ rk, of scope exceptID readOnly w2 w3 u'] w1
    show "\<exists>r revision. obj (w_Store w) key = Some \<lparr>eo_Revision = revision, eo_Data = RecordData r\<rparr> \<and> xr_Scope r = scope \<and>
        (readOnly \<or> recordKey exceptID = key \<or> \<not> executionNeedsRecovery r)"
      by (simp add: sameStore_def)
  qed
qed

lemma own_startPlugins: "relates (sessionOf obj i) (startPlugins E)"
  unfolding startPlugins_def
  by (intro relatesI session_reads own_pluginHost session_modify) simp

lemma own_startOrFinish: "relates (sessionOf obj i) (startOrFinish E)"
  unfolding startOrFinish_def by (intro relatesI own_startPlugins own_finish)

lemma storeWrite_new:
  assumes "storeWrite E (recordKey i) data '''' w = (w', r)"
  shows "onlyRecord obj i w w' \<and> (obj (w_Store w') = obj (w_Store w) \<or> recordKey i \<notin> names (w_Store w))"
  using assms by (cases rule: storeWrite_cases) (auto simp: onlyRecord_def replaced_def cas_def)

text \<open>A new execution changes no other record, and never one that exists.\<close>

lemma createExecution_only:
  assumes run: "createExecution E r w = (w', res)"
  shows "onlyRecord obj (xr_ID r) w w' \<and>
    (obj (w_Store w') = obj (w_Store w) \<or> recordKey (xr_ID r) \<notin> names (w_Store w))"
proof -
  obtain w1 r1 where wr: "storeWrite E (recordKey (xr_ID r)) (RecordData r) '''' w = (w1, r1)"
    by (meson surj_pair)
  note new = storeWrite_new [OF wr]
  show ?thesis
  proof (cases r1)
    case (Inl e)
    then have "w' = w1" using run wr by (simp add: createExecution_def bindE_def tryE_def)
    then show ?thesis using new by simp
  next
    case (Inr revision)
    let ?w2 = "w1\<lparr>w_Record := r, w_Revision := revision\<rparr>"
    have "startOrFinish E ?w2 = (w', res)"
      using run wr Inr by (simp add: createExecution_def openSession_def thenE_def bindE_def tryE_def)
    then have "sessionOf obj (xr_ID r) ?w2 w'" by (rule relatesD [OF own_startOrFinish])
    then have "onlyRecord obj (xr_ID r) w w'"
      using new by (simp add: sessionOf_def onlyRecord_def)
    moreover have "recordKey (xr_ID r) \<notin> names (w_Store w)"
      using wr by (cases rule: storeWrite_cases) (use Inr in \<open>auto simp: cas_def\<close>)
    ultimately show ?thesis by blast
  qed
qed

lemma evidence_createExecution: "relates (keepsEvidence obj) (createExecution E r)"
  unfolding relates_def
proof (intro allI impI)
  fix w w' res assume run: "createExecution E r w = (w', res)"
  note c = createExecution_only [OF run]
  from c have "obj (w_Store w') = obj (w_Store w) \<or> recordKey (xr_ID r) \<notin> names (w_Store w)" by blast
  then show "keepsEvidence obj w w'"
  proof
    assume "recordKey (xr_ID r) \<notin> names (w_Store w)"
    then have "\<not> evidence obj (w_Store w) (xr_ID r) ob" for ob
      using obj_names by (auto simp: evidence_def)
    with c show ?thesis by (intro evidence_other [of "xr_ID r"]) (auto simp: onlyRecord_def)
  qed (simp add: keepsEvidence_def evidence_def)
qed

lemma evidence_beginExecution:
  "relates (keepsEvidence obj) (beginExecution E operation ns selection readOnly)"
  unfolding beginExecution_def
  by (intro relatesI evidence_of_same [OF same_barrier] evidence_of_same [OF same_now]
      evidence_of_same [OF same_tick] evidence_createExecution)

text \<open>Without plugins, the session of a new execution is the record just stored.\<close>

lemma createExecution_coherent:
  assumes run: "createExecution E r w = (w', Inr u)" and "\<not> hasPlugins E"
  shows "coherent obj w' \<and> w_Record w' = r"
proof -
  have off: "startOrFinish E v = (v, Inr ())" for v
    using assms(2) by (simp add: startOrFinish_def startPlugins_def bindE_def tryE_def retE_def)
  obtain w1 r1 where wr: "storeWrite E (recordKey (xr_ID r)) (RecordData r) '''' w = (w1, r1)"
    by (meson surj_pair)
  with run off obtain revision where r1: "r1 = Inr revision" and w': "w' = w1\<lparr>w_Record := r, w_Revision := revision\<rparr>"
    by (cases r1) (auto simp: createExecution_def openSession_def thenE_def bindE_def tryE_def)
  from wr show ?thesis
    by (cases rule: storeWrite_cases) (auto simp: r1 w' coherent_def replaced_def)
qed

lemma beginExecution_ok:
  assumes "beginExecution E operation ns selection readOnly w = (w', Inr u)"
  shows "barrierPassed obj names (executionScope E) '''' readOnly (w_Store w) \<and>
    (\<not> hasPlugins E \<longrightarrow> coherent obj w' \<and> xr_Status (w_Record w') = ''preparing'' \<and>
       list_all2 (\<lambda>name n. xn_Name n = name \<and> xn_Phase n = ''pending'' \<and>
         executionTarget E name = Inr (xn_Target n)) ns (xr_Nodes (w_Record w')))"
proof -
  from assms obtain w1 w2 removed nodes where
    bar: "checkExecutionBarrier E (executionScope E) '''' readOnly w = (w1, Inr ())"
    and nodes: "mapR (pendingNode E) ns = Inr nodes"
    and create: "createExecution E (newRecord E (newExecutionID ''run'' (en_Random E (Suc (w_Tick w2))))
        operation selection (en_Now E (w_Tick w2)) nodes) (w2\<lparr>w_Tick := Suc (Suc (w_Tick w2))\<rparr>) = (w', Inr u)"
    unfolding beginExecution_def
    by (auto simp: thenE_Inr bindE_Inr now_def tick_app split: option.splits)
  have "list_all2 (\<lambda>name n. xn_Name n = name \<and> xn_Phase n = ''pending'' \<and>
         executionTarget E name = Inr (xn_Target n)) ns nodes"
    using nodes by (auto simp: mapR_eq_Inr pendingNode_def elim!: list.rel_mono_strong)
  then show ?thesis
    using barrier_ok [OF bar] createExecution_coherent [OF create] by (auto simp: newRecord_def)
qed

lemma CancelExecution_refuses:
  assumes "evidence obj (w_Store w) ident ob"
  shows "\<not> isOk (snd (CancelExecution E ident w))"
proof (cases "openRecord E ident w")
  case (Pair w1 res)
  show ?thesis
  proof (cases res)
    case (Inl e)
    then show ?thesis using Pair by (simp add: CancelExecution_def bindE_def)
  next
    case (Inr x)
    obtain r revision where x: "x = (r, revision)" by fastforce
    have "executionNeedsRecovery r"
      using openRecord_ok [of ident w w1 r revision] Pair Inr x assms by (auto simp: evidence_def)
    then show ?thesis using Pair Inr x by (simp add: CancelExecution_def bindE_def)
  qed
qed

end

lemma joinErr_None: "joinErr es = None \<longleftrightarrow> (\<forall>e \<in> set es. e = None)"
  by (induction es) (auto simp: joinErr_def List.map_filter_def split: list.splits option.splits)

lemma recoverNode_issues:
  assumes "recoverNode E allowInit issues node w = (w', Inr issues')"
  shows "\<exists>more. issues' = issues @ more \<and> (xn_Phase node \<in> set unknownPhases \<longrightarrow> (\<exists>e. Some e \<in> set more))"
  using assms
  by (auto simp: recoverNode_def bindE_Inr thenE_Inr split: if_splits sum.splits)
    (metis old.sum.exhaust old.unit.exhaust)

lemma recoverNodes_issues:
  assumes "recoverNodes E allowInit issues nodes w = (w', Inr issues')" and "joinErr issues' = None"
  shows "joinErr issues = None \<and> (\<forall>n \<in> set nodes. xn_Phase n \<notin> set unknownPhases)"
  using assms
proof (induction nodes arbitrary: issues w)
  case (Cons n ns)
  then obtain w1 mid where n: "recoverNode E allowInit issues n w = (w1, Inr mid)"
    and ns: "recoverNodes E allowInit mid ns w1 = (w', Inr issues')"
    by (auto simp: bindE_Inr)
  from recoverNode_issues [OF n] Cons.IH [OF ns Cons.prems(2)] show ?case
    by (auto simp: joinErr_None)
qed simp

context journal_store
begin

lemma own_collectOutputs: "relates (sessionOf obj i) (collectOutputs E name node creds allowInit)"
  unfolding collectOutputs_def Let_def
  by (intro relatesI session_reads own_setPreparation own_credentialHost)

lemma own_recoverNodeOutputs: "relates (sessionOf obj i) (recoverNodeOutputs E name allowInit)"
  unfolding recoverNodeOutputs_def Let_def
  by (intro relatesI session_reads own_collectOutputs own_credentialHost)

lemma own_recoverNode: "relates (sessionOf obj i) (recoverNode E allowInit issues node)"
  unfolding recoverNode_def by (intro relatesI own_recoverNodeOutputs own_transition)

lemma own_recoverNodes: "relates (sessionOf obj i) (recoverNodes E allowInit issues nodes)"
proof (induction nodes arbitrary: issues)
  case (Cons n ns)
  then show ?case unfolding recoverNodes.simps by (intro relatesI own_recoverNode)
qed (simp only: recoverNodes.simps, rule session_of.ret)

lemma retire_ok:
  assumes "retire E w = (w', Inr r)"
  shows "coherent obj w' \<and> xr_RecoveryAt (w_Record w') \<noteq> None \<and> xr_FinishedAt (w_Record w') \<noteq> None \<and>
    xr_Nodes (w_Record w') = xr_Nodes (w_Record w) \<and> r = w_Record w'"
proof -
  let ?w1 = "w\<lparr>w_Tick := Suc (w_Tick w)\<rparr>" and ?next = "retiredRecord (w_Record w) (en_Now E (w_Tick w))"
  have pub: "publish E ?next ?w1 = (w', Inr ())" and r: "r = w_Record w'"
    using assms by (auto simp: retire_def now_def bindE_Inr thenE_Inr tick_app)
  from pub show ?thesis
    by (cases rule: publish_cases) (use r in \<open>auto simp: coherent_def replaced_def retiredRecord_def\<close>)
qed

lemma RecoverExecution_only:
  "relates (onlyRecord obj ident) (RecoverExecution E ident confirmStopped stateReviewed replan allowInit)"
  unfolding relates_def
proof (intro allI impI)
  fix w w' res
  assume run: "RecoverExecution E ident confirmStopped stateReviewed replan allowInit w = (w', res)"
  have own: "relates (sessionOf obj ident) (recoverSession E replan allowInit r)" for r
    unfolding recoverSession_def by (intro relatesI own_retire own_recoverNodes)
  show "onlyRecord obj ident w w'"
  proof (cases "confirmStopped \<and> (replan \<longrightarrow> stateReviewed)")
    case False
    then show ?thesis using run by (auto simp: RecoverExecution_def thenE_def bindE_def guardE_def only_record.refl split: if_splits)
  next
    case True
    with run have "bindE (openRecord E ident) (\<lambda>(r, revision).
        if \<not> executionNeedsRecovery r then throwE (ErrText ''does not need recovery'')
        else if pluginRecoveryRequired r then throwE (ErrText ''unresolved plugin effects'')
        else thenE (openSession r revision) (recoverSession E replan allowInit r)) w = (w', res)"
      by (simp add: RecoverExecution_def thenE_app)
    then show ?thesis
    proof (cases rule: bindE_cases)
      case (fail e)
      then show ?thesis using relatesD [OF only_of_same [OF same_openRecord]] by blast
    next
      case (ok x w1)
      obtain r revision where x: "x = (r, revision)" by fastforce
      note rd = openRecord_ok [OF ok(1) [unfolded x]]
      let ?w2 = "w1\<lparr>w_Record := r, w_Revision := revision\<rparr>"
      show ?thesis
      proof (cases "executionNeedsRecovery r \<and> \<not> pluginRecoveryRequired r")
        case True
        with ok(2) x have "recoverSession E replan allowInit r ?w2 = (w', res)"
          by (simp add: openSession_def thenE_def bindE_def)
        from relatesD [OF own this] rd show ?thesis
          by (simp add: sessionOf_def onlyRecord_def sameStore_def)
      next
        case False
        then have "w' = w1" using ok(2) x by (auto split: if_splits)
        then show ?thesis using rd by (simp add: sameStore_def onlyRecord_def)
      qed
    qed
  qed
qed

lemma RecoverExecution_ok:
  assumes "RecoverExecution E ident confirmStopped stateReviewed replan allowInit w = (w', Inr out)"
  shows "confirmStopped \<and> (replan \<longrightarrow> stateReviewed) \<and> out = w_Record w' \<and> coherent obj w' \<and>
    xr_RecoveryAt out \<noteq> None \<and>
    (\<exists>r revision. obj (w_Store w) (recordKey ident) = Some \<lparr>eo_Revision = revision, eo_Data = RecordData r\<rparr> \<and>
       executionNeedsRecovery r \<and> \<not> pluginRecoveryRequired r \<and> xr_Scope r = executionScope E \<and>
       (\<not> replan \<longrightarrow> xr_Preparation r = '''' \<and> (\<forall>n \<in> set (xr_Nodes r). xn_Phase n \<notin> set unknownPhases)))"
proof -
  from assms obtain w1 r revision where flags: "confirmStopped" "replan \<longrightarrow> stateReviewed"
    and rd: "openRecord E ident w = (w1, Inr (r, revision))"
    and body: "(if \<not> executionNeedsRecovery r then throwE (ErrText ''does not need recovery'')
      else if pluginRecoveryRequired r then throwE (ErrText ''unresolved plugin effects'')
      else thenE (openSession r revision) (recoverSession E replan allowInit r)) w1 = (w', Inr out)"
    by (auto simp: RecoverExecution_def thenE_Inr bindE_Inr guardE_Inr)
  have need: "executionNeedsRecovery r" "\<not> pluginRecoveryRequired r"
    using body by (auto split: if_splits)
  let ?w2 = "w1\<lparr>w_Record := r, w_Revision := revision\<rparr>"
  have ret: "\<exists>w3. retire E w3 = (w', Inr out) \<and>
     (\<not> replan \<longrightarrow> xr_Preparation r = '''' \<and> (\<forall>n \<in> set (xr_Nodes r). xn_Phase n \<notin> set unknownPhases))"
  proof (cases replan)
    case True
    then show ?thesis using body need by (auto simp: recoverSession_def openSession_def thenE_Inr)
  next
    case False
    with body need obtain issues w3 where
      rec: "recoverNodes E allowInit (if xr_Preparation r \<noteq> '''' then [Some (ErrText ''preparation outcome is unknown'')] else [])
        (xr_Nodes r) ?w2 = (w3, Inr issues)"
      and fin: "joinErr issues = None" "retire E w3 = (w', Inr out)"
      by (auto simp: recoverSession_def openSession_def thenE_Inr bindE_Inr split: option.splits)
    from recoverNodes_issues [OF rec fin(1)] have "xr_Preparation r = ''''"
      by (auto simp: joinErr_None split: if_splits)
    with recoverNodes_issues [OF rec fin(1)] fin(2) show ?thesis by blast
  qed
  then obtain w3 where r3: "retire E w3 = (w', Inr out)" by blast
  show ?thesis
    using flags retire_ok [OF r3] openRecord_ok [OF rd] need ret by blast
qed

end

subsection \<open>The properties of the history\<close>

text \<open>
  C24: The history never destroys evidence. A stored record that needs recovery survives, unchanged,
  every prune, every cancellation and the start of every new execution, whatever store calls fail; and
  cancelling it is refused.
\<close>

theorem history_keeps_evidence:
  assumes "evidence localObj (w_Store w) ident ob"
  shows "evidence localObj (w_Store (fst (PruneExecutions (localEngine dlen E) w))) ident ob \<and>
    evidence localObj (w_Store (fst (CancelExecution (localEngine dlen E) other w))) ident ob \<and>
    evidence localObj (w_Store (fst (beginExecution (localEngine dlen E) operation ns selection readOnly w))) ident ob \<and>
    \<not> isOk (snd (CancelExecution (localEngine dlen E) ident w))"
proof (intro conjI)
  show "evidence localObj (w_Store (fst (PruneExecutions (localEngine dlen E) w))) ident ob"
    using relates_fst [OF local_journal.evidence_PruneExecutions] assms unfolding keepsEvidence_def by blast
  show "evidence localObj (w_Store (fst (CancelExecution (localEngine dlen E) other w))) ident ob"
    using relates_fst [OF local_journal.evidence_CancelExecution] assms unfolding keepsEvidence_def by blast
  show "evidence localObj (w_Store (fst (beginExecution (localEngine dlen E) operation ns selection readOnly w))) ident ob"
    using relates_fst [OF local_journal.evidence_beginExecution] assms unfolding keepsEvidence_def by blast
  show "\<not> isOk (snd (CancelExecution (localEngine dlen E) ident w))"
    by (rule local_journal.CancelExecution_refuses [OF assms])
qed

definition applyingExecution :: ExecutionRecord where
  "applyingExecution = sampleExecution\<lparr>xr_Nodes :=
     [\<lparr>xn_Name = ''a'', xn_Review = None, xn_Target = ''t'', xn_Phase = ''applying'', xn_PlanID = '''', xn_Code = ''''\<rparr>]\<rparr>"

lemma applying_key: "executionKeyPattern (recordKey (xr_ID applyingExecution))"
  using sampleExecution_key by (simp add: applyingExecution_def)

lemma applying_needs: "executionNeedsRecovery applyingExecution"
  by (simp add: applyingExecution_def sampleExecution_def executionNeedsRecovery_def uncertainPhases_def
      pluginRecoveryRequired_def NeedsRecovery_def)

lemma applying_evidence:
  "evidence localObj (w_Store (sampleWorldOf applyingExecution)) sampleID
     \<lparr>eo_Revision = ''rev-'', eo_Data = RecordData applyingExecution\<rparr>"
  using sample_coherent [OF applying_key] applying_needs
  by (simp add: coherent_def evidence_def sampleWorldOf_def applyingExecution_def sampleExecution_def)

theorem history_keeps_evidence_witness:
  "evidence localObj (w_Store (fst (PruneExecutions (localEngine (\<lambda>_. 0) sampleEngine) (sampleWorldOf applyingExecution))))
     sampleID \<lparr>eo_Revision = ''rev-'', eo_Data = RecordData applyingExecution\<rparr> \<and>
   \<not> isOk (snd (CancelExecution (localEngine (\<lambda>_. 0) sampleEngine) sampleID (sampleWorldOf applyingExecution)))"
  using history_keeps_evidence [OF applying_evidence, of "\<lambda>_. 0" sampleEngine] by blast

text \<open>
  C26: The barrier is sound. If an execution begins, then every record in the store was readable and
  of this coordination scope, and, unless the operation is read only, none of them needed recovery. The
  start changes no infrastructure. Without plugins, the new record is stored with exactly the requested
  nodes, all pending and bound to their current targets, and the session holds its revision.
\<close>

theorem barrier_sound:
  assumes "beginExecution (localEngine dlen E) operation ns selection readOnly w = (w', Inr u)"
  shows "(\<forall>key \<in> localNames (w_Store w). isRecordKey key \<longrightarrow>
        (\<exists>r revision. localObj (w_Store w) key = Some \<lparr>eo_Revision = revision, eo_Data = RecordData r\<rparr> \<and>
           xr_Scope r = executionScope E \<and> (readOnly \<or> \<not> executionNeedsRecovery r))) \<and>
    w_Mutations w' = w_Mutations w \<and>
    (\<not> hasPlugins E \<longrightarrow> coherent localObj w' \<and> xr_Status (w_Record w') = ''preparing'' \<and>
       list_all2 (\<lambda>name n. xn_Name n = name \<and> xn_Phase n = ''pending'' \<and>
         executionTarget E name = Inr (xn_Target n)) ns (xr_Nodes (w_Record w')))"
proof -
  have eqs: "executionScope (localEngine dlen E) = executionScope E"
    "hasPlugins (localEngine dlen E) = hasPlugins E"
    "executionTarget (localEngine dlen E) = executionTarget E"
    by (simp_all add: localEngine_def executionScope_def hasPlugins_def executionTarget_def
        executionWorkspace_def fun_eq_iff cong: option.case_cong if_cong)
  have key: "recordKey '''' \<noteq> key" if "isRecordKey key" for key
    using that by (auto simp: isRecordKey_def recordKey_def HasPrefix_def)
  have "w_Mutations w' = w_Mutations w"
    using relatesD [OF mut_beginExecution assms] by (simp add: sameMutations_def)
  then show ?thesis
    using local_journal.beginExecution_ok [OF assms] key
    unfolding eqs barrierPassed_def by blast
qed

lemma sample_target: "executionTarget sampleEngine ''network'' = Inr ''scope''"
  by code_simp

lemma sample_new_key: "executionKeyPattern (recordKey (newExecutionID ''run'' (replicate 32 (CHR ''b''))))"
  by code_simp

lemma sample_begin_ok:
  "isOk (snd (beginExecution sampleEngine ''apply'' [''network''] None False ((sampleWorldOf sampleExecution)\<lparr>w_Store := []\<rparr>)))"
proof -
  have ls: "storeList sampleEngine v = (v\<lparr>w_Tick := Suc (w_Tick v)\<rparr>, Inr [])" if "w_Store v = []" for v
    using that by (simp add: storeList_def bindE_def tick_app sampleEngine_def localStore_def localList_def noFault_def)
  have bar: "checkExecutionBarrier sampleEngine s x ro v = (v\<lparr>w_Tick := Suc (w_Tick v)\<rparr>, Inr ())" if "w_Store v = []" for v s x ro
    using ls [OF that] by (simp add: checkExecutionBarrier_def bindE_def)
  have prune: "pruneExecutions sampleEngine v = (v\<lparr>w_Tick := Suc (Suc (w_Tick v))\<rparr>, Inr ([], None))" if "w_Store v = []" for v
    using ls [OF that] by (simp add: pruneExecutions_def bindE_def now_def tick_app)
  have opened: "openExecutionStore sampleEngine = Inr ()"
    by (simp add: openExecutionStore_def sampleEngine_def ExecutionSettings_def defaultExecution_def)
  have wr: "isOk (snd (storeWrite sampleEngine (recordKey (newExecutionID ''run'' (replicate 32 (CHR ''b'')))) d '''' v))"
    if "w_Store v = []" "w_Tick v < 100" for v d
    using that sample_new_key
    by (simp add: storeWrite_def bindE_def tick_app sampleEngine_def localStore_def localWrite_def
        checkExecutionKey_def require_def readLocked_def replaceObject_def Let_def noFault_def encodedLen_def
        newExecutionID_def executionObjectLimit_def)
  let ?w = "(sampleWorldOf sampleExecution)\<lparr>w_Store := []\<rparr>" and ?id = "newExecutionID ''run'' (replicate 32 (CHR ''b''))"
  have off: "startOrFinish sampleEngine v = (v, Inr ())" for v
    by (simp add: startOrFinish_def startPlugins_def hasPlugins_def sampleEngine_def bindE_def tryE_def retE_def)
  have create: "isOk (snd (createExecution sampleEngine r v))" if "w_Store v = []" "w_Tick v < 100" "xr_ID r = ?id" for r v
  proof -
    obtain v1 x where x: "storeWrite sampleEngine (recordKey ?id) (RecordData r) '''' v = (v1, x)"
      by (meson surj_pair)
    with wr [OF that(1,2)] obtain revision where "x = Inr revision" by (cases x) (metis isOk_simps(2) snd_conv, blast)
    with x that off show ?thesis
      by (simp add: createExecution_def bindE_def tryE_def thenE_def openSession_def)
  qed
  have rnd: "en_Random sampleEngine n = replicate 32 (CHR ''b'')" for n by (simp add: sampleEngine_def)
  show ?thesis
    using opened sample_target
    by (simp add: beginExecution_def thenE_app bindE_app bar prune now_def tick_app rnd create newRecord_def
        pendingNode_def sampleWorldOf_def)
qed

theorem barrier_sound_witness:
  "\<exists>w'. w' = fst (beginExecution sampleEngine ''apply'' [''network''] None False ((sampleWorldOf sampleExecution)\<lparr>w_Store := []\<rparr>)) \<and>
     coherent localObj w' \<and> w_Mutations w' = []"
proof -
  let ?w = "(sampleWorldOf sampleExecution)\<lparr>w_Store := []\<rparr>"
  obtain w' u where run: "beginExecution sampleEngine ''apply'' [''network''] None False ?w = (w', Inr u)"
    using sample_begin_ok by (metis isOk_iff prod.collapse)
  have "\<not> hasPlugins sampleEngine" by (simp add: hasPlugins_def sampleEngine_def)
  with barrier_sound [of "\<lambda>_. 0" sampleEngine, unfolded sampleEngine_local, OF run] run show ?thesis
    by (simp add: sampleWorldOf_def)
qed

text \<open>
  C25: Recovery never replays. \<open>RecoverExecution\<close> starts no infrastructure mutation and changes no other
  record. When it succeeds, the operator confirmed that the executor stopped, the record of this scope
  needed recovery and had no unresolved plugin effect; without \<open>--replan\<close> no node had an unknown outcome
  and no backend preparation was open, and with it the operator reviewed the state; and the stored record
  carries the recovery time.
\<close>

theorem recovery_never_replays:
  assumes "RecoverExecution (localEngine dlen E) ident confirmStopped stateReviewed replan allowInit w = (w', res)"
  shows "w_Mutations w' = w_Mutations w \<and>
    (\<forall>i. i \<noteq> ident \<longrightarrow> localObj (w_Store w') (recordKey i) = localObj (w_Store w) (recordKey i)) \<and>
    (isOk res \<longrightarrow> confirmStopped \<and> (replan \<longrightarrow> stateReviewed) \<and>
       coherent localObj w' \<and> xr_RecoveryAt (w_Record w') \<noteq> None \<and>
       (\<exists>r revision. localObj (w_Store w) (recordKey ident) = Some \<lparr>eo_Revision = revision, eo_Data = RecordData r\<rparr> \<and>
          executionNeedsRecovery r \<and> \<not> pluginRecoveryRequired r \<and>
          (\<not> replan \<longrightarrow> xr_Preparation r = '''' \<and> (\<forall>n \<in> set (xr_Nodes r). xn_Phase n \<notin> set unknownPhases))))"
proof (intro conjI impI)
  show "w_Mutations w' = w_Mutations w"
    using relatesD [OF mut_RecoverExecution assms] by (simp add: sameMutations_def)
  show "\<forall>i. i \<noteq> ident \<longrightarrow> localObj (w_Store w') (recordKey i) = localObj (w_Store w) (recordKey i)"
    using relatesD [OF local_journal.RecoverExecution_only assms] by (simp add: onlyRecord_def)
  assume "isOk res"
  then obtain out where "res = Inr out" by (cases res) auto
  note ok = local_journal.RecoverExecution_ok [OF assms [unfolded this]]
  from ok show "confirmStopped" by blast
  from ok show "stateReviewed" if replan using that by blast
  from ok show "coherent localObj w'" "xr_RecoveryAt (w_Record w') \<noteq> None" by blast+
  from ok show "\<exists>r revision. localObj (w_Store w) (recordKey ident) = Some \<lparr>eo_Revision = revision, eo_Data = RecordData r\<rparr> \<and>
          executionNeedsRecovery r \<and> \<not> pluginRecoveryRequired r \<and>
          (\<not> replan \<longrightarrow> xr_Preparation r = '''' \<and> (\<forall>n \<in> set (xr_Nodes r). xn_Phase n \<notin> set unknownPhases))"
    by blast
qed

theorem recovery_never_replays_witness:
  "w_Mutations (fst (RecoverExecution (localEngine (\<lambda>_. 0) sampleEngine) sampleID True True True False
     (sampleWorldOf applyingExecution))) = w_Mutations (sampleWorldOf applyingExecution)"
  using recovery_never_replays [OF surjective_pairing] by blast

end
