(* ===== verification/Contract_Values.thy ===== *)
theory Contract_Values
  imports Exec_Record Validate
begin

text \<open>
  Contract checks on values (\<open>internal/engine/contracts_values.go\<close>) and which outputs a snapshot may
  hold (\<open>snapshotOutputAllowed\<close> of \<open>snapshot.go\<close>).  Logged warnings are the first component of
  \<open>contractPolicy\<close>.  Every node passed here is a node of the graph with an inspected module;
  a missing one reads as a node without contracts, outputs or variables.
\<close>

subsection \<open>Contracts of a node\<close>

definition nodeContracts :: "Graph \<Rightarrow> string \<Rightarrow> DirContracts option" where
  "nodeContracts g name =
     Option.bind (map_of (g_Nodes g) name) (\<lambda>node.
       Contracts_Lookup (g_Contracts g)
         (if IsRemote (bn_Source (gn_Node node)) then bn_Source (gn_Node node) else gn_Dir node))"

definition hasContracts :: "Graph \<Rightarrow> string \<Rightarrow> bool" where
  "hasContracts g name =
     (case nodeContracts g name of None \<Rightarrow> False | Some dc \<Rightarrow> dc_Producer dc \<noteq> [] \<or> dc_Consumer dc \<noteq> [])"

definition contractPorts :: "PortContract smap \<Rightarrow> string list" where
  "contractPorts ports = sort (map fst ports)"

definition schemaOf :: "Graph \<Rightarrow> string \<Rightarrow> Schema option" where
  "schemaOf g name = Option.bind (map_of (g_Nodes g) name) gn_Schema"

definition outputDetail :: "Graph \<Rightarrow> string \<Rightarrow> string \<Rightarrow> Output option" where
  "outputDetail g name out = Option.bind (schemaOf g name) (\<lambda>s. map_of (sc_OutputDetails s) out)"

definition declaredSensitive :: "Graph \<Rightarrow> string \<Rightarrow> string \<Rightarrow> bool" where
  "declaredSensitive g name out = (case outputDetail g name out of Some d \<Rightarrow> o_Sensitive d | None \<Rightarrow> False)"

definition nodeVariable :: "Graph \<Rightarrow> string \<Rightarrow> string \<Rightarrow> Variable option" where
  "nodeVariable g name var = Option.bind (schemaOf g name) (\<lambda>s. map_of (sc_Variables s) var)"

text \<open>A producer or consumer port claimed sensitive.\<close>

definition claimedSensitive :: "PortContract smap \<Rightarrow> string \<Rightarrow> bool" where
  "claimedSensitive ports port = (case map_of ports port of Some p \<Rightarrow> pc_Sensitive p = Some True | None \<Rightarrow> False)"

definition producesSensitive :: "Graph \<Rightarrow> string \<Rightarrow> string \<Rightarrow> bool" where
  "producesSensitive g name out =
     (case nodeContracts g name of Some dc \<Rightarrow> claimedSensitive (dc_Producer dc) out | None \<Rightarrow> False)"

definition consumesSensitive :: "Graph \<Rightarrow> string \<Rightarrow> string \<Rightarrow> bool" where
  "consumesSensitive g name var =
     (case nodeContracts g name of Some dc \<Rightarrow> claimedSensitive (dc_Consumer dc) var | None \<Rightarrow> False)"

subsection \<open>Checking a port\<close>

definition check :: "string \<Rightarrow> string \<Rightarrow> ContractResult \<Rightarrow> ContractCheck" where
  "check path condition result = \<lparr>cc_Port = path, cc_Condition = condition, cc_Result = result\<rparr>"

definition typeResult :: "CtyLib \<Rightarrow> string \<Rightarrow> ctyval option \<Rightarrow> ContractResult" where
  "typeResult lib text val =
     (case cl_TypeConstraint lib text of None \<Rightarrow> ContractViolation | Some typ \<Rightarrow> CheckContractType lib val typ)"

definition nullResult :: "ctyval option \<Rightarrow> ContractResult" where
  "nullResult val =
     (case val of
        None \<Rightarrow> ContractDeferred
      | Some v \<Rightarrow> if \<not> isKnown v then ContractDeferred else if isNull v then ContractViolation else ContractConfirmed)"

definition sensitiveResult :: "bool \<Rightarrow> bool option \<Rightarrow> ContractResult" where
  "sensitiveResult claim sensitive =
     (case sensitive of
        None \<Rightarrow> ContractDeferred | Some s \<Rightarrow> if s \<noteq> claim then ContractViolation else ContractConfirmed)"

definition checkPort ::
  "CtyLib \<Rightarrow> string \<Rightarrow> PortContract \<Rightarrow> ctyval option \<Rightarrow> bool option \<Rightarrow> ContractCheck list" where
  "checkPort lib path p val sensitive =
     (let checks =
        (if pc_Type p \<noteq> '''' then [check path ''type'' (typeResult lib (pc_Type p) val)] else []) @
        (if pc_Nullable p = Some False then [check path ''nullable'' (nullResult val)] else []) @
        (case pc_Sensitive p of None \<Rightarrow> [] | Some claim \<Rightarrow> [check path ''sensitive'' (sensitiveResult claim sensitive)]) in
      if checks = [] then [check path ''value'' ContractUnconstrained] else checks)"

subsection \<open>The policy\<close>

definition contractCode :: "ContractResult \<Rightarrow> string" where
  "contractCode result = (if result = ContractDeferred then ''C011'' else ''C010'')"

definition contractErr :: "ContractCheck \<Rightarrow> goErr" where
  "contractErr c = ErrText (cc_Port c @ '': contract.['' @ contractCode (cc_Result c) @ ''] '' @ cc_Condition c)"

text \<open>The warnings logged before it returns, and the error.\<close>

fun contractPolicy :: "string \<Rightarrow> ContractCheck list \<Rightarrow> bool \<Rightarrow> goErr list \<times> goErr option" where
  "contractPolicy mode [] requireKnown = ([], None)"
| "contractPolicy mode (c # cs) requireKnown =
     (if cc_Result c \<noteq> ContractViolation \<and> cc_Result c \<noteq> ContractDeferred then contractPolicy mode cs requireKnown
      else if mode = ''enforce'' \<and> (cc_Result c = ContractViolation \<or> requireKnown) then ([], Some (contractErr c))
      else (case contractPolicy mode cs requireKnown of (warned, e) \<Rightarrow> (contractErr c # warned, e)))"

definition policyResult :: "Graph \<Rightarrow> ContractCheck list \<Rightarrow> bool \<Rightarrow> goErr + unit" where
  "policyResult g checks requireKnown =
     (case snd (contractPolicy (g_ContractMode g) checks requireKnown) of Some e \<Rightarrow> Inl e | None \<Rightarrow> Inr ())"

subsection \<open>Checks of a node's ports\<close>

text \<open>\<open>ElementIterator\<close> over an object or a map, with its keys.\<close>

fun attributes :: "ctyval \<Rightarrow> (string \<times> ctyval) list" where
  "attributes (VMap t kvs) = kvs"
| "attributes (VObject kvs) = kvs"
| "attributes v = []"

lemma attributes_elements: "(k, v) \<in> set (attributes u) \<Longrightarrow> v \<in> set (elements u)"
  by (cases u rule: attributes.cases) (auto intro: rev_image_eqI)

function withoutCollectionEvidence :: "ctyval \<Rightarrow> ctyval" where
  "withoutCollectionEvidence v =
     (if \<not> isKnown v \<or> isNull v then v
      else (case typeOf v of
              CList _ \<Rightarrow> VUnknown CDynamic
            | CSet _ \<Rightarrow> VUnknown CDynamic
            | CTuple _ \<Rightarrow> VUnknown CDynamic
            | CObject _ \<Rightarrow> VObject (map (\<lambda>(k, u). (k, withoutCollectionEvidence u)) (attributes v))
            | CMap _ \<Rightarrow> VObject (map (\<lambda>(k, u). (k, withoutCollectionEvidence u)) (attributes v))
            | _ \<Rightarrow> v))"
  by auto
termination
  by (relation "measure size") (auto dest!: attributes_elements elements_size)

declare withoutCollectionEvidence.simps [simp del]

definition observedOutput :: "ValueLib \<Rightarrow> runOutput option \<Rightarrow> ctyval option" where
  "observedOutput lib out =
     Option.bind out (\<lambda>o'. map_option (\<lambda>v. if ro_Type o' = '''' then withoutCollectionEvidence v else v) (CtyValue lib o'))"

definition outputContractChecks :: "ValueLib \<Rightarrow> Graph \<Rightarrow> string \<Rightarrow> Outputs \<Rightarrow> bool \<Rightarrow> ContractCheck list" where
  "outputContractChecks lib g name outputs complete =
     (case nodeContracts g name of
        None \<Rightarrow> []
      | Some dc \<Rightarrow>
          concat (map (\<lambda>port.
            case map_of (dc_Producer dc) port of
              None \<Rightarrow> []
            | Some p \<Rightarrow>
                let out = map_of outputs port in
                if out = None \<and> \<not> complete then []
                else checkPort (vl_Cty lib) (''node.'' @ name @ ''.output.'' @ port) p (observedOutput lib out)
                       (if declaredSensitive g name port then Some True
                        else (case out of Some o' \<Rightarrow> ro_Sensitive o' | None \<Rightarrow> None)))
            (contractPorts (dc_Producer dc))))"

definition chosenInput :: "ValueLib \<Rightarrow> Graph \<Rightarrow> string \<Rightarrow> PlanValues \<Rightarrow> string \<Rightarrow> ctyval option" where
  "chosenInput lib g name values port =
     (case (nodeVariable g name port, map_of (pv_Variables values) port) of
        (Some variable, Some raw) \<Rightarrow>
          if v_Ephemeral variable then None
          else Option.bind (CtyValue lib raw) (\<lambda>chosen.
                 case EffectiveValue lib variable (Some chosen) of Inl _ \<Rightarrow> None | Inr effective \<Rightarrow> Some effective)
      | _ \<Rightarrow> None)"

definition inputContractChecks :: "ValueLib \<Rightarrow> Graph \<Rightarrow> string \<Rightarrow> PlanValues \<Rightarrow> ContractCheck list" where
  "inputContractChecks lib g name values =
     (case nodeContracts g name of
        None \<Rightarrow> []
      | Some dc \<Rightarrow>
          concat (map (\<lambda>port.
            case map_of (dc_Consumer dc) port of
              None \<Rightarrow> []
            | Some p \<Rightarrow>
                checkPort (vl_Cty lib) (''node.'' @ name @ ''.input.'' @ port) p (chosenInput lib g name values port)
                  (Some (case nodeVariable g name port of Some v \<Rightarrow> v_Sensitive v | None \<Rightarrow> False)))
            (contractPorts (dc_Consumer dc))))"

text \<open>\<open>inspectContractPlan\<close> after the plan values were read; the checks are returned beside an error.\<close>

definition inspectValues ::
  "ValueLib \<Rightarrow> Graph \<Rightarrow> string \<Rightarrow> goErr + PlanValues \<Rightarrow> bool \<Rightarrow> PlanValues option \<times> ContractCheck list \<times> goErr option" where
  "inspectValues lib g name read requireInputs =
     (case read of
        Inl e \<Rightarrow>
          (let checks = [check (''node.'' @ name) ''plan evidence'' ContractDeferred] in
           (None, checks,
            case policyResult g checks requireInputs of Inl pe \<Rightarrow> Some (Joined [pe, e]) | Inr _ \<Rightarrow> None))
      | Inr values \<Rightarrow>
          (let inputs = inputContractChecks lib g name values;
               outputs = outputContractChecks lib g name (pv_Outputs values) True in
           (Some values, inputs @ outputs,
            case policyResult g inputs requireInputs of
              Inl e \<Rightarrow> Some e
            | Inr _ \<Rightarrow> (case policyResult g outputs False of Inl e \<Rightarrow> Some e | Inr _ \<Rightarrow> None))))"

text \<open>A nil map of outputs reads like an empty one.\<close>

definition completePlanOutputs :: "ValueLib \<Rightarrow> Graph \<Rightarrow> string \<Rightarrow> Outputs \<Rightarrow> PlanValues option \<Rightarrow> Outputs" where
  "completePlanOutputs lib g name outputs plan =
     (case plan of
        None \<Rightarrow> outputs
      | Some values \<Rightarrow>
          foldl (\<lambda>acc (port, out).
              if hasKey acc port \<or> \<not> (case schemaOf g name of Some s \<Rightarrow> HasOutput s port | None \<Rightarrow> False) then acc
              else (case CtyValue lib out of
                      Some v \<Rightarrow> if isKnown v \<and> isNull v then AList.update port out acc else acc
                    | None \<Rightarrow> acc))
            outputs (pv_Outputs values))"

subsection \<open>What a snapshot may hold\<close>

definition snapshotOutputAllowed :: "Graph \<Rightarrow> string \<Rightarrow> string \<Rightarrow> bool" where
  "snapshotOutputAllowed g node out =
     (if producesSensitive g node out then False
      else (case outputDetail g node out of Some detail \<Rightarrow> \<not> o_Sensitive detail | None \<Rightarrow> False))"

subsection \<open>Facts of the policy\<close>

lemma policy_enforced:
  "snd (contractPolicy ''enforce'' cs rk) = None \<longleftrightarrow>
   (\<forall>c \<in> set cs. cc_Result c \<noteq> ContractViolation \<and> (rk \<longrightarrow> cc_Result c \<noteq> ContractDeferred))"
  by (induction cs) (auto split: prod.splits)

lemma policy_advisory: "mode \<noteq> ''enforce'' \<Longrightarrow> snd (contractPolicy mode cs rk) = None"
  by (induction cs) (auto split: prod.splits)

lemma policyResult_ok: "policyResult g cs rk = Inr u \<longleftrightarrow> snd (contractPolicy (g_ContractMode g) cs rk) = None"
  by (simp add: policyResult_def split: option.splits)

lemma checkPort_has:
  "pc_Type p \<noteq> '''' \<Longrightarrow> check path ''type'' (typeResult lib (pc_Type p) val) \<in> set (checkPort lib path p val s)"
  "pc_Nullable p = Some False \<Longrightarrow> check path ''nullable'' (nullResult val) \<in> set (checkPort lib path p val s)"
  "pc_Sensitive p = Some claim \<Longrightarrow> check path ''sensitive'' (sensitiveResult claim s) \<in> set (checkPort lib path p val s)"
  by (simp_all add: checkPort_def Let_def)

text \<open>What it means that a value satisfies the claims of a port.\<close>

definition portHolds :: "CtyLib \<Rightarrow> PortContract \<Rightarrow> ctyval option \<Rightarrow> bool option \<Rightarrow> bool" where
  "portHolds lib p val sensitive \<longleftrightarrow>
     (pc_Type p \<noteq> '''' \<longrightarrow> (\<exists>typ v. cl_TypeConstraint lib (pc_Type p) = Some typ \<and> val = Some v \<and> conforms v typ)) \<and>
     (pc_Nullable p = Some False \<longrightarrow> (\<exists>v. val = Some v \<and> isKnown v \<and> \<not> isNull v)) \<and>
     (\<forall>claim. pc_Sensitive p = Some claim \<longrightarrow> sensitive = Some claim)"

lemma checkContractType_decided:
  "CheckContractType lib val typ \<noteq> ContractViolation \<Longrightarrow> CheckContractType lib val typ \<noteq> ContractDeferred \<Longrightarrow>
   \<exists>v. val = Some v \<and> conforms v typ"
  using confirmed_conforms Confirmed_iff by (cases val) (auto simp: CheckContractType_def)

lemma passed_port_holds:
  assumes "\<forall>c \<in> set (checkPort lib path p val s). cc_Result c \<noteq> ContractViolation \<and> cc_Result c \<noteq> ContractDeferred"
  shows "portHolds lib p val s"
  unfolding portHolds_def
proof (intro conjI impI allI)
  assume "pc_Type p \<noteq> ''''"
  then have "typeResult lib (pc_Type p) val \<noteq> ContractViolation" "typeResult lib (pc_Type p) val \<noteq> ContractDeferred"
    using bspec [OF assms checkPort_has(1)] by (auto simp: check_def)
  then show "\<exists>typ v. cl_TypeConstraint lib (pc_Type p) = Some typ \<and> val = Some v \<and> conforms v typ"
    using checkContractType_decided by (auto simp: typeResult_def split: option.splits)
next
  assume "pc_Nullable p = Some False"
  then show "\<exists>v. val = Some v \<and> isKnown v \<and> \<not> isNull v"
    using bspec [OF assms checkPort_has(2)] by (auto simp: check_def nullResult_def split: option.splits if_splits)
next
  fix claim assume "pc_Sensitive p = Some claim"
  then show "s = Some claim"
    using bspec [OF assms checkPort_has(3)] by (auto simp: check_def sensitiveResult_def split: option.splits if_splits)
qed

text \<open>The sensitivity an output is checked against.\<close>

definition outputSensitivity :: "Graph \<Rightarrow> string \<Rightarrow> string \<Rightarrow> runOutput option \<Rightarrow> bool option" where
  "outputSensitivity g name port out =
     (if declaredSensitive g name port then Some True else Option.bind out ro_Sensitive)"

lemma output_checks_of_port:
  assumes "nodeContracts g name = Some dc" "map_of (dc_Producer dc) port = Some p"
    and "complete \<or> map_of outputs port \<noteq> None"
  shows "set (checkPort (vl_Cty lib) (''node.'' @ name @ ''.output.'' @ port) p
           (observedOutput lib (map_of outputs port)) (outputSensitivity g name port (map_of outputs port)))
         \<subseteq> set (outputContractChecks lib g name outputs complete)"
proof -
  have "port \<in> set (contractPorts (dc_Producer dc))"
    using assms(2) map_of_SomeD by (force simp: contractPorts_def)
  moreover have "checkPort (vl_Cty lib) (''node.'' @ name @ ''.output.'' @ port) p
      (observedOutput lib (map_of outputs port)) (outputSensitivity g name port (map_of outputs port)) =
    (case map_of (dc_Producer dc) port of None \<Rightarrow> [] | Some p \<Rightarrow>
       let out = map_of outputs port in
       if out = None \<and> \<not> complete then []
       else checkPort (vl_Cty lib) (''node.'' @ name @ ''.output.'' @ port) p (observedOutput lib out)
         (if declaredSensitive g name port then Some True else (case out of Some o' \<Rightarrow> ro_Sensitive o' | None \<Rightarrow> None)))"
    using assms(2,3) by (cases "map_of outputs port") (auto simp: outputSensitivity_def Let_def)
  ultimately show ?thesis
    by (simp add: outputContractChecks_def assms(1)) blast
qed

lemma input_checks_of_port:
  assumes "nodeContracts g name = Some dc" "map_of (dc_Consumer dc) port = Some p"
  shows "set (checkPort (vl_Cty lib) (''node.'' @ name @ ''.input.'' @ port) p (chosenInput lib g name values port)
           (Some (case nodeVariable g name port of Some v \<Rightarrow> v_Sensitive v | None \<Rightarrow> False)))
         \<subseteq> set (inputContractChecks lib g name values)"
proof -
  have "port \<in> set (contractPorts (dc_Consumer dc))"
    using assms(2) map_of_SomeD by (force simp: contractPorts_def)
  then show ?thesis using bexI [of _ port] assms(2) by (auto simp: inputContractChecks_def assms(1))
qed

lemma passed_outputs:
  assumes "g_ContractMode g = ''enforce''" "policyResult g (outputContractChecks lib g name outputs complete) True = Inr ()"
    and "nodeContracts g name = Some dc" "map_of (dc_Producer dc) port = Some p"
    and "complete \<or> map_of outputs port \<noteq> None"
  shows "portHolds (vl_Cty lib) p (observedOutput lib (map_of outputs port)) (outputSensitivity g name port (map_of outputs port))"
  using output_checks_of_port [OF assms(3-5), of lib] assms(1,2)
  by (intro passed_port_holds [where path = "''node.'' @ name @ ''.output.'' @ port"])
    (auto simp: policyResult_ok policy_enforced)

lemma passed_inputs:
  assumes "g_ContractMode g = ''enforce''" "policyResult g (inputContractChecks lib g name values) True = Inr ()"
    and "nodeContracts g name = Some dc" "map_of (dc_Consumer dc) port = Some p"
  shows "portHolds (vl_Cty lib) p (chosenInput lib g name values port)
     (Some (case nodeVariable g name port of Some v \<Rightarrow> v_Sensitive v | None \<Rightarrow> False))"
  using input_checks_of_port [OF assms(3,4), of lib "values"] assms(1,2)
  by (intro passed_port_holds [where path = "''node.'' @ name @ ''.input.'' @ port"])
    (auto simp: policyResult_ok policy_enforced)

text \<open>
  C32: Enforced contracts are enforced.  In enforce mode, when the plan inspection that precedes an
  apply reports no error, every consumer port of the node with a contract has a value in the plan
  that satisfies each of its claims (the type admits it, it is known and not null where null is
  excluded, the variable's sensitivity is the claimed one), and no producer port contradicts its
  claims; when the output validation after the apply passes, every producer port with a contract was
  produced and satisfies each of its claims.  In any other mode neither ever blocks.
\<close>

theorem value_contracts_enforced:
  assumes dc: "nodeContracts g name = Some dc"
  shows "(g_ContractMode g = ''enforce'' \<and> inspectValues lib g name (Inr values) True = (pv, checks, None) \<longrightarrow>
           (\<forall>port p. map_of (dc_Consumer dc) port = Some p \<longrightarrow>
              portHolds (vl_Cty lib) p (chosenInput lib g name values port)
                (Some (case nodeVariable g name port of Some v \<Rightarrow> v_Sensitive v | None \<Rightarrow> False))) \<and>
           (\<forall>c \<in> set checks. cc_Result c \<noteq> ContractViolation)) \<and>
         (g_ContractMode g = ''enforce'' \<and> policyResult g (outputContractChecks lib g name outputs True) True = Inr () \<longrightarrow>
           (\<forall>port p. map_of (dc_Producer dc) port = Some p \<longrightarrow>
              portHolds (vl_Cty lib) p (observedOutput lib (map_of outputs port))
                (outputSensitivity g name port (map_of outputs port)))) \<and>
         (g_ContractMode g \<noteq> ''enforce'' \<longrightarrow>
            snd (snd (inspectValues lib g name read rk)) = None \<and>
            policyResult g (outputContractChecks lib g name outputs True) True = Inr ())"
proof (intro conjI impI)
  assume "g_ContractMode g \<noteq> ''enforce''"
  then have "policyResult g cs rk = Inr ()" for cs rk by (simp add: policyResult_ok policy_advisory)
  then show "snd (snd (inspectValues lib g name read rk)) = None"
    "policyResult g (outputContractChecks lib g name outputs True) True = Inr ()"
    by (simp_all add: inspectValues_def Let_def split: sum.splits)
next
  assume "g_ContractMode g = ''enforce'' \<and> policyResult g (outputContractChecks lib g name outputs True) True = Inr ()"
  then show "\<forall>port p. map_of (dc_Producer dc) port = Some p \<longrightarrow>
      portHolds (vl_Cty lib) p (observedOutput lib (map_of outputs port)) (outputSensitivity g name port (map_of outputs port))"
    using passed_outputs [OF _ _ dc] by blast
next
  assume run: "g_ContractMode g = ''enforce'' \<and> inspectValues lib g name (Inr values) True = (pv, checks, None)"
  then have ins: "policyResult g (inputContractChecks lib g name values) True = Inr ()"
    and outs: "policyResult g (outputContractChecks lib g name (pv_Outputs values) True) False = Inr ()"
    and checks: "checks = inputContractChecks lib g name values @ outputContractChecks lib g name (pv_Outputs values) True"
    by (auto simp: inspectValues_def Let_def split: sum.splits)
  show "\<forall>port p. map_of (dc_Consumer dc) port = Some p \<longrightarrow>
      portHolds (vl_Cty lib) p (chosenInput lib g name values port)
        (Some (case nodeVariable g name port of Some v \<Rightarrow> v_Sensitive v | None \<Rightarrow> False))"
    using passed_inputs [OF conjunct1 [OF run] ins dc] by blast
  show "\<forall>c \<in> set checks. cc_Result c \<noteq> ContractViolation"
    using ins outs run by (auto simp: checks policyResult_ok policy_enforced)
qed

definition samplePlanValues :: PlanValues where
  "samplePlanValues = \<lparr>pv_Variables = [(''vpc'', zeroOutput\<lparr>ro_Value := JStr ''v''\<rparr>)], pv_Outputs = []\<rparr>"

theorem value_contracts_enforced_witness:
  "portHolds sampleLib (snd (dc_Consumer (snd (sampleContracts ! 1)) ! 0)) (Some (VString ''v'')) (Some False) \<and>
   portHolds sampleLib (snd (dc_Producer (snd (sampleContracts ! 0)) ! 0)) (Some (VString ''v'')) None"
proof -
  have cl: "nodeContracts contractedGraph ''cluster'' = Some (snd (sampleContracts ! 1))"
    and nw: "nodeContracts contractedGraph ''network'' = Some (snd (sampleContracts ! 0))"
    and ports: "map_of (dc_Consumer (snd (sampleContracts ! 1))) ''vpc'' = Some (snd (dc_Consumer (snd (sampleContracts ! 1)) ! 0))"
      "map_of (dc_Producer (snd (sampleContracts ! 0))) ''vpc'' = Some (snd (dc_Producer (snd (sampleContracts ! 0)) ! 0))"
    and mode: "g_ContractMode contractedGraph = ''enforce''"
    by code_simp+
  have input: "chosenInput sampleValueLib contractedGraph ''cluster'' samplePlanValues ''vpc'' = Some (VString ''v'')"
    and variable: "(case nodeVariable contractedGraph ''cluster'' ''vpc'' of Some v \<Rightarrow> v_Sensitive v | None \<Rightarrow> False) = False"
    and outs: "observedOutput sampleValueLib (map_of [(''vpc'', zeroOutput\<lparr>ro_Value := JStr ''v''\<rparr>)] ''vpc'') = Some (VString ''v'')"
      "outputSensitivity contractedGraph ''network'' ''vpc'' (map_of [(''vpc'', zeroOutput\<lparr>ro_Value := JStr ''v''\<rparr>)] ''vpc'') = None"
    by code_simp+
  have "snd (snd (inspectValues sampleValueLib contractedGraph ''cluster'' (Inr samplePlanValues) True)) = None"
    and after: "policyResult contractedGraph (outputContractChecks sampleValueLib contractedGraph ''network''
       [(''vpc'', zeroOutput\<lparr>ro_Value := JStr ''v''\<rparr>)] True) True = Inr ()"
    by code_simp+
  then obtain pv checks where run: "inspectValues sampleValueLib contractedGraph ''cluster'' (Inr samplePlanValues) True = (pv, checks, None)"
    by (metis prod.collapse)
  have lib: "vl_Cty sampleValueLib = sampleLib" by (simp add: sampleValueLib_def)
  show ?thesis
    using value_contracts_enforced [OF cl, of sampleValueLib samplePlanValues pv checks] run mode ports(1) input variable
      value_contracts_enforced [OF nw, of sampleValueLib _ _ _ "[(''vpc'', zeroOutput\<lparr>ro_Value := JStr ''v''\<rparr>)]"] after ports(2) outs
    by (fastforce simp: lib)
qed

end
