(* ===== verification/Runtime_Calls.thy ===== *)
theory Runtime_Calls
  imports Journal Contract_Values
begin

text \<open>
  Calls that leave the program: the runtime subprocess behind \<open>exec.Runner\<close>
  (\<open>internal/exec/runner.go\<close>, \<open>lifecycle.go\<close>), the approval prompt (\<open>internal/engine/engine.go\<close>), the
  initialized backend context (\<open>backend_context.go\<close>) and the plugin gates around plans
  (\<open>plugins.go\<close>).  The environment, the subprocess and the file system answer through the engine's
  oracles; a subprocess that can mutate infrastructure is entered in the ghost list of mutations at
  the moment it is started.
\<close>

subsection \<open>Subprocesses\<close>

definition readE :: "(nat \<Rightarrow> goErr + 'a) \<Rightarrow> ('st world, 'a) eff" where
  "readE f = bindE (tick f) liftR"

definition noteCompletion :: "('st world, unit) eff \<Rightarrow> ('st world, unit) eff" where
  "noteCompletion m =
     bindE (tryE m) (\<lambda>res. case res of Inl e \<Rightarrow> addCompletionError e | Inr _ \<Rightarrow> retE ())"

text \<open>The hook of \<open>execute\<close>: credentials and the before event; a failure means the runtime was not
  started.\<close>

definition runtimeHook :: "'st engine \<Rightarrow> ('st world, unit) eff" where
  "runtimeHook E =
     bindE (tryE (pluginHost E)) (\<lambda>res.
       case res of Inl e \<Rightarrow> throwE (Joined [ErrNotStarted, e]) | Inr _ \<Rightarrow> retE ())"

text \<open>A reading subprocess: environment, hook, the process, the after event.\<close>

definition runtimeCall :: "'st engine \<Rightarrow> ('st world, unit) eff" where
  "runtimeCall E =
     thenE (callE E)
     (thenE (runtimeHook E)
     (bindE (tryE (callE E)) (\<lambda>res.
      thenE (noteCompletion (pluginHost E)) (liftR res))))"

text \<open>\<open>ApplyPlan\<close> and \<open>Destroy\<close>: the second call is \<open>runCommand\<close> up to \<open>cmd.Start\<close>, the third its end.\<close>

definition startMutation :: "string \<Rightarrow> ('st world, unit) eff" where
  "startMutation name = modifyE (\<lambda>w. w\<lparr>w_Mutations := w_Mutations w @ [(name, w_Store w)]\<rparr>)"

definition runtimeMutation :: "'st engine \<Rightarrow> string \<Rightarrow> ('st world, unit) eff" where
  "runtimeMutation E name =
     thenE (callE E) (thenE (runtimeHook E) (thenE (callE E) (thenE (startMutation name) (callE E))))"

definition runnerOutputs :: "'st engine \<Rightarrow> ('st world, Outputs) eff" where
  "runnerOutputs E = thenE (runtimeCall E) (readE (en_Outputs E))"

definition runnerPlanChanges :: "'st engine \<Rightarrow> ('st world, bool) eff" where
  "runnerPlanChanges E = thenE (runtimeCall E) (readE (en_Changed E))"

definition runnerPlanValues :: "'st engine \<Rightarrow> ('st world, PlanValues) eff" where
  "runnerPlanValues E =
     thenE (runtimeCall E) (bindE (tick (en_PlanDoc E)) (\<lambda>doc. liftR (readPlanValues doc)))"

definition changeSet :: "goErr + planDoc \<Rightarrow> bool \<Rightarrow> goErr + (ResourceChange list \<times> OutputChange list)" where
  "changeSet decoded wantOutputs =
     bindR decoded (\<lambda>doc.
       if pd_Trailing doc then Inl (ErrText ''parsing show -json'')
       else if wantOutputs \<and> \<not> HasPrefix (pd_FormatVersion doc) ''1.'' then Inl (ErrText ''unsupported plan JSON format'')
       else Inr (pd_ResourceChanges doc,
                 if wantOutputs
                 then map (\<lambda>(name, change). \<lparr>oc_Name = name, oc_Actions = od_Actions change\<rparr>)
                        (sort_key fst (pd_OutputChanges doc))
                 else []))"

definition runnerChangeSet :: "'st engine \<Rightarrow> bool \<Rightarrow> ('st world, ResourceChange list \<times> OutputChange list) eff" where
  "runnerChangeSet E wantOutputs =
     thenE (runtimeCall E) (bindE (tick (en_PlanDoc E)) (\<lambda>doc. liftR (changeSet doc wantOutputs)))"

text \<open>An unreadable metadata file reads as no backend.\<close>

definition runnerBackendType :: "'st engine \<Rightarrow> ('st world, string) eff" where
  "runnerBackendType E = bindE (tick (en_Text E)) (\<lambda>r. retE (case r of Inl _ \<Rightarrow> '''' | Inr t \<Rightarrow> t))"

definition SupportsSavedPlan :: "string \<Rightarrow> bool" where
  "SupportsSavedPlan backend \<longleftrightarrow> backend \<noteq> ''remote'' \<and> backend \<noteq> ''cloud''"

subsection \<open>Approval\<close>

definition toLower :: "char \<Rightarrow> char" where
  "toLower c = (if (65::nat) \<le> of_char c \<and> of_char c \<le> (90::nat) then char_of (of_char c + (32::nat)) else c)"

definition errNoApproval :: goErr where
  "errNoApproval = ErrText ''no approval could be read''"

definition isYes :: "string \<Rightarrow> bool" where
  "isYes line = (let answer = map toLower (TrimSpace line) in answer = ''y'' \<or> answer = ''yes'')"

definition approve :: "'st engine \<Rightarrow> ('st world, bool) eff" where
  "approve E =
     (if \<not> en_Stdin E then throwE errNoApproval
      else bindE (tick (en_Line E)) (\<lambda>(line, failed).
        thenE (callE E)
          (if TrimSpace line = '''' \<and> failed then throwE errNoApproval else retE (isYes line))))"

subsection \<open>Initialized backend contexts\<close>

definition backendDeclaration :: "'st engine \<Rightarrow> string \<Rightarrow> goErr + string" where
  "backendDeclaration E name =
     (case map_of (g_Nodes (en_Graph E)) name of
        None \<Rightarrow> Inl (ErrText ''nil dereference'')
      | Some node \<Rightarrow>
          bindR (executionTarget E name) (\<lambda>target.
            Inr (en_Digest E (DigestBackend (gn_Dir node) target
              (case gn_Schema node of Some s \<Rightarrow> sc_BackendConfig s | None \<Rightarrow> [])
              (bn_BackendConfig (gn_Node node))))))"

text \<open>A failed write may leave anything behind; \<^const>\<open>None\<close> is a file that does not decode.\<close>

definition rememberBackendContext :: "'st engine \<Rightarrow> string \<Rightarrow> ('st world, unit) eff" where
  "rememberBackendContext E name =
     bindE (liftR (backendDeclaration E name)) (\<lambda>declaration.
     bindE (readE (en_Text E)) (\<lambda>native.
     thenE (callE E)
     (thenE (callE E)
     (thenE (modifyE (\<lambda>w. w\<lparr>w_Contexts := AList.delete name (w_Contexts w)\<rparr>))
     (bindE (tryE (callE E)) (\<lambda>written.
      case written of
        Inl e \<Rightarrow> thenE (modifyE (\<lambda>w. w\<lparr>w_Contexts := AList.update name None (w_Contexts w)\<rparr>)) (throwE e)
      | Inr _ \<Rightarrow> modifyE (\<lambda>w. w\<lparr>w_Contexts := AList.update name (Some (declaration, native)) (w_Contexts w)\<rparr>)))))))"

definition verifyBackendContext :: "'st engine \<Rightarrow> string \<Rightarrow> ('st world, unit) eff" where
  "verifyBackendContext E name =
     bindE (tryE (callE E)) (\<lambda>rd.
     bindE (getE w_Contexts) (\<lambda>contexts.
     case (rd, map_of contexts name) of
       (Inr _, Some stored) \<Rightarrow>
         (case stored of
            None \<Rightarrow> throwE (ErrText ''initialized context is invalid'')
          | Some (d, n) \<Rightarrow>
              bindE (liftR (backendDeclaration E name)) (\<lambda>declaration.
              bindE (readE (en_Text E)) (\<lambda>native.
              guardE (d = declaration \<and> n = native) (ErrText ''backend configuration or native cache changed''))))
     | _ \<Rightarrow> throwE (ErrText ''initialized node context is unavailable'')))"

definition initNode :: "'st engine \<Rightarrow> string \<Rightarrow> ('st world, unit) eff" where
  "initNode E name = thenE (runtimeCall E) (rememberBackendContext E name)"

subsection \<open>Plugin gates\<close>

definition pluginHas :: "'st engine \<Rightarrow> string \<Rightarrow> ('st world, bool) eff" where
  "pluginHas E phase = getE (\<lambda>w. w_Plugins w \<and> en_Has E phase)"

definition pluginPlan :: "'st engine \<Rightarrow> string \<Rightarrow> ('st world, unit) eff" where
  "pluginPlan E phase =
     bindE (getE w_Plugins) (\<lambda>on.
       if \<not> on then retE ()
       else
         bindE (readE (en_Text E)) (\<lambda>data.
         thenE (whenE (en_Has E ''plan document'') (runtimeCall E))
         (thenE (whenE (phase = ''node.mutation.admit'') (thenE (callE E) (pluginHost E)))
         (thenE (pluginHost E)
         (bindE (readE (en_Text E)) (\<lambda>current.
          guardE (en_Digest E (DigestBytes current) = en_Digest E (DigestBytes data))
            (ErrText ''native plan changed during plugin assessment'')))))))"

definition pluginAdmitNative :: "'st engine \<Rightarrow> ('st world, unit) eff" where
  "pluginAdmitNative E =
     bindE (getE w_Plugins) (\<lambda>on.
       if \<not> on then retE ()
       else
         thenE (guardE (\<not> en_Has E ''node.plan.ready'') (ErrText ''plugin requires plan evidence''))
         (thenE (callE E) (pluginHost E)))"

subsection \<open>Contracts around a run\<close>

definition inspectContractPlan ::
  "'st engine \<Rightarrow> string \<Rightarrow> bool \<Rightarrow> ('st world, PlanValues option \<times> ContractCheck list \<times> goErr option) eff" where
  "inspectContractPlan E name requireInputs =
     (if \<not> hasContracts (en_Graph E) name then retE (None, [], None)
      else bindE (tryE (runnerPlanValues E)) (\<lambda>rd. retE (inspectValues (en_Value E) (en_Graph E) name rd requireInputs)))"

definition validateOutputContracts :: "'st engine \<Rightarrow> string \<Rightarrow> Outputs \<Rightarrow> ('st world, unit) eff" where
  "validateOutputContracts E name outputs =
     thenE (liftR (policyResult (en_Graph E) (outputContractChecks (en_Value E) (en_Graph E) name outputs True) True))
       (noteCompletion (pluginHost E))"

end
