(* ===== verification/Inputs.thy ===== *)
theory Inputs
  imports Runtime_Calls Journal_Session
begin

text \<open>
  Output snapshots (\<open>internal/engine/snapshot.go\<close>) and the resolution of a node's inputs
  (\<open>internal/engine/inputs.go\<close>, \<open>resolveLiveInputs\<close> of \<open>saved_execution.go\<close>).  The lemmas show which
  outputs can reach a snapshot file or be read back from one, in which order the sources of a value
  are tried, and which inputs a node receives.
\<close>

subsection \<open>Writing a snapshot\<close>

definition consumedOutputs :: "Graph \<Rightarrow> string \<Rightarrow> string list" where
  "consumedOutputs g name =
     remdups (map (pr_Name \<circ> e_From) (filter (\<lambda>e. IsDataEdge e \<and> pr_Node (e_From e) = name) (g_Edges g)))"

definition publishable :: "Graph \<Rightarrow> string \<Rightarrow> Outputs \<Rightarrow> string \<Rightarrow> bool" where
  "publishable g name outputs out =
     (snapshotOutputAllowed g name out \<and>
      (case map_of outputs out of None \<Rightarrow> False | Some o' \<Rightarrow> ro_Sensitive o' = Some False))"

definition newSnapshot :: "Graph \<Rightarrow> string \<Rightarrow> Outputs \<Rightarrow> snapshotFile" where
  "newSnapshot g name outputs =
     (let consumed = consumedOutputs g name;
          published = List.map_filter (\<lambda>out. if publishable g name outputs out
            then map_option (\<lambda>o'. (out, o')) (map_of outputs out) else None) consumed in
      \<lparr>sf_Schema = 3, sf_Node = name, sf_Types = map (\<lambda>(out, o'). (out, ro_Type o')) published,
       sf_Outputs = Some (map (\<lambda>(out, o'). (out, ro_Value o')) published),
       sf_Withheld = sort (filter (\<lambda>out. \<not> publishable g name outputs out) consumed)\<rparr>)"

text \<open>A write that fails can leave a decodable file or a fragment.\<close>

definition writeSnapshotFile :: "'st engine \<Rightarrow> string \<Rightarrow> snapshotFile \<Rightarrow> ('st world, unit) eff" where
  "writeSnapshotFile E name f =
     thenE (callE E)
     (thenE (callE E)
     (thenE (modifyE (\<lambda>w. w\<lparr>w_Snapshots := AList.delete name (w_Snapshots w)\<rparr>))
     (bindE (tryE (callE E)) (\<lambda>written.
      bindE (tick (en_Bool E)) (\<lambda>whole.
      thenE (modifyE (\<lambda>w. w\<lparr>w_Snapshots := AList.update name
               (if isOk written \<or> whole then SnapshotData f False else OtherData) (w_Snapshots w)\<rparr>))
        (liftR written))))))"

definition writeSnapshot :: "'st engine \<Rightarrow> string \<Rightarrow> Outputs \<Rightarrow> ('st world, unit) eff" where
  "writeSnapshot E name outputs =
     (if \<not> g_Snapshots (en_Graph E) then retE ()
      else
        let f = newSnapshot (en_Graph E) name outputs in
        if sf_Outputs f = Some [] \<and> sf_Withheld f = [] then
          thenE (callE E) (modifyE (\<lambda>w. w\<lparr>w_Snapshots := AList.delete name (w_Snapshots w)\<rparr>))
        else writeSnapshotFile E name f)"

subsection \<open>Reading a snapshot\<close>

definition stripSnapshot :: "Graph \<Rightarrow> string \<Rightarrow> snapshotFile \<Rightarrow> jval smap \<Rightarrow> snapshotFile" where
  "stripSnapshot g name f outputs =
     (let refused = filter (\<lambda>out. sf_Schema f = 1 \<or> \<not> snapshotOutputAllowed g name out) (map fst outputs);
          withheld = sf_Withheld f @ refused in
      f\<lparr>sf_Outputs := Some (filter (\<lambda>(out, v). out \<notin> set withheld) outputs), sf_Withheld := withheld\<rparr>)"

definition decodeSnapshot :: "Graph \<Rightarrow> string \<Rightarrow> snapshotData option \<Rightarrow> snapshotFile option" where
  "decodeSnapshot g name d =
     (case d of
        Some (SnapshotData f trailing) \<Rightarrow>
          (case sf_Outputs f of
             None \<Rightarrow> None
           | Some outputs \<Rightarrow>
               if sf_Schema f \<notin> {1, 2, 3} \<or> sf_Node f \<noteq> name \<or> trailing then None
               else Some (stripSnapshot g name f outputs))
      | _ \<Rightarrow> None)"

definition readSnapshot :: "'st engine \<Rightarrow> string \<Rightarrow> ('st world, snapshotFile option) eff" where
  "readSnapshot E name =
     bindE (tryE (callE E)) (\<lambda>rd.
     bindE (getE w_Snapshots) (\<lambda>files.
     retE (if isOk rd then decodeSnapshot (en_Graph E) name (map_of files name) else None)))"

subsection \<open>Type checks of inputs\<close>

definition checkVarType :: "ValueLib \<Rightarrow> Graph \<Rightarrow> string \<Rightarrow> string \<Rightarrow> jval \<Rightarrow> bool \<Rightarrow> goErr + unit" where
  "checkVarType lib g nodeName varName val sourceSensitive =
     (case nodeVariable g nodeName varName of
        None \<Rightarrow> Inr ()
      | Some v \<Rightarrow>
          if v_Const v then Inl (ErrText ''const inputs cannot be supplied'')
          else
            let sensitive = (v_Sensitive v \<or> sourceSensitive \<or> consumesSensitive g nodeName varName);
                checked = (case vl_Simple lib val of
                    None \<Rightarrow> Inl (ErrText ''decoding value for type check'')
                  | Some concrete \<Rightarrow> bindR (EffectiveValue lib v (Some concrete)) (\<lambda>_. Inr ())) in
            (case checked of
               Inr _ \<Rightarrow> Inr ()
             | Inl e \<Rightarrow> Inl (if sensitive then ErrText ''cannot validate sensitive value'' else e)))"

definition checkType :: "ValueLib \<Rightarrow> Graph \<Rightarrow> Edge \<Rightarrow> runOutput \<Rightarrow> goErr + unit" where
  "checkType lib g edge out =
     checkVarType lib g (pr_Node (e_To edge)) (pr_Name (e_To edge)) (ro_Value out)
       (declaredSensitive g (pr_Node (e_From edge)) (pr_Name (e_From edge)) \<or> ro_Sensitive out \<noteq> Some False \<or>
        producesSensitive g (pr_Node (e_From edge)) (pr_Name (e_From edge)))"

subsection \<open>The source of a value\<close>

definition basisOf :: "Edge \<Rightarrow> string \<Rightarrow> InputBasis" where
  "basisOf edge source =
     \<lparr>ib_Input = pr_Name (e_To edge), ib_Node = pr_Node (e_From edge), ib_Output = pr_Name (e_From edge), ib_Source = source\<rparr>"

definition snapshotOutputs :: "snapshotFile \<Rightarrow> Outputs" where
  "snapshotOutputs f =
     map (\<lambda>(key, v). (key, \<lparr>ro_Value = v, ro_Type = sget (sf_Types f) key, ro_Unknown = JNull, ro_Sensitive = Some False\<rparr>))
       (case sf_Outputs f of Some outputs \<Rightarrow> outputs | None \<Rightarrow> [])"

text \<open>The fallback after a failed live read: a reported basis, and the source with its outputs.\<close>

definition snapshotFallback ::
  "'st engine \<Rightarrow> Edge \<Rightarrow> goErr \<Rightarrow> ('st world, InputBasis list \<times> (goErr + string \<times> Outputs)) eff" where
  "snapshotFallback E edge liveErr =
     (let upstream = pr_Node (e_From edge) in
      if \<not> g_Snapshots (en_Graph E) then retE ([], Inl (Joined [ErrText ''reading existing outputs failed'', liveErr]))
      else bindE (readSnapshot E upstream) (\<lambda>found. retE ([],
        case found of
          None \<Rightarrow> Inl (Joined [ErrText ''reading existing outputs failed'', liveErr])
        | Some f \<Rightarrow>
            if \<not> snapshotOutputAllowed (en_Graph E) upstream (pr_Name (e_From edge)) \<or>
               pr_Name (e_From edge) \<in> set (sf_Withheld f)
            then Inl (Joined [ErrText ''withheld from output snapshots'', liveErr])
            else Inr (''snapshot'', snapshotOutputs f))))"

definition knownLocalState :: "'st engine \<Rightarrow> string \<Rightarrow> bool" where
  "knownLocalState E name =
     (case map_of (g_Nodes (en_Graph E)) name of Some n \<Rightarrow> localStatePath (en_OS E) n \<noteq> None | None \<Rightarrow> False)"

definition liveFailed ::
  "'st engine \<Rightarrow> Edge \<Rightarrow> goErr \<Rightarrow> ('st world, InputBasis list \<times> (goErr + string \<times> Outputs)) eff" where
  "liveFailed E edge liveErr =
     bindE (tick (en_Err E)) (\<lambda>cancelled.
       case cancelled of
         Some c \<Rightarrow> retE ([], Inl c)
       | None \<Rightarrow>
           bindE (tick (en_Bool E)) (\<lambda>missing.
             if \<not> g_Snapshots (en_Graph E) \<and> knownLocalState E (pr_Node (e_From edge)) \<and> missing
             then retE ([basisOf edge ''unavailable''], Inl (Joined [liveErr, errUpstreamOutputMissing]))
             else snapshotFallback E edge liveErr))"

text \<open>Outputs of this run first, then a live read shared by the edges of this call, then the fallback.\<close>

definition edgeSource ::
  "'st engine \<Rightarrow> Outputs smap \<Rightarrow> Outputs smap \<Rightarrow> Edge \<Rightarrow>
   ('st world, InputBasis list \<times> (goErr + string \<times> Outputs \<times> Outputs smap)) eff" where
  "edgeSource E applied live edge =
     (let upstream = pr_Node (e_From edge) in
      case map_of applied upstream of
        Some outputs \<Rightarrow> retE ([], Inr (''same_run'', outputs, live))
      | None \<Rightarrow>
          (case map_of live upstream of
             Some outputs \<Rightarrow> retE ([], Inr (''live'', outputs, live))
           | None \<Rightarrow>
               bindE (tryE (runnerOutputs E)) (\<lambda>rd.
                 case rd of
                   Inr outputs \<Rightarrow> retE ([], Inr (''live'', outputs, AList.update upstream outputs live))
                 | Inl e \<Rightarrow>
                     bindE (liveFailed E edge e) (\<lambda>(basis, res).
                       retE (basis, bindR res (\<lambda>(source, outputs). Inr (source, outputs, live)))))))"

subsection \<open>Resolving inputs\<close>

definition edgeValue ::
  "'st engine \<Rightarrow> Edge \<Rightarrow> string \<Rightarrow> Outputs \<Rightarrow> goErr + jval" where
  "edgeValue E edge source outputs =
     (case map_of outputs (pr_Name (e_From edge)) of
        None \<Rightarrow> Inl (Joined [ErrText ''no output value'', errUpstreamOutputMissing])
      | Some out \<Rightarrow>
          bindR (policyResult (en_Graph E)
                  (outputContractChecks (en_Value E) (en_Graph E) (pr_Node (e_From edge)) outputs (source \<noteq> ''snapshot'')) True) (\<lambda>_.
          bindR (checkType (en_Value E) (en_Graph E) edge out) (\<lambda>_. Inr (ro_Value out))))"

definition incoming :: "string \<Rightarrow> Edge \<Rightarrow> bool" where
  "incoming name edge \<longleftrightarrow> IsDataEdge edge \<and> pr_Node (e_To edge) = name"

fun resolveEdges ::
  "'st engine \<Rightarrow> Outputs smap \<Rightarrow> Edge list \<Rightarrow> jval smap \<Rightarrow> Outputs smap \<Rightarrow> InputBasis list \<Rightarrow>
   ('st world, InputBasis list \<times> (goErr + jval smap)) eff" where
  "resolveEdges E applied [] vars live basis = retE (basis, Inr vars)"
| "resolveEdges E applied (edge # edges) vars live basis =
     bindE (edgeSource E applied live edge) (\<lambda>(noted, res).
       case res of
         Inl e \<Rightarrow> retE (basis @ noted, Inl e)
       | Inr (source, outputs, live') \<Rightarrow>
           (let basis' = basis @ noted @ [basisOf edge source] in
            case edgeValue E edge source outputs of
              Inl e \<Rightarrow> retE (basis', Inl e)
            | Inr v \<Rightarrow> resolveEdges E applied edges (AList.update (pr_Name (e_To edge)) v vars) live' basis'))"

fun resolveVars :: "'st engine \<Rightarrow> string \<Rightarrow> (string \<times> jval) list \<Rightarrow> jval smap \<Rightarrow> goErr + jval smap" where
  "resolveVars E name [] vars = Inr vars"
| "resolveVars E name ((var, v) # rest) vars =
     (if hasKey vars var then Inl (ErrText ''set by both a data edge and vars'')
      else bindR (checkVarType (en_Value E) (en_Graph E) name var v False) (\<lambda>_.
        resolveVars E name rest (AList.update var v vars)))"

definition inputIsSensitive :: "Graph \<Rightarrow> string \<Rightarrow> string \<Rightarrow> bool" where
  "inputIsSensitive g name input = (case nodeVariable g name input of Some v \<Rightarrow> v_Sensitive v | None \<Rightarrow> False)"

text \<open>\<open>plugins.Resolve\<close> without a lifecycle fails; otherwise the host is called and answers a value.\<close>

definition pluginResolve :: "'st engine \<Rightarrow> ('st world, jval) eff" where
  "pluginResolve E =
     bindE (getE w_Plugins) (\<lambda>on.
       if \<not> on then throwE (ErrText ''plugin input requires an active lifecycle'')
       else thenE (pluginHost E) (readE (en_Input E)))"

fun resolvePlugins ::
  "'st engine \<Rightarrow> string \<Rightarrow> (string \<times> PluginBinding) list \<Rightarrow> jval smap \<Rightarrow> InputBasis list \<Rightarrow>
   ('st world, InputBasis list \<times> (goErr + jval smap)) eff" where
  "resolvePlugins E name [] vars basis = retE (basis, Inr vars)"
| "resolvePlugins E name ((input, binding) # rest) vars basis =
     (if \<not> inputIsSensitive (en_Graph E) name input
      then retE (basis, Inl (ErrText ''plugin inputs require a sensitive module variable''))
      else if hasKey vars input then retE (basis, Inl (ErrText ''plugin input conflicts''))
      else bindE (tryE (pluginResolve E)) (\<lambda>res.
        case bindR res (\<lambda>v. bindR (checkVarType (en_Value E) (en_Graph E) name input v True) (\<lambda>_. Inr v)) of
          Inl e \<Rightarrow> retE (basis, Inl e)
        | Inr v \<Rightarrow>
            resolvePlugins E name rest (AList.update input v vars)
              (basis @ [\<lparr>ib_Input = input, ib_Node = pb_Alias binding, ib_Output = pb_Feature binding, ib_Source = ''plugin''\<rparr>])))"

definition nodeVars :: "Graph \<Rightarrow> string \<Rightarrow> jval smap" where
  "nodeVars g name = (case map_of (g_Nodes g) name of Some n \<Rightarrow> bn_Vars (gn_Node n) | None \<Rightarrow> [])"

definition nodeInputs :: "Graph \<Rightarrow> string \<Rightarrow> PluginBinding smap" where
  "nodeInputs g name = (case map_of (g_Nodes g) name of Some n \<Rightarrow> bn_Inputs (gn_Node n) | None \<Rightarrow> [])"

text \<open>The basis collected so far is also there when the resolution fails.\<close>

definition resolveInputsWithBasis ::
  "'st engine \<Rightarrow> string \<Rightarrow> Outputs smap \<Rightarrow> ('st world, InputBasis list \<times> (goErr + jval smap)) eff" where
  "resolveInputsWithBasis E name applied =
     bindE (resolveEdges E applied (filter (incoming name) (g_Edges (en_Graph E))) [] [] []) (\<lambda>(basis, res).
       case bindR res (resolveVars E name (nodeVars (en_Graph E) name)) of
         Inl e \<Rightarrow> retE (basis, Inl e)
       | Inr vars \<Rightarrow> resolvePlugins E name (nodeInputs (en_Graph E) name) vars basis)"

definition resolveInputs :: "'st engine \<Rightarrow> string \<Rightarrow> Outputs smap \<Rightarrow> ('st world, jval smap) eff" where
  "resolveInputs E name applied = bindE (resolveInputsWithBasis E name applied) (\<lambda>(basis, res). liftR res)"

fun liveUpstreams :: "'st engine \<Rightarrow> Edge list \<Rightarrow> Outputs smap \<Rightarrow> ('st world, Outputs smap) eff" where
  "liveUpstreams E [] outputs = retE outputs"
| "liveUpstreams E (edge # edges) outputs =
     (if hasKey outputs (pr_Node (e_From edge)) then liveUpstreams E edges outputs
      else bindE (tryE (runnerOutputs E)) (\<lambda>rd.
        case rd of
          Inl e \<Rightarrow> throwE (Joined [ErrText ''retained plans require live upstream outputs'', e])
        | Inr live \<Rightarrow> liveUpstreams E edges (AList.update (pr_Node (e_From edge)) live outputs)))"

definition resolveLiveInputs :: "'st engine \<Rightarrow> string \<Rightarrow> ('st world, jval smap) eff" where
  "resolveLiveInputs E name =
     bindE (liveUpstreams E (filter (incoming name) (g_Edges (en_Graph E))) []) (resolveInputs E name)"

subsection \<open>What a snapshot holds\<close>

definition fileOutputs :: "snapshotFile \<Rightarrow> jval smap" where
  "fileOutputs f = (case sf_Outputs f of Some outputs \<Rightarrow> outputs | None \<Rightarrow> [])"

lemma newSnapshot_outputs:
  "(out, v) \<in> set (fileOutputs (newSnapshot g name outputs)) \<longleftrightarrow>
   out \<in> set (consumedOutputs g name) \<and> publishable g name outputs out \<and>
   (\<exists>o'. map_of outputs out = Some o' \<and> v = ro_Value o')"
  by (auto simp: newSnapshot_def fileOutputs_def Let_def List.map_filter_def image_iff split: if_splits)

lemma newSnapshot_fields:
  "sf_Schema (newSnapshot g name outputs) = 3" "sf_Node (newSnapshot g name outputs) = name"
  "sf_Outputs (newSnapshot g name outputs) = Some (fileOutputs (newSnapshot g name outputs))"
  "set (sf_Withheld (newSnapshot g name outputs)) = {out \<in> set (consumedOutputs g name). \<not> publishable g name outputs out}"
  by (simp_all add: newSnapshot_def fileOutputs_def Let_def)

lemma callE_world: "callE E w = (w', r) \<Longrightarrow> w' = w\<lparr>w_Tick := Suc (w_Tick w)\<rparr>"
  by (auto simp: callE_def bindE_def tick_app split: option.splits)

lemma newSnapshot_empty:
  "sf_Outputs (newSnapshot g name outputs) = Some [] \<and> sf_Withheld (newSnapshot g name outputs) = [] \<longleftrightarrow>
   consumedOutputs g name = []" (is "?L \<longleftrightarrow> ?R")
proof
  assume L: ?L
  then have no: "fileOutputs (newSnapshot g name outputs) = []" by (simp add: fileOutputs_def)
  have "False" if out: "out \<in> set (consumedOutputs g name)" for out
  proof (cases "publishable g name outputs out")
    case True
    then obtain o' where "map_of outputs out = Some o'" by (auto simp: publishable_def split: option.splits)
    then have "(out, ro_Value o') \<in> set (fileOutputs (newSnapshot g name outputs))"
      using out True by (simp add: newSnapshot_outputs)
    then show False using no by simp
  next
    case False
    then have "out \<in> set (sf_Withheld (newSnapshot g name outputs))" using out by (simp add: newSnapshot_fields)
    then show False using L by simp
  qed
  then show ?R by (cases "consumedOutputs g name") auto
qed (simp add: newSnapshot_def List.map_filter_def)

text \<open>What a write can leave on disk.\<close>

definition snapshotWritten :: "Graph \<Rightarrow> string \<Rightarrow> Outputs \<Rightarrow> snapshotData option \<Rightarrow> snapshotData option \<Rightarrow> bool" where
  "snapshotWritten g name outputs before after \<longleftrightarrow>
     after \<in> {before, None, Some OtherData, Some (SnapshotData (newSnapshot g name outputs) False)}"

lemma writeSnapshot_result:
  assumes "writeSnapshot E name outputs w = (w', r)"
  shows "(\<forall>n. n \<noteq> name \<longrightarrow> map_of (w_Snapshots w') n = map_of (w_Snapshots w) n) \<and>
    snapshotWritten (en_Graph E) name outputs (map_of (w_Snapshots w) name) (map_of (w_Snapshots w') name) \<and>
    (isOk r \<and> g_Snapshots (en_Graph E) \<longrightarrow> map_of (w_Snapshots w') name =
       (if consumedOutputs (en_Graph E) name = [] then None
        else Some (SnapshotData (newSnapshot (en_Graph E) name outputs) False)))"
  using assms unfolding writeSnapshot_def writeSnapshotFile_def Let_def newSnapshot_empty snapshotWritten_def
  by (auto simp: bindE_def thenE_def tryE_def tick_app isOk_def delete_conv' update_conv' split: if_splits prod.splits sum.splits
      dest!: callE_world)

text \<open>
  C33: No sensitive value reaches an output snapshot.  However the file system behaves, writing a
  node's snapshot touches no other node's file, and leaves of its own the old file, no file, an
  undecodable fragment or the new snapshot; every value of the new snapshot is the current value of
  an output some data edge consumes, that the module declares without sensitivity, no contract
  claims sensitive and the runtime itself reported as not sensitive; every other consumed output is
  named as withheld; and with snapshots enabled a write that succeeds leaves exactly the new
  snapshot, or no file when nothing is consumed any more.
\<close>

theorem snapshot_write_public:
  assumes "writeSnapshot E name outputs w = (w', r)"
  shows "(\<forall>n. n \<noteq> name \<longrightarrow> map_of (w_Snapshots w') n = map_of (w_Snapshots w) n) \<and>
    map_of (w_Snapshots w') name \<in> {map_of (w_Snapshots w) name, None, Some OtherData,
      Some (SnapshotData (newSnapshot (en_Graph E) name outputs) False)} \<and>
    (\<forall>out v. (out, v) \<in> set (fileOutputs (newSnapshot (en_Graph E) name outputs)) \<longrightarrow>
       (\<exists>e \<in> set (g_Edges (en_Graph E)). IsDataEdge e \<and> pr_Node (e_From e) = name \<and> pr_Name (e_From e) = out) \<and>
       (\<exists>d. outputDetail (en_Graph E) name out = Some d \<and> \<not> o_Sensitive d) \<and>
       \<not> producesSensitive (en_Graph E) name out \<and>
       (\<exists>o'. map_of outputs out = Some o' \<and> ro_Sensitive o' = Some False \<and> v = ro_Value o')) \<and>
    set (consumedOutputs (en_Graph E) name) =
      fst ` set (fileOutputs (newSnapshot (en_Graph E) name outputs)) \<union> set (sf_Withheld (newSnapshot (en_Graph E) name outputs)) \<and>
    (r = Inr () \<and> g_Snapshots (en_Graph E) \<longrightarrow> map_of (w_Snapshots w') name =
       (if consumedOutputs (en_Graph E) name = [] then None
        else Some (SnapshotData (newSnapshot (en_Graph E) name outputs) False)))"
proof (intro conjI)
  show "\<forall>n. n \<noteq> name \<longrightarrow> map_of (w_Snapshots w') n = map_of (w_Snapshots w) n"
    "map_of (w_Snapshots w') name \<in> {map_of (w_Snapshots w) name, None, Some OtherData,
      Some (SnapshotData (newSnapshot (en_Graph E) name outputs) False)}"
    "r = Inr () \<and> g_Snapshots (en_Graph E) \<longrightarrow> map_of (w_Snapshots w') name =
       (if consumedOutputs (en_Graph E) name = [] then None
        else Some (SnapshotData (newSnapshot (en_Graph E) name outputs) False))"
    using writeSnapshot_result [OF assms] by (auto simp: snapshotWritten_def isOk_def)
  show "\<forall>out v. (out, v) \<in> set (fileOutputs (newSnapshot (en_Graph E) name outputs)) \<longrightarrow>
       (\<exists>e \<in> set (g_Edges (en_Graph E)). IsDataEdge e \<and> pr_Node (e_From e) = name \<and> pr_Name (e_From e) = out) \<and>
       (\<exists>d. outputDetail (en_Graph E) name out = Some d \<and> \<not> o_Sensitive d) \<and>
       \<not> producesSensitive (en_Graph E) name out \<and>
       (\<exists>o'. map_of outputs out = Some o' \<and> ro_Sensitive o' = Some False \<and> v = ro_Value o')"
    by (auto simp: newSnapshot_outputs publishable_def snapshotOutputAllowed_def consumedOutputs_def
        split: option.splits if_splits)
  have "out \<in> fst ` set (fileOutputs (newSnapshot (en_Graph E) name outputs))"
    if cons: "out \<in> set (consumedOutputs (en_Graph E) name)" and pub: "publishable (en_Graph E) name outputs out" for out
  proof -
    obtain o' where "map_of outputs out = Some o'" using pub by (auto simp: publishable_def split: option.splits)
    then have "(out, ro_Value o') \<in> set (fileOutputs (newSnapshot (en_Graph E) name outputs))"
      using cons pub by (simp add: newSnapshot_outputs)
    then show ?thesis by force
  qed
  then show "set (consumedOutputs (en_Graph E) name) =
      fst ` set (fileOutputs (newSnapshot (en_Graph E) name outputs)) \<union> set (sf_Withheld (newSnapshot (en_Graph E) name outputs))"
    unfolding newSnapshot_fields by (auto simp: newSnapshot_outputs)
qed

text \<open>A graph with snapshots and its outputs.\<close>

definition snapshotGraph :: Graph where
  "snapshotGraph = sampleGraph\<lparr>g_Snapshots := True, g_Nodes := map (\<lambda>(n, x).
     (n, x\<lparr>gn_Schema := map_option (\<lambda>s. s\<lparr>sc_OutputDetails :=
        [(''vpc'', \<lparr>o_Name = ''vpc'', o_Type = ''string'', o_Sensitive = False\<rparr>)]\<rparr>) (gn_Schema x)\<rparr>)) (g_Nodes sampleGraph)\<rparr>"

definition sampleOutputs :: Outputs where
  "sampleOutputs = [(''vpc'', zeroOutput\<lparr>ro_Value := JStr ''v'', ro_Sensitive := Some False\<rparr>)]"

lemma sample_snapshot:
  "newSnapshot snapshotGraph ''network'' sampleOutputs =
     \<lparr>sf_Schema = 3, sf_Node = ''network'', sf_Types = [(''vpc'', '''')], sf_Outputs = Some [(''vpc'', JStr ''v'')], sf_Withheld = []\<rparr>"
  by code_simp

theorem snapshot_write_public_witness:
  "map_of (w_Snapshots (fst (writeSnapshot (sampleEngine\<lparr>en_Graph := snapshotGraph\<rparr>) ''network'' sampleOutputs
       (sampleWorldOf sampleExecution)))) ''network'' \<in>
     {None, Some OtherData, Some (SnapshotData (newSnapshot snapshotGraph ''network'' sampleOutputs) False)} \<and>
   fileOutputs (newSnapshot snapshotGraph ''network'' sampleOutputs) = [(''vpc'', JStr ''v'')]"
proof -
  let ?E = "sampleEngine\<lparr>en_Graph := snapshotGraph\<rparr>" and ?w = "sampleWorldOf sampleExecution"
  have "writeSnapshot ?E ''network'' sampleOutputs ?w =
      (fst (writeSnapshot ?E ''network'' sampleOutputs ?w), snd (writeSnapshot ?E ''network'' sampleOutputs ?w))" by simp
  from snapshot_write_public [OF this] show ?thesis
    by (auto simp: sampleWorldOf_def fileOutputs_def sample_snapshot)
qed

subsection \<open>Reading back\<close>

lemma decodeSnapshot_cases:
  assumes "decodeSnapshot g name d = Some f"
  obtains h where "d = Some (SnapshotData h False)" "sf_Outputs h \<noteq> None" "f = stripSnapshot g name h (fileOutputs h)"
  using assms by (auto simp: decodeSnapshot_def fileOutputs_def split: option.splits snapshotData.splits if_splits)

lemma strip_public:
  "(out, v) \<in> set (fileOutputs (stripSnapshot g name h outputs)) \<Longrightarrow>
   (out, v) \<in> set outputs \<and> sf_Schema h \<noteq> 1 \<and> snapshotOutputAllowed g name out \<and>
   out \<notin> set (sf_Withheld (stripSnapshot g name h outputs)) \<and> out \<notin> set (sf_Withheld h)"
  by (force simp: stripSnapshot_def Let_def fileOutputs_def)

lemma fileOutputs_update: "fileOutputs (f\<lparr>sf_Outputs := Some outs\<rparr>) = outs"
  by (simp add: fileOutputs_def)

lemma strip_schema: "sf_Schema (stripSnapshot g name h outputs) = sf_Schema h"
  by (simp add: stripSnapshot_def Let_def)

text \<open>
  C34: Snapshots are read defensively and round-trip.  Whatever a snapshot file holds, the outputs
  read from it are allowed by the current declarations and contracts, come from a format that
  checked runtime sensitivity, and are not among the names the file withholds.  When the file is the
  one a successful write of the same node left, reading it gives exactly the published values.
\<close>

theorem snapshot_read_public:
  "(\<forall>d f out v. decodeSnapshot g name d = Some f \<longrightarrow> (out, v) \<in> set (fileOutputs f) \<longrightarrow>
      snapshotOutputAllowed g name out \<and> sf_Schema f \<noteq> 1 \<and> out \<notin> set (sf_Withheld f)) \<and>
   (\<exists>f. decodeSnapshot g name (Some (SnapshotData (newSnapshot g name outputs) False)) = Some f \<and>
      fileOutputs f = fileOutputs (newSnapshot g name outputs) \<and> sf_Withheld f = sf_Withheld (newSnapshot g name outputs))"
proof
  show "\<forall>d f out v. decodeSnapshot g name d = Some f \<longrightarrow> (out, v) \<in> set (fileOutputs f) \<longrightarrow>
      snapshotOutputAllowed g name out \<and> sf_Schema f \<noteq> 1 \<and> out \<notin> set (sf_Withheld f)"
  proof (intro allI impI)
    fix d f out v assume dec: "decodeSnapshot g name d = Some f" and mem: "(out, v) \<in> set (fileOutputs f)"
    obtain h where "f = stripSnapshot g name h (fileOutputs h)" using dec by (rule decodeSnapshot_cases)
    then show "snapshotOutputAllowed g name out \<and> sf_Schema f \<noteq> 1 \<and> out \<notin> set (sf_Withheld f)"
      using strip_public [of out v g name h "fileOutputs h"] mem by (simp add: strip_schema)
  qed
  let ?n = "newSnapshot g name outputs"
  have ok: "publishable g name outputs out \<and> out \<notin> set (sf_Withheld ?n)" if "(out, v) \<in> set (fileOutputs ?n)" for out v
    using that by (simp add: newSnapshot_outputs newSnapshot_fields)
  then have none: "filter (\<lambda>out. sf_Schema ?n = 1 \<or> \<not> snapshotOutputAllowed g name out) (map fst (fileOutputs ?n)) = []"
    by (auto simp: filter_empty_conv newSnapshot_fields publishable_def)
  have "fileOutputs (stripSnapshot g name ?n (fileOutputs ?n)) = fileOutputs ?n"
    "sf_Withheld (stripSnapshot g name ?n (fileOutputs ?n)) = sf_Withheld ?n"
    using ok by (auto simp: stripSnapshot_def Let_def none fileOutputs_update intro!: filter_True)
  then show "\<exists>f. decodeSnapshot g name (Some (SnapshotData ?n False)) = Some f \<and>
      fileOutputs f = fileOutputs ?n \<and> sf_Withheld f = sf_Withheld ?n"
    by (auto simp: decodeSnapshot_def newSnapshot_fields)
qed

theorem snapshot_read_public_witness:
  "\<exists>f. decodeSnapshot snapshotGraph ''network'' (Some (SnapshotData (newSnapshot snapshotGraph ''network'' sampleOutputs) False)) = Some f \<and>
      fileOutputs f = [(''vpc'', JStr ''v'')] \<and> snapshotOutputAllowed snapshotGraph ''network'' ''vpc''"
  using snapshot_read_public [of snapshotGraph "''network''" sampleOutputs] by (fastforce simp: sample_snapshot fileOutputs_def)

subsection \<open>Where inputs come from\<close>

declare hasKey_iff [simp del]

lemma hasKey_Some: "hasKey m k \<longleftrightarrow> (\<exists>v. map_of m k = Some v)"
  unfolding hasKey_def by (rule not_None_eq)

text \<open>Resolving inputs only reads: time passes and no snapshot changes.\<close>

definition onlyReads :: "'st world \<Rightarrow> 'st world \<Rightarrow> bool" where
  "onlyReads w w' \<longleftrightarrow> w_Tick w \<le> w_Tick w' \<and> w_Snapshots w' = w_Snapshots w"

interpretation only_reads: effect_order onlyReads
  by unfold_locales (auto simp: onlyReads_def)

lemma reads_tick [relatesI]: "relates onlyReads (tick f)"
  by (simp add: relates_def tick_def onlyReads_def)

lemma reads_modify [relatesI]:
  "(\<And>w. w_Tick (f w) = w_Tick w \<and> w_Snapshots (f w) = w_Snapshots w) \<Longrightarrow> relates onlyReads (modifyE f)"
  by (simp add: relates_def onlyReads_def)

lemma reads_storeWrite [relatesI]: "relates onlyReads (storeWrite E key data revision)"
proof -
  have "relates onlyReads (\<lambda>w. case g (w_Store w) of (st, r) \<Rightarrow> (w\<lparr>w_Store := st\<rparr>, r))" for g
    by (auto simp: relates_def onlyReads_def split: prod.splits)
  then show ?thesis unfolding storeWrite_def by (intro relatesI)
qed

lemma reads_callE [relatesI]: "relates onlyReads (callE E)"
  unfolding callE_def by (intro relatesI)

lemma reads_recordPlugin [relatesI]: "relates onlyReads (recordPlugin E call)"
  unfolding recordPlugin_def publish_def writeRecord_def Let_def by (intro relatesI) simp_all

lemma reads_pluginHost [relatesI]: "relates onlyReads (pluginHost E)"
  unfolding pluginHost_def by (intro relatesI)

lemma reads_runtimeCall [relatesI]: "relates onlyReads (runtimeCall E)"
  unfolding runtimeCall_def runtimeHook_def noteCompletion_def addCompletionError_def by (intro relatesI) simp

lemma reads_readE [relatesI]: "relates onlyReads (readE f)"
  unfolding readE_def by (intro relatesI)

lemma reads_edgeSource [relatesI]: "relates onlyReads (edgeSource E applied live edge)"
  unfolding edgeSource_def runnerOutputs_def liveFailed_def snapshotFallback_def readSnapshot_def Let_def
  by (intro relatesI)

lemma reads_pluginResolve [relatesI]: "relates onlyReads (pluginResolve E)"
  unfolding pluginResolve_def by (intro relatesI)

lemma readE_ok: "readE f w = (w', Inr x) \<Longrightarrow> f (w_Tick w) = Inr x \<and> w_Tick w < w_Tick w'"
  by (auto simp: readE_def bindE_def tick_app liftR_def)

text \<open>An answer of the environment between two moments.\<close>

definition answered :: "(nat \<Rightarrow> goErr + 'a) \<Rightarrow> nat \<Rightarrow> nat \<Rightarrow> 'a \<Rightarrow> bool" where
  "answered f lo hi x \<longleftrightarrow> (\<exists>t. lo \<le> t \<and> t < hi \<and> f t = Inr x)"

lemma answered_mono: "answered f lo hi x \<Longrightarrow> lo' \<le> lo \<Longrightarrow> hi \<le> hi' \<Longrightarrow> answered f lo' hi' x"
  unfolding answered_def by (meson le_trans less_le_trans)

lemma read_answered:
  assumes "thenE m (readE f) w = (w', Inr x)" "relates onlyReads m"
  shows "answered f (w_Tick w) (w_Tick w') x"
proof -
  obtain w1 r where m: "m w = (w1, r)" by (meson surj_pair)
  then have "onlyReads w w1" by (rule relatesD [OF assms(2)])
  moreover have "readE f w1 = (w', Inr x)" using assms(1) m by (cases r) (auto simp: thenE_def bindE_def)
  ultimately have "onlyReads w w1" "readE f w1 = (w', Inr x)" by simp_all
  then show ?thesis using readE_ok [of f w1 w' x] by (auto simp: answered_def onlyReads_def)
qed

text \<open>The outputs an edge's source stands for, and what the report may say when there are none.\<close>

definition sourceGives ::
  "'st engine \<Rightarrow> Outputs smap \<Rightarrow> snapshotData smap \<Rightarrow> nat \<Rightarrow> nat \<Rightarrow> Edge \<Rightarrow> string \<Rightarrow> Outputs \<Rightarrow> bool" where
  "sourceGives E applied snapshots lo hi edge source outs \<longleftrightarrow>
     (let up = pr_Node (e_From edge) in
      source = ''same_run'' \<and> map_of applied up = Some outs \<or>
      source = ''live'' \<and> \<not> hasKey applied up \<and> answered (en_Outputs E) lo hi outs \<or>
      source = ''snapshot'' \<and> \<not> hasKey applied up \<and> g_Snapshots (en_Graph E) \<and>
        snapshotOutputAllowed (en_Graph E) up (pr_Name (e_From edge)) \<and>
        (\<exists>f. decodeSnapshot (en_Graph E) up (map_of snapshots up) = Some f \<and> pr_Name (e_From edge) \<notin> set (sf_Withheld f) \<and>
           outs = snapshotOutputs f))"

definition sourceOk :: "Graph \<Rightarrow> Outputs smap \<Rightarrow> Edge \<Rightarrow> string \<Rightarrow> bool" where
  "sourceOk g applied edge source \<longleftrightarrow>
     (source = ''same_run'' \<longleftrightarrow> hasKey applied (pr_Node (e_From edge))) \<and>
     (source = ''snapshot'' \<longrightarrow> g_Snapshots g \<and> snapshotOutputAllowed g (pr_Node (e_From edge)) (pr_Name (e_From edge)))"

lemma sourceGives_cases:
  assumes "sourceGives E applied snapshots lo hi edge source outs"
  obtains (same_run) "source = ''same_run''" "map_of applied (pr_Node (e_From edge)) = Some outs"
  | (live) "source = ''live''" "\<not> hasKey applied (pr_Node (e_From edge))" "answered (en_Outputs E) lo hi outs"
  | (snapshot) f where "source = ''snapshot''" "\<not> hasKey applied (pr_Node (e_From edge))" "g_Snapshots (en_Graph E)"
      "snapshotOutputAllowed (en_Graph E) (pr_Node (e_From edge)) (pr_Name (e_From edge))"
      "decodeSnapshot (en_Graph E) (pr_Node (e_From edge)) (map_of snapshots (pr_Node (e_From edge))) = Some f"
      "pr_Name (e_From edge) \<notin> set (sf_Withheld f)" "outs = snapshotOutputs f"
  using assms unfolding sourceGives_def Let_def by (elim disjE conjE exE)

lemma sourceGives_ok: "sourceGives E applied snapshots lo hi edge source outs \<Longrightarrow> sourceOk (en_Graph E) applied edge source"
  unfolding sourceOk_def by (erule sourceGives_cases) (simp_all only: hasKey_def, simp_all)

lemma sourceGives_mono:
  assumes "sourceGives E applied snapshots lo hi edge source outs" "lo' \<le> lo" "hi \<le> hi'"
  shows "sourceGives E applied snapshots lo' hi' edge source outs"
  using assms(1) unfolding sourceGives_def Let_def using answered_mono [OF _ assms(2,3)] by iprover

lemma snapshotFallback_source:
  "snapshotFallback E edge e w = (w', r) \<Longrightarrow> \<not> hasKey applied (pr_Node (e_From edge)) \<Longrightarrow>
   \<exists>res. r = Inr ([], res) \<and> (\<forall>s outs. res = Inr (s, outs) \<longrightarrow> sourceGives E applied (w_Snapshots w) lo hi edge s outs)"
  by (auto simp: snapshotFallback_def Let_def readSnapshot_def bindE_def tryE_def sourceGives_def
      dest!: callE_world split: if_splits prod.splits option.splits)

lemma liveFailed_source:
  "liveFailed E edge e w = (w', r) \<Longrightarrow> \<not> hasKey applied (pr_Node (e_From edge)) \<Longrightarrow>
   \<exists>noted res. r = Inr (noted, res) \<and> set noted \<subseteq> {basisOf edge ''unavailable''} \<and>
     (\<forall>s outs. res = Inr (s, outs) \<longrightarrow> sourceGives E applied (w_Snapshots w) lo hi edge s outs)"
  by (auto simp: liveFailed_def bindE_def tick_app split: option.splits if_splits
      dest!: snapshotFallback_source [where applied = applied and lo = lo and hi = hi])

definition liveOk :: "'st engine \<Rightarrow> nat \<Rightarrow> nat \<Rightarrow> Outputs smap \<Rightarrow> bool" where
  "liveOk E lo hi live \<longleftrightarrow> (\<forall>up outs. map_of live up = Some outs \<longrightarrow> answered (en_Outputs E) lo hi outs)"

lemma liveOk_mono:
  assumes "liveOk E lo hi live" "hi \<le> hi'"
  shows "liveOk E lo hi' live"
  unfolding liveOk_def
proof (intro allI impI)
  fix up outs assume "map_of live up = Some outs"
  with assms(1) have "answered (en_Outputs E) lo hi outs" by (simp add: liveOk_def)
  then show "answered (en_Outputs E) lo hi' outs" using assms(2) by (rule answered_mono [OF _ order_refl])
qed

lemma edgeSource_source:
  assumes run: "edgeSource E applied live edge w = (w', r)" and live: "liveOk E lo (w_Tick w) live" and lo: "lo \<le> w_Tick w"
  shows "\<exists>noted res. r = Inr (noted, res) \<and>
     (\<forall>b \<in> set noted. \<exists>s. b = basisOf edge s \<and> sourceOk (en_Graph E) applied edge s) \<and>
     (\<forall>s outs live'. res = Inr (s, outs, live') \<longrightarrow> liveOk E lo (w_Tick w') live' \<and>
        sourceGives E applied (w_Snapshots w) lo (w_Tick w') edge s outs)"
proof (cases "map_of applied (pr_Node (e_From edge))")
  case (Some own)
  then show ?thesis using run live by (auto simp: edgeSource_def Let_def sourceGives_def)
next
  case None
  then have no: "\<not> hasKey applied (pr_Node (e_From edge))" by (simp add: hasKey_Some)
  show ?thesis
  proof (cases "map_of live (pr_Node (e_From edge))")
    case (Some own)
    then show ?thesis using run no live None by (auto simp: edgeSource_def Let_def sourceGives_def liveOk_def)
  next
    case new: None
    obtain w1 rd where rd: "runnerOutputs E w = (w1, rd)" by (meson surj_pair)
    have w1: "onlyReads w w1" using rd unfolding runnerOutputs_def by (rule relatesD [rotated]) (intro relatesI)
    show ?thesis
    proof (cases rd)
      case (Inl e)
      obtain w2 r2 where lf: "liveFailed E edge e w1 = (w2, r2)" by (meson surj_pair)
      from liveFailed_source [OF lf no, of lo "w_Tick w2"] w1 obtain noted res where r2: "r2 = Inr (noted, res)"
        and "set noted \<subseteq> {basisOf edge ''unavailable''}"
        and "\<forall>s outs. res = Inr (s, outs) \<longrightarrow> sourceGives E applied (w_Snapshots w) lo (w_Tick w2) edge s outs"
        by (auto simp: onlyReads_def)
      moreover have "r = Inr (noted, bindR res (\<lambda>(source, outputs). Inr (source, outputs, live)))" "w' = w2"
        using run None new rd Inl lf r2 by (simp_all add: edgeSource_def Let_def bindE_def tryE_def)
      moreover have "liveOk E lo (w_Tick w') live"
        using relatesD [OF reads_edgeSource run] by (intro liveOk_mono [OF live]) (simp add: onlyReads_def)
      ultimately show ?thesis using no by (cases res) (auto simp: sourceOk_def)
    next
      case (Inr outs)
      have "answered (en_Outputs E) lo (w_Tick w1) outs"
        using read_answered [OF rd [unfolded runnerOutputs_def Inr] reads_runtimeCall] lo by (rule answered_mono) simp_all
      moreover have "liveOk E lo (w_Tick w1) live" using w1 by (intro liveOk_mono [OF live]) (simp add: onlyReads_def)
      ultimately show ?thesis
        using run None new rd Inr no
        by (auto simp: edgeSource_def Let_def bindE_def tryE_def sourceGives_def liveOk_def update_conv' split: if_splits)
    qed
  qed
qed

subsection \<open>What an input must satisfy\<close>

text \<open>The module variable takes the value: it is not a constant, and the value converts to its type.\<close>

definition acceptsValue :: "ValueLib \<Rightarrow> Graph \<Rightarrow> string \<Rightarrow> string \<Rightarrow> jval \<Rightarrow> bool" where
  "acceptsValue lib g node var val \<longleftrightarrow>
     (\<forall>v. nodeVariable g node var = Some v \<longrightarrow>
        \<not> v_Const v \<and> (\<exists>concrete. vl_Simple lib val = Some concrete \<and> isOk (EffectiveValue lib v (Some concrete))))"

text \<open>In enforce mode every producer claim of the upstream holds of its outputs; a snapshot answers only for the
  outputs it holds.\<close>

definition producerHolds :: "ValueLib \<Rightarrow> Graph \<Rightarrow> string \<Rightarrow> Outputs \<Rightarrow> bool \<Rightarrow> bool" where
  "producerHolds lib g up outs complete \<longleftrightarrow>
     (g_ContractMode g = ''enforce'' \<longrightarrow>
        (\<forall>dc port p. nodeContracts g up = Some dc \<and> map_of (dc_Producer dc) port = Some p \<and> (complete \<or> map_of outs port \<noteq> None) \<longrightarrow>
           portHolds (vl_Cty lib) p (observedOutput lib (map_of outs port)) (outputSensitivity g up port (map_of outs port))))"

text \<open>The value of an edge: the named output of the source that is used and reported, checked on both ends.\<close>

definition edgeSupplies ::
  "'st engine \<Rightarrow> Outputs smap \<Rightarrow> snapshotData smap \<Rightarrow> nat \<Rightarrow> nat \<Rightarrow> InputBasis list \<Rightarrow> Edge \<Rightarrow> jval \<Rightarrow> bool" where
  "edgeSupplies E applied snapshots lo hi basis edge v \<longleftrightarrow>
     (\<exists>source outs out. basisOf edge source \<in> set basis \<and> sourceGives E applied snapshots lo hi edge source outs \<and>
        map_of outs (pr_Name (e_From edge)) = Some out \<and> v = ro_Value out \<and>
        producerHolds (en_Value E) (en_Graph E) (pr_Node (e_From edge)) outs (source \<noteq> ''snapshot'') \<and>
        acceptsValue (en_Value E) (en_Graph E) (pr_Node (e_To edge)) (pr_Name (e_To edge)) v)"

lemma checkVarType_accepts: "checkVarType lib g node var val s = Inr u \<Longrightarrow> acceptsValue lib g node var val"
  by (auto simp: checkVarType_def acceptsValue_def Let_def isOk_iff bindR_eq_Inr split: option.splits if_splits sum.splits)

lemma edgeValue_supplies:
  assumes "edgeValue E edge source outs = Inr v" "sourceGives E applied snapshots lo hi edge source outs" "basisOf edge source \<in> set basis"
  shows "edgeSupplies E applied snapshots lo hi basis edge v"
proof -
  obtain out where out: "map_of outs (pr_Name (e_From edge)) = Some out" "v = ro_Value out"
    and policy: "policyResult (en_Graph E)
      (outputContractChecks (en_Value E) (en_Graph E) (pr_Node (e_From edge)) outs (source \<noteq> ''snapshot'')) True = Inr ()"
    and typed: "checkType (en_Value E) (en_Graph E) edge out = Inr ()"
    using assms(1) by (auto simp: edgeValue_def bindR_eq_Inr split: option.splits)
  have "producerHolds (en_Value E) (en_Graph E) (pr_Node (e_From edge)) outs (source \<noteq> ''snapshot'')"
    unfolding producerHolds_def using passed_outputs [OF _ policy] by blast
  moreover have "acceptsValue (en_Value E) (en_Graph E) (pr_Node (e_To edge)) (pr_Name (e_To edge)) v"
    using checkVarType_accepts [OF typed [unfolded checkType_def]] out(2) by simp
  ultimately show ?thesis unfolding edgeSupplies_def using assms(2,3) out by blast
qed

lemma edgeSupplies_mono:
  assumes "edgeSupplies E applied snapshots lo hi basis edge v" "lo' \<le> lo" "hi \<le> hi'" "set basis \<subseteq> set basis'"
  shows "edgeSupplies E applied snapshots lo' hi' basis' edge v"
proof -
  from assms(1) obtain source outs out where "basisOf edge source \<in> set basis" and gives: "sourceGives E applied snapshots lo hi edge source outs"
    and rest: "map_of outs (pr_Name (e_From edge)) = Some out \<and> v = ro_Value out \<and>
      producerHolds (en_Value E) (en_Graph E) (pr_Node (e_From edge)) outs (source \<noteq> ''snapshot'') \<and>
      acceptsValue (en_Value E) (en_Graph E) (pr_Node (e_To edge)) (pr_Name (e_To edge)) v"
    unfolding edgeSupplies_def by blast
  then have "basisOf edge source \<in> set basis'" using assms(4) by blast
  with sourceGives_mono [OF gives assms(2,3)] rest show ?thesis unfolding edgeSupplies_def by blast
qed

abbreviation inputName :: "Edge \<Rightarrow> string" where
  "inputName edge \<equiv> pr_Name (e_To edge)"

text \<open>Keys and values the edges contribute; the last of several edges to one input wins.\<close>

definition edgesSupply ::
  "'st engine \<Rightarrow> Outputs smap \<Rightarrow> snapshotData smap \<Rightarrow> nat \<Rightarrow> nat \<Rightarrow> InputBasis list \<Rightarrow> Edge list \<Rightarrow> jval smap \<Rightarrow> bool" where
  "edgesSupply E applied snapshots lo hi basis edges vars \<longleftrightarrow>
     (\<forall>k \<in> inputName ` set edges. \<exists>e \<in> set edges. \<exists>v. inputName e = k \<and> map_of vars k = Some v \<and>
        edgeSupplies E applied snapshots lo hi basis e v)"

lemma resolveEdges_result:
  assumes "resolveEdges E applied edges vars live basis w = (w', r)" "liveOk E lo (w_Tick w) live" "lo \<le> w_Tick w"
  shows "onlyReads w w' \<and> (\<exists>basis' res. r = Inr (basis', res) \<and> set basis \<subseteq> set basis' \<and>
    (\<forall>b \<in> set basis'. b \<in> set basis \<or> (\<exists>e \<in> set edges. \<exists>s. b = basisOf e s \<and> sourceOk (en_Graph E) applied e s)) \<and>
    (\<forall>vars'. res = Inr vars' \<longrightarrow>
       (\<forall>k. hasKey vars' k \<longleftrightarrow> hasKey vars k \<or> k \<in> inputName ` set edges) \<and>
       (\<forall>k. k \<notin> inputName ` set edges \<longrightarrow> map_of vars' k = map_of vars k) \<and>
       edgesSupply E applied (w_Snapshots w) lo (w_Tick w') basis' edges vars'))"
  using assms
proof (induction edges arbitrary: vars live basis w)
  case Nil
  then show ?case by (auto simp: only_reads.refl edgesSupply_def)
next
  case (Cons edge edges)
  obtain w1 r1 where src: "edgeSource E applied live edge w = (w1, r1)" by (meson surj_pair)
  have w1: "onlyReads w w1" by (rule relatesD [OF reads_edgeSource src])
  from edgeSource_source [OF src Cons.prems(2,3)] obtain noted res where r1: "r1 = Inr (noted, res)"
    and noted: "\<forall>b \<in> set noted. \<exists>s. b = basisOf edge s \<and> sourceOk (en_Graph E) applied edge s"
    and res: "\<And>s outs live'. res = Inr (s, outs, live') \<Longrightarrow> liveOk E lo (w_Tick w1) live' \<and>
        sourceGives E applied (w_Snapshots w) lo (w_Tick w1) edge s outs" by blast
  show ?case
  proof (cases res)
    case (Inl e)
    then show ?thesis using Cons.prems src r1 noted w1 by (auto simp: bindE_def)
  next
    case (Inr sol)
    obtain s outs live' where sol: "sol = (s, outs, live')" by (cases sol)
    let ?b = "basis @ noted @ [basisOf edge s]"
    have live': "liveOk E lo (w_Tick w1) live'" and gives: "sourceGives E applied (w_Snapshots w) lo (w_Tick w1) edge s outs"
      using res Inr sol by blast+
    have s: "sourceOk (en_Graph E) applied edge s" by (rule sourceGives_ok [OF gives])
    show ?thesis
    proof (cases "edgeValue E edge s outs")
      case (Inl e)
      then show ?thesis using Cons.prems src r1 noted \<open>res = Inr sol\<close> sol s w1 by (auto simp: bindE_def Let_def)
    next
      case (Inr v)
      have step: "resolveEdges E applied edges (AList.update (inputName edge) v vars) live' ?b w1 = (w', r)"
        using Cons.prems(1) src r1 \<open>res = Inr sol\<close> sol Inr by (simp add: bindE_def Let_def)
      have lo: "lo \<le> w_Tick w1" and snaps: "w_Snapshots w1 = w_Snapshots w" using w1 Cons.prems(3) by (auto simp: onlyReads_def)
      from Cons.IH [OF step live' lo] obtain basis' res' where w': "onlyReads w1 w'" and r: "r = Inr (basis', res')"
        and sub: "set ?b \<subseteq> set basis'"
        and B: "\<forall>b \<in> set basis'. b \<in> set ?b \<or> (\<exists>e \<in> set edges. \<exists>s. b = basisOf e s \<and> sourceOk (en_Graph E) applied e s)"
        and V: "\<And>vars'. res' = Inr vars' \<Longrightarrow>
          (\<forall>k. hasKey vars' k \<longleftrightarrow> hasKey (AList.update (inputName edge) v vars) k \<or> k \<in> inputName ` set edges) \<and>
          (\<forall>k. k \<notin> inputName ` set edges \<longrightarrow> map_of vars' k = map_of (AList.update (inputName edge) v vars) k) \<and>
          edgesSupply E applied (w_Snapshots w) lo (w_Tick w') basis' edges vars'"
        unfolding snaps by blast
      have own: "edgeSupplies E applied (w_Snapshots w) lo (w_Tick w') basis' edge v"
      proof -
        have "basisOf edge s \<in> set ?b" by simp
        from edgeValue_supplies [OF Inr gives this] show ?thesis
          using w' sub by (elim edgeSupplies_mono) (simp_all add: onlyReads_def)
      qed
      have supplied: "edgesSupply E applied (w_Snapshots w) lo (w_Tick w') basis' (edge # edges) vars'" if "res' = Inr vars'" for vars'
        unfolding edgesSupply_def
      proof (intro ballI)
        fix k assume k: "k \<in> inputName ` set (edge # edges)"
        note V' = V [OF that]
        show "\<exists>e \<in> set (edge # edges). \<exists>v. inputName e = k \<and> map_of vars' k = Some v \<and>
            edgeSupplies E applied (w_Snapshots w) lo (w_Tick w') basis' e v"
        proof (cases "k \<in> inputName ` set edges")
          case True
          then show ?thesis using V' unfolding edgesSupply_def by (meson list.set_intros(2))
        next
          case False
          then have "inputName edge = k" "map_of vars' k = Some v" using k V' by (auto simp: update_conv')
          then show ?thesis using own by auto
        qed
      qed
      have "(\<forall>k. hasKey vars' k \<longleftrightarrow> hasKey vars k \<or> k \<in> inputName ` set (edge # edges)) \<and>
          (\<forall>k. k \<notin> inputName ` set (edge # edges) \<longrightarrow> map_of vars' k = map_of vars k)" if "res' = Inr vars'" for vars'
        using conjunct1 [OF V [OF that]] conjunct1 [OF conjunct2 [OF V [OF that]]] by (auto simp: hasKey_Some update_conv')
      then show ?thesis
        using only_reads.trans [OF w1 w'] r sub B noted s supplied by (intro conjI exI [of _ basis'] exI [of _ res']) auto
    qed
  qed
qed

lemma resolveVars_result:
  assumes "resolveVars E name pairs vars = Inr vars'"
  shows "(\<forall>k. hasKey vars' k \<longleftrightarrow> hasKey vars k \<or> k \<in> fst ` set pairs) \<and> (\<forall>k. hasKey vars k \<longrightarrow> map_of vars' k = map_of vars k) \<and>
    (\<forall>k v. (k, v) \<in> set pairs \<longrightarrow> \<not> hasKey vars k \<and> map_of vars' k = Some v \<and> acceptsValue (en_Value E) (en_Graph E) name k v)"
  using assms
proof (induction pairs arbitrary: vars)
  case (Cons p pairs)
  obtain k v where p: "p = (k, v)" by (cases p)
  have new: "\<not> hasKey vars k" and step: "resolveVars E name pairs (AList.update k v vars) = Inr vars'"
    and ok: "acceptsValue (en_Value E) (en_Graph E) name k v"
    using Cons.prems checkVarType_accepts by (auto simp: p bindR_eq_Inr split: if_splits)
  show ?case using Cons.IH [OF step] new ok by (auto simp: p hasKey_Some update_conv' split: if_splits)
qed simp

text \<open>The value of a plugin input is an answer of the plugin host for a sensitive variable that takes it.\<close>

definition pluginSupplies :: "'st engine \<Rightarrow> string \<Rightarrow> nat \<Rightarrow> nat \<Rightarrow> jval smap \<Rightarrow> string \<Rightarrow> bool" where
  "pluginSupplies E name lo hi vars k \<longleftrightarrow>
     inputIsSensitive (en_Graph E) name k \<and>
     (\<exists>v. map_of vars k = Some v \<and> answered (en_Input E) lo hi v \<and> acceptsValue (en_Value E) (en_Graph E) name k v)"

lemma pluginSupplies_mono:
  "pluginSupplies E name lo hi vars k \<Longrightarrow> lo' \<le> lo \<Longrightarrow> hi \<le> hi' \<Longrightarrow> map_of vars' k = map_of vars k \<Longrightarrow> pluginSupplies E name lo' hi' vars' k"
  unfolding pluginSupplies_def using answered_mono by fastforce

lemma pluginResolve_answered:
  assumes "pluginResolve E w = (w', Inr v)"
  shows "answered (en_Input E) (w_Tick w) (w_Tick w') v"
proof -
  have "thenE (pluginHost E) (readE (en_Input E)) w = (w', Inr v)"
    using assms by (auto simp: pluginResolve_def bindE_def getE_def throwE_def split: if_splits)
  then show ?thesis by (rule read_answered) (rule reads_pluginHost)
qed

lemma resolvePlugins_result:
  assumes "resolvePlugins E name pairs vars basis w = (w', r)"
  shows "onlyReads w w' \<and> (\<exists>basis' res. r = Inr (basis', res) \<and> set basis \<subseteq> set basis' \<and>
    (\<forall>b \<in> set basis'. b \<in> set basis \<or> ib_Source b = ''plugin'' \<and> ib_Input b \<in> fst ` set pairs) \<and>
    (\<forall>vars'. res = Inr vars' \<longrightarrow>
       (\<forall>k. hasKey vars' k \<longleftrightarrow> hasKey vars k \<or> k \<in> fst ` set pairs) \<and> (\<forall>k. hasKey vars k \<longrightarrow> map_of vars' k = map_of vars k) \<and>
       (\<forall>k \<in> fst ` set pairs. \<not> hasKey vars k \<and> pluginSupplies E name (w_Tick w) (w_Tick w') vars' k)))"
  using assms
proof (induction pairs arbitrary: vars basis w)
  case Nil
  then show ?case by (auto simp: only_reads.refl)
next
  case (Cons p pairs)
  obtain k pb where p: "p = (k, pb)" by (cases p)
  show ?case
  proof (cases "inputIsSensitive (en_Graph E) name k \<and> \<not> hasKey vars k")
    case True
    obtain w1 rd where rd: "pluginResolve E w = (w1, rd)" by (meson surj_pair)
    have w1: "onlyReads w w1" by (rule relatesD [OF reads_pluginResolve rd])
    let ?c = "bindR rd (\<lambda>v. bindR (checkVarType (en_Value E) (en_Graph E) name k v True) (\<lambda>_. Inr v))"
    show ?thesis
    proof (cases ?c)
      case (Inl e)
      then show ?thesis using Cons.prems True rd p w1 by (auto simp: bindE_def tryE_def)
    next
      case (Inr v)
      let ?b = "basis @ [\<lparr>ib_Input = k, ib_Node = pb_Alias pb, ib_Output = pb_Feature pb, ib_Source = ''plugin''\<rparr>]"
      have step: "resolvePlugins E name pairs (AList.update k v vars) ?b w1 = (w', r)"
        using Cons.prems True rd p Inr by (simp add: bindE_def tryE_def)
      have v: "rd = Inr v" "acceptsValue (en_Value E) (en_Graph E) name k v"
        using Inr checkVarType_accepts by (auto simp: bindR_eq_Inr)
      from Cons.IH [OF step] obtain basis' res where w': "onlyReads w1 w'" and r: "r = Inr (basis', res)" and sub: "set ?b \<subseteq> set basis'"
        and B: "\<forall>b \<in> set basis'. b \<in> set ?b \<or> ib_Source b = ''plugin'' \<and> ib_Input b \<in> fst ` set pairs"
        and V: "\<And>vars'. res = Inr vars' \<Longrightarrow>
          (\<forall>x. hasKey vars' x \<longleftrightarrow> hasKey (AList.update k v vars) x \<or> x \<in> fst ` set pairs) \<and>
          (\<forall>x. hasKey (AList.update k v vars) x \<longrightarrow> map_of vars' x = map_of (AList.update k v vars) x) \<and>
          (\<forall>x \<in> fst ` set pairs. \<not> hasKey (AList.update k v vars) x \<and> pluginSupplies E name (w_Tick w1) (w_Tick w') vars' x)" by blast
      have ticks: "w_Tick w \<le> w_Tick w1" "w_Tick w1 \<le> w_Tick w'" using w1 w' by (simp_all add: onlyReads_def)
      have "(\<forall>x. hasKey vars' x \<longleftrightarrow> hasKey vars x \<or> x \<in> fst ` set (p # pairs)) \<and> (\<forall>x. hasKey vars x \<longrightarrow> map_of vars' x = map_of vars x) \<and>
         (\<forall>x \<in> fst ` set (p # pairs). \<not> hasKey vars x \<and> pluginSupplies E name (w_Tick w) (w_Tick w') vars' x)" if "res = Inr vars'" for vars'
      proof -
        note V' = V [OF that]
        have "map_of vars' k = Some v" using V' by (simp add: hasKey_Some update_conv')
        then have "pluginSupplies E name (w_Tick w) (w_Tick w') vars' k"
          unfolding pluginSupplies_def using True v answered_mono [OF pluginResolve_answered [OF rd [unfolded v(1)]] order_refl ticks(2)] by blast
        moreover have "pluginSupplies E name (w_Tick w) (w_Tick w') vars' x" if "x \<in> fst ` set pairs" for x
          using V' that by (intro pluginSupplies_mono [OF _ ticks(1) order_refl refl]) blast
        moreover have "\<not> hasKey vars x" if "x \<in> fst ` set pairs" for x
        proof -
          have "\<not> hasKey (AList.update k v vars) x" using V' that by blast
          then show ?thesis by (auto simp: hasKey_Some update_conv' split: if_splits)
        qed
        moreover have "(\<forall>x. hasKey vars' x \<longleftrightarrow> hasKey vars x \<or> x \<in> fst ` set (p # pairs)) \<and> (\<forall>x. hasKey vars x \<longrightarrow> map_of vars' x = map_of vars x)"
          using V' True by (auto simp: p hasKey_Some update_conv')
        ultimately show ?thesis using True by (simp add: p)
      qed
      then show ?thesis
        using only_reads.trans [OF w1 w'] r sub B by (intro conjI exI [of _ basis'] exI [of _ res]) (auto simp: p)
    qed
  next
    case False
    then show ?thesis using Cons.prems p by (cases "inputIsSensitive (en_Graph E) name k") (auto simp: only_reads.refl)
  qed
qed

text \<open>
  The inputs a node is given, against its suppliers: exactly the inputs of the data edges, the literals and the plugin
  bindings, none from two of these, each with the value of its supplier, checked.
\<close>

definition exactInputs ::
  "'st engine \<Rightarrow> string \<Rightarrow> Outputs smap \<Rightarrow> snapshotData smap \<Rightarrow> nat \<Rightarrow> nat \<Rightarrow> InputBasis list \<Rightarrow> Edge list \<Rightarrow> jval smap \<Rightarrow> bool" where
  "exactInputs E name applied snapshots lo hi basis edges vars \<longleftrightarrow>
     (let g = en_Graph E; wired = inputName ` set edges; literals = fst ` set (nodeVars g name); bound = fst ` set (nodeInputs g name) in
      (\<forall>k. hasKey vars k \<longleftrightarrow> k \<in> wired \<union> literals \<union> bound) \<and>
      wired \<inter> literals = {} \<and> (wired \<union> literals) \<inter> bound = {} \<and>
      edgesSupply E applied snapshots lo hi basis edges vars \<and>
      (\<forall>k v. (k, v) \<in> set (nodeVars g name) \<longrightarrow> map_of vars k = Some v \<and> acceptsValue (en_Value E) g name k v) \<and>
      (\<forall>k \<in> bound. pluginSupplies E name lo hi vars k))"

lemma edgesSupply_mono:
  assumes "edgesSupply E applied snapshots lo hi basis edges vars" "lo' \<le> lo" "hi \<le> hi'" "set basis \<subseteq> set basis'"
    and "\<And>k. k \<in> inputName ` set edges \<Longrightarrow> map_of vars' k = map_of vars k"
  shows "edgesSupply E applied snapshots lo' hi' basis' edges vars'"
  unfolding edgesSupply_def
proof (intro ballI)
  fix k assume k: "k \<in> inputName ` set edges"
  then obtain e v where "e \<in> set edges" "inputName e = k" "map_of vars k = Some v" and v: "edgeSupplies E applied snapshots lo hi basis e v"
    using assms(1) unfolding edgesSupply_def by blast
  with edgeSupplies_mono [OF v assms(2-4)] assms(5) [OF k]
  show "\<exists>e \<in> set edges. \<exists>v. inputName e = k \<and> map_of vars' k = Some v \<and> edgeSupplies E applied snapshots lo' hi' basis' e v" by force
qed



end
