(* ===== verification/Run_Levels.thy ===== *)
theory Run_Levels
  imports Inputs "HOL-Library.Product_Lexorder"
begin

text \<open>
  The execution loop behind plan, apply and destroy (\<open>internal/engine/run.go\<close>).  A node action is a
  function of the node and of the outputs of earlier levels.  The nodes of a level run concurrently
  in the code and share nothing but the journal, whose operations are atomic (theory
  \<open>Journal_Session\<close>); the model runs them one after the other in an order that is a
  parameter, the level's own order when the parallelism is one.
\<close>

subsection \<open>Options and reports\<close>

record Options =
  op_RetainPlan :: bool
  op_Nodes :: "string list option"
  op_Downstream :: bool
  op_SelectionSpecified :: bool
  op_selection :: "Selection option"
  op_levels :: "string list list option"
  op_AutoApprove :: bool
  op_Approve :: string
  op_Parallelism :: int

definition parallelism :: "Options \<Rightarrow> int" where
  "parallelism opts = (if op_Parallelism opts < 1 then 1 else op_Parallelism opts)"

definition hasSelectionFlags :: "Options \<Rightarrow> bool" where
  "hasSelectionFlags opts \<longleftrightarrow> op_SelectionSpecified opts \<or> op_Nodes opts \<noteq> None \<or> op_Downstream opts"

abbreviation StatusPlanned :: string where "StatusPlanned \<equiv> ''planned''"
abbreviation StatusApplied :: string where "StatusApplied \<equiv> ''applied''"
abbreviation StatusUnchanged :: string where "StatusUnchanged \<equiv> ''unchanged''"
abbreviation StatusDestroyed :: string where "StatusDestroyed \<equiv> ''destroyed''"
abbreviation StatusFailed :: string where "StatusFailed \<equiv> ''failed''"
abbreviation StatusNotRun :: string where "StatusNotRun \<equiv> ''not run''"

record NodeRun =
  nr_Node :: string
  nr_Level :: nat
  nr_Status :: string
  nr_Err :: "goErr option"
  nr_Review :: "PlanReview option"

record RunResult =
  rr_ExecutionID :: string
  rr_Nodes :: "NodeRun list"

definition nodeRun :: "string \<Rightarrow> nat \<Rightarrow> string \<Rightarrow> goErr option \<Rightarrow> NodeRun" where
  "nodeRun name level status e = \<lparr>nr_Node = name, nr_Level = level, nr_Status = status, nr_Err = e, nr_Review = None\<rparr>"

subsection \<open>Selection\<close>

definition resolveSelection :: "Graph \<Rightarrow> Options \<Rightarrow> goErr + Options" where
  "resolveSelection g opts =
     (case Select g (op_Nodes opts) (op_Downstream opts) of
        Inl _ \<Rightarrow> Inl (WithDiagnostic ''invalid_arguments'' (ErrText ''selection''))
      | Inr selection \<Rightarrow>
          (case SelectedLevels g (map_option Names selection) False of
             Inl _ \<Rightarrow> Inl (ErrText ''levels'')
           | Inr levels \<Rightarrow> Inr (opts\<lparr>op_selection := selection, op_levels := Some levels\<rparr>)))"

definition executionLevels :: "Graph \<Rightarrow> Options \<Rightarrow> bool \<Rightarrow> goErr + string list list" where
  "executionLevels g opts reverse =
     bindR (case op_levels opts of
              Some levels \<Rightarrow> Inr levels
            | None \<Rightarrow> bindR (resolveSelection g opts) (\<lambda>o'. Inr (case op_levels o' of Some levels \<Rightarrow> levels | None \<Rightarrow> []))) (\<lambda>levels.
     Inr (if reverse then rev levels else levels))"

text \<open>An old record keeps its membership whatever its selection said.\<close>

definition storedSelection :: "Graph \<Rightarrow> Options \<Rightarrow> ExecutionRecord \<Rightarrow> goErr + Options" where
  "storedSelection g opts r =
     (case SelectedLevels g (Some (map xn_Name (xr_Nodes r))) False of
        Inl _ \<Rightarrow> Inl (ErrText ''levels'')
      | Inr levels \<Rightarrow> Inr (opts\<lparr>op_selection := xr_Selection r, op_levels := Some levels\<rparr>))"

subsection \<open>One node\<close>

type_synonym 'st nodeAction = "string \<Rightarrow> Outputs smap \<Rightarrow> ('st world, Outputs option \<times> string) eff"

definition blockedBy :: "Graph \<Rightarrow> string list \<Rightarrow> string \<Rightarrow> bool" where
  "blockedBy g blocked name = list_ex (\<lambda>parent. parent \<in> set blocked) (g_In g name)"

text \<open>Everything before the action, which decides whether the node runs at all.\<close>

definition admitNode :: "'st engine \<Rightarrow> bool \<Rightarrow> string list \<Rightarrow> string \<Rightarrow> ('st world, unit) eff" where
  "admitNode E keepGoing blocked name =
     thenE (callE E)
     (thenE (guardE (\<not> (keepGoing \<and> blockedBy (en_Graph E) blocked name)) errPlanBlocked)
     (pluginHost E))"

text \<open>The goroutine of one node: its report, and its outputs for later levels.\<close>

definition runNode ::
  "'st engine \<Rightarrow> bool \<Rightarrow> string list \<Rightarrow> Outputs smap \<Rightarrow> 'st nodeAction \<Rightarrow> nat \<Rightarrow> string \<Rightarrow>
   ('st world, NodeRun \<times> Outputs option) eff" where
  "runNode E keepGoing blocked snapshot action level name =
     bindE (tryE (admitNode E keepGoing blocked name)) (\<lambda>admitted.
     bindE (case admitted of
              Inl e \<Rightarrow> retE (nodeRun name level StatusNotRun (Some e), None)
            | Inr _ \<Rightarrow>
                bindE (tryE (action name snapshot)) (\<lambda>res. retE
                  (case res of
                     Inl e \<Rightarrow> (nodeRun name level StatusFailed (Some e), None)
                   | Inr (outputs, status) \<Rightarrow> (nodeRun name level status None, outputs)))) (\<lambda>result.
     thenE (noteCompletion (pluginHost E)) (retE result)))"

text \<open>The nodes of a level: reports, and the outputs to merge.\<close>

fun runNodes ::
  "'st engine \<Rightarrow> bool \<Rightarrow> string list \<Rightarrow> Outputs smap \<Rightarrow> 'st nodeAction \<Rightarrow> nat \<Rightarrow> string list \<Rightarrow>
   ('st world, (NodeRun \<times> Outputs option) list) eff" where
  "runNodes E keepGoing blocked snapshot action level [] = retE []"
| "runNodes E keepGoing blocked snapshot action level (name # names) =
     bindE (runNode E keepGoing blocked snapshot action level name) (\<lambda>result.
     bindE (runNodes E keepGoing blocked snapshot action level names) (\<lambda>results. retE (result # results)))"

subsection \<open>The loop\<close>

definition markNotRun :: "nat \<Rightarrow> string list list \<Rightarrow> NodeRun list" where
  "markNotRun from' levels =
     concat (map (\<lambda>(i, level). map (\<lambda>name. nodeRun name (i + 1) StatusNotRun None) level)
       (zip [from' ..< from' + length levels] levels))"

definition mergeOutputs :: "Outputs smap \<Rightarrow> (NodeRun \<times> Outputs option) list \<Rightarrow> Outputs smap" where
  "mergeOutputs applied results =
     foldl (\<lambda>acc (run, outputs). case outputs of None \<Rightarrow> acc | Some o' \<Rightarrow> AList.update (nr_Node run) o' acc) applied results"

definition failedNodes :: "NodeRun list \<Rightarrow> string list" where
  "failedNodes runs = map nr_Node (filter (\<lambda>run. nr_Err run \<noteq> None) runs)"

text \<open>The errors of a level, by the level's own order.\<close>

definition firstError :: "string list \<Rightarrow> NodeRun list \<Rightarrow> goErr option" where
  "firstError level runs =
     (case List.map_filter (\<lambda>name. Option.bind (List.find (\<lambda>run. nr_Node run = name) runs) nr_Err) level of
        [] \<Rightarrow> None | e # _ \<Rightarrow> Some e)"

text \<open>After a level: completion errors, the event, the level's errors, the caller's hook.\<close>

definition levelVerdict ::
  "'st engine \<Rightarrow> bool \<Rightarrow> string list \<Rightarrow> NodeRun list \<Rightarrow> ('st world, unit) eff \<Rightarrow> ('st world, goErr option) eff" where
  "levelVerdict E keepGoing level runs afterLevel =
     bindE (getE w_Completion) (\<lambda>completion.
     thenE (case completion of Some e \<Rightarrow> throwE e | None \<Rightarrow> retE ())
     (thenE (pluginHost E)
     (let e = firstError level runs in
      case e of
        Some err \<Rightarrow> if keepGoing then thenE afterLevel (retE e) else throwE err
      | None \<Rightarrow> thenE afterLevel (retE None))))"

fun levelLoop ::
  "'st engine \<Rightarrow> (string list \<Rightarrow> string list) \<Rightarrow> bool \<Rightarrow> 'st nodeAction \<Rightarrow> ('st world, unit) eff \<Rightarrow> nat \<Rightarrow> string list list \<Rightarrow>
   string list \<Rightarrow> Outputs smap \<Rightarrow> goErr option \<Rightarrow> NodeRun list \<Rightarrow> ('st world, NodeRun list \<times> goErr option) eff" where
  "levelLoop E order keepGoing action afterLevel li [] failed applied first runs = retE (runs, first)"
| "levelLoop E order keepGoing action afterLevel li (level # levels) failed applied first runs =
     bindE (tryE (callE E)) (\<lambda>cancelled.
       case cancelled of
         Inl e \<Rightarrow> retE (runs @ markNotRun li (level # levels), Some e)
       | Inr _ \<Rightarrow>
           bindE (runNodes E keepGoing failed applied action (li + 1) (order level)) (\<lambda>results.
             let new = map fst results in
             bindE (tryE (levelVerdict E keepGoing level new afterLevel)) (\<lambda>verdict.
               case verdict of
                 Inl e \<Rightarrow> retE (runs @ new @ markNotRun (li + 1) levels, Some e)
               | Inr e \<Rightarrow>
                   levelLoop E order keepGoing action afterLevel (li + 1) levels (failed @ failedNodes new)
                     (mergeOutputs applied results) (if first = None then e else first) (runs @ new))))"

definition runKey :: "NodeRun \<Rightarrow> nat \<times> string" where
  "runKey run = (nr_Level run, nr_Node run)"

text \<open>The final event of every node, whose failures only count for completion.\<close>

definition announceRuns :: "'st engine \<Rightarrow> NodeRun list \<Rightarrow> ('st world, unit) eff" where
  "announceRuns E runs = forE runs (\<lambda>run. noteCompletion (pluginHost E))"

definition runLevels ::
  "'st engine \<Rightarrow> (string list \<Rightarrow> string list) \<Rightarrow> Options \<Rightarrow> bool \<Rightarrow> 'st nodeAction \<Rightarrow> ('st world, unit) eff \<Rightarrow> bool \<Rightarrow>
   ('st world, NodeRun list \<times> goErr option) eff" where
  "runLevels E order opts reverse action afterLevel keepGoing =
     (case executionLevels (en_Graph E) opts reverse of
        Inl e \<Rightarrow> retE ([], Some e)
      | Inr levels \<Rightarrow>
          bindE (levelLoop E (if parallelism opts = 1 then id else order) keepGoing action afterLevel 0 levels [] [] None []) (\<lambda>(runs, e).
          thenE (announceRuns E runs) (retE (sort_key runKey runs, e))))"

subsection \<open>Every node is reported\<close>

lemma noteCompletion_ok: "noteCompletion m w = (w', r) \<Longrightarrow> r = Inr ()"
  by (auto simp: noteCompletion_def bindE_def tryE_def addCompletionError_def split: prod.splits sum.splits)

lemma noteCompletion_exists: "\<exists>w'. noteCompletion m w = (w', Inr ())"
  by (metis noteCompletion_ok surj_pair)

text \<open>What the report of one node can say.\<close>

definition succeeded :: "'st nodeAction \<Rightarrow> NodeRun \<Rightarrow> bool" where
  "succeeded action run \<longleftrightarrow>
     nr_Err run = None \<and> (\<exists>snapshot w w' outs. action (nr_Node run) snapshot w = (w', Inr (outs, nr_Status run)))"

definition reportOf :: "Graph \<Rightarrow> bool \<Rightarrow> string list \<Rightarrow> 'st nodeAction \<Rightarrow> nat \<Rightarrow> string \<Rightarrow> NodeRun \<Rightarrow> bool" where
  "reportOf g keepGoing blocked action level name run \<longleftrightarrow>
     runKey run = (level, name) \<and> (nr_Err run \<noteq> None \<longrightarrow> nr_Status run \<in> {StatusFailed, StatusNotRun}) \<and>
     (nr_Err run = None \<longrightarrow> succeeded action run) \<and>
     (keepGoing \<and> blockedBy g blocked name \<longrightarrow> nr_Status run = StatusNotRun)"

lemma admitNode_blocked:
  "admitNode E keepGoing blocked name w = (w', Inr u) \<Longrightarrow> \<not> (keepGoing \<and> blockedBy (en_Graph E) blocked name)"
  by (auto simp: admitNode_def thenE_Inr guardE_Inr)

lemma runNode_report:
  assumes "runNode E keepGoing blocked snapshot action level name w = (w', r)"
  shows "\<exists>run outs. r = Inr (run, outs) \<and> reportOf (en_Graph E) keepGoing blocked action level name run"
proof -
  obtain w1 adm where adm: "admitNode E keepGoing blocked name w = (w1, adm)" by (meson surj_pair)
  obtain w2 res where res: "action name snapshot w1 = (w2, res)" by (meson surj_pair)
  obtain w3 where n1: "noteCompletion (pluginHost E) w1 = (w3, Inr ())" using noteCompletion_exists by blast
  obtain w4 where n2: "noteCompletion (pluginHost E) w2 = (w4, Inr ())" using noteCompletion_exists by blast
  show ?thesis
    using assms adm res n1 n2 admitNode_blocked [of E keepGoing blocked name w w1]
    by (auto simp: runNode_def bindE_def thenE_def tryE_def reportOf_def succeeded_def runKey_def nodeRun_def split: sum.splits) blast+
qed

lemma runNodes_reports:
  assumes "runNodes E keepGoing blocked snapshot action level names w = (w', r)"
  shows "\<exists>results. r = Inr results \<and>
    list_all2 (\<lambda>name (run, outs). reportOf (en_Graph E) keepGoing blocked action level name run) names results"
  using assms
proof (induction names arbitrary: w w' r)
  case (Cons name names)
  obtain w1 r1 where one: "runNode E keepGoing blocked snapshot action level name w = (w1, r1)" by (meson surj_pair)
  obtain w2 r2 where rest: "runNodes E keepGoing blocked snapshot action level names w1 = (w2, r2)" by (meson surj_pair)
  from runNode_report [OF one] Cons.IH [OF rest] show ?case
    using Cons.prems one rest by (auto simp: bindE_def)
qed simp

lemma reports_keys:
  "list_all2 (\<lambda>name (run, outs). reportOf g keepGoing blocked action level name run) names results \<Longrightarrow>
   map (runKey \<circ> fst) results = map (Pair level) names"
  by (induction rule: list_all2_induct) (auto simp: reportOf_def)

lemma reports_each:
  "list_all2 (\<lambda>name (run, outs). reportOf g keepGoing blocked action level name run) names results \<Longrightarrow>
   run \<in> set (map fst results) \<Longrightarrow> reportOf g keepGoing blocked action level (nr_Node run) run \<and> nr_Node run \<in> set names"
  by (induction rule: list_all2_induct) (auto simp: reportOf_def runKey_def)

text \<open>The nodes of the levels with their level numbers.\<close>

definition numbered :: "nat \<Rightarrow> string list list \<Rightarrow> (nat \<times> string) list" where
  "numbered li levels = concat (map (\<lambda>(i, level). map (Pair (i + 1)) level) (zip [li ..< li + length levels] levels))"

lemma numbered_Cons: "numbered li (level # levels) = map (Pair (li + 1)) level @ numbered (li + 1) levels"
proof -
  have "[li ..< li + length (level # levels)] = li # [li + 1 ..< li + 1 + length levels]"
    by (subst upt_conv_Cons) simp_all
  then show ?thesis by (simp add: numbered_def)
qed

lemma numbered_Nil [simp]: "numbered li [] = []"
  by (simp add: numbered_def)

lemma markNotRun_keys: "map runKey (markNotRun li levels) = numbered li levels"
  by (induction levels arbitrary: li) (simp_all add: markNotRun_def numbered_def map_concat comp_def runKey_def nodeRun_def case_prod_unfold)

lemma markNotRun_each: "run \<in> set (markNotRun li levels) \<Longrightarrow> nr_Status run = StatusNotRun \<and> nr_Err run = None"
  by (auto simp: markNotRun_def nodeRun_def)

lemma numbered_level: "x \<in> set (numbered li levels) \<Longrightarrow> li < fst x"
  by (auto simp: numbered_def dest!: set_zip_leftD)

lemma firstError_None:
  assumes "firstError level runs = None" "run \<in> set runs" "distinct (map nr_Node runs)" "nr_Node run \<in> set level"
  shows "nr_Err run = None"
proof (rule ccontr)
  assume bad: "nr_Err run \<noteq> None"
  have "List.find (\<lambda>r. nr_Node r = nr_Node run) runs = Some run"
    using assms(2,3) by (induction runs) (auto simp: image_iff)
  then have "the (nr_Err run) \<in> set (List.map_filter (\<lambda>name. Option.bind (List.find (\<lambda>run. nr_Node run = name) runs) nr_Err) level)"
    using bad assms(4) by (force simp: List.map_filter_def)
  then show False using assms(1) by (auto simp: firstError_def split: list.splits)
qed

lemma levelVerdict_ok:
  assumes "levelVerdict E keepGoing level runs afterLevel w = (w', Inr e)"
  shows "e = firstError level runs \<and> (\<not> keepGoing \<longrightarrow> e = None)"
  using assms by (auto simp: levelVerdict_def bindE_Inr thenE_Inr Let_def split: option.splits if_splits)

text \<open>What the loop reports for the levels it was given.\<close>

definition loopReport ::
  "Graph \<Rightarrow> bool \<Rightarrow> string list \<Rightarrow> 'st nodeAction \<Rightarrow> nat \<Rightarrow> string list list \<Rightarrow> goErr option \<Rightarrow> NodeRun list \<Rightarrow> bool" where
  "loopReport g keepGoing failed action li levels e runs \<longleftrightarrow>
     mset (map runKey runs) = mset (numbered li levels) \<and>
     (\<forall>run \<in> set runs. nr_Err run \<noteq> None \<longrightarrow> nr_Status run \<in> {StatusFailed, StatusNotRun}) \<and>
     (e = None \<longrightarrow> (\<forall>run \<in> set runs. succeeded action run)) \<and>
     (\<not> keepGoing \<longrightarrow> (\<forall>run \<in> set runs. nr_Err run \<noteq> None \<longrightarrow>
        (\<forall>run' \<in> set runs. nr_Level run < nr_Level run' \<longrightarrow> nr_Status run' = StatusNotRun))) \<and>
     (keepGoing \<longrightarrow> (\<forall>run' \<in> set runs. \<forall>p \<in> set (g_In g (nr_Node run')).
        p \<in> set failed \<or> (\<exists>run \<in> set runs. nr_Node run = p \<and> nr_Err run \<noteq> None \<and> nr_Level run < nr_Level run') \<longrightarrow>
        nr_Status run' = StatusNotRun))"

lemma loopReport_keys: "loopReport g kg failed action li levels e runs \<Longrightarrow> run \<in> set runs \<Longrightarrow> li < nr_Level run"
proof -
  assume "loopReport g kg failed action li levels e runs" "run \<in> set runs"
  then have "runKey run \<in> set (numbered li levels)"
    by (metis loopReport_def image_eqI list.set_map set_mset_mset)
  then show ?thesis by (auto dest: numbered_level simp: runKey_def)
qed

text \<open>A finished level followed by the rest of the loop, or by what was not reached.\<close>

lemma loopReport_stop:
  assumes new: "list_all2 (\<lambda>name (run, outs). reportOf g kg failed action (li + 1) name run) names results"
    and "mset names = mset level"
  shows "loopReport g kg failed action li (level # levels) (Some e) (map fst results @ markNotRun (li + 1) levels)"
proof -
  have keys: "mset (map runKey (map fst results)) = mset (map (Pair (li + 1)) level)"
    using reports_keys [OF new] assms(2) by (simp add: multiset.map_comp [symmetric] flip: map_map)
  have lv: "nr_Level run = li + 1" if "(run, outs) \<in> set results" for run outs
    using reports_each [OF new, of run] that by (force simp: reportOf_def runKey_def)
  show ?thesis
    unfolding loopReport_def
    using reports_each [OF new] keys markNotRun_each [of _ "li + 1" levels] lv
    by (auto simp: numbered_Cons markNotRun_keys reportOf_def runKey_def blockedBy_def list_ex_iff)
qed

lemma loopReport_next:
  assumes new: "list_all2 (\<lambda>name (run, outs). reportOf g kg failed action (li + 1) name run) names results"
    and perm: "mset names = mset level" and dist: "distinct level"
    and fe: "fe = firstError level (map fst results)" and stop: "\<not> kg \<longrightarrow> fe = None"
    and first: "e = None \<longrightarrow> fe = None"
    and rest: "loopReport g kg (failed @ failedNodes (map fst results)) action (li + 1) levels e rest"
  shows "loopReport g kg failed action li (level # levels) e (map fst results @ rest)"
proof -
  let ?new = "map fst results"
  note each = reports_each [OF new]
  have keys: "map runKey ?new = map (Pair (li + 1)) names" using reports_keys [OF new] by simp
  have names: "map nr_Node ?new = names" using arg_cong [OF keys, of "map snd"] by (simp add: runKey_def comp_def)
  have lv: "nr_Level run = li + 1" if "run \<in> set ?new" for run
    using each [OF that] by (simp add: reportOf_def runKey_def)
  have restlv: "li + 1 < nr_Level run" if "run \<in> set rest" for run using loopReport_keys [OF rest that] .
  have clean: "nr_Err run = None" if "fe = None" "run \<in> set ?new" for run
    using firstError_None [of level ?new run] that fe each [OF that(2)] perm dist names
    by (metis mset_eq_setD mset_eq_imp_distinct_iff)
  have ran: "succeeded action run" if "fe = None" "run \<in> set ?new" for run
    using each [OF that(2)] clean [OF that] by (simp add: reportOf_def)
  have R: "mset (map runKey rest) = mset (numbered (li + 1) levels)"
    "\<forall>run \<in> set rest. nr_Err run \<noteq> None \<longrightarrow> nr_Status run \<in> {StatusFailed, StatusNotRun}"
    "e = None \<longrightarrow> (\<forall>run \<in> set rest. succeeded action run)"
    "\<not> kg \<longrightarrow> (\<forall>run \<in> set rest. nr_Err run \<noteq> None \<longrightarrow>
        (\<forall>run' \<in> set rest. nr_Level run < nr_Level run' \<longrightarrow> nr_Status run' = StatusNotRun))"
    "kg \<longrightarrow> (\<forall>run' \<in> set rest. \<forall>p \<in> set (g_In g (nr_Node run')).
        p \<in> set (failed @ failedNodes ?new) \<or> (\<exists>run \<in> set rest. nr_Node run = p \<and> nr_Err run \<noteq> None \<and> nr_Level run < nr_Level run') \<longrightarrow>
        nr_Status run' = StatusNotRun)"
    using rest unfolding loopReport_def by blast+
  show ?thesis
    unfolding loopReport_def
  proof (intro conjI)
    have "mset (map runKey ?new) = mset (map (Pair (li + 1)) level)"
      unfolding keys using perm by simp
    then show "mset (map runKey (?new @ rest)) = mset (numbered li (level # levels))"
      using R(1) by (simp add: numbered_Cons)
    show "\<forall>run \<in> set (?new @ rest). nr_Err run \<noteq> None \<longrightarrow> nr_Status run \<in> {StatusFailed, StatusNotRun}"
      using R(2) each by (auto simp: reportOf_def simp del: set_map)
    show "e = None \<longrightarrow> (\<forall>run \<in> set (?new @ rest). succeeded action run)"
      using R(3) ran first by (auto simp del: set_map)
    show "\<not> kg \<longrightarrow> (\<forall>run \<in> set (?new @ rest). nr_Err run \<noteq> None \<longrightarrow>
        (\<forall>run' \<in> set (?new @ rest). nr_Level run < nr_Level run' \<longrightarrow> nr_Status run' = StatusNotRun))"
      using R(4) clean stop lv restlv by (fastforce simp del: set_map)
    have "nr_Status run' = StatusNotRun"
      if kg: kg and run': "run' \<in> set (?new @ rest)" and p: "p \<in> set (g_In g (nr_Node run'))"
        and bad: "p \<in> set failed \<or> (\<exists>run \<in> set (?new @ rest). nr_Node run = p \<and> nr_Err run \<noteq> None \<and> nr_Level run < nr_Level run')" for run' p
    proof (cases "run' \<in> set ?new")
      case True
      then have "p \<in> set failed" using bad lv restlv by (fastforce simp del: set_map)
      then show ?thesis using each [OF True] kg p by (auto simp: reportOf_def blockedBy_def list_ex_iff)
    next
      case False
      then have inr: "run' \<in> set rest" using run' by simp
      have "p \<in> set (failed @ failedNodes ?new) \<or> (\<exists>run \<in> set rest. nr_Node run = p \<and> nr_Err run \<noteq> None \<and> nr_Level run < nr_Level run')"
        using bad by (auto simp: failedNodes_def)
      then show ?thesis using R(5) kg inr p by blast
    qed
    then show "kg \<longrightarrow> (\<forall>run' \<in> set (?new @ rest). \<forall>p \<in> set (g_In g (nr_Node run')).
        p \<in> set failed \<or> (\<exists>run \<in> set (?new @ rest). nr_Node run = p \<and> nr_Err run \<noteq> None \<and> nr_Level run < nr_Level run') \<longrightarrow>
        nr_Status run' = StatusNotRun)" by blast
  qed
qed

lemma levelLoop_report:
  assumes "levelLoop E order kg action afterLevel li levels failed applied first runs w = (w', r)"
    and "\<forall>l. mset (order l) = mset l" and "\<forall>l \<in> set levels. distinct l"
  shows "\<exists>e new. r = Inr (runs @ new, e) \<and> loopReport (en_Graph E) kg failed action li levels e new \<and> (e = None \<longrightarrow> first = None)"
  using assms
proof (induction levels arbitrary: li failed applied first runs w)
  case Nil
  then show ?case by (auto simp: loopReport_def)
next
  case (Cons level levels)
  obtain w1 c where c: "callE E w = (w1, c)" by (meson surj_pair)
  show ?case
  proof (cases c)
    case (Inl e)
    have "r = Inr (runs @ markNotRun li (level # levels), Some e)"
      using Cons.prems(1) c Inl by (simp add: bindE_def tryE_def)
    moreover have "loopReport (en_Graph E) kg failed action li (level # levels) (Some e) (markNotRun li (level # levels))"
      using markNotRun_each [of _ li "level # levels"] by (auto simp: loopReport_def markNotRun_keys)
    ultimately show ?thesis by blast
  next
    case (Inr u)
    obtain w2 rn where rn: "runNodes E kg failed applied action (li + 1) (order level) w1 = (w2, rn)" by (meson surj_pair)
    from runNodes_reports [OF rn] obtain results where results: "rn = Inr results"
      and new: "list_all2 (\<lambda>name (run, outs). reportOf (en_Graph E) kg failed action (li + 1) name run) (order level) results" by blast
    obtain w3 v where v: "levelVerdict E kg level (map fst results) afterLevel w2 = (w3, v)" by (meson surj_pair)
    show ?thesis
    proof (cases v)
      case (Inl e)
      have "r = Inr (runs @ map fst results @ markNotRun (li + 1) levels, Some e)"
        using Cons.prems(1) c Inr rn results v Inl by (simp add: bindE_def tryE_def Let_def)
      then show ?thesis using loopReport_stop [OF new] Cons.prems(2) by blast
    next
      case (Inr fe)
      note fe = levelVerdict_ok [OF v [unfolded Inr]]
      have "levelLoop E order kg action afterLevel (li + 1) levels (failed @ failedNodes (map fst results))
          (mergeOutputs applied results) (if first = None then fe else first) (runs @ map fst results) w3 = (w', r)"
        using Cons.prems(1) c \<open>c = Inr u\<close> rn results v Inr by (simp add: bindE_def tryE_def Let_def)
      from Cons.IH [OF this Cons.prems(2)] obtain e rest where r: "r = Inr ((runs @ map fst results) @ rest, e)"
        and rest: "loopReport (en_Graph E) kg (failed @ failedNodes (map fst results)) action (li + 1) levels e rest"
        and e: "e = None \<longrightarrow> (if first = None then fe else first) = None"
        using Cons.prems(3) by auto
      have "loopReport (en_Graph E) kg failed action li (level # levels) e (map fst results @ rest)"
        using Cons.prems(2,3) fe e rest by (intro loopReport_next [OF new, where fe = fe]) (auto split: if_splits)
      then show ?thesis using r e by (auto split: if_splits)
    qed
  qed
qed

lemma announceRuns_ok: "announceRuns E runs w = (w', r) \<Longrightarrow> r = Inr ()"
proof (induction runs arbitrary: w)
  case (Cons run runs)
  obtain w1 where "noteCompletion (pluginHost E) w = (w1, Inr ())" using noteCompletion_exists by blast
  then show ?case using Cons by (simp add: announceRuns_def thenE_app)
qed (simp add: announceRuns_def)

text \<open>
  C30: A run reports every selected node exactly once.  Whatever the nodes do and in whatever order a
  level's nodes run, the report of an execution over levels without repeated nodes lists each node of
  each level exactly once with its level, sorted by level and name; a run without error had every
  node's action succeed with the status reported; after a failure no node of a later level was
  run (plan, apply and destroy), or, in a review, no node that depends on the failed one.
\<close>

theorem run_reports_complete:
  assumes run: "runLevels E order opts reverse action afterLevel keepGoing w = (w', r)"
    and levels: "executionLevels (en_Graph E) opts reverse = Inr levels" "distinct (concat levels)"
    and order: "\<forall>l. mset (order l) = mset l"
  shows "\<exists>runs e. r = Inr (runs, e) \<and> sorted (map runKey runs) \<and>
    mset (map runKey runs) = mset (numbered 0 levels) \<and>
    (e = None \<longrightarrow> (\<forall>run \<in> set runs. succeeded action run)) \<and>
    (\<not> keepGoing \<longrightarrow> (\<forall>a \<in> set runs. \<forall>b \<in> set runs.
       nr_Err a \<noteq> None \<and> nr_Level a < nr_Level b \<longrightarrow> nr_Status b = StatusNotRun)) \<and>
    (keepGoing \<longrightarrow> (\<forall>a \<in> set runs. \<forall>b \<in> set runs.
       nr_Err a \<noteq> None \<and> nr_Level a < nr_Level b \<and> nr_Node a \<in> set (g_In (en_Graph E) (nr_Node b)) \<longrightarrow> nr_Status b = StatusNotRun))"
proof -
  let ?o = "if parallelism opts = 1 then id else order"
  obtain w1 lr where ll: "levelLoop E ?o keepGoing action afterLevel 0 levels [] [] None [] w = (w1, lr)" by (meson surj_pair)
  have "\<forall>l \<in> set levels. distinct l" using levels(2) by (simp add: distinct_concat_iff)
  moreover have "\<forall>l. mset (?o l) = mset l" using order by simp
  ultimately obtain e new where lr: "lr = Inr (new, e)" and rep: "loopReport (en_Graph E) keepGoing [] action 0 levels e new"
    using levelLoop_report [OF ll] by auto
  obtain w2 ar where ar: "announceRuns E new w1 = (w2, ar)" by (meson surj_pair)
  have "r = Inr (sort_key runKey new, e)"
    using run ll lr ar announceRuns_ok [OF ar] by (simp add: runLevels_def levels(1) bindE_def thenE_def)
  moreover have "mset (map runKey (sort_key runKey new)) = mset (numbered 0 levels)"
    using rep by (simp add: loopReport_def)
  moreover have "e = None \<longrightarrow> (\<forall>run \<in> set (sort_key runKey new). succeeded action run)"
    and "\<not> keepGoing \<longrightarrow> (\<forall>a \<in> set (sort_key runKey new). \<forall>b \<in> set (sort_key runKey new).
       nr_Err a \<noteq> None \<and> nr_Level a < nr_Level b \<longrightarrow> nr_Status b = StatusNotRun)"
    and "keepGoing \<longrightarrow> (\<forall>a \<in> set (sort_key runKey new). \<forall>b \<in> set (sort_key runKey new).
       nr_Err a \<noteq> None \<and> nr_Level a < nr_Level b \<and> nr_Node a \<in> set (g_In (en_Graph E) (nr_Node b)) \<longrightarrow> nr_Status b = StatusNotRun)"
    using rep unfolding loopReport_def set_sort by (simp, simp, blast)
  ultimately show ?thesis by (auto simp del: mset_map)
qed

definition sampleOptions :: Options where
  "sampleOptions = \<lparr>op_RetainPlan = False, op_Nodes = None, op_Downstream = False, op_SelectionSpecified = False,
     op_selection = None, op_levels = None, op_AutoApprove = True, op_Approve = '''', op_Parallelism = 4\<rparr>"

lemma sample_levels:
  "executionLevels sampleGraph sampleOptions False = Inr [[''network''], [''cluster'', ''database''], [''app'']]"
  by code_simp

theorem run_reports_complete_witness:
  "\<exists>runs e. snd (runLevels sampleEngine rev sampleOptions False (\<lambda>name _. throwE ErrCanceled) (retE ()) False
      (sampleWorldOf sampleExecution)) = Inr (runs, e) \<and>
     mset (map runKey runs) = mset [(1, ''network''), (2, ''cluster''), (2, ''database''), (3, ''app'')]"
proof -
  let ?a = "\<lambda>name _. throwE ErrCanceled :: (payload executionDir world, Outputs option \<times> string) eff"
  let ?r = "runLevels sampleEngine rev sampleOptions False ?a (retE ()) False (sampleWorldOf sampleExecution)"
  have "?r = (fst ?r, snd ?r)" by simp
  moreover have "executionLevels (en_Graph sampleEngine) sampleOptions False = Inr [[''network''], [''cluster'', ''database''], [''app'']]"
    using sample_levels by (simp add: sampleEngine_def)
  moreover have "numbered 0 [[''network''], [''cluster'', ''database''], [''app'']] =
      [(1, ''network''), (2, ''cluster''), (2, ''database''), (3, ''app'')]"
    by (simp add: numbered_Cons)
  ultimately show ?thesis
    using run_reports_complete [of sampleEngine rev sampleOptions False ?a "retE ()" False "sampleWorldOf sampleExecution" "fst ?r" "snd ?r"]
    by force
qed

end
