(* ===== verification/Operations.thy ===== *)
theory Operations
  imports Run_Levels
begin

text \<open>
  The operations of the engine: the checks before a run (\<open>engine.go\<close>, \<open>runtime.go\<close>,
  \<open>execution_journal.go\<close>), prepared plans (\<open>prepared_plan.go\<close>), apply (\<open>apply.go\<close>), destroy
  (\<open>destroy.go\<close>), plan and review (\<open>plan.go\<close>).  Temporary files that only this process
  reads (variable files, plan files) are not part of the state; writing them is a call that can fail.
  A null output document reads like an empty one.
\<close>

subsection \<open>Before a run\<close>

text \<open>A node environment that sets the managed data directory, by any letter case.\<close>

definition envConflict :: "string smap \<Rightarrow> bool" where
  "envConflict env = list_ex (\<lambda>(k, v). map toLower (takeWhile (\<lambda>c. c \<noteq> CHR ''='') k) = ''tf_data_dir'') env"

definition lockRun :: "'st engine \<Rightarrow> ('st world, unit) eff" where
  "lockRun E =
     thenE (guardE (\<not> list_ex (\<lambda>(name, node). envConflict (gn_Env node)) (g_Nodes (en_Graph E)))
              (ErrText ''TF_DATA_DIR is managed per node''))
       (callE E)"

definition lockGraph :: "'st engine \<Rightarrow> ('st world, unit) eff" where
  "lockGraph E =
     (case en_Blueprint E of
        None \<Rightarrow> retE ()
      | Some b \<Rightarrow> (case bp_Lock b of None \<Rightarrow> retE () | Some _ \<Rightarrow> callE E))"

definition requiredNodes :: "Graph \<Rightarrow> string list \<Rightarrow> string list" where
  "requiredNodes g selected =
     sort (remdups (selected @ map (pr_Node \<circ> e_From)
       (filter (\<lambda>e. IsDataEdge e \<and> pr_Node (e_To e) \<in> set selected) (g_Edges g))))"

definition requiresTofu :: "Graph \<Rightarrow> string \<Rightarrow> bool" where
  "requiresTofu g name = (case schemaOf g name of Some s \<Rightarrow> sc_RequiresTofuFiles s | None \<Rightarrow> False)"

definition checkRuntimeFiles :: "'st engine \<Rightarrow> Options \<Rightarrow> ('st world, unit) eff" where
  "checkRuntimeFiles E opts =
     bindE (liftR (executionLevels (en_Graph E) opts False)) (\<lambda>levels.
       forE (filter (requiresTofu (en_Graph E)) (requiredNodes (en_Graph E) (concat levels))) (\<lambda>name. callE E))"

definition startExecution :: "'st engine \<Rightarrow> string \<Rightarrow> Options \<Rightarrow> bool \<Rightarrow> ('st world, unit) eff" where
  "startExecution E operation opts reverse =
     bindE (liftR (executionLevels (en_Graph E) opts reverse)) (\<lambda>levels.
       beginExecution E operation (concat levels) (op_selection opts) False)"

definition runtimeFor :: "'st engine \<Rightarrow> string \<Rightarrow> string" where
  "runtimeFor E name =
     (case Option.bind (map_of (g_Nodes (en_Graph E)) name) gn_Runtime of
        Some rt \<Rightarrow> rt_Binary rt
      | None \<Rightarrow>
          (case Option.bind (en_Blueprint E) DefaultRuntime of Some rt \<Rightarrow> rt_Binary rt | None \<Rightarrow> en_Binary E))"

subsection \<open>Prepared plans\<close>

record preparedNodePlan =
  pn_name :: string
  pn_changed :: bool
  pn_session :: bool
  pn_binding :: string
  pn_verifyUnchanged :: bool

definition prepareNodePlan :: "'st engine \<Rightarrow> string \<Rightarrow> ('st world, preparedNodePlan) eff" where
  "prepareNodePlan E name =
     thenE (callE E)
     (bindE (tryE (runnerPlanChanges E)) (\<lambda>rd.
      case rd of
        Inl e \<Rightarrow> throwE (Joined [ErrText ''plan'', e])
      | Inr changed \<Rightarrow>
          thenE (pluginPlan E ''node.plan.ready'')
            (retE \<lparr>pn_name = name, pn_changed = changed, pn_session = False, pn_binding = '''', pn_verifyUnchanged = False\<rparr>)))"

definition recordPhase :: "'st engine \<Rightarrow> preparedNodePlan \<Rightarrow> string \<Rightarrow> ('st world, unit) eff" where
  "recordPhase E plan phase = whenE (pn_session plan) (transition E (pn_name plan) phase '''' '''')"

text \<open>The common end of both exits: read, complete and check the outputs, publish the snapshot,
  record the completion.\<close>

definition publishOutputs ::
  "'st engine \<Rightarrow> preparedNodePlan \<Rightarrow> PlanValues option \<Rightarrow> string \<Rightarrow> ('st world, Outputs option \<times> string) eff" where
  "publishOutputs E plan planned status =
     bindE (runnerOutputs E) (\<lambda>read.
       let outputs = completePlanOutputs (en_Value E) (en_Graph E) (pn_name plan) read planned in
       thenE (validateOutputContracts E (pn_name plan) outputs)
       (thenE (writeSnapshot E (pn_name plan) outputs)
       (thenE (recordPhase E plan ''completed'')
       (retE (Some outputs, status)))))"

definition confirm :: "'st engine \<Rightarrow> bool \<Rightarrow> ('st world, unit) eff" where
  "confirm E autoApprove =
     (if autoApprove then retE ()
      else bindE (approve E) (\<lambda>approved. guardE approved (ErrText ''cancelled: node was not approved'')))"

text \<open>From the journal's last entry before the mutation to its first entry after it.\<close>

definition applyRecorded :: "'st engine \<Rightarrow> preparedNodePlan \<Rightarrow> ('st world, unit) eff" where
  "applyRecorded E plan =
     thenE (recordPhase E plan ''applying'')
     (bindE (tryE (runtimeMutation E (pn_name plan))) (\<lambda>res.
      case res of
        Inr _ \<Rightarrow> recordPhase E plan ''applied''
      | Inl e \<Rightarrow>
          bindE (tryE (recordPhase E plan (if errIs e ErrNotStarted then ''failed'' else ''indeterminate''))) (\<lambda>rec.
          throwE (case joinErr [Some e, errOf rec] of Some je \<Rightarrow> je | None \<Rightarrow> e))))"

definition applyPreparedPlan ::
  "'st engine \<Rightarrow> preparedNodePlan \<Rightarrow> Options \<Rightarrow> ('st world, Outputs option \<times> string) eff" where
  "applyPreparedPlan E plan opts =
     bindE (inspectContractPlan E (pn_name plan) True) (\<lambda>(planned, checks, err).
       case err of
         Some e \<Rightarrow> throwE e
       | None \<Rightarrow>
           if \<not> pn_changed plan \<and> \<not> pn_verifyUnchanged plan then publishOutputs E plan planned StatusUnchanged
           else
             bindE (runnerChangeSet E False) (\<lambda>(changes, _).
               case approveFor (en_Graph E) (pn_name plan) (op_Approve opts) of
                 None \<Rightarrow> throwE (ErrText ''nil dereference'')
               | Some level \<Rightarrow>
                   let blocked = notPermitted changes level in
                   if blocked \<noteq> [] then throwE (gateError (en_Graph E) (pn_name plan) level blocked)
                   else
                     thenE (confirm E (op_AutoApprove opts))
                     (thenE (pluginPlan E ''node.mutation.admit'')
                     (thenE (applyRecorded E plan)
                     (publishOutputs E plan planned StatusApplied)))))"

subsection \<open>Initialization of a node in a run\<close>

definition initRecorded :: "'st engine \<Rightarrow> string \<Rightarrow> ('st world, unit) eff" where
  "initRecorded E name =
     thenE (transition E name ''initializing'' '''' '''')
     (bindE (tryE (initNode E name)) (\<lambda>res.
      case res of
        Inl e \<Rightarrow> failNode E name ''indeterminate'' (Joined [ErrText ''init'', e])
      | Inr _ \<Rightarrow> transition E name ''preparing'' '''' ''''))"

definition requireSavedPlan :: "'st engine \<Rightarrow> ('st world, unit) eff" where
  "requireSavedPlan E =
     bindE (runnerBackendType E) (\<lambda>backend.
       guardE (SupportsSavedPlan backend) (ErrText ''backend cannot produce a local plan''))"

subsection \<open>Sessions of an operation\<close>

definition noRuns :: RunResult where
  "noRuns = \<lparr>rr_ExecutionID = '''', rr_Nodes = []\<rparr>"

text \<open>The body of an operation once its session is open, with the deferred \<open>finish\<close>.\<close>

definition runSession ::
  "'st engine \<Rightarrow> ('st world, NodeRun list \<times> goErr option) eff \<Rightarrow> ('st world, RunResult \<times> goErr option) eff" where
  "runSession E body =
     bindE (getE (\<lambda>w. xr_ID (w_Record w))) (\<lambda>ident.
     bindE body (\<lambda>(runs, e).
     bindE (tryE (finish E e)) (\<lambda>fin.
     retE (\<lparr>rr_ExecutionID = ident, rr_Nodes = runs\<rparr>,
           case fin of Inl fe \<Rightarrow> joinErr [e, Some fe] | Inr _ \<Rightarrow> e))))"

text \<open>Locks, runtime checks and the session, then the body; an early error has no session to finish.\<close>

definition operate ::
  "'st engine \<Rightarrow> string \<Rightarrow> Options \<Rightarrow> bool \<Rightarrow> bool \<Rightarrow> ('st world, NodeRun list \<times> goErr option) eff \<Rightarrow>
   ('st world, RunResult \<times> goErr option) eff" where
  "operate E operation opts reverse checkFiles body =
     bindE (tryE (thenE (lockRun E) (thenE (whenE checkFiles (checkRuntimeFiles E opts))
       (thenE (lockGraph E) (startExecution E operation opts reverse))))) (\<lambda>started.
     case started of Inl e \<Rightarrow> retE (noRuns, Some e) | Inr _ \<Rightarrow> runSession E body)"

definition needsAutoApprove :: "Options \<Rightarrow> bool" where
  "needsAutoApprove opts \<longleftrightarrow> \<not> op_AutoApprove opts \<and> parallelism opts > 1"

abbreviation invalidArguments :: goErr where
  "invalidArguments \<equiv> WithDiagnostic ''invalid_arguments'' (ErrText ''arguments'')"

subsection \<open>Destroy\<close>

text \<open>The end of both ways to destroy a node: the journal entry, the runtime, its outcome.\<close>

definition destroyRecorded :: "'st engine \<Rightarrow> string \<Rightarrow> ('st world, unit) eff" where
  "destroyRecorded E name =
     thenE (transition E name ''operating'' '''' '''')
     (bindE (tryE (runtimeMutation E name)) (\<lambda>res.
      case res of
        Inl e \<Rightarrow> failNode E name ''indeterminate'' e
      | Inr _ \<Rightarrow> transition E name ''completed'' '''' ''''))"

definition destroyContractPlan :: "'st engine \<Rightarrow> Options \<Rightarrow> string \<Rightarrow> ('st world, unit) eff" where
  "destroyContractPlan E opts name =
     thenE (initRecorded E name)
     (thenE (requireSavedPlan E)
     (thenE (callE E)
     (thenE (runnerPlanChanges E)
     (thenE (pluginPlan E ''node.plan.ready'')
     (bindE (tryE (runnerPlanValues E)) (\<lambda>rd.
      thenE (liftR (case rd of
               Inl e \<Rightarrow> policyResult (en_Graph E) [check (''node.'' @ name) ''destroy input evidence'' ContractDeferred] True
             | Inr values \<Rightarrow> policyResult (en_Graph E) (inputContractChecks (en_Value E) (en_Graph E) name values) True))
      (thenE (confirm E (op_AutoApprove opts))
      (thenE (pluginPlan E ''node.mutation.admit'')
      (destroyRecorded E name)))))))))"

definition destroyNative :: "'st engine \<Rightarrow> string \<Rightarrow> ('st world, unit) eff" where
  "destroyNative E name =
     thenE (pluginAdmitNative E) (destroyRecorded E name)"

definition destroyNode :: "'st engine \<Rightarrow> Options \<Rightarrow> 'st nodeAction" where
  "destroyNode E opts name applied =
     bindE (resolveInputs E name applied) (\<lambda>vars.
     thenE (callE E)
     (bindE (pluginHas E ''node.plan.ready'') (\<lambda>gated.
      thenE (if (case nodeContracts (en_Graph E) name of Some dc \<Rightarrow> dc_Consumer dc \<noteq> [] | None \<Rightarrow> False) \<or> gated
             then destroyContractPlan E opts name else destroyNative E name)
        (retE (None, StatusDestroyed)))))"

text \<open>A declared level below \<open>all\<close> forbids teardown, asked or not.\<close>

definition teardownForbidden :: "Graph \<Rightarrow> string \<Rightarrow> bool" where
  "teardownForbidden g name =
     (case map_of (g_Nodes g) name of
        Some n \<Rightarrow> gn_Approve n \<noteq> '''' \<and> gn_Approve n \<noteq> ApproveAll
      | None \<Rightarrow> False)"

definition Destroy ::
  "'st engine \<Rightarrow> (string list \<Rightarrow> string list) \<Rightarrow> Options \<Rightarrow> ('st world, RunResult \<times> goErr option) eff" where
  "Destroy E order opts0 =
     (case resolveSelection (en_Graph E) opts0 of
        Inl e \<Rightarrow> retE (noRuns, Some e)
      | Inr opts \<Rightarrow>
          if needsAutoApprove opts then retE (noRuns, Some invalidArguments)
          else (case executionLevels (en_Graph E) opts True of
                  Inl e \<Rightarrow> retE (noRuns, Some e)
                | Inr levels \<Rightarrow>
                    if list_ex (teardownForbidden (en_Graph E)) (concat levels)
                    then retE (noRuns, Some (WithDiagnostic ''policy_blocked'' (ErrText ''destroy'')))
                    else operate E ''destroy'' opts True True
                           (runLevels E order opts True (destroyNode E opts) (retE ()) False)))"

subsection \<open>Plan and review\<close>

definition storeReview :: "bool \<Rightarrow> string \<Rightarrow> PlanReview \<Rightarrow> ('st world, unit) eff" where
  "storeReview inspect name review =
     whenE inspect (modifyE (\<lambda>w. w\<lparr>w_Reviews := AList.update name review (w_Reviews w)\<rparr>))"

text \<open>The local function \<open>fail\<close>: in a review the failure becomes part of the review.\<close>

definition planFail :: "bool \<Rightarrow> string \<Rightarrow> PlanReview \<Rightarrow> string \<Rightarrow> string \<Rightarrow> goErr \<Rightarrow> ('st world, 'a) eff" where
  "planFail inspect name review code phase e =
     (if inspect
      then (let failed = reviewFailure review name code phase e in
            thenE (storeReview True name failed)
              (throwE (WithDiagnostic (case rv_Diagnostic failed of Some d \<Rightarrow> rd_Code d | None \<Rightarrow> code) e)))
      else throwE e)"

definition orFail :: "bool \<Rightarrow> string \<Rightarrow> PlanReview \<Rightarrow> string \<Rightarrow> string \<Rightarrow> ('st world, 'a) eff \<Rightarrow> ('st world, 'a) eff" where
  "orFail inspect name review code phase m =
     bindE (tryE m) (\<lambda>res. case res of Inl e \<Rightarrow> planFail inspect name review code phase e | Inr x \<Rightarrow> retE x)"

text \<open>Planning through a saved plan, which is inspected.\<close>

definition planSaved :: "'st engine \<Rightarrow> bool \<Rightarrow> string \<Rightarrow> PlanReview \<Rightarrow> ('st world, Outputs option \<times> string) eff" where
  "planSaved E inspect name review =
     thenE (orFail inspect name review ''plan_artifact_failed'' ''prepare'' (callE E))
     (bindE (orFail inspect name review ''plan_failed'' ''plan'' (runnerPlanChanges E)) (\<lambda>changed.
     bindE (orFail inspect name review ''inspection_failed'' ''inspect'' (runnerChangeSet E True)) (\<lambda>(resources, outs).
     let review = review\<lparr>rv_Resources := resources, rv_Outputs := outs\<rparr> in
     bindE (inspectContractPlan E name False) (\<lambda>(values, checks, err).
     let review = review\<lparr>rv_Contracts := checks\<rparr> in
     case err of
       Some e \<Rightarrow> planFail inspect name review ''contract_failed'' ''contracts'' e
     | None \<Rightarrow>
         thenE (orFail inspect name review ''plugin_gate_failed'' ''plan'' (pluginPlan E ''node.plan.ready''))
         (let review = normalize review changed in
          thenE (storeReview inspect name review)
          (thenE (orFail inspect name review ''journal_failed'' ''plan'' (transition E name ''completed'' '''' ''''))
          (retE (None, StatusPlanned))))))))"

definition planText :: "'st engine \<Rightarrow> bool \<Rightarrow> string \<Rightarrow> PlanReview \<Rightarrow> ('st world, Outputs option \<times> string) eff" where
  "planText E inspect name review =
     thenE (orFail inspect name review ''plan_failed'' ''plan'' (runtimeCall E))
     (thenE (orFail inspect name review ''plugin_failed'' ''plan'' (pluginHost E))
     (thenE (orFail inspect name review ''journal_failed'' ''plan'' (transition E name ''completed'' '''' ''''))
     (retE (None, StatusPlanned))))"

definition planPrepared ::
  "'st engine \<Rightarrow> bool \<Rightarrow> bool \<Rightarrow> string \<Rightarrow> PlanReview \<Rightarrow> ('st world, Outputs option \<times> string) eff" where
  "planPrepared E inspect allowTextFallback name review =
     bindE (pluginHas E ''node.plan.ready'') (\<lambda>gated.
       if \<not> (inspect \<or> hasContracts (en_Graph E) name \<or> gated) then planText E inspect name review
       else
         let backend = (case schemaOf (en_Graph E) name of Some s \<Rightarrow> sc_Backend s | None \<Rightarrow> '''') in
         bindE (if backend = ''remote'' \<or> backend = ''cloud'' then retE False
                else bindE (runnerBackendType E) (\<lambda>native. retE (SupportsSavedPlan native))) (\<lambda>supported.
         if supported then planSaved E inspect name review
         else
           let capability = ErrText ''backend does not support saved-plan inspection'';
               review = reviewFailure review name ''inspection_unsupported'' ''capability'' capability in
           thenE (storeReview inspect name review)
             (if (inspect \<and> \<not> allowTextFallback) \<or> gated then throwE capability
              else planText E inspect name review)))"

definition planNode :: "'st engine \<Rightarrow> Options \<Rightarrow> bool \<Rightarrow> bool \<Rightarrow> 'st nodeAction" where
  "planNode E opts inspect allowTextFallback name applied =
     (case approveFor (en_Graph E) name (op_Approve opts) of
        None \<Rightarrow> throwE (ErrText ''nil dereference'')
      | Some level \<Rightarrow>
          let review = newPlanReview level in
          thenE (storeReview inspect name review)
          (thenE (whenE inspect (orFail inspect name review ''runtime_incompatible'' ''prepare''
                    (checkRuntimeFiles E (opts\<lparr>op_Nodes := Some [name], op_Downstream := False, op_levels := None\<rparr>))))
          (bindE (resolveInputsWithBasis E name applied) (\<lambda>(basis, res).
           let review = (if inspect then review\<lparr>rv_Inputs := basis\<rparr> else review) in
           thenE (storeReview inspect name review)
           (case res of
              Inl e \<Rightarrow> planFail inspect name review ''input_resolution_failed'' ''inputs'' e
            | Inr vars \<Rightarrow>
                thenE (orFail inspect name review ''variables_write_failed'' ''prepare'' (callE E))
                (thenE (orFail inspect name review ''journal_failed'' ''init'' (transition E name ''initializing'' '''' ''''))
                (thenE (orFail inspect name review ''initialization_failed'' ''init''
                          (bindE (tryE (initNode E name)) (\<lambda>res.
                             case res of Inl e \<Rightarrow> failNode E name ''indeterminate'' (Joined [ErrText ''init'', e]) | Inr _ \<Rightarrow> retE ())))
                (thenE (orFail inspect name review ''journal_failed'' ''init'' (transition E name ''preparing'' '''' ''''))
                (planPrepared E inspect allowTextFallback name review)))))))))"

text \<open>A node the review never reached gets a review that says so.\<close>

definition attachReview :: "Graph \<Rightarrow> Options \<Rightarrow> PlanReview smap \<Rightarrow> NodeRun \<Rightarrow> NodeRun" where
  "attachReview g opts reviews run =
     run\<lparr>nr_Review := (case map_of reviews (nr_Node run) of
        Some review \<Rightarrow> Some review
      | None \<Rightarrow>
          map_option (\<lambda>level. reviewFailure (newPlanReview level) (nr_Node run) ''not_reached'' ''schedule''
              (case nr_Err run of Some e \<Rightarrow> e | None \<Rightarrow> ErrText ''plan was not reached''))
            (approveFor g (nr_Node run) (op_Approve opts)))\<rparr>"

definition planRun ::
  "'st engine \<Rightarrow> (string list \<Rightarrow> string list) \<Rightarrow> Options \<Rightarrow> bool \<Rightarrow> bool \<Rightarrow> ('st world, RunResult \<times> goErr option) eff" where
  "planRun E order opts0 inspect allowTextFallback =
     (case resolveSelection (en_Graph E) opts0 of
        Inl e \<Rightarrow> retE (noRuns, Some e)
      | Inr opts \<Rightarrow>
          thenE (modifyE (\<lambda>w. w\<lparr>w_Reviews := []\<rparr>))
          (operate E ''plan'' opts False (\<not> inspect)
            (bindE (runLevels E order opts False (planNode E opts inspect allowTextFallback) (retE ()) inspect) (\<lambda>(runs, e).
             bindE (getE w_Reviews) (\<lambda>reviews.
             retE (if inspect then map (attachReview (en_Graph E) opts reviews) runs else runs, e))))))"

definition Plan :: "'st engine \<Rightarrow> (string list \<Rightarrow> string list) \<Rightarrow> Options \<Rightarrow> ('st world, RunResult \<times> goErr option) eff" where
  "Plan E order opts = planRun E order opts False False"

definition ReviewPlan ::
  "'st engine \<Rightarrow> (string list \<Rightarrow> string list) \<Rightarrow> Options \<Rightarrow> bool \<Rightarrow> ('st world, RunResult \<times> goErr option) eff" where
  "ReviewPlan E order opts allowTextFallback = planRun E order opts True allowTextFallback"

end
