(* ===== verification/Engine_Checks.thy ===== *)
theory Engine_Checks
  imports Operations
begin

text \<open>
  The engine's own checks beside the graph's validation: managed paths that alias each other
  (\<open>internal/engine/path_collision.go\<close>), runtimes that share a module directory, and files left by
  renamed nodes (\<open>engine.go\<close>).  A directory listing is a function from a path to its entries
  (name, is a directory) or none when it cannot be read.
\<close>

subsection \<open>Managed paths\<close>

definition enginePlanPath :: "'st engine \<Rightarrow> string \<Rightarrow> string" where
  "enginePlanPath E name = Join [en_BaseDir E, ''.terragraph'', ''plans'', name @ ''.tfplan'']"

definition engineDataDir :: "'st engine \<Rightarrow> string \<Rightarrow> string" where
  "engineDataDir E name = Join [en_BaseDir E, ''.terragraph'', ''tfdata'', name]"

definition snapshotPath :: "'st engine \<Rightarrow> string \<Rightarrow> string" where
  "snapshotPath E name = Join [en_BaseDir E, ''.terragraph'', ''outputs'', name @ ''.json'']"

definition tfVarsFileName :: "string \<Rightarrow> string" where
  "tfVarsFileName name = ''.terragraph.'' @ name @ ''.tfvars.json''"

definition engineNodeDir :: "'st engine \<Rightarrow> string \<Rightarrow> string" where
  "engineNodeDir E name = (case map_of (g_Nodes (en_Graph E)) name of Some n \<Rightarrow> gn_Dir n | None \<Rightarrow> '''')"

definition tfVarsInModule :: "'st engine \<Rightarrow> bool" where
  "tfVarsInModule E = (case en_Blueprint E of Some b \<Rightarrow> TFVarsLocation b = ''module'' | None \<Rightarrow> False)"

definition tfVarsPath :: "'st engine \<Rightarrow> string \<Rightarrow> string" where
  "tfVarsPath E name =
     (if tfVarsInModule E then Join [engineNodeDir E name, tfVarsFileName name]
      else Join [en_BaseDir E, ''.terragraph'', ''vars'', name @ ''.tfvars.json''])"

definition managedPaths :: "'st engine \<Rightarrow> (string \<Rightarrow> string) list" where
  "managedPaths E =
     [engineDataDir E, enginePlanPath E, tfVarsPath E] @ (if g_Snapshots (en_Graph E) then [snapshotPath E] else [])"

text \<open>The inner loop over the paths of two nodes; \<open>unverified\<close> is its flag.\<close>

fun pairCollision :: "OS \<Rightarrow> string \<Rightarrow> string \<Rightarrow> bool \<Rightarrow> (string \<Rightarrow> string) list \<Rightarrow> Problem list" where
  "pairCollision os a b unverified [] =
     (if unverified then [warningP ''paths_unverified'' (a @ '','' @ b)] else [])"
| "pairCollision os a b unverified (path # paths) =
     (case os_SamePath os (path a) (path b) of
        Inl _ \<Rightarrow> [errorP ''paths_failed'' (a @ '','' @ b)]
      | Inr (same, known) \<Rightarrow>
          if same \<and> known then [errorP ''paths_collide'' (a @ '','' @ b)]
          else pairCollision os a b (unverified \<or> \<not> known) paths)"

definition pathCollisions :: "'st engine \<Rightarrow> Problem list" where
  "pathCollisions E =
     (if en_BaseDir E = '''' \<or> en_Blueprint E = None then []
      else allPairs (\<lambda>a b. pairCollision (en_OS E) a b False (managedPaths E)) (sort (map fst (g_Nodes (en_Graph E)))))"

subsection \<open>Runtimes of a shared directory\<close>

definition nodesInDir :: "Graph \<Rightarrow> string \<Rightarrow> string list" where
  "nodesInDir g dir = sort (map fst (filter (\<lambda>(name, n). gn_Dir n = dir) (g_Nodes g)))"

definition graphDirs :: "Graph \<Rightarrow> string list" where
  "graphDirs g = sort (remdups (map (gn_Dir \<circ> snd) (g_Nodes g)))"

definition mixedRuntimes :: "'st engine \<Rightarrow> string list \<Rightarrow> bool" where
  "mixedRuntimes E names =
     (case names of [] \<Rightarrow> False | first # rest \<Rightarrow> list_ex (\<lambda>n. runtimeFor E n \<noteq> runtimeFor E first) rest)"

definition runtimeConflicts :: "'st engine \<Rightarrow> Problem list" where
  "runtimeConflicts E =
     map (warningP ''runtime_conflict'')
       (filter (\<lambda>dir. mixedRuntimes E (nodesInDir (en_Graph E) dir)) (graphDirs (en_Graph E)))"

subsection \<open>Files of renamed nodes\<close>

type_synonym listing = "string \<Rightarrow> (string \<times> bool) list option"

definition ownerOf :: "string \<Rightarrow> string" where
  "ownerOf fname = TrimSuffix (TrimPrefix fname ''.terragraph.'') ''.tfvars.json''"

definition staleVars :: "Graph \<Rightarrow> listing \<Rightarrow> string \<Rightarrow> string list" where
  "staleVars g readDir dir =
     (case readDir dir of
        None \<Rightarrow> []
      | Some entries \<Rightarrow>
          sort (map fst (filter (\<lambda>(fname, isDir). \<not> isDir \<and> HasPrefix fname ''.terragraph.'' \<and> HasSuffix fname ''.tfvars.json'' \<and>
            ownerOf fname \<notin> set (nodesInDir g dir)) entries)))"

definition tfVarsOrphans :: "'st engine \<Rightarrow> listing \<Rightarrow> Problem list" where
  "tfVarsOrphans E readDir =
     (if \<not> tfVarsInModule E then []
      else concat (map (\<lambda>dir. map (\<lambda>fname. warningP ''tfvars_orphan'' (Join [dir, fname])) (staleVars (en_Graph E) readDir dir))
             (graphDirs (en_Graph E))))"

text \<open>A relative state path is claimed below the node's directory and below the blueprint's.\<close>

definition claimedPaths :: "'st engine \<Rightarrow> string list" where
  "claimedPaths E =
     concat (map (\<lambda>(name, n).
       case map_of (bn_BackendConfig (gn_Node n)) ''path'' of
         None \<Rightarrow> []
       | Some p \<Rightarrow> if IsAbs p then [Clean p] else [Clean (Join [gn_Dir n, p]), Clean (Join [en_BaseDir E, p])])
       (g_Nodes (en_Graph E)))"

definition stateOrphans :: "'st engine \<Rightarrow> listing \<Rightarrow> Problem list" where
  "stateOrphans E readDir =
     (let dir = Join [en_BaseDir E, ''.terragraph'', ''state''] in
      case readDir dir of
        None \<Rightarrow> []
      | Some entries \<Rightarrow>
          map (\<lambda>fname. warningP ''state_orphan'' (Join [dir, fname]))
            (sort (map fst (filter (\<lambda>(fname, isDir). \<not> isDir \<and> HasSuffix fname ''.tfstate'' \<and>
               Join [dir, fname] \<notin> set (claimedPaths E)) entries))))"

subsection \<open>What passing means\<close>

lemma pairCollision_ok:
  "noErrors (pairCollision os a b u paths) \<Longrightarrow> path \<in> set paths \<Longrightarrow>
   \<exists>same known. os_SamePath os (path a) (path b) = Inr (same, known) \<and> \<not> (same \<and> known)"
  by (induction paths arbitrary: u) (auto split: sum.splits prod.splits if_splits)

lemma pairCollision_quiet:
  "pairCollision os a b u paths = [] \<Longrightarrow>
   \<not> u \<and> (\<forall>path \<in> set paths. os_SamePath os (path a) (path b) = Inr (False, True))"
  by (induction paths arbitrary: u) (auto split: sum.splits prod.splits if_splits)

lemma allPairs_mem:
  "xs = us @ x # vs \<Longrightarrow> y \<in> set vs \<Longrightarrow> set (f x y) \<subseteq> set (allPairs f xs)"
  by (induction xs arbitrary: us) (auto simp: Cons_eq_append_conv)

lemma allPairs_Nil: "allPairs f xs = [] \<Longrightarrow> xs = us @ x # vs \<Longrightarrow> y \<in> set vs \<Longrightarrow> f x y = []"
  using allPairs_mem [of xs us x vs y f] by auto

text \<open>Two members of a sorted list without repetitions stand in order in it.\<close>

lemma sorted_split:
  assumes "sorted xs" "distinct xs" "a \<in> set xs" "b \<in> set xs" "a < (b :: string)"
  obtains us vs where "xs = us @ a # vs" "b \<in> set vs"
proof -
  obtain us vs where xs: "xs = us @ a # vs" using assms(3) split_list by fast
  have "\<forall>u \<in> set us. u \<le> a" using assms(1) unfolding xs by (auto simp: sorted_append)
  then have "b \<notin> set us" using assms(5) leD by blast
  then show ?thesis using that [OF xs] assms(4,5) xs by auto
qed

text \<open>
  Nodes that pass the path check never share managed files.  When the blueprint has a base
  directory, node names are unique and the check reports no error, then for any two nodes each pair
  of their data directories, plan files, variable files and (with snapshots) snapshot files was
  compared and is not known to be the same; and when it reports nothing at all, each pair is known to be distinct.
\<close>

lemma managed_paths_separate:
  assumes set: "en_BaseDir E \<noteq> ''''" "en_Blueprint E \<noteq> None" "distinct (map fst (g_Nodes (en_Graph E)))"
    and nodes: "a \<in> fst ` set (g_Nodes (en_Graph E))" "b \<in> fst ` set (g_Nodes (en_Graph E))" "a < b"
    and path: "path \<in> {engineDataDir E, enginePlanPath E, tfVarsPath E} \<or> (g_Snapshots (en_Graph E) \<and> path = snapshotPath E)"
  shows "(noErrors (pathCollisions E) \<longrightarrow>
            (\<exists>same known. os_SamePath (en_OS E) (path a) (path b) = Inr (same, known) \<and> \<not> (same \<and> known))) \<and>
         (pathCollisions E = [] \<longrightarrow> os_SamePath (en_OS E) (path a) (path b) = Inr (False, True))"
proof -
  have mem: "path \<in> set (managedPaths E)" using path by (auto simp: managedPaths_def)
  obtain us vs where split: "sort (map fst (g_Nodes (en_Graph E))) = us @ a # vs" "b \<in> set vs"
    using sorted_split [of "sort (map fst (g_Nodes (en_Graph E)))" a b] set(3) nodes by auto
  show ?thesis
  proof (intro conjI impI)
    assume "noErrors (pathCollisions E)"
    then have "noErrors (pairCollision (en_OS E) a b False (managedPaths E))"
      using allPairs_mem [OF split] set by (fastforce simp: pathCollisions_def noErrors_def)
    then show "\<exists>same known. os_SamePath (en_OS E) (path a) (path b) = Inr (same, known) \<and> \<not> (same \<and> known)"
      using pairCollision_ok mem by blast
  next
    assume "pathCollisions E = []"
    then have "allPairs (\<lambda>a b. pairCollision (en_OS E) a b False (managedPaths E)) (sort (map fst (g_Nodes (en_Graph E)))) = []"
      using set by (auto simp: pathCollisions_def split: if_splits)
    from allPairs_Nil [OF this split] show "os_SamePath (en_OS E) (path a) (path b) = Inr (False, True)"
      using pairCollision_quiet mem by blast
  qed
qed

definition checkedEngine :: "(payload executionDir) engine" where
  "checkedEngine = sampleEngine\<lparr>en_Blueprint := Some
     \<lparr>bp_Plugins = [], bp_Execution = None, bp_Nodes = [], bp_Edges = [], bp_Groups = [], bp_Uses = [],
      bp_Vendor = None, bp_TFVars = None, bp_Lock = None, bp_Runtimes = [], bp_ContractMode = '''',
      bp_Contracts = None, bp_Snapshots = None\<rparr>\<rparr>"

end
