(* ===== verification/Saved_Plans.thy ===== *)
theory Saved_Plans
  imports Engine_Checks
begin

text \<open>
  Retained plans (\<open>internal/engine/plan_bundle.go\<close>), apply (\<open>apply.go\<close>), and executions that pause
  between plan and apply (\<open>saved_execution.go\<close>).
\<close>

subsection \<open>What a retained plan is bound to\<close>

definition skippedDirs :: "string list" where
  "skippedDirs = [''.git'', ''.terragraph'', ''.terraform'']"

definition relPath :: "string \<Rightarrow> string \<Rightarrow> string" where
  "relPath prefix name = (if prefix = '''' then name else prefix @ ''/'' @ name)"

definition isStateFile :: "string \<Rightarrow> string \<Rightarrow> string \<Rightarrow> bool" where
  "isStateFile state path name \<longleftrightarrow>
     path = state \<or> path = state @ ''.backup'' \<or> HasSuffix name ''.tfstate'' \<or> HasSuffix name ''.tfstate.backup''"

fun walkTree :: "string \<Rightarrow> string \<Rightarrow> string \<Rightarrow> srcTree \<Rightarrow> nat \<times> string smap \<Rightarrow> goErr + nat \<times> string smap"
and walkTrees :: "string \<Rightarrow> string \<Rightarrow> string \<Rightarrow> srcTree list \<Rightarrow> nat \<times> string smap \<Rightarrow> goErr + nat \<times> string smap" where
  "walkTree base state prefix (SrcDir name ts) acc =
     (if name \<in> set skippedDirs then Inr acc else walkTrees base state (relPath prefix name) ts acc)"
| "walkTree base state prefix (SrcFile name regular n hash) (used, files) =
     (if isStateFile state (base @ ''/'' @ relPath prefix name) name then Inr (used, files)
      else if \<not> regular then Inl (ErrText ''retained plans require regular source files'')
      else if used + n > executionObjectLimit then Inl (ErrText ''source inputs exceed retained-plan verification limit'')
      else bindR hash (\<lambda>h. Inr (used + n, AList.update (relPath prefix name) h files)))"
| "walkTrees base state prefix [] acc = Inr acc"
| "walkTrees base state prefix (t # ts) acc = bindR (walkTree base state prefix t acc) (walkTrees base state prefix ts)"

definition planSourceFiles :: "'st engine \<Rightarrow> string \<Rightarrow> ('st world, string smap) eff" where
  "planSourceFiles E name =
     (case map_of (g_Nodes (en_Graph E)) name of
        None \<Rightarrow> throwE (ErrText ''nil dereference'')
      | Some node \<Rightarrow>
          bindE (readE (en_Tree E)) (\<lambda>ts.
          liftR (bindR (walkTrees (gn_Dir node) (case localStatePath (en_OS E) node of Some p \<Rightarrow> p | None \<Rightarrow> '''') '''' ts (0, []))
            (\<lambda>(bytes, files). Inr files))))"

text \<open>\<open>Contracts.Digest\<close>: a claim whose type does not parse has no canonical form.\<close>

definition contractsDigest :: "'st engine \<Rightarrow> goErr + string" where
  "contractsDigest E =
     (let claims = concat (map (\<lambda>(dir, dc). map snd (dc_Producer dc) @ map snd (dc_Consumer dc))
            (case g_Contracts (en_Graph E) of Some m \<Rightarrow> m | None \<Rightarrow> [])) in
      if list_ex (\<lambda>p. CanonicalContractType (vl_Cty (en_Value E)) (pc_Type p) = None) claims
      then Inl (ErrText ''contract type'')
      else Inr (en_Digest E (DigestContracts (g_Contracts (en_Graph E)))))"

definition withPlugins :: "'st engine \<Rightarrow> (string \<Rightarrow> ('st world, string) eff) \<Rightarrow> string \<Rightarrow> ('st world, string) eff" where
  "withPlugins E combine binding =
     (if \<not> hasPlugins E then retE binding else bindE (readE (en_Text E)) combine)"

definition planBinding :: "'st engine \<Rightarrow> string \<Rightarrow> jval smap \<Rightarrow> ('st world, string) eff" where
  "planBinding E name vars =
     bindE (thenE (runtimeCall E) (readE (en_Text E))) (\<lambda>runtime.
     bindE (liftR (executionTarget E name)) (\<lambda>target.
     bindE (planSourceFiles E name) (\<lambda>files.
     bindE (liftR (contractsDigest E)) (\<lambda>contracts.
     let binding = en_Digest E (DigestPlan
           [contracts, g_ContractMode (en_Graph E), target, runtime, runtimeFor E name,
            (case map_of (g_Nodes (en_Graph E)) name of Some n \<Rightarrow> gn_Dir n | None \<Rightarrow> ''''), engineDataDir E name] files vars) in
     withPlugins E (\<lambda>p. bindE (tick (en_Creds E)) (\<lambda>creds. retE (en_Digest E (DigestPlugins binding p creds)))) binding))))"

subsection \<open>Bundles\<close>

definition retainPlan :: "'st engine \<Rightarrow> preparedNodePlan \<Rightarrow> jval smap \<Rightarrow> ('st world, string) eff" where
  "retainPlan E plan vars =
     bindE (planBinding E (pn_name plan) vars) (\<lambda>binding.
     thenE (guardE (pn_binding plan = '''' \<or> binding = pn_binding plan) (ErrText ''inputs changed while planning''))
     (bindE (readE (en_Text E)) (\<lambda>bytes.
      bindE (getE (\<lambda>w. xr_ID (w_Record w))) (\<lambda>executionID.
      bindE (now E) (\<lambda>t.
      bindE (tick (en_Random E)) (\<lambda>rnd.
      let bundle = \<lparr>pb_SchemaVersion = 1, pb_ID = newExecutionID ''plan'' rnd, pb_ExecutionID = executionID, pb_Node = pn_name plan,
            pb_Binding = binding, pb_CreatedAt = t, pb_ExpiresAt = t + xc_PlanTTL (ExecutionSettings (en_Blueprint E)),
            pb_Changed = pn_changed plan, pb_Plan = bytes\<rparr> in
      thenE (storeWrite E (bundleKey (pb_ID bundle)) (BundleData bundle) '''')
      (thenE (transition E (pn_name plan) ''planned'' '''' (pb_ID bundle))
      (retE (pb_ID bundle)))))))))"

text \<open>Bytes that are not a bundle decode to one without schema version, so both are incompatible.\<close>

definition checkBundle :: "string \<Rightarrow> ExecutionNode \<Rightarrow> int \<Rightarrow> payload \<Rightarrow> goErr + planBundle" where
  "checkBundle executionID node t d =
     (case d of
        BundleData b \<Rightarrow>
          if pb_SchemaVersion b \<noteq> 1 \<or> pb_ID b \<noteq> xn_PlanID node \<or> pb_Node b \<noteq> xn_Name node \<or>
             pb_ExecutionID b \<noteq> executionID \<or> pb_Plan b = ''''
          then Inl (WithDiagnostic ''saved_plan_incompatible'' (ErrText ''plan bundle is incompatible''))
          else if \<not> t < pb_ExpiresAt b then Inl (WithDiagnostic ''saved_plan_expired'' (ErrText ''plan expired''))
          else Inr b
      | _ \<Rightarrow> Inl (WithDiagnostic ''saved_plan_incompatible'' (ErrText ''reading retained plan'')))"

definition readPlanBundle :: "'st engine \<Rightarrow> ExecutionNode \<Rightarrow> ('st world, planBundle) eff" where
  "readPlanBundle E node =
     bindE (getE (\<lambda>w. xr_ID (w_Record w))) (\<lambda>executionID.
     bindE (tryE (storeRead E (bundleKey (xn_PlanID node)))) (\<lambda>rd.
     case rd of
       Inl e \<Rightarrow> throwE (WithDiagnostic ''saved_plan_read_failed'' e)
     | Inr obj \<Rightarrow> bindE (now E) (\<lambda>t. liftR (checkBundle executionID node t (eo_Data obj)))))"

subsection \<open>Apply\<close>

definition applyNode :: "'st engine \<Rightarrow> Options \<Rightarrow> 'st nodeAction" where
  "applyNode E opts name applied =
     bindE (resolveInputs E name applied) (\<lambda>vars.
     thenE (callE E)
     (thenE (initRecorded E name)
     (thenE (requireSavedPlan E)
     (bindE (if op_RetainPlan opts then planBinding E name vars else retE '''') (\<lambda>binding.
      bindE (prepareNodePlan E name) (\<lambda>prepared.
      let plan = prepared\<lparr>pn_session := True, pn_binding := binding\<rparr> in
      thenE (whenE (op_RetainPlan opts) (thenE (retainPlan E plan vars) (retE ())))
        (applyPreparedPlan E plan opts)))))))"

definition Apply ::
  "'st engine \<Rightarrow> (string list \<Rightarrow> string list) \<Rightarrow> Options \<Rightarrow> ('st world, RunResult \<times> goErr option) eff" where
  "Apply E order opts0 =
     (case resolveSelection (en_Graph E) opts0 of
        Inl e \<Rightarrow> retE (noRuns, Some e)
      | Inr opts \<Rightarrow>
          if needsAutoApprove opts then retE (noRuns, Some invalidArguments)
          else operate E ''apply'' opts False True (runLevels E order opts False (applyNode E opts) (retE ()) False))"

subsection \<open>The binding of a saved execution\<close>

fun savedGraphNodes :: "'st engine \<Rightarrow> ExecutionNode list \<Rightarrow> savedNode smap \<Rightarrow> ('st world, savedNode smap) eff" where
  "savedGraphNodes E [] acc = retE acc"
| "savedGraphNodes E (n # ns) acc =
     (case map_of (g_Nodes (en_Graph E)) (xn_Name n) of
        None \<Rightarrow> throwE (ErrText ''removed from graph'')
      | Some actual \<Rightarrow>
          bindE (planSourceFiles E (xn_Name n)) (\<lambda>files.
          savedGraphNodes E ns (AList.update (xn_Name n)
            \<lparr>sn_Declaration = gn_Node actual, sn_Runtime = gn_Runtime actual, sn_Env = gn_Env actual, sn_Approve = gn_Approve actual,
             sn_Binary = runtimeFor E (xn_Name n), sn_Files = AList.delete ''.terraform.lock.hcl'' files\<rparr> acc)))"

definition savedGraphBinding :: "'st engine \<Rightarrow> ExecutionRecord \<Rightarrow> ('st world, string) eff" where
  "savedGraphBinding E r =
     bindE (savedGraphNodes E (xr_Nodes r) []) (\<lambda>nodes.
     bindE (liftR (contractsDigest E)) (\<lambda>contracts.
     let binding = en_Digest E (DigestGraph contracts (g_ContractMode (en_Graph E)) nodes (g_Edges (en_Graph E))) in
     withPlugins E (\<lambda>p. retE (en_Digest E (DigestStrings [binding, p]))) binding))"

subsection \<open>Saving the plans of a frontier\<close>

definition savedLimitation :: string where
  "savedLimitation = ''only this ready frontier is saved''"

definition saveFrontierNode :: "'st engine \<Rightarrow> Options \<Rightarrow> string \<Rightarrow> ('st world, unit) eff" where
  "saveFrontierNode E opts name =
     thenE (pluginHost E)
     (bindE (resolveLiveInputs E name) (\<lambda>vars.
      thenE (callE E)
      (thenE (initRecorded E name)
      (thenE (requireSavedPlan E)
      (bindE (planBinding E name vars) (\<lambda>before.
       bindE (prepareNodePlan E name) (\<lambda>prepared.
       bindE (planBinding E name vars) (\<lambda>after.
       thenE (guardE (before = after) (ErrText ''source inputs changed while planning''))
       (case approveFor (en_Graph E) name (op_Approve opts) of
          None \<Rightarrow> throwE (ErrText ''nil dereference'')
        | Some level \<Rightarrow>
            bindE (inspectContractPlan E name False) (\<lambda>(values, checks, err).
            case err of
              Some e \<Rightarrow> throwE e
            | None \<Rightarrow>
                bindE (runnerChangeSet E True) (\<lambda>(changes, outs).
                thenE (callE E)
                (thenE (retainPlan E (prepared\<lparr>pn_session := True, pn_binding := before\<rparr>) vars)
                (setReview E name (normalize ((newPlanReview level)\<lparr>rv_Contracts := checks, rv_Limitations := [savedLimitation],
                   rv_Outputs := outs, rv_Resources := changes\<rparr>) (pn_changed prepared)))))))))))))))"

text \<open>A pending node is on the frontier when its selected upstreams are completed.\<close>

definition frontierReady :: "Graph \<Rightarrow> ExecutionNode list \<Rightarrow> ExecutionNode \<Rightarrow> bool" where
  "frontierReady g nodes node \<longleftrightarrow>
     xn_Phase node = ''pending'' \<and>
     list_all (\<lambda>upstream. case findNode upstream nodes of Some n \<Rightarrow> xn_Phase n = ''completed'' | None \<Rightarrow> True)
       (g_In g (xn_Name node))"

definition completionError :: "('st world, unit) eff" where
  "completionError = bindE (getE w_Completion) (\<lambda>c. case c of Some e \<Rightarrow> throwE e | None \<Rightarrow> retE ())"

text \<open>A failed step also notes the failure; both errors are returned.\<close>

definition notedStep :: "'st engine \<Rightarrow> string \<Rightarrow> string \<Rightarrow> ('st world, 'a) eff \<Rightarrow> ('st world, 'a) eff" where
  "notedStep E name code m =
     bindE (tryE m) (\<lambda>res.
       case res of
         Inr x \<Rightarrow> retE x
       | Inl e \<Rightarrow>
           bindE (tryE (noteSavedFailure E name code)) (\<lambda>noted.
           throwE (case joinErr [Some e, errOf noted] of Some je \<Rightarrow> je | None \<Rightarrow> e)))"

definition saveFrontier :: "'st engine \<Rightarrow> Options \<Rightarrow> ('st world, unit) eff" where
  "saveFrontier E opts =
     bindE (getE w_Record) (\<lambda>r.
       let ready = filter (frontierReady (en_Graph E) (xr_Nodes r)) (xr_Nodes r) in
       thenE (forE ready (\<lambda>node.
         thenE (notedStep E (xn_Name node) ''plan_step_failed'' (saveFrontierNode E opts (xn_Name node)))
           (thenE (pluginHost E) completionError)))
       (thenE (guardE (ready \<noteq> []) (ErrText ''execution has no unplanned frontier''))
       (bindE (getE w_Record) (\<lambda>r.
        bindE (now E) (\<lambda>t.
        publish E (r\<lparr>xr_Status := ''waiting_for_apply'', xr_UpdatedAt := t\<rparr>))))))"

definition savePlansBody :: "'st engine \<Rightarrow> Options \<Rightarrow> ('st world, unit) eff" where
  "savePlansBody E opts =
     bindE (getE w_Record) (\<lambda>r.
     bindE (savedGraphBinding E r) (\<lambda>binding.
     thenE (guardE (xr_Binding r = '''' \<or> xr_Binding r = binding)
              (WithDiagnostic ''saved_plan_incompatible'' (ErrText ''graph configuration changed'')))
     (bindE (getE w_Plugins) (\<lambda>on.
      thenE (whenE (\<not> on) (startPlugins E))
      (bindE (getE w_Record) (\<lambda>r.
       thenE (publish E (r\<lparr>xr_Binding := binding\<rparr>)) (saveFrontier E opts)))))))"

text \<open>Everything up to the point where a failure must finalize the session.\<close>

definition openSavePlans :: "'st engine \<Rightarrow> Options \<Rightarrow> string \<Rightarrow> ('st world, Options) eff" where
  "openSavePlans E opts continueID =
     (if continueID = '''' then
        bindE (liftR (resolveSelection (en_Graph E) opts)) (\<lambda>opts.
        thenE (lockRun E) (thenE (checkRuntimeFiles E opts) (thenE (lockGraph E)
          (thenE (startExecution E ''saved_apply'' opts False) (retE opts)))))
      else
        thenE (lockRun E) (thenE (lockGraph E) (thenE (openSavedExecution E continueID) (retE opts))))"

definition continuable :: "ExecutionRecord \<Rightarrow> bool" where
  "continuable r \<longleftrightarrow> xr_Status r = ''preparing'' \<or> xr_Status r = ''ready_for_next_plan''"

definition SavePlans :: "'st engine \<Rightarrow> Options \<Rightarrow> string \<Rightarrow> ('st world, ExecutionRecord \<times> goErr option) eff" where
  "SavePlans E opts continueID =
     (if continueID \<noteq> '''' \<and> hasSelectionFlags opts then throwE invalidArguments
      else
        bindE (openSavePlans E opts continueID) (\<lambda>opts.
        bindE (tryE (bindE (getE w_Record) (\<lambda>r.
          bindE (if continueID = '''' then retE opts
                 else bindE (liftR (storedSelection (en_Graph E) opts r)) (\<lambda>opts.
                        thenE (checkRuntimeFiles E opts) (retE opts))) (\<lambda>opts.
          thenE (guardE (continuable r) (ErrText ''apply its pending plans or start a fresh execution'')) (retE opts))))) (\<lambda>checked.
        bindE (case checked of
                 Inl e \<Rightarrow> finishSavedSession E (Some e) False
               | Inr opts \<Rightarrow>
                   bindE (tryE (savePlansBody E opts)) (\<lambda>res. finishSavedSession E (errOf res) True)) (\<lambda>e.
        bindE (getE w_Record) (\<lambda>r. retE (r, e))))))"

subsection \<open>Applying a saved frontier\<close>

definition applySavedNode :: "'st engine \<Rightarrow> Options \<Rightarrow> ExecutionNode \<Rightarrow> ('st world, string) eff" where
  "applySavedNode E opts node =
     (let name = xn_Name node in
      thenE (pluginHost E)
      (bindE (readPlanBundle E node) (\<lambda>bundle.
       bindE (resolveLiveInputs E name) (\<lambda>vars.
       bindE (liftR (executionTarget E name)) (\<lambda>target.
       thenE (guardE (target = xn_Target node) (WithDiagnostic ''saved_plan_incompatible'' (ErrText ''backend target changed'')))
       (bindE (planBinding E name vars) (\<lambda>binding.
        thenE (guardE (binding = pb_Binding bundle) (WithDiagnostic ''saved_plan_incompatible'' (ErrText ''inputs changed'')))
        (thenE (transition E name ''initializing'' '''' '''')
        (bindE (tryE (initNode E name)) (\<lambda>res.
         case res of
           Inl e \<Rightarrow> failNode E name ''indeterminate'' e
         | Inr _ \<Rightarrow>
             thenE (transition E name ''planned'' '''' '''')
             (bindE (planBinding E name vars) (\<lambda>after.
              thenE (guardE (after = pb_Binding bundle) (ErrText ''runtime preparation changed plan bindings''))
              (thenE (callE E)
              (thenE (callE E)
              (thenE (pluginPlan E ''node.plan.ready'')
              (bindE (applyPreparedPlan E \<lparr>pn_name = name, pn_changed = pb_Changed bundle, pn_session = True,
                        pn_binding = '''', pn_verifyUnchanged = True\<rparr> opts) (\<lambda>(outs, status). retE status)))))))))))))))))"

text \<open>The loop over the planned nodes: the reports of the nodes reached, and the error that stopped it.\<close>

fun applySavedNodes ::
  "'st engine \<Rightarrow> Options \<Rightarrow> ExecutionNode list \<Rightarrow> NodeRun list \<Rightarrow> ('st world, NodeRun list \<times> goErr option) eff" where
  "applySavedNodes E opts [] runs = retE (runs, None)"
| "applySavedNodes E opts (node # nodes) runs =
     bindE (tryE (applySavedNode E opts node)) (\<lambda>res.
       case res of
         Inl e \<Rightarrow>
           bindE (tryE (noteSavedFailure E (xn_Name node) ''apply_step_failed'')) (\<lambda>noted.
           retE (runs @ [nodeRun (xn_Name node) 1 StatusFailed (Some e)], joinErr [Some e, errOf noted]))
       | Inr status \<Rightarrow>
           (let runs' = runs @ [nodeRun (xn_Name node) 1 status None] in
            bindE (tryE (thenE (pluginHost E) completionError)) (\<lambda>ok.
            case ok of Inl e \<Rightarrow> retE (runs', Some e) | Inr _ \<Rightarrow> applySavedNodes E opts nodes runs')))"

definition appliedRecord :: "ExecutionRecord \<Rightarrow> int \<Rightarrow> ExecutionRecord" where
  "appliedRecord r t =
     (let finished = list_all (\<lambda>n. xn_Phase n = ''completed'') (xr_Nodes r) in
      r\<lparr>xr_Status := (if finished then ''completed'' else ''ready_for_next_plan''), xr_UpdatedAt := t,
        xr_FinishedAt := (if finished then Some t else xr_FinishedAt r)\<rparr>)"

definition applySavedBody :: "'st engine \<Rightarrow> Options \<Rightarrow> ('st world, NodeRun list \<times> goErr option) eff" where
  "applySavedBody E opts =
     bindE (tryE (startPlugins E)) (\<lambda>started.
       case started of
         Inl e \<Rightarrow> retE ([], Some e)
       | Inr _ \<Rightarrow>
           bindE (getE w_Record) (\<lambda>r.
           bindE (applySavedNodes E opts (filter (\<lambda>n. xn_Phase n = ''planned'') (xr_Nodes r)) []) (\<lambda>(runs, e).
           case e of
             Some err \<Rightarrow> retE (runs, Some err)
           | None \<Rightarrow>
               bindE (getE w_Record) (\<lambda>r.
               bindE (now E) (\<lambda>t.
               bindE (tryE (publish E (appliedRecord r t))) (\<lambda>res. retE (runs, errOf res)))))))"

text \<open>The checks between opening the execution and applying: a failure here finalizes nothing.\<close>

definition checkSaved :: "'st engine \<Rightarrow> Options \<Rightarrow> ('st world, Options) eff" where
  "checkSaved E opts =
     bindE (getE w_Record) (\<lambda>r.
     bindE (liftR (storedSelection (en_Graph E) opts r)) (\<lambda>opts.
     thenE (checkRuntimeFiles E opts)
     (thenE (guardE (xr_Status r = ''waiting_for_apply'') (ErrText ''only waiting_for_apply can be applied''))
     (bindE (savedGraphBinding E r) (\<lambda>binding.
      thenE (guardE (binding = xr_Binding r) (WithDiagnostic ''saved_plan_incompatible'' (ErrText ''graph configuration changed'')))
        (retE opts))))))"

definition ApplySavedPlans :: "'st engine \<Rightarrow> string \<Rightarrow> Options \<Rightarrow> ('st world, RunResult \<times> goErr option) eff" where
  "ApplySavedPlans E ident opts =
     (if hasSelectionFlags opts \<or> needsAutoApprove opts then retE (noRuns, Some invalidArguments)
      else
        bindE (tryE (thenE (lockRun E) (thenE (lockGraph E) (openSavedExecution E ident)))) (\<lambda>opened.
        case opened of
          Inl e \<Rightarrow> retE (noRuns, Some e)
        | Inr _ \<Rightarrow>
            bindE (getE (\<lambda>w. xr_ID (w_Record w))) (\<lambda>executionID.
            bindE (tryE (checkSaved E opts)) (\<lambda>checked.
            case checked of
              Inl e \<Rightarrow>
                bindE (finishSavedSession E (Some e) False) (\<lambda>e'.
                retE (\<lparr>rr_ExecutionID = executionID, rr_Nodes = []\<rparr>, e'))
            | Inr opts \<Rightarrow>
                bindE (applySavedBody E opts) (\<lambda>(runs, e).
                bindE (finishSavedSession E e True) (\<lambda>e'.
                retE (\<lparr>rr_ExecutionID = executionID, rr_Nodes = runs\<rparr>, e')))))))"

end
