(* ===== verification/Node_Operation.thy ===== *)
theory Node_Operation
  imports Saved_Plans
begin

text \<open>
  Native operations on one node: which commands and flags are admitted
  (\<open>internal/engine/operation_args.go\<close>) and how they run under the journal
  (\<open>node_operation.go\<close>).  \<open>time.ParseDuration\<close> is a function from the text to nanoseconds.
\<close>

subsection \<open>Admitted commands\<close>

record nodeOperation =
  no_name :: string
  no_readOnly :: bool
  no_vars :: bool
  no_backup :: bool
  no_init :: bool

text \<open>The operation, the index of its first argument and the admitted number of positional
  arguments (no upper bound when absent).\<close>

definition operation :: "string \<Rightarrow> bool \<Rightarrow> bool \<Rightarrow> bool \<Rightarrow> bool \<Rightarrow> nodeOperation" where
  "operation name readOnly vars backup init =
     \<lparr>no_name = name, no_readOnly = readOnly, no_vars = vars, no_backup = backup, no_init = init\<rparr>"

definition stateOperation :: "string \<Rightarrow> goErr + nodeOperation \<times> nat \<times> nat \<times> nat option" where
  "stateOperation sub =
     (let name = ''state '' @ sub in
      if sub = ''list'' then Inr (operation name True False False False, 2, 0, None)
      else if sub = ''show'' then Inr (operation name True False False False, 2, 1, Some 1)
      else if sub = ''pull'' then Inr (operation name True False False False, 2, 0, Some 0)
      else if sub = ''mv'' then Inr (operation name False False True False, 2, 2, Some 2)
      else if sub = ''rm'' then Inr (operation name False False True False, 2, 1, None)
      else Inl (ErrText ''unsupported state operation''))"

definition selectOperation :: "string list \<Rightarrow> goErr + nodeOperation \<times> nat \<times> nat \<times> nat option" where
  "selectOperation args =
     (case args of
        [] \<Rightarrow> Inl (ErrText ''run needs a native command after --'')
      | command # rest \<Rightarrow>
          if command = ''init'' then Inr (operation ''init'' False False False True, 1, 0, Some 0)
          else if command = ''console'' then Inr (operation ''console'' True True False False, 1, 0, Some 0)
          else if command = ''import'' then Inr (operation ''import'' False True True False, 1, 2, Some 2)
          else if command = ''state'' then
            (case rest of [] \<Rightarrow> Inl (ErrText ''run state needs an operation'') | sub # _ \<Rightarrow> stateOperation sub)
          else Inl (ErrText ''unsupported run operation''))"

text \<open>\<open>strings.Cut\<close> at the first equals sign.\<close>

definition cutEq :: "string \<Rightarrow> string \<times> string option" where
  "cutEq arg =
     (case dropWhile (\<lambda>c. c \<noteq> CHR ''='') arg of
        [] \<Rightarrow> (arg, None)
      | _ # v \<Rightarrow> (takeWhile (\<lambda>c. c \<noteq> CHR ''='') arg, Some v))"

definition admittedFlag :: "(string \<Rightarrow> int option) \<Rightarrow> nodeOperation \<Rightarrow> string \<Rightarrow> bool" where
  "admittedFlag duration op arg =
     (case cutEq arg of
        (key, None) \<Rightarrow> key = ''-no-color''
      | (key, Some v) \<Rightarrow>
          if key = ''-lock-timeout'' \<and> \<not> no_init op \<and> (\<not> no_readOnly op \<or> no_name op = ''console'')
          then (case duration v of Some d \<Rightarrow> 0 \<le> d | None \<Rightarrow> False)
          else key = ''-id'' \<and> no_name op = ''state list'')"

definition isFlag :: "string \<Rightarrow> bool" where
  "isFlag arg = HasPrefix arg ''-''"

definition classifyOperation :: "(string \<Rightarrow> int option) \<Rightarrow> string list \<Rightarrow> goErr + nodeOperation" where
  "classifyOperation duration args =
     bindR (selectOperation args) (\<lambda>(op, start, minArgs, maxArgs).
       let given = drop start args;
           positional = length (filter (\<lambda>a. \<not> isFlag a) given) in
       if \<not> list_all (admittedFlag duration op) (filter isFlag given) then Inl (ErrText ''run does not allow this flag'')
       else if positional < minArgs \<or> (case maxArgs of Some m \<Rightarrow> m < positional | None \<Rightarrow> False)
       then Inl (ErrText ''wrong number of positional arguments'')
       else Inr op)"

subsection \<open>Backups\<close>

definition persistOperationBackup :: "'st engine \<Rightarrow> ('st world, unit) eff" where
  "persistOperationBackup E =
     bindE (tick (en_Bool E)) (\<lambda>missing.
       if missing then retE ()
       else
         thenE (callE E)
         (bindE (tick (en_Bool E)) (\<lambda>regular.
          thenE (guardE regular (ErrText ''native backup could not be archived''))
          (bindE (readE (en_Text E)) (\<lambda>data.
           thenE (guardE (data \<noteq> '''') (ErrText ''native backup is empty''))
           (bindE (getE w_Record) (\<lambda>r.
            thenE (storeWrite E (bundleKey (xr_ID r)) (RawData data) '''')
            (bindE (getE w_Record) (\<lambda>r.
             thenE (publish E (r\<lparr>xr_Backup := True\<rparr>)) (callE E))))))))))"

definition ReadExecutionBackup :: "'st engine \<Rightarrow> string \<Rightarrow> ('st world, payload) eff" where
  "ReadExecutionBackup E ident =
     thenE (lockRun E)
     (thenE (liftR (openExecutionStore E))
     (bindE (readExecutionRecord E ident) (\<lambda>(r, revision).
      thenE (guardE (xr_Scope r = executionScope E) (ErrText ''no accessible native backup in this scope''))
      (bindE (storeRead E (bundleKey ident)) (\<lambda>obj. thenE (callE E) (retE (eo_Data obj)))))))"

subsection \<open>Running an operation\<close>

definition operationPhase :: "nodeOperation \<Rightarrow> string" where
  "operationPhase op = (if no_init op then ''initializing'' else if no_readOnly op then ''reading'' else ''operating'')"

text \<open>The runtime: initialization and reads cannot change infrastructure or state.\<close>

definition runOperation :: "'st engine \<Rightarrow> nodeOperation \<Rightarrow> string \<Rightarrow> ('st world, unit) eff" where
  "runOperation E op name =
     (if no_init op then thenE (runtimeCall E) (rememberBackendContext E name)
      else if no_readOnly op then runtimeCall E
      else runtimeMutation E name)"

definition operationBody :: "'st engine \<Rightarrow> nodeOperation \<Rightarrow> string \<Rightarrow> ('st world, unit) eff" where
  "operationBody E op name =
     thenE (whenE (no_vars op) (bindE (resolveLiveInputs E name) (\<lambda>vars. callE E)))
     (thenE (whenE (no_backup op) (callE E))
     (thenE (whenE (\<not> no_readOnly op \<and> \<not> no_init op) (pluginAdmitNative E))
     (thenE (transition E name (operationPhase op) '''' '''')
     (bindE (tryE (runOperation E op name)) (\<lambda>res.
      bindE (if no_backup op then tryE (persistOperationBackup E) else retE (Inr ())) (\<lambda>kept.
      case (kept, res) of
        (Inl e, _) \<Rightarrow> throwE (case joinErr [errOf res, Some e] of Some je \<Rightarrow> je | None \<Rightarrow> e)
      | (Inr _, Inl e) \<Rightarrow> failNode E name (if no_readOnly op then ''failed'' else ''indeterminate'') e
      | (Inr _, Inr _) \<Rightarrow> transition E name ''completed'' '''' ''''))))))"

definition operationName :: "string \<Rightarrow> string" where
  "operationName name = ''run_'' @ map (\<lambda>c. if c = CHR '' '' then CHR ''_'' else c) name"

definition checkNode :: "'st engine \<Rightarrow> string \<Rightarrow> goErr + unit" where
  "checkNode E name =
     (case map_of (g_Nodes (en_Graph E)) name of
        None \<Rightarrow> Inl (ErrText ''run requires one exact expanded leaf'')
      | Some node \<Rightarrow>
          if name = '''' then Inl (ErrText ''run requires one exact expanded leaf'')
          else (case gn_Schema node of
                  None \<Rightarrow> Inl (ErrText ''module is unavailable'')
                | Some s \<Rightarrow>
                    if gn_ObservationError node then Inl (ErrText ''module is unavailable'')
                    else if \<not> sc_BackendConfigKnown s then Inl (ErrText ''backend configuration is not statically known'')
                    else Inr ()))"

definition RunNode :: "'st engine \<Rightarrow> (string \<Rightarrow> int option) \<Rightarrow> Options \<Rightarrow> string \<Rightarrow> string list \<Rightarrow> ('st world, unit) eff" where
  "RunNode E duration opts name args =
     bindE (liftR (classifyOperation duration args)) (\<lambda>op.
     thenE (liftR (checkNode E name))
     (thenE (callE E)
     (thenE (lockRun E)
     (thenE (guardE (noErrors (pathCollisions E)) (ErrText ''managed paths collide''))
     (thenE (checkRuntimeFiles E (opts\<lparr>op_Nodes := Some [name], op_Downstream := False, op_levels := None\<rparr>))
     (thenE (whenE (\<not> no_init op) (verifyBackendContext E name))
     (thenE (lockGraph E)
     (thenE (beginExecution E (operationName (no_name op)) [name] None (no_readOnly op))
     (bindE (tryE (operationBody E op name)) (\<lambda>res.
      bindE (tryE (finish E (errOf res))) (\<lambda>fin.
      case fin of
        Inr _ \<Rightarrow> liftR res
      | Inl fe \<Rightarrow> throwE (case joinErr [errOf res, Some fe] of Some je \<Rightarrow> je | None \<Rightarrow> fe))))))))))))"

end
