(* ===== verification/Run_Effects.thy ===== *)
theory Run_Effects
  imports Node_Operation
begin

text \<open>
  What every operation of a run keeps, stated once.  A preorder on engine states that is kept by the
  clock, by changes outside the session record and the list of mutations, and by the two writers of the
  journal is kept by every reading, preparing and planning operation and by the scheduler.  The preorders
  of the safety proofs are interpretations of this interface.
\<close>

subsection \<open>The interface\<close>

locale state_order = effect_order R for R :: "'st world \<Rightarrow> 'st world \<Rightarrow> bool" +
  fixes E :: "'st engine"
  assumes ticks: "R w (w\<lparr>w_Tick := Suc (w_Tick w)\<rparr>)"
    and kept: "w_Record w' = w_Record w \<Longrightarrow> w_Mutations w' = w_Mutations w \<Longrightarrow> w_Tick w' = w_Tick w \<Longrightarrow> R w w'"
begin

lemma tick [relatesI]: "relates R (tick f)"
  by (simp add: relates_def tick_def ticks)

lemma callE [relatesI]: "relates R (callE E)"
  unfolding callE_def by (intro relatesI)

lemma now [relatesI]: "relates R (now E)"
  unfolding now_def by (intro relatesI)

lemma modify [relatesI]:
  "(\<And>w. w_Record (f w) = w_Record w \<and> w_Mutations (f w) = w_Mutations w \<and> w_Tick (f w) = w_Tick w) \<Longrightarrow> relates R (modifyE f)"
  by (simp add: relates_def kept)

lemma storeRead [relatesI]: "relates R (storeRead E key)"
  unfolding storeRead_def by (intro relatesI)

lemma storeWrite [relatesI]: "relates R (storeWrite E key data revision)"
  unfolding relates_def storeWrite_def bindE_def
  by (auto simp: tick_app split: prod.splits) (rule trans [OF ticks], rule kept, simp_all)

lemma storeRemove [relatesI]: "relates R (storeRemove E key revision)"
  unfolding relates_def storeRemove_def bindE_def
  by (auto simp: tick_app split: prod.splits) (rule trans [OF ticks], rule kept, simp_all)

lemma readExecutionRecord [relatesI]: "relates R (readExecutionRecord E ident)"
  unfolding readExecutionRecord_def by (intro relatesI)

end

text \<open>With the two writers of the journal, every operation of a run.\<close>

locale call_order = state_order R E for R :: "'st world \<Rightarrow> 'st world \<Rightarrow> bool" and E :: "'st engine" +
  assumes recordPlugin [relatesI]: "relates R (recordPlugin E call)"
    and lockedTransition [relatesI]: "relates R (lockedTransition E name phase code planID)"
begin

lemma pluginHost [relatesI]: "relates R (pluginHost E)"
  unfolding pluginHost_def by (intro relatesI)

lemma addCompletionError [relatesI]: "relates R (addCompletionError e)"
  unfolding addCompletionError_def by (intro relatesI) simp

lemma noteCompletion [relatesI]: "relates R m \<Longrightarrow> relates R (noteCompletion m)"
  unfolding noteCompletion_def by (intro relatesI)

lemma transition [relatesI]: "relates R (transition E name phase code planID)"
  unfolding transition_def by (intro relatesI)

lemma failNode [relatesI]: "relates R (failNode E name phase cause)"
  unfolding failNode_def by (intro relatesI)

subsection \<open>Runtime reads, inputs and snapshots\<close>

lemma readE [relatesI]: "relates R (readE f)"
  unfolding readE_def by (intro relatesI)

lemma runtimeHook [relatesI]: "relates R (runtimeHook E)"
  unfolding runtimeHook_def by (intro relatesI)

lemma runtimeCall [relatesI]: "relates R (runtimeCall E)"
  unfolding runtimeCall_def by (intro relatesI)

lemma runner [relatesI]:
  "relates R (runnerOutputs E)" "relates R (runnerPlanChanges E)" "relates R (runnerPlanValues E)"
  "relates R (runnerChangeSet E wantOutputs)" "relates R (runnerBackendType E)"
  unfolding runnerOutputs_def runnerPlanChanges_def runnerPlanValues_def runnerChangeSet_def runnerBackendType_def
  by (intro relatesI)+

lemma approve [relatesI]: "relates R (approve E)"
  unfolding approve_def by (intro relatesI)

lemma confirm [relatesI]: "relates R (confirm E auto)"
  unfolding confirm_def by (intro relatesI)

lemma rememberBackendContext [relatesI]: "relates R (rememberBackendContext E name)"
  unfolding rememberBackendContext_def by (intro relatesI) simp_all

lemma initNode [relatesI]: "relates R (initNode E name)"
  unfolding initNode_def by (intro relatesI)

lemma pluginHas [relatesI]: "relates R (pluginHas E phase)"
  unfolding pluginHas_def by (intro relatesI)

lemma pluginPlan [relatesI]: "relates R (pluginPlan E phase)"
  unfolding pluginPlan_def by (intro relatesI)

lemma pluginAdmitNative [relatesI]: "relates R (pluginAdmitNative E)"
  unfolding pluginAdmitNative_def by (intro relatesI)

lemma inspectContractPlan [relatesI]: "relates R (inspectContractPlan E name requireInputs)"
  unfolding inspectContractPlan_def by (intro relatesI)

lemma validateOutputContracts [relatesI]: "relates R (validateOutputContracts E name outputs)"
  unfolding validateOutputContracts_def by (intro relatesI)

lemma writeSnapshot [relatesI]: "relates R (writeSnapshot E name outputs)"
  unfolding writeSnapshot_def writeSnapshotFile_def Let_def by (intro relatesI) simp_all

lemma readSnapshot [relatesI]: "relates R (readSnapshot E name)"
  unfolding readSnapshot_def by (intro relatesI)

lemma edgeSource [relatesI]: "relates R (edgeSource E applied live edge)"
  unfolding edgeSource_def liveFailed_def snapshotFallback_def Let_def by (intro relatesI)

lemma resolveEdges [relatesI]: "relates R (resolveEdges E applied edges vars live basis)"
proof (induction edges arbitrary: vars live basis)
  case (Cons edge edges)
  then show ?case unfolding resolveEdges.simps Let_def by (intro relatesI)
qed (simp only: resolveEdges.simps, rule ret)

lemma pluginResolve [relatesI]: "relates R (pluginResolve E)"
  unfolding pluginResolve_def by (intro relatesI)

lemma resolvePlugins [relatesI]: "relates R (resolvePlugins E name pairs vars basis)"
proof (induction pairs arbitrary: vars basis)
  case (Cons p pairs)
  then show ?case by (cases p) (simp only: resolvePlugins.simps, intro relatesI)
qed (simp only: resolvePlugins.simps, rule ret)

lemma resolveInputs [relatesI]:
  "relates R (resolveInputsWithBasis E name applied)" "relates R (resolveInputs E name applied)"
  unfolding resolveInputsWithBasis_def resolveInputs_def by (intro relatesI)+

lemma liveUpstreams [relatesI]: "relates R (liveUpstreams E edges outputs)"
proof (induction edges arbitrary: outputs)
  case (Cons edge edges)
  then show ?case unfolding liveUpstreams.simps by (intro relatesI)
qed (simp only: liveUpstreams.simps, rule ret)

lemma resolveLiveInputs [relatesI]: "relates R (resolveLiveInputs E name)"
  unfolding resolveLiveInputs_def by (intro relatesI)

subsection \<open>Preparation and bundles\<close>

lemma prepareNodePlan [relatesI]: "relates R (prepareNodePlan E name)"
  unfolding prepareNodePlan_def by (intro relatesI)

lemma recordPhase [relatesI]: "relates R (recordPhase E plan phase)"
  unfolding recordPhase_def by (intro relatesI)

lemma publishOutputs [relatesI]: "relates R (publishOutputs E plan planned status)"
  unfolding publishOutputs_def Let_def by (intro relatesI)

lemma initRecorded [relatesI]: "relates R (initRecorded E name)"
  unfolding initRecorded_def by (intro relatesI)

lemma requireSavedPlan [relatesI]: "relates R (requireSavedPlan E)"
  unfolding requireSavedPlan_def by (intro relatesI)

lemma planSourceFiles [relatesI]: "relates R (planSourceFiles E name)"
  unfolding planSourceFiles_def by (intro relatesI)

lemma withPlugins [relatesI]: "(\<And>p. relates R (combine p)) \<Longrightarrow> relates R (withPlugins E combine binding)"
  unfolding withPlugins_def by (intro relatesI)

lemma planBinding [relatesI]: "relates R (planBinding E name vars)"
  unfolding planBinding_def Let_def by (intro relatesI)

lemma retainPlan [relatesI]: "relates R (retainPlan E plan vars)"
  unfolding retainPlan_def Let_def by (intro relatesI)

lemma readPlanBundle [relatesI]: "relates R (readPlanBundle E node)"
  unfolding readPlanBundle_def by (intro relatesI)

lemma savedGraphNodes [relatesI]: "relates R (savedGraphNodes E nodes acc)"
proof (induction nodes arbitrary: acc)
  case (Cons n nodes)
  then show ?case unfolding savedGraphNodes.simps by (intro relatesI)
qed (simp only: savedGraphNodes.simps, rule ret)

lemma savedGraphBinding [relatesI]: "relates R (savedGraphBinding E r)"
  unfolding savedGraphBinding_def Let_def by (intro relatesI)

lemma completionError [relatesI]: "relates R completionError"
  unfolding completionError_def by (intro relatesI)

subsection \<open>Planning and finishing\<close>

lemma storeReview [relatesI]: "relates R (storeReview inspect name review)"
  unfolding storeReview_def by (intro relatesI) simp

lemma planFail [relatesI]: "relates R (planFail inspect name review code phase e)"
  unfolding planFail_def Let_def by (intro relatesI)

lemma orFail [relatesI]: "relates R m \<Longrightarrow> relates R (orFail inspect name review code phase m)"
  unfolding orFail_def by (intro relatesI)

lemma locks [relatesI]:
  "relates R (lockRun E)" "relates R (lockGraph E)" "relates R (checkRuntimeFiles E opts)"
  unfolding lockRun_def lockGraph_def checkRuntimeFiles_def by (intro relatesI)+

lemma planSaved [relatesI]: "relates R (planSaved E inspect name review)"
  unfolding planSaved_def Let_def by (intro relatesI)

lemma planText [relatesI]: "relates R (planText E inspect name review)"
  unfolding planText_def by (intro relatesI)

lemma planPrepared [relatesI]: "relates R (planPrepared E inspect allowTextFallback name review)"
  unfolding planPrepared_def Let_def by (intro relatesI)

lemma planNode [relatesI]: "relates R (planNode E opts inspect allowTextFallback name applied)"
  unfolding planNode_def Let_def by (intro relatesI)

lemma startPlugins [relatesI]: "relates R (startPlugins E)"
  unfolding startPlugins_def by (intro relatesI) simp

lemma pluginHosts [relatesI]: "relates R (pluginHosts E n)"
proof (induction n)
  case (Suc n)
  then show ?case unfolding pluginHosts.simps by (intro relatesI)
qed (simp only: pluginHosts.simps, rule ret)

lemma finishPlugins [relatesI]: "relates R (finishPlugins E)"
  unfolding finishPlugins_def by (intro relatesI) simp

lemma cleanupExecution [relatesI]: "relates R (cleanupExecution E r)"
  unfolding cleanupExecution_def cleanupNode_def by (intro relatesI)

lemma checkSaved [relatesI]: "relates R (checkSaved E opts)"
  unfolding checkSaved_def by (intro relatesI)


subsection \<open>The scheduler keeps what the node actions keep\<close>

lemma noteHost: "relates R (noteCompletion (pluginHost E))"
  unfolding noteCompletion_def by (intro relatesI)

lemma runNodes:
  assumes action: "\<And>name applied. relates R (action name applied)"
  shows "relates R (runNodes E keepGoing blocked snapshot action level names)"
proof (induction names)
  case (Cons name names)
  then show ?case
    unfolding runNodes.simps runNode_def admitNode_def by (intro relatesI noteHost action)
qed (simp only: runNodes.simps, rule ret)

lemma levelLoop:
  assumes action: "\<And>name applied. relates R (action name applied)" and after: "relates R afterLevel"
  shows "relates R (levelLoop E order keepGoing action afterLevel li levels failed applied first runs)"
proof (induction levels arbitrary: li failed applied first runs)
  case (Cons level levels)
  have verdict: "relates R (levelVerdict E keepGoing level new afterLevel)" for new
    unfolding levelVerdict_def Let_def by (intro relatesI after)
  show ?case
    unfolding levelLoop.simps Let_def by (intro relatesI verdict runNodes [OF action] Cons.IH)
qed (simp only: levelLoop.simps, rule ret)

lemma runLevels:
  assumes action: "\<And>name applied. relates R (action name applied)" and after: "relates R afterLevel"
  shows "relates R (runLevels E order opts reverse action afterLevel keepGoing)"
  unfolding runLevels_def announceRuns_def by (intro relatesI noteHost levelLoop [OF action after])

end

end
