(* ===== verification/Mutation_Journal.thy ===== *)
theory Mutation_Journal
  imports Run_Effects Journal_Session
begin

text \<open>
  The journal is ahead of the infrastructure.  Every process that can change infrastructure is started
  after the execution's record says so in the store; planning operations start none.
\<close>

subsection \<open>Operations that start no mutation\<close>

definition openFor :: "string \<Rightarrow> 'st world \<Rightarrow> bool" where
  "openFor i w \<longleftrightarrow> xr_ID (w_Record w) = i \<and> xr_RecoveryAt (w_Record w) = None"

definition quiet :: "string \<Rightarrow> 'st world \<Rightarrow> 'st world \<Rightarrow> bool" where
  "quiet i w w' \<longleftrightarrow> (openFor i w \<longrightarrow> openFor i w' \<and> w_Mutations w' = w_Mutations w)"

interpretation quiet: effect_order "quiet i"
  by unfold_locales (auto simp: quiet_def)

interpretation quiet: state_order "quiet i" E for E
  by unfold_locales (auto simp: quiet_def openFor_def)

lemma quiet_get_record:
  assumes "\<And>r. xr_ID r = i \<Longrightarrow> xr_RecoveryAt r = None \<Longrightarrow> relates (quiet i) (f r)"
  shows "relates (quiet i) (bindE (getE w_Record) f)"
  unfolding relates_def
proof (intro allI impI)
  fix w w' r assume run: "bindE (getE w_Record) f w = (w', r)"
  show "quiet i w w'"
  proof (cases "openFor i w")
    case True
    then have "relates (quiet i) (f (w_Record w))" using assms by (simp add: openFor_def)
    then show ?thesis using run by (auto simp: bindE_def dest: relatesD)
  qed (simp add: quiet_def)
qed

lemma quiet_publish:
  assumes "xr_ID next = i" "xr_RecoveryAt next = None"
  shows "relates (quiet i) (publish E next)"
proof -
  have "relates (quiet i) (modifyE (\<lambda>w. w\<lparr>w_Record := next, w_Revision := written\<rparr>))" for written
    using assms by (simp add: relates_def quiet_def openFor_def)
  then show ?thesis
    unfolding publish_def writeRecord_def
    by (intro quiet.bind quiet.get quiet.attempt relates_case_sum quiet.throw quiet.ret quiet.storeWrite)
qed

lemma quiet_recordPlugin [relatesI]: "relates (quiet i) (recordPlugin E call)"
  unfolding recordPlugin_def Let_def by (intro quiet_get_record relatesI quiet_publish) simp_all

lemma quiet_lockedTransition [relatesI]: "relates (quiet i) (lockedTransition E name phase code planID)"
  unfolding lockedTransition_def by (intro quiet_get_record relatesI quiet_publish) simp_all

interpretation quiet_run: call_order "quiet i" E for E
  by unfold_locales (rule quiet_recordPlugin quiet_lockedTransition)+

lemma quiet_setReview [relatesI]: "relates (quiet i) (setReview E name review)"
  unfolding setReview_def by (intro quiet_get_record relatesI quiet_publish) simp_all

lemma quiet_noteSavedFailure [relatesI]: "relates (quiet i) (noteSavedFailure E name code)"
  unfolding noteSavedFailure_def by (intro quiet_get_record relatesI quiet_publish) simp_all

lemma quiet_finish [relatesI]: "relates (quiet i) (finish E runErr)"
  unfolding finish_def finishLocked_def
  by (intro quiet_get_record relatesI quiet_publish) (simp_all add: finishedRecord_def Let_def)

lemma quiet_finishSaved [relatesI]: "relates (quiet i) (finishSaved E runErr)"
  unfolding finishSaved_def
  by (intro quiet_get_record relatesI quiet_publish) (simp_all add: savedRecord_def Let_def)

lemma quiet_finishSavedSession [relatesI]: "relates (quiet i) (finishSavedSession E runErr finalize)"
  unfolding finishSavedSession_def Let_def by (intro relatesI)

lemma quiet_saveFrontierNode [relatesI]: "relates (quiet i) (saveFrontierNode E opts name)"
  unfolding saveFrontierNode_def by (intro relatesI)

lemma quiet_saveFrontier [relatesI]: "relates (quiet i) (saveFrontier E opts)"
  unfolding saveFrontier_def notedStep_def Let_def by (intro quiet_get_record relatesI quiet_publish) simp_all

lemma quiet_savePlansBody [relatesI]: "relates (quiet i) (savePlansBody E opts)"
  unfolding savePlansBody_def by (intro quiet_get_record relatesI quiet_publish) simp_all

lemma quiet_persistOperationBackup [relatesI]: "relates (quiet i) (persistOperationBackup E)"
  unfolding persistOperationBackup_def by (intro quiet_get_record relatesI quiet_publish) simp_all

subsection \<open>Mutations are in the journal before they start\<close>

definition nodePhase :: "ExecutionRecord \<Rightarrow> string \<Rightarrow> string option" where
  "nodePhase r name = map_option xn_Phase (findNode name (xr_Nodes r))"

text \<open>The stored journal of the execution says that the node's mutation is under way.\<close>

definition journaledAt :: "('st \<Rightarrow> string \<Rightarrow> payload executionObject option) \<Rightarrow> string \<Rightarrow> string \<times> 'st \<Rightarrow> bool" where
  "journaledAt obj i m \<longleftrightarrow>
     (\<exists>ob r ph. obj (snd m) (recordKey i) = Some ob \<and> eo_Data ob = RecordData r \<and> executionNeedsRecovery r \<and>
        nodePhase r (fst m) = Some ph \<and> ph \<in> {''applying'', ''operating''})"

definition journaled :: "('st \<Rightarrow> string \<Rightarrow> payload executionObject option) \<Rightarrow> string \<Rightarrow> 'st world \<Rightarrow> 'st world \<Rightarrow> bool" where
  "journaled obj i w w' \<longleftrightarrow>
     (openFor i w \<longrightarrow> openFor i w' \<and> (\<exists>new. w_Mutations w' = w_Mutations w @ new \<and> (\<forall>m \<in> set new. journaledAt obj i m)))"

interpretation journaled: effect_order "journaled obj i"
proof
  show "journaled obj i w w" for w by (simp add: journaled_def)
  show "journaled obj i w w2" if "journaled obj i w w1" "journaled obj i w1 w2" for w w1 w2
    using that unfolding journaled_def by (metis Un_iff append_assoc set_append)
qed

lemma journaled_quiet: "relates (quiet i) m \<Longrightarrow> relates (journaled obj i) m"
  by (erule relates_mono) (auto simp: quiet_def journaled_def)

text \<open>The stored and the held record agree that a node is in a phase.\<close>

definition phaseHeld :: "('st \<Rightarrow> string \<Rightarrow> payload executionObject option) \<Rightarrow> string \<Rightarrow> string \<Rightarrow> string \<Rightarrow> 'st world \<Rightarrow> bool" where
  "phaseHeld obj i name ph w \<longleftrightarrow>
     openFor i w \<and> nodePhase (w_Record w) name = Some ph \<and>
     (\<exists>ob r. obj (w_Store w) (recordKey i) = Some ob \<and> eo_Data ob = RecordData r \<and> xr_RecoveryAt r = None \<and> nodePhase r name = Some ph)"

definition keepsPhase :: "('st \<Rightarrow> string \<Rightarrow> payload executionObject option) \<Rightarrow> string \<Rightarrow> string \<Rightarrow> string \<Rightarrow> 'st world \<Rightarrow> 'st world \<Rightarrow> bool" where
  "keepsPhase obj i name ph w w' \<longleftrightarrow> (phaseHeld obj i name ph w \<longrightarrow> phaseHeld obj i name ph w')"

interpretation keeps_phase: effect_order "keepsPhase obj i name ph"
  by unfold_locales (auto simp: keepsPhase_def)

lemma phase_same: "relates sameStore m \<Longrightarrow> relates (keepsPhase obj i name ph) m"
  by (erule relates_mono) (auto simp: sameStore_def keepsPhase_def phaseHeld_def openFor_def)

lemmas phase_basic [relatesI] = phase_same [OF same_tick] phase_same [OF same_callE]

lemma phase_get_record:
  assumes "\<And>r. xr_ID r = i \<Longrightarrow> xr_RecoveryAt r = None \<Longrightarrow> nodePhase r name = Some ph \<Longrightarrow> relates (keepsPhase obj i name ph) (f r)"
  shows "relates (keepsPhase obj i name ph) (bindE (getE w_Record) f)"
  unfolding relates_def
proof (intro allI impI)
  fix w w' r assume run: "bindE (getE w_Record) f w = (w', r)"
  show "keepsPhase obj i name ph w w'"
  proof (cases "phaseHeld obj i name ph w")
    case True
    then have "relates (keepsPhase obj i name ph) (f (w_Record w))" using assms by (simp add: phaseHeld_def openFor_def)
    then show ?thesis using run by (auto simp: bindE_def dest: relatesD)
  qed (simp add: keepsPhase_def)
qed

lemma uncertain_needs_recovery:
  assumes "xr_RecoveryAt r = None" "nodePhase r name = Some ph" "ph \<in> set uncertainPhases"
  shows "executionNeedsRecovery r"
proof -
  obtain n where "findNode name (xr_Nodes r) = Some n" "xn_Phase n = ph" using assms(2) by (auto simp: nodePhase_def)
  moreover have "findNode name ns = Some n \<Longrightarrow> n \<in> set ns" for ns by (induction ns) (auto split: if_splits)
  ultimately show ?thesis using assms by (auto simp: executionNeedsRecovery_def list_ex_iff)
qed

lemma held_journaled:
  assumes "phaseHeld obj i name ph w" "ph \<in> {''applying'', ''operating''}"
  shows "journaledAt obj i (name, w_Store w)"
proof -
  have "ph \<in> set uncertainPhases" using assms(2) by (auto simp: uncertainPhases_def)
  then show ?thesis
    using assms uncertain_needs_recovery unfolding phaseHeld_def journaledAt_def by fastforce
qed

lemma findNode_update:
  assumes "updateNode name f ns = Some ns'" "\<And>n. xn_Name (f n) = xn_Name n"
  shows "map_option f (findNode name ns) = findNode name ns' \<and> findNode name ns \<noteq> None"
  using assms(1)
proof (induction ns arbitrary: ns')
  case (Cons n ns)
  then show ?case using assms(2) by (auto split: if_splits)
qed simp

context journal_store
begin

lemma publish_held:
  assumes "publish E next w = (w', r)" "xr_ID next = i" "xr_RecoveryAt next = None" "nodePhase next name = Some ph"
    and "isOk r \<or> phaseHeld obj i name ph w"
  shows "phaseHeld obj i name ph w'"
  using assms(1)
proof (cases rule: publish_cases)
  case ok
  then show ?thesis using assms(2-4) by (auto simp: phaseHeld_def openFor_def replaced_def)
next
  case (lost e)
  then show ?thesis using assms(2-5) by (auto simp: phaseHeld_def openFor_def replaced_def isOk_def)
next
  case (kept e)
  then show ?thesis using assms(5) by (auto simp: phaseHeld_def openFor_def isOk_def)
qed

lemma phase_publish:
  assumes "xr_ID next = i" "xr_RecoveryAt next = None" "nodePhase next name = Some ph"
  shows "relates (keepsPhase obj i name ph) (publish E next)"
  unfolding relates_def keepsPhase_def using publish_held [OF _ assms] by blast

lemma phase_recordPlugin [relatesI]: "relates (keepsPhase obj i name ph) (recordPlugin E call)"
  unfolding recordPlugin_def Let_def
  by (intro phase_get_record relatesI phase_publish) (simp_all add: nodePhase_def)

lemma phase_pluginHost [relatesI]: "relates (keepsPhase obj i name ph) (pluginHost E)"
  unfolding pluginHost_def by (intro relatesI)

lemma phase_runtimeHook [relatesI]: "relates (keepsPhase obj i name ph) (runtimeHook E)"
  unfolding runtimeHook_def by (intro relatesI)

text \<open>A transition that returns nil has put its phase into the store.\<close>

lemma transition_held:
  assumes run: "transition E name ph code planID w = (w', Inr u)" and opened: "openFor i w"
    and ph: "ph \<notin> {''applied'', ''completed'', ''indeterminate''}"
  shows "phaseHeld obj i name ph w'"
proof -
  obtain w1 prev where lt: "lockedTransition E name ph code planID w = (w1, Inr prev)"
    and w': "w' = w1" using run ph by (auto simp: transition_def bindE_Inr mutationFinished_def)
  obtain nodes where up: "updateNode name (setPhase ph code planID) (xr_Nodes (w_Record w)) = Some nodes"
    using lt by (auto simp: lockedTransition_def bindE_def split: option.splits)
  obtain t w2 w3 u where pub: "publish E (w_Record w\<lparr>xr_Nodes := nodes, xr_UpdatedAt := t\<rparr>) w2 = (w3, Inr u)" "w3 = w1"
    using lt up by (auto simp: lockedTransition_def bindE_Inr thenE_Inr)
  have "nodePhase (w_Record w\<lparr>xr_Nodes := nodes, xr_UpdatedAt := t\<rparr>) name = Some ph"
    using findNode_update [OF up] by (auto simp: nodePhase_def setPhase_def dest: sym)
  then show ?thesis
    using publish_held [OF pub(1)] opened pub(2) w' by (simp add: openFor_def isOk_def)
qed

lemma runtimeMutation_journaled:
  assumes run: "runtimeMutation E name w = (w', r)" and held: "phaseHeld obj i name ph w" and ph: "ph \<in> {''applying'', ''operating''}"
  shows "journaled obj i w w'"
proof -
  obtain w1 r1 where pre: "thenE (callE E) (thenE (runtimeHook E) (callE E)) w = (w1, r1)" by (meson surj_pair)
  have "relates (quiet i) (thenE (callE E) (thenE (runtimeHook E) (callE E)))" by (intro relatesI)
  from relatesD [OF this pre] have q: "quiet i w w1" .
  have "relates (keepsPhase obj i name ph) (thenE (callE E) (thenE (runtimeHook E) (callE E)))" by (intro relatesI)
  from relatesD [OF this pre] have k: "phaseHeld obj i name ph w1" using held by (simp add: keepsPhase_def)
  show ?thesis
  proof (cases r1)
    case (Inl e)
    then have "w' = w1" using run pre
      by (auto simp: runtimeMutation_def thenE_def bindE_def split: prod.splits sum.splits)
    then show ?thesis using q by (auto simp: quiet_def journaled_def)
  next
    case (Inr u)
    then have "callE E (w1\<lparr>w_Mutations := w_Mutations w1 @ [(name, w_Store w1)]\<rparr>) = (w', r)"
      using run pre by (auto simp: runtimeMutation_def startMutation_def thenE_def bindE_def split: prod.splits sum.splits)
    then have "w_Mutations w' = w_Mutations w1 @ [(name, w_Store w1)]" "w_Record w' = w_Record w1"
      by (auto dest!: callE_world)
    moreover have "journaledAt obj i (name, w_Store w1)" by (rule held_journaled [OF k ph])
    ultimately show ?thesis using q by (auto simp: quiet_def journaled_def openFor_def)
  qed
qed

text \<open>The pattern of every mutation: publish the phase, start the runtime, go on with its result.\<close>

lemma journaled_mutation:
  assumes "ph \<in> {''applying'', ''operating''}" "\<And>res. relates (journaled obj i) (k res)"
  shows "relates (journaled obj i) (thenE (transition E name ph code planID) (bindE (tryE (runtimeMutation E name)) k))"
  unfolding relates_def
proof (intro allI impI)
  fix w w' r assume run: "thenE (transition E name ph code planID) (bindE (tryE (runtimeMutation E name)) k) w = (w', r)"
  obtain w1 r1 where tr: "transition E name ph code planID w = (w1, r1)" by (meson surj_pair)
  have q: "journaled obj i w w1" by (rule relatesD [OF journaled_quiet [OF quiet_run.transition] tr])
  show "journaled obj i w w'"
  proof (cases r1)
    case (Inl e)
    then show ?thesis using run tr q by (simp add: thenE_app)
  next
    case (Inr u)
    obtain w2 r2 where rm: "runtimeMutation E name w1 = (w2, r2)" by (meson surj_pair)
    have "k r2 w2 = (w', r)" using run tr Inr rm by (simp add: thenE_app bindE_def tryE_def)
    then have last: "journaled obj i w2 w'" using relatesD [OF assms(2)] by blast
    have "journaled obj i w1 w2" if "openFor i w"
      using runtimeMutation_journaled [OF rm transition_held [OF tr [unfolded Inr] that]] assms(1) by auto
    then show ?thesis using q last journaled.trans by (metis journaled_def)
  qed
qed

end

subsection \<open>Node actions\<close>

interpretation journaled_run: call_order "journaled obj i" E for E
proof unfold_locales
  show "journaled obj i w (w\<lparr>w_Tick := Suc (w_Tick w)\<rparr>)" for w by (simp add: journaled_def openFor_def)
  show "w_Record w' = w_Record w \<Longrightarrow> w_Mutations w' = w_Mutations w \<Longrightarrow> w_Tick w' = w_Tick w \<Longrightarrow> journaled obj i w w'" for w w'
    by (simp add: journaled_def openFor_def)
qed (rule journaled_quiet, rule quiet_recordPlugin quiet_lockedTransition)+

lemmas journaled_calls [relatesI] = quiet_finish [THEN journaled_quiet] quiet_finishSavedSession [THEN journaled_quiet]
  quiet_persistOperationBackup [THEN journaled_quiet] quiet_noteSavedFailure [THEN journaled_quiet]

context journal_store
begin

lemma journaled_applyRecorded [relatesI]:
  assumes "pn_session plan"
  shows "relates (journaled obj i) (applyRecorded E plan)"
  using assms unfolding applyRecorded_def recordPhase_def
  by (simp only: whenE_simps, intro journaled_mutation) (simp, intro relatesI)

lemma journaled_applyPreparedPlan [relatesI]:
  "pn_session plan \<Longrightarrow> relates (journaled obj i) (applyPreparedPlan E plan opts)"
  unfolding applyPreparedPlan_def Let_def by (intro relatesI)

lemma journaled_applyNode [relatesI]: "relates (journaled obj i) (applyNode E opts name applied)"
  unfolding applyNode_def Let_def by (intro relatesI) simp

lemma journaled_destroyRecorded [relatesI]: "relates (journaled obj i) (destroyRecorded E name)"
  unfolding destroyRecorded_def by (intro journaled_mutation) (simp, intro relatesI)

lemma journaled_destroyNode [relatesI]: "relates (journaled obj i) (destroyNode E opts name applied)"
  unfolding destroyNode_def destroyContractPlan_def destroyNative_def by (intro relatesI)

lemma journaled_applySavedNode [relatesI]: "relates (journaled obj i) (applySavedNode E opts node)"
  unfolding applySavedNode_def Let_def by (intro relatesI) simp

lemma journaled_applySavedNodes [relatesI]: "relates (journaled obj i) (applySavedNodes E opts nodes runs)"
proof (induction nodes arbitrary: runs)
  case (Cons node nodes)
  then show ?case unfolding applySavedNodes.simps Let_def by (intro relatesI)
qed (simp only: applySavedNodes.simps, rule journaled.ret)

end

lemma journaled_get_record:
  assumes "\<And>r. xr_ID r = i \<Longrightarrow> xr_RecoveryAt r = None \<Longrightarrow> relates (journaled obj i) (f r)"
  shows "relates (journaled obj i) (bindE (getE w_Record) f)"
  unfolding relates_def
proof (intro allI impI)
  fix w w' r assume run: "bindE (getE w_Record) f w = (w', r)"
  show "journaled obj i w w'"
  proof (cases "openFor i w")
    case True
    then have "relates (journaled obj i) (f (w_Record w))" using assms by (simp add: openFor_def)
    then show ?thesis using run by (auto simp: bindE_def dest: relatesD)
  qed (simp add: journaled_def)
qed

lemmas journaled_publish = quiet_publish [THEN journaled_quiet]

context journal_store
begin

lemma journaled_applySavedBody [relatesI]: "relates (journaled obj i) (applySavedBody E opts)"
  unfolding applySavedBody_def
  by (intro journaled_get_record relatesI journaled_publish) (simp_all add: appliedRecord_def Let_def)

text \<open>A native operation: initialization and reads start nothing, the rest is journaled first.\<close>

lemma journaled_operationBody [relatesI]: "relates (journaled obj i) (operationBody E op name)"
proof -
  define tail where "tail res =
      bindE (if no_backup op then tryE (persistOperationBackup E) else retE (Inr ())) (\<lambda>kept.
      case (kept, res) of
        (Inl e, _) \<Rightarrow> throwE (case joinErr [errOf res, Some e] of Some je \<Rightarrow> je | None \<Rightarrow> e)
      | (Inr _, Inl e) \<Rightarrow> failNode E name (if no_readOnly op then ''failed'' else ''indeterminate'') e
      | (Inr _, Inr _) \<Rightarrow> transition E name ''completed'' '''' '''')" for res :: "goErr + unit"
  have tail: "relates (journaled obj i) (tail res)" for res
    unfolding tail_def by (cases res) (simp_all only: prod.case sum.case, (intro relatesI)+)
  have core: "relates (journaled obj i)
      (thenE (transition E name (operationPhase op) '''' '''') (bindE (tryE (runOperation E op name)) tail))"
  proof (cases "no_init op \<or> no_readOnly op")
    case True
    have "relates (journaled obj i) (runOperation E op name)"
      using True unfolding runOperation_def by (auto intro!: relatesI)
    then show ?thesis by (intro relatesI tail)
  next
    case False
    then show ?thesis
      by (simp only: operationPhase_def runOperation_def if_False de_Morgan_disj simp_thms)
         (intro journaled_mutation tail, simp)
  qed
  show ?thesis
    unfolding operationBody_def tail_def [symmetric]
    by (rule journaled.andthen [OF _ journaled.andthen [OF _ journaled.andthen [OF _ core]]]; intro relatesI)
qed

end

subsection \<open>Whole operations\<close>

text \<open>Every mutation an operation starts is, when it starts, in the journal of the session it leaves.\<close>

definition startsJournaled :: "('st \<Rightarrow> string \<Rightarrow> payload executionObject option) \<Rightarrow> 'st world \<Rightarrow> 'st world \<Rightarrow> bool" where
  "startsJournaled obj w w' \<longleftrightarrow>
     (\<exists>new. w_Mutations w' = w_Mutations w @ new \<and> (\<forall>m \<in> set new. journaledAt obj (xr_ID (w_Record w')) m))"

lemma starts_none: "relates sameMutations m \<Longrightarrow> relates (startsJournaled obj) m"
  by (erule relates_mono) (auto simp: sameMutations_def startsJournaled_def)

lemma starts_opened: "openFor i w \<Longrightarrow> journaled obj i w w' \<Longrightarrow> startsJournaled obj w w'"
  by (auto simp: journaled_def startsJournaled_def openFor_def)

text \<open>Steps before the session start nothing.\<close>

lemma starts_after:
  assumes "relates sameMutations m" "\<And>x. relates (startsJournaled obj) (k x)"
  shows "relates (startsJournaled obj) (bindE m k)"
  unfolding relates_def
proof (intro allI impI)
  fix w w' r assume run: "bindE m k w = (w', r)"
  then show "startsJournaled obj w w'"
  proof (cases rule: bindE_cases)
    case (fail e)
    then show ?thesis using relatesD [OF assms(1)] by (auto simp: sameMutations_def startsJournaled_def)
  next
    case (ok x w1)
    then have "w_Mutations w1 = w_Mutations w" using relatesD [OF assms(1)] by (auto simp: sameMutations_def)
    then show ?thesis using relatesD [OF assms(2) ok(2)] by (simp add: startsJournaled_def)
  qed
qed

lemma starts_then: "relates sameMutations m \<Longrightarrow> relates (startsJournaled obj) k \<Longrightarrow> relates (startsJournaled obj) (thenE m k)"
  by (simp add: thenE_def starts_after)

text \<open>An operation that opens a session returns nil only with a fresh or resumable record.\<close>

definition opensSession :: "('st world, 'a) eff \<Rightarrow> bool" where
  "opensSession m \<longleftrightarrow> relates sameMutations m \<and> (\<forall>w w' x. m w = (w', Inr x) \<longrightarrow> (\<exists>i. openFor i w'))"

named_theorems opensI \<open>operations that open a session\<close>

lemma opens_then [opensI]: "relates sameMutations m \<Longrightarrow> opensSession k \<Longrightarrow> opensSession (thenE m k)"
  unfolding opensSession_def by (auto simp: thenE_Inr intro: same_mutations.andthen)

lemma opens_bind [opensI]: "relates sameMutations m \<Longrightarrow> (\<And>x. opensSession (k x)) \<Longrightarrow> opensSession (bindE m k)"
  unfolding opensSession_def by (fastforce simp: bindE_Inr intro: same_mutations.bind)

lemma opens_ret [opensI]: "opensSession m \<Longrightarrow> opensSession (thenE m (retE x))"
  unfolding opensSession_def
  by (auto simp: thenE_Inr retE_app intro: same_mutations.andthen same_mutations.ret)

lemma opens_throw [opensI]: "opensSession (throwE e)"
  by (auto simp: opensSession_def throwE_def intro: same_mutations.throw [unfolded throwE_def])

lemma opens_if [opensI]: "(b \<Longrightarrow> opensSession m) \<Longrightarrow> (\<not> b \<Longrightarrow> opensSession k) \<Longrightarrow> opensSession (if b then m else k)"
  by simp

lemma opens_option [opensI]:
  "opensSession m \<Longrightarrow> (\<And>x. opensSession (g x)) \<Longrightarrow> opensSession (case s of None \<Rightarrow> m | Some x \<Rightarrow> g x)"
  by (cases s) auto

lemma opens_pair [opensI]: "(\<And>x y. opensSession (g x y)) \<Longrightarrow> opensSession (case p of (x, y) \<Rightarrow> g x y)"
  by (cases p) auto

lemma starts_session:
  assumes "opensSession m" "\<And>i x. relates (journaled obj i) (k x)"
  shows "relates (startsJournaled obj) (bindE m k)"
  unfolding relates_def
proof (intro allI impI)
  fix w w' r assume run: "bindE m k w = (w', r)"
  then show "startsJournaled obj w w'"
  proof (cases rule: bindE_cases)
    case (fail e)
    then show ?thesis using assms(1) by (auto simp: opensSession_def sameMutations_def startsJournaled_def dest: relatesD)
  next
    case (ok x w1)
    then obtain i where "openFor i w1" "w_Mutations w1 = w_Mutations w"
      using assms(1) by (fastforce simp: opensSession_def sameMutations_def dest: relatesD)
    then show ?thesis
      using starts_opened [OF _ relatesD [OF assms(2) ok(2)]] by (simp add: startsJournaled_def)
  qed
qed

lemma starts_try_session:
  assumes "opensSession m" "\<And>i x. relates (journaled obj i) (k x)"
  shows "relates (startsJournaled obj) (bindE (tryE m) (\<lambda>s. case s of Inl e \<Rightarrow> retE (f e) | Inr x \<Rightarrow> k x))"
  unfolding relates_def
proof (intro allI impI)
  fix w w' r assume run: "bindE (tryE m) (\<lambda>s. case s of Inl e \<Rightarrow> retE (f e) | Inr x \<Rightarrow> k x) w = (w', r)"
  obtain w1 s where m: "m w = (w1, s)" by (meson surj_pair)
  show "startsJournaled obj w w'"
  proof (cases s)
    case (Inl e)
    then have "w' = w1" using run m by (simp add: bindE_def tryE_def retE_def)
    then show ?thesis
      using assms(1) m by (auto simp: opensSession_def sameMutations_def startsJournaled_def dest: relatesD)
  next
    case (Inr x)
    then have "bindE m k w = (w', r)" using run m by (simp add: bindE_def tryE_def)
    moreover have "relates (startsJournaled obj) (bindE m k)" using starts_session assms by blast
    ultimately show ?thesis by (blast dest: relatesD)
  qed
qed

lemma opens_modify:
  assumes "xr_RecoveryAt r = None"
  shows "opensSession (openSession r revision)"
  using assms by (auto simp: opensSession_def openSession_def relates_def sameMutations_def openFor_def)

lemma opens_created [opensI]: "xr_RecoveryAt r = None \<Longrightarrow> opensSession (createExecution E r)"
proof -
  assume none: "xr_RecoveryAt r = None"
  have "relates sameMutations (createExecution E r)"
    unfolding createExecution_def startOrFinish_def startPlugins_def openSession_def by (intro relatesI) simp_all
  moreover have "\<exists>i. openFor i w'" if run: "createExecution E r w = (w', Inr x)" for w w' x
  proof -
    obtain w1 revision where "thenE (openSession r revision) (startOrFinish E) w1 = (w', Inr x)"
      using run by (fastforce simp: createExecution_def bindE_def tryE_def split: prod.splits sum.splits)
    then have "startOrFinish E (w1\<lparr>w_Record := r, w_Revision := revision\<rparr>) = (w', Inr x)"
      by (simp add: openSession_def thenE_app)
    moreover have "relates (quiet (xr_ID r)) (startOrFinish E)" unfolding startOrFinish_def by (intro relatesI)
    ultimately show ?thesis using none by (auto simp: quiet_def openFor_def dest!: relatesD)
  qed
  ultimately show ?thesis by (simp add: opensSession_def)
qed

lemma mut_locks [relatesI]:
  "relates sameMutations (lockRun E)" "relates sameMutations (lockGraph E)"
  "relates sameMutations (checkRuntimeFiles E opts)" "relates sameMutations (verifyBackendContext E name)"
  unfolding lockRun_def lockGraph_def checkRuntimeFiles_def verifyBackendContext_def readE_def by (intro relatesI)+

lemma opens_begin [opensI]: "opensSession (beginExecution E oper ns selection readOnly)"
  unfolding beginExecution_def
  by (intro opensI relatesI opens_option) (simp_all add: newRecord_def)

lemma opens_start [opensI]: "opensSession (startExecution E oper opts reverse)"
  unfolding startExecution_def by (intro opensI relatesI)

lemma opens_saved [opensI]: "opensSession (openSavedExecution E ident)"
  unfolding openSavedExecution_def
  by (intro opens_then opens_bind opens_pair opens_if opens_throw relatesI opens_modify) auto

context journal_store
begin

lemma journaled_runSession:
  "relates (journaled obj i) body \<Longrightarrow> relates (journaled obj i) (runSession E body)"
  unfolding runSession_def by (intro relatesI)

lemma starts_operate:
  assumes "\<And>i. relates (journaled obj i) body"
  shows "relates (startsJournaled obj) (operate E oper opts reverse checkFiles body)"
  unfolding operate_def by (intro starts_try_session opensI relatesI journaled_runSession assms)

lemma starts_Apply: "relates (startsJournaled obj) (Apply E order opts)"
  unfolding Apply_def
  by (intro relates_case_sum relates_if starts_operate journaled_run.runLevels relatesI starts_none)

lemma starts_Destroy: "relates (startsJournaled obj) (Destroy E order opts)"
  unfolding Destroy_def
  by (intro relates_case_sum relates_if starts_operate journaled_run.runLevels relatesI starts_none)

lemma starts_ApplySavedPlans: "relates (startsJournaled obj) (ApplySavedPlans E ident opts)"
  unfolding ApplySavedPlans_def
  by (intro relates_if starts_try_session opensI relatesI starts_none)

lemma starts_RunNode: "relates (startsJournaled obj) (RunNode E duration opts name args)"
proof -
  have core: "relates (startsJournaled obj) (thenE (beginExecution E a b c d) (bindE (tryE (operationBody E op name)) k))"
    if "\<And>i res. relates (journaled obj i) (k res)" for a b c d op k
    unfolding thenE_def by (intro starts_session opensI relatesI that)
  show ?thesis
    unfolding RunNode_def
    by (intro starts_after starts_then core relatesI)
qed

end

text \<open>With no store entry to point to, a journaled run is one that starts no mutation.\<close>

lemma starts_nothing: "startsJournaled (\<lambda>_ _. None) w w' \<Longrightarrow> w_Mutations w' = w_Mutations w"
  unfolding startsJournaled_def journaledAt_def by (metis append_Nil2 last_in_set option.distinct(1))

lemma quiet_runSession: "relates (quiet i) body \<Longrightarrow> relates (quiet i) (runSession E body)"
  unfolding runSession_def by (intro relatesI)

lemma planRun_starts_nothing: "relates sameMutations (planRun E order opts inspect allowTextFallback)"
proof -
  let ?none = "\<lambda>_ _. None"
  have body: "relates (quiet i) (runSession E (bindE (runLevels E order opts' False (planNode E opts' inspect allowTextFallback) (retE ()) inspect)
      (\<lambda>(runs, e). bindE (getE w_Reviews) (\<lambda>reviews. retE (f reviews runs, e)))))" for i opts' and f :: "PlanReview smap \<Rightarrow> NodeRun list \<Rightarrow> NodeRun list"
    by (intro quiet_runSession quiet.bind quiet_run.runLevels relatesI)
  have "relates (startsJournaled ?none) (planRun E order opts inspect allowTextFallback)"
    unfolding planRun_def operate_def
    by (intro relates_case_sum starts_then starts_try_session opensI relatesI starts_none journaled_quiet body) simp
  then show ?thesis by (rule relates_mono) (simp add: sameMutations_def starts_nothing)
qed

lemma opens_openSavePlans: "opensSession (openSavePlans E opts continueID)"
  unfolding openSavePlans_def by (intro opens_if opens_bind opens_then opens_ret relatesI opens_start opens_saved)

lemma SavePlans_starts_nothing: "relates sameMutations (SavePlans E opts continueID)"
proof -
  have "relates (startsJournaled (\<lambda>_ _. None)) (SavePlans E opts continueID)"
    unfolding SavePlans_def
    by (intro relates_if starts_none same_mutations.throw starts_session opens_openSavePlans journaled_quiet relatesI)
  then show ?thesis by (rule relates_mono) (simp add: sameMutations_def starts_nothing)
qed

subsection \<open>Every operation\<close>

lemma plans_start_nothing:
  "w_Mutations (fst (planRun E order opts inspect allowTextFallback w)) = w_Mutations w"
  "w_Mutations (fst (SavePlans E opts continueID w)) = w_Mutations w"
  using relates_fst [OF planRun_starts_nothing] relates_fst [OF SavePlans_starts_nothing]
  unfolding sameMutations_def by blast+

text \<open>
  C1: The journal is ahead of the infrastructure. Whatever \<open>Apply\<close>, \<open>Destroy\<close>, \<open>ApplySavedPlans\<close> and
  \<open>RunNode\<close> do and wherever they fail, every mutating runtime they start was in the local store when it
  was started: the record of the same execution named the node in phase \<open>applying\<close> or \<open>operating\<close> and
  therefore needed recovery. \<open>Plan\<close>, \<open>ReviewPlan\<close> and \<open>SavePlans\<close> start no mutating runtime at all.
\<close>

theorem mutations_journaled:
  "startsJournaled localObj w (fst (Apply (localEngine dlen E) order opts w)) \<and>
    startsJournaled localObj w (fst (Destroy (localEngine dlen E) order opts w)) \<and>
    startsJournaled localObj w (fst (ApplySavedPlans (localEngine dlen E) ident opts w)) \<and>
    startsJournaled localObj w (fst (RunNode (localEngine dlen E) duration opts name args w)) \<and>
    w_Mutations (fst (Plan (localEngine dlen E) order opts w)) = w_Mutations w \<and>
    w_Mutations (fst (ReviewPlan (localEngine dlen E) order opts allowTextFallback w)) = w_Mutations w \<and>
    w_Mutations (fst (SavePlans (localEngine dlen E) opts ident w)) = w_Mutations w"
  unfolding Plan_def ReviewPlan_def
  using local_journal.starts_Apply [THEN relates_fst] local_journal.starts_Destroy [THEN relates_fst]
    local_journal.starts_ApplySavedPlans [THEN relates_fst] local_journal.starts_RunNode [THEN relates_fst]
  by (simp add: plans_start_nothing)

definition emptyWorld :: "(payload executionDir) world" where
  "emptyWorld = (sampleWorldOf sampleExecution)\<lparr>w_Store := []\<rparr>"

lemma sample_apply: "map fst (w_Mutations (fst (Apply sampleEngine rev sampleOptions emptyWorld))) = [''network'']"
  by code_simp

theorem mutations_journaled_witness:
  "\<exists>st. w_Mutations (fst (Apply sampleEngine rev sampleOptions emptyWorld)) = [(''network'', st)] \<and>
     journaledAt localObj (xr_ID (w_Record (fst (Apply sampleEngine rev sampleOptions emptyWorld)))) (''network'', st)"
proof -
  have "startsJournaled localObj emptyWorld (fst (Apply sampleEngine rev sampleOptions emptyWorld))"
    using mutations_journaled [of emptyWorld "\<lambda>_. 0" sampleEngine rev sampleOptions] unfolding sampleEngine_local by blast
  moreover have "w_Mutations emptyWorld = []" by (simp add: emptyWorld_def sampleWorldOf_def)
  ultimately have "\<forall>m \<in> set (w_Mutations (fst (Apply sampleEngine rev sampleOptions emptyWorld))).
      journaledAt localObj (xr_ID (w_Record (fst (Apply sampleEngine rev sampleOptions emptyWorld)))) m"
    by (simp add: startsJournaled_def)
  moreover obtain st where "w_Mutations (fst (Apply sampleEngine rev sampleOptions emptyWorld)) = [(''network'', st)]"
    using sample_apply by (auto simp: map_eq_Cons_conv)
  ultimately show ?thesis by simp
qed

end
