(* ===== verification/Mutation_Gate.thy ===== *)
theory Mutation_Gate
  imports Run_Effects
begin

text \<open>
  What has to hold before a runtime that changes infrastructure is started: the approve level permits
  every planned change, and a person or the caller has approved the node.
\<close>

subsection \<open>Calm operations\<close>

text \<open>No mutation is started and the clock does not run backwards.\<close>

definition calm :: "'st world \<Rightarrow> 'st world \<Rightarrow> bool" where
  "calm w w' \<longleftrightarrow> w_Mutations w' = w_Mutations w \<and> w_Tick w \<le> w_Tick w'"

interpretation calm: state_order calm E for E
  by unfold_locales (auto simp: calm_def)

lemma calm_publish [relatesI]: "relates calm (publish E next)"
proof -
  have "relates calm (modifyE (\<lambda>w. w\<lparr>w_Record := next, w_Revision := written\<rparr>))" for written
    by (simp add: relates_def calm_def)
  then show ?thesis
    unfolding publish_def writeRecord_def
    by (intro calm.bind calm.get calm.attempt relates_case_sum calm.throw calm.ret calm.storeWrite)
qed

interpretation calm_run: call_order calm E for E
proof unfold_locales
  show "relates calm (recordPlugin E call)" for call unfolding recordPlugin_def Let_def by (intro relatesI)
  show "relates calm (lockedTransition E name phase code planID)" for name phase code planID
    unfolding lockedTransition_def by (intro relatesI)
qed

subsection \<open>The gate of a prepared plan\<close>

lemma runnerChangeSet_ok:
  assumes "runnerChangeSet E wantOutputs w = (w', Inr x)"
  shows "\<exists>t. w_Tick w \<le> t \<and> t < w_Tick w' \<and> changeSet (en_PlanDoc E t) wantOutputs = Inr x"
proof -
  obtain w1 u where "runtimeCall E w = (w1, Inr u)"
    and doc: "bindE (tick (en_PlanDoc E)) (\<lambda>doc. liftR (changeSet doc wantOutputs)) w1 = (w', Inr x)"
    using assms by (auto simp: runnerChangeSet_def thenE_Inr)
  then have "w_Tick w \<le> w_Tick w1" using relatesD [OF calm_run.runtimeCall] by (auto simp: calm_def)
  moreover from doc have "w_Tick w' = Suc (w_Tick w1)" "changeSet (en_PlanDoc E (w_Tick w1)) wantOutputs = Inr x"
    by (auto simp: bindE_def tick_app liftR_def)
  ultimately show ?thesis by (intro exI [of _ "w_Tick w1"]) simp
qed

lemma confirm_ok:
  assumes "confirm E auto w = (w', Inr u)"
  shows "auto \<or> en_Stdin E \<and> (\<exists>t. w_Tick w \<le> t \<and> t < w_Tick w' \<and> isYes (fst (en_Line E t)))"
proof (cases auto)
  case False
  then obtain w1 where ok: "approve E w = (w1, Inr True)" and w': "w' = w1"
    using assms by (auto simp: confirm_def bindE_Inr guardE_Inr)
  then have stdin: "en_Stdin E" by (auto simp: approve_def throwE_def split: if_splits)
  obtain line failed where "en_Line E (w_Tick w) = (line, failed)" by (meson surj_pair)
  then have "isYes (fst (en_Line E (w_Tick w))) \<and> w_Tick w < w_Tick w1"
    using ok stdin by (auto simp: approve_def bindE_Inr thenE_Inr tick_app throwE_def split: if_splits dest!: callE_world)
  then show ?thesis using stdin w' by auto
qed simp

text \<open>A mutating runtime is started once or not at all.\<close>

definition mutatesOnce :: "string \<Rightarrow> 'st world \<Rightarrow> 'st world \<Rightarrow> bool" where
  "mutatesOnce name w w' \<longleftrightarrow> w_Tick w \<le> w_Tick w' \<and>
     (w_Mutations w' = w_Mutations w \<or> (\<exists>st. w_Mutations w' = w_Mutations w @ [(name, st)]))"

lemma once_after: "calm w w1 \<Longrightarrow> mutatesOnce name w1 w' \<Longrightarrow> mutatesOnce name w w'"
  by (auto simp: calm_def mutatesOnce_def)

lemma once_before: "mutatesOnce name w w1 \<Longrightarrow> calm w1 w' \<Longrightarrow> mutatesOnce name w w'"
  by (auto simp: calm_def mutatesOnce_def)

lemma once_calm: "relates calm m \<Longrightarrow> relates (mutatesOnce name) m"
  by (erule relates_mono) (auto simp: calm_def mutatesOnce_def)

lemma once_then:
  assumes "relates calm m" "\<And>x. relates (mutatesOnce name) (k x)"
  shows "relates (mutatesOnce name) (bindE m k)"
  unfolding relates_def
proof (intro allI impI)
  fix w w' r assume "bindE m k w = (w', r)"
  then show "mutatesOnce name w w'"
  proof (cases rule: bindE_cases)
    case (fail e)
    from relatesD [OF assms(1) fail(1)] show ?thesis by (auto simp: calm_def mutatesOnce_def)
  next
    case (ok x w1)
    from relatesD [OF assms(1) ok(1)] relatesD [OF assms(2) ok(2)] show ?thesis by (rule once_after)
  qed
qed

lemma once_bind_calm:
  assumes "relates (mutatesOnce name) m" "\<And>x. relates calm (k x)"
  shows "relates (mutatesOnce name) (bindE m k)"
  unfolding relates_def
proof (intro allI impI)
  fix w w' r assume "bindE m k w = (w', r)"
  then show "mutatesOnce name w w'"
  proof (cases rule: bindE_cases)
    case (fail e)
    from relatesD [OF assms(1) fail(1)] show ?thesis by (auto simp: calm_def mutatesOnce_def)
  next
    case (ok x w1)
    from relatesD [OF assms(1) ok(1)] relatesD [OF assms(2) ok(2)] show ?thesis by (rule once_before)
  qed
qed

lemma once_runtimeMutation: "relates (mutatesOnce name) (runtimeMutation E name)"
proof -
  have start: "relates (mutatesOnce name) (bindE (startMutation name) (\<lambda>_. callE E))"
    unfolding relates_def startMutation_def by (auto simp: bindE_def mutatesOnce_def dest!: callE_world)
  show ?thesis
    unfolding runtimeMutation_def thenE_def
    by (rule once_then [OF _ once_then [OF _ once_then [OF _ start]]]; intro relatesI)
qed

lemma once_applyRecorded: "relates (mutatesOnce (pn_name plan)) (applyRecorded E plan)"
proof -
  have "relates (mutatesOnce (pn_name plan)) (tryE (runtimeMutation E (pn_name plan)))"
    using once_runtimeMutation [THEN relatesD] by (auto simp: relates_def tryE_def split: prod.splits)
  then show ?thesis
    unfolding applyRecorded_def thenE_def
    by (intro once_then once_bind_calm relatesI)
qed

text \<open>What has been decided when the runtime of a prepared plan is started: the changes of a plan document
  read in this run, all of them permitted, and the approval that followed.\<close>

definition admitted :: "'st engine \<Rightarrow> preparedNodePlan \<Rightarrow> Options \<Rightarrow> nat \<Rightarrow> nat \<Rightarrow> bool" where
  "admitted E plan opts t0 t1 \<longleftrightarrow>
     (\<exists>t changes outs level. t0 \<le> t \<and> t < t1 \<and> changeSet (en_PlanDoc E t) False = Inr (changes, outs) \<and>
        approveFor (en_Graph E) (pn_name plan) (op_Approve opts) = Some level \<and> notPermitted changes level = [] \<and>
        (op_AutoApprove opts \<or> en_Stdin E \<and> (\<exists>t'. t < t' \<and> t' < t1 \<and> isYes (fst (en_Line E t')))))"

definition gated :: "'st engine \<Rightarrow> preparedNodePlan \<Rightarrow> Options \<Rightarrow> 'st world \<Rightarrow> 'st world \<Rightarrow> bool" where
  "gated E plan opts w w' \<longleftrightarrow>
     mutatesOnce (pn_name plan) w w' \<and> (w_Mutations w' \<noteq> w_Mutations w \<longrightarrow> admitted E plan opts (w_Tick w) (w_Tick w'))"

lemma gated_calm: "calm w w' \<Longrightarrow> gated E plan opts w w'"
  by (auto simp: gated_def calm_def mutatesOnce_def)

text \<open>A run of a prepared plan is calm, or it passes the gate and the approval and goes on to the runtime.\<close>

lemma applyPreparedPlan_cases:
  assumes run: "applyPreparedPlan E plan opts w = (w', r)"
  obtains (stopped) "calm w w'"
  | (passed) w1 w2 w3 changes outs level planned u where "calm w w1"
      "runnerChangeSet E False w1 = (w2, Inr (changes, outs))"
      "approveFor (en_Graph E) (pn_name plan) (op_Approve opts) = Some level" "notPermitted changes level = []"
      "confirm E (op_AutoApprove opts) w2 = (w3, Inr u)"
      "thenE (pluginPlan E ''node.mutation.admit'')
         (thenE (applyRecorded E plan) (publishOutputs E plan planned StatusApplied)) w3 = (w', r)"
proof -
  obtain w1 ri where ins: "inspectContractPlan E (pn_name plan) True w = (w1, ri)" by (meson surj_pair)
  obtain w2 rc where cs: "runnerChangeSet E False w1 = (w2, rc)" by (meson surj_pair)
  obtain w3 rf where cf: "confirm E (op_AutoApprove opts) w2 = (w3, rf)" by (meson surj_pair)
  have calms: "calm w w1" "calm w w2" "calm w w3"
    using relatesD [OF calm_run.inspectContractPlan ins] relatesD [OF calm_run.runner(4) cs] relatesD [OF calm_run.confirm cf]
      calm.trans by blast+
  have kept: "calm w w'" if "publishOutputs E plan planned StatusUnchanged w1 = (w', r)" for planned
    using relatesD [OF calm_run.publishOutputs that] calms(1) calm.trans by blast
  show ?thesis
  proof (cases ri)
    case (Inl e)
    then show ?thesis using run ins calms(1) stopped by (simp add: applyPreparedPlan_def bindE_def)
  next
    case (Inr x)
    then obtain planned checks err where ri: "ri = Inr (planned, checks, err)" by (cases x) auto
    show ?thesis
      using run calms kept [of planned] stopped
        passed [of w1 w2 "fst (projr rc)" "snd (projr rc)" _ w3 "projr rf" planned] cs cf
      by (simp add: applyPreparedPlan_def bindE_def thenE_def [of "confirm _ _"] ins ri throwE_def Let_def
          split: sum.splits option.splits if_splits prod.splits)
  qed
qed

lemma applyPreparedPlan_gated:
  assumes "applyPreparedPlan E plan opts w = (w', r)"
  shows "gated E plan opts w w'"
  using assms
proof (cases rule: applyPreparedPlan_cases)
  case stopped
  then show ?thesis by (rule gated_calm)
next
  case (passed w1 w2 w3 changes outs level planned u)
  have "relates (mutatesOnce (pn_name plan)) (thenE (pluginPlan E ''node.mutation.admit'')
      (thenE (applyRecorded E plan) (publishOutputs E plan planned StatusApplied)))"
    unfolding thenE_def by (intro once_then once_bind_calm once_applyRecorded relatesI)
  from relatesD [OF this passed(6)] have m: "mutatesOnce (pn_name plan) w3 w'" .
  have c: "calm w w1" "calm w1 w2" "calm w2 w3"
    using passed(1) relatesD [OF calm_run.runner(4) passed(2)] relatesD [OF calm_run.confirm passed(5)] by blast+
  from runnerChangeSet_ok [OF passed(2)] obtain t where t: "w_Tick w1 \<le> t" "t < w_Tick w2"
    "changeSet (en_PlanDoc E t) False = Inr (changes, outs)" by blast
  have "op_AutoApprove opts \<or> en_Stdin E \<and> (\<exists>t'. t < t' \<and> t' < w_Tick w' \<and> isYes (fst (en_Line E t')))"
    using confirm_ok [OF passed(5)] t(2) m unfolding mutatesOnce_def by (meson order_less_le_trans)
  then have "admitted E plan opts (w_Tick w) (w_Tick w')"
    using t passed(3,4) c m unfolding admitted_def calm_def mutatesOnce_def by (meson order_less_le_trans order_trans)
  then show ?thesis using c m calm.trans once_after by (simp add: gated_def) blast
qed

text \<open>
  C2: Nothing is applied before the gate and the approval. Applying a prepared plan starts at most one
  mutating runtime, for the plan's node; when it starts one, a plan document read earlier in the same run
  lists only changes the node's approve level permits, and either the run is auto-approved or, after that
  document was read, a line that says yes was read from the operator.
\<close>

theorem mutation_needs_gate:
  assumes "applyPreparedPlan E plan opts w = (w', r)"
  shows "w_Mutations w' = w_Mutations w \<or>
    (\<exists>st t changes outs level. w_Mutations w' = w_Mutations w @ [(pn_name plan, st)] \<and>
       w_Tick w \<le> t \<and> t < w_Tick w' \<and> changeSet (en_PlanDoc E t) False = Inr (changes, outs) \<and>
       approveFor (en_Graph E) (pn_name plan) (op_Approve opts) = Some level \<and> notPermitted changes level = [] \<and>
       (op_AutoApprove opts \<or> en_Stdin E \<and> (\<exists>t'. t < t' \<and> t' < w_Tick w' \<and> isYes (fst (en_Line E t')))))"
  using applyPreparedPlan_gated [OF assms] unfolding gated_def mutatesOnce_def admitted_def by blast

definition networkExecution :: ExecutionRecord where
  "networkExecution = sampleExecution\<lparr>xr_Nodes := [\<lparr>xn_Name = ''network'', xn_Review = None, xn_Target = ''t'',
     xn_Phase = ''preparing'', xn_PlanID = '''', xn_Code = ''''\<rparr>]\<rparr>"

definition networkPlan :: preparedNodePlan where
  "networkPlan = \<lparr>pn_name = ''network'', pn_changed = True, pn_session = True, pn_binding = '''', pn_verifyUnchanged = False\<rparr>"

definition askedOptions :: Options where
  "askedOptions = sampleOptions\<lparr>op_AutoApprove := False, op_Parallelism := 1\<rparr>"

lemma sample_asked:
  "map fst (w_Mutations (fst (applyPreparedPlan sampleEngine networkPlan askedOptions (sampleWorldOf networkExecution)))) = [''network'']"
  by code_simp

theorem mutation_needs_gate_witness:
  "(\<exists>t. isYes (fst (en_Line sampleEngine t))) \<and>
   (\<exists>t changes outs. changeSet (en_PlanDoc sampleEngine t) False = Inr (changes, outs) \<and> notPermitted changes ApproveSafe = [])"
proof -
  let ?run = "applyPreparedPlan sampleEngine networkPlan askedOptions (sampleWorldOf networkExecution)"
  have "w_Mutations (fst ?run) \<noteq> w_Mutations (sampleWorldOf networkExecution)"
    using sample_asked by (auto simp: sampleWorldOf_def)
  moreover have "approveFor (en_Graph sampleEngine) (pn_name networkPlan) (op_Approve askedOptions) = Some ApproveSafe"
    by code_simp
  moreover have "\<not> op_AutoApprove askedOptions" by (simp add: askedOptions_def)
  ultimately show ?thesis
    using mutation_needs_gate [of sampleEngine networkPlan askedOptions "sampleWorldOf networkExecution" "fst ?run" "snd ?run"]
    by auto
qed

end
