(* ===== verification/S3_Service.thy ===== *)
theory S3_Service
  imports Exec_Store
begin

text \<open>
  The object storage service and the execution store over it
  (\<open>internal/engine/execution_store_s3.go\<close>).  The service is a parameter: a record of the calls the code
  makes (\<open>s3API\<close>), with the documented behaviour of conditional requests as the named hypothesis
  \<open>s3Laws\<close>.  \<open>view\<close> is what the bucket holds and \<open>etag\<close> the tag of the object a call stores.  Under these
  laws the store meets the contract of \<open>execution_store\<close>, so everything proved of the journal over that
  contract holds for both stores.  \<open>memoryS3\<close> is a bucket with these laws.
\<close>

subsection \<open>The service\<close>

text \<open>An API error carries its code and HTTP status; either can be absent.\<close>

datatype s3Err = S3Error string nat

datatype s3Cond = IfNoneMatch | IfMatch string

record ('b, 'd) s3API =
  s3_put :: "ioFault \<Rightarrow> 'b \<Rightarrow> string \<Rightarrow> 'd \<Rightarrow> s3Cond \<Rightarrow> 'b \<times> (s3Err + string)"
  s3_get :: "ioFault \<Rightarrow> 'b \<Rightarrow> string \<Rightarrow> s3Err + string \<times> 'd"
  s3_delete :: "ioFault \<Rightarrow> 'b \<Rightarrow> string \<Rightarrow> string option \<Rightarrow> 'b \<times> (s3Err + unit)"
  s3_list :: "ioFault \<Rightarrow> 'b \<Rightarrow> string \<Rightarrow> (s3Err + string list) list"

fun isPreconditionFailed :: "s3Err \<Rightarrow> bool" where
  "isPreconditionFailed (S3Error code status) \<longleftrightarrow> code = ''PreconditionFailed'' \<or> status = 412"

fun isConflict :: "s3Err \<Rightarrow> bool" where
  "isConflict (S3Error code status) \<longleftrightarrow> code = ''ConditionalRequestConflict'' \<or> status = 409"

fun isMissing :: "s3Err \<Rightarrow> bool" where
  "isMissing (S3Error code status) \<longleftrightarrow> code = ''NoSuchKey'' \<or> code = ''NotFound''"

fun condHolds :: "(string \<times> 'd) option \<Rightarrow> s3Cond \<Rightarrow> bool" where
  "condHolds stored IfNoneMatch \<longleftrightarrow> stored = None"
| "condHolds stored (IfMatch tag) \<longleftrightarrow> map_option fst stored = Some tag"

fun mayDelete :: "(string \<times> 'd) option \<Rightarrow> string option \<Rightarrow> bool" where
  "mayDelete stored None \<longleftrightarrow> True"
| "mayDelete stored (Some tag) \<longleftrightarrow> map_option fst stored = Some tag"

text \<open>
  Documented behaviour.  A successful conditional write or delete found its condition true; a failure
  reported as a failed condition changed nothing; any other failure changed nothing or did what was asked
  (a lost response).  Responses may omit the tag.  A complete listing names the stored keys.
\<close>

definition s3Laws :: "('b, 'd) s3API \<Rightarrow> ('b \<Rightarrow> string \<Rightarrow> (string \<times> 'd) option) \<Rightarrow> (ioFault \<Rightarrow> string) \<Rightarrow> bool" where
  "s3Laws api view etag \<longleftrightarrow>
     (\<forall>io. etag io \<noteq> '''') \<and>
     (\<forall>io b k d c b' tag. s3_put api io b k d c = (b', Inr tag) \<longrightarrow>
        condHolds (view b k) c \<and> view b' = (view b)(k \<mapsto> (etag io, d)) \<and> (tag = etag io \<or> tag = '''')) \<and>
     (\<forall>io b k d c b' e. s3_put api io b k d c = (b', Inl e) \<longrightarrow>
        view b' = view b \<or>
        (\<not> isPreconditionFailed e \<and> \<not> isConflict e \<and> condHolds (view b k) c \<and> view b' = (view b)(k \<mapsto> (etag io, d)))) \<and>
     (\<forall>io b k tag d. s3_get api io b k = Inr (tag, d) \<longrightarrow> (\<exists>t. view b k = Some (t, d) \<and> (tag = t \<or> tag = ''''))) \<and>
     (\<forall>io b k e. s3_get api io b k = Inl e \<and> isMissing e \<longrightarrow> view b k = None) \<and>
     (\<forall>io b k m b' u. s3_delete api io b k m = (b', Inr u) \<longrightarrow> mayDelete (view b k) m \<and> view b' = (view b)(k := None)) \<and>
     (\<forall>io b k m b' e. s3_delete api io b k m = (b', Inl e) \<longrightarrow>
        view b' = view b \<or> (\<not> isPreconditionFailed e \<and> mayDelete (view b k) m \<and> view b' = (view b)(k := None))) \<and>
     (\<forall>io b prefix. list_all isOk (s3_list api io b prefix) \<longrightarrow>
        (\<forall>k. (\<exists>page. Inr page \<in> set (s3_list api io b prefix) \<and> k \<in> set page) \<longleftrightarrow> HasPrefix k prefix \<and> view b k \<noteq> None))"

subsection \<open>The store\<close>

fun executionS3Error :: "s3Err \<Rightarrow> goErr" where
  "executionS3Error (S3Error code status) =
     (if code = ''NoSuchKey'' \<or> code = ''NotFound'' then ErrExecutionMissing
      else if code = ''PreconditionFailed'' \<or> code = ''ConditionalRequestConflict'' then ErrExecutionConflict
      else ErrText code)"

text \<open>Opening gives the prefix of the store's keys; \<open>loadErr\<close> is the failure of loading credentials, if any.\<close>

definition openS3ExecutionStore :: "string option \<Rightarrow> string \<Rightarrow> string \<Rightarrow> string \<Rightarrow> goErr + string" where
  "openS3ExecutionStore loadErr bucket prefix region =
     (let trimmed = rev (dropWhile (\<lambda>c. c = CHR ''/'') (rev (dropWhile (\<lambda>c. c = CHR ''/'') prefix))) in
      if bucket = '''' \<or> region = '''' \<or> trimmed = '''' then Inl (ErrText ''execution storage needs bucket, prefix and region'')
      else case loadErr of
        Some e \<Rightarrow> Inl (ErrText (''loading execution storage credentials: '' @ e))
      | None \<Rightarrow> Inr (trimmed @ ''/''))"

definition s3Read :: "('b, 'd content) s3API \<Rightarrow> string \<Rightarrow> ioFault \<Rightarrow> 'b \<Rightarrow> string \<Rightarrow> goErr + 'd executionObject" where
  "s3Read api prefix io b key =
     bindR (checkExecutionKey key) (\<lambda>_.
       case s3_get api io b (prefix @ key) of
         Inl e \<Rightarrow> Inl (executionS3Error e)
       | Inr (tag, c) \<Rightarrow>
           if io_readAll io then Inl (ErrText ''read'')
           else bindR (decodeObject c) (\<lambda>obj.
             if tag = '''' then Inl (ErrText ''object has no revision'') else Inr (obj\<lparr>eo_Revision := tag\<rparr>)))"

definition s3Write ::
  "('b, 'd content) s3API \<Rightarrow> ('d \<Rightarrow> nat) \<Rightarrow> string \<Rightarrow> ioFault \<Rightarrow> 'b \<Rightarrow> string \<Rightarrow> 'd \<Rightarrow> string \<Rightarrow> 'b \<times> (goErr + string)" where
  "s3Write api dlen prefix io b key data revision =
     (case checkExecutionKey key of
        Inl e \<Rightarrow> (b, Inl e)
      | Inr _ \<Rightarrow>
          let obj = \<lparr>eo_Revision = newExecutionID ''rev'' (io_random io), eo_Data = data\<rparr>;
              n = encodedLen dlen obj in
          if n > executionObjectLimit then (b, Inl (ErrText ''object exceeds size limit''))
          else (case s3_put api io b (prefix @ key) (Encoded obj n) (if revision = '''' then IfNoneMatch else IfMatch revision) of
                  (b', Inl e) \<Rightarrow> (b', Inl (executionS3Error e))
                | (b', Inr tag) \<Rightarrow>
                    if tag = '''' then (b', Inl (ErrText ''execution storage returned no revision'')) else (b', Inr tag)))"

definition s3Remove :: "('b, 'd content) s3API \<Rightarrow> string \<Rightarrow> ioFault \<Rightarrow> 'b \<Rightarrow> string \<Rightarrow> string \<Rightarrow> 'b \<times> (goErr + unit)" where
  "s3Remove api prefix io b key revision =
     (case checkExecutionKey key of
        Inl e \<Rightarrow> (b, Inl e)
      | Inr _ \<Rightarrow>
          if revision = '''' then (b, Inl ErrExecutionConflict)
          else (case s3_delete api io b (prefix @ key) (Some revision) of
                  (b', Inl e) \<Rightarrow> (b', Inl (executionS3Error e))
                | (b', Inr _) \<Rightarrow> (b', Inr ())))"

fun collectPages :: "string \<Rightarrow> (s3Err + string list) list \<Rightarrow> string list \<Rightarrow> goErr + string list" where
  "collectPages prefix [] keys = Inr (sort keys)"
| "collectPages prefix (Inl e # pages) keys = Inl (executionS3Error e)"
| "collectPages prefix (Inr page # pages) keys =
     collectPages prefix pages (keys @ filter executionKeyPattern (map (\<lambda>k. TrimPrefix k prefix) page))"

definition s3List :: "('b, 'd content) s3API \<Rightarrow> string \<Rightarrow> ioFault \<Rightarrow> 'b \<Rightarrow> goErr + string list" where
  "s3List api prefix io b = collectPages prefix (s3_list api io b prefix) []"

definition s3Store :: "('b, 'd content) s3API \<Rightarrow> ('d \<Rightarrow> nat) \<Rightarrow> string \<Rightarrow> ('b, 'd) executionStore" where
  "s3Store api dlen prefix = \<lparr>es_read = s3Read api prefix, es_write = s3Write api dlen prefix,
     es_remove = s3Remove api prefix, es_list = s3List api prefix\<rparr>"

subsection \<open>The store meets the contract\<close>

text \<open>What is stored under a key: the object's data under the service's tag.  Bytes that do not decode
  stand for \<open>junk\<close>; they are never read.\<close>

fun storedData :: "'d \<Rightarrow> 'd content \<Rightarrow> 'd" where
  "storedData junk (Encoded obj n) = eo_Data obj"
| "storedData junk (Garbage n) = junk"

definition s3Obj :: "('b \<Rightarrow> string \<Rightarrow> (string \<times> 'd content) option) \<Rightarrow> 'd \<Rightarrow> string \<Rightarrow> 'b \<Rightarrow> string \<Rightarrow> 'd executionObject option" where
  "s3Obj view junk prefix b key =
     (if executionKeyPattern key
      then map_option (\<lambda>(tag, c). \<lparr>eo_Revision = tag, eo_Data = storedData junk c\<rparr>) (view b (prefix @ key)) else None)"

definition s3Names :: "('b \<Rightarrow> string \<Rightarrow> (string \<times> 'd content) option) \<Rightarrow> string \<Rightarrow> 'b \<Rightarrow> string set" where
  "s3Names view prefix b = {key. executionKeyPattern key \<and> view b (prefix @ key) \<noteq> None}"

lemma checkExecutionKey_Inr [simp]: "checkExecutionKey key = Inr u \<longleftrightarrow> executionKeyPattern key"
  by (simp add: checkExecutionKey_def require_def)

lemma s3Obj_put:
  assumes "view b' = (view b)(prefix @ key \<mapsto> (tag, Encoded \<lparr>eo_Revision = r, eo_Data = data\<rparr> n))" "executionKeyPattern key"
  shows "replaced (s3Obj view junk prefix) (s3Names view prefix) key data tag b b'"
  using assms by (auto simp: replaced_def s3Obj_def s3Names_def fun_eq_iff)

lemma s3Obj_delete:
  assumes "view b' = (view b)(prefix @ key := None)"
  shows "s3Obj view junk prefix b' = (s3Obj view junk prefix b)(key := None)"
    and "s3Names view prefix b' = s3Names view prefix b - {key}"
  using assms by (auto simp: s3Obj_def s3Names_def fun_eq_iff)

lemma s3Obj_same:
  assumes "view b' = view b"
  shows "s3Obj view junk prefix b' = s3Obj view junk prefix b" "s3Names view prefix b' = s3Names view prefix b"
  using assms by (auto simp: s3Obj_def s3Names_def fun_eq_iff)

lemma s3_cas:
  assumes "condHolds (view b (prefix @ key)) (if revision = '''' then IfNoneMatch else IfMatch revision)" "executionKeyPattern key"
  shows "cas (s3Obj view junk prefix) (s3Names view prefix) b key revision"
  using assms by (auto simp: cas_def s3Obj_def s3Names_def split: if_splits)
text \<open>The laws, one by one.\<close>

lemma s3Laws_D:
  assumes "s3Laws api view etag"
  shows s3_etag: "etag io \<noteq> ''''"
    and s3_put_ok: "s3_put api io b k d c = (b', Inr tag) \<Longrightarrow>
      condHolds (view b k) c \<and> view b' = (view b)(k \<mapsto> (etag io, d)) \<and> (tag = etag io \<or> tag = '''')"
    and s3_put_err: "s3_put api io b k d c = (b', Inl e) \<Longrightarrow> view b' = view b \<or>
      (\<not> isPreconditionFailed e \<and> \<not> isConflict e \<and> condHolds (view b k) c \<and> view b' = (view b)(k \<mapsto> (etag io, d)))"
    and s3_get_ok: "s3_get api io b k = Inr (tag, d) \<Longrightarrow> \<exists>t. view b k = Some (t, d) \<and> (tag = t \<or> tag = '''')"
    and s3_get_missing: "s3_get api io b k = Inl e \<Longrightarrow> isMissing e \<Longrightarrow> view b k = None"
    and s3_delete_ok: "s3_delete api io b k m = (b', Inr u) \<Longrightarrow> mayDelete (view b k) m \<and> view b' = (view b)(k := None)"
    and s3_delete_err: "s3_delete api io b k m = (b', Inl e) \<Longrightarrow> view b' = view b \<or>
      (\<not> isPreconditionFailed e \<and> mayDelete (view b k) m \<and> view b' = (view b)(k := None))"
    and s3_list_ok: "list_all isOk (s3_list api io b prefix) \<Longrightarrow>
      (\<exists>page. Inr page \<in> set (s3_list api io b prefix) \<and> k \<in> set page) \<longleftrightarrow> HasPrefix k prefix \<and> view b k \<noteq> None"
  using assms by (simp add: s3Laws_def; fail | (unfold s3Laws_def, elim conjE, meson))+

lemma s3Error_conflict: "executionS3Error e = ErrExecutionConflict \<Longrightarrow> isPreconditionFailed e \<or> isConflict e"
  by (cases e) (auto split: if_splits)

lemma s3Error_missing: "executionS3Error e = ErrExecutionMissing \<Longrightarrow> isMissing e"
  by (cases e) (auto split: if_splits)

lemma collectPages_Inr:
  assumes "collectPages prefix pages keys = Inr ks"
  shows "list_all isOk pages \<and>
    set ks = set keys \<union> {k. executionKeyPattern k \<and> (\<exists>page full. Inr page \<in> set pages \<and> full \<in> set page \<and> k = TrimPrefix full prefix)}"
  using assms by (induction prefix pages keys rule: collectPages.induct) auto

lemma s3List_names:
  assumes "s3Laws api view etag" "s3List api prefix io b = Inr keys"
  shows "set keys = s3Names view prefix b"
proof -
  note pages = collectPages_Inr [OF assms(2) [unfolded s3List_def]]
  then have "list_all isOk (s3_list api io b prefix)" by blast
  note listed = s3_list_ok [OF assms(1) this]
  have "k \<in> set keys \<longleftrightarrow> executionKeyPattern k \<and> (\<exists>full. HasPrefix full prefix \<and> view b full \<noteq> None \<and> k = TrimPrefix full prefix)" for k
    unfolding conjunct2 [OF pages] using listed by simp metis
  moreover have "(\<exists>full. HasPrefix full prefix \<and> view b full \<noteq> None \<and> k = TrimPrefix full prefix) \<longleftrightarrow> view b (prefix @ k) \<noteq> None" for k
    by (auto simp: HasPrefix_iff TrimPrefix_def) (metis append_eq_conv_conj)
  ultimately show ?thesis by (auto simp: s3Names_def)
qed

lemma s3Read_cases:
  assumes "s3Laws api view etag"
  shows "s3Read api prefix io b key = Inr ob \<Longrightarrow> s3Obj view junk prefix b key = Some ob"
    and "s3Read api prefix io b key = Inl ErrExecutionMissing \<Longrightarrow> view b (prefix @ key) = None"
proof -
  assume "s3Read api prefix io b key = Inr ob"
  then obtain tag c obj where "executionKeyPattern key" "s3_get api io b (prefix @ key) = Inr (tag, c)" "tag \<noteq> ''''"
    "decodeObject c = Inr obj" "ob = obj\<lparr>eo_Revision := tag\<rparr>"
    by (auto simp: s3Read_def bindR.simps split: sum.splits if_splits)
  then show "s3Obj view junk prefix b key = Some ob"
    using s3_get_ok [OF assms] by (cases c) (fastforce simp: s3Obj_def decodeObject_def split: if_splits)+
next
  assume "s3Read api prefix io b key = Inl ErrExecutionMissing"
  then obtain e where "s3_get api io b (prefix @ key) = Inl e" "executionS3Error e = ErrExecutionMissing"
    by (auto simp: s3Read_def bindR.simps checkExecutionKey_def require_def decodeObject_def split: sum.splits if_splits content.splits)
  then show "view b (prefix @ key) = None" using s3_get_missing [OF assms] s3Error_missing by blast
qed

lemma s3Write_ok:
  assumes "s3Laws api view etag" "s3Write api dlen prefix io b key data revision = (b', Inr r)"
  shows "cas (s3Obj view junk prefix) (s3Names view prefix) b key revision \<and> r = etag io \<and>
    replaced (s3Obj view junk prefix) (s3Names view prefix) key data r b b'"
proof -
  define obj where "obj = \<lparr>eo_Revision = newExecutionID ''rev'' (io_random io), eo_Data = data\<rparr>"
  have key: "executionKeyPattern key" and nonempty: "r \<noteq> ''''"
    and put: "s3_put api io b (prefix @ key) (Encoded obj (encodedLen dlen obj)) (if revision = '''' then IfNoneMatch else IfMatch revision) = (b', Inr r)"
    using assms(2) unfolding s3Write_def obj_def [symmetric] by (auto simp: Let_def split: sum.splits if_splits prod.splits)
  from s3_put_ok [OF assms(1) put] nonempty show ?thesis
    using s3_cas [OF _ key] s3Obj_put [OF _ key] unfolding obj_def by auto
qed

lemma s3Write_err:
  assumes "s3Laws api view etag" "s3Write api dlen prefix io b key data revision = (b', Inl e)"
  shows "(s3Obj view junk prefix b' = s3Obj view junk prefix b \<and> s3Names view prefix b' = s3Names view prefix b) \<or>
    (e \<noteq> ErrExecutionConflict \<and> cas (s3Obj view junk prefix) (s3Names view prefix) b key revision \<and>
     replaced (s3Obj view junk prefix) (s3Names view prefix) key data (etag io) b b')"
proof -
  define obj where "obj = \<lparr>eo_Revision = newExecutionID ''rev'' (io_random io), eo_Data = data\<rparr>"
  let ?put = "s3_put api io b (prefix @ key) (Encoded obj (encodedLen dlen obj)) (if revision = '''' then IfNoneMatch else IfMatch revision)"
  consider "b' = b" | (failed) x where "executionKeyPattern key" "?put = (b', Inl x)" "e = executionS3Error x"
    | (untagged) "executionKeyPattern key" "?put = (b', Inr '''')" "e = ErrText ''execution storage returned no revision''"
    using assms(2) unfolding s3Write_def obj_def [symmetric] by (auto simp: Let_def split: sum.splits if_splits prod.splits)
  then show ?thesis
  proof cases
    case failed
    from s3_put_err [OF assms(1) failed(2)] show ?thesis
    proof
      assume "view b' = view b"
      then show ?thesis by (intro disjI1 conjI s3Obj_same)
    next
      assume stored: "\<not> isPreconditionFailed x \<and> \<not> isConflict x \<and>
        condHolds (view b (prefix @ key)) (if revision = '''' then IfNoneMatch else IfMatch revision) \<and>
        view b' = (view b)(prefix @ key \<mapsto> (etag io, Encoded obj (encodedLen dlen obj)))"
      then have "e \<noteq> ErrExecutionConflict" using s3Error_conflict [of x] failed(3) by metis
      with stored show ?thesis
        unfolding obj_def by (intro disjI2 conjI s3_cas [OF _ failed(1)] s3Obj_put [OF _ failed(1)]; elim conjE)
    qed
  next
    case untagged
    from s3_put_ok [OF assms(1) untagged(2)] show ?thesis
      unfolding obj_def untagged(3) by (intro disjI2 conjI s3_cas [OF _ untagged(1)] s3Obj_put [OF _ untagged(1)]; elim conjE) simp_all
  qed simp
qed

lemma s3Remove_cases:
  assumes "s3Laws api view etag" "s3Remove api prefix io b key revision = (b', r)"
  shows "(s3Obj view junk prefix b' = s3Obj view junk prefix b \<and> s3Names view prefix b' = s3Names view prefix b \<and> \<not> isOk r) \<or>
    ((\<exists>old. s3Obj view junk prefix b key = Some old \<and> eo_Revision old = revision) \<and>
     s3Obj view junk prefix b' = (s3Obj view junk prefix b)(key := None) \<and> s3Names view prefix b' = s3Names view prefix b - {key})"
proof -
  have "(b' = b \<and> \<not> isOk r) \<or> (executionKeyPattern key \<and> (\<exists>x. s3_delete api io b (prefix @ key) (Some revision) = (b', x) \<and> isOk x = isOk r))"
    using assms(2) by (auto simp: s3Remove_def checkExecutionKey_def require_def split: sum.splits if_splits prod.splits)
  then show ?thesis
  proof (elim disjE conjE exE)
    fix x assume key: "executionKeyPattern key" and del: "s3_delete api io b (prefix @ key) (Some revision) = (b', x)" and "isOk x = isOk r"
    moreover have "(view b' = view b \<and> \<not> isOk x) \<or> (mayDelete (view b (prefix @ key)) (Some revision) \<and> view b' = (view b)(prefix @ key := None))"
    proof (cases x)
      case (Inl e)
      show ?thesis using s3_delete_err [OF assms(1) del [unfolded Inl]] Inl by auto
    next
      case (Inr u)
      show ?thesis using s3_delete_ok [OF assms(1) del [unfolded Inr]] by simp
    qed
    ultimately show ?thesis
    proof (elim disjE conjE)
      assume found: "mayDelete (view b (prefix @ key)) (Some revision)" and "view b' = (view b)(prefix @ key := None)"
      note deleted = s3Obj_delete [OF this(2)]
      have "\<exists>old. s3Obj view junk prefix b key = Some old \<and> eo_Revision old = revision"
        using found key by (auto simp: s3Obj_def)
      with deleted show ?thesis by blast
    next
      assume "view b' = view b" "\<not> isOk x" "isOk x = isOk r"
      then show ?thesis by (intro disjI1 conjI s3Obj_same) simp_all
    qed
  qed simp
qed

lemma s3_store_contract:
  assumes "s3Laws api view etag"
  shows "execution_store (s3Store api dlen prefix) (s3Obj view junk prefix) (s3Names view prefix) etag"
proof (unfold_locales, goal_cases)
  case (1 io st key ob)
  then show ?case using s3Read_cases(1) [OF assms] by (simp add: s3Store_def)
next
  case (2 io st key)
  then show ?case using s3Read_cases(2) [OF assms] by (simp add: s3Store_def s3Names_def)
next
  case (3 st key ob)
  then show ?case by (auto simp: s3Obj_def s3Names_def split: if_splits)
next
  case (4 io)
  then show ?case using s3_etag [OF assms] .
next
  case (5 io st key data revision st' r)
  then show ?case using s3Write_ok [OF assms] by (simp add: s3Store_def)
next
  case (6 io st key data revision st' e)
  then show ?case using s3Write_err [OF assms] by (simp add: s3Store_def)
next
  case (7 io st key revision st' u)
  then show ?case using s3Remove_cases [OF assms, of prefix io st key revision st' "Inr u"] by (auto simp: s3Store_def)
next
  case (8 io st key revision st' e)
  then show ?case using s3Remove_cases [OF assms, of prefix io st key revision st' "Inl e"] by (auto simp: s3Store_def)
next
  case (9 io st keys)
  then show ?case using s3List_names [OF assms] by (simp add: s3Store_def)
qed
subsection \<open>A bucket with these laws\<close>

definition memoryTag :: "ioFault \<Rightarrow> string" where
  "memoryTag io = ''etag-'' @ io_random io"

definition memoryS3 :: "((string \<times> string \<times> 'd) list, 'd) s3API" where
  "memoryS3 = \<lparr>
     s3_put = (\<lambda>io b k d c.
       if condHolds (map_of b k) c then (AList.update k (memoryTag io, d) b, Inr (memoryTag io))
       else (b, Inl (S3Error ''PreconditionFailed'' 412))),
     s3_get = (\<lambda>io b k. case map_of b k of None \<Rightarrow> Inl (S3Error ''NoSuchKey'' 404) | Some (tag, d) \<Rightarrow> Inr (tag, d)),
     s3_delete = (\<lambda>io b k m.
       if mayDelete (map_of b k) m then (AList.delete k b, Inr ()) else (b, Inl (S3Error ''PreconditionFailed'' 412))),
     s3_list = (\<lambda>io b prefix. [Inr (filter (\<lambda>k. HasPrefix k prefix) (map fst b))])\<rparr>"

lemma memoryS3_laws: "s3Laws memoryS3 map_of memoryTag"
  by (auto simp: s3Laws_def memoryS3_def memoryTag_def AList.update_conv' AList.delete_conv' map_of_eq_None_iff
        split: if_splits option.splits)

end
