(* ===== verification/S3_Journal.thy ===== *)
theory S3_Journal
  imports Journal_Session S3_Service
begin

text \<open>
  The execution journal over an S3 bucket (\<open>internal/engine/execution_store_s3.go\<close> selected by
  \<open>internal/engine/execution_store.go\<close>): the sessions of \<open>Journal_Session\<close> with the store of
  \<open>S3_Service\<close>.
\<close>

definition s3Engine :: "('b, payload content) s3API \<Rightarrow> (payload \<Rightarrow> nat) \<Rightarrow> string \<Rightarrow> 'b engine \<Rightarrow> 'b engine" where
  "s3Engine api dlen prefix E = E\<lparr>en_Store := s3Store api dlen prefix\<rparr>"

lemma s3_journal:
  assumes "s3Laws api view etag"
  shows "journal_store (s3Engine api dlen prefix E) (s3Obj view junk prefix) (s3Names view prefix) etag"
  using s3_store_contract [OF assms] by (simp add: journal_store_def s3Engine_def)

text \<open>
  C18: Machines sharing one bucket. Over a bucket with the documented conditional requests, whatever
  requests fail or lose their response and whichever responses omit the tag, a session's record is exactly
  the stored one, or the session is fenced and never changes the bucket again; the identity of its run stays,
  and the records of other runs are not touched.
\<close>

theorem s3_session_coherent_or_fenced:
  assumes "s3Laws api view etag"
    and "(sessionStep (s3Engine api dlen prefix E))\<^sup>*\<^sup>* w w'"
    and "sessionInv (s3Obj view junk prefix) etag (s3Engine api dlen prefix E) w"
  shows "(coherent (s3Obj view junk prefix) w' \<or> fenced (s3Obj view junk prefix) w') \<and>
    recordIdentity (w_Record w') = recordIdentity (w_Record w) \<and>
    (\<forall>i. i \<noteq> xr_ID (w_Record w) \<longrightarrow>
       s3Obj view junk prefix (w_Store w') (recordKey i) = s3Obj view junk prefix (w_Store w) (recordKey i)) \<and>
    (fenced (s3Obj view junk prefix) w \<longrightarrow> fenced (s3Obj view junk prefix) w' \<and>
       s3Obj view junk prefix (w_Store w') = s3Obj view junk prefix (w_Store w))"
  using journal_store.steps_inv [OF s3_journal [OF assms(1)] assms(2,3)] by (auto simp: sessionInv_def onlyRecord_def)

definition s3SampleEngine :: "((string \<times> string \<times> payload content) list) engine" where
  "s3SampleEngine = \<lparr>en_Store = s3Store memoryS3 (\<lambda>_. 0) ''runs/'', en_OpenErr = None, en_Graph = sampleGraph, en_Blueprint = None,
     en_BaseDir = ''/w'', en_Digest = (\<lambda>_. ''scope''), en_EnvValue = (\<lambda>_ _. Inr ''''), en_WorkspaceFile = (\<lambda>_. Inr None),
     en_IO = (\<lambda>n. noFault (replicate (Suc n) (CHR ''a''))), en_Now = int, en_Random = (\<lambda>n. replicate 32 (CHR ''b'')),
     en_Plugin = (\<lambda>_. \<lparr>pa_Calls = [], pa_Err = None\<rparr>), en_Err = (\<lambda>_. None), en_OS = sampleOS,
     en_Binary = ''terraform'', en_Stdin = True, en_Value = sampleValueLib, en_Has = (\<lambda>_. False),
     en_Line = (\<lambda>_. (''yes'', False)), en_Bool = (\<lambda>_. True), en_Text = (\<lambda>_. Inr ''text''), en_Input = (\<lambda>_. Inr JNull),
     en_Outputs = (\<lambda>_. Inr []), en_PlanDoc = (\<lambda>_. Inr samplePlanDoc), en_Changed = (\<lambda>_. Inr True),
     en_Tree = (\<lambda>_. Inr []), en_Creds = (\<lambda>_. [])\<rparr>"

definition s3SampleWorld :: "ExecutionRecord \<Rightarrow> ((string \<times> string \<times> payload content) list) world" where
  "s3SampleWorld r = \<lparr>w_Store = [(''runs/'' @ recordKey (xr_ID r), ''etag-'', Encoded \<lparr>eo_Revision = ''rev-'', eo_Data = RecordData r\<rparr> 1)],
     w_Tick = 0, w_Record = r, w_Revision = ''etag-'', w_Plugins = False,
     w_Completion = None, w_Backups = [], w_Mutations = [], w_Snapshots = [], w_Contexts = [], w_Reviews = []\<rparr>"

lemma s3SampleEngine_s3: "s3Engine memoryS3 (\<lambda>_. 0) ''runs/'' s3SampleEngine = s3SampleEngine"
  by (simp add: s3Engine_def s3SampleEngine_def)

lemma s3Sample_inv:
  assumes "executionKeyPattern (recordKey (xr_ID r))"
  shows "sessionInv (s3Obj map_of junk ''runs/'') memoryTag s3SampleEngine (s3SampleWorld r)"
proof -
  have "inj (\<lambda>n. memoryTag (en_IO s3SampleEngine n))"
    by (rule injI) (simp add: memoryTag_def noFault_def s3SampleEngine_def)
  moreover have "coherent (s3Obj map_of junk ''runs/'') (s3SampleWorld r)"
    using assms by (simp add: coherent_def s3Obj_def s3SampleWorld_def)
  ultimately show ?thesis
    by (auto simp: sessionInv_def freshFrom_def s3SampleWorld_def memoryTag_def noFault_def s3SampleEngine_def)
qed

theorem s3_session_coherent_or_fenced_witness:
  "coherent (s3Obj map_of (RecordData sampleExecution) ''runs/'')
     (fst (lockedTransition s3SampleEngine ''a'' ''applying'' '''' '''' (s3SampleWorld sampleExecution))) \<or>
   fenced (s3Obj map_of (RecordData sampleExecution) ''runs/'')
     (fst (lockedTransition s3SampleEngine ''a'' ''applying'' '''' '''' (s3SampleWorld sampleExecution)))"
proof -
  have "sessionStep s3SampleEngine (s3SampleWorld sampleExecution)
    (fst (lockedTransition s3SampleEngine ''a'' ''applying'' '''' '''' (s3SampleWorld sampleExecution)))"
    by (rule stepTransition) (rule surjective_pairing)
  then have "(sessionStep (s3Engine memoryS3 (\<lambda>_. 0) ''runs/'' s3SampleEngine))\<^sup>*\<^sup>* (s3SampleWorld sampleExecution)
    (fst (lockedTransition s3SampleEngine ''a'' ''applying'' '''' '''' (s3SampleWorld sampleExecution)))"
    unfolding s3SampleEngine_s3 by blast
  from s3_session_coherent_or_fenced [OF memoryS3_laws this] s3Sample_inv [OF sampleExecution_key] s3SampleEngine_s3
  show ?thesis by simp
qed

end
