(* ===== verification/Graph_Lock.thy ===== *)
theory Graph_Lock
  imports S3_Service Blueprint_Types
begin

text \<open>
  The graph lock (\<open>internal/graphlock\<close>): one object of a bucket, written only when absent, that serializes
  plan, apply and destroy across machines.  \<open>Acquire\<close>, \<open>Close\<close>, \<open>Release\<close> and \<open>Holder\<close> are functions of the
  bucket; \<open>lockStep\<close> interleaves the requests of any number of processes, which may crash, fail to release, or
  be force-unlocked at any time.  The bucket is that of the lock block, and the service is the parameter of
  \<open>S3_Service\<close>.
\<close>

subsection \<open>The lock object\<close>

record lockObject =
  lo_Who :: string
  lo_Created :: string
  lo_Info :: string

text \<open>What an object decodes to.\<close>

datatype lockBody = LockBody lockObject | OtherBody

datatype lockError =
    GraphHeld string string "(string \<times> string) option"
  | ErrClient string
  | ErrAcquire string string s3Err
  | ErrNoETag string string "s3Err option"
  | ErrRelease string string s3Err
  | ErrMissingETag string string
  | ErrService s3Err
  | ErrNoBackend

record s3Held =
  sh_Bucket :: string
  sh_Key :: string
  sh_ETag :: string
  sh_Closed :: bool

datatype Held = NoopHeld | S3Held s3Held

text \<open>What a process reads of its surroundings: whether an S3 client can be made for a region, the user and
  host names, the time, and how its reading of the holder ends.\<close>

record lockEnv =
  le_Client :: "string \<Rightarrow> string option"
  le_User :: "string option"
  le_Host :: "string option"
  le_Now :: string
  le_Get :: ioFault

definition lockWho :: "lockEnv \<Rightarrow> string" where
  "lockWho env =
     (let name = (case le_User env of Some u \<Rightarrow> if u = '''' then ''terragraph'' else u | None \<Rightarrow> ''terragraph'') in
      case le_Host env of
        None \<Rightarrow> name
      | Some host \<Rightarrow> if host = '''' then name else name @ ''@'' @ host)"

definition isHeld :: "s3Err \<Rightarrow> bool" where
  "isHeld e \<longleftrightarrow> isPreconditionFailed e \<or> isConflict e"

definition readLockHolder :: "('b, lockBody) s3API \<Rightarrow> ioFault \<Rightarrow> 'b \<Rightarrow> S3Lock \<Rightarrow> string \<times> string" where
  "readLockHolder api io b cfg =
     (case s3_get api io b (s3_Key cfg) of
        Inl e \<Rightarrow> ('''', '''')
      | Inr (tag, OtherBody) \<Rightarrow> ('''', '''')
      | Inr (tag, LockBody obj) \<Rightarrow> (lo_Who obj, lo_Created obj))"

definition heldError :: "('b, lockBody) s3API \<Rightarrow> ioFault \<Rightarrow> 'b \<Rightarrow> S3Lock \<Rightarrow> lockError" where
  "heldError api io b cfg =
     (let (who, created) = readLockHolder api io b cfg in
      GraphHeld (s3_Bucket cfg) (s3_Key cfg) (if who \<noteq> '''' \<and> created \<noteq> '''' then Some (who, created) else None))"

subsection \<open>Operations\<close>

definition lockPayload :: "lockEnv \<Rightarrow> lockBody" where
  "lockPayload env = LockBody \<lparr>lo_Who = lockWho env, lo_Created = le_Now env, lo_Info = ''terragraph graph lock''\<rparr>"

text \<open>The conditional write of \<open>Acquire\<close>, and its clean-up when the response carries no tag.\<close>

definition lockPut :: "('b, lockBody) s3API \<Rightarrow> lockEnv \<Rightarrow> ioFault \<Rightarrow> 'b \<Rightarrow> S3Lock \<Rightarrow> 'b \<times> (lockError + string)" where
  "lockPut api env io b cfg =
     (case s3_put api io b (s3_Key cfg) (lockPayload env) IfNoneMatch of
        (b', Inl e) \<Rightarrow>
          (b', Inl (if isHeld e then heldError api (le_Get env) b' cfg else ErrAcquire (s3_Bucket cfg) (s3_Key cfg) e))
      | (b', Inr tag) \<Rightarrow> (b', Inr tag))"

definition lockCleanup :: "('b, lockBody) s3API \<Rightarrow> ioFault \<Rightarrow> 'b \<Rightarrow> S3Lock \<Rightarrow> 'b \<times> lockError" where
  "lockCleanup api io b cfg =
     (case s3_delete api io b (s3_Key cfg) None of
        (b', Inl e) \<Rightarrow> (b', ErrNoETag (s3_Bucket cfg) (s3_Key cfg) (Some e))
      | (b', Inr _) \<Rightarrow> (b', ErrNoETag (s3_Bucket cfg) (s3_Key cfg) None))"

definition newHeld :: "S3Lock \<Rightarrow> string \<Rightarrow> s3Held" where
  "newHeld cfg tag = \<lparr>sh_Bucket = s3_Bucket cfg, sh_Key = s3_Key cfg, sh_ETag = tag, sh_Closed = False\<rparr>"

definition s3Acquire ::
  "('b, lockBody) s3API \<Rightarrow> lockEnv \<Rightarrow> ioFault \<Rightarrow> ioFault \<Rightarrow> 'b \<Rightarrow> S3Lock \<Rightarrow> 'b \<times> (lockError + s3Held)" where
  "s3Acquire api env io io' b cfg =
     (case le_Client env (s3_Region cfg) of
        Some e \<Rightarrow> (b, Inl (ErrClient e))
      | None \<Rightarrow>
          (case lockPut api env io b cfg of
             (b', Inl e) \<Rightarrow> (b', Inl e)
           | (b', Inr tag) \<Rightarrow>
               if tag = '''' then (let (b'', e) = lockCleanup api io' b' cfg in (b'', Inl e))
               else (b', Inr (newHeld cfg tag))))"

definition s3Release :: "('b, lockBody) s3API \<Rightarrow> lockEnv \<Rightarrow> ioFault \<Rightarrow> 'b \<Rightarrow> S3Lock \<Rightarrow> 'b \<times> lockError option" where
  "s3Release api env io b cfg =
     (case le_Client env (s3_Region cfg) of
        Some e \<Rightarrow> (b, Some (ErrClient e))
      | None \<Rightarrow>
          (case s3_delete api io b (s3_Key cfg) None of
             (b', Inl e) \<Rightarrow> (b', Some (ErrRelease (s3_Bucket cfg) (s3_Key cfg) e))
           | (b', Inr _) \<Rightarrow> (b', None)))"

definition s3Holder :: "('b, lockBody) s3API \<Rightarrow> lockEnv \<Rightarrow> 'b \<Rightarrow> S3Lock \<Rightarrow> string \<times> string" where
  "s3Holder api env b cfg =
     (case le_Client env (s3_Region cfg) of Some e \<Rightarrow> ('''', '''') | None \<Rightarrow> readLockHolder api (le_Get env) b cfg)"

definition closeHeld :: "('b, lockBody) s3API \<Rightarrow> ioFault \<Rightarrow> 'b \<Rightarrow> s3Held \<Rightarrow> 'b \<times> s3Held \<times> lockError option" where
  "closeHeld api io b h =
     (if sh_Closed h then (b, h, None)
      else if sh_ETag h = '''' then (b, h, Some (ErrMissingETag (sh_Bucket h) (sh_Key h)))
      else (case s3_delete api io b (sh_Key h) (Some (sh_ETag h)) of
              (b', Inl e) \<Rightarrow>
                if isPreconditionFailed e then (b', h\<lparr>sh_Closed := True\<rparr>, None) else (b', h, Some (ErrService e))
            | (b', Inr _) \<Rightarrow> (b', h\<lparr>sh_Closed := True\<rparr>, None)))"

fun Close :: "('b, lockBody) s3API \<Rightarrow> ioFault \<Rightarrow> 'b \<Rightarrow> Held \<Rightarrow> 'b \<times> Held \<times> lockError option" where
  "Close api io b NoopHeld = (b, NoopHeld, None)"
| "Close api io b (S3Held h) = (let (b', h', e) = closeHeld api io b h in (b', S3Held h', e))"

text \<open>The dispatch over the back ends, of which S3 is the only one.\<close>

definition Acquire ::
  "('b, lockBody) s3API \<Rightarrow> lockEnv \<Rightarrow> ioFault \<Rightarrow> ioFault \<Rightarrow> 'b \<Rightarrow> Lock option \<Rightarrow> 'b \<times> (lockError + Held)" where
  "Acquire api env io io' b lock =
     (case lock of
        None \<Rightarrow> (b, Inr NoopHeld)
      | Some l \<Rightarrow>
          (case lk_S3 l of
             None \<Rightarrow> (b, Inl ErrNoBackend)
           | Some cfg \<Rightarrow> (case s3Acquire api env io io' b cfg of (b', Inl e) \<Rightarrow> (b', Inl e) | (b', Inr h) \<Rightarrow> (b', Inr (S3Held h)))))"

definition Holder :: "('b, lockBody) s3API \<Rightarrow> lockEnv \<Rightarrow> 'b \<Rightarrow> Lock option \<Rightarrow> string \<times> string" where
  "Holder api env b lock =
     (case lock of
        None \<Rightarrow> ('''', '''')
      | Some l \<Rightarrow> (case lk_S3 l of None \<Rightarrow> ('''', '''') | Some cfg \<Rightarrow> s3Holder api env b cfg))"

definition Release :: "('b, lockBody) s3API \<Rightarrow> lockEnv \<Rightarrow> ioFault \<Rightarrow> 'b \<Rightarrow> Lock option \<Rightarrow> 'b \<times> lockError option" where
  "Release api env io b lock =
     (case lock of
        None \<Rightarrow> (b, None)
      | Some l \<Rightarrow> (case lk_S3 l of None \<Rightarrow> (b, Some ErrNoBackend) | Some cfg \<Rightarrow> s3Release api env io b cfg))"

subsection \<open>Processes sharing a lock\<close>

text \<open>
  A process is idle, has stored a lock whose tag it was not told and is about to delete it, or works under a
  lock.  A run closes its lock once, by the function \<open>lockGraph\<close> returns, and then works no more whatever the
  service answered.  \<open>ly_Broken\<close> is a ghost: whether a force-unlock was ever issued while a process was alive.
\<close>

datatype lockProc = Idle | Cleaning | Working s3Held

record 'b lockSys =
  ly_Bucket :: 'b
  ly_Tick :: nat
  ly_Proc :: "nat \<Rightarrow> lockProc"
  ly_Broken :: bool

fun afterPut :: "S3Lock \<Rightarrow> lockError + string \<Rightarrow> lockProc" where
  "afterPut cfg (Inl e) = Idle"
| "afterPut cfg (Inr tag) = (if tag = '''' then Cleaning else Working (newHeld cfg tag))"

definition busy :: "lockProc \<Rightarrow> bool" where
  "busy st \<longleftrightarrow> st \<noteq> Idle"

definition turn :: "'b lockSys \<Rightarrow> 'b \<Rightarrow> nat \<Rightarrow> lockProc \<Rightarrow> 'b lockSys" where
  "turn s b p st = s\<lparr>ly_Bucket := b, ly_Tick := Suc (ly_Tick s), ly_Proc := (ly_Proc s)(p := st)\<rparr>"

text \<open>One request per step.  A force-unlock deletes the object unconditionally and can be issued at any time.\<close>

inductive lockStep :: "('b, lockBody) s3API \<Rightarrow> S3Lock \<Rightarrow> (nat \<Rightarrow> ioFault) \<Rightarrow> 'b lockSys \<Rightarrow> 'b lockSys \<Rightarrow> bool"
  for api cfg io where
  stepPut: "ly_Proc s p = Idle \<Longrightarrow> lockPut api env (io (ly_Tick s)) (ly_Bucket s) cfg = (b, r) \<Longrightarrow>
    lockStep api cfg io s (turn s b p (afterPut cfg r))"
| stepCleanup: "ly_Proc s p = Cleaning \<Longrightarrow> lockCleanup api (io (ly_Tick s)) (ly_Bucket s) cfg = (b, e) \<Longrightarrow>
    lockStep api cfg io s (turn s b p Idle)"
| stepClose: "ly_Proc s p = Working h \<Longrightarrow> closeHeld api (io (ly_Tick s)) (ly_Bucket s) h = (b, h', e) \<Longrightarrow>
    lockStep api cfg io s (turn s b p Idle)"
| stepCrash: "lockStep api cfg io s (turn s (ly_Bucket s) p Idle)"
| stepForce: "s3Release api env (io (ly_Tick s)) (ly_Bucket s) cfg = (b, e) \<Longrightarrow>
    lockStep api cfg io s
      (s\<lparr>ly_Bucket := b, ly_Tick := Suc (ly_Tick s), ly_Broken := (ly_Broken s \<or> (\<exists>q. busy (ly_Proc s q)))\<rparr>)"

text \<open>
  The documented behaviour of conditional requests, as in \<^const>\<open>s3Laws\<close>, for a tag that may depend on the
  contents: the tag of an object that is put in one request is a digest of its contents, and two requests that
  store the same contents give it the same tag.
\<close>

definition lockLaws :: "('b, 'd) s3API \<Rightarrow> ('b \<Rightarrow> string \<Rightarrow> (string \<times> 'd) option) \<Rightarrow> (ioFault \<Rightarrow> 'd \<Rightarrow> string) \<Rightarrow> bool" where
  "lockLaws api view etag \<longleftrightarrow>
     (\<forall>io b k d c b' tag. s3_put api io b k d c = (b', Inr tag) \<longrightarrow>
        condHolds (view b k) c \<and> view b' = (view b)(k \<mapsto> (etag io d, d)) \<and> (tag = etag io d \<or> tag = '''')) \<and>
     (\<forall>io b k d c b' e. s3_put api io b k d c = (b', Inl e) \<longrightarrow>
        view b' = view b \<or>
        (\<not> isPreconditionFailed e \<and> \<not> isConflict e \<and> condHolds (view b k) c \<and> view b' = (view b)(k \<mapsto> (etag io d, d)))) \<and>
     (\<forall>io b k m b' u. s3_delete api io b k m = (b', Inr u) \<longrightarrow> mayDelete (view b k) m \<and> view b' = (view b)(k := None)) \<and>
     (\<forall>io b k m b' e. s3_delete api io b k m = (b', Inl e) \<longrightarrow>
        view b' = view b \<or> (\<not> isPreconditionFailed e \<and> mayDelete (view b k) m \<and> view b' = (view b)(k := None)))"

lemma s3Laws_lockLaws: "s3Laws api view etag \<Longrightarrow> lockLaws api view (\<lambda>io d. etag io)"
  unfolding s3Laws_def lockLaws_def by (elim conjE, intro conjI) assumption+

lemma lockLaws_D:
  assumes "lockLaws api view etag"
  shows lock_put_ok: "s3_put api io b k d c = (b', Inr tag) \<Longrightarrow>
      condHolds (view b k) c \<and> view b' = (view b)(k \<mapsto> (etag io d, d)) \<and> (tag = etag io d \<or> tag = '''')"
    and lock_put_err: "s3_put api io b k d c = (b', Inl e) \<Longrightarrow>
      view b' = view b \<or> condHolds (view b k) c \<and> view b' = (view b)(k \<mapsto> (etag io d, d))"
    and lock_delete: "s3_delete api io b k m = (b', a) \<Longrightarrow>
      view b' = view b \<and> \<not> isOk a \<or> mayDelete (view b k) m \<and> view b' = (view b)(k := None)"
proof -
  assume del: "s3_delete api io b k m = (b', a)"
  show "view b' = view b \<and> \<not> isOk a \<or> mayDelete (view b k) m \<and> view b' = (view b)(k := None)"
  proof (cases a)
    case (Inl e)
    then show ?thesis using assms del unfolding lockLaws_def by (elim conjE) (metis isOk_def old.sum.simps(5))
  next
    case (Inr u)
    then show ?thesis using assms del unfolding lockLaws_def by (elim conjE) metis
  qed
qed (use assms in \<open>unfold lockLaws_def, elim conjE, meson\<close>)+

text \<open>What a request does to the object of the lock: nothing, or it stores a new one where there was none, or
  deletes the one it names.\<close>

lemma lockPut_cases:
  assumes "lockLaws api view etag" "lockPut api env io b cfg = (b', r)"
  obtains (kept) "view b' = view b" "\<not> isOk r"
  | (stored) t d where "view b (s3_Key cfg) = None" "view b' = (view b)(s3_Key cfg \<mapsto> (t, d))"
      "\<forall>tag. r = Inr tag \<longrightarrow> tag = t \<or> tag = ''''"
proof (cases "s3_put api io b (s3_Key cfg) (lockPayload env) IfNoneMatch")
  case (Pair b1 a)
  then have b1: "b1 = b'" using assms(2) by (auto simp: lockPut_def split: sum.splits)
  show ?thesis
  proof (cases a)
    case (Inl e)
    then have "\<not> isOk r" using assms(2) Pair by (auto simp: lockPut_def)
    with lock_put_err [OF assms(1) Pair [unfolded Inl b1]] show ?thesis using kept stored by (cases r) auto
  next
    case (Inr tag)
    then have "r = Inr tag" using assms(2) Pair by (auto simp: lockPut_def)
    with lock_put_ok [OF assms(1) Pair [unfolded Inr b1]] show ?thesis using stored by auto
  qed
qed

lemma lockCleanup_cases:
  assumes "lockLaws api view etag" "lockCleanup api io b cfg = (b', e)"
  shows "view b' = view b \<or> view b' = (view b)(s3_Key cfg := None)"
proof -
  obtain b1 a where del: "s3_delete api io b (s3_Key cfg) None = (b1, a)" by (meson surj_pair)
  with assms(2) have "b1 = b'" by (auto simp: lockCleanup_def split: sum.splits)
  then show ?thesis using lock_delete [OF assms(1) del] by blast
qed

lemma s3Release_cases:
  assumes "lockLaws api view etag" "s3Release api env io b cfg = (b', e)"
  shows "view b' = view b \<or> view b' = (view b)(s3_Key cfg := None)"
proof (cases "le_Client env (s3_Region cfg)")
  case None
  obtain b1 a where del: "s3_delete api io b (s3_Key cfg) None = (b1, a)" by (meson surj_pair)
  with None assms(2) have "b1 = b'" by (auto simp: s3Release_def split: sum.splits)
  then show ?thesis using lock_delete [OF assms(1) del] by blast
qed (use assms(2) in \<open>simp add: s3Release_def\<close>)

lemma closeHeld_cases:
  assumes "lockLaws api view etag" "closeHeld api io b h = (b', h', e)"
  shows "view b' = view b \<or>
    map_option fst (view b (sh_Key h)) = Some (sh_ETag h) \<and> view b' = (view b)(sh_Key h := None)"
proof -
  obtain b1 a where del: "s3_delete api io b (sh_Key h) (Some (sh_ETag h)) = (b1, a)" by (meson surj_pair)
  have "b' = b \<or> b' = b1" using assms(2) del by (auto simp: closeHeld_def split: if_splits sum.splits)
  with lock_delete [OF assms(1) del] show ?thesis by (elim disjE conjE) simp_all
qed

subsection \<open>The invariant\<close>

definition lockTag :: "('b \<Rightarrow> string \<Rightarrow> (string \<times> lockBody) option) \<Rightarrow> S3Lock \<Rightarrow> 'b \<Rightarrow> string option" where
  "lockTag view cfg b = map_option fst (view b (s3_Key cfg))"

text \<open>
  A working process names the object of the lock block.  As long as no live lock was broken, at most one process is
  busy, an object is stored while one is, and the object of a working process carries its tag.
\<close>

definition lockInv :: "('b \<Rightarrow> string \<Rightarrow> (string \<times> lockBody) option) \<Rightarrow> S3Lock \<Rightarrow> 'b lockSys \<Rightarrow> bool" where
  "lockInv view cfg s \<longleftrightarrow>
     (\<forall>p h. ly_Proc s p = Working h \<longrightarrow> sh_Key h = s3_Key cfg) \<and>
     (\<not> ly_Broken s \<longrightarrow>
        (\<forall>p q. busy (ly_Proc s p) \<and> busy (ly_Proc s q) \<longrightarrow> p = q) \<and>
        (\<forall>p. busy (ly_Proc s p) \<longrightarrow> lockTag view cfg (ly_Bucket s) \<noteq> None) \<and>
        (\<forall>p h. ly_Proc s p = Working h \<longrightarrow> lockTag view cfg (ly_Bucket s) = Some (sh_ETag h)))"

lemma turn_simps [simp]:
  "ly_Bucket (turn s b p st) = b" "ly_Tick (turn s b p st) = Suc (ly_Tick s)" "ly_Proc (turn s b p st) = (ly_Proc s)(p := st)"
  "ly_Broken (turn s b p st) = ly_Broken s"
  by (simp_all add: turn_def)

lemma busy_simps [simp]: "\<not> busy Idle" "busy Cleaning" "busy (Working h)"
  by (simp_all add: busy_def)

text \<open>A process that becomes idle, having left the object alone or, as the only busy one, deleted it.\<close>

lemma lockInv_idle:
  assumes "lockInv view cfg s"
    and "lockTag view cfg b = lockTag view cfg (ly_Bucket s) \<or> busy (ly_Proc s p)"
  shows "lockInv view cfg (turn s b p Idle)"
  using assms unfolding lockInv_def by (auto split: if_splits)

lemma lockStep_inv:
  assumes "lockLaws api view etag" "lockStep api cfg io s s'" "lockInv view cfg s"
  shows "lockInv view cfg s' \<and> (\<forall>k. k \<noteq> s3_Key cfg \<longrightarrow> view (ly_Bucket s') k = view (ly_Bucket s) k)"
  using assms(2)
proof cases
  case (stepPut p env b r)
  from assms(1) stepPut(3) show ?thesis
  proof (cases rule: lockPut_cases)
    case kept
    then have "afterPut cfg r = Idle" by (cases r) simp_all
    with kept lockInv_idle [OF assms(3), of b p] show ?thesis unfolding stepPut(1) by (simp add: lockTag_def)
  next
    case (stored t d)
    then have free: "lockTag view cfg (ly_Bucket s) = None" by (simp add: lockTag_def)
    have "afterPut cfg r \<in> {Idle, Cleaning} \<or> (\<exists>h. afterPut cfg r = Working h \<and> sh_Key h = s3_Key cfg \<and> sh_ETag h = t)"
      using stored(3) by (cases r) (auto simp: newHeld_def)
    then have "lockInv view cfg s'"
      using assms(3) free stored(2) unfolding stepPut(1) lockInv_def by (auto simp: lockTag_def split: if_splits)
    with stored(2) show ?thesis unfolding stepPut(1) by simp
  qed
next
  case (stepCleanup p b e)
  with lockCleanup_cases [OF assms(1) stepCleanup(3)] lockInv_idle [OF assms(3), of b p] show ?thesis by auto
next
  case (stepClose p h b h' e)
  then have "sh_Key h = s3_Key cfg" using assms(3) by (simp add: lockInv_def)
  with closeHeld_cases [OF assms(1) stepClose(3)] lockInv_idle [OF assms(3), of b p] stepClose(1,2) show ?thesis by auto
next
  case (stepCrash p)
  with lockInv_idle [OF assms(3), of "ly_Bucket s" p] show ?thesis by simp
next
  case (stepForce env b e)
  with s3Release_cases [OF assms(1) stepForce(2)] assms(3) show ?thesis unfolding lockInv_def by (auto simp: busy_def)
qed

lemma lockSteps_inv:
  assumes "lockLaws api view etag" "(lockStep api cfg io)\<^sup>*\<^sup>* s s'" "lockInv view cfg s"
  shows "lockInv view cfg s' \<and> (\<forall>k. k \<noteq> s3_Key cfg \<longrightarrow> view (ly_Bucket s') k = view (ly_Bucket s) k)"
  using assms(2,3)
proof (induction rule: rtranclp_induct)
  case (step s1 s2)
  then show ?case using lockStep_inv [OF assms(1) step(2)] by auto
qed simp

text \<open>
  C19: The graph lock is exclusive unless an operator breaks it. Whatever requests of any number of processes interleave,
  fail, lose their responses or come without a tag, whoever crashes, whatever object was there before, and whatever tags the service
  chooses: as long as no force-unlock was issued while a process was alive, at most one process works under the
  lock, and while it does the stored object carries its tag. Even after a live lock was broken, the release of a
  process leaves every lock alone whose tag is not its own. No other object of the bucket ever changes.
\<close>

theorem graph_lock_exclusive:
  assumes "lockLaws api view etag" and "(lockStep api cfg io)\<^sup>*\<^sup>* s s'" and "\<And>p. ly_Proc s p = Idle"
  shows "(\<not> ly_Broken s' \<longrightarrow>
      (ly_Proc s' p = Working h \<and> ly_Proc s' q = Working g \<longrightarrow> p = q) \<and>
      (ly_Proc s' p = Working h \<longrightarrow> lockTag view cfg (ly_Bucket s') = Some (sh_ETag h))) \<and>
    (ly_Proc s' p = Working h \<and> closeHeld api fault (ly_Bucket s') h = (b, h', e) \<and> lockTag view cfg (ly_Bucket s') \<noteq> Some (sh_ETag h) \<longrightarrow>
      view b = view (ly_Bucket s')) \<and>
    (k \<noteq> s3_Key cfg \<longrightarrow> view (ly_Bucket s') k = view (ly_Bucket s) k)"
proof -
  have "lockInv view cfg s" using assms(3) by (simp add: lockInv_def)
  from lockSteps_inv [OF assms(1,2) this] have inv: "lockInv view cfg s'"
    and others: "k \<noteq> s3_Key cfg \<longrightarrow> view (ly_Bucket s') k = view (ly_Bucket s) k" by auto
  have "view b = view (ly_Bucket s')"
    if "ly_Proc s' p = Working h" "closeHeld api fault (ly_Bucket s') h = (b, h', e)" "lockTag view cfg (ly_Bucket s') \<noteq> Some (sh_ETag h)"
    using closeHeld_cases [OF assms(1) that(2)] that(1,3) inv by (auto simp: lockInv_def lockTag_def)
  with others inv show ?thesis unfolding lockInv_def by (metis busy_simps(3))
qed

definition sampleLock :: S3Lock where
  "sampleLock = \<lparr>s3_Bucket = ''b'', s3_Key = ''lock'', s3_Region = ''r''\<rparr>"

definition sampleLockEnv :: lockEnv where
  "sampleLockEnv = \<lparr>le_Client = (\<lambda>_. None), le_User = Some ''me'', le_Host = Some ''host'', le_Now = ''now'', le_Get = noFault ''''\<rparr>"

definition sampleLockIO :: "nat \<Rightarrow> ioFault" where
  "sampleLockIO n = noFault (replicate n (CHR ''a''))"

text \<open>A bucket whose tags are digests of the contents.\<close>

fun contentTag :: "lockBody \<Rightarrow> string" where
  "contentTag (LockBody obj) = lo_Who obj @ '' '' @ lo_Created obj"
| "contentTag OtherBody = ''other''"

definition contentS3 :: "((string \<times> string \<times> lockBody) list, lockBody) s3API" where
  "contentS3 = memoryS3\<lparr>s3_put := (\<lambda>io b k d c.
     if condHolds (map_of b k) c then (AList.update k (contentTag d, d) b, Inr (contentTag d))
     else (b, Inl (S3Error ''PreconditionFailed'' 412)))\<rparr>"

lemma contentS3_laws: "lockLaws contentS3 map_of (\<lambda>io. contentTag)"
  by (auto simp: lockLaws_def contentS3_def memoryS3_def AList.update_conv' AList.delete_conv' split: if_splits)

definition sampleLockSys :: "((string \<times> string \<times> lockBody) list) lockSys" where
  "sampleLockSys = \<lparr>ly_Bucket = [], ly_Tick = 0, ly_Proc = (\<lambda>_. Idle), ly_Broken = False\<rparr>"

text \<open>Process 0 acquires the lock; process 1 then cannot, although it would write the same contents.\<close>

definition sampleLocked :: "((string \<times> string \<times> lockBody) list) lockSys" where
  "sampleLocked = turn sampleLockSys [(''lock'', ''me@host now'', lockPayload sampleLockEnv)] 0 (Working (newHeld sampleLock ''me@host now''))"

lemma sampleLocked_steps: "(lockStep contentS3 sampleLock sampleLockIO)\<^sup>*\<^sup>* sampleLockSys (turn sampleLocked (ly_Bucket sampleLocked) 1 Idle)"
proof -
  have "lockStep contentS3 sampleLock sampleLockIO sampleLockSys
    (turn sampleLockSys [(''lock'', ''me@host now'', lockPayload sampleLockEnv)] 0 (afterPut sampleLock (Inr ''me@host now'')))"
    by (rule stepPut [where env = sampleLockEnv])
      (simp_all add: sampleLockSys_def lockPut_def contentS3_def sampleLock_def lockPayload_def lockWho_def sampleLockEnv_def)
  moreover obtain e where "lockPut contentS3 sampleLockEnv (sampleLockIO 1) (ly_Bucket sampleLocked) sampleLock = (ly_Bucket sampleLocked, Inl e)"
    by (simp add: sampleLocked_def lockPut_def contentS3_def sampleLock_def)
  then have "lockStep contentS3 sampleLock sampleLockIO sampleLocked (turn sampleLocked (ly_Bucket sampleLocked) 1 (afterPut sampleLock (Inl e)))"
    by (intro stepPut) (simp_all add: sampleLocked_def sampleLockSys_def)
  ultimately show ?thesis by (simp add: sampleLocked_def)
qed

theorem graph_lock_exclusive_witness:
  "lockTag map_of sampleLock (ly_Bucket sampleLocked) = Some ''me@host now'' \<and> ly_Proc sampleLocked 0 = Working (newHeld sampleLock ''me@host now'')"
  using graph_lock_exclusive [OF contentS3_laws sampleLocked_steps, of 0 "newHeld sampleLock ''me@host now''" 0]
  by (simp add: sampleLockSys_def sampleLocked_def lockTag_def newHeld_def)

text \<open>
  The contents of a lock are a user, a host and a second, with no nonce. After a live lock was broken, the release of the
  first process therefore deletes a second lock the same user took on the same host in the same second.
\<close>

lemma same_second_lock_deleted:
  assumes "Release contentS3 sampleLockEnv io (ly_Bucket sampleLocked) (Some \<lparr>lk_S3 = Some sampleLock\<rparr>) = (b1, r1)"
    and "s3Acquire contentS3 sampleLockEnv io' io'' b1 sampleLock = (b2, Inr second)"
    and "closeHeld contentS3 io3 b2 (newHeld sampleLock ''me@host now'') = (b3, h3, r3)"
  shows "lockTag map_of sampleLock b2 = Some (sh_ETag second) \<and> lockTag map_of sampleLock b3 = None"
  using assms
  by (auto simp: Release_def s3Release_def s3Acquire_def lockPut_def closeHeld_def newHeld_def contentS3_def memoryS3_def lockTag_def
      sampleLocked_def sampleLock_def sampleLockEnv_def lockPayload_def lockWho_def AList.delete_conv' split: prod.splits if_splits)

text \<open>A service that answers: requests whose condition holds succeed, and say so.\<close>

definition s3Available :: "('b, 'd) s3API \<Rightarrow> ('b \<Rightarrow> string \<Rightarrow> (string \<times> 'd) option) \<Rightarrow> (ioFault \<Rightarrow> string) \<Rightarrow> bool" where
  "s3Available api view etag \<longleftrightarrow>
     (\<forall>io b k d c. condHolds (view b k) c \<longrightarrow> snd (s3_put api io b k d c) = Inr (etag io)) \<and>
     (\<forall>io b k m. mayDelete (view b k) m \<longrightarrow> snd (s3_delete api io b k m) = Inr ())"

lemma Acquire_free:
  assumes "s3Laws api view etag" "s3Available api view etag" "lk_S3 l = Some cfg" "le_Client env (s3_Region cfg) = None"
    and "view b (s3_Key cfg) = None"
  shows "\<exists>b'. Acquire api env io io' b (Some l) = (b', Inr (S3Held (newHeld cfg (etag io)))) \<and>
    lockTag view cfg b' = Some (etag io)"
proof -
  obtain b' where put: "s3_put api io b (s3_Key cfg) (lockPayload env) IfNoneMatch = (b', Inr (etag io))"
    using assms(2,5) unfolding s3Available_def by (metis condHolds.simps(1) prod.collapse)
  with s3_put_ok [OF assms(1) put] s3_etag [OF assms(1)] assms(3,4) show ?thesis
    by (simp add: Acquire_def s3Acquire_def lockPut_def lockTag_def)
qed

lemma available_delete:
  assumes "s3Laws api view etag" "s3Available api view etag" "mayDelete (view b k) m"
  obtains b' where "s3_delete api io b k m = (b', Inr ())" "view b' = (view b)(k := None)"
  using assms(2,3) s3_delete_ok [OF assms(1)] unfolding s3Available_def by (metis prod.collapse)

text \<open>
  C20: The graph lock never blocks forever. Whatever an interrupted run left in the bucket, once the service
  answers a force-unlock succeeds and the next run acquires the lock; when that run releases it, another run acquires it in turn.
\<close>

theorem graph_lock_recovers:
  assumes "s3Laws api view etag" "s3Available api view etag" "lk_S3 l = Some cfg" "le_Client env (s3_Region cfg) = None"
  shows "\<exists>b1 b2 h b3 b4.
    Release api env io1 b (Some l) = (b1, None) \<and>
    Acquire api env io2 io2' b1 (Some l) = (b2, Inr (S3Held h)) \<and>
    Close api io3 b2 (S3Held h) = (b3, S3Held (h\<lparr>sh_Closed := True\<rparr>), None) \<and>
    Acquire api env io4 io4' b3 (Some l) = (b4, Inr (S3Held (newHeld cfg (etag io4))))"
proof -
  obtain b1 where b1: "s3_delete api io1 b (s3_Key cfg) None = (b1, Inr ())" "view b1 = (view b)(s3_Key cfg := None)"
    using available_delete [OF assms(1,2)] by (metis mayDelete.simps(1))
  then obtain b2 where b2: "Acquire api env io2 io2' b1 (Some l) = (b2, Inr (S3Held (newHeld cfg (etag io2))))"
    "lockTag view cfg b2 = Some (etag io2)"
    using Acquire_free [OF assms, of b1] by auto
  then obtain b3 where b3: "s3_delete api io3 b2 (s3_Key cfg) (Some (etag io2)) = (b3, Inr ())" "view b3 = (view b2)(s3_Key cfg := None)"
    using available_delete [OF assms(1,2), of b2 "s3_Key cfg" "Some (etag io2)" io3] by (auto simp: lockTag_def)
  then obtain b4 where "Acquire api env io4 io4' b3 (Some l) = (b4, Inr (S3Held (newHeld cfg (etag io4))))"
    using Acquire_free [OF assms, of b3] by auto
  moreover have "Release api env io1 b (Some l) = (b1, None)" using b1 assms(3,4) by (simp add: Release_def s3Release_def)
  moreover have "Close api io3 b2 (S3Held (newHeld cfg (etag io2))) = (b3, S3Held ((newHeld cfg (etag io2))\<lparr>sh_Closed := True\<rparr>), None)"
    using b3 s3_etag [OF assms(1)] by (simp add: closeHeld_def newHeld_def)
  ultimately show ?thesis using b2(1) by blast
qed

lemma memoryS3_available: "s3Available memoryS3 map_of memoryTag"
  by (simp add: s3Available_def memoryS3_def)

theorem graph_lock_recovers_witness:
  "\<exists>b4. Acquire memoryS3 sampleLockEnv (sampleLockIO 4) (sampleLockIO 5)
     (fst (Close memoryS3 (sampleLockIO 3)
       (fst (Acquire memoryS3 sampleLockEnv (sampleLockIO 2) (sampleLockIO 5)
         (fst (Release memoryS3 sampleLockEnv (sampleLockIO 1) [(''lock'', ''leftover'', OtherBody)] (Some \<lparr>lk_S3 = Some sampleLock\<rparr>)))
         (Some \<lparr>lk_S3 = Some sampleLock\<rparr>)))
       (S3Held (newHeld sampleLock (memoryTag (sampleLockIO 2))))))
     (Some \<lparr>lk_S3 = Some sampleLock\<rparr>) = (b4, Inr (S3Held (newHeld sampleLock (memoryTag (sampleLockIO 4)))))"
proof -
  have client: "lk_S3 \<lparr>lk_S3 = Some sampleLock\<rparr> = Some sampleLock" "le_Client sampleLockEnv (s3_Region sampleLock) = None"
    by (simp_all add: sampleLockEnv_def)
  obtain b1 b2 h b3 b4 where
    "Release memoryS3 sampleLockEnv (sampleLockIO 1) [(''lock'', ''leftover'', OtherBody)] (Some \<lparr>lk_S3 = Some sampleLock\<rparr>) = (b1, None)"
    and acq: "Acquire memoryS3 sampleLockEnv (sampleLockIO 2) (sampleLockIO 5) b1 (Some \<lparr>lk_S3 = Some sampleLock\<rparr>) = (b2, Inr (S3Held h))"
    and "Close memoryS3 (sampleLockIO 3) b2 (S3Held h) = (b3, S3Held (h\<lparr>sh_Closed := True\<rparr>), None)"
    and "Acquire memoryS3 sampleLockEnv (sampleLockIO 4) (sampleLockIO 5) b3 (Some \<lparr>lk_S3 = Some sampleLock\<rparr>) =
      (b4, Inr (S3Held (newHeld sampleLock (memoryTag (sampleLockIO 4)))))"
    using graph_lock_recovers [OF memoryS3_laws memoryS3_available client] by meson
  moreover have "h = newHeld sampleLock (memoryTag (sampleLockIO 2))"
    using acq by (auto simp: Acquire_def s3Acquire_def lockPut_def memoryS3_def sampleLockEnv_def split: prod.splits sum.splits if_splits)
  ultimately show ?thesis by simp
qed

end
