(* ===== verification/Run_Lock.thy ===== *)
theory Run_Lock
  imports Graph_Lock
begin

text \<open>
  The process lock of a blueprint directory (\<open>internal/runlock\<close>) and the command that breaks a leftover graph
  lock (\<open>newForceUnlockCmd\<close> in \<open>internal/cli/cli.go\<close>).  The advisory lock of the operating system is a parameter:
  the list of its answers to successive calls.  A call that has not returned when the answers end gives \<^const>\<open>None\<close>.
\<close>

datatype flockAns = FlockOk | FlockInterrupted | FlockBusy | FlockFailed string

datatype runLockErr = RunHeld | RunCancelled string | RunErr string

fun lockFile :: "bool \<Rightarrow> flockAns list \<Rightarrow> (runLockErr + unit) option" where
  "lockFile nonblocking [] = None"
| "lockFile nonblocking (FlockInterrupted # answers) = lockFile nonblocking answers"
| "lockFile nonblocking (FlockBusy # answers) =
     (if nonblocking then Some (Inl RunHeld) else Some (Inl (RunErr ''acquiring lock: resource temporarily unavailable'')))"
| "lockFile nonblocking (FlockFailed e # answers) = Some (Inl (RunErr (''acquiring lock: '' @ e)))"
| "lockFile nonblocking (FlockOk # answers) = Some (Inr ())"

fun unlockFile :: "flockAns list \<Rightarrow> (runLockErr + unit) option" where
  "unlockFile [] = None"
| "unlockFile (FlockInterrupted # answers) = unlockFile answers"
| "unlockFile (FlockBusy # answers) = Some (Inl (RunErr ''releasing lock: resource temporarily unavailable''))"
| "unlockFile (FlockFailed e # answers) = Some (Inl (RunErr (''releasing lock: '' @ e)))"
| "unlockFile (FlockOk # answers) = Some (Inr ())"

record runEnv =
  re_Mkdir :: "string option"
  re_Open :: "string option"
  re_Flock :: "flockAns list"

definition openLock :: "string \<Rightarrow> runEnv \<Rightarrow> runLockErr + unit" where
  "openLock baseDir env =
     (if baseDir = '''' then Inl (RunErr ''empty blueprint directory'')
      else case re_Mkdir env of
        Some e \<Rightarrow> Inl (RunErr (''creating lock directory: '' @ e))
      | None \<Rightarrow> (case re_Open env of Some e \<Rightarrow> Inl (RunErr (''opening lock file: '' @ e)) | None \<Rightarrow> Inr ()))"

definition acquire :: "string \<Rightarrow> bool \<Rightarrow> runEnv \<Rightarrow> (runLockErr + unit) option" where
  "acquire baseDir nonblocking env =
     (case openLock baseDir env of Inl e \<Rightarrow> Some (Inl e) | Inr _ \<Rightarrow> lockFile nonblocking (re_Flock env))"

definition TryAcquire :: "string \<Rightarrow> runEnv \<Rightarrow> (runLockErr + unit) option" where
  "TryAcquire baseDir env = acquire baseDir True env"

text \<open>One turn of the waiting loop: the context before the attempt, the attempt, the context after it, and
  whether the context ends before the next tick.\<close>

record attempt =
  at_Before :: "string option"
  at_Env :: runEnv
  at_After :: "string option"
  at_Wait :: "string option"

text \<open>The number of notices written, and the result.\<close>

fun AcquireContext :: "string \<Rightarrow> bool \<Rightarrow> bool \<Rightarrow> attempt list \<Rightarrow> nat \<times> (runLockErr + unit) option" where
  "AcquireContext baseDir writer ticking [] = (0, None)"
| "AcquireContext baseDir writer ticking (a # rest) =
     (case at_Before a of
        Some e \<Rightarrow> (0, Some (Inl (RunCancelled e)))
      | None \<Rightarrow>
          (case TryAcquire baseDir (at_Env a) of
             None \<Rightarrow> (0, None)
           | Some (Inr _) \<Rightarrow> (0, Some (case at_After a of Some e \<Rightarrow> Inl (RunCancelled e) | None \<Rightarrow> Inr ()))
           | Some (Inl RunHeld) \<Rightarrow>
               let notice = (if \<not> ticking \<and> writer then 1 else 0) in
               (case at_Wait a of
                  Some e \<Rightarrow> (notice, Some (Inl (RunCancelled e)))
                | None \<Rightarrow> let (n, r) = AcquireContext baseDir writer True rest in (notice + n, r))
           | Some (Inl e) \<Rightarrow> (0, Some (Inl e))))"

text \<open>A lock is the open file, if any.  Closing answers the error of the unlock, else that of closing the file.\<close>

definition closeLock :: "bool \<Rightarrow> flockAns list \<Rightarrow> string option \<Rightarrow> (bool \<times> runLockErr option) option" where
  "closeLock isOpen answers closeErr =
     (if \<not> isOpen then Some (False, None)
      else case unlockFile answers of
        None \<Rightarrow> None
      | Some (Inl e) \<Rightarrow> Some (False, Some e)
      | Some (Inr _) \<Rightarrow> Some (False, map_option RunErr closeErr))"

lemma AcquireContext_ticking: "fst (AcquireContext baseDir writer True attempts) = 0"
  by (induction attempts) (auto simp: Let_def split: option.splits sum.splits runLockErr.splits prod.splits)

text \<open>
  A waiter gets the process lock as soon as it is free. When the lock is busy for a number of attempts and
  then free, and the context is not cancelled, the wait ends with the lock at exactly that attempt, after a single notice.
\<close>

lemma AcquireContext_waits:
  assumes "\<And>a. a \<in> set waits \<Longrightarrow> at_Before a = None \<and> at_Wait a = None \<and> TryAcquire baseDir (at_Env a) = Some (Inl RunHeld)"
    and "at_Before a = None" "at_After a = None" "TryAcquire baseDir (at_Env a) = Some (Inr ())"
  shows "AcquireContext baseDir True False (waits @ a # rest) = (min 1 (length waits), Some (Inr ()))"
proof -
  have got: "AcquireContext baseDir True t (a # rest) = (0, Some (Inr ()))" for t using assms(2-4) by simp
  have wait: "AcquireContext baseDir True True (ws @ a # rest) = (0, Some (Inr ()))"
    if "\<And>x. x \<in> set ws \<Longrightarrow> at_Before x = None \<and> at_Wait x = None \<and> TryAcquire baseDir (at_Env x) = Some (Inl RunHeld)" for ws
    using that by (induction ws) (simp_all add: got del: AcquireContext.simps(2), simp)
  show ?thesis
  proof (cases waits)
    case (Cons x xs)
    with assms(1) wait [of xs] show ?thesis by simp
  qed (simp add: got del: AcquireContext.simps(2))
qed

subsection \<open>Breaking a leftover lock\<close>

datatype unlockErr =
    UnlockLoad string
  | UnlockNoLock
  | UnlockDir string
  | UnlockBusy
  | UnlockLocking runLockErr
  | UnlockRefused string string string
  | UnlockRelease lockError

text \<open>
  \<open>metadata\<close> is what loading the blueprint's metadata gives: its lock block and directory.  \<open>running\<close> is the answer
  of \<open>TryAcquire\<close> in that directory.
\<close>

definition forceUnlock ::
  "('b, lockBody) s3API \<Rightarrow> lockEnv \<Rightarrow> string + Lock option \<times> string \<Rightarrow> string option \<Rightarrow> (runLockErr + unit) \<Rightarrow> bool \<Rightarrow>
   ioFault \<Rightarrow> 'b \<Rightarrow> 'b \<times> (unlockErr + string \<times> string \<times> string)" where
  "forceUnlock api env metadata absErr running yes io b =
     (case metadata of
        Inl e \<Rightarrow> (b, Inl (UnlockLoad e))
      | Inr (None, dir) \<Rightarrow> (b, Inl UnlockNoLock)
      | Inr (Some lock, dir) \<Rightarrow>
          (case absErr of
             Some e \<Rightarrow> (b, Inl (UnlockDir e))
           | None \<Rightarrow>
               (case running of
                  Inl RunHeld \<Rightarrow> (b, Inl UnlockBusy)
                | Inl e \<Rightarrow> (b, Inl (UnlockLocking e))
                | Inr _ \<Rightarrow>
                    let bucket = (case lk_S3 lock of Some cfg \<Rightarrow> s3_Bucket cfg | None \<Rightarrow> '''');
                        key = (case lk_S3 lock of Some cfg \<Rightarrow> s3_Key cfg | None \<Rightarrow> '''');
                        (who, created) = Holder api env b (Some lock);
                        held = (if who \<noteq> '''' then '', held by '' @ who @ '' since '' @ created else '''') in
                    if \<not> yes then (b, Inl (UnlockRefused bucket key held))
                    else (case Release api env io b (Some lock) of
                            (b', Some e) \<Rightarrow> (b', Inl (UnlockRelease e))
                          | (b', None) \<Rightarrow> (b', Inr (bucket, key, held))))))"

text \<open>
  C35: Force-unlock does not break a live lock by mistake. It leaves the bucket as it is unless it was confirmed
  with \<open>--yes\<close> and no process of this checkout is running; and when it reports success, the lock is gone and every other object is as before.
\<close>

theorem forceUnlock_guarded:
  assumes "s3Laws api view etag" "forceUnlock api env metadata absErr running yes io b = (b', r)"
  shows "(\<not> yes \<or> running \<noteq> Inr () \<longrightarrow> b' = b \<and> \<not> isOk r) \<and>
    (r = Inr (bucket, key, held) \<longrightarrow>
       (\<exists>lock dir cfg. metadata = Inr (Some lock, dir) \<and> lk_S3 lock = Some cfg \<and> key = s3_Key cfg \<and> view b' = (view b)(key := None)))"
proof (intro conjI impI)
  assume "\<not> yes \<or> running \<noteq> Inr ()"
  with assms(2) show "b' = b" "\<not> isOk r"
    by (auto simp: forceUnlock_def Let_def split: sum.splits prod.splits option.splits runLockErr.splits if_splits)
next
  assume "r = Inr (bucket, key, held)"
  with assms(2) obtain lock dir where rel: "Release api env io b (Some lock) = (b', None)"
    and key: "key = (case lk_S3 lock of Some cfg \<Rightarrow> s3_Key cfg | None \<Rightarrow> '''')" and lock: "metadata = Inr (Some lock, dir)"
    by (auto simp: forceUnlock_def Let_def split: sum.splits prod.splits option.splits runLockErr.splits if_splits)
  from rel obtain cfg where cfg: "lk_S3 lock = Some cfg" and del: "s3_delete api io b (s3_Key cfg) None = (b', Inr ())"
    by (auto simp: Release_def s3Release_def split: option.splits prod.splits sum.splits)
  from s3_delete_ok [OF assms(1) del] cfg key lock
  show "\<exists>lock dir cfg. metadata = Inr (Some lock, dir) \<and> lk_S3 lock = Some cfg \<and> key = s3_Key cfg \<and> view b' = (view b)(key := None)"
    by auto
qed

theorem forceUnlock_guarded_witness:
  "fst (forceUnlock memoryS3 sampleLockEnv (Inr (Some \<lparr>lk_S3 = Some sampleLock\<rparr>, ''/w'')) None (Inr ()) False
     (sampleLockIO 0) (ly_Bucket sampleLocked)) = ly_Bucket sampleLocked"
  using forceUnlock_guarded [OF memoryS3_laws surjective_pairing, where env = sampleLockEnv and metadata = "Inr (Some \<lparr>lk_S3 = Some sampleLock\<rparr>, ''/w'')" and absErr = None
    and running = "Inr ()" and yes = False and io = "sampleLockIO 0" and b = "ly_Bucket sampleLocked"] by blast

end
