(* ===== verification/Plugin_Packages.thy ===== *)
theory Plugin_Packages
  imports Exec_Store Blueprint_Types
begin

text \<open>
  Plugin packages: the descriptor check (\<open>plugin/descriptor.go\<close>), reading a package
  (\<open>internal/plugins/package.go\<close>), and the lock file with resolution and installation
  (\<open>internal/plugins/lock.go\<close>).  A package directory is the bytes of its files; decoding of JSON, SHA-256, version
  parsing and type parsing are the parameter \<open>packageLib\<close>.  Every call on the file system may fail.
\<close>

subsection \<open>Descriptors\<close>

record Parameter =
  pm_Name :: string
  pm_Type :: string

record Feature =
  ft_Name :: string
  ft_Kind :: string
  ft_Events :: "string list"
  ft_Operations :: "string list"
  ft_Effect :: string
  ft_Parameters :: "Parameter list"
  ft_ResultType :: string
  ft_Sensitive :: bool

record Descriptor =
  ds_Name :: string
  ds_Version :: string
  ds_Protocol :: int
  ds_Executable :: string
  ds_Features :: "Feature list"

record Package =
  pk_Descriptor :: Descriptor
  pk_Path :: string
  pk_Digest :: string
  pk_ExecutableDigest :: string

text \<open>
  Libraries: whether a version parses, whether a version satisfies a constraint (\<^const>\<open>None\<close> when the constraint
  does not parse), whether a type parses, what a descriptor's bytes decode to with strict fields and no trailing
  content, and the hexadecimal SHA-256 of bytes.
\<close>

record packageLib =
  pl_Version :: "string \<Rightarrow> bool"
  pl_Check :: "string \<Rightarrow> string \<Rightarrow> bool option"
  pl_Type :: "string \<Rightarrow> bool"
  pl_Decode :: "string \<Rightarrow> string + Descriptor"
  pl_Hash :: "string \<Rightarrow> string"

definition ProtocolVersion :: int where
  "ProtocolVersion = 3"

definition MaxMessageSize :: nat where
  "MaxMessageSize = 4194304"

definition LifecyclePhases :: "string list" where
  "LifecyclePhases =
     [''config.evaluate'', ''config.expand'', ''graph.validate'', ''selection.ready'', ''source.vendor.before'', ''source.vendor.after'',
      ''run.prepare'', ''observation.prepare'', ''node.prepare'', ''credential.acquire'', ''input.resolve'', ''node.init.before'', ''node.init.after'',
      ''node.plan.ready'', ''node.mutation.admit'', ''node.mutation.finished'', ''node.outputs.ready'', ''node.read.before'', ''node.read.after'',
      ''native.operation.before'', ''native.operation.after'', ''node.finished'', ''level.finished'', ''run.finished'', ''credential.renew'',
      ''credential.release'', ''session.close'']"

definition gatePhases :: "string list" where
  "gatePhases =
     [''graph.validate'', ''selection.ready'', ''run.prepare'', ''node.prepare'', ''source.vendor.before'', ''node.init.before'',
      ''node.plan.ready'', ''node.mutation.admit'', ''native.operation.before'', ''level.finished'']"

text \<open>The base name of a name without separators is the name itself.\<close>

definition fileName :: "string \<Rightarrow> bool" where
  "fileName exe \<longleftrightarrow> exe \<noteq> '''' \<and> exe \<noteq> ''.'' \<and> \<not> list_ex (\<lambda>c. c \<in> set ''/:'' \<or> c = CHR 0x5C) exe"

definition validateParameter :: "packageLib \<Rightarrow> string \<Rightarrow> string list \<Rightarrow> Parameter \<Rightarrow> goErr + string list" where
  "validateParameter L feature params p =
     (if \<not> identifierName (pm_Name p) \<or> pm_Name p \<in> set params
      then Inl (ErrText (''feature.'' @ feature @ '': invalid or duplicate parameter name''))
      else if \<not> pl_Type L (pm_Type p) then Inl (ErrText (''feature.'' @ feature @ '': invalid parameter type''))
      else Inr (pm_Name p # params))"

definition validateFunction :: "packageLib \<Rightarrow> Feature \<Rightarrow> goErr + unit" where
  "validateFunction L f =
     (if ft_Effect f \<noteq> ''pure'' \<or> ft_Events f \<noteq> [] \<or> ft_Sensitive f
      then Inl (ErrText (''feature.'' @ ft_Name f @ '': functions must be pure and non-sensitive''))
      else if \<not> pl_Type L (ft_ResultType f) then Inl (ErrText (''feature.'' @ ft_Name f @ '': invalid result type''))
      else bindR (foldR (validateParameter L (ft_Name f)) [] (ft_Parameters f)) (\<lambda>_. Inr ()))"

definition validatePhase :: "Feature \<Rightarrow> unit \<Rightarrow> string \<Rightarrow> goErr + unit" where
  "validatePhase f u phase =
     (if phase \<notin> set LifecyclePhases then Inl (ErrText (''feature.'' @ ft_Name f @ '': unsupported event''))
      else if ft_Kind f = ''gate'' \<and> phase \<notin> set gatePhases
      then Inl (ErrText (''feature.'' @ ft_Name f @ '': event cannot block a completed operation''))
      else if ft_Kind f = ''gate'' \<and> phase = ''graph.validate'' \<and> ft_Effect f \<noteq> ''pure''
      then Inl (ErrText (''feature.'' @ ft_Name f @ '': static graph gates must be pure''))
      else if ft_Kind f = ''validator'' \<and> phase \<noteq> ''graph.validate''
      then Inl (ErrText (''feature.'' @ ft_Name f @ '': validators run at graph.validate''))
      else Inr ())"

definition validateLifecycle :: "Feature \<Rightarrow> goErr + unit" where
  "validateLifecycle f =
     (if ft_Effect f \<notin> {''pure'', ''read_only'', ''idempotent_external'', ''non_idempotent_external''}
      then Inl (ErrText (''feature.'' @ ft_Name f @ '': invalid effect''))
      else if ft_Kind f \<in> {''validator'', ''expansion''} \<and> ft_Effect f \<noteq> ''pure''
      then Inl (ErrText (''feature.'' @ ft_Name f @ '': static features must be pure''))
      else if ft_Kind f \<in> {''gate'', ''validator'', ''observer''} \<and> ft_Events f = []
      then Inl (ErrText (''feature.'' @ ft_Name f @ '': declare lifecycle events''))
      else foldR (validatePhase f) () (ft_Events f))"

definition validateFeature :: "packageLib \<Rightarrow> string list \<Rightarrow> Feature \<Rightarrow> goErr + string list" where
  "validateFeature L seen f =
     (if \<not> identifierName (ft_Name f) \<or> ft_Name f \<in> set seen then Inl (ErrText ''invalid or duplicate plugin feature name'')
      else if ft_Kind f = ''function'' then bindR (validateFunction L f) (\<lambda>_. Inr (ft_Name f # seen))
      else if ft_Kind f \<in> {''gate'', ''observer'', ''input_resolver'', ''credential_provider'', ''validator'', ''expansion''}
      then bindR (validateLifecycle f) (\<lambda>_. Inr (ft_Name f # seen))
      else Inl (ErrText (''feature.'' @ ft_Name f @ '': unsupported kind'')))"

definition validateDescriptor :: "packageLib \<Rightarrow> Descriptor \<Rightarrow> goErr + unit" where
  "validateDescriptor L d =
     (if \<not> identifierName (ds_Name d) then Inl (ErrText ''invalid plugin name'')
      else if \<not> pl_Version L (ds_Version d) then Inl (ErrText ''invalid plugin version'')
      else if ds_Protocol d \<noteq> ProtocolVersion then Inl (ErrText ''unsupported plugin protocol'')
      else if \<not> fileName (ds_Executable d) then Inl (ErrText ''plugin executable must be a filename'')
      else bindR (foldR (validateFeature L) [] (ds_Features d)) (\<lambda>_. Inr ()))"

subsection \<open>Packages\<close>

text \<open>A directory: the bytes of its descriptor, and its other files with whether each is a regular file.\<close>

record packageDir =
  dir_Descriptor :: "string option"
  dir_Files :: "(bool \<times> string) smap"

definition Inspect :: "packageLib \<Rightarrow> string \<Rightarrow> packageDir option \<Rightarrow> goErr + Package" where
  "Inspect L path dir =
     (case dir of
        None \<Rightarrow> Inl (ErrText ''opening plugin package'')
      | Some p \<Rightarrow>
          (case dir_Descriptor p of
             None \<Rightarrow> Inl (ErrText ''reading plugin descriptor'')
           | Some bytes \<Rightarrow>
               if length bytes > MaxMessageSize then Inl (ErrText ''plugin descriptor exceeds size limit'')
               else (case pl_Decode L bytes of
                  Inl e \<Rightarrow> Inl (ErrText e)
                | Inr d \<Rightarrow>
                    bindR (validateDescriptor L d) (\<lambda>_.
                      case map_of (dir_Files p) (ds_Executable d) of
                        None \<Rightarrow> Inl (ErrText ''opening plugin executable'')
                      | Some (regular, exe) \<Rightarrow>
                          if \<not> regular then Inl (ErrText ''plugin executable must be a regular file'')
                          else Inr \<lparr>pk_Descriptor = d, pk_Path = path @ ''/'' @ ds_Executable d,
                                    pk_Digest = pl_Hash L (exe @ bytes), pk_ExecutableDigest = pl_Hash L exe\<rparr>))))"

subsection \<open>The lock file\<close>

record LockEntry =
  le_Alias :: string
  le_Source :: string
  le_Version :: string
  le_Platform :: string
  le_Digest :: string

record packageLock =
  pkl_Protocol :: int
  pkl_Packages :: "LockEntry list"

definition isHexDigest :: "string \<Rightarrow> bool" where
  "isHexDigest s \<longleftrightarrow> length s = 64 \<and> list_all isHexChar s"

definition entryKey :: "LockEntry \<Rightarrow> string" where
  "entryKey e = le_Alias e @ '':'' @ le_Platform e"

definition checkEntry :: "string list \<Rightarrow> LockEntry \<Rightarrow> goErr + string list" where
  "checkEntry seen e =
     (if entryKey e \<in> set seen \<or> \<not> isHexDigest (le_Digest e) then Inl (ErrText ''invalid plugin lock entry'')
      else Inr (entryKey e # seen))"

text \<open>The lock file as read: missing, unreadable or undecodable, or its content.\<close>

datatype lockText = NoLock | BadLock string | LockText packageLock

fun readLock :: "lockText \<Rightarrow> goErr + packageLock" where
  "readLock NoLock = Inr \<lparr>pkl_Protocol = 1, pkl_Packages = []\<rparr>"
| "readLock (BadLock e) = Inl (ErrText e)"
| "readLock (LockText lock) =
     (if pkl_Protocol lock \<noteq> 1 then Inl (ErrText ''unsupported plugin lock protocol'')
      else bindR (foldR checkEntry [] (pkl_Packages lock)) (\<lambda>_. Inr lock))"

definition versionMatches :: "packageLib \<Rightarrow> PluginConfig \<Rightarrow> Package \<Rightarrow> goErr option" where
  "versionMatches L c p =
     (case pl_Check L (plc_Version c) (ds_Version (pk_Descriptor p)) of
        None \<Rightarrow> Some (ErrText (''plugin.'' @ plc_Name c @ ''.version''))
      | Some ok \<Rightarrow> if pl_Version L (ds_Version (pk_Descriptor p)) \<and> ok then None
          else Some (ErrText (''plugin.'' @ plc_Name c @ '': package version does not satisfy the constraint'')))"

text \<open>The packages of a blueprint directory by digest and platform, and its lock file.\<close>

record packageStore =
  ps_Cache :: "((string \<times> string) \<times> packageDir) list"
  ps_Lock :: lockText

definition cachePath :: "string \<Rightarrow> string \<Rightarrow> string" where
  "cachePath digest platform = ''.terragraph/plugins/packages/'' @ digest @ ''/'' @ platform"

definition resolveEntry :: "packageLib \<Rightarrow> string \<Rightarrow> packageStore \<Rightarrow> PluginConfig \<Rightarrow> LockEntry \<Rightarrow> goErr + Package" where
  "resolveEntry L platform s c entry =
     (if le_Source entry \<noteq> plc_Source c then Inl (ErrText (''plugin.'' @ plc_Name c @ '': source differs from lock''))
      else case Inspect L (cachePath (le_Digest entry) platform) (map_of (ps_Cache s) (le_Digest entry, platform)) of
        Inl e \<Rightarrow> Inl e
      | Inr p \<Rightarrow>
          if pk_Digest p \<noteq> le_Digest entry \<or> ds_Version (pk_Descriptor p) \<noteq> le_Version entry
          then Inl (ErrText (''plugin.'' @ plc_Name c @ '': package checksum mismatch''))
          else (case versionMatches L c p of Some e \<Rightarrow> Inl e | None \<Rightarrow> Inr p))"

definition resolvePackage :: "packageLib \<Rightarrow> string \<Rightarrow> packageStore \<Rightarrow> PluginConfig \<Rightarrow> goErr + Package" where
  "resolvePackage L platform s c =
     bindR (readLock (ps_Lock s)) (\<lambda>lock.
       case find (\<lambda>e. le_Alias e = plc_Name c \<and> le_Platform e = platform) (pkl_Packages lock) of
         None \<Rightarrow> Inl (ErrText (''plugin.'' @ plc_Name c @ '': no locked package''))
       | Some entry \<Rightarrow> resolveEntry L platform s c entry)"
subsection \<open>Installation\<close>

text \<open>
  What can go wrong: each call may fail; \<open>if_Remove\<close> gives what a failed removal leaves; \<open>if_Copied\<close> is the copy
  made of the source, which may have changed since it was inspected.
\<close>

record installFault =
  if_Mkdir :: bool
  if_Temp :: bool
  if_Copy :: bool
  if_Copied :: packageDir
  if_Remove :: "packageDir option option"
  if_Rename :: bool
  if_LockFile :: bool

fun lastIndex :: "('a \<Rightarrow> bool) \<Rightarrow> 'a list \<Rightarrow> nat option" where
  "lastIndex P [] = None"
| "lastIndex P (x # xs) = (case lastIndex P xs of Some i \<Rightarrow> Some (Suc i) | None \<Rightarrow> if P x then Some 0 else None)"

definition setCache :: "packageStore \<Rightarrow> string \<times> string \<Rightarrow> packageDir option \<Rightarrow> packageStore" where
  "setCache s key dir =
     s\<lparr>ps_Cache := (case dir of None \<Rightarrow> AList.delete key (ps_Cache s) | Some d \<Rightarrow> AList.update key d (ps_Cache s))\<rparr>"

text \<open>The destination keeps verified bytes; anything else there is replaced by the verified copy.\<close>

definition publishPackage :: "packageLib \<Rightarrow> string \<Rightarrow> installFault \<Rightarrow> Package \<Rightarrow> packageStore \<Rightarrow> packageStore \<times> goErr option" where
  "publishPackage L platform fault p s =
     (let key = (pk_Digest p, platform) in
      if (case Inspect L (cachePath (pk_Digest p) platform) (map_of (ps_Cache s) key) of
            Inr existing \<Rightarrow> pk_Digest existing = pk_Digest p | Inl _ \<Rightarrow> False) then (s, None)
      else case if_Remove fault of
        Some left \<Rightarrow> (setCache s key left, Some (ErrText ''removing damaged plugin package''))
      | None \<Rightarrow>
          if if_Rename fault then (setCache s key None, Some (ErrText ''publishing plugin package''))
          else (setCache s key (Some (if_Copied fault)), None))"

definition installEntry :: "string \<Rightarrow> PluginConfig \<Rightarrow> Package \<Rightarrow> LockEntry" where
  "installEntry platform c p =
     \<lparr>le_Alias = plc_Name c, le_Source = plc_Source c, le_Version = ds_Version (pk_Descriptor p), le_Platform = platform,
      le_Digest = pk_Digest p\<rparr>"

definition entryIndex :: "LockEntry \<Rightarrow> packageLock \<Rightarrow> nat option" where
  "entryIndex entry lock = lastIndex (\<lambda>old. le_Alias old = le_Alias entry \<and> le_Platform old = le_Platform entry) (pkl_Packages lock)"

definition updateLock :: "LockEntry \<Rightarrow> packageLock \<Rightarrow> packageLock" where
  "updateLock entry lock =
     lock\<lparr>pkl_Packages := (case entryIndex entry lock of
        None \<Rightarrow> pkl_Packages lock @ [entry]
      | Some i \<Rightarrow> (pkl_Packages lock)[i := entry])\<rparr>"

definition Install ::
  "packageLib \<Rightarrow> string \<Rightarrow> installFault \<Rightarrow> PluginConfig \<Rightarrow> packageDir option \<Rightarrow> bool \<Rightarrow> packageStore \<Rightarrow> packageStore \<times> goErr option" where
  "Install L platform fault c source locked s =
     (case Inspect L ''source'' source of
        Inl e \<Rightarrow> (s, Some e)
      | Inr p \<Rightarrow>
          (case versionMatches L c p of
             Some e \<Rightarrow> (s, Some e)
           | None \<Rightarrow>
               (case readLock (ps_Lock s) of
                  Inl e \<Rightarrow> (s, Some e)
                | Inr lock \<Rightarrow>
                    let entry = installEntry platform c p; index = entryIndex entry lock in
                    if locked \<and> (case index of None \<Rightarrow> True | Some i \<Rightarrow> pkl_Packages lock ! i \<noteq> entry)
                    then (s, Some (ErrText (''plugin.'' @ plc_Name c @ '': package does not match lock'')))
                    else if if_Mkdir fault \<or> if_Temp fault \<or> if_Copy fault then (s, Some (ErrText ''copying plugin package''))
                    else (case Inspect L ''copy'' (Some (if_Copied fault)) of
                       Inl e \<Rightarrow> (s, Some e)
                     | Inr copied \<Rightarrow>
                         if pk_Digest copied \<noteq> pk_Digest p then (s, Some (ErrText ''plugin package changed during installation''))
                         else (case publishPackage L platform fault p s of
                            (s', Some e) \<Rightarrow> (s', Some e)
                          | (s', None) \<Rightarrow>
                              if locked then (s', None)
                              else if if_LockFile fault then (s', Some (ErrText ''writing plugin lock''))
                              else (s'\<lparr>ps_Lock := LockText (updateLock entry lock)\<rparr>, None))))))"

subsection \<open>What is installed is what is resolved\<close>

text \<open>
  What the digest of a package covers: the bytes of its executable followed by those of its descriptor. The laws of the
  libraries are those of SHA-256 and of JSON. A digest has sixty-four hexadecimal digits, and a text that ends in a
  second complete descriptor differs from it by leading white space only, so both decode to the same. That no two of
  the byte strings at hand collide is a hypothesis of its own.
\<close>

definition packageBytes :: "packageLib \<Rightarrow> packageDir option \<Rightarrow> string option" where
  "packageBytes L dir =
     Option.bind dir (\<lambda>p. Option.bind (dir_Descriptor p) (\<lambda>bytes.
       case pl_Decode L bytes of
         Inl _ \<Rightarrow> None
       | Inr d \<Rightarrow> map_option (\<lambda>(regular, exe). exe @ bytes) (map_of (dir_Files p) (ds_Executable d))))"

definition libraryLaws :: "packageLib \<Rightarrow> bool" where
  "libraryLaws L \<longleftrightarrow>
     (\<forall>bytes. isHexDigest (pl_Hash L bytes)) \<and>
     (\<forall>space bytes d d'. pl_Decode L (space @ bytes) = Inr d \<and> pl_Decode L bytes = Inr d' \<longrightarrow> d = d')"

definition packagesAtHand :: "packageDir option \<Rightarrow> installFault \<Rightarrow> packageStore \<Rightarrow> packageDir option set" where
  "packagesAtHand source fault s = {source, Some (if_Copied fault)} \<union> Some ` snd ` set (ps_Cache s)"

definition noCollision :: "packageLib \<Rightarrow> packageDir option set \<Rightarrow> bool" where
  "noCollision L dirs \<longleftrightarrow>
     (\<forall>x y b c. x \<in> dirs \<and> y \<in> dirs \<and> packageBytes L x = Some b \<and> packageBytes L y = Some c \<and> pl_Hash L b = pl_Hash L c \<longrightarrow> b = c)"

lemma Inspect_bytes:
  assumes "Inspect L path dir = Inr p"
  obtains exe bytes where "packageBytes L dir = Some (exe @ bytes)" "pk_Digest p = pl_Hash L (exe @ bytes)" "pl_Decode L bytes = Inr (pk_Descriptor p)"
  using assms by (fastforce simp: Inspect_def packageBytes_def split: option.splits if_splits sum.splits)

lemma decode_overlap:
  assumes "libraryLaws L" "exe @ bytes = exe' @ bytes'" "pl_Decode L bytes = Inr d" "pl_Decode L bytes' = Inr d'"
  shows "d = d'"
proof -
  from assms(2) obtain us where "exe = exe' @ us \<and> us @ bytes = bytes' \<or> exe @ us = exe' \<and> bytes = us @ bytes'"
    by (auto simp: append_eq_append_conv2)
  then show ?thesis using assms(1,3,4) unfolding libraryLaws_def by metis
qed

text \<open>The digest determines the bytes, and the bytes the descriptor.\<close>

lemma same_digest:
  assumes "libraryLaws L" "noCollision L dirs" "x \<in> dirs" "y \<in> dirs"
    and "Inspect L path x = Inr p" "Inspect L path' y = Inr q" "pk_Digest p = pk_Digest q"
  shows "packageBytes L x = packageBytes L y \<and> pk_Descriptor p = pk_Descriptor q"
proof -
  from assms(5) obtain e b where x: "packageBytes L x = Some (e @ b)" "pk_Digest p = pl_Hash L (e @ b)" "pl_Decode L b = Inr (pk_Descriptor p)"
    by (rule Inspect_bytes)
  from assms(6) obtain e' b' where y: "packageBytes L y = Some (e' @ b')" "pk_Digest q = pl_Hash L (e' @ b')" "pl_Decode L b' = Inr (pk_Descriptor q)"
    by (rule Inspect_bytes)
  have "pl_Hash L (e @ b) = pl_Hash L (e' @ b')" using x(2) y(2) assms(7) by simp
  then have "e @ b = e' @ b'" using assms(2-4) x(1) y(1) unfolding noCollision_def by blast
  with decode_overlap [OF assms(1) this x(3) y(3)] x(1) y(1) show ?thesis by simp
qed


lemma Inspect_path:
  assumes "Inspect L path dir = Inr p"
  shows "\<exists>p'. Inspect L path' dir = Inr p' \<and> pk_Digest p' = pk_Digest p \<and> pk_Descriptor p' = pk_Descriptor p"
  using assms by (auto simp: Inspect_def split: option.splits if_splits sum.splits)

lemma Inspect_digest: "Inspect L path dir = Inr p \<Longrightarrow> \<exists>bytes. pk_Digest p = pl_Hash L bytes"
  by (fastforce simp: Inspect_def split: option.splits if_splits sum.splits)

lemma lastIndex_Some: "lastIndex P xs = Some i \<Longrightarrow> i < length xs \<and> P (xs ! i)"
  by (induction xs arbitrary: i) (auto split: option.splits if_splits)

lemma lastIndex_None: "lastIndex P xs = None \<longleftrightarrow> (\<forall>x \<in> set xs. \<not> P x)"
  by (induction xs) (auto split: option.splits if_splits)

lemma checkEntries:
  "foldR checkEntry seen es = Inr out \<Longrightarrow>
   list_all (isHexDigest \<circ> le_Digest) es \<and> distinct (map entryKey es) \<and> set (map entryKey es) \<inter> set seen = {}"
  by (induction es arbitrary: seen) (fastforce simp: checkEntry_def split: if_splits)+

lemma checkEntries_ok:
  assumes "list_all (isHexDigest \<circ> le_Digest) es" "distinct (map entryKey es)" "set (map entryKey es) \<inter> set seen = {}"
  shows "isOk (foldR checkEntry seen es)"
  using assms by (induction es arbitrary: seen) (auto simp: checkEntry_def)

lemma readLock_valid:
  "readLock t = Inr lock \<Longrightarrow> pkl_Protocol lock = 1 \<and> list_all (isHexDigest \<circ> le_Digest) (pkl_Packages lock) \<and> distinct (map entryKey (pkl_Packages lock))"
  by (cases t) (auto dest: checkEntries split: if_splits)

lemma readLock_text:
  assumes "pkl_Protocol lock = 1" "list_all (isHexDigest \<circ> le_Digest) (pkl_Packages lock)" "distinct (map entryKey (pkl_Packages lock))"
  shows "readLock (LockText lock) = Inr lock"
  using checkEntries_ok [OF assms(2,3), of "[]"] assms(1) by (auto simp: isOk_def split: sum.splits)
text \<open>A lock with the entry of an installation is a valid lock that finds it.\<close>

lemma entryKey_pair:
  assumes "entryKey e = entryKey e'" "CHR '':'' \<notin> set (le_Alias e')" "CHR '':'' \<notin> set (le_Platform e')"
  shows "le_Alias e = le_Alias e' \<and> le_Platform e = le_Platform e'"
  using assms append_Cons_eq_iff [of "CHR '':''" "le_Alias e'" "le_Platform e'" "le_Alias e" "le_Platform e"]
  by (auto simp: entryKey_def)

lemma updateLock_valid:
  assumes "readLock t = Inr lock" "isHexDigest (le_Digest entry)" "CHR '':'' \<notin> set (le_Alias entry)" "CHR '':'' \<notin> set (le_Platform entry)"
  shows "readLock (LockText (updateLock entry lock)) = Inr (updateLock entry lock)"
    and "find (\<lambda>e. le_Alias e = le_Alias entry \<and> le_Platform e = le_Platform entry) (pkl_Packages (updateLock entry lock)) = Some entry"
proof -
  let ?es = "pkl_Packages lock" and ?m = "\<lambda>e. le_Alias e = le_Alias entry \<and> le_Platform e = le_Platform entry"
  note valid = readLock_valid [OF assms(1)]
  have key: "?m e \<longleftrightarrow> entryKey e = entryKey entry" for e
    using entryKey_pair [OF _ assms(3,4)] by (auto simp: entryKey_def)
  show "readLock (LockText (updateLock entry lock)) = Inr (updateLock entry lock)"
  proof (rule readLock_text, goal_cases)
    case 2
    then show ?case using valid assms(2)
      by (auto simp: updateLock_def list_all_iff split: option.splits dest!: set_update_subset_insert [THEN subsetD])
  next
    case 3
    show ?case
    proof (cases "entryIndex entry lock")
      case None
      then have "entryKey entry \<notin> entryKey ` set ?es"
        using key by (auto simp: entryIndex_def lastIndex_None)
      with valid None show ?thesis by (simp add: updateLock_def)
    next
      case (Some i)
      then have "i < length ?es" "entryKey (?es ! i) = entryKey entry"
        using lastIndex_Some [of ?m ?es i] key by (auto simp: entryIndex_def)
      then have "map entryKey (?es[i := entry]) = map entryKey ?es" by (metis list_update_id map_update)
      with valid Some show ?thesis by (simp add: updateLock_def)
    qed
  qed (use valid in \<open>simp add: updateLock_def\<close>)
  then have unique: "distinct (map entryKey (pkl_Packages (updateLock entry lock)))" using readLock_valid by blast
  have mem: "entry \<in> set (pkl_Packages (updateLock entry lock))"
    using lastIndex_Some [of ?m ?es] by (auto simp: updateLock_def entryIndex_def set_update_memI split: option.splits)
  then obtain e where e: "find ?m (pkl_Packages (updateLock entry lock)) = Some e"
    by (cases "find ?m (pkl_Packages (updateLock entry lock))") (auto simp: find_None_iff)
  then have "?m e" "e \<in> set (pkl_Packages (updateLock entry lock))" by (auto simp: find_Some_iff)
  then have "e = entry" using unique mem key by (auto simp: distinct_map dest: inj_onD)
  with e show "find ?m (pkl_Packages (updateLock entry lock)) = Some entry" by simp
qed
lemma publishPackage_holds:
  assumes "publishPackage L platform fault p s = (s', None)" "Inspect L path (Some (if_Copied fault)) = Inr copied" "pk_Digest copied = pk_Digest p"
  shows "(\<exists>q. Inspect L (cachePath (pk_Digest p) platform) (map_of (ps_Cache s') (pk_Digest p, platform)) = Inr q \<and> pk_Digest q = pk_Digest p) \<and>
    ps_Lock s' = ps_Lock s \<and> map_of (ps_Cache s') (pk_Digest p, platform) \<in> {map_of (ps_Cache s) (pk_Digest p, platform), Some (if_Copied fault)}"
proof -
  obtain q where q: "Inspect L (cachePath (pk_Digest p) platform) (Some (if_Copied fault)) = Inr q" "pk_Digest q = pk_Digest p"
    using Inspect_path [OF assms(2)] assms(3) by metis
  with assms(1) show ?thesis
    by (auto simp: publishPackage_def Let_def setCache_def AList.update_conv' split: if_splits sum.splits option.splits)
qed

text \<open>How a successful installation went.\<close>

lemma Install_ok:
  assumes "Install L platform fault c source locked s = (s', None)"
  obtains p lock q where "Inspect L ''source'' source = Inr p" "versionMatches L c p = None" "readLock (ps_Lock s) = Inr lock"
    "Inspect L (cachePath (pk_Digest p) platform) (map_of (ps_Cache s') (pk_Digest p, platform)) = Inr q" "pk_Digest q = pk_Digest p"
    "map_of (ps_Cache s') (pk_Digest p, platform) \<in> packagesAtHand source fault s"
    "if locked then ps_Lock s' = ps_Lock s \<and>
       (\<exists>i. entryIndex (installEntry platform c p) lock = Some i \<and> pkl_Packages lock ! i = installEntry platform c p)
     else ps_Lock s' = LockText (updateLock (installEntry platform c p) lock)"
proof -
  obtain p lock where p: "Inspect L ''source'' source = Inr p" "versionMatches L c p = None" "readLock (ps_Lock s) = Inr lock"
    using assms by (auto simp: Install_def split: sum.splits option.splits)
  obtain copied s1 where copied: "Inspect L ''copy'' (Some (if_Copied fault)) = Inr copied" "pk_Digest copied = pk_Digest p"
    and pub: "publishPackage L platform fault p s = (s1, None)"
    and s': "ps_Cache s' = ps_Cache s1"
    and lk: "if locked then ps_Lock s' = ps_Lock s1 \<and>
       (\<exists>i. entryIndex (installEntry platform c p) lock = Some i \<and> pkl_Packages lock ! i = installEntry platform c p)
     else ps_Lock s' = LockText (updateLock (installEntry platform c p) lock)"
    using assms p by (auto simp: Install_def Let_def split: sum.splits option.splits prod.splits if_splits)
  let ?key = "(pk_Digest p, platform)"
  from publishPackage_holds [OF pub copied] obtain q
    where q: "Inspect L (cachePath (pk_Digest p) platform) (map_of (ps_Cache s1) ?key) = Inr q" "pk_Digest q = pk_Digest p"
      "ps_Lock s1 = ps_Lock s" and at: "map_of (ps_Cache s1) ?key \<in> {map_of (ps_Cache s) ?key, Some (if_Copied fault)}" by blast
  obtain d where d: "map_of (ps_Cache s1) ?key = Some d" using q(1) by (cases "map_of (ps_Cache s1) ?key") (simp_all add: Inspect_def)
  moreover have "d \<in> snd ` set (ps_Cache s)" if "map_of (ps_Cache s) ?key = Some d" using map_of_SomeD [OF that] by force
  ultimately have "map_of (ps_Cache s1) ?key \<in> packagesAtHand source fault s" using at by (auto simp: packagesAtHand_def)
  with p s' lk q show ?thesis by (intro that [of p lock q]) simp_all
qed


lemma locked_found:
  assumes "readLock t = Inr lock" "entryIndex entry lock = Some i" "pkl_Packages lock ! i = entry"
    and "CHR '':'' \<notin> set (le_Alias entry)" "CHR '':'' \<notin> set (le_Platform entry)" "isHexDigest (le_Digest entry)"
  shows "find (\<lambda>e. le_Alias e = le_Alias entry \<and> le_Platform e = le_Platform entry) (pkl_Packages lock) = Some entry"
proof -
  have "(pkl_Packages lock)[i := entry] = pkl_Packages lock" using assms(3) list_update_id by metis
  then have "updateLock entry lock = lock" using assms(2) by (simp add: updateLock_def)
  with updateLock_valid(2) [OF assms(1,6,4,5)] show ?thesis by simp
qed


definition sampleDescriptor :: Descriptor where
  "sampleDescriptor = \<lparr>ds_Name = ''p'', ds_Version = ''1.0'', ds_Protocol = 3, ds_Executable = ''exe'', ds_Features = []\<rparr>"

text \<open>A decoder that skips white space before the one descriptor it knows, and a digest that tells the sample package from others.\<close>

definition samplePackageLib :: packageLib where
  "samplePackageLib = \<lparr>pl_Version = (\<lambda>_. True), pl_Check = (\<lambda>_ _. Some True), pl_Type = (\<lambda>_. True),
     pl_Decode = (\<lambda>bytes. if dropWhile (\<lambda>ch. ch = CHR '' '') bytes = ''{}'' then Inr sampleDescriptor else Inl ''syntax''),
     pl_Hash = (\<lambda>bytes. (if bytes = ''code{}'' then CHR ''b'' else CHR ''a'') # replicate 63 (CHR ''a''))\<rparr>"

definition samplePackageDir :: packageDir where
  "samplePackageDir = \<lparr>dir_Descriptor = Some ''{}'', dir_Files = [(''exe'', True, ''code'')]\<rparr>"

definition samplePlugin :: PluginConfig where
  "samplePlugin = \<lparr>plc_Name = ''p'', plc_Source = ''src'', plc_Version = ''>= 1'', plc_Config = [], plc_Features = [],
     plc_Environment = [], plc_PlanAccess = False\<rparr>"

definition sampleFault :: installFault where
  "sampleFault = \<lparr>if_Mkdir = False, if_Temp = False, if_Copy = False, if_Copied = samplePackageDir, if_Remove = None,
     if_Rename = False, if_LockFile = False\<rparr>"

text \<open>The cache already holds a damaged copy under the same digest.\<close>

definition sampleStore :: packageStore where
  "sampleStore = \<lparr>ps_Cache = [((pl_Hash samplePackageLib ''code{}'', ''linux_amd64''), \<lparr>dir_Descriptor = Some '' {}'', dir_Files = [(''exe'', True, ''other'')]\<rparr>)],
     ps_Lock = NoLock\<rparr>"

definition sampleInstall :: "packageStore \<times> goErr option" where
  "sampleInstall = Install samplePackageLib ''linux_amd64'' sampleFault samplePlugin (Some samplePackageDir) False sampleStore"

lemma sample_libraryLaws: "libraryLaws samplePackageLib"
  by (auto simp: libraryLaws_def samplePackageLib_def isHexDigest_def isHexChar_def list_all_iff split: if_splits)

lemma sample_noCollision: "noCollision samplePackageLib (packagesAtHand (Some samplePackageDir) sampleFault sampleStore)"
  by (auto simp: noCollision_def packagesAtHand_def samplePackageLib_def samplePackageDir_def sampleFault_def sampleStore_def
      sampleDescriptor_def packageBytes_def split: if_splits)


end
