(* ===== verification/Plugin_Session.thy ===== *)
theory Plugin_Session
  imports Exec_Record Plugin_Packages "HOL-Library.State_Monad"
begin

text \<open>
  Plugin sessions and feature dispatch (\<open>internal/plugins/session.go\<close>, \<open>internal/plugins/lifecycle.go\<close>).  Operations
  are programs of the library's state monad over \<open>pluginState\<close>; what the program does not determine (the plugin's
  answers, the process start, the context, the clock, the recorder, the file system) is the parameter \<open>featureHost\<close>,
  asked once per tick.  \<open>pt_Trace\<close> keeps what happened in order: calls recorded, processes opened, requests sent.
  Log relaying is left out, and the graph an event carries.
\<close>

subsection \<open>Data\<close>

record callError =
  ce_Code :: string
  ce_Fatal :: bool
  ce_Retryable :: bool
  ce_Sent :: bool
  ce_OutcomeUnknown :: bool

datatype plugErr =
    CallErr callError
  | PlugText string
  | PlugCtx string
  | PlugAt string string string plugErr
  | PlugJoin "plugErr list"

text \<open>\<open>errors.As\<close> for a call error.\<close>

fun asCall :: "plugErr \<Rightarrow> callError option"
  and asCalls :: "plugErr list \<Rightarrow> callError option" where
  "asCall (CallErr c) = Some c"
| "asCall (PlugText t) = None"
| "asCall (PlugCtx t) = None"
| "asCall (PlugAt alias feature phase e) = asCall e"
| "asCall (PlugJoin es) = asCalls es"
| "asCalls [] = None"
| "asCalls (e # es) = (case asCall e of Some c \<Rightarrow> Some c | None \<Rightarrow> asCalls es)"

definition joinPlug :: "plugErr option list \<Rightarrow> plugErr option" where
  "joinPlug es = (case List.map_filter id es of [] \<Rightarrow> None | e # r \<Rightarrow> Some (PlugJoin (e # r)))"

record Fault =
  fl_Code :: string
  fl_Fatal :: bool
  fl_Retryable :: bool

record pluginValue =
  pv_Type :: string
  pv_JSON :: string
  pv_Sensitive :: bool

record ExpandedNode =
  xd_Name :: string
  xd_Source :: string
  xd_Vars :: "pluginValue smap"

record ExpandedEdge =
  xe_From :: string
  xe_Output :: string
  xe_To :: string
  xe_Input :: string

record Response =
  rs_Identity :: string
  rs_ExpiresAt :: int
  rs_Expansion :: "(ExpandedNode list \<times> ExpandedEdge list) option"
  rs_Value :: "pluginValue option"
  rs_Decision :: string
  rs_Version :: string
  rs_Credentials :: "string smap"
  rs_Lease :: "Lease option"
  rs_Report :: string
  rs_Fault :: "Fault option"

record Request =
  rq_Action :: string
  rq_Feature :: string
  rq_Config :: "jval smap"
  rq_Reference :: "jval smap"
  rq_Event :: pluginEvent
  rq_Key :: string
  rq_Lease :: "Lease option"

definition noResponse :: Response where
  "noResponse = \<lparr>rs_Identity = '''', rs_ExpiresAt = 0, rs_Expansion = None, rs_Value = None, rs_Decision = '''', rs_Version = '''',
     rs_Credentials = [], rs_Lease = None, rs_Report = '''', rs_Fault = None\<rparr>"

definition noEvent :: pluginEvent where
  "noEvent = \<lparr>ev_ID = '''', ev_ExecutionID = '''', ev_Operation = '''', ev_Phase = '''', ev_Node = '''', ev_Nodes = [], ev_Status = '''',
     ev_PlanID = '''', ev_Plan = None, ev_Metadata = []\<rparr>"

definition noRequest :: Request where
  "noRequest = \<lparr>rq_Action = '''', rq_Feature = '''', rq_Config = [], rq_Reference = [], rq_Event = noEvent, rq_Key = '''', rq_Lease = None\<rparr>"

record featureInstance =
  fi_ConfigDigest :: string
  fi_Config :: PluginConfig
  fi_Pkg :: Package
  fi_Feature :: Feature
  fi_Mode :: string
  fi_Timeout :: int

abbreviation fi_Alias :: "featureInstance \<Rightarrow> string" where
  "fi_Alias f \<equiv> plc_Name (fi_Config f)"

abbreviation fi_Kind :: "featureInstance \<Rightarrow> string" where
  "fi_Kind f \<equiv> ft_Kind (fi_Feature f)"

abbreviation fi_Effect :: "featureInstance \<Rightarrow> string" where
  "fi_Effect f \<equiv> ft_Effect (fi_Feature f)"

text \<open>The settings of a lifecycle that do not change.  \<open>lc_Record\<close>: a recorder was given; \<open>lc_LocalRecord\<close>: calls are
  recorded in the local receipts instead.\<close>

record Lifecycle =
  lc_Operation :: string
  lc_ExecutionID :: string
  lc_Invocation :: string
  lc_Features :: "featureInstance list"
  lc_Record :: bool
  lc_LocalRecord :: bool

record credentialLease =
  cle_Identity :: string
  cle_Feature :: featureInstance
  cle_Reference :: "jval smap"
  cle_Lease :: Lease
  cle_Env :: "string smap"

record credentialScope =
  cs_Env :: "string smap"
  cs_Leases :: "credentialLease list"
  cs_Identities :: "string smap"
  cs_Ready :: bool
  cs_Err :: "plugErr option"
  cs_Expires :: "int list"
  cs_Cancelled :: bool

datatype pluginAct = ActRecord CallRecord | ActOpen string "string list" | ActSend string Request

record pluginState =
  pt_Tick :: nat
  pt_Seq :: nat
  pt_Sessions :: "bool smap"
  pt_Failed :: "plugErr smap"
  pt_Closed :: bool
  pt_Work :: bool
  pt_Terminal :: "string list"
  pt_Completion :: "plugErr option"
  pt_Nodes :: "credentialScope smap"
  pt_LocalCalls :: "CallRecord list"
  pt_CloseDone :: bool
  pt_CloseErr :: "plugErr option"
  pt_Trace :: "pluginAct list"

datatype rpcAnswer = RpcFailed string | RpcAnswer Response

datatype writeAnswer = WriteOk | WriteFailed plugErr | WriteUnsynced plugErr

record featureHost =
  ph_RPC :: "nat \<Rightarrow> rpcAnswer"
  ph_Open :: "nat \<Rightarrow> plugErr option"
  ph_Ctx :: "nat \<Rightarrow> string option"
  ph_Record :: "nat \<Rightarrow> plugErr option"
  ph_Work :: "nat \<Rightarrow> plugErr option"
  ph_Write :: "nat \<Rightarrow> writeAnswer"
  ph_Now :: "nat \<Rightarrow> int"
  ph_Size :: "Request \<Rightarrow> nat option"
  ph_EnvValue :: "string \<Rightarrow> string option"
  ph_Hash :: "string \<Rightarrow> string"
  ph_Cty :: "pluginValue \<Rightarrow> jval option"
  ph_RemoveAll :: "nat \<Rightarrow> bool"

type_synonym 'a plug = "(pluginState, 'a) state"

definition ask :: "(nat \<Rightarrow> 'a) \<Rightarrow> 'a plug" where
  "ask f = do { s \<leftarrow> State_Monad.get; State_Monad.set (s\<lparr>pt_Tick := Suc (pt_Tick s)\<rparr>); State_Monad.return (f (pt_Tick s)) }"

definition note_act :: "pluginAct \<Rightarrow> unit plug" where
  "note_act a = State_Monad.update (\<lambda>s. s\<lparr>pt_Trace := pt_Trace s @ [a]\<rparr>)"

subsection \<open>Sessions\<close>

definition MaxPlanSize :: nat where
  "MaxPlanSize = 67108864"

definition callFailure :: "string \<Rightarrow> bool \<Rightarrow> plugErr" where
  "callFailure code fatal = CallErr \<lparr>ce_Code = code, ce_Fatal = fatal, ce_Retryable = False, ce_Sent = False, ce_OutcomeUnknown = False\<rparr>"

text \<open>\<open>^[a-z][a-z0-9_]{0,63}$\<close>\<close>

definition publicCode :: "string \<Rightarrow> bool" where
  "publicCode code \<longleftrightarrow> identifierName code \<and> length code \<le> 64"

definition transportCode :: "string \<Rightarrow> string" where
  "transportCode status =
     (if status = ''Canceled'' then ''call_cancelled''
      else if status = ''DeadlineExceeded'' then ''call_timeout''
      else if status = ''ResourceExhausted'' then ''response_too_large'' else ''transport_failed'')"

text \<open>\<open>pt_Sessions\<close> maps an alias to whether its session is closed.\<close>

definition closeSession :: "string \<Rightarrow> unit plug" where
  "closeSession alias = State_Monad.update (\<lambda>s. s\<lparr>pt_Sessions := AList.update alias True (pt_Sessions s)\<rparr>)"

definition sendRequest :: "featureHost \<Rightarrow> string \<Rightarrow> Request \<Rightarrow> (Response \<times> plugErr option) plug" where
  "sendRequest H alias r = do {
     note_act (ActSend alias r);
     answer \<leftarrow> ask (ph_RPC H);
     (case answer of
        RpcFailed status \<Rightarrow> do {
          closeSession alias;
          State_Monad.return (noResponse, Some (CallErr \<lparr>ce_Code = transportCode status, ce_Fatal = True, ce_Retryable = False,
            ce_Sent = True, ce_OutcomeUnknown = True\<rparr>)) }
      | RpcAnswer response \<Rightarrow>
          (case rs_Fault response of
             None \<Rightarrow> State_Monad.return (response, None)
           | Some fault \<Rightarrow>
               let invalid = \<not> publicCode (fl_Code fault);
                   failure = \<lparr>ce_Code = (if invalid then ''invalid_fault'' else fl_Code fault), ce_Fatal = (fl_Fatal fault \<or> invalid),
                     ce_Retryable = fl_Retryable fault, ce_Sent = True, ce_OutcomeUnknown = fl_Fatal fault\<rparr> in
               do { (if ce_Fatal failure then closeSession alias else State_Monad.return ());
                    State_Monad.return (noResponse, Some (CallErr failure)) })) }"

definition defaultPhase :: "Request \<Rightarrow> Request" where
  "defaultPhase r =
     (if ev_Phase (rq_Event r) \<noteq> '''' then r
      else if rq_Action r = ''configure'' then r\<lparr>rq_Event := (rq_Event r)\<lparr>ev_Phase := ''plugin.configure''\<rparr>\<rparr>
      else if rq_Action r = ''function'' then r\<lparr>rq_Event := (rq_Event r)\<lparr>ev_Phase := ''config.evaluate''\<rparr>\<rparr>
      else r)"

definition sessionCall :: "featureHost \<Rightarrow> string \<Rightarrow> Request \<Rightarrow> int \<Rightarrow> (Response \<times> plugErr option) plug" where
  "sessionCall H alias r timeout =
     (if (case ev_Plan (rq_Event r) of Some plan \<Rightarrow> length plan > MaxPlanSize | None \<Rightarrow> False)
      then State_Monad.return (noResponse, Some (callFailure ''request_too_large'' False))
      else if timeout \<le> 0 then State_Monad.return (noResponse, Some (PlugText ''plugin call requires a positive timeout''))
      else do {
        s \<leftarrow> State_Monad.get;
        if map_of (pt_Sessions s) alias = Some True
        then State_Monad.return (noResponse, Some (callFailure ''session_unavailable'' True))
        else do {
          queued \<leftarrow> ask (ph_Ctx H);
          (case queued of
             Some e \<Rightarrow> State_Monad.return (noResponse, Some (callFailure ''queue_cancelled'' False))
           | None \<Rightarrow> do {
               before \<leftarrow> ask (ph_Ctx H);
               (case before of
                  Some e \<Rightarrow> State_Monad.return (noResponse, Some (callFailure ''call_cancelled'' False))
                | None \<Rightarrow>
                    (case ph_Size H r of
                       None \<Rightarrow> State_Monad.return (noResponse, Some (callFailure ''invalid_request'' False))
                     | Some n \<Rightarrow>
                         if n > MaxMessageSize - 1024
                         then State_Monad.return (noResponse, Some (callFailure ''request_too_large'' False))
                         else do {
                           late \<leftarrow> ask (ph_Ctx H);
                           (case late of
                              Some e \<Rightarrow> State_Monad.return (noResponse, Some (callFailure ''call_cancelled'' False))
                            | None \<Rightarrow> sendRequest H alias (defaultPhase r)) })) }) } })"
subsection \<open>Opening sessions\<close>

definition isStaticOperation :: "string \<Rightarrow> bool" where
  "isStaticOperation op \<longleftrightarrow> op = ''static'' \<or> op = ''validate'' \<or> op = ''graph''"

text \<open>The private working directory of the invocation, made once.\<close>

definition prepareWork :: "featureHost \<Rightarrow> plugErr option plug" where
  "prepareWork H = do {
     s \<leftarrow> State_Monad.get;
     if pt_Work s then State_Monad.return None
     else do {
       r \<leftarrow> ask (ph_Work H);
       (case r of
          Some e \<Rightarrow> State_Monad.return (Some e)
        | None \<Rightarrow> do { State_Monad.update (\<lambda>s. s\<lparr>pt_Work := True\<rparr>); State_Monad.return None }) } }"

definition reservedName :: "string \<Rightarrow> bool" where
  "reservedName key \<longleftrightarrow> HasPrefix (toUpper key) ''TERRAGRAPH_'' \<or> toUpper key = ''PLUGIN_PROTOCOL_VERSIONS''"

fun inheritEnv :: "featureHost \<Rightarrow> string list \<Rightarrow> plugErr + string list" where
  "inheritEnv H [] = Inr []"
| "inheritEnv H (key # keys) =
     (if reservedName key then Inl (PlugText ''reserved environment name'')
      else bindR (inheritEnv H keys) (\<lambda>env.
        Inr ((case ph_EnvValue H key of Some v \<Rightarrow> [key @ ''='' @ v] | None \<Rightarrow> []) @ env)))"

text \<open>What a plugin process inherits: nothing in static operations, else the named variables that are set.\<close>

definition sessionEnv :: "featureHost \<Rightarrow> Lifecycle \<Rightarrow> featureInstance \<Rightarrow> plugErr + string list" where
  "sessionEnv H m f = (if isStaticOperation (lc_Operation m) then Inr [] else inheritEnv H (plc_Environment (fi_Config f)))"

definition configureRequest :: "Lifecycle \<Rightarrow> featureInstance \<Rightarrow> Request" where
  "configureRequest m f =
     noRequest\<lparr>rq_Action := ''configure'', rq_Config := plc_Config (fi_Config f),
       rq_Event := noEvent\<lparr>ev_Operation := lc_Operation m, ev_Phase := ''configure''\<rparr>\<rparr>"

definition openPlugin :: "featureHost \<Rightarrow> Lifecycle \<Rightarrow> featureInstance \<Rightarrow> string list \<Rightarrow> plugErr option plug" where
  "openPlugin H m f env = do {
     started \<leftarrow> ask (ph_Open H);
     (case started of
        Some e \<Rightarrow> State_Monad.return (Some e)
      | None \<Rightarrow> do {
          note_act (ActOpen (fi_Alias f) env);
          State_Monad.update (\<lambda>s. s\<lparr>pt_Sessions := AList.update (fi_Alias f) False (pt_Sessions s)\<rparr>);
          (_, err) \<leftarrow> sessionCall H (fi_Alias f) (configureRequest m f) 10000000000;
          State_Monad.return err }) }"

definition session :: "featureHost \<Rightarrow> Lifecycle \<Rightarrow> featureInstance \<Rightarrow> plugErr option plug" where
  "session H m f = do {
     waiting \<leftarrow> ask (ph_Ctx H);
     (case waiting of
        Some e \<Rightarrow> State_Monad.return (Some (PlugCtx e))
      | None \<Rightarrow> do {
          s \<leftarrow> State_Monad.get;
          if pt_Closed s then State_Monad.return (Some (PlugText ''plugin session closed''))
          else (case map_of (pt_Failed s) (fi_Alias f) of
            Some e \<Rightarrow> State_Monad.return (Some e)
          | None \<Rightarrow>
              if hasKey (pt_Sessions s) (fi_Alias f) then State_Monad.return None
              else do {
                prepared \<leftarrow> prepareWork H;
                own \<leftarrow> (case prepared of Some e \<Rightarrow> State_Monad.return (Some e) | None \<Rightarrow> ask (ph_Work H));
                (case own of
                   Some e \<Rightarrow> State_Monad.return (Some e)
                 | None \<Rightarrow>
                     (case sessionEnv H m f of
                        Inl e \<Rightarrow> State_Monad.return (Some e)
                      | Inr env \<Rightarrow> do {
                          err \<leftarrow> openPlugin H m f env;
                          (case err of
                             None \<Rightarrow> State_Monad.return None
                           | Some e \<Rightarrow> do {
                               State_Monad.update (\<lambda>s. s\<lparr>pt_Sessions := AList.delete (fi_Alias f) (pt_Sessions s),
                                 pt_Failed := AList.update (fi_Alias f) e (pt_Failed s)\<rparr>);
                               State_Monad.return (Some e) }) })) }) }) }"

subsection \<open>Recording calls\<close>

definition hasRecorder :: "Lifecycle \<Rightarrow> bool" where
  "hasRecorder m \<longleftrightarrow> lc_Record m \<or> lc_LocalRecord m"

definition callLimit :: nat where
  "callLimit = 10000"

fun upsertCall :: "CallRecord \<Rightarrow> CallRecord list \<Rightarrow> CallRecord list option" where
  "upsertCall call [] = None"
| "upsertCall call (old # calls) =
     (if cr_ID old = cr_ID call then Some (call # calls) else map_option ((#) old) (upsertCall call calls))"

definition recordLocal :: "featureHost \<Rightarrow> CallRecord \<Rightarrow> plugErr option plug" where
  "recordLocal H call = do {
     prepared \<leftarrow> prepareWork H;
     (case prepared of
        Some e \<Rightarrow> State_Monad.return (Some e)
      | None \<Rightarrow> do {
          s \<leftarrow> State_Monad.get;
          let found = upsertCall call (pt_LocalCalls s);
              calls = (case found of Some cs \<Rightarrow> cs | None \<Rightarrow> pt_LocalCalls s @ [call]) in
          if found = None \<and> length (pt_LocalCalls s) \<ge> callLimit then State_Monad.return (Some (PlugText ''plugin call limit reached''))
          else do {
            written \<leftarrow> ask (ph_Write H);
            (case written of
               WriteFailed e \<Rightarrow> State_Monad.return (Some e)
             | WriteUnsynced e \<Rightarrow> do { State_Monad.update (\<lambda>s. s\<lparr>pt_LocalCalls := calls\<rparr>); State_Monad.return (Some e) }
             | WriteOk \<Rightarrow> do { State_Monad.update (\<lambda>s. s\<lparr>pt_LocalCalls := calls\<rparr>); State_Monad.return None }) } }) }"

text \<open>The recorder of the lifecycle, if any.\<close>

definition recordCall :: "featureHost \<Rightarrow> Lifecycle \<Rightarrow> CallRecord \<Rightarrow> plugErr option plug" where
  "recordCall H m call =
     (if \<not> hasRecorder m then State_Monad.return None
      else do {
        err \<leftarrow> (if lc_Record m then ask (ph_Record H) else recordLocal H call);
        (if err = None then note_act (ActRecord call) else State_Monad.return ());
        State_Monad.return err })"
subsection \<open>Invoking a feature\<close>

fun showNat :: "nat \<Rightarrow> string" where
  "showNat n = (if n < 10 then [char_of (48 + n)] else showNat (n div 10) @ [char_of (48 + n mod 10)])"

declare showNat.simps [simp del]

definition stampEvent :: "Lifecycle \<Rightarrow> pluginEvent \<Rightarrow> pluginEvent plug" where
  "stampEvent m e = do {
     s \<leftarrow> State_Monad.get;
     (if ev_ID e = '''' then State_Monad.update (\<lambda>s. s\<lparr>pt_Seq := Suc (pt_Seq s)\<rparr>) else State_Monad.return ());
     State_Monad.return (e\<lparr>ev_ID := (if ev_ID e = '''' then lc_Invocation m @ ''-'' @ showNat (Suc (pt_Seq s)) else ev_ID e),
       ev_Operation := lc_Operation m, ev_ExecutionID := lc_ExecutionID m\<rparr>) }"

definition isExternal :: "featureInstance \<Rightarrow> bool" where
  "isExternal f \<longleftrightarrow> fi_Effect f = ''idempotent_external'' \<or> fi_Effect f = ''non_idempotent_external''"

definition repeatable :: "featureInstance \<Rightarrow> bool" where
  "repeatable f \<longleftrightarrow> fi_Effect f = ''pure'' \<or> fi_Effect f = ''read_only''"

definition shouldRetry :: "featureInstance \<Rightarrow> plugErr option \<Rightarrow> bool" where
  "shouldRetry f err \<longleftrightarrow>
     (case err of
        None \<Rightarrow> False
      | Some e \<Rightarrow> (case asCall e of None \<Rightarrow> False | Some c \<Rightarrow> ce_Retryable c \<and> \<not> ce_Fatal c \<and> repeatable f))"

text \<open>The attempts that are left.\<close>

fun callAttempts :: "featureHost \<Rightarrow> featureInstance \<Rightarrow> Request \<Rightarrow> nat \<Rightarrow> (Response \<times> plugErr option) plug" where
  "callAttempts H f r 0 = State_Monad.return (noResponse, None)"
| "callAttempts H f r (Suc left) = do {
     (response, err) \<leftarrow> sessionCall H (fi_Alias f) r (fi_Timeout f);
     if \<not> shouldRetry f err \<or> left = 0 then State_Monad.return (response, err)
     else do {
       waiting \<leftarrow> ask (ph_Ctx H);
       (case waiting of
          Some e \<Rightarrow> State_Monad.return (response, Some (PlugCtx e))
        | None \<Rightarrow> do {
            after \<leftarrow> ask (ph_Ctx H);
            (case after of
               Some e \<Rightarrow> State_Monad.return (response, err)
             | None \<Rightarrow> callAttempts H f r left) }) } }"

definition credentialActions :: "string list" where
  "credentialActions = [''acquire'', ''renew'', ''release'']"

definition callKey :: "featureHost \<Rightarrow> featureInstance \<Rightarrow> Request \<Rightarrow> string" where
  "callKey H f r =
     ph_Hash H (ev_ID (rq_Event r) @ [CHR 0x00] @ fi_Alias f @ [CHR 0x00] @ ft_Name (fi_Feature f) @ [CHR 0x00] @ rq_Action r)"

definition pendingRecord :: "featureInstance \<Rightarrow> Request \<Rightarrow> CallRecord" where
  "pendingRecord f r =
     \<lparr>cr_ID = rq_Key r, cr_Alias = fi_Alias f, cr_Feature = ft_Name (fi_Feature f), cr_Kind = fi_Kind f, cr_Effect = fi_Effect f,
      cr_Digest = pk_Digest (fi_Pkg f), cr_ConfigDigest = fi_ConfigDigest f, cr_Mode = fi_Mode f,
      cr_Event = (rq_Event r)\<lparr>ev_Plan := None\<rparr>, cr_Status = ''pending'', cr_Code = '''', cr_Decision = '''', cr_Version = '''', cr_Report = '''',
      cr_Cleanup = (if rq_Action r \<in> set credentialActions
        then Some \<lparr>cl_Reference = rq_Reference r, cl_Lease = rq_Lease r\<rparr> else None)\<rparr>"

definition finishedCall :: "featureInstance \<Rightarrow> Request \<Rightarrow> Response \<Rightarrow> plugErr option \<Rightarrow> CallRecord" where
  "finishedCall f r response err =
     (let ended = (pendingRecord f r)\<lparr>cr_Status := ''completed'', cr_Report := rs_Report response, cr_Decision := rs_Decision response,
            cr_Version := rs_Version response,
            cr_Cleanup := (case rs_Lease response of
               Some l \<Rightarrow> Some \<lparr>cl_Reference = rq_Reference r, cl_Lease = Some l\<rparr>
             | None \<Rightarrow> cr_Cleanup (pendingRecord f r))\<rparr> in
      case err of
        None \<Rightarrow> ended
      | Some e \<Rightarrow>
          (case asCall e of
             None \<Rightarrow> ended\<lparr>cr_Status := ''failed'', cr_Code := ''plugin_failed''\<rparr>
           | Some c \<Rightarrow> ended\<lparr>cr_Code := ce_Code c,
               cr_Status := (if ce_OutcomeUnknown c \<and> (isExternal f \<or> fi_Kind f = ''credential_provider'') then ''unknown'' else ''failed'')\<rparr>))"

text \<open>The request an invocation sends.\<close>

definition requestOf :: "featureHost \<Rightarrow> featureInstance \<Rightarrow> Request \<Rightarrow> pluginEvent \<Rightarrow> Request" where
  "requestOf H f request e =
     (let r = request\<lparr>rq_Event := e, rq_Feature := ft_Name (fi_Feature f)\<rparr> in r\<lparr>rq_Key := callKey H f r\<rparr>)"

text \<open>
  \<open>invoke\<close> up to its last step, with the event as stamped.  The last step emits an event for four actions that
  \<open>Emit\<close> itself never uses.
\<close>

definition invokeCall :: "featureHost \<Rightarrow> Lifecycle \<Rightarrow> featureInstance \<Rightarrow> Request \<Rightarrow> (Response \<times> plugErr option \<times> pluginEvent) plug" where
  "invokeCall H m f request = do {
     e \<leftarrow> stampEvent m (rq_Event request);
     let r = requestOf H f request e in
     if isExternal f \<and> \<not> hasRecorder m \<and> fi_Mode f = ''enforce''
     then State_Monad.return (noResponse, Some (PlugText ''external effect requires a durable execution record''), e)
     else do {
       pending \<leftarrow> recordCall H m (pendingRecord f r);
       (case pending of
          Some err \<Rightarrow> State_Monad.return (noResponse, Some err, e)
        | None \<Rightarrow> do {
            opened \<leftarrow> session H m f;
            (response, err) \<leftarrow> (case opened of
               Some err \<Rightarrow> State_Monad.return (noResponse, Some err)
             | None \<Rightarrow> callAttempts H f r 3);
            finished \<leftarrow> recordCall H m (finishedCall f r response err);
            State_Monad.return (response,
              map_option (PlugAt (fi_Alias f) (ft_Name (fi_Feature f)) (ev_Phase e)) (if hasRecorder m then joinPlug [err, finished] else err), e) }) } }"

subsection \<open>Events\<close>

text \<open>Gates and validators must allow, with a decision that has not expired.\<close>

definition decisionError :: "featureHost \<Rightarrow> string \<Rightarrow> Response \<Rightarrow> plugErr option plug" where
  "decisionError H kind response =
     (if kind \<noteq> ''gate'' \<and> kind \<noteq> ''validator'' then State_Monad.return None
      else if rs_Decision response = ''allow'' then
        (if rs_ExpiresAt response = 0 then State_Monad.return None
         else do { now \<leftarrow> ask (ph_Now H);
           State_Monad.return (if rs_ExpiresAt response > now then None else Some (PlugText ''decision expired'')) })
      else if rs_Decision response = ''deny'' then State_Monad.return (Some (PlugText ''policy denied''))
      else State_Monad.return (Some (PlugText ''policy decision unknown'')))"

definition listens :: "Lifecycle \<Rightarrow> pluginEvent \<Rightarrow> featureInstance \<Rightarrow> bool" where
  "listens m e f \<longleftrightarrow>
     ev_Phase e \<in> set (ft_Events (fi_Feature f)) \<and> fi_Kind f \<in> {''observer'', ''gate'', ''validator''} \<and>
     \<not> (isStaticOperation (lc_Operation m) \<and> fi_Effect f \<noteq> ''pure'')"

definition eventFor :: "featureInstance \<Rightarrow> pluginEvent \<Rightarrow> pluginEvent" where
  "eventFor f e = (if \<not> plc_PlanAccess (fi_Config f) \<or> fi_Kind f = ''observer'' then e\<lparr>ev_Plan := None\<rparr> else e)"

definition emitFeature :: "featureHost \<Rightarrow> Lifecycle \<Rightarrow> pluginEvent \<Rightarrow> featureInstance \<Rightarrow> plugErr option plug" where
  "emitFeature H m e f = do {
     (response, err, _) \<leftarrow> invokeCall H m f (noRequest\<lparr>rq_Action := fi_Kind f, rq_Event := eventFor f e\<rparr>);
     err' \<leftarrow> (case err of Some x \<Rightarrow> State_Monad.return (Some x) | None \<Rightarrow> decisionError H (fi_Kind f) response);
     State_Monad.return (if fi_Mode f = ''enforce'' then err' else None) }"

fun emitAll :: "featureHost \<Rightarrow> Lifecycle \<Rightarrow> pluginEvent \<Rightarrow> featureInstance list \<Rightarrow> plugErr option \<Rightarrow> plugErr option plug" where
  "emitAll H m e [] required = State_Monad.return required"
| "emitAll H m e (f # fs) required =
     (if \<not> listens m e f then emitAll H m e fs required
      else do { err \<leftarrow> emitFeature H m e f;
        emitAll H m e fs (if err = None then required else joinPlug [required, err]) })"

definition Emit :: "featureHost \<Rightarrow> Lifecycle \<Rightarrow> pluginEvent \<Rightarrow> plugErr option plug" where
  "Emit H m e = do {
     s \<leftarrow> State_Monad.get;
     if ev_Phase e = ''node.finished'' \<and> ev_Node e \<in> set (pt_Terminal s) then State_Monad.return None
     else do {
       (if ev_Phase e = ''node.finished'' then State_Monad.update (\<lambda>s. s\<lparr>pt_Terminal := ev_Node e # pt_Terminal s\<rparr>) else State_Monad.return ());
       stamped \<leftarrow> stampEvent m e;
       emitAll H m stamped (lc_Features m) None } }"

definition AddCompletionError :: "plugErr option \<Rightarrow> unit plug" where
  "AddCompletionError err = State_Monad.update (\<lambda>s. s\<lparr>pt_Completion := joinPlug [pt_Completion s, err]\<rparr>)"

definition invoke :: "featureHost \<Rightarrow> Lifecycle \<Rightarrow> featureInstance \<Rightarrow> Request \<Rightarrow> (Response \<times> plugErr option) plug" where
  "invoke H m f request = do {
     (response, err, e) \<leftarrow> invokeCall H m f request;
     if err = None \<and> rq_Action request \<in> set (''resolve'' # credentialActions) then do {
       emitted \<leftarrow> Emit H m (e\<lparr>ev_Status := ''completed'', ev_Plan := None\<rparr>);
       (if emitted = None then State_Monad.return () else AddCompletionError emitted);
       State_Monad.return (response, None) }
     else State_Monad.return (response, err) }"

end
