(* ===== verification/Plugin_Lifecycle.thy ===== *)
theory Plugin_Lifecycle
  imports Plugin_Session
begin

text \<open>
  The operations of a plugin lifecycle (\<open>internal/plugins/lifecycle.go\<close>, \<open>credentials.go\<close>, \<open>expansion.go\<close>): building
  it from the configuration, resolving inputs, credentials with their leases, gates before admission, replay of
  recorded calls, expansion, and closing.  A lease worker is modelled by the single turns of its loop.
\<close>

subsection \<open>Construction\<close>

definition featureMode :: "PluginFeature \<Rightarrow> Feature \<Rightarrow> string" where
  "featureMode options f =
     (if pf_Mode options \<noteq> '''' then pf_Mode options else if ft_Kind f = ''observer'' then ''best_effort'' else ''enforce'')"

definition featureTimeout :: "PluginFeature \<Rightarrow> Feature \<Rightarrow> int" where
  "featureTimeout options f =
     (if pf_Timeout options \<noteq> 0 then pf_Timeout options else if ft_Kind f = ''gate'' then 60000000000 else 30000000000)"

definition noFeature :: PluginFeature where
  "noFeature = \<lparr>pf_Mode = '''', pf_Timeout = 0\<rparr>"

definition addFeature ::
  "(PluginConfig \<Rightarrow> plugErr + string) \<Rightarrow> string \<Rightarrow> string \<Rightarrow> PluginConfig \<Rightarrow> Package \<Rightarrow> featureInstance list \<Rightarrow> Feature \<Rightarrow> plugErr + featureInstance list" where
  "addFeature digest op executionID c p fs f =
     (let options = (case map_of (plc_Features c) (ft_Name f) of Some o' \<Rightarrow> o' | None \<Rightarrow> noFeature);
          mode = featureMode options f in
      if mode = ''best_effort'' \<and> ft_Kind f \<noteq> ''observer'' then Inl (PlugText ''best_effort is only valid for observers'')
      else if mode = ''advisory'' \<and> ft_Kind f \<noteq> ''gate'' \<and> ft_Kind f \<noteq> ''validator''
      then Inl (PlugText ''advisory is only valid for gates and validators'')
      else if \<not> isStaticOperation op \<and> ft_Operations f \<noteq> [] \<and> op \<notin> set (ft_Operations f) then Inr fs
      else if \<not> isStaticOperation op \<and> executionID = '''' \<and> ft_Kind f = ''observer'' \<and> mode = ''enforce''
      then Inl (PlugText ''required observers need an execution record'')
      else bindR (digest c) (\<lambda>d.
        Inr (fs @ [\<lparr>fi_ConfigDigest = d, fi_Config = c, fi_Pkg = p, fi_Feature = f, fi_Mode = mode, fi_Timeout = featureTimeout options f\<rparr>])))"

definition addPlugin ::
  "(PluginConfig \<Rightarrow> plugErr + Package) \<Rightarrow> (PluginConfig \<Rightarrow> plugErr + string) \<Rightarrow> string \<Rightarrow> string \<Rightarrow> featureInstance list \<Rightarrow> PluginConfig \<Rightarrow> plugErr + featureInstance list" where
  "addPlugin locate digest op executionID fs c =
     bindR (locate c) (\<lambda>p.
     bindR (foldR (addFeature digest op executionID c p) fs (ds_Features (pk_Descriptor p))) (\<lambda>fs'.
       if list_all (\<lambda>name. name \<in> set (map ft_Name (ds_Features (pk_Descriptor p)))) (map fst (plc_Features c)) then Inr fs'
       else Inl (PlugText ''feature is not exported by the locked package'')))"

definition featureName :: "featureInstance \<Rightarrow> string" where
  "featureName f = fi_Alias f @ ''.'' @ ft_Name (fi_Feature f)"

text \<open>\<open>locate\<close> is \<open>Resolve\<close> in the blueprint's directory; \<open>record\<close> says whether a recorder is given.\<close>

definition NewLifecycle ::
  "(PluginConfig \<Rightarrow> plugErr + Package) \<Rightarrow> (PluginConfig \<Rightarrow> plugErr + string) \<Rightarrow> string \<Rightarrow> PluginConfig list \<Rightarrow> string \<Rightarrow> string \<Rightarrow> bool \<Rightarrow> plugErr + Lifecycle" where
  "NewLifecycle locate digest invocation configs op executionID recorder =
     bindR (foldR (addPlugin locate digest op executionID) [] configs) (\<lambda>fs.
       Inr \<lparr>lc_Operation = op, lc_ExecutionID = executionID, lc_Invocation = invocation, lc_Features = sort_key featureName fs,
            lc_Record = recorder, lc_LocalRecord = (\<not> recorder \<and> \<not> isStaticOperation op)\<rparr>)"

definition NewCredentialRecovery ::
  "(PluginConfig \<Rightarrow> plugErr + Package) \<Rightarrow> (PluginConfig \<Rightarrow> plugErr + string) \<Rightarrow> string \<Rightarrow> PluginConfig list \<Rightarrow> string \<Rightarrow> bool \<Rightarrow> plugErr + Lifecycle" where
  "NewCredentialRecovery locate digest invocation configs executionID recorder =
     bindR (NewLifecycle locate digest invocation configs ''recovery'' executionID recorder) (\<lambda>m.
       Inr (m\<lparr>lc_Features := filter (\<lambda>f. fi_Kind f = ''credential_provider'') (lc_Features m)\<rparr>))"

definition Has :: "Lifecycle \<Rightarrow> string \<Rightarrow> bool" where
  "Has m phase = list_ex (\<lambda>f. phase \<in> set (ft_Events (fi_Feature f)) \<and> fi_Kind f \<noteq> ''observer'') (lc_Features m)"

definition NeedsPlanDocument :: "Lifecycle \<Rightarrow> bool" where
  "NeedsPlanDocument m = list_ex (\<lambda>f. plc_PlanAccess (fi_Config f) \<and> fi_Kind f = ''gate'') (lc_Features m)"

definition lookupFeature :: "Lifecycle \<Rightarrow> string \<Rightarrow> string \<Rightarrow> string \<Rightarrow> plugErr + featureInstance" where
  "lookupFeature m alias feature kind =
     (case find (\<lambda>f. fi_Alias f = alias \<and> ft_Name (fi_Feature f) = feature \<and> fi_Kind f = kind) (lc_Features m) of
        Some f \<Rightarrow> Inr f
      | None \<Rightarrow> Inl (PlugText (''plugin.'' @ alias @ ''.'' @ feature @ '': no '' @ kind @ '' feature for this operation'')))"

subsection \<open>Bindings\<close>

text \<open>Maps are read in an arbitrary order; an entry list is one.\<close>

definition checkResolver :: "Lifecycle \<Rightarrow> unit \<Rightarrow> string \<times> PluginBinding \<Rightarrow> plugErr + unit" where
  "checkResolver m u nb = bindR (lookupFeature m (pb_Alias (snd nb)) (pb_Feature (snd nb)) ''input_resolver'') (\<lambda>_. Inr ())"

definition checkSupplier :: "string smap \<Rightarrow> string list \<Rightarrow> string \<Rightarrow> plugErr + string list" where
  "checkSupplier env seen key =
     (if toUpper key \<in> set seen then Inl (PlugText ''duplicate environment supplier'')
      else if list_ex (\<lambda>(existing, v). toUpper existing = toUpper key) env then Inl (PlugText ''environment conflicts with node env'')
      else Inr (toUpper key # seen))"

definition checkCredential :: "Lifecycle \<Rightarrow> string smap \<Rightarrow> string list \<Rightarrow> string \<times> PluginBinding \<Rightarrow> plugErr + string list" where
  "checkCredential m env seen nb =
     bindR (lookupFeature m (pb_Alias (snd nb)) (pb_Feature (snd nb)) ''credential_provider'') (\<lambda>_.
       foldR (checkSupplier env) seen (pb_Environment (snd nb)))"

definition ValidateBindings :: "Lifecycle \<Rightarrow> PluginBinding smap \<Rightarrow> PluginBinding smap \<Rightarrow> string smap \<Rightarrow> plugErr + unit" where
  "ValidateBindings m inputs credentials env =
     bindR (foldR (checkResolver m) () inputs) (\<lambda>_.
     bindR (foldR (checkCredential m env) [] credentials) (\<lambda>_. Inr ()))"

subsection \<open>Scopes\<close>

definition noScope :: credentialScope where
  "noScope = \<lparr>cs_Env = [], cs_Leases = [], cs_Identities = [], cs_Ready = False, cs_Err = None, cs_Expires = [], cs_Cancelled = False\<rparr>"

definition scopeOf :: "pluginState \<Rightarrow> string \<Rightarrow> credentialScope" where
  "scopeOf s node = (case map_of (pt_Nodes s) node of Some c \<Rightarrow> c | None \<Rightarrow> noScope)"

definition updateScope :: "string \<Rightarrow> (credentialScope \<Rightarrow> credentialScope) \<Rightarrow> unit plug" where
  "updateScope node g = State_Monad.update (\<lambda>s. s\<lparr>pt_Nodes := AList.update node (g (scopeOf s node)) (pt_Nodes s)\<rparr>)"

definition Resolve :: "featureHost \<Rightarrow> Lifecycle \<Rightarrow> string \<Rightarrow> PluginBinding \<Rightarrow> (Response \<times> plugErr option) plug" where
  "Resolve H m node b =
     (case lookupFeature m (pb_Alias b) (pb_Feature b) ''input_resolver'' of
        Inl e \<Rightarrow> State_Monad.return (noResponse, Some e)
      | Inr f \<Rightarrow> do {
          (response, err) \<leftarrow> invoke H m f (noRequest\<lparr>rq_Action := ''resolve'', rq_Reference := pb_Reference b,
            rq_Event := noEvent\<lparr>ev_Phase := ''input.resolve'', ev_Node := node\<rparr>\<rparr>);
          (case err of
             Some e \<Rightarrow> State_Monad.return (response, Some e)
           | None \<Rightarrow>
               (case rs_Value response of
                  None \<Rightarrow> State_Monad.return (response, Some (PlugText ''resolver returned no value''))
                | Some v \<Rightarrow>
                    let response' = response\<lparr>rs_Value := Some (v\<lparr>pv_Sensitive := True\<rparr>)\<rparr> in
                    if ph_Cty H (v\<lparr>pv_Sensitive := True\<rparr>) = None
                    then State_Monad.return (response', Some (PlugText ''resolver returned an invalid typed value''))
                    else if rs_ExpiresAt response = 0 then State_Monad.return (response', None)
                    else do {
                      now \<leftarrow> ask (ph_Now H);
                      if rs_ExpiresAt response \<le> now then State_Monad.return (response', Some (PlugText ''resolved input already expired''))
                      else do {
                        updateScope node (\<lambda>c. c\<lparr>cs_Expires := cs_Expires c @ [rs_ExpiresAt response]\<rparr>);
                        State_Monad.return (response', None) } })) })"

text \<open>A scope that ended reports the context's error.\<close>

definition scopeErr :: "credentialScope \<Rightarrow> plugErr option" where
  "scopeErr c = (if cs_Cancelled c then Some (PlugCtx ''context canceled'') else None)"

definition Admit :: "featureHost \<Rightarrow> string \<Rightarrow> plugErr option plug" where
  "Admit H node = do {
     s \<leftarrow> State_Monad.get;
     (case map_of (pt_Nodes s) node of
        None \<Rightarrow> State_Monad.return None
      | Some c \<Rightarrow>
          if cs_Err c \<noteq> None then State_Monad.return (cs_Err c)
          else do {
            now \<leftarrow> ask (ph_Now H);
            State_Monad.return (if list_ex (\<lambda>t. t \<le> now) (cs_Expires c) then Some (PlugText ''plugin input expired'') else scopeErr c) }) }"

definition CredentialIdentities :: "pluginState \<Rightarrow> string \<Rightarrow> string smap" where
  "CredentialIdentities s node = (case map_of (pt_Nodes s) node of Some c \<Rightarrow> cs_Identities c | None \<Rightarrow> [])"

subsection \<open>Credentials\<close>

definition leaseValid :: "int \<Rightarrow> Lease \<Rightarrow> bool" where
  "leaseValid t l \<longleftrightarrow> ls_ExpiresAt l > t \<and> (ls_RenewAt l = 0 \<or> ls_RenewAt l < ls_ExpiresAt l)"

fun addCredentials :: "PluginBinding \<Rightarrow> string smap \<Rightarrow> string smap \<Rightarrow> plugErr option \<times> string smap" where
  "addCredentials b env [] = (None, env)"
| "addCredentials b env ((k, v) # rest) =
     (if k \<notin> set (pb_Environment b) \<or> \<not> CredentialEnvironmentAllowed k
      then (Some (PlugText ''returned an environment name outside credential allowlist''), env)
      else if hasKey env k then (Some (PlugText ''duplicate environment supplier''), env)
      else addCredentials b (AList.update k v env) rest)"

definition holdLease :: "string \<Rightarrow> featureInstance \<Rightarrow> PluginBinding \<Rightarrow> Response \<Rightarrow> string smap \<Rightarrow> unit plug" where
  "holdLease node f b response env =
     (case rs_Lease response of
        None \<Rightarrow> State_Monad.return ()
      | Some l \<Rightarrow> updateScope node (\<lambda>c. c\<lparr>cs_Leases := cs_Leases c @
          [\<lparr>cle_Identity = rs_Identity response, cle_Feature = f, cle_Reference = pb_Reference b, cle_Lease = l, cle_Env = env\<rparr>]\<rparr>))"

definition failScope :: "string \<Rightarrow> plugErr \<Rightarrow> plugErr option plug" where
  "failScope node e = do { updateScope node (\<lambda>c. c\<lparr>cs_Err := Some e\<rparr>); State_Monad.return (Some e) }"

definition acquireCredential :: "featureHost \<Rightarrow> Lifecycle \<Rightarrow> string \<Rightarrow> string \<Rightarrow> PluginBinding \<Rightarrow> plugErr option plug" where
  "acquireCredential H m node key b =
     (case lookupFeature m (pb_Alias b) (pb_Feature b) ''credential_provider'' of
        Inl e \<Rightarrow> State_Monad.return (Some e)
      | Inr f \<Rightarrow> do {
          (response, err) \<leftarrow> invoke H m f (noRequest\<lparr>rq_Action := ''acquire'', rq_Reference := pb_Reference b,
            rq_Event := noEvent\<lparr>ev_Node := node, ev_Phase := ''credential.acquire''\<rparr>\<rparr>);
          (case err of
             Some e \<Rightarrow> do { holdLease node f b response []; failScope node e }
           | None \<Rightarrow>
               if rs_Identity response = '''' then do {
                 holdLease node f b response [];
                 failScope node (PlugText ''credentials require a stable non-secret target identity'') }
               else do {
                 updateScope node (\<lambda>c. c\<lparr>cs_Identities := AList.update key (rs_Identity response) (cs_Identities c)\<rparr>);
                 holdLease node f b response (rs_Credentials response);
                 now \<leftarrow> ask (ph_Now H);
                 if (case rs_Lease response of Some l \<Rightarrow> ls_ID l = '''' \<or> \<not> leaseValid now l | None \<Rightarrow> False)
                 then failScope node (PlugText ''invalid credential lease'')
                 else if rs_Credentials response = [] then failScope node (PlugText ''credential provider returned no credentials'')
                 else do {
                   s \<leftarrow> State_Monad.get;
                   let (e, env) = addCredentials b (cs_Env (scopeOf s node)) (rs_Credentials response) in
                   do { updateScope node (\<lambda>c. c\<lparr>cs_Env := env\<rparr>);
                     (case e of Some x \<Rightarrow> failScope node x | None \<Rightarrow> State_Monad.return None) } } }) })"

fun acquireAll :: "featureHost \<Rightarrow> Lifecycle \<Rightarrow> string \<Rightarrow> (string \<times> PluginBinding) list \<Rightarrow> plugErr option plug" where
  "acquireAll H m node [] = do { updateScope node (\<lambda>c. c\<lparr>cs_Ready := True\<rparr>); State_Monad.return None }"
| "acquireAll H m node ((key, b) # rest) = do {
     err \<leftarrow> acquireCredential H m node key b;
     (case err of Some e \<Rightarrow> State_Monad.return (Some e) | None \<Rightarrow> acquireAll H m node rest) }"

definition Credentials :: "featureHost \<Rightarrow> Lifecycle \<Rightarrow> string \<Rightarrow> PluginBinding smap \<Rightarrow> (string smap \<times> plugErr option) plug" where
  "Credentials H m node bindings = do {
     updateScope node (\<lambda>c. c);
     s \<leftarrow> State_Monad.get;
     let c = scopeOf s node in
     if cs_Err c \<noteq> None then State_Monad.return ([], cs_Err c)
     else if cs_Ready c then State_Monad.return (cs_Env c, scopeErr c)
     else do {
       err \<leftarrow> acquireAll H m node (sort_key fst bindings);
       s' \<leftarrow> State_Monad.get;
       State_Monad.return (case err of Some e \<Rightarrow> ([], Some e) | None \<Rightarrow> (cs_Env (scopeOf s' node), None)) } }"

text \<open>One turn of a lease worker, when its timer fires; \<open>i\<close> is the lease of the scope.\<close>

definition renewedLease :: "int \<Rightarrow> credentialLease \<Rightarrow> Response \<Rightarrow> plugErr + Lease" where
  "renewedLease t l response =
     (if (rs_Identity response \<noteq> '''' \<and> rs_Identity response \<noteq> cle_Identity l) \<or>
         (case rs_Lease response of None \<Rightarrow> True | Some n \<Rightarrow> ls_ID n \<noteq> ls_ID (cle_Lease l) \<or> \<not> leaseValid t n)
      then Inl (PlugText ''plugin returned an invalid renewed lease'')
      else if rs_Credentials response \<noteq> [] \<and> \<not> mapsEqual (rs_Credentials response) (cle_Env l)
      then Inl (PlugText ''credential rotation cannot update an already running subprocess'')
      else Inr (the (rs_Lease response)))"

definition renewTurn :: "featureHost \<Rightarrow> Lifecycle \<Rightarrow> string \<Rightarrow> nat \<Rightarrow> unit plug" where
  "renewTurn H m node i = do {
     s \<leftarrow> State_Monad.get;
     if i \<ge> length (cs_Leases (scopeOf s node)) then State_Monad.return ()
     else let l = cs_Leases (scopeOf s node) ! i in do {
       (if ls_RenewAt (cle_Lease l) = 0
        then updateScope node (\<lambda>c. c\<lparr>cs_Err := Some (PlugText ''plugin credentials expired''), cs_Cancelled := True\<rparr>)
        else do {
          (response, err) \<leftarrow> invoke H m (cle_Feature l) (noRequest\<lparr>rq_Action := ''renew'', rq_Reference := cle_Reference l,
            rq_Lease := Some (cle_Lease l), rq_Event := noEvent\<lparr>ev_Node := node, ev_Phase := ''credential.renew''\<rparr>\<rparr>);
          now \<leftarrow> ask (ph_Now H);
          (case (case err of Some e \<Rightarrow> Inl e | None \<Rightarrow> renewedLease now l response) of
             Inl e \<Rightarrow> updateScope node (\<lambda>c. c\<lparr>cs_Err := Some e, cs_Cancelled := True\<rparr>)
           | Inr n \<Rightarrow> updateScope node (\<lambda>c. c\<lparr>cs_Leases := (cs_Leases c)[i := l\<lparr>cle_Lease := n\<rparr>]\<rparr>)) }) } }"

definition releaseRequest :: "string \<Rightarrow> credentialLease \<Rightarrow> Request" where
  "releaseRequest node l =
     noRequest\<lparr>rq_Action := ''release'', rq_Reference := cle_Reference l, rq_Lease := Some (cle_Lease l),
       rq_Event := noEvent\<lparr>ev_Node := node, ev_Phase := ''credential.release''\<rparr>\<rparr>"

fun releaseLeases :: "featureHost \<Rightarrow> Lifecycle \<Rightarrow> string \<Rightarrow> credentialLease list \<Rightarrow> plugErr option \<Rightarrow> plugErr option plug" where
  "releaseLeases H m node [] result = State_Monad.return result"
| "releaseLeases H m node (l # ls) result = do {
     (_, err) \<leftarrow> invoke H m (cle_Feature l) (releaseRequest node l);
     releaseLeases H m node ls (joinPlug [result, err]) }"

fun closeScopes :: "featureHost \<Rightarrow> Lifecycle \<Rightarrow> (string \<times> credentialScope) list \<Rightarrow> plugErr option \<Rightarrow> plugErr option plug" where
  "closeScopes H m [] result = State_Monad.return result"
| "closeScopes H m ((node, c) # rest) result = do {
     result' \<leftarrow> releaseLeases H m node (rev (cs_Leases c)) (joinPlug [result, cs_Err c]);
     updateScope node (\<lambda>c. c\<lparr>cs_Cancelled := True\<rparr>);
     closeScopes H m rest result' }"

definition closeCredentials :: "featureHost \<Rightarrow> Lifecycle \<Rightarrow> plugErr option plug" where
  "closeCredentials H m = do { s \<leftarrow> State_Monad.get; closeScopes H m (pt_Nodes s) None }"
subsection \<open>Closing\<close>

definition CloseProcesses :: "featureHost \<Rightarrow> Lifecycle \<Rightarrow> plugErr option plug" where
  "CloseProcesses H m = do {
     s \<leftarrow> State_Monad.get;
     if pt_Closed s then State_Monad.return None
     else do {
       State_Monad.update (\<lambda>s. s\<lparr>pt_Closed := True, pt_Sessions := map (\<lambda>(alias, c). (alias, True)) (pt_Sessions s)\<rparr>);
       if pt_Work s \<and> lc_LocalRecord m \<and> NeedsRecovery (pt_LocalCalls s)
       then State_Monad.return (Some (PlugText ''plugin cleanup remains unresolved''))
       else if pt_Work s then do {
         failed \<leftarrow> ask (ph_RemoveAll H);
         State_Monad.return (if failed then Some (PlugText ''plugin cleanup'') else None) }
       else State_Monad.return None } }"

definition closeLifecycle :: "featureHost \<Rightarrow> Lifecycle \<Rightarrow> plugErr option plug" where
  "closeLifecycle H m = do {
     s \<leftarrow> State_Monad.get;
     if pt_CloseDone s then State_Monad.return (pt_CloseErr s)
     else do {
       State_Monad.update (\<lambda>s. s\<lparr>pt_CloseDone := True\<rparr>);
       released \<leftarrow> closeCredentials H m;
       emitted \<leftarrow> Emit H m (noEvent\<lparr>ev_Phase := ''session.close'', ev_Status := ''closing''\<rparr>);
       processes \<leftarrow> CloseProcesses H m;
       let result = joinPlug [joinPlug [joinPlug [pt_Completion s, released], emitted], processes] in
       do { State_Monad.update (\<lambda>s. s\<lparr>pt_CloseErr := result\<rparr>); State_Monad.return result } } }"

definition CompletionError :: "pluginState \<Rightarrow> plugErr option" where
  "CompletionError s = pt_Completion s"

subsection \<open>Gates after approval\<close>

definition planGate :: "featureInstance \<Rightarrow> bool" where
  "planGate f \<longleftrightarrow> fi_Kind f = ''gate'' \<and> ''node.plan.ready'' \<in> set (ft_Events (fi_Feature f))"

definition recheckEvent :: "featureInstance \<Rightarrow> pluginEvent \<Rightarrow> pluginEvent" where
  "recheckEvent f e =
     (if plc_PlanAccess (fi_Config f) then e else e\<lparr>ev_Plan := None\<rparr>)\<lparr>ev_Metadata := [(''recheck'', ''true'')]\<rparr>"

fun recheckGates :: "featureHost \<Rightarrow> Lifecycle \<Rightarrow> pluginEvent \<Rightarrow> featureInstance list \<Rightarrow> plugErr option plug" where
  "recheckGates H m e [] = State_Monad.return None"
| "recheckGates H m e (f # fs) =
     (if \<not> planGate f then recheckGates H m e fs
      else do {
        (response, err) \<leftarrow> invoke H m f (noRequest\<lparr>rq_Action := ''gate'', rq_Event := recheckEvent f e\<rparr>);
        now \<leftarrow> ask (ph_Now H);
        let err' = (case err of
              Some x \<Rightarrow> Some x
            | None \<Rightarrow> if rs_Decision response \<noteq> ''allow'' \<or> (rs_ExpiresAt response \<noteq> 0 \<and> rs_ExpiresAt response \<le> now)
                then Some (PlugText ''plan gate did not authorize admission'') else None) in
        if err' \<noteq> None \<and> fi_Mode f = ''enforce'' then State_Monad.return err'
        else recheckGates H m e fs })"

definition RecheckPlan :: "featureHost \<Rightarrow> Lifecycle \<Rightarrow> pluginEvent \<Rightarrow> plugErr option plug" where
  "RecheckPlan H m e = recheckGates H m e (lc_Features m)"

subsection \<open>Replay\<close>

definition hasLease :: "CallRecord \<Rightarrow> bool" where
  "hasLease call \<longleftrightarrow> callLease call \<noteq> None"

definition replayable :: "CallRecord \<Rightarrow> bool" where
  "replayable call \<longleftrightarrow>
     cr_Effect call = ''idempotent_external'' \<and>
     (cr_Kind call = ''observer'' \<or> ev_Phase (cr_Event call) = ''credential.release'' \<or>
      (ev_Phase (cr_Event call) = ''credential.acquire'' \<and> hasLease call))"

definition replayRequest :: "CallRecord \<Rightarrow> Request" where
  "replayRequest call =
     (case cr_Cleanup call of
        Some c \<Rightarrow>
          if cr_Kind call = ''credential_provider''
          then noRequest\<lparr>rq_Action := ''release'', rq_Event := (cr_Event call)\<lparr>ev_Phase := ''credential.release''\<rparr>,
                 rq_Reference := cl_Reference c, rq_Lease := cl_Lease c\<rparr>
          else noRequest\<lparr>rq_Action := cr_Kind call, rq_Event := cr_Event call\<rparr>
      | None \<Rightarrow> noRequest\<lparr>rq_Action := cr_Kind call, rq_Event := cr_Event call\<rparr>)"

definition Replay :: "featureHost \<Rightarrow> Lifecycle \<Rightarrow> CallRecord \<Rightarrow> plugErr option plug" where
  "Replay H m call =
     (case lookupFeature m (cr_Alias call) (cr_Feature call) (cr_Kind call) of
        Inl e \<Rightarrow> State_Monad.return (Some e)
      | Inr f \<Rightarrow>
          if pk_Digest (fi_Pkg f) \<noteq> cr_Digest call \<or> fi_ConfigDigest f \<noteq> cr_ConfigDigest call
          then State_Monad.return (Some (PlugText ''recovery requires the original locked package digest''))
          else if \<not> replayable call then State_Monad.return (Some (PlugText ''plugin call is not replayable''))
          else if cr_Kind call = ''credential_provider'' \<and> \<not> hasLease call
          then State_Monad.return (Some (PlugText ''plugin release receipt is incomplete''))
          else do { (_, err) \<leftarrow> invoke H m f (replayRequest call); State_Monad.return err })"

subsection \<open>Expansion\<close>

text \<open>\<open>^[a-zA-Z_][a-zA-Z0-9_-]*$\<close>\<close>

definition nodeName :: "string \<Rightarrow> bool" where
  "nodeName name \<longleftrightarrow> name \<noteq> '''' \<and> (isEnvChar (hd name) \<or> isLowerChar (hd name)) \<and>
     list_all (\<lambda>c. isEnvChar c \<or> isLowerChar c \<or> isDigitChar c \<or> c = CHR ''-'') name"

definition expandVar :: "featureHost \<Rightarrow> jval smap \<Rightarrow> string \<times> pluginValue \<Rightarrow> plugErr + jval smap" where
  "expandVar H vars kv =
     (if pv_Sensitive (snd kv) then Inl (PlugText ''expansion cannot return secrets'')
      else case ph_Cty H (snd kv) of
        None \<Rightarrow> Inl (PlugText ''invalid plugin value'')
      | Some v \<Rightarrow> Inr (AList.update (fst kv) v vars))"

definition expandNode :: "featureHost \<Rightarrow> string list \<times> bpNode list \<Rightarrow> ExpandedNode \<Rightarrow> plugErr + string list \<times> bpNode list" where
  "expandNode H st n =
     (case st of (seen, nodes) \<Rightarrow>
        if \<not> nodeName (xd_Name n) \<or> xd_Name n \<in> set seen \<or> xd_Source n = ''''
        then Inl (PlugText ''invalid or conflicting expanded node'')
        else bindR (foldR (expandVar H) [] (xd_Vars n)) (\<lambda>vars.
          Inr (xd_Name n # seen, nodes @
            [\<lparr>bn_Inputs = [], bn_Credentials = [], bn_Name = xd_Name n, bn_Source = xd_Source n, bn_BackendConfig = [],
              bn_BackendAddress = None, bn_Vars = vars, bn_Runtime = '''', bn_Env = [], bn_Approve = ''''\<rparr>])))"

definition expandEdge :: "Edge list \<Rightarrow> ExpandedEdge \<Rightarrow> plugErr + Edge list" where
  "expandEdge edges e =
     (if (xe_Input e = '''') \<noteq> (xe_Output e = '''') then Inl (PlugText ''expanded data edges require both ports'')
      else Inr (edges @
        [\<lparr>e_From = \<lparr>pr_Entity = '''', pr_Node = xe_From e, pr_Kind = (if xe_Input e \<noteq> '''' then ''output'' else ''''), pr_Name = xe_Output e\<rparr>,
          e_To = \<lparr>pr_Entity = '''', pr_Node = xe_To e, pr_Kind = (if xe_Input e \<noteq> '''' then ''input'' else ''''), pr_Name = xe_Input e\<rparr>\<rparr>]))"

definition expandAnswer :: "featureHost \<Rightarrow> Response \<Rightarrow> string list \<times> bpNode list \<times> Edge list \<Rightarrow> plugErr + string list \<times> bpNode list \<times> Edge list" where
  "expandAnswer H response st =
     (case (rs_Expansion response, st) of
        (None, _) \<Rightarrow> Inl (PlugText ''expansion returned no declarations'')
      | (Some (ns, es), (seen, nodes, edges)) \<Rightarrow>
          bindR (foldR (expandNode H) (seen, nodes) ns) (\<lambda>(seen', nodes').
          bindR (foldR expandEdge edges es) (\<lambda>edges'. Inr (seen', nodes', edges'))))"

fun expandAll :: "featureHost \<Rightarrow> Lifecycle \<Rightarrow> featureInstance list \<Rightarrow> string list \<times> bpNode list \<times> Edge list \<Rightarrow>
    (plugErr + string list \<times> bpNode list \<times> Edge list) plug" where
  "expandAll H m [] st = State_Monad.return (Inr st)"
| "expandAll H m (f # fs) st =
     (if fi_Kind f \<noteq> ''expansion'' then expandAll H m fs st
      else do {
        (response, err) \<leftarrow> invoke H m f (noRequest\<lparr>rq_Action := ''expand'', rq_Config := plc_Config (fi_Config f),
          rq_Event := noEvent\<lparr>ev_Phase := ''config.expand''\<rparr>\<rparr>);
        (case (case err of Some e \<Rightarrow> Inl e | None \<Rightarrow> expandAnswer H response st) of
           Inl e \<Rightarrow> State_Monad.return (Inl e)
         | Inr st' \<Rightarrow> expandAll H m fs st') })"

definition Expand :: "featureHost \<Rightarrow> Lifecycle \<Rightarrow> Blueprint \<Rightarrow> (Blueprint \<times> plugErr option) plug" where
  "Expand H m bp = do {
     r \<leftarrow> expandAll H m (lc_Features m) (map bn_Name (bp_Nodes bp) @ map u_As (bp_Uses bp), bp_Nodes bp, bp_Edges bp);
     (case r of
        Inl e \<Rightarrow> State_Monad.return (bp, Some e)
      | Inr (seen, nodes, edges) \<Rightarrow> do {
          err \<leftarrow> Emit H m (noEvent\<lparr>ev_Phase := ''config.expand'', ev_Status := ''expanded''\<rparr>);
          State_Monad.return (bp\<lparr>bp_Nodes := nodes, bp_Edges := edges\<rparr>, err) }) }"

end
