(* ===== verification/Plugin_Trace.thy ===== *)
theory Plugin_Trace
  imports Plugin_Lifecycle
begin

text \<open>
  What a plugin lifecycle does, as a trace.  \<open>grows Q\<close> relates two states when the later trace extends the earlier by
  a part with \<open>Q\<close>; the library's \<open>state_io_rel\<close> lifts it to operations.  The locale \<open>invocation_order\<close> takes a
  preorder on states that one invocation of a feature respects and proves the same of every operation; it is interpreted
  for the journal of calls, for what processes inherit, and for the passing of time.
\<close>

subsection \<open>Traces of the basic operations\<close>

definition grows :: "(pluginAct list \<Rightarrow> bool) \<Rightarrow> pluginState \<Rightarrow> pluginState \<Rightarrow> bool" where
  "grows Q s s' \<longleftrightarrow> (\<exists>part. pt_Trace s' = pt_Trace s @ part \<and> Q part)"

lemma run_ask [simp]: "run_state (ask f) s = (f (pt_Tick s), s\<lparr>pt_Tick := Suc (pt_Tick s)\<rparr>)"
  by (simp add: ask_def)

lemma run_update [simp]: "run_state (State_Monad.update f) s = ((), f s)"
  by (simp add: State_Monad.update_def)

lemma run_note [simp]: "run_state (note_act a) s = ((), s\<lparr>pt_Trace := pt_Trace s @ [a]\<rparr>)"
  by (simp add: note_act_def)

lemma run_closeSession [simp]: "run_state (closeSession alias) s = ((), s\<lparr>pt_Sessions := AList.update alias True (pt_Sessions s)\<rparr>)"
  by (simp add: closeSession_def)

lemma sendRequest_trace:
  assumes "run_state (sendRequest H alias r) s = (x, s')"
  shows "pt_Trace s' = pt_Trace s @ [ActSend alias r]"
  using assms by (auto simp: sendRequest_def Let_def split: rpcAnswer.splits option.splits if_splits)

lemma sessionCall_trace:
  assumes "run_state (sessionCall H alias r t) s = (x, s')"
  shows "pt_Trace s' = pt_Trace s \<or> pt_Trace s' = pt_Trace s @ [ActSend alias (defaultPhase r)]"
proof -
  have sent: "run_state (sendRequest H alias (defaultPhase r)) s1 = (x, s') \<Longrightarrow> pt_Trace s1 = pt_Trace s \<Longrightarrow> ?thesis" for s1
    using sendRequest_trace by metis
  show ?thesis using assms unfolding sessionCall_def
    by (auto split: if_splits option.splits dest!: sent)
qed

lemma callAttempts_trace:
  assumes "run_state (callAttempts H f r n) s = (x, s')"
  shows "\<exists>k \<le> n. pt_Trace s' = pt_Trace s @ replicate k (ActSend (fi_Alias f) (defaultPhase r)) \<and> (\<not> repeatable f \<longrightarrow> k \<le> 1)"
  using assms
proof (induction n arbitrary: s)
  case (Suc n)
  obtain response err s1 where call: "run_state (sessionCall H (fi_Alias f) r (fi_Timeout f)) s = ((response, err), s1)"
    by (metis prod.exhaust)
  from sessionCall_trace [OF call] obtain j where j: "j \<le> 1" "pt_Trace s1 = pt_Trace s @ replicate j (ActSend (fi_Alias f) (defaultPhase r))"
    by (metis One_nat_def append_Nil2 le_refl less_one linorder_not_le nat_le_linear replicate_0 replicate_Suc)
  show ?case
  proof (cases "pt_Trace s' = pt_Trace s1")
    case True
    with j show ?thesis by (metis One_nat_def Suc_le_mono le0 le_trans)
  next
    case False
    then have "shouldRetry f err" and "\<exists>s2. run_state (callAttempts H f r n) s2 = (x, s') \<and> pt_Trace s2 = pt_Trace s1"
      using Suc.prems call by (auto split: if_splits option.splits)
    with Suc.IH obtain k where "k \<le> n" "pt_Trace s' = pt_Trace s1 @ replicate k (ActSend (fi_Alias f) (defaultPhase r))" by metis
    moreover have "repeatable f" using \<open>shouldRetry f err\<close> by (auto simp: shouldRetry_def split: option.splits)
    ultimately show ?thesis using j by (intro exI [of _ "j + k"]) (auto simp: replicate_add)
  qed
qed simp
text \<open>Opening a session adds the start of its process and the configuration of it.\<close>

fun isOpening :: "Lifecycle \<Rightarrow> pluginAct \<Rightarrow> bool" where
  "isOpening m (ActOpen alias env) \<longleftrightarrow> (isStaticOperation (lc_Operation m) \<longrightarrow> env = [])"
| "isOpening m (ActSend alias r) \<longleftrightarrow> rq_Action r = ''configure'' \<and> rq_Key r = ''''"
| "isOpening m (ActRecord call) \<longleftrightarrow> False"

lemma defaultPhase_fields [simp]:
  "rq_Action (defaultPhase r) = rq_Action r" "rq_Key (defaultPhase r) = rq_Key r" "rq_Feature (defaultPhase r) = rq_Feature r"
  by (simp_all add: defaultPhase_def)

lemma prepareWork_trace: "run_state (prepareWork H) s = (x, s') \<Longrightarrow> pt_Trace s' = pt_Trace s"
  by (auto simp: prepareWork_def split: if_splits option.splits)

lemma openPlugin_trace:
  assumes "run_state (openPlugin H m f env) s = (x, s')" "isStaticOperation (lc_Operation m) \<longrightarrow> env = []"
  shows "\<exists>part. pt_Trace s' = pt_Trace s @ part \<and> list_all (isOpening m) part"
proof (cases "ph_Open H (pt_Tick s)")
  case None
  let ?s1 = "s\<lparr>pt_Tick := Suc (pt_Tick s), pt_Trace := pt_Trace s @ [ActOpen (fi_Alias f) env],
    pt_Sessions := AList.update (fi_Alias f) False (pt_Sessions s)\<rparr>"
  obtain y where "run_state (sessionCall H (fi_Alias f) (configureRequest m f) 10000000000) ?s1 = (y, s')"
    using assms(1) None by (auto simp: openPlugin_def split: prod.splits)
  from sessionCall_trace [OF this] show ?thesis
  proof
    assume "pt_Trace s' = pt_Trace ?s1"
    then show ?thesis using assms(2) by (intro exI [of _ "[ActOpen (fi_Alias f) env]"]) simp
  next
    assume "pt_Trace s' = pt_Trace ?s1 @ [ActSend (fi_Alias f) (defaultPhase (configureRequest m f))]"
    then show ?thesis using assms(2)
      by (intro exI [of _ "[ActOpen (fi_Alias f) env, ActSend (fi_Alias f) (defaultPhase (configureRequest m f))]"])
        (simp add: configureRequest_def noRequest_def)
  qed
qed (use assms(1) in \<open>auto simp: openPlugin_def intro: exI [of _ "[]"]\<close>)

lemma sessionEnv_static: "sessionEnv H m f = Inr env \<Longrightarrow> isStaticOperation (lc_Operation m) \<longrightarrow> env = []"
  by (auto simp: sessionEnv_def)

lemma session_trace:
  assumes "run_state (session H m f) s = (x, s')"
  shows "\<exists>part. pt_Trace s' = pt_Trace s @ part \<and> list_all (isOpening m) part"
proof (cases "pt_Trace s' = pt_Trace s")
  case False
  obtain prepared s1 where prep: "run_state (prepareWork H) (s\<lparr>pt_Tick := Suc (pt_Tick s)\<rparr>) = (prepared, s1)" by fastforce
  then have s1: "pt_Trace s1 = pt_Trace s" using prepareWork_trace by fastforce
  with assms False prep obtain env where env: "sessionEnv H m f = Inr env"
    by (auto simp: session_def split: option.splits if_splits sum.splits)
  obtain err s2 where opened: "run_state (openPlugin H m f env) (s1\<lparr>pt_Tick := Suc (pt_Tick s1)\<rparr>) = (err, s2)" by fastforce
  then have "pt_Trace s' = pt_Trace s2"
    using assms False prep s1 env by (auto simp: session_def split: option.splits if_splits)
  then show ?thesis using openPlugin_trace [OF opened sessionEnv_static [OF env]] s1 by simp
qed (simp add: exI [of _ "[]"])

lemma recordCall_trace:
  assumes "run_state (recordCall H m c) s = (err, s')"
  shows "pt_Trace s' = pt_Trace s @ (if hasRecorder m \<and> err = None then [ActRecord c] else [])"
proof -
  have "run_state (recordLocal H c) s1 = (y, s2) \<Longrightarrow> pt_Trace s2 = pt_Trace s1" for s1 s2 y
    using prepareWork_trace by (fastforce simp: recordLocal_def Let_def split: option.splits if_splits writeAnswer.splits prod.splits)
  with assms show ?thesis by (auto simp: recordCall_def split: if_splits prod.splits)
qed

lemma stampEvent_run:
  assumes "run_state (stampEvent m e) s = (e', s')"
  shows "pt_Trace s' = pt_Trace s \<and> pt_Tick s' = pt_Tick s \<and> ev_Phase e' = ev_Phase e"
  using assms by (auto simp: stampEvent_def split: if_splits)

lemma invokeCall_trace:
  assumes "run_state (invokeCall H m f request) s = ((response, err, e), s')"
  obtains (silent) "pt_Trace s' = pt_Trace s" "err \<noteq> None"
  | (sent) opened n ended where
      "pt_Trace s' = pt_Trace s @ (if hasRecorder m then [ActRecord (pendingRecord f (requestOf H f request e))] else []) @ opened @
         replicate n (ActSend (fi_Alias f) (defaultPhase (requestOf H f request e))) @ ended"
      "list_all (isOpening m) opened" "n \<le> 3" "repeatable f \<or> n \<le> 1"
      "\<exists>x. ended = [] \<or> ended = [ActRecord (finishedCall f (requestOf H f request e) response x)]"
      "isExternal f \<and> fi_Mode f = ''enforce'' \<longrightarrow> hasRecorder m"
proof -
  obtain e0 s0 where stamp: "run_state (stampEvent m (rq_Event request)) s = (e0, s0)" by fastforce
  note s0 = conjunct1 [OF stampEvent_run [OF stamp]]
  let ?r = "requestOf H f request e0"
  show ?thesis
  proof (cases "isExternal f \<and> \<not> hasRecorder m \<and> fi_Mode f = ''enforce''")
    case True
    then show ?thesis using assms stamp s0 by (intro silent) (auto simp: invokeCall_def Let_def)
  next
    case False
    obtain pending s1 where rec: "run_state (recordCall H m (pendingRecord f ?r)) s0 = (pending, s1)" by fastforce
    show ?thesis
    proof (cases pending)
      case (Some x)
      then show ?thesis using assms stamp s0 rec False recordCall_trace [OF rec]
        by (intro silent) (auto simp: invokeCall_def Let_def)
    next
      case None
      obtain o1 s2 where sess: "run_state (session H m f) s1 = (o1, s2)" by fastforce
      obtain resp err1 s3 where call: "run_state (case o1 of Some x \<Rightarrow> State_Monad.return (noResponse, Some x) | None \<Rightarrow> callAttempts H f ?r 3) s2 = ((resp, err1), s3)"
        by (metis prod.exhaust)
      obtain fin s4 where fin: "run_state (recordCall H m (finishedCall f ?r resp err1)) s3 = (fin, s4)" by fastforce
      have res: "response = resp" "e = e0" "s' = s4"
        using assms stamp rec None False sess call fin by (auto simp: invokeCall_def Let_def)
      have "\<exists>n \<le> 3. pt_Trace s3 = pt_Trace s2 @ replicate n (ActSend (fi_Alias f) (defaultPhase ?r)) \<and> (\<not> repeatable f \<longrightarrow> n \<le> 1)"
        using call callAttempts_trace by (cases o1) (fastforce, fastforce)
      then obtain n where n: "n \<le> 3" "pt_Trace s3 = pt_Trace s2 @ replicate n (ActSend (fi_Alias f) (defaultPhase ?r))"
        "repeatable f \<or> n \<le> 1" by blast
      obtain opened where opened: "pt_Trace s2 = pt_Trace s1 @ opened" "list_all (isOpening m) opened"
        using session_trace [OF sess] by blast
      define ended where "ended = (if hasRecorder m \<and> fin = None then [ActRecord (finishedCall f ?r resp err1)] else [])"
      have "pt_Trace s' = pt_Trace s @ (if hasRecorder m then [ActRecord (pendingRecord f ?r)] else []) @ opened @
          replicate n (ActSend (fi_Alias f) (defaultPhase ?r)) @ ended"
        using recordCall_trace [OF rec] recordCall_trace [OF fin] s0 None n(2) opened(1) res(3) by (simp add: ended_def)
      moreover have "\<exists>x. ended = [] \<or> ended = [ActRecord (finishedCall f ?r response x)]" using res(1) by (auto simp: ended_def)
      ultimately show ?thesis using sent opened(2) n(1,3) False unfolding res(2) by blast
    qed
  qed
qed
subsection \<open>Every operation is made of invocations\<close>

named_theorems traceI

locale run_order =
  fixes R :: "pluginState \<Rightarrow> pluginState \<Rightarrow> bool"
  assumes quiet: "pt_Trace s' = pt_Trace s \<Longrightarrow> pt_Tick s \<le> pt_Tick s' \<Longrightarrow> R s s'"
    and trans: "R s s1 \<Longrightarrow> R s1 s' \<Longrightarrow> R s s'"
begin

lemma rel_bind [traceI]:
  assumes "state_io_rel R p" "\<And>x. state_io_rel R (k x)"
  shows "state_io_rel R (p \<bind> k)"
proof (rule state_io_relI)
  fix a s s'
  assume "run_state (p \<bind> k) s = (a, s')"
  then obtain b s1 where "run_state p s = (b, s1)" "run_state (k b) s1 = (a, s')" by (auto split: prod.splits)
  then have "R s s1" "R s1 s'" using assms by (meson state_io_relD)+
  then show "R s s'" by (rule trans)
qed

lemma rel_return [traceI]: "state_io_rel R (State_Monad.return x)"
  using quiet by (simp add: state_io_rel_def)

lemma rel_get [traceI]: "state_io_rel R State_Monad.get"
  using quiet by (simp add: state_io_rel_def)

lemma rel_ask [traceI]: "state_io_rel R (ask f)"
  using quiet by (simp add: state_io_rel_def)

lemma rel_update: "(\<And>s. pt_Trace (g s) = pt_Trace s \<and> pt_Tick (g s) = pt_Tick s) \<Longrightarrow> state_io_rel R (State_Monad.update g)"
  using quiet by (simp add: state_io_rel_def)

lemma rel_updateScope [traceI]: "state_io_rel R (updateScope node g)"
  unfolding updateScope_def by (rule rel_update) simp

lemma rel_stamp [traceI]: "state_io_rel R (stampEvent m e)"
  by (rule state_io_relI) (auto intro!: quiet dest: stampEvent_run)

lemma rel_if [traceI]: "state_io_rel R p \<Longrightarrow> state_io_rel R q \<Longrightarrow> state_io_rel R (if c then p else q)"
  by simp

lemma rel_option [traceI]:
  "state_io_rel R p \<Longrightarrow> (\<And>x. state_io_rel R (k x)) \<Longrightarrow> state_io_rel R (case o' of None \<Rightarrow> p | Some x \<Rightarrow> k x)"
  by (cases o') simp_all

lemma rel_sum [traceI]:
  "(\<And>x. state_io_rel R (p x)) \<Longrightarrow> (\<And>x. state_io_rel R (k x)) \<Longrightarrow> state_io_rel R (case r of Inl x \<Rightarrow> p x | Inr x \<Rightarrow> k x)"
  by (cases r) simp_all

lemma rel_pair [traceI]: "(\<And>x y. state_io_rel R (k x y)) \<Longrightarrow> state_io_rel R (case p of (x, y) \<Rightarrow> k x y)"
  by (cases p) simp

lemma rel_let [traceI]: "(\<And>x. state_io_rel R (k x)) \<Longrightarrow> state_io_rel R (Let v k)"
  by simp

end

locale invocation_order = run_order +
  fixes m :: Lifecycle
  assumes call: "state_io_rel R (invokeCall H m f request)"
begin

lemmas calls [traceI] = call

lemma rel_emitFeature [traceI]: "state_io_rel R (emitFeature H m e f)"
  unfolding emitFeature_def decisionError_def by (intro traceI)

lemma rel_emitAll [traceI]: "state_io_rel R (emitAll H m e fs required)"
  by (induction fs arbitrary: required) (simp_all add: traceI)

lemma rel_Emit [traceI]: "state_io_rel R (Emit H m e)"
  unfolding Emit_def by (intro traceI rel_update) simp

lemma rel_completion [traceI]: "state_io_rel R (AddCompletionError err)"
  unfolding AddCompletionError_def by (rule rel_update) simp

lemma rel_invoke [traceI]: "state_io_rel R (invoke H m f request)"
  unfolding invoke_def by (intro traceI)

lemma rel_Resolve: "state_io_rel R (Resolve H m node b)"
  unfolding Resolve_def by (intro traceI)

lemma rel_holdLease [traceI]: "state_io_rel R (holdLease node f b response env)"
  unfolding holdLease_def by (intro traceI)

lemma rel_acquire [traceI]: "state_io_rel R (acquireCredential H m node key b)"
  unfolding acquireCredential_def failScope_def by (intro traceI)

lemma rel_acquireAll [traceI]: "state_io_rel R (acquireAll H m node bindings)"
  by (induction bindings) (simp_all add: split_paired_all traceI)

lemma rel_Credentials: "state_io_rel R (Credentials H m node bindings)"
  unfolding Credentials_def by (intro traceI)

lemma rel_renewTurn: "state_io_rel R (renewTurn H m node i)"
  unfolding renewTurn_def by (intro traceI)

lemma rel_releaseLeases [traceI]: "state_io_rel R (releaseLeases H m node ls result)"
  by (induction ls arbitrary: result) (simp_all add: traceI)

lemma rel_closeScopes [traceI]: "state_io_rel R (closeScopes H m scopes result)"
  by (induction scopes arbitrary: result) (simp_all add: split_paired_all traceI)

lemma rel_Close: "state_io_rel R (closeLifecycle H m)"
  unfolding closeLifecycle_def closeCredentials_def CloseProcesses_def by (intro traceI rel_update) simp_all

lemma rel_recheck [traceI]: "state_io_rel R (recheckGates H m e fs)"
  by (induction fs) (simp_all add: traceI)

lemma rel_RecheckPlan: "state_io_rel R (RecheckPlan H m e)"
  unfolding RecheckPlan_def by (intro traceI)

lemma rel_Replay: "state_io_rel R (Replay H m c)"
  unfolding Replay_def by (intro traceI)

lemma rel_expandAll [traceI]: "state_io_rel R (expandAll H m fs st)"
  by (induction fs arbitrary: st) (simp_all add: traceI)

lemma rel_Expand: "state_io_rel R (Expand H m bp)"
  unfolding Expand_def by (intro traceI)

lemma rel_Admit: "state_io_rel R (Admit H node)"
  unfolding Admit_def by (intro traceI)

text \<open>The entry points of the engine.\<close>

lemmas entries = rel_Emit rel_Resolve rel_Credentials rel_renewTurn rel_Close rel_RecheckPlan rel_Replay rel_Expand rel_Admit

end
subsection \<open>Time passes\<close>

definition later :: "pluginState \<Rightarrow> pluginState \<Rightarrow> bool" where
  "later s s' \<longleftrightarrow> pt_Tick s \<le> pt_Tick s'"

interpretation time: run_order later
  by unfold_locales (auto simp: later_def)

lemma later_update: "(\<And>s. pt_Tick (g s) = pt_Tick s) \<Longrightarrow> state_io_rel later (State_Monad.update g)"
  by (simp add: state_io_rel_def later_def)

lemma later_send: "state_io_rel later (sendRequest H alias r)"
  by (rule state_io_relI) (auto simp: sendRequest_def later_def Let_def split: rpcAnswer.splits option.splits if_splits)

lemma later_sessionCall: "state_io_rel later (sessionCall H alias r t)"
  unfolding sessionCall_def by (intro traceI later_send)

lemma later_callAttempts: "state_io_rel later (callAttempts H f r n)"
  by (induction n) (simp_all add: traceI later_sessionCall)

lemma later_prepareWork: "state_io_rel later (prepareWork H)"
  unfolding prepareWork_def by (intro traceI later_update) simp

lemma later_note: "state_io_rel later (note_act a)"
  unfolding note_act_def by (rule later_update) simp

lemma later_write:
  assumes "state_io_rel later p" "\<And>e. state_io_rel later (q e)" "\<And>e. state_io_rel later (r e)"
  shows "state_io_rel later (case w of WriteOk \<Rightarrow> p | WriteFailed e \<Rightarrow> q e | WriteUnsynced e \<Rightarrow> r e)"
  using assms by (cases w) simp_all

lemma later_recordCall: "state_io_rel later (recordCall H m c)"
  unfolding recordCall_def recordLocal_def by (intro traceI later_prepareWork later_update later_note later_write) simp_all

lemma later_session: "state_io_rel later (session H m f)"
proof -
  have "state_io_rel later (openPlugin H m f env)" for env
    unfolding openPlugin_def by (intro traceI later_sessionCall later_update later_note) simp_all
  then show ?thesis unfolding session_def by (intro traceI later_prepareWork later_update) simp_all
qed

interpretation time_calls: invocation_order later m for m
proof
  show "state_io_rel later (invokeCall H m f request)" for H f request
    unfolding invokeCall_def by (intro traceI later_recordCall later_session later_callAttempts)
qed
subsection \<open>Calls are recorded before they are made\<close>

text \<open>Every request other than the configuration of a process follows the record of its pending call.\<close>

fun recorded :: "string list \<Rightarrow> pluginAct list \<Rightarrow> bool" where
  "recorded keys [] \<longleftrightarrow> True"
| "recorded keys (ActRecord c # acts) \<longleftrightarrow> recorded (if cr_Status c = ''pending'' then cr_ID c # keys else keys) acts"
| "recorded keys (ActOpen alias env # acts) \<longleftrightarrow> recorded keys acts"
| "recorded keys (ActSend alias r # acts) \<longleftrightarrow>
     ((rq_Action r = ''configure'' \<and> rq_Key r = '''') \<or> rq_Key r \<in> set keys) \<and> recorded keys acts"

lemma recorded_mono: "recorded keys acts \<Longrightarrow> set keys \<subseteq> set keys' \<Longrightarrow> recorded keys' acts"
proof (induction acts arbitrary: keys keys')
  case (Cons a acts)
  show ?case
  proof (cases a)
    case (ActRecord c)
    let ?add = "\<lambda>ks. if cr_Status c = ''pending'' then cr_ID c # ks else ks"
    have "recorded (?add keys) acts" "set (?add keys) \<subseteq> set (?add keys')" using Cons.prems by (auto simp: ActRecord)
    from Cons.IH [OF this] show ?thesis by (simp add: ActRecord)
  qed (use Cons in auto)
qed simp

lemma recorded_append: "recorded keys xs \<Longrightarrow> recorded [] ys \<Longrightarrow> recorded keys (xs @ ys)"
  by (induction keys xs rule: recorded.induct) (auto intro: recorded_mono)

lemma recorded_opening: "list_all (isOpening m) opened \<Longrightarrow> recorded keys acts \<Longrightarrow> recorded keys (opened @ acts)"
proof (induction opened)
  case (Cons a opened)
  then show ?case by (cases a) auto
qed simp

lemma recorded_sends: "rq_Key r \<in> set keys \<Longrightarrow> recorded keys acts \<Longrightarrow> recorded keys (replicate n (ActSend alias r) @ acts)"
  by (induction n) auto

text \<open>In a static operation no process inherits a variable.\<close>

fun bareAct :: "pluginAct \<Rightarrow> bool" where
  "bareAct (ActOpen alias env) \<longleftrightarrow> env = []"
| "bareAct (ActSend alias r) \<longleftrightarrow> True"
| "bareAct (ActRecord c) \<longleftrightarrow> True"

definition auditable :: "Lifecycle \<Rightarrow> pluginAct list \<Rightarrow> bool" where
  "auditable m acts \<longleftrightarrow> (hasRecorder m \<longrightarrow> recorded [] acts) \<and> (isStaticOperation (lc_Operation m) \<longrightarrow> list_all bareAct acts)"

lemma auditable_append: "auditable m xs \<Longrightarrow> auditable m ys \<Longrightarrow> auditable m (xs @ ys)"
  by (auto simp: auditable_def recorded_append)

lemma opening_bare: "list_all (isOpening m) acts \<Longrightarrow> isStaticOperation (lc_Operation m) \<Longrightarrow> list_all bareAct acts"
proof (induction acts)
  case (Cons a acts)
  then show ?case by (cases a) auto
qed simp

lemma requestOf_key: "cr_ID (pendingRecord f r) = rq_Key r" "cr_Status (pendingRecord f r) = ''pending''"
  by (simp_all add: pendingRecord_def)

lemma finishedCall_key: "cr_ID (finishedCall f r response err) = rq_Key r"
  by (simp add: finishedCall_def pendingRecord_def Let_def split: option.splits)

lemma invokeCall_auditable: "state_io_rel (grows (auditable m)) (invokeCall H m f request)"
proof (rule state_io_relI)
  fix a s s'
  assume run: "run_state (invokeCall H m f request) s = (a, s')"
  obtain response err e where "a = (response, err, e)" by (cases a) auto
  with run have "run_state (invokeCall H m f request) s = ((response, err, e), s')" by simp
  then show "grows (auditable m) s s'"
  proof (cases rule: invokeCall_trace)
    case silent
    then show ?thesis by (simp add: grows_def auditable_def)
  next
    case (sent opened n ended)
    let ?r = "requestOf H f request e"
    have "recorded keys ended" "list_all bareAct ended" for keys using sent(5) by auto
    then have "auditable m ((if hasRecorder m then [ActRecord (pendingRecord f ?r)] else []) @ opened @
        replicate n (ActSend (fi_Alias f) (defaultPhase ?r)) @ ended)"
      using sent(2) opening_bare [OF sent(2)]
      by (auto simp: auditable_def requestOf_key list_all_iff in_set_replicate intro!: recorded_opening recorded_sends)
    then show ?thesis unfolding grows_def using sent(1) by blast
  qed
qed

interpretation audit: invocation_order "grows (auditable m)" m for m
proof
  show "grows (auditable m) s s'" if "pt_Trace s' = pt_Trace s" for s s'
    using that by (simp add: grows_def auditable_def)
  show "grows (auditable m) s s'" if "grows (auditable m) s s1" "grows (auditable m) s1 s'" for s s1 s'
    using that auditable_append by (auto simp: grows_def)
qed (rule invokeCall_auditable)
subsection \<open>Properties\<close>

inductive pluginStep :: "featureHost \<Rightarrow> Lifecycle \<Rightarrow> pluginState \<Rightarrow> pluginState \<Rightarrow> bool" for H m where
  stepEmit: "run_state (Emit H m e) s = (x, s') \<Longrightarrow> pluginStep H m s s'"
| stepResolve: "run_state (Resolve H m node b) s = (y, s') \<Longrightarrow> pluginStep H m s s'"
| stepCredentials: "run_state (Credentials H m node bindings) s = (z, s') \<Longrightarrow> pluginStep H m s s'"
| stepRenew: "run_state (renewTurn H m node i) s = (u, s') \<Longrightarrow> pluginStep H m s s'"
| stepClosing: "run_state (closeLifecycle H m) s = (x, s') \<Longrightarrow> pluginStep H m s s'"
| stepRecheck: "run_state (RecheckPlan H m e) s = (x, s') \<Longrightarrow> pluginStep H m s s'"
| stepReplay: "run_state (Replay H m c) s = (x, s') \<Longrightarrow> pluginStep H m s s'"
| stepExpand: "run_state (Expand H m bp) s = (v, s') \<Longrightarrow> pluginStep H m s s'"
| stepAdmit: "run_state (Admit H node) s = (x, s') \<Longrightarrow> pluginStep H m s s'"

lemma pluginStep_audit: "pluginStep H m s s' \<Longrightarrow> grows (auditable m) s s'"
  by (induction rule: pluginStep.induct) (auto intro: state_io_relD audit.entries)

lemma pluginSteps_audit:
  assumes "(pluginStep H m)\<^sup>*\<^sup>* s s'"
  shows "grows (auditable m) s s'"
  using assms by (induction rule: rtranclp_induct) (auto intro: audit.quiet audit.trans pluginStep_audit)

text \<open>
  C21: Plugins never act unrecorded. Over any sequence of the operations of a lifecycle, with any answers, failures
  and cancellations, every request sent to a plugin other than the configuration of its process follows the
  successful record of that call as pending, whenever calls are recorded; and the processes of static
  operations inherit no environment variable.
\<close>

theorem plugin_calls_recorded:
  assumes "(pluginStep H m)\<^sup>*\<^sup>* s s'" "pt_Trace s = []"
  shows "(hasRecorder m \<longrightarrow> recorded [] (pt_Trace s')) \<and> (isStaticOperation (lc_Operation m) \<longrightarrow> list_all bareAct (pt_Trace s'))"
  using pluginSteps_audit [OF assms(1)] assms(2) by (auto simp: grows_def auditable_def)

text \<open>
  C23: Attempts are bounded. One invocation of a feature sends its request at most three times, and at most once
  unless the feature declares itself pure or read-only; when calls are recorded the pending record comes first, and
  an enforced feature with external effects is not called at all without a recorder.
\<close>

theorem plugin_attempts_bounded:
  assumes "run_state (invokeCall H m f request) s = ((response, err, e), s')"
  shows "\<exists>earlier n ended. pt_Trace s' = pt_Trace s @ earlier @ replicate n (ActSend (fi_Alias f) (defaultPhase (requestOf H f request e))) @ ended \<and>
    n \<le> (if repeatable f then 3 else 1) \<and>
    (\<forall>alias r. ActSend alias r \<in> set (earlier @ ended) \<longrightarrow> rq_Action r = ''configure'' \<and> rq_Key r = '''') \<and>
    (n > 0 \<and> hasRecorder m \<longrightarrow> ActRecord (pendingRecord f (requestOf H f request e)) \<in> set earlier) \<and>
    (n > 0 \<and> isExternal f \<and> fi_Mode f = ''enforce'' \<longrightarrow> hasRecorder m)"
  using assms
proof (cases rule: invokeCall_trace)
  case silent
  then show ?thesis by (intro exI [of _ "[]"] exI [of _ 0]) simp
next
  case (sent opened n ended)
  have "rq_Action r = ''configure'' \<and> rq_Key r = ''''" if "ActSend a r \<in> set opened" for a r
    using sent(2) that by (auto simp: list_all_iff)
  then show ?thesis using sent
    by (intro exI [of _ "(if hasRecorder m then [ActRecord (pendingRecord f (requestOf H f request e))] else []) @ opened"]
        exI [of _ n] exI [of _ ended]) auto
qed

definition samplePluginHost :: "Response \<Rightarrow> featureHost" where
  "samplePluginHost response = \<lparr>ph_RPC = (\<lambda>_. RpcAnswer response), ph_Open = (\<lambda>_. None), ph_Ctx = (\<lambda>_. None), ph_Record = (\<lambda>_. None),
     ph_Work = (\<lambda>_. None), ph_Write = (\<lambda>_. WriteOk), ph_Now = int, ph_Size = (\<lambda>_. Some 100), ph_EnvValue = (\<lambda>_. None),
     ph_Hash = id, ph_Cty = (\<lambda>_. Some JNull), ph_RemoveAll = (\<lambda>_. False)\<rparr>"

definition sampleGate :: featureInstance where
  "sampleGate = \<lparr>fi_ConfigDigest = ''d'', fi_Config = samplePlugin,
     fi_Pkg = \<lparr>pk_Descriptor = sampleDescriptor, pk_Path = ''/exe'', pk_Digest = ''x'', pk_ExecutableDigest = ''y''\<rparr>,
     fi_Feature = \<lparr>ft_Name = ''policy'', ft_Kind = ''gate'', ft_Events = [''node.mutation.admit''], ft_Operations = [], ft_Effect = ''read_only'',
       ft_Parameters = [], ft_ResultType = '''', ft_Sensitive = False\<rparr>, fi_Mode = ''enforce'', fi_Timeout = 1\<rparr>"

definition sampleLifecycle :: "featureInstance list \<Rightarrow> Lifecycle" where
  "sampleLifecycle fs = \<lparr>lc_Operation = ''apply'', lc_ExecutionID = ''run'', lc_Invocation = ''i'', lc_Features = fs, lc_Record = True, lc_LocalRecord = False\<rparr>"

definition samplePluginState :: pluginState where
  "samplePluginState = \<lparr>pt_Tick = 0, pt_Seq = 0, pt_Sessions = [], pt_Failed = [], pt_Closed = False, pt_Work = False, pt_Terminal = [],
     pt_Completion = None, pt_Nodes = [], pt_LocalCalls = [], pt_CloseDone = False, pt_CloseErr = None, pt_Trace = []\<rparr>"

definition sampleAdmit :: pluginEvent where
  "sampleAdmit = noEvent\<lparr>ev_Phase := ''node.mutation.admit'', ev_Node := ''a''\<rparr>"

definition allowed :: Response where
  "allowed = noResponse\<lparr>rs_Decision := ''allow''\<rparr>"

lemmas sample_plugin_defs = samplePluginHost_def sampleGate_def sampleLifecycle_def samplePluginState_def sampleAdmit_def allowed_def samplePlugin_def
  noEvent_def noRequest_def noResponse_def

theorem plugin_calls_recorded_witness:
  "recorded [] (pt_Trace (snd (run_state (Emit (samplePluginHost allowed) (sampleLifecycle [sampleGate]) sampleAdmit) samplePluginState)))"
proof -
  have "(pluginStep (samplePluginHost allowed) (sampleLifecycle [sampleGate]))\<^sup>*\<^sup>* samplePluginState
    (snd (run_state (Emit (samplePluginHost allowed) (sampleLifecycle [sampleGate]) sampleAdmit) samplePluginState))"
    by (rule r_into_rtranclp, rule stepEmit, rule surjective_pairing)
  from plugin_calls_recorded [OF this] show ?thesis
    by (simp add: samplePluginState_def) (simp add: sampleLifecycle_def hasRecorder_def)
qed

theorem plugin_attempts_bounded_witness:
  "\<exists>earlier n ended e. pt_Trace (snd (run_state (invokeCall (samplePluginHost allowed) (sampleLifecycle []) sampleGate noRequest) samplePluginState)) =
     earlier @ replicate n (ActSend ''p'' (defaultPhase (requestOf (samplePluginHost allowed) sampleGate noRequest e))) @ ended \<and> n \<le> 3"
proof -
  obtain response err e s' where run: "run_state (invokeCall (samplePluginHost allowed) (sampleLifecycle []) sampleGate noRequest) samplePluginState = ((response, err, e), s')"
    by (metis prod.exhaust)
  have sample: "fi_Alias sampleGate = ''p''" "pt_Trace samplePluginState = []" "repeatable sampleGate"
    by (simp_all add: sampleGate_def samplePlugin_def samplePluginState_def repeatable_def)
  from plugin_attempts_bounded [OF run] obtain earlier n ended where
    "pt_Trace s' = earlier @ replicate n (ActSend ''p'' (defaultPhase (requestOf (samplePluginHost allowed) sampleGate noRequest e))) @ ended"
    "n \<le> (if repeatable sampleGate then 3 else 1)"
    unfolding sample(1,2) append_Nil by (elim exE conjE) (rule that)
  then show ?thesis unfolding run snd_conv using sample(3) by (intro exI conjI) (assumption, simp)
qed
text \<open>A successful call was answered without a fault while it ran.\<close>

definition answered :: "featureHost \<Rightarrow> string \<Rightarrow> Request \<Rightarrow> Response \<Rightarrow> pluginState \<Rightarrow> pluginState \<Rightarrow> bool" where
  "answered H alias r response s s' \<longleftrightarrow>
     (\<exists>n \<ge> pt_Tick s. ph_RPC H n = RpcAnswer response) \<and> rs_Fault response = None \<and> ActSend alias r \<in> set (drop (length (pt_Trace s)) (pt_Trace s'))"

lemma sendRequest_ok:
  assumes "run_state (sendRequest H alias r) s = ((response, None), s')"
  shows "answered H alias r response s s'"
  using assms by (auto simp: answered_def sendRequest_def Let_def split: rpcAnswer.splits option.splits if_splits)

lemma sessionCall_ok:
  assumes "run_state (sessionCall H alias r t) s = ((response, None), s')"
  shows "answered H alias (defaultPhase r) response s s'"
proof -
  from assms obtain s1 where "run_state (sendRequest H alias (defaultPhase r)) s1 = ((response, None), s')"
    "pt_Trace s1 = pt_Trace s" "pt_Tick s \<le> pt_Tick s1"
    unfolding sessionCall_def by (auto split: if_splits option.splits)
  then show ?thesis using sendRequest_ok [of H "alias" "defaultPhase r" s1] by (auto simp: answered_def intro: le_trans)
qed

lemma answered_later:
  assumes "answered H a r response s1 s'" "later s s1" "grows Q s s1" "grows Q' s' s''" 
  shows "answered H a r response s s''"
proof -
  obtain p where p: "pt_Trace s1 = pt_Trace s @ p" using assms(3) by (auto simp: grows_def)
  obtain q where q: "pt_Trace s'' = pt_Trace s' @ q" using assms(4) by (auto simp: grows_def)
  have "set (drop (length (pt_Trace s1)) (pt_Trace s')) \<subseteq> set (drop (length (pt_Trace s)) (pt_Trace s''))"
    unfolding p q by (auto simp: drop_append dest: in_set_dropD [of _ "length p"] simp flip: drop_drop)
      (metis add.commute drop_drop in_set_dropD)
  then show ?thesis using assms(1,2) by (auto simp: answered_def later_def intro: le_trans)
qed
abbreviation anyGrowth :: "pluginState \<Rightarrow> pluginState \<Rightarrow> bool" where
  "anyGrowth \<equiv> grows (\<lambda>_. True)"

lemma anyGrowth_iff: "anyGrowth s s' \<longleftrightarrow> (\<exists>part. pt_Trace s' = pt_Trace s @ part)"
  by (simp add: grows_def)

lemma callAttempts_ok:
  assumes "run_state (callAttempts H f r n) s = ((response, None), s')" "n > 0"
  shows "answered H (fi_Alias f) (defaultPhase r) response s s'"
  using assms
proof (induction n arbitrary: s)
  case (Suc n)
  obtain response1 err s1 where call: "run_state (sessionCall H (fi_Alias f) r (fi_Timeout f)) s = ((response1, err), s1)"
    by (metis prod.exhaust)
  have grown: "anyGrowth s s1" using sessionCall_trace [OF call] by (auto simp: anyGrowth_iff)
  have time: "later s s1" using later_sessionCall call by (rule state_io_relD)
  show ?case
  proof (cases err)
    case None
    then have "s' = s1" "response = response1" using Suc.prems call by (auto simp: shouldRetry_def)
    then show ?thesis using sessionCall_ok call None by simp
  next
    case (Some x)
    then have "\<exists>s2. run_state (callAttempts H f r n) s2 = ((response, None), s') \<and> pt_Trace s2 = pt_Trace s1 \<and> pt_Tick s1 \<le> pt_Tick s2 \<and> n > 0"
      using Suc.prems call by (auto split: if_splits option.splits)
    then obtain s2 where s2: "run_state (callAttempts H f r n) s2 = ((response, None), s')" "pt_Trace s2 = pt_Trace s1" "later s1 s2" "n > 0"
      by (auto simp: later_def)
    from s2(2) grown have "anyGrowth s s2" by (simp add: anyGrowth_iff)
    moreover have "anyGrowth s' s'" by (simp add: anyGrowth_iff)
    ultimately show ?thesis by (rule answered_later [OF Suc.IH [OF s2(1,4)] time.trans [OF time s2(3)]])
  qed
qed simp

lemma joinPlug_None [simp]: "joinPlug [a, b] = None \<longleftrightarrow> a = None \<and> b = None"
  by (cases a; cases b) (simp_all add: joinPlug_def List.map_filter_def)

lemma invokeCall_ok:
  assumes "run_state (invokeCall H m f request) s = ((response, None, e), s')"
  shows "answered H (fi_Alias f) (defaultPhase (requestOf H f request e)) response s s' \<and> ev_Phase e = ev_Phase (rq_Event request)"
proof -
  obtain e0 s0 where stamp: "run_state (stampEvent m (rq_Event request)) s = (e0, s0)" by fastforce
  let ?r = "requestOf H f request e0"
  obtain pending s1 where rec: "run_state (recordCall H m (pendingRecord f ?r)) s0 = (pending, s1)" by fastforce
  obtain o1 s2 where sess: "run_state (session H m f) s1 = (o1, s2)" by fastforce
  obtain resp err1 s3 where call: "run_state (case o1 of Some x \<Rightarrow> State_Monad.return (noResponse, Some x) | None \<Rightarrow> callAttempts H f ?r 3) s2 = ((resp, err1), s3)"
    by (metis prod.exhaust)
  obtain fin s4 where fin: "run_state (recordCall H m (finishedCall f ?r resp err1)) s3 = (fin, s4)" by fastforce
  have ok: "o1 = None" "err1 = None" "response = resp" "e = e0" "s' = s4"
    using assms stamp rec sess call fin
    by (auto simp: invokeCall_def Let_def split: if_splits option.splits)
  then have "answered H (fi_Alias f) (defaultPhase ?r) response s2 s3" using callAttempts_ok call by simp
  moreover have "later s s2"
    using stampEvent_run [OF stamp] state_io_relD [OF later_recordCall rec] state_io_relD [OF later_session sess] by (simp add: later_def)
  moreover have "anyGrowth s s2" using stampEvent_run [OF stamp] recordCall_trace [OF rec] session_trace [OF sess] by (auto simp: anyGrowth_iff)
  moreover have "anyGrowth s3 s'" using recordCall_trace [OF fin] ok(5) by (auto simp: anyGrowth_iff)
  ultimately show ?thesis using answered_later stampEvent_run [OF stamp] ok(4) by blast
qed

text \<open>What an enforced gate or validator must have done for an event to pass.\<close>

definition permitted :: "featureHost \<Rightarrow> pluginEvent \<Rightarrow> featureInstance \<Rightarrow> pluginState \<Rightarrow> pluginState \<Rightarrow> bool" where
  "permitted H e f s s' \<longleftrightarrow> (\<exists>r response.
     answered H (fi_Alias f) r response s s' \<and> rq_Feature r = ft_Name (fi_Feature f) \<and> rq_Action r = fi_Kind f \<and>
     ev_Phase (rq_Event r) = ev_Phase e \<and> rs_Decision response = ''allow'' \<and>
     (rs_ExpiresAt response = 0 \<or> (\<exists>n \<ge> pt_Tick s. ph_Now H n < rs_ExpiresAt response)))"

lemma permitted_wider:
  assumes "permitted H e f s1 s2" "later s s1" "anyGrowth s s1" "anyGrowth s2 s'"
  shows "permitted H e f s s'"
  using assms answered_later [OF _ assms(2-4)] unfolding permitted_def later_def by (meson le_trans)

lemma emitFeature_ok:
  assumes "run_state (emitFeature H m e f) s = (None, s')" "fi_Mode f = ''enforce''" "fi_Kind f \<in> {''gate'', ''validator''}"
    and "ev_Phase e \<noteq> ''''"
  shows "permitted H e f s s'"
proof -
  let ?req = "noRequest\<lparr>rq_Action := fi_Kind f, rq_Event := eventFor f e\<rparr>"
  obtain response err e1 s1 where call: "run_state (invokeCall H m f ?req) s = ((response, err, e1), s1)" by (metis prod.exhaust)
  have err: "err = None" and dec: "run_state (decisionError H (fi_Kind f) response) s1 = (None, s')"
    using assms(1,2) call by (auto simp: emitFeature_def split: option.splits prod.splits)
  have phase: "ev_Phase (eventFor f e) = ev_Phase e" by (simp add: eventFor_def)
  let ?r = "defaultPhase (requestOf H f ?req e1)"
  from invokeCall_ok [OF call [unfolded err]] have ans: "answered H (fi_Alias f) ?r response s s1" and e1: "ev_Phase e1 = ev_Phase e"
    using phase by simp_all
  from dec assms(3) have "rs_Decision response = ''allow''"
    and time: "rs_ExpiresAt response = 0 \<or> ph_Now H (pt_Tick s1) < rs_ExpiresAt response" and same: "pt_Trace s' = pt_Trace s1"
    by (auto simp: decisionError_def split: if_splits)
  moreover have "pt_Tick s \<le> pt_Tick s1" using state_io_relD [OF time_calls.call call] by (simp add: later_def)
  moreover have "answered H (fi_Alias f) ?r response s s'" using ans same by (simp add: answered_def)
  moreover have "rq_Feature ?r = ft_Name (fi_Feature f)" "rq_Action ?r = fi_Kind f" "ev_Phase (rq_Event ?r) = ev_Phase e"
    using e1 assms(4) by (simp_all add: requestOf_def Let_def defaultPhase_def)
  ultimately show ?thesis unfolding permitted_def by blast
qed

lemma emitAll_ok:
  assumes "run_state (emitAll H m e fs required) s = (None, s')" "ev_Phase e \<noteq> ''''"
  shows "required = None \<and> (\<forall>f \<in> set fs. listens m e f \<and> fi_Mode f = ''enforce'' \<and> fi_Kind f \<in> {''gate'', ''validator''} \<longrightarrow> permitted H e f s s')"
  using assms(1)
proof (induction fs arbitrary: required s)
  case (Cons f fs)
  show ?case
  proof (cases "listens m e f")
    case True
    obtain err s1 where one: "run_state (emitFeature H m e f) s = (err, s1)" by fastforce
    with True Cons.prems have rest: "run_state (emitAll H m e fs (if err = None then required else joinPlug [required, err])) s1 = (None, s')" by simp
    note IH = Cons.IH [OF rest]
    have err: "err = None" "required = None" using IH by (auto split: if_splits)
    have "later s s1" "anyGrowth s s1" "anyGrowth s1 s'"
      using state_io_relD [OF time_calls.rel_emitFeature one] state_io_relD [OF audit.rel_emitFeature one] state_io_relD [OF audit.rel_emitAll rest]
      by (auto simp: grows_def)
    note grown = this
    have self: "anyGrowth s' s'" "later s s" "anyGrowth s s" by (simp_all add: grows_def later_def)
    have "permitted H e f s s'" if "fi_Mode f = ''enforce''" "fi_Kind f \<in> {''gate'', ''validator''}"
      using permitted_wider [OF emitFeature_ok [OF one [unfolded err(1)] that assms(2)] self(2,3) grown(3)] .
    moreover have "permitted H e g s s'" if "permitted H e g s1 s'" for g
      using permitted_wider [OF that grown(1,2) self(1)] .
    ultimately show ?thesis using IH err(2) by simp
  next
    case False
    then show ?thesis using Cons by auto
  qed
qed simp

text \<open>
  C22: Gates fail closed. When an event is accepted (and is not the repeated end of a node), every enforced gate and
  validator that listens to it was sent a request of that phase, answered without a fault while the event was
  processed, and allowed it with a decision that had not expired. A plugin that is missing, silent, failing, cancelled or
  ambiguous never lets the event pass.
\<close>

theorem Emit_fails_closed:
  assumes "run_state (Emit H m e) s = (None, s')"
    and "ev_Phase e \<noteq> ''''" "ev_Phase e = ''node.finished'' \<longrightarrow> ev_Node e \<notin> set (pt_Terminal s)"
    and "f \<in> set (lc_Features m)" "listens m e f" "fi_Mode f = ''enforce''" "fi_Kind f \<in> {''gate'', ''validator''}"
  shows "permitted H e f s s'"
proof -
  define s1 where "s1 = (if ev_Phase e = ''node.finished'' then s\<lparr>pt_Terminal := ev_Node e # pt_Terminal s\<rparr> else s)"
  obtain e1 s2 where stamp: "run_state (stampEvent m e) s1 = (e1, s2)" by fastforce
  note phase = stampEvent_run [OF stamp]
  have "run_state (emitAll H m e1 (lc_Features m) None) s2 = (None, s')"
    using assms(1,3) stamp by (auto simp: Emit_def s1_def split: if_splits)
  from emitAll_ok [OF this] phase assms(2,4-7) have "permitted H e1 f s2 s'" by (auto simp: listens_def)
  then show ?thesis using phase by (simp add: permitted_def answered_def s1_def split: if_splits)
qed
lemmas plugin_run_defs = Emit_def stampEvent_def emitFeature_def invokeCall_def recordCall_def session_def prepareWork_def
  sessionEnv_def openPlugin_def sessionCall_def sendRequest_def decisionError_def listens_def eventFor_def hasRecorder_def isExternal_def
  isStaticOperation_def hasKey_def MaxMessageSize_def configureRequest_def defaultPhase_def requestOf_def numeral_3_eq_3 shouldRetry_def
  repeatable_def publicCode_def identifierName_def isLowerChar_def isDigitChar_def joinPlug_def List.map_filter_def Let_def

theorem Emit_fails_closed_witness:
  "permitted (samplePluginHost allowed) sampleAdmit sampleGate samplePluginState
     (snd (run_state (Emit (samplePluginHost allowed) (sampleLifecycle [sampleGate]) sampleAdmit) samplePluginState))"
proof -
  let ?run = "run_state (Emit (samplePluginHost allowed) (sampleLifecycle [sampleGate]) sampleAdmit) samplePluginState"
  have "fst ?run = None"
    by (simp add: sample_plugin_defs plugin_run_defs)
  then have "?run = (None, snd ?run)" by (metis prod.collapse)
  then show ?thesis
    by (rule Emit_fails_closed)
      (simp_all add: sample_plugin_defs listens_def isStaticOperation_def)
qed

text \<open>
  A required observer of the release of credentials can fail without \<open>Close\<close> reporting it: the completion errors are
  read before the credentials are released, and releasing adds to them.
\<close>

definition sampleProvider :: featureInstance where
  "sampleProvider = sampleGate\<lparr>fi_Feature := (fi_Feature sampleGate)\<lparr>ft_Name := ''cred'', ft_Kind := ''credential_provider'', ft_Events := []\<rparr>\<rparr>"

definition sampleObserver :: featureInstance where
  "sampleObserver = sampleGate\<lparr>fi_Feature := (fi_Feature sampleGate)\<lparr>ft_Name := ''watch'', ft_Kind := ''observer'', ft_Events := [''credential.release'']\<rparr>\<rparr>"

definition faulty :: Response where
  "faulty = noResponse\<lparr>rs_Fault := Some \<lparr>fl_Code = ''broken'', fl_Fatal = False, fl_Retryable = False\<rparr>\<rparr>"

definition sampleLeaseState :: pluginState where
  "sampleLeaseState = samplePluginState\<lparr>pt_Nodes := [(''a'', noScope\<lparr>cs_Leases :=
     [\<lparr>cle_Identity = ''me'', cle_Feature = sampleProvider, cle_Reference = [], cle_Lease = \<lparr>ls_ID = ''l'', ls_ExpiresAt = 100, ls_RenewAt = 0\<rparr>, cle_Env = []\<rparr>]\<rparr>)]\<rparr>"

definition sampleClose :: "nat \<Rightarrow> plugErr option \<times> pluginState" where
  "sampleClose k = run_state (closeLifecycle ((samplePluginHost noResponse)\<lparr>ph_RPC := (\<lambda>n. RpcAnswer (if n = k then faulty else noResponse))\<rparr>)
     (sampleLifecycle [sampleProvider, sampleObserver])) sampleLeaseState"
theorem Close_drops_release_failure:
  "fst (sampleClose 19) = None \<and> pt_Completion (snd (sampleClose 19)) \<noteq> None"
  unfolding sampleClose_def sampleLeaseState_def
  by (simp add: sample_plugin_defs sampleProvider_def sampleObserver_def faulty_def noScope_def closeLifecycle_def closeCredentials_def CloseProcesses_def
      releaseRequest_def invoke_def credentialActions_def AddCompletionError_def updateScope_def scopeOf_def plugin_run_defs)

end
