(* ===== verification/Durations.thy ===== *)
theory Durations
  imports Blueprint_Types
begin

text \<open>
  \<open>time.ParseDuration\<close> and the string trimming the configuration blocks use. Durations are nanoseconds in a signed 64-bit
  integer: every overflow the library checks is checked here, on natural numbers. The product of a decimal fraction with
  its unit is computed in floating point and is a parameter \<open>fl\<close>.
\<close>

definition digitValue :: "char \<Rightarrow> nat" where
  "digitValue c = of_char c - 48"

fun leadingInt :: "nat \<Rightarrow> string \<Rightarrow> (nat \<times> string) option" where
  "leadingInt x [] = Some (x, [])"
| "leadingInt x (c # s) =
     (if \<not> isDigitChar c then Some (x, c # s)
      else if x > 2 ^ 63 div 10 then None
      else if 10 * x + digitValue c > 2 ^ 63 then None
      else leadingInt (10 * x + digitValue c) s)"

text \<open>Digits past the precision are skipped without scaling.\<close>

fun leadingFraction :: "bool \<Rightarrow> nat \<Rightarrow> nat \<Rightarrow> string \<Rightarrow> nat \<times> nat \<times> string" where
  "leadingFraction overflow x scale [] = (x, scale, [])"
| "leadingFraction overflow x scale (c # s) =
     (if \<not> isDigitChar c then (x, scale, c # s)
      else if overflow \<or> x > (2 ^ 63 - 1) div 10 \<or> 10 * x + digitValue c > 2 ^ 63
      then leadingFraction True x scale s
      else leadingFraction False (10 * x + digitValue c) (10 * scale) s)"

definition unitMap :: "nat smap" where
  "unitMap =
     [(''ns'', 1), (''us'', 1000), (CHR 0xC2 # CHR 0xB5 # ''s'', 1000), (CHR 0xCE # CHR 0xBC # ''s'', 1000),
      (''ms'', 1000000), (''s'', 1000000000), (''m'', 60000000000), (''h'', 3600000000000)]"

text \<open>One \<open>[0-9]*(\.[0-9]*)?[a-z]+\<close> term: its nanoseconds and the rest of the text.\<close>

definition durationUnit :: "(nat \<Rightarrow> nat \<Rightarrow> nat \<Rightarrow> nat) \<Rightarrow> nat \<Rightarrow> nat \<Rightarrow> nat \<Rightarrow> string \<Rightarrow> (nat \<times> string) option" where
  "durationUnit fl v f scale s =
     (let unitChar = (\<lambda>c. c \<noteq> CHR ''.'' \<and> \<not> isDigitChar c) in
      case map_of unitMap (takeWhile unitChar s) of
        None \<Rightarrow> None
      | Some u \<Rightarrow>
          if v > 2 ^ 63 div u then None
          else let v' = v * u + (if f > 0 then fl f u scale else 0) in
            if f > 0 \<and> v' > 2 ^ 63 then None else Some (v', dropWhile unitChar s))"

definition durationTerm :: "(nat \<Rightarrow> nat \<Rightarrow> nat \<Rightarrow> nat) \<Rightarrow> string \<Rightarrow> (nat \<times> string) option" where
  "durationTerm fl s =
     (case leadingInt 0 s of
        None \<Rightarrow> None
      | Some (v, s1) \<Rightarrow>
          (case s1 of
             c # s2 \<Rightarrow>
               if c = CHR ''.'' then
                 (case leadingFraction False 0 1 s2 of (f, scale, s3) \<Rightarrow>
                    if length s1 = length s \<and> length s3 = length s2 then None else durationUnit fl v f scale s3)
               else if length s1 = length s then None else durationUnit fl v 0 1 s1
           | [] \<Rightarrow> None))"

lemma leadingInt_length: "leadingInt x s = Some (v, r) \<Longrightarrow> length r \<le> length s"
  by (induction x s rule: leadingInt.induct) (auto split: if_splits)

lemma leadingFraction_length: "leadingFraction b x k s = (f, scale, r) \<Longrightarrow> length r \<le> length s"
  by (induction b x k s rule: leadingFraction.induct) (auto split: if_splits)

lemma durationUnit_shorter:
  assumes "durationUnit fl v f k s = Some (w, r)"
  shows "length r < length s"
proof -
  let ?unitChar = "\<lambda>c. c \<noteq> CHR ''.'' \<and> \<not> isDigitChar c"
  have "map_of unitMap [] = None" by (simp add: unitMap_def)
  with assms have "takeWhile ?unitChar s \<noteq> []" and r: "r = dropWhile ?unitChar s"
    by (auto simp: durationUnit_def Let_def split: option.splits if_splits)
  moreover have "length (takeWhile ?unitChar s) + length (dropWhile ?unitChar s) = length s"
    by (metis length_append takeWhile_dropWhile_id)
  ultimately show ?thesis by (cases "takeWhile ?unitChar s") auto
qed

lemma durationTerm_shorter: "durationTerm fl s = Some (v, r) \<Longrightarrow> length r < length s"
  by (auto simp: durationTerm_def split: option.splits list.splits prod.splits if_splits
      dest!: leadingInt_length leadingFraction_length durationUnit_shorter)

function durationLoop :: "(nat \<Rightarrow> nat \<Rightarrow> nat \<Rightarrow> nat) \<Rightarrow> nat \<Rightarrow> string \<Rightarrow> nat option" where
  "durationLoop fl d s =
     (if s = [] then Some d
      else (case durationTerm fl s of
              None \<Rightarrow> None
            | Some (v, rest) \<Rightarrow>
                let sum = (d + v) mod 2 ^ 64 in if sum > 2 ^ 63 then None else durationLoop fl sum rest))"
  by auto
termination
  by (relation "measure (\<lambda>(fl, d, s). length s)") (auto dest: durationTerm_shorter)

declare durationLoop.simps [simp del]

definition ParseDuration :: "(nat \<Rightarrow> nat \<Rightarrow> nat \<Rightarrow> nat) \<Rightarrow> string \<Rightarrow> int option" where
  "ParseDuration fl text =
     (let signed = text \<noteq> '''' \<and> (hd text = CHR ''-'' \<or> hd text = CHR ''+'');
          neg = (signed \<and> hd text = CHR ''-'');
          s = (if signed then tl text else text) in
      if s = ''0'' then Some 0
      else if s = '''' then None
      else (case durationLoop fl 0 s of
              None \<Rightarrow> None
            | Some d \<Rightarrow> if neg then Some (- int d) else if d > 2 ^ 63 - 1 then None else Some (int d)))"

text \<open>\<open>strings.Trim\<close> with a one-character cutset.\<close>

definition TrimChar :: "char \<Rightarrow> string \<Rightarrow> string" where
  "TrimChar c s = rev (dropWhile ((=) c) (rev (dropWhile ((=) c) s)))"

text \<open>A parsed duration fits its 64 bits.\<close>

lemma durationLoop_bound: "durationLoop fl d s = Some v \<Longrightarrow> d \<le> 2 ^ 63 \<Longrightarrow> v \<le> 2 ^ 63"
proof (induction fl d s rule: durationLoop.induct)
  case (1 fl d s)
  show ?case
  proof (cases "s = []")
    case False
    with "1.prems"(1) obtain w rest where
      t: "durationTerm fl s = Some (w, rest)" "\<not> (d + w) mod 2 ^ 64 > 2 ^ 63" "durationLoop fl ((d + w) mod 2 ^ 64) rest = Some v"
      by (subst (asm) durationLoop.simps) (auto simp: Let_def split: option.splits if_splits)
    then show ?thesis using "1.IH" [OF False t(1) refl refl t(2)] by simp
  qed (use "1.prems" in \<open>simp add: durationLoop.simps\<close>)
qed

lemma ParseDuration_bounds:
  assumes "ParseDuration fl text = Some d"
  shows "- (2 ^ 63) \<le> d \<and> d < 2 ^ 63"
proof -
  have b: "v \<le> 2 ^ 63" if "durationLoop fl 0 s = Some v" for s v
    using durationLoop_bound [OF that] by simp
  show ?thesis using assms by (auto simp: ParseDuration_def Let_def split: if_splits option.splits dest!: b)
qed

end
