(* ===== verification/Hcl_Read.thy ===== *)
theory Hcl_Read
  imports Durations Values Paths
begin

text \<open>
  Reading attributes of blueprint blocks (\<open>internal/blueprint/parse.go\<close>, \<open>backend_address.go\<close>): literal strings,
  variable maps, environment maps, and references read as traversals.

  The HCL library is a record of functions over abstract bodies, expressions and evaluation contexts. It decodes a body
  against a schema, evaluates an expression, reads one as a traversal or as a static list, and converts values to
  strings and to JSON. Nothing is assumed about it: an attribute the schema requires but a content lacks, an empty
  label list, an empty traversal and a typed read of a value of another type are \<open>ParsePanic\<close>, the outcome Go gives
  them. Diagnostics carry the library's text; messages of the parser are abbreviated and source ranges dropped.
\<close>

subsection \<open>The HCL library\<close>

record hclSchema =
  sc_Attributes :: "(string \<times> bool) list"
  sc_Blocks :: "(string \<times> string list) list"

record 'b hclBlock =
  hb_Type :: string
  hb_Labels :: "string list"
  hb_Body :: 'b

record ('b, 'e) hclContent =
  hc_Attributes :: "'e smap"
  hc_Blocks :: "'b hclBlock list"

datatype hclStep = TraverseRoot string | TraverseAttr string | TraverseIndex

text \<open>
  \<open>hl_SyntaxBody\<close> is the native syntax tree of a body, its attribute names and blocks, when the body is one;
  \<open>hl_FloatScale f u s\<close> is \<open>uint64(float64(f) * (float64(u) / s))\<close>.
\<close>

record ('b, 'e, 'c) hclLib =
  hl_ParseHCL :: "string \<Rightarrow> string + 'b"
  hl_Content :: "hclSchema \<Rightarrow> 'b \<Rightarrow> string + ('b, 'e) hclContent"
  hl_PartialContent :: "hclSchema \<Rightarrow> 'b \<Rightarrow> string + ('b, 'e) hclContent \<times> 'b"
  hl_SyntaxBody :: "'b \<Rightarrow> (string list \<times> 'b hclBlock list) option"
  hl_Value :: "'c option \<Rightarrow> 'e \<Rightarrow> string + ctyval"
  hl_AbsTraversal :: "'e \<Rightarrow> hclStep list option"
  hl_ExprList :: "'e \<Rightarrow> 'e list option"
  hl_ParseExpression :: "string \<Rightarrow> string + 'e"
  hl_TypeConstraint :: "'e \<Rightarrow> string + cty"
  hl_ConvertString :: "ctyval \<Rightarrow> string + ctyval"
  hl_JSON :: "ctyval \<Rightarrow> string + jval"
  hl_Cty :: CtyLib
  hl_FloatScale :: "nat \<Rightarrow> nat \<Rightarrow> nat \<Rightarrow> nat"

datatype parseError =
    HclDiags string
  | Refused string
  | InScope scope_error
  | InConfig config_error
  | FileError string
  | ParsePanic

abbreviation (input) diags :: "string + 'a \<Rightarrow> parseError + 'a" where
  "diags \<equiv> mapErr HclDiags"

text \<open>\<open>content.Attributes[name]\<close> dereferenced, and \<open>block.Labels[0]\<close>.\<close>

definition attrOf :: "('b, 'e) hclContent \<Rightarrow> string \<Rightarrow> parseError + 'e" where
  "attrOf content name = (case map_of (hc_Attributes content) name of Some e \<Rightarrow> Inr e | None \<Rightarrow> Inl ParsePanic)"

definition label0 :: "'b hclBlock \<Rightarrow> parseError + string" where
  "label0 block = (case hb_Labels block of l # _ \<Rightarrow> Inr l | [] \<Rightarrow> Inl ParsePanic)"

text \<open>\<open>if attr, ok := content.Attributes[name]; ok { ... }\<close> around a reader.\<close>

definition optAttr :: "('b, 'e) hclContent \<Rightarrow> string \<Rightarrow> 'a \<Rightarrow> ('e \<Rightarrow> parseError + 'a) \<Rightarrow> parseError + 'a" where
  "optAttr content name absent read =
     (case map_of (hc_Attributes content) name of None \<Rightarrow> Inr absent | Some e \<Rightarrow> read e)"

definition validateName :: "string \<Rightarrow> string \<Rightarrow> parseError + unit" where
  "validateName kind name = require (validName name) (Refused (kind @ '' name is invalid''))"

subsection \<open>Literal values\<close>

text \<open>The guard every literal string shares: no diagnostics, not null, known, of type string.\<close>

definition literalString :: "('b, 'e, 'c) hclLib \<Rightarrow> string \<Rightarrow> 'e \<Rightarrow> parseError + string" where
  "literalString L what e =
     (case hl_Value L None e of
        Inr (VString s) \<Rightarrow> Inr s
      | _ \<Rightarrow> Inl (Refused (what @ '' must be a literal string'')))"

definition nonEmptyString :: "('b, 'e, 'c) hclLib \<Rightarrow> string \<Rightarrow> 'e \<Rightarrow> parseError + string" where
  "nonEmptyString L what e =
     bindR (literalString L what e) (\<lambda>s. if s = '''' then Inl (Refused (what @ '' must not be empty'')) else Inr s)"

definition parseApproveAttr :: "('b, 'e, 'c) hclLib \<Rightarrow> 'e option \<Rightarrow> parseError + string" where
  "parseApproveAttr L attr =
     (case attr of
        None \<Rightarrow> Inr ''''
      | Some e \<Rightarrow> bindR (literalString L ''approve'' e) (\<lambda>s. mapErr (\<lambda>s. Refused (''approve '' @ s)) (ParseApprove s)))"

text \<open>The pairs an \<open>ElementIterator\<close> over an object or a map visits; any other value is refused by the callers.\<close>

definition mapEntries :: "ctyval \<Rightarrow> ctyval smap option" where
  "mapEntries v = (case v of VObject kvs \<Rightarrow> Some kvs | VMap t kvs \<Rightarrow> Some kvs | _ \<Rightarrow> None)"

definition addVar :: "('b, 'e, 'c) hclLib \<Rightarrow> jval smap \<Rightarrow> string \<times> ctyval \<Rightarrow> parseError + jval smap" where
  "addVar L acc kv =
     bindR (mapErr (\<lambda>e. Refused (''vars.'' @ fst kv @ '': '' @ e)) (hl_JSON L (snd kv)))
       (\<lambda>j. Inr (AList.update (fst kv) j acc))"

definition parseVarsAttr :: "('b, 'e, 'c) hclLib \<Rightarrow> 'c option \<Rightarrow> 'e \<Rightarrow> parseError + jval smap" where
  "parseVarsAttr L evaluation e =
     (case hl_Value L evaluation e of
        Inl d \<Rightarrow> Inl (Refused ''vars must be an object of literal values or plugin function results'')
      | Inr v \<Rightarrow>
          (case mapEntries v of
             None \<Rightarrow> Inl (Refused ''vars must be an object/map of variable name to value'')
           | Some kvs \<Rightarrow> foldR (addVar L) [] kvs))"

definition addString :: "('b, 'e, 'c) hclLib \<Rightarrow> string \<Rightarrow> string smap \<Rightarrow> string \<times> ctyval \<Rightarrow> parseError + string smap" where
  "addString L attrName acc kv =
     (case hl_ConvertString L (snd kv) of
        Inl d \<Rightarrow> Inl (Refused (attrName @ ''.'' @ fst kv @ '' must be a string''))
      | Inr (VNull t) \<Rightarrow> Inl (Refused (attrName @ ''.'' @ fst kv @ '' must not be null''))
      | Inr (VString s) \<Rightarrow> Inr (AList.update (fst kv) s acc)
      | Inr v \<Rightarrow> Inl ParsePanic)"

definition parseStringMapAttr :: "('b, 'e, 'c) hclLib \<Rightarrow> string \<Rightarrow> 'e \<Rightarrow> parseError + string smap" where
  "parseStringMapAttr L attrName e =
     (case hl_Value L None e of
        Inl d \<Rightarrow> Inl (Refused (attrName @ '' must be a literal map of strings''))
      | Inr v \<Rightarrow>
          (case mapEntries v of
             None \<Rightarrow> Inl (Refused (attrName @ '' must be a map/object of strings''))
           | Some kvs \<Rightarrow> foldR (addString L attrName) [] kvs))"

definition parseBackendConfig :: "('b, 'e, 'c) hclLib \<Rightarrow> 'e \<Rightarrow> parseError + string smap" where
  "parseBackendConfig L e = parseStringMapAttr L ''backend_config'' e"

text \<open>
  The variable an environment entry sets: the key up to its first equals sign. Case folding against
  \<open>TF_DATA_DIR\<close> only meets ASCII letters, because no other character folds to one of its letters.
\<close>

definition envName :: "string \<Rightarrow> string" where
  "envName key = takeWhile (\<lambda>c. c \<noteq> CHR ''='') key"

definition managedEnv :: "string \<Rightarrow> bool" where
  "managedEnv key \<longleftrightarrow> toUpper (envName key) = ''TF_DATA_DIR''"

definition parseEnvAttr :: "('b, 'e, 'c) hclLib \<Rightarrow> 'e \<Rightarrow> parseError + string smap" where
  "parseEnvAttr L e =
     bindR (parseStringMapAttr L ''env'' e) (\<lambda>env.
       (case find managedEnv (sortedKeys env) of
          Some key \<Rightarrow> Inl (Refused (''env.'' @ key @ '': TF_DATA_DIR is managed per node''))
        | None \<Rightarrow> Inr env))"

definition backendField :: "string \<times> string \<Rightarrow> parseError + unit" where
  "backendField kv =
     (if fst kv = ''s3_key_prefix'' then Inr ()
      else if fst kv = ''s3_key_name'' then
        require (snd kv \<noteq> '''' \<and> snd kv \<noteq> ''.'' \<and> snd kv \<noteq> ''..'' \<and> \<not> list_ex (\<lambda>c. c = CHR ''/'' \<or> c = CHR 0x5C) (snd kv))
          (Refused ''backend_address.s3_key_name: must be a file name'')
      else Inl (Refused (''backend_address.'' @ fst kv @ '': unsupported field'')))"

definition ParseBackendAddress :: "('b, 'e, 'c) hclLib \<Rightarrow> 'e option \<Rightarrow> parseError + string smap option" where
  "ParseBackendAddress L attr =
     (case attr of
        None \<Rightarrow> Inr None
      | Some e \<Rightarrow>
          bindR (parseStringMapAttr L ''backend_address'' e) (\<lambda>fields.
          bindR (foldR (\<lambda>_ kv. backendField kv) () fields) (\<lambda>_. Inr (Some fields))))"

subsection \<open>References\<close>

definition traverseAttrName :: "hclStep \<Rightarrow> parseError + string" where
  "traverseAttrName step =
     (case step of TraverseAttr name \<Rightarrow> Inr name | _ \<Rightarrow> Inl (Refused ''expected a simple attribute reference''))"

text \<open>The steps of a traversal with its root name split off; indexing an empty traversal panics.\<close>

definition rootedSteps :: "string \<Rightarrow> hclStep list \<Rightarrow> parseError + string \<times> hclStep list" where
  "rootedSteps msg steps =
     (case steps of
        [] \<Rightarrow> Inl ParsePanic
      | TraverseRoot r # rest \<Rightarrow> Inr (r, rest)
      | _ \<Rightarrow> Inl (Refused msg))"

definition parseRuntimeRef :: "('b, 'e, 'c) hclLib \<Rightarrow> 'e option \<Rightarrow> parseError + string" where
  "parseRuntimeRef L attr =
     (case attr of
        None \<Rightarrow> Inr ''''
      | Some e \<Rightarrow>
          (case hl_AbsTraversal L e of
             Some [TraverseRoot r, step] \<Rightarrow>
               if r \<noteq> ''runtime'' then Inl (Refused ''runtime must be a reference of the form runtime.<name>'')
               else traverseAttrName step
           | _ \<Rightarrow> Inl (Refused ''runtime must be a reference of the form runtime.<name>'')))"

definition parseRelativeOutputRef :: "('b, 'e, 'c) hclLib \<Rightarrow> 'e \<Rightarrow> parseError + string" where
  "parseRelativeOutputRef L e =
     (case hl_AbsTraversal L e of
        None \<Rightarrow> Inl (Refused ''must be a reference of the form output.<attr>, not an expression'')
      | Some steps \<Rightarrow>
          bindR (rootedSteps ''must be a reference of the form output.<attr>'' steps) (\<lambda>(r, rest).
            if r = ''node'' \<or> r = ''use'' then Inl (Refused ''must be a relative reference of the form output.<attr>'')
            else if r \<noteq> PortOutput then Inl (Refused ''must be a reference of the form output.<attr>'')
            else (case rest of
                    [step] \<Rightarrow> traverseAttrName step
                  | _ \<Rightarrow> Inl (Refused ''expected output.<attr>''))))"

definition parseKind :: "string \<Rightarrow> parseError + string" where
  "parseKind kindName =
     (if kindName = PortOutput then Inr PortOutput
      else if kindName = PortInput then Inr PortInput
      else Inl (Refused ''expected output or input''))"

definition parseNodeOrPortRef :: "('b, 'e, 'c) hclLib \<Rightarrow> 'e \<Rightarrow> parseError + PortRef" where
  "parseNodeOrPortRef L e =
     (case hl_AbsTraversal L e of
        None \<Rightarrow> Inl (Refused ''must be a reference of the form node.<name> or use.<name>'')
      | Some steps \<Rightarrow>
          bindR (rootedSteps ''reference must start with node or use'' steps) (\<lambda>(r, rest).
          bindR (if r = ''node'' then Inr EntityNode else if r = ''use'' then Inr EntityUse
                 else Inl (Refused ''reference must start with node or use'')) (\<lambda>entity.
            (case rest of
               [] \<Rightarrow> Inl (Refused ''expected <keyword>.<name>'')
             | s1 # steps1 \<Rightarrow>
                 bindR (traverseAttrName s1) (\<lambda>name.
                   (case steps1 of
                      [] \<Rightarrow> Inr \<lparr>pr_Entity = entity, pr_Node = name, pr_Kind = '''', pr_Name = ''''\<rparr>
                    | [s2, s3] \<Rightarrow>
                        bindR (traverseAttrName s2) (\<lambda>kindName.
                        bindR (traverseAttrName s3) (\<lambda>portName.
                        bindR (parseKind kindName) (\<lambda>kind.
                          Inr \<lparr>pr_Entity = entity, pr_Node = name, pr_Kind = kind, pr_Name = portName\<rparr>)))
                    | _ \<Rightarrow> Inl (Refused ''expected <keyword>.<name> or <keyword>.<name>.<output|input>.<attr>'')))))))"

definition portOnly :: "PortRef \<Rightarrow> parseError + PortRef" where
  "portOnly ref = (if IsPort ref then Inr ref else Inl (Refused ''must reference a specific port''))"

definition parsePortRefList :: "('b, 'e, 'c) hclLib \<Rightarrow> 'e \<Rightarrow> parseError + PortRef list" where
  "parsePortRefList L e =
     (case parseNodeOrPortRef L e of
        Inr ref \<Rightarrow> bindR (portOnly ref) (\<lambda>r. Inr [r])
      | Inl ParsePanic \<Rightarrow> Inl ParsePanic
      | Inl _ \<Rightarrow>
          (case hl_ExprList L e of
             Some (x # xs) \<Rightarrow> mapR (\<lambda>y. bindR (parseNodeOrPortRef L y) portOnly) (x # xs)
           | _ \<Rightarrow> Inl (Refused ''must be a port reference or a list of them'')))"

end
