(* ===== verification/Block_Parser.thy ===== *)
theory Block_Parser
  imports Hcl_Read
begin

text \<open>
  One parser per kind of blueprint block (\<open>internal/blueprint/parse.go\<close>, \<open>plugin_binding.go\<close>, \<open>plugins.go\<close>,
  \<open>execution.go\<close>, \<open>parse_block_contracts.go\<close>). Go ranges over attribute maps in an unspecified order; the list order
  stands for it, so which of several faults is reported is not determined, and whether a block is accepted is.
\<close>

subsection \<open>Schemas\<close>

abbreviation (input) schema :: "(string \<times> bool) list \<Rightarrow> (string \<times> string list) list \<Rightarrow> hclSchema" where
  "schema attrs blocks \<equiv> \<lparr>sc_Attributes = attrs, sc_Blocks = blocks\<rparr>"

definition topSchema :: hclSchema where
  "topSchema = schema []
     [(''plugin'', [''name'']), (''node'', [''name'']), (''edge'', []), (''group'', [''name'']), (''use'', [''name'']), (''vendor'', []),
      (''tfvars'', []), (''lock'', []), (''runtime'', [''name'']), (''contracts'', []), (''snapshots'', []), (''execution'', []),
      (''producer'', [''source'']), (''consumer'', [''source''])]"

definition vendorSchema :: hclSchema where
  "vendorSchema = schema [(''directory'', False), (''manifest_file'', False)] []"

definition tfvarsSchema :: hclSchema where
  "tfvarsSchema = schema [(''location'', False)] []"

definition lockSchema :: hclSchema where
  "lockSchema = schema [] [(''s3'', [])]"

definition lockS3Schema :: hclSchema where
  "lockS3Schema = schema [(''bucket'', True), (''key'', True), (''region'', True)] []"

definition runtimeSchema :: hclSchema where
  "runtimeSchema = schema [(''binary'', True), (''version'', False), (''default'', False)] []"

definition contractsModeSchema :: hclSchema where
  "contractsModeSchema = schema [(''mode'', True)] []"

definition nodeSchema_hcl :: hclSchema where
  "nodeSchema_hcl = schema
     [(''source'', True), (''backend_config'', False), (''backend_address'', False), (''vars'', False), (''runtime'', False), (''env'', False),
      (''approve'', False)]
     [(''input'', [''name'']), (''credential'', [''name''])]"

definition edgeSchema :: hclSchema where
  "edgeSchema = schema [(''from'', True), (''to'', True)] [(''input'', [''name''])]"

definition edgeInputSchema :: hclSchema where
  "edgeInputSchema = schema [(''from'', True)] []"

definition groupBodySchema :: hclSchema where
  "groupBodySchema = schema []
     [(''node'', [''name'']), (''edge'', []), (''use'', [''name'']), (''export'', []), (''producer'', [''source'']), (''consumer'', [''source''])]"

definition useSchema :: hclSchema where
  "useSchema = schema
     [(''as'', True), (''source'', True), (''runtime'', False), (''env'', False), (''vars'', False), (''approve'', False),
      (''backend_config'', False), (''backend_address'', False)] []"

definition exportBodySchema :: hclSchema where
  "exportBodySchema = schema [] [(''input'', [''name'']), (''output'', [''name''])]"

definition exportInputSchema :: hclSchema where
  "exportInputSchema = schema [(''to'', True)] []"

definition exportOutputSchema :: hclSchema where
  "exportOutputSchema = schema [(''from'', True)] []"

definition executionSchema :: hclSchema where
  "executionSchema = schema
     [(''bucket'', False), (''prefix'', False), (''region'', False), (''plan_ttl'', False), (''record_retention'', False)] []"

definition pluginSchema :: hclSchema where
  "pluginSchema = schema [(''source'', True), (''version'', True), (''config'', False)] [(''feature'', [''name'']), (''access'', [])]"

definition contractsSideSchema :: hclSchema where
  "contractsSideSchema = schema [] [(''output'', [''name'']), (''input'', [''name''])]"

definition portContractSchema :: hclSchema where
  "portContractSchema = schema [(''type'', False), (''nullable'', False), (''sensitive'', False)] []"

subsection \<open>Project configuration\<close>

definition parseVendorBlock :: "('b, 'e, 'c) hclLib \<Rightarrow> 'b hclBlock \<Rightarrow> parseError + VendorConfig" where
  "parseVendorBlock L block =
     bindR (diags (hl_Content L vendorSchema (hb_Body block))) (\<lambda>content.
     bindR (optAttr content ''directory'' '''' (literalString L ''directory'')) (\<lambda>directory.
     bindR (optAttr content ''manifest_file'' '''' (literalString L ''manifest_file'')) (\<lambda>manifest.
       Inr \<lparr>vc_Directory = directory, vc_ManifestFile = manifest\<rparr>)))"

definition tfvarsLocation :: "string \<Rightarrow> parseError + string" where
  "tfvarsLocation loc =
     (if loc \<noteq> ''workdir'' \<and> loc \<noteq> ''module'' then Inl (Refused ''location must be workdir or module'') else Inr loc)"

definition parseTFVarsBlock :: "('b, 'e, 'c) hclLib \<Rightarrow> 'b hclBlock \<Rightarrow> parseError + string" where
  "parseTFVarsBlock L block =
     bindR (diags (hl_Content L tfvarsSchema (hb_Body block))) (\<lambda>content.
       optAttr content ''location'' '''' (\<lambda>e. bindR (literalString L ''location'' e) tfvarsLocation))"

definition parseContractsBlock :: "('b, 'e, 'c) hclLib \<Rightarrow> 'b hclBlock \<Rightarrow> parseError + string" where
  "parseContractsBlock L block =
     bindR (diags (hl_Content L contractsModeSchema (hb_Body block))) (\<lambda>content.
     bindR (attrOf content ''mode'') (\<lambda>e.
     bindR (literalString L ''mode'' e) (\<lambda>mode.
       if mode \<noteq> ''warn'' \<and> mode \<noteq> ''enforce'' then Inl (Refused ''mode must be warn or enforce'') else Inr mode)))"

definition parseSnapshotsBlock :: "('b, 'e, 'c) hclLib \<Rightarrow> 'b hclBlock \<Rightarrow> parseError + bool" where
  "parseSnapshotsBlock L block =
     bindR (diags (hl_Content L (schema [] []) (hb_Body block))) (\<lambda>_. Inr True)"

definition parseLockS3Block :: "('b, 'e, 'c) hclLib \<Rightarrow> 'b hclBlock \<Rightarrow> parseError + S3Lock" where
  "parseLockS3Block L block =
     bindR (diags (hl_Content L lockS3Schema (hb_Body block))) (\<lambda>content.
     bindR (mapR (\<lambda>name. bindR (attrOf content name) (nonEmptyString L name)) [''bucket'', ''key'', ''region'']) (\<lambda>fields.
       Inr \<lparr>s3_Bucket = fields ! 0, s3_Key = fields ! 1, s3_Region = fields ! 2\<rparr>))"

definition singleBackend :: "('b, 'e, 'c) hclLib \<Rightarrow> 'b hclBlock list \<Rightarrow> parseError + Lock" where
  "singleBackend L blocks =
     (case blocks of
        [b] \<Rightarrow> bindR (parseLockS3Block L b) (\<lambda>s3. Inr \<lparr>lk_S3 = Some s3\<rparr>)
      | _ \<Rightarrow> Inl (Refused ''lock block must contain exactly one nested backend''))"

definition parseLockSyntaxBody :: "('b, 'e, 'c) hclLib \<Rightarrow> string list \<times> 'b hclBlock list \<Rightarrow> parseError + Lock" where
  "parseLockSyntaxBody L syn =
     (case syn of (attrs, blocks) \<Rightarrow>
        if attrs \<noteq> [] then Inl (Refused ''unexpected attribute'')
        else (case find (\<lambda>b. hb_Type b \<noteq> ''s3'') blocks of
                Some b \<Rightarrow> Inl (Refused (''lock: unknown backend type '' @ hb_Type b))
              | None \<Rightarrow> singleBackend L blocks))"

text \<open>A body that is not native syntax is read with \<open>PartialContent\<close>, and its remainder must be empty.\<close>

definition parseLockBlock :: "('b, 'e, 'c) hclLib \<Rightarrow> 'b hclBlock \<Rightarrow> parseError + Lock" where
  "parseLockBlock L block =
     (case hl_SyntaxBody L (hb_Body block) of
        Some syn \<Rightarrow> parseLockSyntaxBody L syn
      | None \<Rightarrow>
          bindR (diags (hl_PartialContent L lockSchema (hb_Body block))) (\<lambda>(content, remain).
          bindR (diags (hl_Content L (schema [] []) remain)) (\<lambda>_.
            singleBackend L (hc_Blocks content))))"

text \<open>\<open>val.True()\<close> on a null or unknown boolean panics: the guard only compares the type.\<close>

definition runtimeDefault :: "('b, 'e, 'c) hclLib \<Rightarrow> 'e \<Rightarrow> parseError + bool" where
  "runtimeDefault L e =
     (case hl_Value L None e of
        Inl d \<Rightarrow> Inl (Refused ''default must be a literal bool'')
      | Inr v \<Rightarrow>
          if typeOf v \<noteq> CBool then Inl (Refused ''default must be a literal bool'')
          else (case v of VBool b \<Rightarrow> Inr b | _ \<Rightarrow> Inl ParsePanic))"

definition parseRuntimeBlock :: "('b, 'e, 'c) hclLib \<Rightarrow> 'b hclBlock \<Rightarrow> parseError + Runtime" where
  "parseRuntimeBlock L block =
     bindR (diags (hl_Content L runtimeSchema (hb_Body block))) (\<lambda>content.
     bindR (label0 block) (\<lambda>name.
     bindR (validateName ''runtime'' name) (\<lambda>_.
     bindR (attrOf content ''binary'') (\<lambda>e.
     bindR (nonEmptyString L ''binary'' e) (\<lambda>binary.
     bindR (optAttr content ''version'' '''' (literalString L ''version'')) (\<lambda>version.
     bindR (optAttr content ''default'' False (runtimeDefault L)) (\<lambda>isDefault.
       Inr \<lparr>rt_Name = name, rt_Binary = binary, rt_Version = version, rt_Default = isDefault\<rparr>)))))))"

subsection \<open>Execution storage\<close>

text \<open>Bucket, prefix and region come together; the prefix is trimmed and free of empty and relative components.\<close>

definition storagePrefix :: "string \<Rightarrow> string \<Rightarrow> string \<Rightarrow> parseError + string" where
  "storagePrefix bucket prefix region =
     (if bucket = '''' \<and> prefix = '''' \<and> region = '''' then Inr prefix
      else if bucket = '''' \<or> prefix = '''' \<or> region = ''''
      then Inl (Refused ''execution: set bucket, prefix and region together for S3 storage'')
      else let trimmed = TrimChar CHR ''/'' prefix in
        if trimmed = '''' \<or> list_ex (\<lambda>c. c = CHR ''/'' \<or> c = CHR 0x5C \<or> c = CHR '':'') bucket \<or> CHR 0x5C \<in> set trimmed
        then Inl (Refused ''execution: use a bucket name and a dedicated non-root prefix'')
        else if list_ex (\<lambda>part. part = '''' \<or> part = ''.'' \<or> part = ''..'') (splitOn CHR ''/'' trimmed)
        then Inl (Refused ''execution.prefix: remove empty or relative path components'')
        else Inr trimmed)"

definition executionDuration :: "('b, 'e, 'c) hclLib \<Rightarrow> string smap \<Rightarrow> string \<Rightarrow> int \<Rightarrow> parseError + int" where
  "executionDuration L texts name unset =
     (case map_of texts name of
        None \<Rightarrow> Inr unset
      | Some raw \<Rightarrow>
          (case ParseDuration (hl_FloatScale L) raw of
             None \<Rightarrow> Inl (Refused (''execution.'' @ name @ '': use a duration such as 24h''))
           | Some d \<Rightarrow> if d \<le> 0 then Inl (Refused (''execution.'' @ name @ '': use a positive duration'')) else Inr d))"

definition executionText :: "('b, 'e, 'c) hclLib \<Rightarrow> string smap \<Rightarrow> string \<times> 'e \<Rightarrow> parseError + string smap" where
  "executionText L acc attr =
     bindR (nonEmptyString L (''execution.'' @ fst attr) (snd attr)) (\<lambda>s. Inr (AList.update (fst attr) s acc))"

definition parseExecutionBlock :: "('b, 'e, 'c) hclLib \<Rightarrow> 'b hclBlock \<Rightarrow> parseError + ExecutionConfig" where
  "parseExecutionBlock L block =
     bindR (diags (hl_Content L executionSchema (hb_Body block))) (\<lambda>content.
     bindR (foldR (executionText L) [] (hc_Attributes content)) (\<lambda>texts.
     bindR (storagePrefix (sget texts ''bucket'') (sget texts ''prefix'') (sget texts ''region'')) (\<lambda>prefix.
     bindR (executionDuration L texts ''plan_ttl'' (xc_PlanTTL defaultExecution)) (\<lambda>ttl.
     bindR (executionDuration L texts ''record_retention'' (xc_RecordRetention defaultExecution)) (\<lambda>retention.
       Inr \<lparr>xc_Bucket = sget texts ''bucket'', xc_Prefix = prefix, xc_Region = sget texts ''region'', xc_PlanTTL = ttl,
            xc_RecordRetention = retention\<rparr>)))))"

subsection \<open>Plugin bindings and declarations\<close>

definition literalList :: "('b, 'e, 'c) hclLib \<Rightarrow> string \<Rightarrow> 'e \<Rightarrow> parseError + ctyval list" where
  "literalList L what e =
     (case hl_Value L None e of
        Inr v \<Rightarrow> if \<not> isNull v \<and> isWhollyKnown v \<and> isTupleLike v then Inr (elements v)
                 else Inl (Refused (what @ '': use a literal list''))
      | Inl d \<Rightarrow> Inl (Refused (what @ '': use a literal list'')))"

definition credentialName :: "ctyval \<Rightarrow> parseError + string" where
  "credentialName v =
     (case v of
        VString s \<Rightarrow> if CredentialEnvironmentAllowed s then Inr s
                     else Inl (Refused ''only credential environment names are allowed'')
      | _ \<Rightarrow> Inl (Refused ''only credential environment names are allowed''))"

definition bindingSchema :: hclSchema where
  "bindingSchema = schema [(''from'', True), (''ref'', True), (''environment'', False)] []"

definition bindingSource :: "('b, 'e, 'c) hclLib \<Rightarrow> 'e \<Rightarrow> parseError + string \<times> string" where
  "bindingSource L e =
     (case hl_AbsTraversal L e of
        Some [TraverseRoot r, TraverseAttr a, TraverseAttr f] \<Rightarrow>
          if r = ''plugin'' then Inr (a, f) else Inl (Refused ''from: use plugin.alias.feature'')
      | _ \<Rightarrow> Inl (Refused ''from: use plugin.alias.feature''))"

definition bindingEnvironment :: "('b, 'e, 'c) hclLib \<Rightarrow> 'b hclBlock \<Rightarrow> ('b, 'e) hclContent \<Rightarrow> parseError + string list" where
  "bindingEnvironment L block content =
     (case map_of (hc_Attributes content) ''environment'' of
        None \<Rightarrow> Inr []
      | Some e \<Rightarrow>
          if hb_Type block \<noteq> ''credential'' then Inl (Refused ''environment belongs in a credential binding'')
          else bindR (literalList L ''environment'' e) (mapR credentialName))"

definition pluginBinding :: "('b, 'e, 'c) hclLib \<Rightarrow> 'b hclBlock \<Rightarrow> parseError + PluginBinding" where
  "pluginBinding L block =
     bindR (diags (hl_Content L bindingSchema (hb_Body block))) (\<lambda>content.
     bindR (attrOf content ''from'') (\<lambda>from'.
     bindR (bindingSource L from') (\<lambda>(a, f).
     bindR (attrOf content ''ref'') (\<lambda>ref.
     bindR (parseVarsAttr L None ref) (\<lambda>reference.
     bindR (bindingEnvironment L block content) (\<lambda>env.
       Inr \<lparr>pb_Alias = a, pb_Feature = f, pb_Reference = reference, pb_Environment = env\<rparr>))))))"

definition addBinding ::
    "('b, 'e, 'c) hclLib \<Rightarrow> PluginBinding smap \<times> PluginBinding smap \<Rightarrow> 'b hclBlock \<Rightarrow>
     parseError + PluginBinding smap \<times> PluginBinding smap" where
  "addBinding L acc block =
     bindR (pluginBinding L block) (\<lambda>binding.
     bindR (label0 block) (\<lambda>name.
       (if hb_Type block = ''credential'' then
          if pb_Environment binding = [] then Inl (Refused ''explicitly allow the returned environment names'')
          else if hasKey (snd acc) name then Inl (Refused ''duplicate binding'')
          else Inr (fst acc, AList.update name binding (snd acc))
        else if hasKey (fst acc) name then Inl (Refused ''duplicate binding'')
        else Inr (AList.update name binding (fst acc), snd acc))))"

definition parsePluginBindings ::
    "('b, 'e, 'c) hclLib \<Rightarrow> 'b hclBlock list \<Rightarrow> parseError + PluginBinding smap \<times> PluginBinding smap" where
  "parsePluginBindings L blocks = foldR (addBinding L) ([], []) blocks"

definition featureAttr :: "('b, 'e, 'c) hclLib \<Rightarrow> PluginFeature \<Rightarrow> string \<times> 'e \<Rightarrow> parseError + PluginFeature" where
  "featureAttr L f attr =
     bindR (literalString L (fst attr) (snd attr)) (\<lambda>s.
       if fst attr = ''mode'' then
         if s \<noteq> ''enforce'' \<and> s \<noteq> ''advisory'' \<and> s \<noteq> ''best_effort'' then Inl (Refused ''invalid mode'')
         else Inr (f\<lparr>pf_Mode := s\<rparr>)
       else (case ParseDuration (hl_FloatScale L) s of
               Some d \<Rightarrow> if d \<le> 0 \<or> d > 300000000000 then Inl (Refused ''use a duration greater than zero and at most 5m'')
                         else Inr (f\<lparr>pf_Timeout := d\<rparr>)
             | None \<Rightarrow> Inl (Refused ''use a duration greater than zero and at most 5m'')))"

definition pluginFeatureBlock :: "('b, 'e, 'c) hclLib \<Rightarrow> PluginConfig \<Rightarrow> 'b hclBlock \<Rightarrow> parseError + PluginConfig" where
  "pluginFeatureBlock L p block =
     bindR (diags (hl_Content L (schema [(''mode'', False), (''timeout'', False)] []) (hb_Body block))) (\<lambda>content.
     bindR (label0 block) (\<lambda>name.
       if hasKey (plc_Features p) name then Inl (Refused ''duplicate feature'')
       else bindR (foldR (featureAttr L) \<lparr>pf_Mode = '''', pf_Timeout = 0\<rparr> (hc_Attributes content)) (\<lambda>f.
         Inr (p\<lparr>plc_Features := AList.update name f (plc_Features p)\<rparr>))))"

text \<open>\<open>^[A-Za-z_][A-Za-z0-9_]*$\<close>\<close>

definition environmentName :: "string \<Rightarrow> bool" where
  "environmentName s \<longleftrightarrow> s \<noteq> '''' \<and> (isEnvChar (hd s) \<or> isLowerChar (hd s)) \<and>
     list_all (\<lambda>c. isEnvChar c \<or> isLowerChar c \<or> isDigitChar c) s"

definition accessName :: "ctyval \<Rightarrow> parseError + string" where
  "accessName v =
     (case v of
        VString s \<Rightarrow> if environmentName s then Inr s else Inl (Refused ''invalid environment name'')
      | _ \<Rightarrow> Inl (Refused ''invalid environment name''))"

definition pluginAccessBlock :: "('b, 'e, 'c) hclLib \<Rightarrow> PluginConfig \<Rightarrow> 'b hclBlock \<Rightarrow> parseError + PluginConfig" where
  "pluginAccessBlock L p block =
     bindR (diags (hl_Content L (schema [(''environment'', False), (''plan'', False)] []) (hb_Body block))) (\<lambda>content.
     bindR (optAttr content ''environment'' [] (\<lambda>e. bindR (literalList L ''environment'' e) (mapR accessName))) (\<lambda>env.
     bindR (optAttr content ''plan'' False (\<lambda>e.
              (case hl_Value L None e of Inr (VBool b) \<Rightarrow> Inr b | _ \<Rightarrow> Inl (Refused ''use a literal boolean'')))) (\<lambda>plan.
       Inr (p\<lparr>plc_Environment := env, plc_PlanAccess := plan\<rparr>))))"

text \<open>The flag records that \<open>p.Environment\<close> is no longer nil, that is, an access block was read.\<close>

definition pluginInner :: "('b, 'e, 'c) hclLib \<Rightarrow> bool \<times> PluginConfig \<Rightarrow> 'b hclBlock \<Rightarrow> parseError + bool \<times> PluginConfig" where
  "pluginInner L acc block =
     (if hb_Type block = ''feature'' then bindR (pluginFeatureBlock L (snd acc) block) (\<lambda>p. Inr (fst acc, p))
      else if hb_Type block = ''access'' then
        if fst acc then Inl (Refused ''access: duplicate block'')
        else bindR (pluginAccessBlock L (snd acc) block) (\<lambda>p. Inr (True, p))
      else Inr acc)"

definition parsePluginBlock :: "('b, 'e, 'c) hclLib \<Rightarrow> 'b hclBlock \<Rightarrow> parseError + PluginConfig" where
  "parsePluginBlock L block =
     bindR (label0 block) (\<lambda>name.
     bindR (require (identifierName name) (Refused ''alias must use lowercase letters, digits and underscores'')) (\<lambda>_.
     bindR (diags (hl_Content L pluginSchema (hb_Body block))) (\<lambda>body.
     bindR (bindR (attrOf body ''source'') (nonEmptyString L ''source'')) (\<lambda>source.
     bindR (bindR (attrOf body ''version'') (nonEmptyString L ''version'')) (\<lambda>version.
     bindR (optAttr body ''config'' [] (parseVarsAttr L None)) (\<lambda>config.
     bindR (foldR (pluginInner L)
              (False, \<lparr>plc_Name = name, plc_Source = source, plc_Version = version, plc_Config = config, plc_Features = [],
                plc_Environment = [], plc_PlanAccess = False\<rparr>) (hc_Blocks body)) (\<lambda>acc.
       Inr (snd acc))))))))"

end
