(* ===== verification/Scope_Parser.thy ===== *)
theory Scope_Parser
  imports Block_Parser
begin

text \<open>
  Nodes, uses, edges, exports, contracts and groups (\<open>internal/blueprint/parse.go\<close>, \<open>parse_block_contracts.go\<close>), and
  the merge of files into one parse scope: \<open>ParseFile\<close>, \<open>ParseDir\<close>, \<open>LoadPath\<close>, \<open>LoadPlugins\<close> (\<open>plugins.go\<close>) and
  \<open>LoadMetadata\<close> (\<open>metadata.go\<close>). The \<open>seen\<close> sets of the code are lists; files are read through a record of system
  calls about which nothing is assumed.
\<close>

subsection \<open>Nodes and uses\<close>

definition parseNodeBlock :: "('b, 'e, 'c) hclLib \<Rightarrow> 'c option \<Rightarrow> 'b hclBlock \<Rightarrow> parseError + bpNode" where
  "parseNodeBlock L evaluation block =
     bindR (diags (hl_Content L nodeSchema_hcl (hb_Body block))) (\<lambda>content.
     bindR (label0 block) (\<lambda>name.
     bindR (validateName ''node'' name) (\<lambda>_.
     bindR (bindR (attrOf content ''source'') (literalString L ''source'')) (\<lambda>source.
     bindR (optAttr content ''backend_config'' [] (parseBackendConfig L)) (\<lambda>backendConfig.
     bindR (optAttr content ''vars'' [] (parseVarsAttr L evaluation)) (\<lambda>vars.
     bindR (parseRuntimeRef L (map_of (hc_Attributes content) ''runtime'')) (\<lambda>runtime.
     bindR (optAttr content ''env'' [] (parseEnvAttr L)) (\<lambda>env.
     bindR (parseApproveAttr L (map_of (hc_Attributes content) ''approve'')) (\<lambda>approve.
     bindR (ParseBackendAddress L (map_of (hc_Attributes content) ''backend_address'')) (\<lambda>address.
     bindR (parsePluginBindings L (hc_Blocks content)) (\<lambda>(inputs, credentials).
       Inr \<lparr>bn_Inputs = inputs, bn_Credentials = credentials, bn_Name = name, bn_Source = source, bn_BackendConfig = backendConfig,
            bn_BackendAddress = address, bn_Vars = vars, bn_Runtime = runtime, bn_Env = env, bn_Approve = approve\<rparr>)))))))))))"

definition parseUseBlock :: "('b, 'e, 'c) hclLib \<Rightarrow> 'c option \<Rightarrow> 'b hclBlock \<Rightarrow> parseError + Use" where
  "parseUseBlock L evaluation block =
     bindR (diags (hl_Content L useSchema (hb_Body block))) (\<lambda>content.
     bindR (bindR (attrOf content ''as'') (literalString L ''as'')) (\<lambda>as.
     bindR (validateName ''use instance'' as) (\<lambda>_.
     bindR (bindR (attrOf content ''source'') (literalString L ''source'')) (\<lambda>source.
     bindR (parseRuntimeRef L (map_of (hc_Attributes content) ''runtime'')) (\<lambda>runtime.
     bindR (optAttr content ''env'' [] (parseEnvAttr L)) (\<lambda>env.
     bindR (optAttr content ''vars'' [] (parseVarsAttr L evaluation)) (\<lambda>vars.
     bindR (parseApproveAttr L (map_of (hc_Attributes content) ''approve'')) (\<lambda>approve.
     bindR (optAttr content ''backend_config'' [] (parseBackendConfig L)) (\<lambda>backendConfig.
     bindR (ParseBackendAddress L (map_of (hc_Attributes content) ''backend_address'')) (\<lambda>address.
     bindR (label0 block) (\<lambda>groupName.
       Inr \<lparr>u_GroupName = groupName, u_As = as, u_Source = source, u_Runtime = runtime, u_Env = env, u_Vars = vars,
            u_Approve = approve, u_BackendConfig = backendConfig, u_BackendAddress = address\<rparr>)))))))))))"

subsection \<open>Edges\<close>

definition edgeInput ::
    "('b, 'e, 'c) hclLib \<Rightarrow> PortRef \<Rightarrow> PortRef \<Rightarrow> string list \<times> Edge list \<Rightarrow> 'b hclBlock \<Rightarrow> parseError + string list \<times> Edge list" where
  "edgeInput L source target acc block =
     bindR (label0 block) (\<lambda>name.
       if name \<in> set (fst acc) then Inl (Refused ''duplicate input on this edge'')
       else
         bindR (diags (hl_Content L edgeInputSchema (hb_Body block))) (\<lambda>ic.
         bindR (bindR (attrOf ic ''from'') (parseRelativeOutputRef L)) (\<lambda>output.
           Inr (name # fst acc, snd acc @
             [\<lparr>e_From = \<lparr>pr_Entity = pr_Entity source, pr_Node = pr_Node source, pr_Kind = PortOutput, pr_Name = output\<rparr>,
               e_To = \<lparr>pr_Entity = pr_Entity target, pr_Node = pr_Node target, pr_Kind = PortInput, pr_Name = name\<rparr>\<rparr>]))))"

definition parseEdgeInputs ::
    "('b, 'e, 'c) hclLib \<Rightarrow> 'b hclBlock list \<Rightarrow> PortRef \<Rightarrow> PortRef \<Rightarrow> parseError + Edge list" where
  "parseEdgeInputs L inputs source target =
     (if IsPort source \<or> IsPort target
      then Inl (Refused ''an edge with nested input blocks must reference bare nodes on both sides'')
      else bindR (foldR (edgeInput L source target) ([], []) inputs) (\<lambda>acc. Inr (snd acc)))"

definition checkEdgeKinds :: "PortRef \<Rightarrow> PortRef \<Rightarrow> parseError + Edge list" where
  "checkEdgeKinds source target =
     (if IsPort source \<noteq> IsPort target then Inl (Refused ''from and to must both reference ports or both bare nodes'')
      else if IsPort source \<and> pr_Kind source \<noteq> PortOutput then Inl (Refused ''from must reference an output port'')
      else if IsPort source \<and> pr_Kind target \<noteq> PortInput then Inl (Refused ''to must reference an input port'')
      else Inr [\<lparr>e_From = source, e_To = target\<rparr>])"

definition parseEdgeBlock :: "('b, 'e, 'c) hclLib \<Rightarrow> 'b hclBlock \<Rightarrow> parseError + Edge list" where
  "parseEdgeBlock L block =
     bindR (diags (hl_Content L edgeSchema (hb_Body block))) (\<lambda>content.
     bindR (bindR (attrOf content ''from'') (parseNodeOrPortRef L)) (\<lambda>source.
     bindR (bindR (attrOf content ''to'') (parseNodeOrPortRef L)) (\<lambda>target.
       let inputs = filter (\<lambda>b. hb_Type b = ''input'') (hc_Blocks content) in
       if inputs \<noteq> [] then parseEdgeInputs L inputs source target else checkEdgeKinds source target)))"

subsection \<open>Exports\<close>

record exportState =
  es_Export :: Export
  es_Inputs :: "string list"
  es_Outputs :: "string list"

definition exportInput :: "('b, 'e, 'c) hclLib \<Rightarrow> exportState \<Rightarrow> 'b hclBlock \<Rightarrow> parseError + exportState" where
  "exportInput L s block =
     bindR (label0 block) (\<lambda>name.
       if name \<in> set (es_Inputs s) then Inl (Refused ''duplicate export input'')
       else
         bindR (diags (hl_Content L exportInputSchema (hb_Body block))) (\<lambda>ic.
         bindR (bindR (attrOf ic ''to'') (parsePortRefList L)) (\<lambda>refs.
           if list_ex (\<lambda>ref. pr_Kind ref \<noteq> PortInput) refs then Inl (Refused ''export input must map to input ports'')
           else Inr (s\<lparr>es_Inputs := name # es_Inputs s,
                       es_Export := (es_Export s)\<lparr>ex_Inputs := ex_Inputs (es_Export s) @ [\<lparr>ei_Name = name, ei_To = refs\<rparr>]\<rparr>\<rparr>))))"

definition exportOutput :: "('b, 'e, 'c) hclLib \<Rightarrow> exportState \<Rightarrow> 'b hclBlock \<Rightarrow> parseError + exportState" where
  "exportOutput L s block =
     bindR (label0 block) (\<lambda>name.
       if name \<in> set (es_Outputs s) then Inl (Refused ''duplicate export output'')
       else
         bindR (diags (hl_Content L exportOutputSchema (hb_Body block))) (\<lambda>oc.
         bindR (bindR (attrOf oc ''from'') (parseNodeOrPortRef L)) (\<lambda>ref.
           if \<not> IsPort ref \<or> pr_Kind ref \<noteq> PortOutput then Inl (Refused ''export output must map to an output port'')
           else Inr (s\<lparr>es_Outputs := name # es_Outputs s,
                       es_Export := (es_Export s)\<lparr>ex_Outputs := ex_Outputs (es_Export s) @ [\<lparr>eo_Name = name, eo_From = ref\<rparr>]\<rparr>\<rparr>))))"

definition exportBlock :: "('b, 'e, 'c) hclLib \<Rightarrow> exportState \<Rightarrow> 'b hclBlock \<Rightarrow> parseError + exportState" where
  "exportBlock L s block =
     (if hb_Type block = ''input'' then exportInput L s block
      else if hb_Type block = ''output'' then exportOutput L s block
      else Inr s)"

definition noExport :: Export where
  "noExport = \<lparr>ex_Inputs = [], ex_Outputs = []\<rparr>"

definition parseExportBlock :: "('b, 'e, 'c) hclLib \<Rightarrow> 'b hclBlock \<Rightarrow> parseError + Export" where
  "parseExportBlock L block =
     bindR (diags (hl_Content L exportBodySchema (hb_Body block))) (\<lambda>content.
     bindR (foldR (exportBlock L) \<lparr>es_Export = noExport, es_Inputs = [], es_Outputs = []\<rparr> (hc_Blocks content)) (\<lambda>s.
       Inr (es_Export s)))"

subsection \<open>Contract blocks\<close>

definition contractTypeExpr :: "('b, 'e, 'c) hclLib \<Rightarrow> 'e \<Rightarrow> parseError + 'e" where
  "contractTypeExpr L e =
     (case hl_Value L None e of
        Inr (VString s) \<Rightarrow> mapErr (\<lambda>d. Refused ''type must be a Terraform type constraint'') (hl_ParseExpression L s)
      | _ \<Rightarrow> Inr e)"

definition portAttr :: "('b, 'e, 'c) hclLib \<Rightarrow> PortContract \<Rightarrow> string \<times> 'e \<Rightarrow> parseError + PortContract" where
  "portAttr L pc attr =
     (if fst attr = ''type'' then
        bindR (contractTypeExpr L (snd attr)) (\<lambda>expr.
        bindR (mapErr (\<lambda>d. Refused ''type must be a Terraform type constraint'') (hl_TypeConstraint L expr)) (\<lambda>t.
          Inr (pc\<lparr>pc_Type := constraintString (hl_Cty L) t\<rparr>)))
      else
        bindR (diags (hl_Value L None (snd attr))) (\<lambda>v.
          if fst attr = ''nullable'' \<or> fst attr = ''sensitive'' then
            (case v of
               VBool b \<Rightarrow> Inr (if fst attr = ''nullable'' then pc\<lparr>pc_Nullable := Some b\<rparr> else pc\<lparr>pc_Sensitive := Some b\<rparr>)
             | _ \<Rightarrow> Inl (Refused (fst attr @ '' must be a bool'')))
          else Inr pc))"

definition parsePortContract :: "('b, 'e, 'c) hclLib \<Rightarrow> 'b hclBlock \<Rightarrow> string \<Rightarrow> string \<Rightarrow> parseError + PortContract" where
  "parsePortContract L port scope name =
     bindR (diags (hl_Content L portContractSchema (hb_Body port))) (\<lambda>content.
       foldR (portAttr L) \<lparr>pc_Name = name, pc_Scope = scope, pc_Type = '''', pc_Nullable = None, pc_Sensitive = None\<rparr>
         (hc_Attributes content))"

definition contractPort ::
    "('b, 'e, 'c) hclLib \<Rightarrow> string \<Rightarrow> string \<Rightarrow> string \<Rightarrow> DirContracts \<times> string list \<Rightarrow> 'b hclBlock \<Rightarrow>
     parseError + DirContracts \<times> string list" where
  "contractPort L role scope dir acc port =
     bindR (label0 port) (\<lambda>name.
       if hb_Type port \<noteq> (if role = ''consumer'' then ''input'' else ''output'')
       then Inl (Refused (hb_Type port @ '' blocks belong on the other side''))
       else let key = role @ '' '' @ dir @ '' '' @ name in
         if key \<in> set (snd acc) then Inl (Refused ''declared more than once across merged files'')
         else bindR (parsePortContract L port scope name) (\<lambda>pc.
           let dc = fst acc in
           Inr (if role = ''consumer'' then dc\<lparr>dc_Consumer := AList.update name pc (dc_Consumer dc)\<rparr>
                else dc\<lparr>dc_Producer := AList.update name pc (dc_Producer dc)\<rparr>, key # snd acc)))"

definition parseContractSideBlock ::
    "('b, 'e, 'c) hclLib \<Rightarrow> string \<Rightarrow> 'b hclBlock \<Rightarrow> DirContracts smap \<times> string list \<Rightarrow>
     parseError + DirContracts smap \<times> string list" where
  "parseContractSideBlock L baseDir block acc =
     bindR (label0 block) (\<lambda>scope.
       if scope = '''' then Inl (Refused ''contract source must not be empty'')
       else if isAbsoluteAnywhere scope then Inl (Refused ''contract source must be a relative path or a remote module source'')
       else let dir = (if HasPrefix scope ''./'' \<or> HasPrefix scope ''../'' then Clean (Join [baseDir, scope]) else scope);
                dc = (case map_of (fst acc) dir of
                        Some d \<Rightarrow> d
                      | None \<Rightarrow> \<lparr>dc_Scope = scope, dc_Dir = dir, dc_Producer = [], dc_Consumer = []\<rparr>) in
         bindR (diags (hl_Content L contractsSideSchema (hb_Body block))) (\<lambda>side.
         bindR (foldR (contractPort L (hb_Type block) scope dir) (dc, snd acc) (hc_Blocks side)) (\<lambda>(dc', seen).
           Inr (AList.update dir dc' (fst acc), seen))))"

definition byDir :: "Contracts \<Rightarrow> DirContracts smap" where
  "byDir c = (case c of Some m \<Rightarrow> m | None \<Rightarrow> [])"

subsection \<open>Groups\<close>

record groupState =
  gs_Group :: Group
  gs_Ports :: "string list"
  gs_SawExport :: bool

definition groupBlock ::
    "('b, 'e, 'c) hclLib \<Rightarrow> string \<Rightarrow> 'c option \<Rightarrow> groupState \<Rightarrow> 'b hclBlock \<Rightarrow> parseError + groupState" where
  "groupBlock L baseDir evaluation s block =
     (let g = gs_Group s in
      if hb_Type block = ''node'' then
        bindR (parseNodeBlock L evaluation block) (\<lambda>n.
          if bn_Name n \<in> set (map bn_Name (gr_Nodes g)) then Inl (Refused ''duplicate node in group'')
          else Inr (s\<lparr>gs_Group := g\<lparr>gr_Nodes := gr_Nodes g @ [n]\<rparr>\<rparr>))
      else if hb_Type block = ''edge'' then
        bindR (parseEdgeBlock L block) (\<lambda>es. Inr (s\<lparr>gs_Group := g\<lparr>gr_Edges := gr_Edges g @ es\<rparr>\<rparr>))
      else if hb_Type block = ''use'' then
        bindR (parseUseBlock L evaluation block) (\<lambda>u.
          if u_As u \<in> set (map u_As (gr_Uses g)) then Inl (Refused ''duplicate use instance name in group'')
          else Inr (s\<lparr>gs_Group := g\<lparr>gr_Uses := gr_Uses g @ [u]\<rparr>\<rparr>))
      else if hb_Type block = ''producer'' \<or> hb_Type block = ''consumer'' then
        bindR (parseContractSideBlock L baseDir block (byDir (gr_Contracts g), gs_Ports s)) (\<lambda>(m, seen).
          Inr (s\<lparr>gs_Group := g\<lparr>gr_Contracts := Some m\<rparr>, gs_Ports := seen\<rparr>))
      else if hb_Type block = ''export'' then
        if gs_SawExport s then Inl (Refused ''group has more than one export block'')
        else bindR (parseExportBlock L block) (\<lambda>exp.
          Inr (s\<lparr>gs_Group := g\<lparr>gr_Export := exp\<rparr>, gs_SawExport := True\<rparr>))
      else Inr s)"

text \<open>Every reference of the group's edges and exports, in the order they are checked.\<close>

definition groupRefs :: "Group \<Rightarrow> PortRef list" where
  "groupRefs g =
     concat (map (\<lambda>e. [e_From e, e_To e]) (gr_Edges g)) @ concat (map ei_To (ex_Inputs (gr_Export g))) @
     map eo_From (ex_Outputs (gr_Export g))"

definition parseGroupBlock ::
    "('b, 'e, 'c) hclLib \<Rightarrow> string \<Rightarrow> 'c option \<Rightarrow> 'b hclBlock \<Rightarrow> parseError + Group" where
  "parseGroupBlock L baseDir evaluation block =
     bindR (diags (hl_Content L groupBodySchema (hb_Body block))) (\<lambda>content.
     bindR (label0 block) (\<lambda>name.
     bindR (validateName ''group'' name) (\<lambda>_.
     bindR (foldR (groupBlock L baseDir evaluation)
              \<lparr>gs_Group = \<lparr>gr_Name = name, gr_Nodes = [], gr_Edges = [], gr_Uses = [], gr_Export = noExport, gr_Contracts = None\<rparr>,
               gs_Ports = [], gs_SawExport = False\<rparr> (hc_Blocks content)) (\<lambda>s.
       let g = gs_Group s in
       bindR (mapErr InScope (foldR (\<lambda>_ ref. validateEndpointKnown ref (set (map bn_Name (gr_Nodes g))) (set (map u_As (gr_Uses g)))) ()
                (groupRefs g))) (\<lambda>_. Inr g)))))"

end
