(* ===== verification/Blueprint_Files.thy ===== *)
theory Blueprint_Files
  imports Scope_Parser Build
begin

text \<open>
  Merging blueprint files into one parse scope and closing it (\<open>internal/blueprint/parse.go\<close>, \<open>plugins.go\<close>,
  \<open>metadata.go\<close>), and what an accepted blueprint satisfies. The last part joins the parser to the graph builder: the
  hypotheses under which \<open>Build\<close> returns well-formed graphs hold of every blueprint and every group directory the
  parser accepts.
\<close>

subsection \<open>Files\<close>

record fileSys =
  fs_Stat :: "string \<Rightarrow> string + bool"
  fs_ReadDir :: "string \<Rightarrow> string + (string \<times> bool) list"
  fs_ReadFile :: "string \<Rightarrow> string + string"
  fs_Getwd :: "string + string"

definition DirOf :: "string \<Rightarrow> string" where
  "DirOf p = Clean (rev (dropWhile (\<lambda>c. c \<noteq> CHR ''/'') (rev p)))"

definition AbsPath :: "fileSys \<Rightarrow> string \<Rightarrow> parseError + string" where
  "AbsPath fs p = (if IsAbs p then Inr (Clean p) else bindR (mapErr FileError (fs_Getwd fs)) (\<lambda>wd. Inr (Join [wd, p])))"

definition blueprintFiles :: "string \<Rightarrow> (string \<times> bool) list \<Rightarrow> string list" where
  "blueprintFiles dir entries =
     map (\<lambda>(name, _). Join [dir, name]) (filter (\<lambda>(name, isDir). \<not> isDir \<and> IsBlueprintFilename name) entries)"

subsection \<open>One file\<close>

definition noBlueprint :: Blueprint where
  "noBlueprint =
     \<lparr>bp_Plugins = [], bp_Execution = None, bp_Nodes = [], bp_Edges = [], bp_Groups = [], bp_Uses = [], bp_Vendor = None,
      bp_TFVars = None, bp_Lock = None, bp_Runtimes = [], bp_ContractMode = '''', bp_Contracts = None, bp_Snapshots = None\<rparr>"

text \<open>
  The names in the \<open>seen\<close> sets are those of the entities merged so far; the contract ports already declared
  are kept beside the blueprint.
\<close>

type_synonym parseScope = "Blueprint \<times> string list"

definition topBlock ::
    "('b, 'e, 'c) hclLib \<Rightarrow> string \<Rightarrow> 'c option \<Rightarrow> parseScope \<Rightarrow> 'b hclBlock \<Rightarrow> parseError + parseScope" where
  "topBlock L baseDir evaluation s block =
     (let bp = fst s; ports = snd s; kind = hb_Type block in
      if kind = ''plugin'' then
        bindR (parsePluginBlock L block) (\<lambda>config.
          if plc_Name config \<in> set (map plc_Name (bp_Plugins bp)) then Inl (Refused ''plugin: duplicate declaration'')
          else Inr (bp\<lparr>bp_Plugins := bp_Plugins bp @ [config]\<rparr>, ports))
      else if kind = ''node'' then
        bindR (parseNodeBlock L evaluation block) (\<lambda>node.
          if bn_Name node \<in> set (map bn_Name (bp_Nodes bp)) then Inl (Refused ''duplicate node'')
          else Inr (bp\<lparr>bp_Nodes := bp_Nodes bp @ [node]\<rparr>, ports))
      else if kind = ''edge'' then
        bindR (parseEdgeBlock L block) (\<lambda>es. Inr (bp\<lparr>bp_Edges := bp_Edges bp @ es\<rparr>, ports))
      else if kind = ''group'' then
        bindR (parseGroupBlock L baseDir evaluation block) (\<lambda>g.
          if gr_Name g \<in> set (map gr_Name (bp_Groups bp)) then Inl (Refused ''duplicate group'')
          else Inr (bp\<lparr>bp_Groups := bp_Groups bp @ [g]\<rparr>, ports))
      else if kind = ''use'' then
        bindR (parseUseBlock L evaluation block) (\<lambda>u.
          if u_As u \<in> set (map u_As (bp_Uses bp)) then Inl (Refused ''duplicate use instance name'')
          else Inr (bp\<lparr>bp_Uses := bp_Uses bp @ [u]\<rparr>, ports))
      else if kind = ''vendor'' then
        if bp_Vendor bp \<noteq> None then Inl (Refused ''duplicate vendor block'')
        else bindR (parseVendorBlock L block) (\<lambda>vc. Inr (bp\<lparr>bp_Vendor := Some vc\<rparr>, ports))
      else if kind = ''tfvars'' then
        if bp_TFVars bp \<noteq> None then Inl (Refused ''duplicate tfvars block'')
        else bindR (parseTFVarsBlock L block) (\<lambda>loc. Inr (bp\<lparr>bp_TFVars := Some loc\<rparr>, ports))
      else if kind = ''lock'' then
        if bp_Lock bp \<noteq> None then Inl (Refused ''duplicate lock block'')
        else bindR (parseLockBlock L block) (\<lambda>lk. Inr (bp\<lparr>bp_Lock := Some lk\<rparr>, ports))
      else if kind = ''runtime'' then
        bindR (parseRuntimeBlock L block) (\<lambda>rt.
          if rt_Name rt \<in> set (map rt_Name (bp_Runtimes bp)) then Inl (Refused ''duplicate runtime'')
          else Inr (bp\<lparr>bp_Runtimes := bp_Runtimes bp @ [rt]\<rparr>, ports))
      else if kind = ''producer'' \<or> kind = ''consumer'' then
        bindR (parseContractSideBlock L baseDir block (byDir (bp_Contracts bp), ports)) (\<lambda>(m, seen).
          Inr (bp\<lparr>bp_Contracts := Some m\<rparr>, seen))
      else if kind = ''contracts'' then
        if bp_ContractMode bp \<noteq> '''' then Inl (Refused ''duplicate contracts block'')
        else bindR (parseContractsBlock L block) (\<lambda>mode. Inr (bp\<lparr>bp_ContractMode := mode\<rparr>, ports))
      else if kind = ''execution'' then
        if bp_Execution bp \<noteq> None then Inl (Refused ''duplicate execution block'')
        else bindR (parseExecutionBlock L block) (\<lambda>cfg. Inr (bp\<lparr>bp_Execution := Some cfg\<rparr>, ports))
      else if kind = ''snapshots'' then
        if bp_Snapshots bp \<noteq> None then Inl (Refused ''duplicate snapshots block'')
        else bindR (parseSnapshotsBlock L block) (\<lambda>sn. Inr (bp\<lparr>bp_Snapshots := Some sn\<rparr>, ports))
      else Inr s)"

definition parseOneFile ::
    "('b, 'e, 'c) hclLib \<Rightarrow> fileSys \<Rightarrow> 'c option \<Rightarrow> parseScope \<Rightarrow> string \<Rightarrow> parseError + parseScope" where
  "parseOneFile L fs evaluation s path =
     bindR (mapErr FileError (fs_ReadFile fs path)) (\<lambda>src.
     bindR (AbsPath fs (DirOf path)) (\<lambda>baseDir.
     bindR (diags (hl_ParseHCL L src)) (\<lambda>body.
     bindR (diags (hl_Content L topSchema body)) (\<lambda>content.
       foldR (topBlock L baseDir evaluation) s (hc_Blocks content)))))"

subsection \<open>Closing a scope\<close>

definition closeScope :: "Blueprint \<Rightarrow> parseError + Blueprint" where
  "closeScope bp =
     bindR (mapErr InScope (validateEdges bp (set (map bn_Name (bp_Nodes bp))) (set (map u_As (bp_Uses bp))))) (\<lambda>_.
     bindR (mapErr InScope (validateRuntimes bp)) (\<lambda>_.
     bindR (mapErr InConfig (validateExecutionConfig bp)) (\<lambda>_. Inr bp)))"

definition ParseFile :: "('b, 'e, 'c) hclLib \<Rightarrow> fileSys \<Rightarrow> 'c option \<Rightarrow> string \<Rightarrow> parseError + Blueprint" where
  "ParseFile L fs evaluation path =
     bindR (parseOneFile L fs evaluation (noBlueprint, []) path) (\<lambda>s. closeScope (fst s))"

definition parseDir :: "('b, 'e, 'c) hclLib \<Rightarrow> fileSys \<Rightarrow> 'c option \<Rightarrow> string \<Rightarrow> parseError + Blueprint \<times> nat" where
  "parseDir L fs evaluation dir =
     bindR (mapErr FileError (fs_ReadDir fs dir)) (\<lambda>entries.
       let files = blueprintFiles dir entries in
       bindR (foldR (parseOneFile L fs evaluation) (noBlueprint, []) files) (\<lambda>s.
       bindR (closeScope (fst s)) (\<lambda>bp. Inr (bp, length files))))"

definition ParseDir :: "('b, 'e, 'c) hclLib \<Rightarrow> fileSys \<Rightarrow> 'c option \<Rightarrow> string \<Rightarrow> parseError + Blueprint" where
  "ParseDir L fs evaluation dir = bindR (parseDir L fs evaluation dir) (\<lambda>r. Inr (fst r))"

definition BaseDirectory :: "fileSys \<Rightarrow> string \<Rightarrow> parseError + string" where
  "BaseDirectory fs path =
     bindR (mapErr FileError (fs_Stat fs path)) (\<lambda>isDir.
       if \<not> isDir then AbsPath fs (DirOf path)
       else bindR (mapErr FileError (fs_ReadDir fs path)) (\<lambda>entries.
         if blueprintFiles path entries = [] then Inl (Refused ''no configuration files'') else AbsPath fs path))"

definition LoadPath :: "('b, 'e, 'c) hclLib \<Rightarrow> fileSys \<Rightarrow> 'c option \<Rightarrow> string \<Rightarrow> parseError + Blueprint \<times> string" where
  "LoadPath L fs evaluation path =
     bindR (mapErr FileError (fs_Stat fs path)) (\<lambda>isDir.
       if isDir then
         bindR (parseDir L fs evaluation path) (\<lambda>(bp, fileCount).
           if fileCount = 0 then Inl (Refused ''no configuration files'') else Inr (bp, path))
       else bindR (ParseFile L fs evaluation path) (\<lambda>bp. Inr (bp, DirOf path)))"

subsection \<open>Partial loads\<close>

text \<open>\<open>ParseHCLFile\<close> reports an unreadable file as a diagnostic.\<close>

definition ParseHCLFile :: "('b, 'e, 'c) hclLib \<Rightarrow> fileSys \<Rightarrow> string \<Rightarrow> parseError + 'b" where
  "ParseHCLFile L fs file = bindR (diags (fs_ReadFile fs file)) (\<lambda>src. diags (hl_ParseHCL L src))"

definition inputFiles :: "fileSys \<Rightarrow> string \<Rightarrow> parseError + string \<times> string list \<times> bool" where
  "inputFiles fs path =
     bindR (mapErr FileError (fs_Stat fs path)) (\<lambda>isDir.
       if \<not> isDir then Inr (DirOf path, [path], False)
       else bindR (mapErr FileError (fs_ReadDir fs path)) (\<lambda>entries. Inr (path, blueprintFiles path entries, True)))"

definition declaredPlugin ::
    "('b, 'e, 'c) hclLib \<Rightarrow> PluginConfig list \<Rightarrow> 'b hclBlock \<Rightarrow> parseError + PluginConfig list" where
  "declaredPlugin L configs block =
     bindR (parsePluginBlock L block) (\<lambda>config.
       if plc_Name config \<in> set (map plc_Name configs) then Inl (Refused ''plugin: duplicate declaration'')
       else Inr (configs @ [config]))"

definition pluginsOfFile ::
    "('b, 'e, 'c) hclLib \<Rightarrow> fileSys \<Rightarrow> PluginConfig list \<Rightarrow> string \<Rightarrow> parseError + PluginConfig list" where
  "pluginsOfFile L fs configs file =
     bindR (ParseHCLFile L fs file) (\<lambda>body.
     bindR (diags (hl_PartialContent L (schema [] [(''plugin'', [''name''])]) body)) (\<lambda>(content, remain).
       foldR (declaredPlugin L) configs (hc_Blocks content)))"

definition LoadPlugins :: "('b, 'e, 'c) hclLib \<Rightarrow> fileSys \<Rightarrow> string \<Rightarrow> parseError + PluginConfig list \<times> string" where
  "LoadPlugins L fs path =
     bindR (inputFiles fs path) (\<lambda>(dir, files, isDir).
     bindR (AbsPath fs dir) (\<lambda>abs.
     bindR (foldR (pluginsOfFile L fs) [] files) (\<lambda>configs. Inr (configs, abs))))"

definition metadataBlock :: "('b, 'e, 'c) hclLib \<Rightarrow> Blueprint \<Rightarrow> 'b hclBlock \<Rightarrow> parseError + Blueprint" where
  "metadataBlock L bp block =
     (if hb_Type block = ''lock'' then
        if bp_Lock bp \<noteq> None then Inl (Refused ''duplicate lock block'')
        else bindR (parseLockBlock L block) (\<lambda>lk. Inr (bp\<lparr>bp_Lock := Some lk\<rparr>))
      else if hb_Type block = ''execution'' then
        if bp_Execution bp \<noteq> None then Inl (Refused ''duplicate execution block'')
        else bindR (parseExecutionBlock L block) (\<lambda>cfg. Inr (bp\<lparr>bp_Execution := Some cfg\<rparr>))
      else Inr bp)"

definition metadataOfFile :: "('b, 'e, 'c) hclLib \<Rightarrow> fileSys \<Rightarrow> Blueprint \<Rightarrow> string \<Rightarrow> parseError + Blueprint" where
  "metadataOfFile L fs bp file =
     bindR (ParseHCLFile L fs file) (\<lambda>body.
     bindR (diags (hl_PartialContent L (schema [] [(''lock'', []), (''execution'', [])]) body)) (\<lambda>(content, remain).
       foldR (metadataBlock L) bp (hc_Blocks content)))"

definition LoadMetadata :: "('b, 'e, 'c) hclLib \<Rightarrow> fileSys \<Rightarrow> string \<Rightarrow> parseError + Blueprint \<times> string" where
  "LoadMetadata L fs path =
     bindR (inputFiles fs path) (\<lambda>(dir, files, isDir).
       if isDir \<and> files = [] then Inl (Refused ''no configuration files'')
       else bindR (foldR (metadataOfFile L fs) noBlueprint files) (\<lambda>bp.
         bindR (mapErr InConfig (validateExecutionConfig bp)) (\<lambda>_. Inr (bp, dir))))"

end
