(* ===== verification/Blueprint_Typing.thy ===== *)
theory Blueprint_Typing
  imports Blueprint_Files
begin

text \<open>
  What the parser promises of a blueprint it accepts, as executable predicates over the data model, and the proofs that
  every block parser and every merge keeps the promise. The hypotheses of the graph builder follow.
\<close>

subsection \<open>Well-formed parts\<close>

definition goodEnv :: "string smap \<Rightarrow> bool" where
  "goodEnv env \<longleftrightarrow> (\<forall>k \<in> fst ` set env. \<not> managedEnv k)"

definition goodApprove :: "string \<Rightarrow> bool" where
  "goodApprove a \<longleftrightarrow> a \<in> {'''', ApproveNone, ApproveSafe, ApproveAll}"

definition goodAddress :: "string smap option \<Rightarrow> bool" where
  "goodAddress addr \<longleftrightarrow>
     (\<forall>kv \<in> set (case addr of Some m \<Rightarrow> m | None \<Rightarrow> []). fst kv = ''s3_key_prefix'' \<or>
        fst kv = ''s3_key_name'' \<and> snd kv \<notin> {'''', ''.'', ''..''} \<and> CHR ''/'' \<notin> set (snd kv) \<and> CHR 0x5C \<notin> set (snd kv))"

definition goodCredential :: "PluginBinding \<Rightarrow> bool" where
  "goodCredential b \<longleftrightarrow> pb_Environment b \<noteq> [] \<and> (\<forall>name \<in> set (pb_Environment b). CredentialEnvironmentAllowed name)"

definition goodBindings :: "PluginBinding smap \<times> PluginBinding smap \<Rightarrow> bool" where
  "goodBindings bs \<longleftrightarrow> (\<forall>b \<in> set (fst bs). pb_Environment (snd b) = []) \<and> (\<forall>b \<in> set (snd bs). goodCredential (snd b))"

definition wfNode :: "bpNode \<Rightarrow> bool" where
  "wfNode n \<longleftrightarrow> validName (bn_Name n) \<and> goodApprove (bn_Approve n) \<and> goodEnv (bn_Env n) \<and> goodAddress (bn_BackendAddress n) \<and>
     goodBindings (bn_Inputs n, bn_Credentials n)"

definition wfUse :: "Use \<Rightarrow> bool" where
  "wfUse u \<longleftrightarrow> validName (u_As u) \<and> goodApprove (u_Approve u) \<and> goodEnv (u_Env u) \<and> goodAddress (u_BackendAddress u)"

text \<open>A data edge runs from an output to an input; any other edge is bare on both sides.\<close>

definition wfEdge :: "Edge \<Rightarrow> bool" where
  "wfEdge e \<longleftrightarrow>
     (pr_Kind (e_From e) = PortOutput \<and> pr_Kind (e_To e) = PortInput) \<or> (\<not> IsPort (e_From e) \<and> \<not> IsPort (e_To e))"

definition refKnown :: "bpNode list \<Rightarrow> Use list \<Rightarrow> PortRef \<Rightarrow> bool" where
  "refKnown nodes us r \<longleftrightarrow> (if pr_Entity r = EntityUse then pr_Node r \<in> u_As ` set us else pr_Node r \<in> bn_Name ` set nodes)"

definition wfExport :: "Export \<Rightarrow> bool" where
  "wfExport x \<longleftrightarrow> distinct (map ei_Name (ex_Inputs x)) \<and> distinct (map eo_Name (ex_Outputs x)) \<and>
     (\<forall>i \<in> set (ex_Inputs x). ei_To i \<noteq> [] \<and> (\<forall>r \<in> set (ei_To i). pr_Kind r = PortInput)) \<and>
     (\<forall>o' \<in> set (ex_Outputs x). pr_Kind (eo_From o') = PortOutput)"

text \<open>The members of a scope, a blueprint's top level or a group's body: distinct and well formed.\<close>

definition wfMembers :: "bpNode list \<Rightarrow> Use list \<Rightarrow> Edge list \<Rightarrow> bool" where
  "wfMembers nodes us es \<longleftrightarrow> distinct (map bn_Name nodes) \<and> distinct (map u_As us) \<and>
     (\<forall>n \<in> set nodes. wfNode n) \<and> (\<forall>u \<in> set us. wfUse u) \<and> (\<forall>e \<in> set es. wfEdge e)"

definition wfGroup :: "Group \<Rightarrow> bool" where
  "wfGroup g \<longleftrightarrow> validName (gr_Name g) \<and> wfMembers (gr_Nodes g) (gr_Uses g) (gr_Edges g) \<and> wfExport (gr_Export g) \<and>
     (\<forall>r \<in> set (groupRefs g). refKnown (gr_Nodes g) (gr_Uses g) r)"

definition wfRuntime :: "Runtime \<Rightarrow> bool" where
  "wfRuntime rt \<longleftrightarrow> validName (rt_Name rt) \<and> rt_Binary rt \<noteq> ''''"

definition wfLock :: "Lock \<Rightarrow> bool" where
  "wfLock l \<longleftrightarrow> (case lk_S3 l of Some s \<Rightarrow> s3_Bucket s \<noteq> '''' \<and> s3_Key s \<noteq> '''' \<and> s3_Region s \<noteq> '''' | None \<Rightarrow> False)"

definition goodPrefix :: "string \<Rightarrow> bool" where
  "goodPrefix p \<longleftrightarrow> CHR 0x5C \<notin> set p \<and> (\<forall>part \<in> set (splitOn CHR ''/'' p). part \<notin> {'''', ''.'', ''..''})"

definition wfExecution :: "ExecutionConfig \<Rightarrow> bool" where
  "wfExecution c \<longleftrightarrow> 0 < xc_PlanTTL c \<and> xc_PlanTTL c < 2 ^ 63 \<and> 0 < xc_RecordRetention c \<and> xc_RecordRetention c < 2 ^ 63 \<and>
     (xc_Bucket c = '''' \<and> xc_Prefix c = '''' \<and> xc_Region c = '''' \<or>
      xc_Bucket c \<noteq> '''' \<and> CHR ''/'' \<notin> set (xc_Bucket c) \<and> goodPrefix (xc_Prefix c) \<and> xc_Region c \<noteq> '''')"

definition wfPlugin :: "PluginConfig \<Rightarrow> bool" where
  "wfPlugin p \<longleftrightarrow> identifierName (plc_Name p) \<and> plc_Source p \<noteq> '''' \<and> plc_Version p \<noteq> '''' \<and> distinctKeys (plc_Features p) \<and>
     (\<forall>f \<in> set (plc_Features p). pf_Mode (snd f) \<in> {'''', ''enforce'', ''advisory'', ''best_effort''} \<and>
        0 \<le> pf_Timeout (snd f) \<and> pf_Timeout (snd f) \<le> 300000000000) \<and>
     (\<forall>name \<in> set (plc_Environment p). environmentName name)"

text \<open>What holds of a blueprint after any number of merged blocks.\<close>

definition wfMerged :: "Blueprint \<Rightarrow> bool" where
  "wfMerged b \<longleftrightarrow> wfMembers (bp_Nodes b) (bp_Uses b) (bp_Edges b) \<and>
     distinct (map gr_Name (bp_Groups b)) \<and> (\<forall>g \<in> set (bp_Groups b). wfGroup g) \<and>
     distinct (map rt_Name (bp_Runtimes b)) \<and> (\<forall>rt \<in> set (bp_Runtimes b). wfRuntime rt) \<and>
     distinct (map plc_Name (bp_Plugins b)) \<and> (\<forall>p \<in> set (bp_Plugins b). wfPlugin p) \<and>
     (\<forall>l \<in> set_option (bp_Lock b). wfLock l) \<and> (\<forall>c \<in> set_option (bp_Execution b). wfExecution c) \<and>
     (\<forall>loc \<in> set_option (bp_TFVars b). loc \<in> {'''', ''workdir'', ''module''}) \<and>
     bp_ContractMode b \<in> {'''', ''warn'', ''enforce''}"

definition runtimeKnown :: "Blueprint \<Rightarrow> string \<Rightarrow> bool" where
  "runtimeKnown b ref \<longleftrightarrow> ref = '''' \<or> ref \<in> rt_Name ` set (bp_Runtimes b)"

definition separateLock :: "Blueprint \<Rightarrow> bool" where
  "separateLock b \<longleftrightarrow>
     (case bp_Execution b of
        None \<Rightarrow> True
      | Some c \<Rightarrow> xc_Bucket c = '''' \<or>
          (\<exists>l \<in> set_option (bp_Lock b). \<exists>s \<in> set_option (lk_S3 l).
             xc_Bucket c = s3_Bucket s \<longrightarrow> s3_Key s \<noteq> xc_Prefix c \<and> \<not> HasPrefix (s3_Key s) (xc_Prefix c @ ''/'')))"

definition wfBlueprint :: "Blueprint \<Rightarrow> bool" where
  "wfBlueprint b \<longleftrightarrow> wfMerged b \<and>
     (\<forall>e \<in> set (bp_Edges b). refKnown (bp_Nodes b) (bp_Uses b) (e_From e) \<and> refKnown (bp_Nodes b) (bp_Uses b) (e_To e)) \<and>
     length (filter rt_Default (bp_Runtimes b)) \<le> 1 \<and>
     (\<forall>n \<in> set (bp_Nodes b) \<union> \<Union> (set ` gr_Nodes ` set (bp_Groups b)). runtimeKnown b (bn_Runtime n)) \<and>
     (\<forall>u \<in> set (bp_Uses b) \<union> \<Union> (set ` gr_Uses ` set (bp_Groups b)). runtimeKnown b (u_Runtime u)) \<and>
     separateLock b"

subsection \<open>Attribute readers\<close>

lemma ParseApprove_ok: "ParseApprove s = Inr a \<Longrightarrow> goodApprove a"
  by (auto simp: ParseApprove_def goodApprove_def split: if_splits)

lemma parseApproveAttr_ok: "parseApproveAttr L attr = Inr a \<Longrightarrow> goodApprove a"
  by (auto simp: parseApproveAttr_def goodApprove_def split: option.splits dest!: ParseApprove_ok)

lemma optAttr_cases:
  "optAttr content name absent read = Inr v \<Longrightarrow> v = absent \<or> (\<exists>e. map_of (hc_Attributes content) name = Some e \<and> read e = Inr v)"
  by (auto simp: optAttr_def split: option.splits)

lemma nonEmptyString_ok: "nonEmptyString L what e = Inr s \<Longrightarrow> s \<noteq> ''''"
  by (auto simp: nonEmptyString_def split: if_splits)

lemma parseEnvAttr_ok: "parseEnvAttr L e = Inr env \<Longrightarrow> goodEnv env"
  by (auto simp: parseEnvAttr_def goodEnv_def find_None_iff split: option.splits)

lemma envAttr_ok: "optAttr content ''env'' [] (parseEnvAttr L) = Inr env \<Longrightarrow> goodEnv env"
  using optAttr_cases parseEnvAttr_ok by (fastforce simp: goodEnv_def)

lemma backendField_ok:
  "backendField kv = Inr u \<Longrightarrow> fst kv = ''s3_key_prefix'' \<or>
     fst kv = ''s3_key_name'' \<and> snd kv \<notin> {'''', ''.'', ''..''} \<and> CHR ''/'' \<notin> set (snd kv) \<and> CHR 0x5C \<notin> set (snd kv)"
  by (auto simp: backendField_def list_ex_iff split: if_splits)

lemma ParseBackendAddress_ok: "ParseBackendAddress L attr = Inr addr \<Longrightarrow> goodAddress addr"
  using backendField_ok unfolding goodAddress_def ParseBackendAddress_def
  by (fastforce simp: foldR_unit_iff split: option.splits)

lemma mapR_all: "mapR f xs = Inr ys \<Longrightarrow> (\<And>x y. f x = Inr y \<Longrightarrow> P y) \<Longrightarrow> y \<in> set ys \<Longrightarrow> P y"
  by (meson mapR_mem)

lemma bindingEnvironment_ok:
  assumes "bindingEnvironment L block content = Inr env"
  shows "(\<forall>name \<in> set env. CredentialEnvironmentAllowed name) \<and> (hb_Type block \<noteq> ''credential'' \<longrightarrow> env = [])"
proof -
  have "CredentialEnvironmentAllowed name" if "credentialName v = Inr name" for v name
    using that by (auto simp: credentialName_def split: ctyval.splits if_splits)
  then show ?thesis
    using assms by (auto simp: bindingEnvironment_def split: option.splits if_splits dest: mapR_mem)
qed

lemma pluginBinding_ok:
  assumes "pluginBinding L block = Inr b"
  shows "(\<forall>name \<in> set (pb_Environment b). CredentialEnvironmentAllowed name) \<and>
         (hb_Type block \<noteq> ''credential'' \<longrightarrow> pb_Environment b = [])"
  using assms by (auto simp: pluginBinding_def dest!: bindingEnvironment_ok)

lemma goodBindings_update:
  assumes "goodBindings (ins, creds)"
  shows "pb_Environment b = [] \<Longrightarrow> goodBindings (AList.update k b ins, creds)"
    and "goodCredential b \<Longrightarrow> goodBindings (ins, AList.update k b creds)"
  using assms unfolding goodBindings_def by (auto dest!: set_update_cases)

lemma addBinding_ok:
  assumes "addBinding L s block = Inr t" "goodBindings s"
  shows "goodBindings t"
proof -
  obtain ins creds where s: "s = (ins, creds)" by (cases s)
  obtain b name where b: "pluginBinding L block = Inr b" "label0 block = Inr name"
    using assms(1) unfolding addBinding_def by auto
  show ?thesis
  proof (cases "hb_Type block = ''credential''")
    case True
    then have "t = (ins, AList.update name b creds)" "pb_Environment b \<noteq> []"
      using assms(1) b by (simp_all add: addBinding_def s split: if_splits)
    then show ?thesis
      using goodBindings_update(2) assms(2) pluginBinding_ok [OF b(1)] by (simp add: s goodCredential_def)
  next
    case False
    then have "t = (AList.update name b ins, creds)"
      using assms(1) b by (simp add: addBinding_def s split: if_splits)
    then show ?thesis
      using goodBindings_update(1) assms(2) pluginBinding_ok [OF b(1)] False by (simp add: s)
  qed
qed

lemma parsePluginBindings_ok: "parsePluginBindings L blocks = Inr bs \<Longrightarrow> goodBindings bs"
  unfolding parsePluginBindings_def
  by (erule foldR_inv) (auto simp: goodBindings_def [of "([], [])"] intro: addBinding_ok)

subsection \<open>Nodes, uses, edges\<close>

lemma parseNodeBlock_ok: "parseNodeBlock L evaluation block = Inr n \<Longrightarrow> wfNode n"
  by (auto simp: parseNodeBlock_def wfNode_def validateName_def
      dest: envAttr_ok parseApproveAttr_ok ParseBackendAddress_ok parsePluginBindings_ok)

lemma parseUseBlock_ok: "parseUseBlock L evaluation block = Inr u \<Longrightarrow> wfUse u"
  by (auto simp: parseUseBlock_def wfUse_def validateName_def dest: envAttr_ok parseApproveAttr_ok ParseBackendAddress_ok)

lemma parseEdgeInputs_ok:
  assumes "parseEdgeInputs L inputs source target = Inr es"
  shows "\<forall>e \<in> set es. wfEdge e"
proof -
  obtain acc where f: "foldR (edgeInput L source target) ([], []) inputs = Inr acc" "es = snd acc"
    using assms by (auto simp: parseEdgeInputs_def split: if_splits)
  have "\<forall>e \<in> set (snd acc). wfEdge e"
    by (rule foldR_inv [OF f(1)]) (auto simp: edgeInput_def wfEdge_def split: if_splits)
  then show ?thesis by (simp add: f(2))
qed

lemma parseEdgeBlock_ok: "parseEdgeBlock L block = Inr es \<Longrightarrow> \<forall>e \<in> set es. wfEdge e"
  by (auto simp: parseEdgeBlock_def Let_def checkEdgeKinds_def split: if_splits dest: parseEdgeInputs_ok)
     (auto simp: wfEdge_def)
subsection \<open>Exports and groups\<close>

definition goodExport :: "exportState \<Rightarrow> bool" where
  "goodExport s \<longleftrightarrow> wfExport (es_Export s) \<and> set (es_Inputs s) = ei_Name ` set (ex_Inputs (es_Export s)) \<and>
     set (es_Outputs s) = eo_Name ` set (ex_Outputs (es_Export s))"

lemma parsePortRefList_nonempty: "parsePortRefList L e = Inr refs \<Longrightarrow> refs \<noteq> []"
  by (auto simp: parsePortRefList_def split: sum.splits option.splits list.splits parseError.splits)

lemma exportInput_ok: "exportInput L s block = Inr t \<Longrightarrow> goodExport s \<Longrightarrow> goodExport t"
  by (auto simp: exportInput_def goodExport_def wfExport_def list_ex_iff split: if_splits dest!: parsePortRefList_nonempty)

lemma exportOutput_ok: "exportOutput L s block = Inr t \<Longrightarrow> goodExport s \<Longrightarrow> goodExport t"
  by (auto simp: exportOutput_def goodExport_def wfExport_def split: if_splits)

lemma parseExportBlock_ok:
  assumes "parseExportBlock L block = Inr x"
  shows "wfExport x"
proof -
  obtain blocks s where f: "foldR (exportBlock L) \<lparr>es_Export = noExport, es_Inputs = [], es_Outputs = []\<rparr> blocks = Inr s"
    "x = es_Export s"
    using assms by (auto simp: parseExportBlock_def)
  have "goodExport s"
  proof (rule foldR_inv [OF f(1)])
    fix u block t assume "goodExport u" "exportBlock L u block = Inr t"
    then show "goodExport t" by (auto simp: exportBlock_def split: if_splits intro: exportInput_ok exportOutput_ok)
  qed (simp add: goodExport_def wfExport_def noExport_def)
  then show ?thesis by (simp add: f(2) goodExport_def)
qed

text \<open>One more member of a scope.\<close>

lemma wfMembers_node:
  "wfMembers ns us es \<Longrightarrow> wfNode n \<Longrightarrow> bn_Name n \<notin> bn_Name ` set ns \<Longrightarrow> wfMembers (ns @ [n]) us es"
  by (auto simp: wfMembers_def)

lemma wfMembers_use:
  "wfMembers ns us es \<Longrightarrow> wfUse u \<Longrightarrow> u_As u \<notin> u_As ` set us \<Longrightarrow> wfMembers ns (us @ [u]) es"
  by (auto simp: wfMembers_def)

lemma wfMembers_edges: "wfMembers ns us es \<Longrightarrow> \<forall>e \<in> set fs. wfEdge e \<Longrightarrow> wfMembers ns us (es @ fs)"
  by (auto simp: wfMembers_def)

lemma wfMembers_Nil [simp]: "wfMembers [] [] []"
  by (simp add: wfMembers_def)

definition goodGroup :: "string \<Rightarrow> groupState \<Rightarrow> bool" where
  "goodGroup name s \<longleftrightarrow> (case gs_Group s of g \<Rightarrow>
     gr_Name g = name \<and> wfMembers (gr_Nodes g) (gr_Uses g) (gr_Edges g) \<and> wfExport (gr_Export g))"

lemma groupBlock_ok:
  assumes "groupBlock L baseDir evaluation s block = Inr t" "goodGroup name s"
  shows "goodGroup name t"
  using assms
  by (auto simp: groupBlock_def goodGroup_def Let_def split: if_splits
      intro: parseExportBlock_ok wfMembers_node [OF _ parseNodeBlock_ok] wfMembers_use [OF _ parseUseBlock_ok]
        wfMembers_edges [OF _ parseEdgeBlock_ok])

lemma validateEndpointKnown_iff:
  "validateEndpointKnown r (set (map bn_Name ns)) (set (map u_As us)) = Inr u \<longleftrightarrow> refKnown ns us r"
  by (auto simp: validateEndpointKnown_def refKnown_def)

lemma parseGroupBlock_ok:
  assumes "parseGroupBlock L baseDir evaluation block = Inr g"
  shows "wfGroup g"
proof -
  obtain blocks name s where n: "validName name" and
    f: "foldR (groupBlock L baseDir evaluation)
          \<lparr>gs_Group = \<lparr>gr_Name = name, gr_Nodes = [], gr_Edges = [], gr_Uses = [], gr_Export = noExport, gr_Contracts = None\<rparr>,
           gs_Ports = [], gs_SawExport = False\<rparr> blocks = Inr s" and g: "g = gs_Group s" and
    r: "foldR (\<lambda>_ ref. validateEndpointKnown ref (set (map bn_Name (gr_Nodes g))) (set (map u_As (gr_Uses g)))) () (groupRefs g) = Inr ()"
    using assms by (auto simp: parseGroupBlock_def validateName_def Let_def)
  have "goodGroup name s"
    by (rule foldR_inv [OF f])
       (simp add: goodGroup_def wfExport_def noExport_def, blast intro: groupBlock_ok)
  then show ?thesis
    using r n by (simp add: wfGroup_def goodGroup_def g foldR_unit_iff validateEndpointKnown_iff del: set_map)
qed

subsection \<open>Configuration blocks\<close>

lemma parseRuntimeBlock_ok: "parseRuntimeBlock L block = Inr rt \<Longrightarrow> wfRuntime rt"
  by (auto simp: parseRuntimeBlock_def wfRuntime_def validateName_def dest!: nonEmptyString_ok)

lemma parseLockS3Block_ok: "parseLockS3Block L block = Inr s \<Longrightarrow> wfLock \<lparr>lk_S3 = Some s\<rparr>"
  by (auto simp: parseLockS3Block_def wfLock_def dest!: nonEmptyString_ok)

lemma singleBackend_ok: "singleBackend L blocks = Inr l \<Longrightarrow> wfLock l"
  by (auto simp: singleBackend_def split: list.splits dest: parseLockS3Block_ok)

lemma parseLockBlock_ok: "parseLockBlock L block = Inr l \<Longrightarrow> wfLock l"
  by (auto simp: parseLockBlock_def parseLockSyntaxBody_def split: option.splits if_splits dest: singleBackend_ok)

lemma executionDuration_ok:
  "executionDuration L m name unset = Inr d \<Longrightarrow> 0 < unset \<Longrightarrow> unset < 2 ^ 63 \<Longrightarrow> 0 < d \<and> d < 2 ^ 63"
  by (auto simp: executionDuration_def split: option.splits if_splits dest: ParseDuration_bounds)

lemma storagePrefix_ok:
  "storagePrefix bucket prefix region = Inr p \<Longrightarrow>
     bucket = '''' \<and> p = '''' \<and> region = '''' \<or> bucket \<noteq> '''' \<and> CHR ''/'' \<notin> set bucket \<and> goodPrefix p \<and> region \<noteq> ''''"
  by (auto simp: storagePrefix_def Let_def goodPrefix_def list_ex_iff split: if_splits)

lemma parseExecutionBlock_ok: "parseExecutionBlock L block = Inr c \<Longrightarrow> wfExecution c"
  by (auto simp: parseExecutionBlock_def wfExecution_def defaultExecution_def nsPerHour_def
      dest!: executionDuration_ok storagePrefix_ok)

lemma parseTFVarsBlock_ok: "parseTFVarsBlock L block = Inr loc \<Longrightarrow> loc \<in> {'''', ''workdir'', ''module''}"
  by (auto simp: parseTFVarsBlock_def tfvarsLocation_def split: if_splits dest!: optAttr_cases)

lemma parseContractsBlock_ok: "parseContractsBlock L block = Inr mode \<Longrightarrow> mode \<in> {''warn'', ''enforce''}"
  by (auto simp: parseContractsBlock_def split: if_splits)

subsection \<open>Plugins\<close>

definition goodFeature :: "PluginFeature \<Rightarrow> bool" where
  "goodFeature f \<longleftrightarrow> pf_Mode f \<in> {'''', ''enforce'', ''advisory'', ''best_effort''} \<and> 0 \<le> pf_Timeout f \<and> pf_Timeout f \<le> 300000000000"

lemma featureAttr_ok: "featureAttr L f attr = Inr f' \<Longrightarrow> goodFeature f \<Longrightarrow> goodFeature f'"
  by (auto simp: featureAttr_def goodFeature_def split: if_splits option.splits)

lemma pluginFeatureBlock_ok:
  assumes "pluginFeatureBlock L p block = Inr q" "wfPlugin p"
  shows "wfPlugin q"
proof -
  obtain attrs name f where f: "foldR (featureAttr L) \<lparr>pf_Mode = '''', pf_Timeout = 0\<rparr> attrs = Inr f"
    and q: "q = p\<lparr>plc_Features := AList.update name f (plc_Features p)\<rparr>"
    using assms(1) by (auto simp: pluginFeatureBlock_def split: if_splits)
  have "goodFeature f"
    by (rule foldR_inv [OF f]) (simp add: goodFeature_def, blast intro: featureAttr_ok)
  then show ?thesis
    using assms(2) by (auto simp: q wfPlugin_def goodFeature_def dest!: set_update_cases)
qed

lemma accessNames_ok: "mapR accessName vs = Inr names \<Longrightarrow> \<forall>name \<in> set names. environmentName name"
  by (auto simp: accessName_def split: ctyval.splits if_splits dest!: mapR_mem)

lemma pluginAccessBlock_ok: "pluginAccessBlock L p block = Inr q \<Longrightarrow> wfPlugin p \<Longrightarrow> wfPlugin q"
  by (auto simp: pluginAccessBlock_def wfPlugin_def dest!: optAttr_cases accessNames_ok)

lemma parsePluginBlock_ok:
  assumes "parsePluginBlock L block = Inr p"
  shows "wfPlugin p"
proof -
  obtain name source version config blocks acc where
    n: "identifierName name" "source \<noteq> ''''" "version \<noteq> ''''" and
    f: "foldR (pluginInner L)
          (False, \<lparr>plc_Name = name, plc_Source = source, plc_Version = version, plc_Config = config, plc_Features = [],
            plc_Environment = [], plc_PlanAccess = False\<rparr>) blocks = Inr acc" and p: "p = snd acc"
    using assms by (auto simp: parsePluginBlock_def dest!: nonEmptyString_ok)
  have "wfPlugin (snd acc)"
  proof (rule foldR_inv [OF f])
    fix s block t assume "wfPlugin (snd s)" "pluginInner L s block = Inr t"
    then show "wfPlugin (snd t)"
      by (auto simp: pluginInner_def split: if_splits intro: pluginFeatureBlock_ok pluginAccessBlock_ok)
  qed (simp add: wfPlugin_def n)
  then show ?thesis by (simp add: p)
qed
subsection \<open>Merged scopes\<close>

lemma wfMerged_noBlueprint: "wfMerged noBlueprint"
  by (simp add: wfMerged_def noBlueprint_def)

text \<open>One more block of each kind.\<close>

lemma wfMerged_members:
  assumes "wfMerged b"
  shows "wfNode n \<Longrightarrow> bn_Name n \<notin> bn_Name ` set (bp_Nodes b) \<Longrightarrow> wfMerged (b\<lparr>bp_Nodes := bp_Nodes b @ [n]\<rparr>)"
    and "wfUse u \<Longrightarrow> u_As u \<notin> u_As ` set (bp_Uses b) \<Longrightarrow> wfMerged (b\<lparr>bp_Uses := bp_Uses b @ [u]\<rparr>)"
    and "\<forall>e \<in> set es. wfEdge e \<Longrightarrow> wfMerged (b\<lparr>bp_Edges := bp_Edges b @ es\<rparr>)"
  using assms by (auto simp: wfMerged_def intro: wfMembers_node wfMembers_use wfMembers_edges)

lemma wfMerged_named:
  assumes "wfMerged b"
  shows "wfPlugin p \<Longrightarrow> plc_Name p \<notin> plc_Name ` set (bp_Plugins b) \<Longrightarrow> wfMerged (b\<lparr>bp_Plugins := bp_Plugins b @ [p]\<rparr>)"
    and "wfGroup g \<Longrightarrow> gr_Name g \<notin> gr_Name ` set (bp_Groups b) \<Longrightarrow> wfMerged (b\<lparr>bp_Groups := bp_Groups b @ [g]\<rparr>)"
    and "wfRuntime rt \<Longrightarrow> rt_Name rt \<notin> rt_Name ` set (bp_Runtimes b) \<Longrightarrow> wfMerged (b\<lparr>bp_Runtimes := bp_Runtimes b @ [rt]\<rparr>)"
  using assms by (auto simp: wfMerged_def)

lemma wfMerged_single:
  assumes "wfMerged b"
  shows "wfLock l \<Longrightarrow> wfMerged (b\<lparr>bp_Lock := Some l\<rparr>)"
    and "wfExecution c \<Longrightarrow> wfMerged (b\<lparr>bp_Execution := Some c\<rparr>)"
    and "loc \<in> {'''', ''workdir'', ''module''} \<Longrightarrow> wfMerged (b\<lparr>bp_TFVars := Some loc\<rparr>)"
    and "mode \<in> {''warn'', ''enforce''} \<Longrightarrow> wfMerged (b\<lparr>bp_ContractMode := mode\<rparr>)"
    and "wfMerged (b\<lparr>bp_Vendor := v\<rparr>)" "wfMerged (b\<lparr>bp_Snapshots := sn\<rparr>)" "wfMerged (b\<lparr>bp_Contracts := cs\<rparr>)"
  using assms by (auto simp: wfMerged_def)

lemmas merge_ok =
  wfMerged_members(1) [OF _ parseNodeBlock_ok] wfMerged_members(2) [OF _ parseUseBlock_ok]
  wfMerged_members(3) [OF _ parseEdgeBlock_ok] wfMerged_named(1) [OF _ parsePluginBlock_ok]
  wfMerged_named(2) [OF _ parseGroupBlock_ok] wfMerged_named(3) [OF _ parseRuntimeBlock_ok]
  wfMerged_single(1) [OF _ parseLockBlock_ok] wfMerged_single(2) [OF _ parseExecutionBlock_ok]
  wfMerged_single(3) [OF _ parseTFVarsBlock_ok] wfMerged_single(4) [OF _ parseContractsBlock_ok] wfMerged_single(5,6,7)

lemma topBlock_ok:
  assumes "topBlock L baseDir evaluation s block = Inr t" "wfMerged (fst s)"
  shows "wfMerged (fst t)"
  using assms unfolding topBlock_def Let_def by (auto split: if_splits intro: merge_ok)

lemma parseOneFile_ok:
  assumes "parseOneFile L fs evaluation s path = Inr t" "wfMerged (fst s)"
  shows "wfMerged (fst t)"
proof -
  obtain baseDir blocks where "foldR (topBlock L baseDir evaluation) s blocks = Inr t"
    using assms(1) by (auto simp: parseOneFile_def)
  then show ?thesis
    by (rule foldR_inv [where I = "\<lambda>u. wfMerged (fst u)"]) (use assms(2) topBlock_ok in blast)+
qed

lemma find_None_name: "find (\<lambda>rt. rt_Name rt = name) rts \<noteq> None \<longleftrightarrow> name \<in> rt_Name ` set rts"
  by (auto simp: find_None_iff)

lemma checkRuntimeRef_ok: "checkRuntimeRef b owner ref = Inr u \<longleftrightarrow> runtimeKnown b ref"
  by (auto simp: checkRuntimeRef_def runtimeKnown_def RuntimeByName_def find_None_name simp del: not_None_eq)

lemma validateRuntimes_ok:
  "validateRuntimes b = Inr u \<Longrightarrow>
     length (filter rt_Default (bp_Runtimes b)) \<le> 1 \<and>
     (\<forall>n \<in> set (bp_Nodes b) \<union> \<Union> (set ` gr_Nodes ` set (bp_Groups b)). runtimeKnown b (bn_Runtime n)) \<and>
     (\<forall>u \<in> set (bp_Uses b) \<union> \<Union> (set ` gr_Uses ` set (bp_Groups b)). runtimeKnown b (u_Runtime u))"
  by (auto simp: validateRuntimes_def Let_def foldR_unit_iff checkRuntimeRef_ok)

lemma validateExecutionConfig_ok: "validateExecutionConfig b = Inr u \<Longrightarrow> separateLock b"
  by (auto simp: validateExecutionConfig_def separateLock_def ExecutionSettings_def Let_def defaultExecution_def
      split: option.splits if_splits)

lemma closeScope_ok:
  assumes "closeScope b = Inr c" "wfMerged b"
  shows "c = b \<and> wfBlueprint b"
proof -
  have parts: "validateEdges b (set (map bn_Name (bp_Nodes b))) (set (map u_As (bp_Uses b))) = Inr ()"
    "validateRuntimes b = Inr ()" "validateExecutionConfig b = Inr ()" "c = b"
    using assms(1) by (auto simp: closeScope_def)
  have "\<forall>e \<in> set (bp_Edges b). refKnown (bp_Nodes b) (bp_Uses b) (e_From e) \<and> refKnown (bp_Nodes b) (bp_Uses b) (e_To e)"
    using parts(1) unfolding validateEdges_iff refKnown_def set_map by (simp split del: if_split)
  then show ?thesis
    using parts validateRuntimes_ok [OF parts(2)] validateExecutionConfig_ok [OF parts(3)] assms(2)
    by (simp add: wfBlueprint_def)
qed

lemma ParseFile_ok: "ParseFile L fs evaluation path = Inr bp \<Longrightarrow> wfBlueprint bp"
  by (auto simp: ParseFile_def dest!: parseOneFile_ok closeScope_ok simp: wfMerged_noBlueprint)

lemma parseDir_ok:
  assumes "parseDir L fs evaluation dir = Inr (bp, n)"
  shows "wfBlueprint bp"
proof -
  obtain files s where f: "foldR (parseOneFile L fs evaluation) (noBlueprint, []) files = Inr s" "closeScope (fst s) = Inr bp"
    using assms by (auto simp: parseDir_def Let_def)
  have "wfMerged (fst s)"
    by (rule foldR_inv [OF f(1)]) (simp add: wfMerged_noBlueprint, blast intro: parseOneFile_ok)
  then show ?thesis using closeScope_ok [OF f(2)] by simp
qed

lemma LoadPath_ok: "LoadPath L fs evaluation path = Inr (bp, dir) \<Longrightarrow> wfBlueprint bp"
  by (auto simp: LoadPath_def split: if_splits dest: parseDir_ok ParseFile_ok)

text \<open>What the graph builder needs of a scope.\<close>

lemma refKnown_node: "refKnown ns us r \<Longrightarrow> pr_Entity r \<noteq> EntityUse \<Longrightarrow> pr_Node r \<in> bn_Name ` set ns"
  by (simp add: refKnown_def)

lemma wfBlueprint_scoped:
  assumes "wfBlueprint b"
  shows "scopeRefs (bp_Nodes b) (bp_Edges b)" "gr \<in> set (bp_Groups b) \<Longrightarrow> scopeRefs (gr_Nodes gr) (gr_Edges gr)"
proof -
  show "scopeRefs (bp_Nodes b) (bp_Edges b)"
    using assms by (auto simp: scopeRefs_def wfBlueprint_def dest: refKnown_node)
  assume "gr \<in> set (bp_Groups b)"
  then have "wfGroup gr" using assms by (simp add: wfBlueprint_def wfMerged_def)
  then have "\<forall>e \<in> set (gr_Edges gr). refKnown (gr_Nodes gr) (gr_Uses gr) (e_From e) \<and> refKnown (gr_Nodes gr) (gr_Uses gr) (e_To e)"
    by (auto simp: wfGroup_def groupRefs_def)
  then show "scopeRefs (gr_Nodes gr) (gr_Edges gr)"
    by (auto simp: scopeRefs_def dest: refKnown_node)
qed

text \<open>A world that reads group directories with the parser.\<close>

definition readsWith :: "World \<Rightarrow> ('b, 'e, 'c) hclLib \<Rightarrow> fileSys \<Rightarrow> 'c option \<Rightarrow> World" where
  "readsWith w L fs evaluation = w\<lparr>w_ParseDir := (\<lambda>dir. mapErr (\<lambda>_. ()) (ParseDir L fs evaluation dir))\<rparr>"

lemma readsWith_scoped: "diskScoped (readsWith w L fs evaluation)"
  unfolding diskScoped_def readsWith_def
  by (auto simp: ParseDir_def dest!: parseDir_ok intro: wfBlueprint_scoped(2))

end
