(* ===== verification/Parser_Panics.thy ===== *)
theory Parser_Panics
  imports Blueprint_Typing
begin

text \<open>
  Which panics the parser can reach. The HCL library documents that a decoded content carries the attributes its schema
  requires, that its blocks carry as many labels as the schema names, that an absolute traversal is not empty, that an
  expression evaluated without variables and functions is wholly known, and that the conversion of a known value to a
  string yields a string or null. Under these laws one panic is left: a runtime's \<open>default\<close> that evaluates to a null
  boolean, because its guard compares the type and not nullness.
\<close>

subsection \<open>Laws of the library\<close>

definition fitsSchema :: "hclSchema \<Rightarrow> ('b, 'e) hclContent \<Rightarrow> bool" where
  "fitsSchema sc content \<longleftrightarrow>
     (\<forall>a \<in> set (sc_Attributes sc). snd a \<longrightarrow> map_of (hc_Attributes content) (fst a) \<noteq> None) \<and>
     (\<forall>b \<in> set (hc_Blocks content). \<exists>h \<in> set (sc_Blocks sc). hb_Type b = fst h \<and> length (hb_Labels b) = length (snd h))"

definition hclLaws :: "('b, 'e, 'c) hclLib \<Rightarrow> bool" where
  "hclLaws L \<longleftrightarrow>
     (\<forall>sc b c. hl_Content L sc b = Inr c \<longrightarrow> fitsSchema sc c) \<and>
     (\<forall>sc b c r. hl_PartialContent L sc b = Inr (c, r) \<longrightarrow> fitsSchema sc c) \<and>
     (\<forall>e steps. hl_AbsTraversal L e = Some steps \<longrightarrow> steps \<noteq> []) \<and>
     (\<forall>e v. hl_Value L None e = Inr v \<longrightarrow> isWhollyKnown v) \<and>
     (\<forall>v w. isWhollyKnown v \<longrightarrow> hl_ConvertString L v = Inr w \<longrightarrow> isNull w \<or> (\<exists>s. w = VString s))"

text \<open>The remaining panic: a runtime block, a file with one, and a file of the system.\<close>

definition nullRuntimeDefault :: "('b, 'e, 'c) hclLib \<Rightarrow> 'b hclBlock \<Rightarrow> bool" where
  "nullRuntimeDefault L block \<longleftrightarrow>
     (\<exists>content e. hl_Content L runtimeSchema (hb_Body block) = Inr content \<and> map_of (hc_Attributes content) ''default'' = Some e \<and>
        hl_Value L None e = Inr (VNull CBool))"

definition nullDefaultIn :: "('b, 'e, 'c) hclLib \<Rightarrow> fileSys \<Rightarrow> string \<Rightarrow> bool" where
  "nullDefaultIn L fs path \<longleftrightarrow>
     (\<exists>src body content. fs_ReadFile fs path = Inr src \<and> hl_ParseHCL L src = Inr body \<and> hl_Content L topSchema body = Inr content \<and>
        (\<exists>block \<in> set (hc_Blocks content). hb_Type block = ''runtime'' \<and> nullRuntimeDefault L block))"

lemma hclLawsD:
  assumes "hclLaws L"
  shows "hl_Content L sc b = Inr c \<Longrightarrow> fitsSchema sc c" "hl_PartialContent L sc b = Inr (c, r) \<Longrightarrow> fitsSchema sc c"
    "hl_AbsTraversal L e = Some steps \<Longrightarrow> steps \<noteq> []" "hl_Value L None e = Inr v \<Longrightarrow> isWhollyKnown v"
    "isWhollyKnown v \<Longrightarrow> hl_ConvertString L v = Inr w \<Longrightarrow> isNull w \<or> (\<exists>s. w = VString s)"
  using assms unfolding hclLaws_def by blast+

subsection \<open>Results that do not panic\<close>

definition calmly :: "bool \<Rightarrow> parseError + 'a \<Rightarrow> bool" where
  "calmly excuse r \<longleftrightarrow> (r = Inl ParsePanic \<longrightarrow> excuse)"

named_theorems calm \<open>results that do not panic\<close>

lemma calmly_simps [simp]: "calmly x (Inr v)" "calmly x (Inl (Refused m))" "calmly x (Inl (HclDiags m))"
    "calmly x (diags r)" "calmly x (mapErr FileError r')" "calmly x (mapErr InScope r1)" "calmly x (mapErr InConfig r2)"
    "calmly x (mapErr (\<lambda>e. Refused (h e)) r3)"
  by (auto simp: calmly_def elim: mapErr.elims)

lemma calmly_bind [calm]: "calmly x r \<Longrightarrow> (\<And>v. r = Inr v \<Longrightarrow> calmly x (f v)) \<Longrightarrow> calmly x (bindR r f)"
  by (cases r) (auto simp: calmly_def)

lemma calmly_fold [calm]: "(\<And>s v. v \<in> set vs \<Longrightarrow> calmly x (f s v)) \<Longrightarrow> calmly x (foldR f s vs)"
  unfolding calmly_def by (meson foldR_eq_Inl)

lemma calmly_map [calm]: "(\<And>v. v \<in> set vs \<Longrightarrow> calmly x (f v)) \<Longrightarrow> calmly x (mapR f vs)"
  unfolding calmly_def by (meson mapR_eq_Inl)

lemma calmly_if [calm]: "(b \<Longrightarrow> calmly x r) \<Longrightarrow> (\<not> b \<Longrightarrow> calmly x r') \<Longrightarrow> calmly x (if b then r else r')"
  by simp

lemma calmly_cases [calm]:
  "(xs = [] \<Longrightarrow> calmly x a) \<Longrightarrow> (\<And>y ys. xs = y # ys \<Longrightarrow> calmly x (f y ys)) \<Longrightarrow> calmly x (case xs of [] \<Rightarrow> a | y # ys \<Rightarrow> f y ys)"
  "(m = None \<Longrightarrow> calmly x a) \<Longrightarrow> (\<And>y. m = Some y \<Longrightarrow> calmly x (h y)) \<Longrightarrow> calmly x (case m of None \<Rightarrow> a | Some y \<Rightarrow> h y)"
  "(\<And>y z. p = (y, z) \<Longrightarrow> calmly x (k y z)) \<Longrightarrow> calmly x (case p of (y, z) \<Rightarrow> k y z)"
  by (simp_all split: list.split option.split prod.split)

lemma calmly_require [simp]: "calmly x (require b (Refused m))"
  by (simp add: require_def)

lemma attr_calm:
  "hclLaws L \<Longrightarrow> hl_Content L sc b = Inr c \<Longrightarrow> (name, True) \<in> set (sc_Attributes sc) \<Longrightarrow> calmly x (attrOf c name)"
  by (fastforce simp: fitsSchema_def attrOf_def dest: hclLawsD(1))

lemma calmly_opt [calm]: "(\<And>e. calmly x (read e)) \<Longrightarrow> calmly x (optAttr c name absent read)"
  by (simp add: optAttr_def split: option.split)

text \<open>A block with at least one label, as every parser of a labelled block receives.\<close>

abbreviation (input) labelled :: "'b hclBlock \<Rightarrow> bool" where
  "labelled b \<equiv> hb_Labels b \<noteq> []"

lemma labelled_calm [simp]: "labelled b \<Longrightarrow> calmly x (label0 b)"
  by (simp add: label0_def split: list.split)

lemma block_labelled:
  "hclLaws L \<Longrightarrow> hl_Content L sc b = Inr c \<Longrightarrow> block \<in> set (hc_Blocks c) \<Longrightarrow>
   (\<And>h. h \<in> set (sc_Blocks sc) \<Longrightarrow> fst h = hb_Type block \<Longrightarrow> snd h \<noteq> []) \<Longrightarrow> labelled block"
  by (drule (1) hclLawsD(1)) (fastforce simp: fitsSchema_def)

subsection \<open>Attribute readers\<close>

lemma calm_literalString [simp]: "calmly x (literalString L what e)"
  by (simp add: literalString_def split: sum.split ctyval.split)

lemma calm_nonEmptyString [simp]: "calmly x (nonEmptyString L what e)"
  unfolding nonEmptyString_def by (rule calmly_bind) simp_all

lemma calm_validateName [simp]: "calmly x (validateName kind name)"
  by (simp add: validateName_def)

lemma calm_parseApproveAttr [simp]: "calmly x (parseApproveAttr L attr)"
  unfolding parseApproveAttr_def by (auto split: option.split intro!: calm)

lemma calm_parseVarsAttr [simp]: "calmly x (parseVarsAttr L evaluation e)"
  unfolding parseVarsAttr_def addVar_def by (auto split: sum.split option.split intro!: calm)

lemma mapEntries_known: "mapEntries v = Some kvs \<Longrightarrow> isWhollyKnown v \<Longrightarrow> kv \<in> set kvs \<Longrightarrow> isWhollyKnown (snd kv)"
  by (auto simp: mapEntries_def isWhollyKnown.simps [of v] list_all_iff split: ctyval.splits)

lemma calm_addString: "hclLaws L \<Longrightarrow> isWhollyKnown (snd kv) \<Longrightarrow> calmly x (addString L attrName acc kv)"
  using hclLawsD(5) [of L "snd kv"]
  by (fastforce simp: addString_def split: sum.split ctyval.split elim: isNull.elims)

lemma calm_parseStringMapAttr [simp]: "hclLaws L \<Longrightarrow> calmly x (parseStringMapAttr L attrName e)"
  unfolding parseStringMapAttr_def
  by (auto split: sum.split option.split intro!: calm calm_addString dest: mapEntries_known hclLawsD(4))

lemma calm_maps [simp]:
  assumes "hclLaws L"
  shows "calmly x (parseBackendConfig L e)" "calmly x (parseEnvAttr L e)" "calmly x (ParseBackendAddress L attr)"
  using assms
  by (auto simp: parseBackendConfig_def parseEnvAttr_def ParseBackendAddress_def backendField_def
      split: option.split intro!: calm)

lemma calm_traverse [simp]: "calmly x (traverseAttrName step)"
  by (simp add: traverseAttrName_def split: hclStep.split)

lemma calm_rootedSteps [simp]: "steps \<noteq> [] \<Longrightarrow> calmly x (rootedSteps m steps)"
  by (simp add: rootedSteps_def split: list.split hclStep.split)

lemma calm_parseRuntimeRef [simp]: "calmly x (parseRuntimeRef L attr)"
  unfolding parseRuntimeRef_def by (simp split: option.split list.split hclStep.split)

lemma calm_refs [simp]:
  assumes "hclLaws L"
  shows "calmly x (parseRelativeOutputRef L e)" "calmly x (parseNodeOrPortRef L e)"
  unfolding parseRelativeOutputRef_def parseNodeOrPortRef_def parseKind_def
  by (intro calm; simp add: hclLawsD(3) [OF assms])+

lemma calm_parsePortRefList [simp]: "hclLaws L \<Longrightarrow> calmly x (parsePortRefList L e)"
  using calm_refs(2) [of L False e]
  by (auto simp: parsePortRefList_def portOnly_def calmly_def [of False]
      split: sum.split option.split list.split parseError.split intro!: calm)
subsection \<open>Blocks\<close>

lemma calm_config [simp]:
  assumes "hclLaws L"
  shows "calmly x (parseVendorBlock L block)" "calmly x (parseTFVarsBlock L block)" "calmly x (parseSnapshotsBlock L block)"
    "calmly x (parseContractsBlock L block)" "calmly x (parseLockS3Block L block)"
  unfolding parseVendorBlock_def parseTFVarsBlock_def tfvarsLocation_def parseSnapshotsBlock_def parseContractsBlock_def
    parseLockS3Block_def
  by (intro calm; auto simp: contractsModeSchema_def lockS3Schema_def intro!: calm intro: attr_calm [OF assms])+

lemma calm_parseLockBlock [simp]: "hclLaws L \<Longrightarrow> calmly x (parseLockBlock L block)"
  unfolding parseLockBlock_def parseLockSyntaxBody_def singleBackend_def
  by (intro calm; simp)

lemma calm_parseExecutionBlock [simp]: "hclLaws L \<Longrightarrow> calmly x (parseExecutionBlock L block)"
  unfolding parseExecutionBlock_def executionText_def storagePrefix_def executionDuration_def Let_def
  by (intro calm; simp)

lemma calm_runtimeDefault:
  "hclLaws L \<Longrightarrow> calmly (hl_Value L None e = Inr (VNull CBool)) (runtimeDefault L e)"
  using hclLawsD(4) [of L e]
  by (auto simp: runtimeDefault_def calmly_def isWhollyKnown.simps split: sum.splits ctyval.splits if_splits)

lemma calm_parseRuntimeBlock:
  assumes "hclLaws L" "labelled block"
  shows "calmly (nullRuntimeDefault L block) (parseRuntimeBlock L block)"
proof -
  have "calmly (nullRuntimeDefault L block) (optAttr c ''default'' False (runtimeDefault L))"
    if "hl_Content L runtimeSchema (hb_Body block) = Inr c" for c
    using that calm_runtimeDefault [OF assms(1)] unfolding optAttr_def calmly_def nullRuntimeDefault_def
    by (fastforce split: option.splits)
  then show ?thesis
    unfolding parseRuntimeBlock_def
    by (intro calmly_bind; auto simp: calmly_opt [OF calm_literalString] assms runtimeSchema_def intro: attr_calm [OF assms(1)])
qed

lemma calm_bindings [simp]:
  assumes "hclLaws L" "\<forall>b \<in> set blocks. labelled b"
  shows "calmly x (parsePluginBindings L blocks)"
  unfolding parsePluginBindings_def addBinding_def pluginBinding_def bindingSource_def bindingEnvironment_def literalList_def
  by (intro calm;
      auto simp: bindingSchema_def assms credentialName_def split: sum.split ctyval.split hclStep.split list.split option.split
        intro!: calm attr_calm [OF assms(1)])
lemma calm_parseNodeBlock [simp]:
  assumes "hclLaws L" "labelled block"
  shows "calmly x (parseNodeBlock L evaluation block)"
  unfolding parseNodeBlock_def
  by (intro calm;
      auto simp: nodeSchema_hcl_def assms intro!: calm_bindings attr_calm [OF assms(1)] dest: block_labelled [OF assms(1)])

lemma calm_parseUseBlock [simp]:
  assumes "hclLaws L" "labelled block"
  shows "calmly x (parseUseBlock L evaluation block)"
  unfolding parseUseBlock_def
  by (intro calm; auto simp: useSchema_def assms intro!: attr_calm [OF assms(1)])

lemma calm_parseEdgeInputs [simp]:
  assumes "hclLaws L" "\<forall>b \<in> set inputs. labelled b"
  shows "calmly x (parseEdgeInputs L inputs source target)"
  unfolding parseEdgeInputs_def edgeInput_def
  by (intro calm; auto simp: edgeInputSchema_def assms intro!: attr_calm [OF assms(1)])

lemma calm_parseEdgeBlock [simp]:
  assumes "hclLaws L"
  shows "calmly x (parseEdgeBlock L block)"
  unfolding parseEdgeBlock_def Let_def checkEdgeKinds_def
  by (intro calm;
      auto simp: edgeSchema_def assms intro!: calm_parseEdgeInputs attr_calm [OF assms(1)] dest: block_labelled [OF assms(1)])

lemma calm_exportBlock:
  assumes "hclLaws L" "labelled block"
  shows "calmly x (exportBlock L s block)"
  unfolding exportBlock_def exportInput_def exportOutput_def
  by (intro calm; auto simp: exportInputSchema_def exportOutputSchema_def assms intro!: attr_calm [OF assms(1)])

lemma calm_parseExportBlock [simp]:
  assumes "hclLaws L"
  shows "calmly x (parseExportBlock L block)"
  unfolding parseExportBlock_def
  by (intro calm calm_exportBlock; auto simp: exportBodySchema_def assms dest: block_labelled [OF assms(1)])

lemma calm_parsePortContract [simp]:
  assumes "hclLaws L"
  shows "calmly x (parsePortContract L port scope name)"
  unfolding parsePortContract_def portAttr_def contractTypeExpr_def
  by (intro calm; auto split: ctyval.split sum.split)

lemma calm_parseContractSideBlock [simp]:
  assumes "hclLaws L" "labelled block"
  shows "calmly x (parseContractSideBlock L baseDir block acc)"
  unfolding parseContractSideBlock_def Let_def contractPort_def
  by (intro calm; auto simp: contractsSideSchema_def assms dest: block_labelled [OF assms(1)] intro!: labelled_calm)

lemma calm_groupBlock:
  assumes "hclLaws L" "hb_Type block \<in> {''node'', ''use'', ''producer'', ''consumer''} \<Longrightarrow> labelled block"
  shows "calmly x (groupBlock L baseDir evaluation s block)"
  unfolding groupBlock_def Let_def by (intro calm; simp add: assms)

lemma calm_parseGroupBlock [simp]:
  assumes "hclLaws L" "labelled block"
  shows "calmly x (parseGroupBlock L baseDir evaluation block)"
  unfolding parseGroupBlock_def Let_def
  by (intro calm calm_groupBlock; auto simp: groupBodySchema_def assms dest: block_labelled [OF assms(1)])

lemma calm_pluginInner:
  assumes "hclLaws L" "hb_Type block = ''feature'' \<Longrightarrow> labelled block"
  shows "calmly x (pluginInner L acc block)"
  unfolding pluginInner_def pluginFeatureBlock_def featureAttr_def pluginAccessBlock_def literalList_def accessName_def
  by (intro calm; auto simp: assms split: sum.split ctyval.split intro!: calm)

lemma calm_parsePluginBlock [simp]:
  assumes "hclLaws L" "labelled block"
  shows "calmly x (parsePluginBlock L block)"
  unfolding parsePluginBlock_def
  by (intro calm calm_pluginInner; auto simp: pluginSchema_def assms intro!: attr_calm [OF assms(1)] dest: block_labelled [OF assms(1)])

subsection \<open>Files\<close>

lemma calmly_mono: "calmly x r \<Longrightarrow> (x \<Longrightarrow> y) \<Longrightarrow> calmly y r"
  by (auto simp: calmly_def)

lemma calm_topBlock:
  assumes "hclLaws L" "hb_Type block \<in> {''plugin'', ''node'', ''group'', ''use'', ''runtime'', ''producer'', ''consumer''} \<Longrightarrow> labelled block"
  shows "calmly (hb_Type block = ''runtime'' \<and> nullRuntimeDefault L block) (topBlock L baseDir evaluation s block)"
  unfolding topBlock_def Let_def by (intro calm; simp add: assms calm_parseRuntimeBlock)

lemma calm_AbsPath [simp]: "calmly x (AbsPath fs p)"
  unfolding AbsPath_def by (intro calm; simp)

lemma calm_parseOneFile:
  assumes "hclLaws L"
  shows "calmly (nullDefaultIn L fs path) (parseOneFile L fs evaluation s path)"
proof -
  have "calmly (nullDefaultIn L fs path) (topBlock L baseDir evaluation t block)"
    if "fs_ReadFile fs path = Inr src" "hl_ParseHCL L src = Inr body" "hl_Content L topSchema body = Inr content"
      "block \<in> set (hc_Blocks content)" for src body content block baseDir t
  proof (rule calmly_mono [OF calm_topBlock])
    show "labelled block" if "hb_Type block \<in> {''plugin'', ''node'', ''group'', ''use'', ''runtime'', ''producer'', ''consumer''}"
      using that by (intro block_labelled [OF assms \<open>hl_Content L topSchema body = Inr content\<close> \<open>block \<in> _\<close>])
        (auto simp: topSchema_def)
  qed (use that assms in \<open>auto simp: nullDefaultIn_def\<close>)
  then show ?thesis
    unfolding parseOneFile_def by (intro calm; simp)
qed

lemma calm_closeScope [simp]: "calmly x (closeScope bp)"
  unfolding closeScope_def by (intro calm; simp)

lemma calm_LoadPath:
  assumes "hclLaws L"
  shows "calmly (\<exists>p. nullDefaultIn L fs p) (LoadPath L fs evaluation path)"
proof -
  have "calmly (\<exists>p. nullDefaultIn L fs p) (parseOneFile L fs evaluation s f)" for s f
    by (rule calmly_mono [OF calm_parseOneFile [OF assms]]) blast
  then show ?thesis
    unfolding LoadPath_def parseDir_def ParseFile_def Let_def by (intro calm; simp)
qed
subsection \<open>A concrete library\<close>

text \<open>Bodies as trees of attributes and blocks, expressions as values or references, files as named bodies.\<close>

datatype treeExpr = TreeValue ctyval | TreeRef "hclStep list"

datatype treeBody = TreeBody "(string \<times> treeExpr) list" "(string \<times> string list \<times> treeBody) list"

fun treeContent :: "hclSchema \<Rightarrow> treeBody \<Rightarrow> string + (treeBody, treeExpr) hclContent" where
  "treeContent sc (TreeBody attrs blocks) =
     (let c = \<lparr>hc_Attributes = attrs, hc_Blocks = map (\<lambda>(t, ls, b). \<lparr>hb_Type = t, hb_Labels = ls, hb_Body = b\<rparr>) blocks\<rparr> in
      if list_all (\<lambda>(a, e). a \<in> fst ` set (sc_Attributes sc)) attrs \<and> fitsSchema sc c then Inr c else Inl ''unsupported'')"

definition treeLib :: "treeBody smap \<Rightarrow> (treeBody, treeExpr, unit) hclLib" where
  "treeLib files =
     \<lparr>hl_ParseHCL = (\<lambda>src. case map_of files src of Some b \<Rightarrow> Inr b | None \<Rightarrow> Inl ''syntax''),
      hl_Content = treeContent,
      hl_PartialContent = (\<lambda>sc b. bindR (treeContent sc b) (\<lambda>c. Inr (c, b))),
      hl_SyntaxBody = (\<lambda>b. case b of TreeBody attrs blocks \<Rightarrow>
        Some (map fst attrs, map (\<lambda>(t, ls, b'). \<lparr>hb_Type = t, hb_Labels = ls, hb_Body = b'\<rparr>) blocks)),
      hl_Value = (\<lambda>_ e. case e of TreeValue v \<Rightarrow> if isWhollyKnown v then Inr v else Inl ''unknown'' | TreeRef _ \<Rightarrow> Inl ''reference''),
      hl_AbsTraversal = (\<lambda>e. case e of TreeRef (s # ss) \<Rightarrow> Some (s # ss) | _ \<Rightarrow> None),
      hl_ExprList = (\<lambda>_. None), hl_ParseExpression = (\<lambda>_. Inl ''syntax''), hl_TypeConstraint = (\<lambda>_. Inl ''type''),
      hl_ConvertString = (\<lambda>v. case v of VString s \<Rightarrow> Inr v | VNull t \<Rightarrow> Inr (VNull CString) | _ \<Rightarrow> Inl ''not a string''),
      hl_JSON = (\<lambda>v. case v of VString s \<Rightarrow> Inr (JStr s) | _ \<Rightarrow> Inl ''unsupported''), hl_Cty = sampleLib,
      hl_FloatScale = (\<lambda>f u s. f * u div s)\<rparr>"

lemma treeContent_fits: "treeContent sc b = Inr c \<Longrightarrow> fitsSchema sc c"
  by (cases b) (auto simp: Let_def split: if_splits)

lemma treeLib_laws: "hclLaws (treeLib files)"
  unfolding hclLaws_def
  by (auto simp: treeLib_def treeContent_fits split: treeExpr.splits list.splits if_splits ctyval.splits)

definition treeFiles :: "string list \<Rightarrow> fileSys" where
  "treeFiles names =
     \<lparr>fs_Stat = (\<lambda>p. if p = ''/bp'' then Inr True else Inl ''missing''),
      fs_ReadDir = (\<lambda>p. if p = ''/bp'' then Inr (map (\<lambda>n. (n, False)) names) else Inl ''missing''),
      fs_ReadFile = (\<lambda>p. Inr p), fs_Getwd = Inr ''/''\<rparr>"

abbreviation (input) treeText :: "string \<Rightarrow> treeExpr" where
  "treeText s \<equiv> TreeValue (VString s)"

text \<open>Two files: the nodes and a runtime in one, the edge that refers to them in the other.\<close>

definition sampleTree :: "treeBody smap" where
  "sampleTree =
     [(''/bp/a.hcl'', TreeBody []
        [(''runtime'', [''tf''], TreeBody [(''binary'', treeText ''terraform''), (''default'', TreeValue (VBool True))] []),
         (''node'', [''vpc''], TreeBody [(''source'', treeText ''./vpc''), (''runtime'', TreeRef [TraverseRoot ''runtime'', TraverseAttr ''tf''])] []),
         (''node'', [''app''], TreeBody [(''source'', treeText ''./app''), (''approve'', treeText ''safe'')] [])]),
      (''/bp/b.hcl'', TreeBody []
        [(''edge'', [], TreeBody
           [(''from'', TreeRef [TraverseRoot ''node'', TraverseAttr ''vpc'', TraverseAttr ''output'', TraverseAttr ''id'']),
            (''to'', TreeRef [TraverseRoot ''node'', TraverseAttr ''app'', TraverseAttr ''input'', TraverseAttr ''vpc''])] [])])]"

definition nullTree :: "treeBody smap" where
  "nullTree =
     [(''/bp/a.hcl'', TreeBody []
        [(''runtime'', [''tf''], TreeBody [(''binary'', treeText ''terraform''), (''default'', TreeValue (VNull CBool))] [])])]"

definition treeWorld :: World where
  "treeWorld = sampleWorld\<lparr>w_Inspect := (\<lambda>d mode.
     if d = ''/bp/app'' then Inr (sampleSchema [''vpc''] []) else if d = ''/bp/vpc'' then Inr (sampleSchema [] [''id'']) else Inl ())\<rparr>"

abbreviation (input) sampleFiles :: fileSys where
  "sampleFiles \<equiv> treeFiles [''a.hcl'', ''b.hcl'', ''.terraform.lock.hcl'']"

text \<open>The blueprint and the graph of the two files.\<close>

lemma sampleLoad:
  obtains bp dir g where "LoadPath (treeLib sampleTree) sampleFiles None ''/bp'' = Inr (bp, dir)"
    "map bn_Name (bp_Nodes bp) = [''vpc'', ''app'']" "map bn_Runtime (bp_Nodes bp) = [''tf'', '''']"
    "Build (readsWith treeWorld (treeLib sampleTree) sampleFiles None) 1 bp dir ''terraform'' = Inr g"
    "map fst (g_Nodes g) = [''vpc'', ''app'']"
proof -
  let ?load = "LoadPath (treeLib sampleTree) sampleFiles None ''/bp''"
  let ?build = "\<lambda>bp dir. Build (readsWith treeWorld (treeLib sampleTree) sampleFiles None) 1 bp dir ''terraform''"
  have ok: "case ?load of
      Inl _ \<Rightarrow> False
    | Inr (bp, dir) \<Rightarrow> map bn_Name (bp_Nodes bp) = [''vpc'', ''app''] \<and> map bn_Runtime (bp_Nodes bp) = [''tf'', ''''] \<and>
        (case ?build bp dir of
           Inl _ \<Rightarrow> False
         | Inr g \<Rightarrow> map fst (g_Nodes g) = [''vpc'', ''app''])"
    by code_simp
  then obtain bp dir where load: "?load = Inr (bp, dir)" by (cases ?load) auto
  moreover from ok load obtain g where "?build bp dir = Inr g" by (cases "?build bp dir") auto
  ultimately show thesis using ok that by auto
qed

lemma nullTree_panics: "LoadPath (treeLib nullTree) (treeFiles [''a.hcl'']) None ''/bp'' = Inl ParsePanic"
  by code_simp
subsection \<open>Properties\<close>

text \<open>
  C7: a blueprint that loads is well typed. Whatever the HCL library decodes, a blueprint \<open>LoadPath\<close> returns has
  distinct, valid names for nodes, uses, groups, runtimes and plugins; edges run from an output to an input port or
  between bare entities, and every reference of an edge or an export names a declared entity of its scope; at most one
  runtime is the default and every runtime reference is declared; approve levels, contract mode and tfvars location come
  from their closed vocabularies; no \<open>env\<close> sets \<open>TF_DATA_DIR\<close>; credential bindings list only permitted environment
  names; retention times are positive 64-bit durations; and S3 execution storage has a lock outside its prefix.
\<close>

theorem loaded_blueprint_typed:
  assumes "LoadPath L fs evaluation path = Inr (bp, dir)"
  shows "wfBlueprint bp"
  using assms by (rule LoadPath_ok)

theorem loaded_blueprint_typed_witness:
  "\<exists>bp dir. LoadPath (treeLib sampleTree) sampleFiles None ''/bp'' = Inr (bp, dir) \<and>
     map bn_Name (bp_Nodes bp) = [''vpc'', ''app''] \<and> wfBlueprint bp"
  using sampleLoad loaded_blueprint_typed by metis

text \<open>
  C8: what is loaded builds well. Take a blueprint that \<open>LoadPath\<close> accepts and a world that reads the directories of
  groups with the same parser. Every graph \<open>Build\<close> returns for it, however deeply groups nest, has adjacency lists that
  agree with its edges, edges whose ends are nodes of the graph, nodes registered under their qualified names, and a
  schema on every node. The parser thus discharges all the builder assumes of its input.
\<close>

theorem loaded_graph_wellformed:
  assumes "LoadPath L fs evaluation path = Inr (bp, dir)"
    and "Build (readsWith w L fs evaluation) fuel bp baseDir cli = Inr g"
  shows "wfGraph g \<and> namesAgree g \<and> schemasKnown g"
  using readsWith_scoped wfBlueprint_scoped(1) [OF LoadPath_ok [OF assms(1)]] assms(2) by (rule Build_wellformed)

theorem loaded_graph_wellformed_witness:
  "\<exists>bp dir g.
     LoadPath (treeLib sampleTree) sampleFiles None ''/bp'' = Inr (bp, dir) \<and>
     Build (readsWith treeWorld (treeLib sampleTree) sampleFiles None) 1 bp dir ''terraform'' = Inr g \<and>
     map fst (g_Nodes g) = [''vpc'', ''app''] \<and> wfGraph g"
  using sampleLoad loaded_graph_wellformed by metis

text \<open>
  C9: the parser has one panic. If the HCL library decodes contents that fit their schemas, evaluates expressions
  without variables to wholly known values and converts known values to strings or null, then \<open>LoadPath\<close> panics only
  when some file holds a runtime block whose \<open>default\<close> evaluates to a null boolean. Every other fault of a blueprint is
  an error value. The witness shows that this panic happens.
\<close>

theorem LoadPath_panics_only_on_null_default:
  assumes "hclLaws L" "LoadPath L fs evaluation path = Inl ParsePanic"
  shows "\<exists>p. nullDefaultIn L fs p"
  using calm_LoadPath [OF assms(1)] assms(2) by (auto simp: calmly_def)

theorem LoadPath_panics_only_on_null_default_witness:
  "hclLaws (treeLib nullTree) \<and> LoadPath (treeLib nullTree) (treeFiles [''a.hcl'']) None ''/bp'' = Inl ParsePanic \<and>
   (\<exists>p. nullDefaultIn (treeLib nullTree) (treeFiles [''a.hcl'']) p)"
  using LoadPath_panics_only_on_null_default [OF treeLib_laws nullTree_panics] treeLib_laws nullTree_panics by blast

end
