(* ===== verification/Globs.thy ===== *)
theory Globs
  imports Paths
begin

text \<open>
  The parts of Go's \<open>path/filepath\<close> and \<open>io/fs\<close> the vendoring code uses: glob patterns (\<open>filepath.Match\<close>), \<open>fs.ValidPath\<close>,
  \<open>filepath.Rel\<close>, \<open>filepath.IsLocal\<close> and \<open>filepath.Base\<close>. A character is a byte, so a class or a question mark
  matches one byte. A malformed pattern matches nothing, which is how the callers read its error.
\<close>

subsection \<open>Patterns\<close>

definition getEsc :: "string \<Rightarrow> (char \<times> string) option" where
  "getEsc chunk =
     (case chunk of
        [] \<Rightarrow> None
      | c # rest \<Rightarrow>
          if c = CHR ''-'' \<or> c = CHR '']'' then None
          else if c = CHR 0x5C then (case rest of d # r # rs \<Rightarrow> Some (d, r # rs) | _ \<Rightarrow> None)
          else (case rest of r # rs \<Rightarrow> Some (c, r # rs) | [] \<Rightarrow> None))"

lemma getEsc_shorter: "getEsc chunk = Some (c, rest) \<Longrightarrow> length rest < length chunk \<and> rest \<noteq> []"
  by (auto simp: getEsc_def split: list.splits if_splits)

function classRanges :: "char \<Rightarrow> bool \<Rightarrow> bool \<Rightarrow> string \<Rightarrow> (bool \<times> string) option" where
  "classRanges x seen matched chunk =
     (if chunk \<noteq> [] \<and> hd chunk = CHR '']'' \<and> seen then Some (matched, tl chunk)
      else (case getEsc chunk of
              None \<Rightarrow> None
            | Some (lo, rest) \<Rightarrow>
                if hd rest = CHR ''-'' then
                  (case getEsc (tl rest) of
                     None \<Rightarrow> None
                   | Some (hi, rest') \<Rightarrow> classRanges x True (matched \<or> lo \<le> x \<and> x \<le> hi) rest')
                else classRanges x True (matched \<or> lo = x) rest))"
  by auto
termination
  by (relation "measure (\<lambda>(x, seen, matched, chunk). length chunk)") (auto dest!: getEsc_shorter)

declare classRanges.simps [simp del]

text \<open>One chunk against the front of a name: the rest of the name.\<close>

function (sequential) matchChunk :: "string \<Rightarrow> string \<Rightarrow> string option" where
  "matchChunk [] s = Some s"
| "matchChunk (c # chunk) [] = None"
| "matchChunk (c # chunk) (x # s) =
     (if c = CHR ''['' then
        (let negated = (chunk \<noteq> [] \<and> hd chunk = CHR 0x5E) in
         case classRanges x False False (if negated then tl chunk else chunk) of
           None \<Rightarrow> None
         | Some (m, rest) \<Rightarrow> if m = negated then None else matchChunk rest s)
      else if c = CHR ''?'' then if x = CHR ''/'' then None else matchChunk chunk s
      else if c = CHR 0x5C then (case chunk of [] \<Rightarrow> None | d # rest \<Rightarrow> if d = x then matchChunk rest s else None)
      else if c = x then matchChunk chunk s else None)"
  by pat_completeness auto
termination by (relation "measure (\<lambda>(chunk, s). length s)") auto

text \<open>A chunk extends to the next star outside brackets.\<close>

fun scanBody :: "bool \<Rightarrow> string \<Rightarrow> string \<times> string" where
  "scanBody inrange [] = ([], [])"
| "scanBody inrange [c] = (if c = CHR ''*'' \<and> \<not> inrange then ([], [c]) else ([c], []))"
| "scanBody inrange (c # d # p) =
     (if c = CHR 0x5C then (case scanBody inrange p of (chunk, rest) \<Rightarrow> (c # d # chunk, rest))
      else if c = CHR ''*'' \<and> \<not> inrange then ([], c # d # p)
      else (case scanBody (if c = CHR ''['' then True else if c = CHR '']'' then False else inrange) (d # p) of
              (chunk, rest) \<Rightarrow> (c # chunk, rest)))"

definition isStar :: "char \<Rightarrow> bool" where
  "isStar c \<longleftrightarrow> c = CHR ''*''"

fun starSearch :: "string \<Rightarrow> bool \<Rightarrow> string \<Rightarrow> string option" where
  "starSearch chunk final [] = None"
| "starSearch chunk final (x # name) =
     (if x = CHR ''/'' then None
      else (case matchChunk chunk name of
              Some t \<Rightarrow> if final \<and> t \<noteq> [] then starSearch chunk final name else Some t
            | None \<Rightarrow> starSearch chunk final name))"

lemma scanBody_append: "scanBody r p = (chunk, rest) \<Longrightarrow> p = chunk @ rest"
  by (induction r p arbitrary: chunk rest rule: scanBody.induct) (auto split: if_splits prod.splits)

lemma scanBody_progress: "scanBody False (c # p) = ([], rest) \<Longrightarrow> isStar c"
  by (cases p) (auto simp: isStar_def split: if_splits prod.splits)

lemma scan_shorter:
  assumes "scanBody False (dropWhile isStar pattern) = (chunk, rest)" "pattern \<noteq> []" "\<not> (isStar (hd pattern) \<and> chunk = [])"
  shows "length rest < length pattern"
proof -
  have body: "dropWhile isStar pattern = chunk @ rest" by (rule scanBody_append [OF assms(1)])
  have le: "length (dropWhile isStar pattern) \<le> length pattern" by (rule length_dropWhile_le)
  show ?thesis
  proof (cases "chunk = []")
    case True
    then have "\<not> isStar (hd pattern)" using assms(3) by simp
    then have "dropWhile isStar pattern = hd pattern # tl pattern" using assms(2) by (cases pattern) auto
    then have "isStar (hd pattern)" using assms(1) True scanBody_progress by metis
    then show ?thesis using \<open>\<not> isStar (hd pattern)\<close> by simp
  next
    case False
    then have "length rest < length (dropWhile isStar pattern)" using body by simp
    then show ?thesis using le by simp
  qed
qed

function Match :: "string \<Rightarrow> string \<Rightarrow> bool" where
  "Match pattern name =
     (if pattern = [] then name = []
      else
        (case scanBody False (dropWhile isStar pattern) of (chunk, rest) \<Rightarrow>
           let star = isStar (hd pattern) in
           if star \<and> chunk = [] then CHR ''/'' \<notin> set name
           else
             (case matchChunk chunk name of
                Some t \<Rightarrow>
                  if t = [] \<or> rest \<noteq> [] then Match rest t
                  else if star then (case starSearch chunk (rest = []) name of Some t' \<Rightarrow> Match rest t' | None \<Rightarrow> False)
                  else False
              | None \<Rightarrow>
                  if star then (case starSearch chunk (rest = []) name of Some t' \<Rightarrow> Match rest t' | None \<Rightarrow> False)
                  else False)))"
  by auto
termination
  by (relation "measure (\<lambda>(pattern, name). length pattern)") (auto intro: scan_shorter [OF sym])

declare Match.simps [simp del]

subsection \<open>Paths inside a tree\<close>

definition BaseName :: "string \<Rightarrow> string" where
  "BaseName p =
     (if p = '''' then ''.''
      else let q = rev (dropWhile ((=) CHR ''/'') (rev p)) in
        if q = '''' then ''/'' else rev (takeWhile (\<lambda>c. c \<noteq> CHR ''/'') (rev q)))"

definition DirName :: "string \<Rightarrow> string" where
  "DirName p = Clean (rev (dropWhile (\<lambda>c. c \<noteq> CHR ''/'') (rev p)))"

definition ValidPath :: "string \<Rightarrow> bool" where
  "ValidPath p \<longleftrightarrow> p = ''.'' \<or> (\<forall>c \<in> set (splitOn CHR ''/'' p). c \<notin> {'''', ''.'', ''..''})"

fun dropCommon :: "string list \<Rightarrow> string list \<Rightarrow> string list \<times> string list" where
  "dropCommon (x # xs) (y # ys) = (if x = y then dropCommon xs ys else (x # xs, y # ys))"
| "dropCommon xs ys = (xs, ys)"

definition components :: "string \<Rightarrow> string list" where
  "components p = filter (\<lambda>c. c \<noteq> '''') (splitOn CHR ''/'' p)"

definition Rel :: "string \<Rightarrow> string \<Rightarrow> string option" where
  "Rel base targ =
     (let b = Clean base; t = Clean targ in
      if b = t then Some ''.''
      else let b' = (if b = ''.'' then '''' else b) in
        if IsAbs b' \<noteq> IsAbs t then None
        else (case dropCommon (components b') (components t) of (rb, rt) \<Rightarrow>
                if rb \<noteq> [] \<and> hd rb = ''..'' then None
                else Some (joinWith ''/'' (replicate (length rb) ''..'' @ rt))))"

definition IsLocal :: "string \<Rightarrow> bool" where
  "IsLocal p \<longleftrightarrow> \<not> IsAbs p \<and> p \<noteq> '''' \<and>
     (let q = (if list_ex (\<lambda>c. c = ''.'' \<or> c = ''..'') (splitOn CHR ''/'' p) then Clean p else p) in
      q \<noteq> ''..'' \<and> \<not> HasPrefix q ''../'')"

subsection \<open>Facts\<close>

text \<open>A pattern without metacharacters matches exactly itself.\<close>

definition plainChar :: "char \<Rightarrow> bool" where
  "plainChar c \<longleftrightarrow> c \<notin> {CHR ''*'', CHR ''?'', CHR ''['', CHR '']'', CHR 0x5C}"

lemma scanBody_plain: "list_all plainChar p \<Longrightarrow> scanBody False p = (p, [])"
proof (induction "False" p rule: scanBody.induct)
  case (3 c d p)
  then show ?case by (auto simp: plainChar_def)
qed (auto simp: plainChar_def)

lemma matchChunk_plain: "list_all plainChar p \<Longrightarrow> matchChunk p s = (if HasPrefix s p then Some (drop (length p) s) else None)"
proof (induction p arbitrary: s)
  case (Cons c p)
  then show ?case by (cases s) (auto simp: plainChar_def HasPrefix_def)
qed (simp add: HasPrefix_def)

lemma Match_plain:
  assumes "list_all plainChar p"
  shows "Match p name \<longleftrightarrow> name = p"
proof (cases p)
  case (Cons c cs)
  then have "\<not> isStar c" using assms by (auto simp: plainChar_def isStar_def)
  then have "dropWhile isStar p = p" "\<not> isStar (hd p)" using Cons by auto
  then show ?thesis
    using scanBody_plain [OF assms] matchChunk_plain [OF assms, of name] Cons
    by (subst Match.simps) (auto simp: Match.simps [of "[]"] HasPrefix_iff)
qed (simp add: Match.simps)

end
