(* ===== verification/Vendor.thy ===== *)
theory Vendor
  imports Globs Effects Graph_Core
begin

text \<open>
  Vendoring of remote sources (\<open>internal/vendor\<close>: \<open>vendor.go\<close>, \<open>git.go\<close>, \<open>exclude.go\<close>, \<open>relocation.go\<close>, \<open>manifest.go\<close>)
  and the metadata of a vendored package (\<open>internal/blueprint/vendor_source.go\<close>).

  The state is the directory trees by path and the manifest file. What the operating system answers about files is a
  function of that state (\<open>vn_Sys\<close>), and every call that changes it may fail. The getter library, the YAML and JSON
  codecs and module inspection are parameters.
\<close>

subsection \<open>Files\<close>

datatype fsTree = FileT string | LinkT string | DirT "(string \<times> fsTree) list"

datatype 'a fileAnswer = FileOk 'a | FileMissing | FileFailed

record vendorSys =
  vq_Stat :: "string \<Rightarrow> statResult"
  vq_Lstat :: "string \<Rightarrow> statResult"
  vq_ReadFile :: "string \<Rightarrow> string fileAnswer"
  vq_ReadDir :: "string \<Rightarrow> string list fileAnswer"
  vq_EvalSymlinks :: "string \<Rightarrow> string option"
  vq_Inspect :: "string \<Rightarrow> goErr + Schema"
  vq_Locate :: "string \<Rightarrow> string list"

record vendorFS =
  vf_Dirs :: "fsTree smap"
  vf_Manifest :: "string option"

record ManifestEntry =
  me_Source :: string
  me_Exclude :: "string list"

type_synonym Manifest = "ManifestEntry smap"

text \<open>
  \<open>vq_Locate\<close> gives the components at which the system finds a path inside the tree it belongs to. The \<open>vn_\<close>
  fields that return booleans say whether a call succeeds.
\<close>

record vendorEnv =
  vn_Sys :: "vendorFS \<Rightarrow> vendorSys"
  vn_SourceDirSubdir :: "string \<Rightarrow> string \<times> string"
  vn_Get :: "string \<Rightarrow> goErr + fsTree"
  vn_SubdirGlob :: "vendorFS \<Rightarrow> string \<Rightarrow> string \<Rightarrow> goErr + string"
  vn_DecodeSource :: "string \<Rightarrow> goErr + VendoredSource"
  vn_EncodeSource :: "VendoredSource \<Rightarrow> goErr + string"
  vn_Unmarshal :: "string \<Rightarrow> goErr + (string \<times> ManifestEntry) list"
  vn_Marshal :: "(string \<times> ManifestEntry) list \<Rightarrow> goErr + string"
  vn_MkdirAll :: "string \<Rightarrow> bool"
  vn_MkdirTemp :: "vendorFS \<Rightarrow> string \<Rightarrow> string option"
  vn_Rename :: "string \<Rightarrow> string \<Rightarrow> bool"
  vn_Walk :: "string \<Rightarrow> bool"
  vn_RemoveAll :: "string \<Rightarrow> bool"
  vn_WriteFile :: "string \<Rightarrow> bool"

subsection \<open>Package metadata\<close>

definition VendoredSourceFilename :: string where
  "VendoredSourceFilename = ''.terragraph-source.json''"

definition sourceDirectory :: "vendorSys \<Rightarrow> VendoredSource \<Rightarrow> string \<Rightarrow> goErr + string" where
  "sourceDirectory q s root =
     (if vs_Subdir s = '''' \<or> \<not> ValidPath (vs_Subdir s) \<or> CHR 0x5C \<in> set (vs_Subdir s) \<or>
         isAbsoluteAnywhere (vs_Subdir s)
      then Inl (ErrText ''subdir must be a normalized relative path within the source package'')
      else let dir = Join [root, vs_Subdir s] in
        (case vq_EvalSymlinks q root of
           None \<Rightarrow> Inl (ErrText ''resolving source package'')
         | Some resolvedRoot \<Rightarrow>
             (case vq_EvalSymlinks q dir of
                None \<Rightarrow> Inl (ErrText ''resolving source subdir'')
              | Some resolvedDir \<Rightarrow>
                  (case Rel resolvedRoot resolvedDir of
                     None \<Rightarrow> Inl (ErrText ''subdir resolves outside the source package'')
                   | Some rel \<Rightarrow>
                       if \<not> IsLocal rel then Inl (ErrText ''subdir resolves outside the source package'')
                       else (case vq_Stat q dir of
                               StatOk info \<Rightarrow> if fi_IsDir info then Inr dir else Inl (ErrText ''source subdir is not a directory'')
                             | _ \<Rightarrow> Inl (ErrText ''inspecting source subdir''))))))"

definition ReadVendoredSource :: "vendorEnv \<Rightarrow> vendorSys \<Rightarrow> string \<Rightarrow> goErr + VendoredSource option" where
  "ReadVendoredSource env q root =
     (let marker = Join [root, VendoredSourceFilename] in
      case vq_ReadFile q marker of
        FileOk data \<Rightarrow> bindR (vn_DecodeSource env data) (\<lambda>s. Inr (Some s))
      | FileMissing \<Rightarrow>
          (case vq_Lstat q marker of StatNotExist \<Rightarrow> Inr None | _ \<Rightarrow> Inl (ErrText ''reading vendored source metadata''))
      | FileFailed \<Rightarrow> Inl (ErrText ''reading vendored source metadata''))"

subsection \<open>Exclusion\<close>

definition matchExclude :: "string list \<Rightarrow> string \<Rightarrow> bool" where
  "matchExclude patterns rel =
     list_ex (\<lambda>p. if CHR ''/'' \<in> set p then Match p rel else Match p (BaseName rel)) patterns"

definition entryPath :: "string \<Rightarrow> string \<Rightarrow> string" where
  "entryPath prefix name = (if prefix = '''' then name else prefix @ ''/'' @ name)"

text \<open>The walk of \<open>prune\<close> below a directory: matching entries are removed and not entered; the marker is kept.\<close>

fun pruneTree :: "vendorEnv \<Rightarrow> string list \<Rightarrow> string \<Rightarrow> fsTree \<Rightarrow> fsTree option"
  and pruneList :: "vendorEnv \<Rightarrow> string list \<Rightarrow> string \<Rightarrow> (string \<times> fsTree) list \<Rightarrow> (string \<times> fsTree) list option" where
  "pruneTree env pats prefix (DirT es) = (if vn_Walk env prefix then map_option DirT (pruneList env pats prefix es) else None)"
| "pruneTree env pats prefix t = Some t"
| "pruneList env pats prefix [] = Some []"
| "pruneList env pats prefix ((name, t) # es) =
     (let rel = entryPath prefix name in
      if rel \<noteq> VendoredSourceFilename \<and> matchExclude pats rel
      then if vn_RemoveAll env rel then pruneList env pats prefix es else None
      else (case pruneTree env pats rel t of
              None \<Rightarrow> None
            | Some t' \<Rightarrow> map_option ((#) (name, t')) (pruneList env pats prefix es)))"

definition alwaysExcluded :: "string list" where
  "alwaysExcluded = [''.git'']"

text \<open>\<open>prune(dir, patterns)\<close> at a place inside a tree; a place that is a link or a file has nothing below it.\<close>

fun pruneAt :: "vendorEnv \<Rightarrow> string list \<Rightarrow> string list \<Rightarrow> fsTree \<Rightarrow> fsTree option" where
  "pruneAt env pats [] t = pruneTree env (alwaysExcluded @ pats) '''' t"
| "pruneAt env pats (c # cs) (DirT es) =
     (case map_of es c of
        None \<Rightarrow> None
      | Some t \<Rightarrow> (case pruneAt env pats cs t of None \<Rightarrow> None | Some t' \<Rightarrow> Some (DirT (AList.update c t' es))))"
| "pruneAt env pats (c # cs) t = None"

definition pruneErr :: "fsTree option \<Rightarrow> goErr + fsTree" where
  "pruneErr r = (case r of None \<Rightarrow> Inl (ErrText ''pruning'') | Some t \<Rightarrow> Inr t)"

definition pruneStep :: "vendorEnv \<Rightarrow> string \<Rightarrow> string list \<Rightarrow> string list \<Rightarrow> (vendorFS, unit) eff" where
  "pruneStep env dir at pats =
     bindE (getE (\<lambda>st. map_of (vf_Dirs st) dir)) (\<lambda>t.
       case t of
         None \<Rightarrow> throwE (ErrText ''pruning'')
       | Some t \<Rightarrow> bindE (liftR (pruneErr (pruneAt env pats at t))) (\<lambda>t'.
           modifyE (\<lambda>st. st\<lparr>vf_Dirs := AList.update dir t' (vf_Dirs st)\<rparr>)))"

definition pruneSource :: "vendorEnv \<Rightarrow> string \<Rightarrow> string list \<Rightarrow> (vendorFS, unit) eff" where
  "pruneSource env dir patterns =
     bindE (getE (vn_Sys env)) (\<lambda>q.
     bindE (liftR (ReadVendoredSource env q dir)) (\<lambda>source.
       case source of
         None \<Rightarrow> pruneStep env dir [] patterns
       | Some s \<Rightarrow>
           bindE (liftR (sourceDirectory q s dir)) (\<lambda>moduleDir.
           thenE (pruneStep env dir [] [])
          (thenE (bindE (getE (vn_Sys env)) (\<lambda>q. pruneStep env dir (vq_Locate q moduleDir) patterns))
          (bindE (getE (vn_Sys env)) (\<lambda>q. bindE (liftR (sourceDirectory q s dir)) (\<lambda>_. retE ())))))))"

subsection \<open>Fetching\<close>

definition gitAddressHints :: "string list" where
  "gitAddressHints = [''git::'', ''git@'', ''github.com/'', ''gitlab.com/'', ''bitbucket.org/'']"

definition gitMatches :: "string \<Rightarrow> bool" where
  "gitMatches src \<longleftrightarrow> HasSuffix src ''.git'' \<or> list_ex (HasPrefix src) gitAddressHints"

fun addFile :: "string \<Rightarrow> string \<Rightarrow> fsTree \<Rightarrow> fsTree" where
  "addFile name data (DirT es) = DirT (AList.update name (FileT data) es)"
| "addFile name data t = t"

definition gitFetch :: "vendorEnv \<Rightarrow> string \<Rightarrow> string \<Rightarrow> (vendorFS, unit) eff" where
  "gitFetch env src dst =
     (case vn_SourceDirSubdir env src of (packageSource, subdir) \<Rightarrow>
        thenE (guardE (\<not> (subdir \<noteq> '''' \<and> (\<not> ValidPath subdir \<or> CHR 0x5C \<in> set subdir)))
                 (ErrText ''source subdir must stay within its package''))
       (bindE (liftR (vn_Get env packageSource)) (\<lambda>tree.
        thenE (modifyE (\<lambda>st. st\<lparr>vf_Dirs := AList.update dst tree (vf_Dirs st)\<rparr>))
       (bindE (getE (vn_Sys env)) (\<lambda>q.
          let marker = Join [dst, VendoredSourceFilename] in
          case vq_Lstat q marker of
            StatOk _ \<Rightarrow> throwE (ErrText ''source package contains a reserved file'')
          | StatFailed \<Rightarrow> throwE (ErrText ''checking source package metadata'')
          | StatNotExist \<Rightarrow>
              if subdir = '''' then retE ()
              else
                bindE (getE (\<lambda>st. st)) (\<lambda>st.
                bindE (liftR (vn_SubdirGlob env st dst subdir)) (\<lambda>selected.
                  case Rel dst selected of
                    None \<Rightarrow> throwE (ErrText ''resolving source subdir'')
                  | Some rel \<Rightarrow>
                      bindE (liftR (sourceDirectory q \<lparr>vs_Subdir = rel\<rparr> dst)) (\<lambda>_.
                      bindE (liftR (vn_EncodeSource env \<lparr>vs_Subdir = rel\<rparr>)) (\<lambda>data.
                      thenE (guardE (vn_WriteFile env marker) (ErrText ''writing source metadata''))
                        (modifyE (\<lambda>st. st\<lparr>vf_Dirs := AList.update dst (addFile VendoredSourceFilename data tree) (vf_Dirs st)\<rparr>)))))))))))"

definition fetch :: "vendorEnv \<Rightarrow> string \<Rightarrow> string \<Rightarrow> (vendorFS, unit) eff" where
  "fetch env src dst =
     (if gitMatches src then gitFetch env src dst else throwE (ErrText ''no fetcher recognizes the source''))"

definition needsPackageLayout :: "vendorEnv \<Rightarrow> vendorSys \<Rightarrow> string \<Rightarrow> string \<Rightarrow> bool" where
  "needsPackageLayout env q src dir \<longleftrightarrow>
     snd (vn_SourceDirSubdir env src) \<noteq> '''' \<and> vq_Stat q (Join [dir, VendoredSourceFilename]) = StatNotExist"

subsection \<open>Replacing a copy\<close>

definition moveDir :: "string \<Rightarrow> string \<Rightarrow> vendorFS \<Rightarrow> vendorFS" where
  "moveDir a b st =
     (case map_of (vf_Dirs st) a of
        None \<Rightarrow> st
      | Some t \<Rightarrow> st\<lparr>vf_Dirs := AList.update b t (AList.delete a (vf_Dirs st))\<rparr>)"

text \<open>The error and whether the staging directory is removed: it is not when the rollback failed.\<close>

definition publishSource :: "vendorEnv \<Rightarrow> string \<Rightarrow> string \<Rightarrow> string \<Rightarrow> vendorFS \<Rightarrow> vendorFS \<times> goErr option \<times> bool" where
  "publishSource env fetched previous dst st =
     (case vq_Lstat (vn_Sys env st) dst of
        StatOk _ \<Rightarrow>
          if \<not> vn_Rename env dst previous then (st, Some (ErrText ''preserving previous source''), True)
          else let st1 = moveDir dst previous st in
            if vn_Rename env fetched dst then (moveDir fetched dst st1, None, True)
            else if vn_Rename env previous dst then (moveDir previous dst st1, Some (ErrText ''publishing source''), True)
            else (st1, Some (ErrText ''rollback failed''), False)
      | StatNotExist \<Rightarrow>
          if vn_Rename env fetched dst then (moveDir fetched dst st, None, True)
          else (st, Some (ErrText ''publishing source''), True)
      | StatFailed \<Rightarrow> (st, Some (ErrText ''inspecting previous source''), True))"

definition dropStage :: "vendorEnv \<Rightarrow> string \<Rightarrow> vendorFS \<Rightarrow> vendorFS" where
  "dropStage env stage st =
     (if vn_RemoveAll env stage then st\<lparr>vf_Dirs := filter (\<lambda>(k, t). \<not> HasPrefix k (stage @ ''/'')) (vf_Dirs st)\<rparr> else st)"

definition vendorOne ::
    "vendorEnv \<Rightarrow> string \<Rightarrow> string \<Rightarrow> ManifestEntry option \<Rightarrow> (vendorFS, ManifestEntry) eff" where
  "vendorOne env src dst existing st =
     (let exclude = (case existing of Some e \<Rightarrow> me_Exclude e | None \<Rightarrow> []) in
      if \<not> vn_MkdirAll env (DirName dst) then (st, Inl (ErrText ''creating vendor directory''))
      else (case vn_MkdirTemp env st (DirName dst) of
              None \<Rightarrow> (st, Inl (ErrText ''staging vendor source''))
            | Some stage \<Rightarrow>
                let fetched = stage @ ''/source''; previous = stage @ ''/previous'' in
                (case thenE (fetch env src fetched) (pruneSource env fetched exclude) st of
                   (st1, Inl e) \<Rightarrow> (dropStage env stage st1, Inl e)
                 | (st1, Inr _) \<Rightarrow>
                     (case publishSource env fetched previous dst st1 of
                        (st2, err, cleanup) \<Rightarrow>
                          (if cleanup then dropStage env stage st2 else st2,
                           case err of Some e \<Rightarrow> Inl e | None \<Rightarrow> Inr \<lparr>me_Source = src, me_Exclude = exclude\<rparr>)))))"
subsection \<open>State inside a copy\<close>

text \<open>The parents of an absolute path up to the root; each is shorter than the one before.\<close>

function ancestors :: "string \<Rightarrow> string list" where
  "ancestors p = p # (if length (DirName p) < length p then ancestors (DirName p) else [])"
  by auto
termination by (relation "measure length") auto

declare ancestors.simps [simp del]

fun anySame :: "vendorSys \<Rightarrow> FileInfo \<Rightarrow> string list \<Rightarrow> goErr + bool" where
  "anySame q root [] = Inr False"
| "anySame q root (p # ps) =
     (case vq_Stat q p of
        StatOk info \<Rightarrow> if SameFile root info then Inr True else anySame q root ps
      | _ \<Rightarrow> Inl (ErrText ''stat''))"

definition pathWithin :: "vendorSys \<Rightarrow> string \<Rightarrow> string \<Rightarrow> goErr + bool" where
  "pathWithin q dir path =
     (case vq_Stat q dir of
        StatOk root \<Rightarrow>
          (case vq_EvalSymlinks q path of
             None \<Rightarrow> Inl (ErrText ''resolving path'')
           | Some resolved \<Rightarrow>
               bindR (anySame q root (ancestors (DirName path))) (\<lambda>b.
                 if b then Inr True else anySame q root (ancestors (DirName resolved))))
      | _ \<Rightarrow> Inl (ErrText ''stat''))"

definition checkStateFile :: "vendorSys \<Rightarrow> string \<Rightarrow> bool \<Rightarrow> string \<Rightarrow> goErr + unit" where
  "checkStateFile q treeDir relative candidate =
     (case vq_Stat q candidate of
        StatNotExist \<Rightarrow> Inr ()
      | StatFailed \<Rightarrow> Inl (ErrText ''checking local state before replacing source directory'')
      | StatOk _ \<Rightarrow>
          if relative then Inl (ErrText ''replacing the source directory would remove the local state'')
          else bindR (pathWithin q treeDir candidate) (\<lambda>inside.
            if inside then Inl (ErrText ''replacing the source directory would remove the local state'') else Inr ()))"

definition checkLocalStatePath :: "vendorSys \<Rightarrow> string \<Rightarrow> string \<Rightarrow> string \<Rightarrow> goErr + unit" where
  "checkLocalStatePath q dir treeDir path =
     (let relative = \<not> IsAbs path; path' = (if relative then Join [dir, path] else path) in
      bindR (checkStateFile q treeDir relative path') (\<lambda>_. checkStateFile q treeDir relative (path' @ ''.backup'')))"

definition orDefault :: "string \<Rightarrow> string \<Rightarrow> string" where
  "orDefault v d = (if v \<noteq> '''' then v else d)"

definition stateLocation :: "Schema \<Rightarrow> bpNode \<Rightarrow> string \<Rightarrow> string \<Rightarrow> string" where
  "stateLocation schema n key unset =
     (if sc_Backend schema = ''local''
      then orDefault (sget (bn_BackendConfig n) key) (orDefault (sget (sc_BackendConfig schema) key) unset)
      else unset)"

definition checkSourceRelocation :: "vendorEnv \<Rightarrow> vendorSys \<Rightarrow> bpNode \<Rightarrow> string \<Rightarrow> goErr + unit" where
  "checkSourceRelocation env q n treeDir =
     bindR (ReadVendoredSource env q treeDir) (\<lambda>source.
     bindR (case source of None \<Rightarrow> Inr treeDir | Some s \<Rightarrow> sourceDirectory q s treeDir) (\<lambda>dir.
     bindR (vq_Inspect q dir) (\<lambda>schema.
       if sc_Backend schema \<noteq> '''' \<and> sc_Backend schema \<noteq> ''local'' then Inr ()
       else if sc_Backend schema = ''local'' \<and> \<not> sc_BackendConfigKnown schema
       then Inl (ErrText ''local backend path cannot be determined before replacing the source directory'')
       else
         let path = stateLocation schema n ''path'' ''terraform.tfstate'';
             workspaceDir = stateLocation schema n ''workspace_dir'' ''terraform.tfstate.d'' in
         bindR (checkLocalStatePath q dir treeDir path) (\<lambda>_.
           (case vq_ReadDir q (if IsAbs workspaceDir then workspaceDir else Join [dir, workspaceDir]) of
              FileMissing \<Rightarrow> Inr ()
            | FileFailed \<Rightarrow> Inl (ErrText ''checking local workspaces before replacing source directory'')
            | FileOk names \<Rightarrow>
                foldR (\<lambda>_ name. checkLocalStatePath q dir treeDir (Join [workspaceDir, name, ''terraform.tfstate''])) () names)))))"

subsection \<open>Manifest\<close>

definition LoadManifest :: "vendorEnv \<Rightarrow> vendorFS \<Rightarrow> string \<Rightarrow> goErr + Manifest" where
  "LoadManifest env st path =
     (case vq_ReadFile (vn_Sys env st) path of
        FileMissing \<Rightarrow> Inr []
      | FileFailed \<Rightarrow> Inl (ErrText ''reading vendor manifest'')
      | FileOk data \<Rightarrow>
          bindR (vn_Unmarshal env data) (\<lambda>es. Inr (foldl (\<lambda>m (name, e). AList.update name e m) [] es)))"

definition manifestEntries :: "Manifest \<Rightarrow> (string \<times> ManifestEntry) list" where
  "manifestEntries m = map (\<lambda>name. (name, the (map_of m name))) (sortedKeys m)"

text \<open>The steps that write the temporary file and rename it over the manifest.\<close>

definition saveSteps :: "string list" where
  "saveSteps = [''staging'', ''writing'', ''setting permissions'', ''closing'', ''publishing'']"

definition saveManifest :: "vendorEnv \<Rightarrow> string \<Rightarrow> Manifest \<Rightarrow> (vendorFS, unit) eff" where
  "saveManifest env path m =
     bindE (liftR (vn_Marshal env (manifestEntries m))) (\<lambda>data.
     thenE (guardE (vn_MkdirAll env (DirName path)) (ErrText ''creating vendor manifest directory''))
    (thenE (forE saveSteps (\<lambda>step. guardE (vn_WriteFile env step) (ErrText step)))
       (modifyE (\<lambda>st. st\<lparr>vf_Manifest := Some data\<rparr>))))"

subsection \<open>A vendoring run\<close>

record vendorOptions =
  vo_Force :: bool
  vo_LegacyDirectories :: "string smap"

record vendorResult =
  vr_Node :: string
  vr_Skipped :: bool
  vr_Err :: "goErr option"

definition vendorTarget :: "string \<Rightarrow> string \<Rightarrow> string \<Rightarrow> string" where
  "vendorTarget baseDir vendorDir name = Join [baseDir, vendorDir, name]"

definition existingCopy :: "vendorSys \<Rightarrow> vendorOptions \<Rightarrow> string \<Rightarrow> string \<Rightarrow> string" where
  "existingCopy q opts name dst =
     (if vq_Lstat q dst = StatNotExist \<and> sget (vo_LegacyDirectories opts) name \<noteq> '''' then sget (vo_LegacyDirectories opts) name
      else dst)"

text \<open>The outcome of one remote node: \<^const>\<open>None\<close> when it is left alone.\<close>

definition vendorNode ::
    "vendorEnv \<Rightarrow> vendorOptions \<Rightarrow> string \<Rightarrow> bpNode \<Rightarrow> ManifestEntry option \<Rightarrow> (vendorFS, ManifestEntry option) eff" where
  "vendorNode env opts dst n existing =
     bindE (getE (vn_Sys env)) (\<lambda>q.
       let existingDir = existingCopy q opts (bn_Name n) dst;
           sourceChanged = (case existing of Some e \<Rightarrow> me_Source e \<noteq> bn_Source n | None \<Rightarrow> False);
           replace = (\<lambda>_ :: unit. bindE (vendorOne env (bn_Source n) dst existing) (\<lambda>e. retE (Some e))) in
       case vq_Stat q existingDir of
         StatFailed \<Rightarrow> throwE (ErrText ''reading existing source'')
       | StatNotExist \<Rightarrow> replace ()
       | StatOk info \<Rightarrow>
           if \<not> fi_IsDir info then throwE (ErrText ''existing source is not a directory'')
           else if \<not> sourceChanged \<and> \<not> vo_Force opts \<and> \<not> needsPackageLayout env q (bn_Source n) existingDir then retE None
           else bindE (liftR (checkSourceRelocation env q n existingDir)) replace)"

definition resultOf :: "string \<Rightarrow> goErr + ManifestEntry option \<Rightarrow> vendorResult" where
  "resultOf name r = \<lparr>vr_Node = name, vr_Skipped = (r = Inr None), vr_Err = errOf r\<rparr>"

definition recordResult :: "string \<Rightarrow> goErr + ManifestEntry option \<Rightarrow> Manifest \<Rightarrow> Manifest" where
  "recordResult name r m = (case r of Inr (Some e) \<Rightarrow> AList.update name e m | _ \<Rightarrow> m)"

definition vendoredAnew :: "goErr + ManifestEntry option \<Rightarrow> bool" where
  "vendoredAnew r = (case r of Inr (Some _) \<Rightarrow> True | _ \<Rightarrow> False)"

fun vendorLoop ::
    "vendorEnv \<Rightarrow> vendorOptions \<Rightarrow> string \<Rightarrow> string \<Rightarrow> bpNode list \<Rightarrow> Manifest \<Rightarrow> vendorFS \<Rightarrow>
     vendorFS \<times> Manifest \<times> bool \<times> vendorResult list" where
  "vendorLoop env opts base dir [] m st = (st, m, False, [])"
| "vendorLoop env opts base dir (n # ns) m st =
     (if \<not> IsRemote (bn_Source n) then vendorLoop env opts base dir ns m st
      else case vendorNode env opts (vendorTarget base dir (bn_Name n)) n (map_of m (bn_Name n)) st of
        (st1, r) \<Rightarrow>
          (case vendorLoop env opts base dir ns (recordResult (bn_Name n) r m) st1 of
             (st2, m2, changed, results) \<Rightarrow>
               (st2, m2, changed \<or> vendoredAnew r, resultOf (bn_Name n) r # results)))"

definition vendorAll ::
    "vendorEnv \<Rightarrow> vendorOptions \<Rightarrow> bpNode list \<Rightarrow> string \<Rightarrow> string \<Rightarrow> string \<Rightarrow> vendorFS \<Rightarrow> vendorFS \<times> goErr option \<times> vendorResult list" where
  "vendorAll env opts nodes base dir manifestPath st =
     (case LoadManifest env st manifestPath of
        Inl e \<Rightarrow> (st, Some e, [])
      | Inr m \<Rightarrow>
          (case vendorLoop env opts base dir nodes m st of
             (st1, m1, changed, results) \<Rightarrow>
               if changed then (case saveManifest env manifestPath m1 st1 of (st2, r) \<Rightarrow> (st2, errOf r, results))
               else (st1, None, results)))"
subsection \<open>What a run keeps\<close>

text \<open>Fetching and pruning write only the staged copy.\<close>

definition onlyAt :: "string \<Rightarrow> vendorFS \<Rightarrow> vendorFS \<Rightarrow> bool" where
  "onlyAt k st st' \<longleftrightarrow> vf_Manifest st' = vf_Manifest st \<and> (\<forall>p. p \<noteq> k \<longrightarrow> map_of (vf_Dirs st') p = map_of (vf_Dirs st) p)"

interpretation staged: effect_order "onlyAt k" for k
  by unfold_locales (auto simp: onlyAt_def)

lemma staged_write [relatesI]: "relates (onlyAt k) (modifyE (\<lambda>st. st\<lparr>vf_Dirs := AList.update k (t st) (vf_Dirs st)\<rparr>))"
  by (auto simp: relates_def onlyAt_def update_conv')

lemma staged_pruneStep [relatesI]: "relates (onlyAt dir) (pruneStep env dir at pats)"
  unfolding pruneStep_def by (intro relatesI)

lemma staged_pruneSource: "relates (onlyAt dir) (pruneSource env dir patterns)"
  unfolding pruneSource_def by (intro relatesI)

lemma staged_fetch: "relates (onlyAt dst) (fetch env src dst)"
  unfolding fetch_def gitFetch_def Let_def by (auto intro!: relatesI split: prod.split statResult.split option.split)

text \<open>
  What the system guarantees: a staging directory is fresh, and \<open>Lstat\<close> of a copy's place tells whether there is one.
\<close>

definition copyLaws :: "vendorEnv \<Rightarrow> string set \<Rightarrow> bool" where
  "copyLaws env places \<longleftrightarrow>
     (\<forall>st d stage. vn_MkdirTemp env st d = Some stage \<longrightarrow>
        (\<forall>k. k \<in> places \<or> map_of (vf_Dirs st) k \<noteq> None \<longrightarrow> \<not> HasPrefix k (stage @ ''/''))) \<and>
     (\<forall>st. \<forall>dst \<in> places. vq_Lstat (vn_Sys env st) dst = StatNotExist \<longrightarrow> map_of (vf_Dirs st) dst = None)"

text \<open>A tree at its place, or outside every place of a copy, where a failed rollback leaves it.\<close>

definition keptAt :: "string set \<Rightarrow> string \<Rightarrow> fsTree \<Rightarrow> vendorFS \<Rightarrow> bool" where
  "keptAt places k t st \<longleftrightarrow> map_of (vf_Dirs st) k = Some t \<or> (\<exists>k'. k' \<notin> places \<and> map_of (vf_Dirs st) k' = Some t)"

lemma map_of_filter_keys: "P k \<Longrightarrow> map_of (filter (\<lambda>(k, v). P k) m) k = map_of m k"
  by (induction m) auto

lemma dropStage_other: "\<not> HasPrefix k (stage @ ''/'') \<Longrightarrow> map_of (vf_Dirs (dropStage env stage st)) k = map_of (vf_Dirs st) k"
  by (simp add: dropStage_def map_of_filter_keys)

lemma moveDir_other: "k \<noteq> a \<Longrightarrow> k \<noteq> b \<Longrightarrow> map_of (vf_Dirs (moveDir a b st)) k = map_of (vf_Dirs st) k"
  by (simp add: moveDir_def update_conv' delete_conv' split: option.split)

lemma moveDir_to: "map_of (vf_Dirs st) a = Some t \<Longrightarrow> map_of (vf_Dirs (moveDir a b st)) b = Some t"
  by (simp add: moveDir_def update_conv')

text \<open>Publishing either succeeds, or leaves the previous copy in its place or in the kept staging directory.\<close>

lemma publishSource_keeps:
  assumes "publishSource env fetched previous dst st = (st', err, cleanup)" and "copyLaws env places" "dst \<in> places"
    and "fetched \<noteq> dst" "previous \<noteq> dst" "previous \<noteq> fetched"
  shows "k \<noteq> dst \<Longrightarrow> k \<noteq> fetched \<Longrightarrow> k \<noteq> previous \<Longrightarrow> map_of (vf_Dirs st') k = map_of (vf_Dirs st) k"
    and "err \<noteq> None \<Longrightarrow> map_of (vf_Dirs st) dst = Some t \<Longrightarrow>
      map_of (vf_Dirs st') dst = Some t \<or> \<not> cleanup \<and> map_of (vf_Dirs st') previous = Some t"
    and "err = None \<Longrightarrow> map_of (vf_Dirs st) fetched = Some t \<Longrightarrow> map_of (vf_Dirs st') dst = Some t"
  using assms unfolding copyLaws_def
  by (auto simp: publishSource_def Let_def moveDir_other moveDir_to split: statResult.splits if_splits)
lemma staged_copy: "relates (onlyAt dst) (thenE (fetch env src dst) (pruneSource env dst pats))"
  by (intro relatesI staged_fetch staged_pruneSource)

lemma stage_names: "HasPrefix (stage @ ''/source'') (stage @ ''/'')" "HasPrefix (stage @ ''/previous'') (stage @ ''/'')"
  by (simp_all add: HasPrefix_def)

text \<open>Replacing one copy touches no other, and a failure does not lose the copy that was there.\<close>

lemma vendorOne_keeps:
  assumes run: "vendorOne env src dst existing st = (st', r)" and laws: "copyLaws env places" "dst \<in> places"
    and k: "map_of (vf_Dirs st) k = Some t"
  shows "if k = dst \<and> (\<exists>e. r = Inr e) then True else if k = dst then keptAt places k t st' else map_of (vf_Dirs st') k = Some t"
proof -
  let ?excl = "case existing of Some e \<Rightarrow> me_Exclude e | None \<Rightarrow> []"
  have same: ?thesis if "st' = st" "\<forall>e. r \<noteq> Inr e"
    using that k by (auto simp: keptAt_def)
  show ?thesis
  proof (cases "vn_MkdirAll env (DirName dst) \<and> vn_MkdirTemp env st (DirName dst) \<noteq> None")
    case False
    then show ?thesis using run same by (auto simp: vendorOne_def Let_def split: if_splits)
  next
    case True
    then obtain stage where stage: "vn_MkdirTemp env st (DirName dst) = Some stage" and mk: "vn_MkdirAll env (DirName dst)" by auto
    let ?fetched = "stage @ ''/source''" and ?previous = "stage @ ''/previous''"
    have fresh: "\<not> HasPrefix dst (stage @ ''/'')" "\<not> HasPrefix k (stage @ ''/'')"
      using laws stage k by (auto simp: copyLaws_def)
    then have names: "?fetched \<noteq> dst" "?previous \<noteq> dst" "?previous \<noteq> ?fetched" "k \<noteq> ?fetched" "k \<noteq> ?previous"
      using stage_names by auto
    obtain st1 s where c: "thenE (fetch env src ?fetched) (pruneSource env ?fetched ?excl) st = (st1, s)" by (meson surj_pair)
    have k1: "map_of (vf_Dirs st1) k = Some t"
      using relatesD [OF staged_copy c] names(4) k by (simp add: onlyAt_def)
    show ?thesis
    proof (cases s)
      case (Inl e)
      then have "st' = dropStage env stage st1" "\<forall>e. r \<noteq> Inr e"
        using run c by (auto simp: vendorOne_def Let_def mk stage)
      then show ?thesis using k1 dropStage_other [OF fresh(2)] by (auto simp: keptAt_def)
    next
      case (Inr u)
      obtain st2 err cleanup where p: "publishSource env ?fetched ?previous dst st1 = (st2, err, cleanup)" by (metis prod_cases3)
      have st': "st' = (if cleanup then dropStage env stage st2 else st2)" and r: "(\<exists>e. r = Inr e) \<longleftrightarrow> err = None"
        using run c p Inr by (auto simp: vendorOne_def Let_def mk stage split: option.splits)
      note keep = publishSource_keeps [OF p laws names(1,2,3)]
      have outside: "?previous \<notin> places" using laws(1) stage stage_names(2) unfolding copyLaws_def by blast
      show ?thesis
      proof (cases "k = dst")
        case True
        have "keptAt places k t st'" if "err \<noteq> None"
          using keep(2) [OF that k1 [unfolded True]] dropStage_other [OF fresh(1)] outside True
          by (cases cleanup) (auto simp: keptAt_def st')
        then show ?thesis using True r by auto
      next
        case False
        then show ?thesis using keep(1) names(4,5) k1 fresh(2) st' by (simp add: dropStage_other)
      qed
    qed
  qed
qed
text \<open>A refused or skipped node changes nothing at all.\<close>

lemma vendorNode_cases:
  assumes "vendorNode env opts dst n existing st = (st', r)"
  shows "(st' = st \<and> \<not> vendoredAnew r) \<or>
    (\<exists>r'. vendorOne env (bn_Source n) dst existing st = (st', r') \<and> r = map_sum id Some r' \<and>
       (\<forall>info. vq_Stat (vn_Sys env st) (existingCopy (vn_Sys env st) opts (bn_Name n) dst) = StatOk info \<longrightarrow>
          checkSourceRelocation env (vn_Sys env st) n (existingCopy (vn_Sys env st) opts (bn_Name n) dst) = Inr ()))"
  using assms unfolding vendorNode_def Let_def vendoredAnew_def
  by (auto simp: bindE_def getE_def liftR_def retE_def throwE_def
      split: statResult.splits if_splits sum.splits prod.splits)

lemma vendorNode_keeps:
  assumes "vendorNode env opts dst n existing st = (st', r)" "copyLaws env places" "dst \<in> places" "map_of (vf_Dirs st) k = Some t"
  shows "if k = dst then vendoredAnew r \<or> keptAt places k t st' else map_of (vf_Dirs st') k = Some t"
  using vendorNode_cases [OF assms(1)]
proof (elim disjE exE conjE)
  assume "st' = st"
  then show ?thesis using assms(4) by (auto simp: keptAt_def)
next
  fix r' assume v: "vendorOne env (bn_Source n) dst existing st = (st', r')" "r = map_sum id Some r'"
  have "vendoredAnew r \<longleftrightarrow> (\<exists>e. r' = Inr e)" using v(2) by (cases r') (auto simp: vendoredAnew_def)
  then show ?thesis using vendorOne_keeps [OF v(1) assms(2,3,4)] by (auto split: if_splits)
qed

text \<open>A node that a result reports as vendored anew.\<close>

definition vendored :: "vendorResult \<Rightarrow> bool" where
  "vendored res \<longleftrightarrow> \<not> vr_Skipped res \<and> vr_Err res = None"

lemma resultOf_vendored: "vendored (resultOf name r) \<longleftrightarrow> vendoredAnew r" "vr_Node (resultOf name r) = name"
  by (auto simp: vendored_def resultOf_def vendoredAnew_def errOf_def split: sum.splits option.splits)

lemma keptAt_step:
  assumes "keptAt places k t st" "vendorNode env opts dst n existing st = (st', r)" "copyLaws env places" "dst \<in> places"
  shows "keptAt places k t st' \<or> k = dst \<and> vendoredAnew r"
proof -
  obtain k' where k': "map_of (vf_Dirs st) k' = Some t" "k' = k \<or> k' \<notin> places" using assms(1) by (auto simp: keptAt_def)
  have "if k' = dst then vendoredAnew r \<or> keptAt places k' t st' else map_of (vf_Dirs st') k' = Some t"
    by (rule vendorNode_keeps [OF assms(2,3,4) k'(1)])
  then show ?thesis using k'(2) assms(4) by (auto simp: keptAt_def split: if_splits)
qed

lemma vendorLoop_keeps:
  assumes "vendorLoop env opts base dir ns m st = (st', m', changed, results)" "copyLaws env places"
    and "\<forall>n \<in> set ns. vendorTarget base dir (bn_Name n) \<in> places" "keptAt places k t st"
  shows "keptAt places k t st' \<or> (\<exists>res \<in> set results. vendored res \<and> vendorTarget base dir (vr_Node res) = k)"
  using assms
proof (induction ns arbitrary: m st changed results)
  case (Cons n ns)
  show ?case
  proof (cases "IsRemote (bn_Source n)")
    case False
    then show ?thesis using Cons by simp
  next
    case True
    let ?dst = "vendorTarget base dir (bn_Name n)"
    obtain st1 r where v: "vendorNode env opts ?dst n (map_of m (bn_Name n)) st = (st1, r)" by (meson surj_pair)
    obtain c rest where l: "vendorLoop env opts base dir ns (recordResult (bn_Name n) r m) st1 = (st', m', c, rest)"
      and res: "results = resultOf (bn_Name n) r # rest"
      using Cons.prems(1) True v by (auto split: prod.splits)
    have "keptAt places k t st1 \<or> k = ?dst \<and> vendoredAnew r"
      using keptAt_step [OF Cons.prems(4) v Cons.prems(2)] Cons.prems(3) by simp
    then show ?thesis
      using Cons.IH [OF l Cons.prems(2)] Cons.prems(3) by (auto simp: res resultOf_vendored)
  qed
qed simp

text \<open>The manifest keeps what it does not vendor anew, and the exclusions of what it does.\<close>

lemma vendorOne_entry:
  "vendorOne env src dst existing st = (st', Inr e) \<Longrightarrow>
   me_Source e = src \<and> me_Exclude e = (case existing of Some x \<Rightarrow> me_Exclude x | None \<Rightarrow> [])"
  by (auto simp: vendorOne_def Let_def split: if_splits option.splits prod.splits sum.splits)

lemma vendorNode_entry:
  assumes "vendorNode env opts dst n existing st = (st', Inr (Some e))"
  shows "me_Exclude e = (case existing of Some x \<Rightarrow> me_Exclude x | None \<Rightarrow> [])"
proof -
  obtain r' where r': "vendorOne env (bn_Source n) dst existing st = (st', r')" "Inr (Some e) = map_sum id Some r'"
    using vendorNode_cases [OF assms] by (auto simp: vendoredAnew_def)
  then have "r' = Inr e" by (cases r') auto
  then show ?thesis using r'(1) vendorOne_entry by blast
qed

definition excludesOf :: "Manifest \<Rightarrow> string \<Rightarrow> string list" where
  "excludesOf m name = (case map_of m name of Some e \<Rightarrow> me_Exclude e | None \<Rightarrow> [])"

lemma vendorLoop_manifest:
  assumes "vendorLoop env opts base dir ns m st = (st', m', changed, results)"
  shows "excludesOf m' name = excludesOf m name \<and>
    ((\<forall>res \<in> set results. vendored res \<longrightarrow> vr_Node res \<noteq> name) \<longrightarrow> map_of m' name = map_of m name)"
  using assms
proof (induction ns arbitrary: m st changed results)
  case (Cons n ns)
  show ?case
  proof (cases "IsRemote (bn_Source n)")
    case False
    then show ?thesis using Cons by simp
  next
    case True
    obtain st1 r where v: "vendorNode env opts (vendorTarget base dir (bn_Name n)) n (map_of m (bn_Name n)) st = (st1, r)"
      by (meson surj_pair)
    obtain c rest where l: "vendorLoop env opts base dir ns (recordResult (bn_Name n) r m) st1 = (st', m', c, rest)"
      and res: "results = resultOf (bn_Name n) r # rest"
      using Cons.prems True v by (auto split: prod.splits)
    have e: "me_Exclude e = excludesOf m (bn_Name n)" if "r = Inr (Some e)" for e
      using vendorNode_entry [OF v [unfolded that]] by (simp add: excludesOf_def)
    have x: "excludesOf (recordResult (bn_Name n) r m) name = excludesOf m name \<and>
        (\<not> (vendoredAnew r \<and> bn_Name n = name) \<longrightarrow> map_of (recordResult (bn_Name n) r m) name = map_of m name)"
    proof (cases "vendoredAnew r")
      case True
      then obtain e where "r = Inr (Some e)" by (auto simp: vendoredAnew_def split: sum.splits option.splits)
      then show ?thesis using e by (simp add: recordResult_def excludesOf_def update_conv' vendoredAnew_def)
    qed (auto simp: recordResult_def vendoredAnew_def split: sum.splits option.splits)
    show ?thesis using x Cons.IH [OF l] by (auto simp: res resultOf_vendored)
  qed
qed simp

text \<open>The manifest file changes only when it is saved.\<close>

lemma vendorOne_manifest:
  assumes "vendorOne env src dst existing st = (st', r)"
  shows "vf_Manifest st' = vf_Manifest st"
proof -
  have move: "vf_Manifest (moveDir a b s) = vf_Manifest s" for a b s by (simp add: moveDir_def split: option.split)
  have drop: "vf_Manifest (dropStage env stage s) = vf_Manifest s" for stage s by (simp add: dropStage_def)
  have publish: "vf_Manifest s' = vf_Manifest s" if "publishSource env a b c s = (s', x)" for a b c s s' x
    using that by (auto simp: publishSource_def Let_def move split: statResult.splits if_splits)
  have copy: "vf_Manifest s' = vf_Manifest s" if "thenE (fetch env src d) (pruneSource env d pats) s = (s', x)" for d pats s s' x
    using relatesD [OF staged_copy that] by (simp add: onlyAt_def)
  show ?thesis
    using assms by (auto simp: vendorOne_def Let_def drop dest!: copy publish split: if_splits option.splits prod.splits sum.splits)
qed

lemma vendorLoop_file:
  "vendorLoop env opts base dir ns m st = (st', m', changed, results) \<Longrightarrow>
   vf_Manifest st' = vf_Manifest st \<and> (changed \<longleftrightarrow> (\<exists>res \<in> set results. vendored res))"
proof (induction ns arbitrary: m st changed results)
  case (Cons n ns)
  show ?case
  proof (cases "IsRemote (bn_Source n)")
    case False
    then show ?thesis using Cons by simp
  next
    case True
    obtain st1 r where v: "vendorNode env opts (vendorTarget base dir (bn_Name n)) n (map_of m (bn_Name n)) st = (st1, r)"
      by (meson surj_pair)
    obtain c rest where l: "vendorLoop env opts base dir ns (recordResult (bn_Name n) r m) st1 = (st', m', c, rest)"
      and res: "results = resultOf (bn_Name n) r # rest" "changed = (c \<or> vendoredAnew r)"
      using Cons.prems True v by (auto split: prod.splits)
    have "vf_Manifest st1 = vf_Manifest st"
      using vendorNode_cases [OF v] vendorOne_manifest by auto
    then show ?thesis using Cons.IH [OF l] by (auto simp: res resultOf_vendored)
  qed
qed simp

lemma guards_same: "forE xs (\<lambda>x. guardE (P x) (e x)) st = (st', r) \<Longrightarrow> st' = st"
  by (induction xs) (auto simp: bindE_def thenE_def guardE_def retE_def throwE_def split: if_splits sum.splits prod.splits)

lemma saveManifest_cases:
  assumes "saveManifest env path m st = (st', r)"
  shows "vf_Dirs st' = vf_Dirs st \<and>
    (vf_Manifest st' = vf_Manifest st \<or>
     (\<exists>data. vn_Marshal env (manifestEntries m) = Inr data \<and> vf_Manifest st' = Some data))"
  using assms unfolding saveManifest_def
  by (auto simp: bindE_def thenE_def liftR_def modifyE_def guardE_def retE_def throwE_def
      dest!: guards_same [unfolded guardE_def] split: sum.splits prod.splits if_splits)

subsection \<open>A concrete system\<close>

text \<open>
  Two vendored copies whose sources changed; the repository of the second cannot be fetched, and the trees the state
  holds are what \<open>Stat\<close> and \<open>Lstat\<close> see.
\<close>

definition demoModule :: fsTree where
  "demoModule = DirT [(''main.tf'', FileT ''v2''), (''.git'', DirT [])]"

definition demoSchema :: Schema where
  "demoSchema = \<lparr>sc_RequiresTofuFiles = False, sc_Variables = [], sc_Outputs = [], sc_OutputDetails = [], sc_Backend = ''s3'',
     sc_BackendConfig = [], sc_BackendAttributes = None, sc_BackendConfigKnown = True\<rparr>"

definition demoSys :: "vendorFS \<Rightarrow> vendorSys" where
  "demoSys st = (let stat = (\<lambda>p. if hasKey (vf_Dirs st) p then StatOk \<lparr>fi_Id = 1, fi_IsDir = True\<rparr> else StatNotExist) in
     \<lparr>vq_Stat = stat, vq_Lstat = stat,
      vq_ReadFile = (\<lambda>p. case vf_Manifest st of Some d \<Rightarrow> if p = ''/b/vendor.yaml'' then FileOk d else FileMissing | None \<Rightarrow> FileMissing),
      vq_ReadDir = (\<lambda>_. FileMissing), vq_EvalSymlinks = Some, vq_Inspect = (\<lambda>_. Inr demoSchema), vq_Locate = (\<lambda>_. [])\<rparr>)"

definition demoVendor :: vendorEnv where
  "demoVendor = \<lparr>vn_Sys = demoSys, vn_SourceDirSubdir = (\<lambda>s. (s, '''')),
     vn_Get = (\<lambda>s. if s = ''git::net?v2'' then Inr demoModule else Inl (ErrText ''clone'')),
     vn_SubdirGlob = (\<lambda>_ _ _. Inl (ErrText ''glob'')), vn_DecodeSource = (\<lambda>_. Inl (ErrText ''json'')),
     vn_EncodeSource = (\<lambda>_. Inr ''''),
     vn_Unmarshal = (\<lambda>_. Inr [(''net'', \<lparr>me_Source = ''git::net'', me_Exclude = [''*.md'']\<rparr>), (''dns'', \<lparr>me_Source = ''git::dns'', me_Exclude = []\<rparr>)]),
     vn_Marshal = (\<lambda>es. Inr (concat (map fst es))), vn_MkdirAll = (\<lambda>_. True),
     vn_MkdirTemp = (\<lambda>st d. if d = ''/b/vendor'' \<and> list_all (\<lambda>(k, t). \<not> HasPrefix k ''/b/vendor/.s/'') (vf_Dirs st)
        then Some ''/b/vendor/.s'' else None),
     vn_Rename = (\<lambda>_ _. True), vn_Walk = (\<lambda>_. True), vn_RemoveAll = (\<lambda>_. True), vn_WriteFile = (\<lambda>_. True)\<rparr>"

definition demoFS :: vendorFS where
  "demoFS = \<lparr>vf_Dirs = [(''/b/vendor/net'', FileT ''old net''), (''/b/vendor/dns'', FileT ''old dns'')], vf_Manifest = Some ''m''\<rparr>"

definition demoRemote :: "string \<Rightarrow> string \<Rightarrow> bpNode" where
  "demoRemote name src = \<lparr>bn_Inputs = [], bn_Credentials = [], bn_Name = name, bn_Source = src, bn_BackendConfig = [],
     bn_BackendAddress = None, bn_Vars = [], bn_Runtime = '''', bn_Env = [], bn_Approve = ''''\<rparr>"

definition demoPlaces :: "string set" where
  "demoPlaces = {''/b/vendor/net'', ''/b/vendor/dns''}"

lemma demoLaws: "copyLaws demoVendor demoPlaces"
  unfolding copyLaws_def demoPlaces_def
  by (auto simp: demoVendor_def demoSys_def HasPrefix_def hasKey_def list_all_iff Let_def map_of_eq_None_iff split: if_splits dest!: map_of_SomeD)

subsection \<open>Properties\<close>

text \<open>
  C39: a vendoring run never loses a source. Every tree present before the run is still there afterwards, at its place or,
  when a rollback failed, in the kept staging directory, unless it stood at the target of a node the run reports as
  vendored anew. The manifest file changes only when the run vendored something, and then it records the
  entries with the exclusions that were there before and the entries of other nodes unchanged.
\<close>

theorem vendor_keeps_sources:
  assumes "vendorAll env opts nodes base dir path st = (st', err, results)" and "copyLaws env places"
    and "\<forall>n \<in> set nodes. vendorTarget base dir (bn_Name n) \<in> places"
  shows "(\<forall>k t. map_of (vf_Dirs st) k = Some t \<longrightarrow>
        keptAt places k t st' \<or> (\<exists>res \<in> set results. vendored res \<and> vendorTarget base dir (vr_Node res) = k)) \<and>
      (vf_Manifest st' = vf_Manifest st \<or>
       (\<exists>m m' data. LoadManifest env st path = Inr m \<and> vf_Manifest st' = Some data \<and>
          vn_Marshal env (manifestEntries m') = Inr data \<and> (\<exists>res \<in> set results. vendored res) \<and>
          (\<forall>name. excludesOf m' name = excludesOf m name \<and>
             ((\<forall>res \<in> set results. vendored res \<longrightarrow> vr_Node res \<noteq> name) \<longrightarrow> map_of m' name = map_of m name))))"
proof (cases "LoadManifest env st path")
  case (Inl e)
  then show ?thesis using assms(1) by (auto simp: vendorAll_def keptAt_def)
next
  case (Inr m)
  obtain st1 m1 changed where l: "vendorLoop env opts base dir nodes m st = (st1, m1, changed, results)"
    and r: "if changed then \<exists>r. saveManifest env path m1 st1 = (st', r) else st' = st1"
    using assms(1) Inr by (auto simp: vendorAll_def split: prod.splits if_splits)
  have same: "vf_Dirs st' = vf_Dirs st1"
    using r saveManifest_cases by (fastforce split: if_splits)
  have "vf_Manifest st' = vf_Manifest st1 \<or>
      (\<exists>data. vf_Manifest st' = Some data \<and> vn_Marshal env (manifestEntries m1) = Inr data) \<and> changed"
    using r saveManifest_cases by (fastforce split: if_splits)
  moreover have "keptAt places k t st' \<or> (\<exists>res \<in> set results. vendored res \<and> vendorTarget base dir (vr_Node res) = k)"
    if "map_of (vf_Dirs st) k = Some t" for k t
    using vendorLoop_keeps [OF l assms(2,3), of k t] that same by (auto simp: keptAt_def)
  ultimately show ?thesis
    using vendorLoop_file [OF l] vendorLoop_manifest [OF l] Inr by metis
qed

theorem vendor_keeps_sources_witness:
  "\<exists>st' err results.
     vendorAll demoVendor \<lparr>vo_Force = False, vo_LegacyDirectories = []\<rparr>
       [demoRemote ''net'' ''git::net?v2'', demoRemote ''dns'' ''git::dns?v2''] ''/b'' ''vendor'' ''/b/vendor.yaml'' demoFS = (st', err, results) \<and>
     map vendored results = [True, False] \<and>
     map_of (vf_Dirs demoFS) ''/b/vendor/dns'' = Some (FileT ''old dns'') \<and> keptAt demoPlaces ''/b/vendor/dns'' (FileT ''old dns'') st'"
proof -
  let ?run = "vendorAll demoVendor \<lparr>vo_Force = False, vo_LegacyDirectories = []\<rparr>
       [demoRemote ''net'' ''git::net?v2'', demoRemote ''dns'' ''git::dns?v2''] ''/b'' ''vendor'' ''/b/vendor.yaml'' demoFS"
  have targets: "vendorTarget ''/b'' ''vendor'' ''net'' = ''/b/vendor/net''" "vendorTarget ''/b'' ''vendor'' ''dns'' = ''/b/vendor/dns''"
    by code_simp+
  have run: "map (\<lambda>res. (vendored res, vr_Node res)) (snd (snd ?run)) = [(True, ''net''), (False, ''dns'')]" by code_simp
  obtain st' err results where r: "?run = (st', err, results)" by (metis prod_cases3)
  have res: "map (\<lambda>res. (vendored res, vr_Node res)) results = [(True, ''net''), (False, ''dns'')]" using run r by simp
  then have one: "vr_Node x = ''net''" if "x \<in> set results" "vendored x" for x using that by auto
  have "\<forall>n \<in> set [demoRemote ''net'' ''git::net?v2'', demoRemote ''dns'' ''git::dns?v2'']. vendorTarget ''/b'' ''vendor'' (bn_Name n) \<in> demoPlaces"
    using targets by (simp add: demoRemote_def demoPlaces_def)
  note kept = vendor_keeps_sources [OF r demoLaws this, THEN conjunct1, rule_format, of "''/b/vendor/dns''"]
  have "map_of (vf_Dirs demoFS) ''/b/vendor/dns'' = Some (FileT ''old dns'')" by (simp add: demoFS_def)
  moreover from this have "keptAt demoPlaces ''/b/vendor/dns'' (FileT ''old dns'') st'"
    using kept one targets by fastforce
  moreover have "map vendored results = [True, False]" using arg_cong [OF res, of "map fst"] by (simp add: comp_def)
  ultimately show ?thesis using r by (intro exI conjI)
qed

end
