(* ===== verification/Runner.thy ===== *)
theory Runner
  imports Exec_Record
begin

text \<open>
  The subprocess wrapper (\<open>internal/exec\<close>: \<open>runner.go\<close>, \<open>lifecycle.go\<close>, \<open>observe.go\<close>, \<open>runtime.go\<close>, \<open>operation.go\<close>,
  \<open>plan_identity.go\<close>, \<open>environment_value.go\<close>): the command lines and the environment a runtime is started with, down
  to the entries the process receives. Every started command and the errors
  reported at the end of a session are kept in the state. The process itself, the
  credential hook, the JSON decoder and the version parser are parameters.

  The lemmas show what a process reads from its environment: the managed data directory always, an override
  of the node where there is one, and what the terragraph process itself had otherwise.
\<close>

subsection \<open>Commands\<close>

record Runner =
  rn_Binary :: string
  rn_Dir :: string
  rn_DataDir :: string
  rn_Env :: "string smap"

record command =
  cm_Binary :: string
  cm_Dir :: string
  cm_Args :: "string list"
  cm_Env :: "string list"

record stateDoc =
  sd_Serial :: int
  sd_Version :: int
  sd_Instances :: "nat list"
  sd_Outputs :: nat

record versionDoc =
  vd_Version :: string
  vd_Platform :: string
  vd_Providers :: "string smap"

text \<open>
  The decoders return whether anything follows the first JSON value. \<open>ph_BelowMinimum\<close> is \<open>NewSemver\<close> followed by the
  comparison with 1.8.0, \<^const>\<open>None\<close> when the version does not parse.
\<close>

record procHost =
  ph_Environ :: "string list"
  ph_Hook :: "(nat \<Rightarrow> string \<Rightarrow> goErr + string smap) option"
  ph_Finish :: "nat \<Rightarrow> goErr option"
  ph_Run :: "nat \<Rightarrow> command \<Rightarrow> goErr + string"
  ph_Outputs :: "string \<Rightarrow> goErr + Outputs \<times> bool"
  ph_State :: "string \<Rightarrow> goErr + stateDoc \<times> bool"
  ph_Version :: "string \<Rightarrow> goErr + versionDoc"
  ph_BelowMinimum :: "string \<Rightarrow> bool option"

record procWorld =
  pw_Clock :: nat
  pw_Started :: "command list"
  pw_Completion :: "goErr list"

subsection \<open>The environment\<close>

text \<open>\<open>strings.Cut\<close> at the first equals sign.\<close>

definition cutKey :: "string \<Rightarrow> string" where
  "cutKey s = takeWhile (\<lambda>c. c \<noteq> CHR ''='') s"

definition cutVal :: "string \<Rightarrow> string" where
  "cutVal s = tl (dropWhile (\<lambda>c. c \<noteq> CHR ''='') s)"

definition ValidateEnv :: "Runner \<Rightarrow> goErr + unit" where
  "ValidateEnv r =
     (if rn_DataDir r = '''' then Inr ()
      else if list_ex (\<lambda>key. toUpper (cutKey key) = ''TF_DATA_DIR'') (sortedKeys (rn_Env r))
      then Inl (ErrText ''TF_DATA_DIR is managed per node'')
      else Inr ())"

definition dataDirEntry :: "Runner \<Rightarrow> string list" where
  "dataDirEntry r = (if rn_DataDir r \<noteq> '''' then [''TF_DATA_DIR='' @ rn_DataDir r] else [])"

definition overrideEntries :: "string smap \<Rightarrow> string list" where
  "overrideEntries env = map (\<lambda>k. k @ ''='' @ sget env k) (sortedKeys env)"

text \<open>\<^const>\<open>None\<close> makes the process inherit the environment as it is.\<close>

definition runnerEnv :: "string list \<Rightarrow> Runner \<Rightarrow> goErr + string list option" where
  "runnerEnv environ r =
     bindR (ValidateEnv r) (\<lambda>_.
       Inr (if rn_DataDir r = '''' \<and> rn_Env r = [] then None
            else Some (environ @ dataDirEntry r @ overrideEntries (rn_Env r))))"

text \<open>The last entry of a name is the one a process reads.\<close>

definition envLookup :: "string list \<Rightarrow> string \<Rightarrow> string option" where
  "envLookup entries name =
     foldl (\<lambda>acc entry. if CHR ''='' \<in> set entry \<and> cutKey entry = name then Some (cutVal entry) else acc) None entries"

definition EnvironmentValue :: "string list \<Rightarrow> Runner \<Rightarrow> string \<Rightarrow> goErr + string option" where
  "EnvironmentValue environ r name =
     bindR (runnerEnv environ r) (\<lambda>env. Inr (envLookup (case env of None \<Rightarrow> environ | Some e \<Rightarrow> e) name))"

definition hiddenOverride :: "string \<Rightarrow> bool" where
  "hiddenOverride key \<longleftrightarrow> HasPrefix (toUpper key) ''TF_CLI_ARGS'' \<or> HasPrefix (toUpper key) ''TF_LOG''"

definition ValidateOperationEnvironment :: "string list \<Rightarrow> Runner \<Rightarrow> goErr + unit" where
  "ValidateOperationEnvironment environ r =
     bindR (runnerEnv environ r) (\<lambda>env.
       let entries = (case env of None \<Rightarrow> [] | Some e \<Rightarrow> e);
           vals = foldl (\<lambda>m entry. AList.update (toUpper (cutKey entry)) (cutVal entry) m) [] entries in
       if list_ex (\<lambda>(key, v). v \<noteq> '''' \<and> (HasPrefix key ''TF_CLI_ARGS'' \<or> HasPrefix key ''TF_LOG'')) vals
       then Inl (ErrText ''run requires explicit runtime arguments and managed diagnostics'') else Inr ())"

subsection \<open>Command lines\<close>

definition backendFlags :: "string smap \<Rightarrow> string list" where
  "backendFlags cfg = map (\<lambda>k. ''-backend-config='' @ k @ ''='' @ sget cfg k) (sortedKeys cfg)"

definition initArgs :: "string smap \<Rightarrow> string list" where
  "initArgs cfg = [''init'', ''-input=false''] @ backendFlags cfg"

definition initReadArgs :: "string smap \<Rightarrow> string list \<Rightarrow> string list" where
  "initReadArgs cfg extra = [''init'', ''-input=false'', ''-lockfile=readonly'', ''-reconfigure''] @ backendFlags cfg @ extra"

definition planArgs :: "string list \<Rightarrow> string list" where
  "planArgs extra = [''plan'', ''-input=false''] @ extra"

definition planChangesArgs :: "string \<Rightarrow> string list \<Rightarrow> string list" where
  "planChangesArgs planPath extra =
     [''plan'', ''-input=false'', ''-refresh=true'', ''-detailed-exitcode''] @ (if planPath \<noteq> '''' then [''-out='' @ planPath] else []) @ extra"

definition applyPlanArgs :: "string \<Rightarrow> string list" where
  "applyPlanArgs planPath = [''apply'', ''-input=false'', planPath]"

definition destroyArgs :: "bool \<Rightarrow> string list \<Rightarrow> string list" where
  "destroyArgs autoApprove extra = [''destroy'', ''-input=false''] @ (if autoApprove then [''-auto-approve''] else []) @ extra"

definition showArgs :: "string \<Rightarrow> string list" where
  "showArgs planPath = [''show'', ''-json'', planPath]"

definition VarFileArgs :: "string \<Rightarrow> 'v smap \<Rightarrow> string list" where
  "VarFileArgs path vars = (if vars = [] then [] else [''-var-file='' @ path])"

subsection \<open>Starting a command\<close>

definition hookOperation :: "string list \<Rightarrow> string" where
  "hookOperation args =
     (case args of
        [] \<Rightarrow> ''''
      | op # rest \<Rightarrow> (case rest of [] \<Rightarrow> op | sub # _ \<Rightarrow> if op = ''state'' then op @ '' '' @ sub else op))"

text \<open>A credential replaces every spelling of its name.\<close>

definition replaceEntry :: "string list \<Rightarrow> string \<times> string \<Rightarrow> string list" where
  "replaceEntry env kv = filter (\<lambda>entry. toUpper (cutKey entry) \<noteq> toUpper (fst kv)) env @ [fst kv @ ''='' @ snd kv]"

definition tickP :: "(procWorld, nat) eff" where
  "tickP = (\<lambda>w. (w\<lparr>pw_Clock := Suc (pw_Clock w)\<rparr>, Inr (pw_Clock w)))"

definition startCmd :: "procHost \<Rightarrow> command \<Rightarrow> (procWorld, string) eff" where
  "startCmd host c = (\<lambda>w.
     (w\<lparr>pw_Clock := Suc (pw_Clock w), pw_Started := pw_Started w @ [c]\<rparr>, ph_Run host (pw_Clock w) c))"

definition commandOf :: "Runner \<Rightarrow> string list \<Rightarrow> string list \<Rightarrow> command" where
  "commandOf r args env = \<lparr>cm_Binary = rn_Binary r, cm_Dir = rn_Dir r, cm_Args = args, cm_Env = env\<rparr>"

definition execute :: "procHost \<Rightarrow> Runner \<Rightarrow> string list \<Rightarrow> string list option \<Rightarrow> (procWorld, string) eff" where
  "execute host r args env =
     (let inherited = (case env of None \<Rightarrow> ph_Environ host | Some e \<Rightarrow> e) in
      case ph_Hook host of
        None \<Rightarrow> startCmd host (commandOf r args inherited)
      | Some hook \<Rightarrow>
          bindE tickP (\<lambda>n.
            case hook n (hookOperation args) of
              Inl e \<Rightarrow> throwE (Joined [ErrNotStarted, e])
            | Inr extra \<Rightarrow>
                bindE (tryE (startCmd host (commandOf r args (foldl replaceEntry inherited extra)))) (\<lambda>res.
                  case joinErr [errOf res, ph_Finish host n] of
                    Some e \<Rightarrow> throwE e
                  | None \<Rightarrow> liftR res)))"

definition runArgs :: "procHost \<Rightarrow> Runner \<Rightarrow> string list \<Rightarrow> (procWorld, string) eff" where
  "runArgs host r args = bindE (liftR (runnerEnv (ph_Environ host) r)) (execute host r args)"

subsection \<open>Reading\<close>

definition InitRead :: "procHost \<Rightarrow> Runner \<Rightarrow> string smap \<Rightarrow> string list \<Rightarrow> (procWorld, unit) eff" where
  "InitRead host r cfg extra = bindE (runArgs host r (initReadArgs cfg extra)) (\<lambda>_. retE ())"

definition readOutputs :: "procHost \<Rightarrow> Runner \<Rightarrow> (procWorld, Outputs) eff" where
  "readOutputs host r =
     bindE (runArgs host r [''output'', ''-json'']) (\<lambda>text.
     bindE (liftR (ph_Outputs host text)) (\<lambda>(raw, trailing).
       if trailing then throwE (ErrText ''expected a single JSON value'') else retE raw))"

record StateObservation =
  so_Present :: bool
  so_Determinate :: bool
  so_Empty :: bool
  so_Resources :: nat
  so_Outputs :: nat

definition noState :: StateObservation where
  "noState = \<lparr>so_Present = False, so_Determinate = False, so_Empty = False, so_Resources = 0, so_Outputs = 0\<rparr>"

definition stateOf :: "stateDoc \<Rightarrow> StateObservation" where
  "stateOf doc =
     \<lparr>so_Present = True, so_Determinate = 0 < sd_Serial doc,
      so_Empty = (sum_list (sd_Instances doc) = 0 \<and> sd_Outputs doc = 0),
      so_Resources = sum_list (sd_Instances doc), so_Outputs = sd_Outputs doc\<rparr>"

definition ObserveState :: "procHost \<Rightarrow> Runner \<Rightarrow> (procWorld, StateObservation) eff" where
  "ObserveState host r =
     bindE (runArgs host r [''state'', ''pull'']) (\<lambda>text.
       if TrimSpace text = '''' then retE noState
       else bindE (liftR (ph_State host text)) (\<lambda>(doc, trailing).
         if trailing \<or> sd_Version doc \<noteq> 4 then throwE (ErrText ''unsupported state document'')
         else retE (stateOf doc)))"

definition versionCore :: "string \<Rightarrow> string" where
  "versionCore v = takeWhile (\<lambda>c. c \<noteq> CHR ''+'') (takeWhile (\<lambda>c. c \<noteq> CHR ''-'') v)"

definition RequireTofuFiles :: "procHost \<Rightarrow> Runner \<Rightarrow> (procWorld, unit) eff" where
  "RequireTofuFiles host r =
     bindE (runArgs host r [''version'', ''-json'']) (\<lambda>text.
     bindE (liftR (ph_Version host text)) (\<lambda>doc.
       guardE (ph_BelowMinimum host (vd_Version doc) = Some False \<and> length (splitOn CHR ''.'' (versionCore (vd_Version doc))) = 3)
         (ErrText ''selected .tofu files require OpenTofu 1.8.0 or newer'')))"

record PlanRuntimeIdentity =
  pi_Version :: string
  pi_Platform :: string
  pi_Providers :: "string smap"
  pi_Inputs :: "string smap"

fun identityInputs :: "string smap \<Rightarrow> string list \<Rightarrow> goErr + string smap" where
  "identityInputs inputs [] = Inr inputs"
| "identityInputs inputs (entry # entries) =
     (let key = cutKey entry; v = cutVal entry;
          inputs' = (if HasPrefix key ''TF_VAR_'' \<or> key = ''TF_WORKSPACE'' then AList.update key v inputs else inputs) in
      if HasPrefix (toUpper key) ''TF_CLI_ARGS'' \<and> v \<noteq> '''' then Inl (ErrText ''retained plans require explicit runtime arguments'')
      else identityInputs inputs' entries)"

definition PlanIdentity :: "procHost \<Rightarrow> Runner \<Rightarrow> (procWorld, PlanRuntimeIdentity) eff" where
  "PlanIdentity host r =
     bindE (runArgs host r [''version'', ''-json'']) (\<lambda>text.
       case ph_Version host text of
         Inl _ \<Rightarrow> throwE (ErrText ''runtime version -json is incomplete'')
       | Inr doc \<Rightarrow>
           if vd_Version doc = '''' \<or> vd_Platform doc = '''' then throwE (ErrText ''runtime version -json is incomplete'')
           else
             bindE (liftR (runnerEnv (ph_Environ host) r)) (\<lambda>env.
             bindE (liftR (identityInputs [] (case env of None \<Rightarrow> [] | Some e \<Rightarrow> e))) (\<lambda>inputs.
               retE \<lparr>pi_Version = vd_Version doc, pi_Platform = vd_Platform doc, pi_Providers = vd_Providers doc, pi_Inputs = inputs\<rparr>)))"

subsection \<open>What a process reads\<close>

lemma foldl_last:
  "foldl (\<lambda>acc e. if P e then Some (g e) else acc) a xs =
   (case foldl (\<lambda>acc e. if P e then Some (g e) else acc) None xs of None \<Rightarrow> a | Some v \<Rightarrow> Some v)"
  by (induction xs rule: rev_induct) (simp_all split: option.split)

lemma envLookup_Nil [simp]: "envLookup [] k = None"
  by (simp add: envLookup_def)

lemma envLookup_append: "envLookup (xs @ ys) k = (case envLookup ys k of None \<Rightarrow> envLookup xs k | Some v \<Rightarrow> Some v)"
  unfolding envLookup_def foldl_append by (rule foldl_last)

lemma envLookup_single: "envLookup [e] k = (if CHR ''='' \<in> set e \<and> cutKey e = k then Some (cutVal e) else None)"
  by (simp add: envLookup_def)

lemma envLookup_Cons:
  "envLookup (e # es) k = (case envLookup es k of None \<Rightarrow> if CHR ''='' \<in> set e \<and> cutKey e = k then Some (cutVal e) else None | Some v \<Rightarrow> Some v)"
  using envLookup_append [of "[e]" es k] by (simp add: envLookup_single split: option.split)

lemma envLookup_None: "(\<forall>e \<in> set entries. cutKey e \<noteq> k) \<Longrightarrow> envLookup entries k = None"
  by (induction entries rule: rev_induct) (auto simp: envLookup_append envLookup_single)

lemma envLookup_filter: "(\<And>e. cutKey e = k \<Longrightarrow> P e) \<Longrightarrow> envLookup (filter P entries) k = envLookup entries k"
  by (induction entries rule: rev_induct) (auto simp: envLookup_append envLookup_single split: option.splits)

lemma cutKey_no_eq [simp]: "CHR ''='' \<notin> set (cutKey s)"
  by (auto simp: cutKey_def dest: set_takeWhileD)

lemma cutKey_plain: "CHR ''='' \<notin> set k \<Longrightarrow> cutKey k = k"
  by (auto simp: cutKey_def takeWhile_eq_all_conv)

lemma cutKey_entry: "cutKey (k @ CHR ''='' # v) = cutKey k"
  by (induction k) (auto simp: cutKey_def)

lemma cutVal_plain: "CHR ''='' \<notin> set k \<Longrightarrow> cutVal (k @ CHR ''='' # v) = v"
  by (induction k) (auto simp: cutVal_def)

lemma cutVal_disguised: "CHR ''='' \<in> set k \<Longrightarrow> CHR ''='' \<in> set (cutVal (k @ CHR ''='' # v))"
  by (induction k) (auto simp: cutVal_def)

lemma cut_disguised: "CHR ''='' \<in> set key \<Longrightarrow> \<exists>rest. key = cutKey key @ CHR ''='' # rest"
  by (induction key) (auto simp: cutKey_def)

text \<open>A name of a node environment that contains an equals sign sets the variable before it.\<close>

definition disguised :: "string smap \<Rightarrow> string \<Rightarrow> bool" where
  "disguised env k \<longleftrightarrow> (\<exists>key \<in> fst ` set env. CHR ''='' \<in> set key \<and> cutKey key = k)"

lemma envLookup_entries:
  "envLookup (map (\<lambda>x. x @ CHR ''='' # f x) ks) k =
   (case filter (\<lambda>x. cutKey x = k) ks of [] \<Rightarrow> None | x # xs \<Rightarrow> Some (cutVal (last (x # xs) @ CHR ''='' # f (last (x # xs)))))"
proof (induction ks rule: rev_induct)
  case (snoc x xs)
  then show ?case
    by (cases "filter (\<lambda>x. cutKey x = k) xs") (auto simp: envLookup_append envLookup_single cutKey_entry)
qed simp

lemma less_longer: "(k :: string) < k @ c # cs"
  by (induction k) auto

lemma sorted_le_last: "sorted (xs :: 'a :: linorder list) \<Longrightarrow> x \<in> set xs \<Longrightarrow> x \<le> last xs"
  by (induction xs) (auto split: if_splits)

text \<open>The disguised names come after the plain one, so they win.\<close>

lemma envLookup_override:
  assumes "CHR ''='' \<notin> set k"
  shows "envLookup (overrideEntries env) k = map_of env k \<or> disguised env k"
    and "disguised env k \<Longrightarrow> \<exists>v. envLookup (overrideEntries env) k = Some v \<and> CHR ''='' \<in> set v"
proof -
  let ?xs = "filter (\<lambda>x. cutKey x = k) (sortedKeys env)"
  have look: "envLookup (overrideEntries env) k =
      (if ?xs = [] then None else Some (cutVal (last ?xs @ CHR ''='' # sget env (last ?xs))))"
    unfolding overrideEntries_def by (simp add: envLookup_entries split: list.split)
  have keys: "x \<in> set ?xs \<longleftrightarrow> x \<in> fst ` set env \<and> cutKey x = k" for x by auto
  show "envLookup (overrideEntries env) k = map_of env k \<or> disguised env k"
  proof (rule disjCI)
    assume "\<not> disguised env k"
    then have plain: "x = k" if "x \<in> set ?xs" for x
      using that keys [of x] cutKey_plain [of x] unfolding disguised_def by metis
    show "envLookup (overrideEntries env) k = map_of env k"
    proof (cases "?xs = []")
      case True
      then have "k \<notin> fst ` set env" using keys [of k] cutKey_plain [OF assms] by force
      then have "map_of env k = None" by (simp add: map_of_eq_None_iff)
      then show ?thesis using True by (simp add: look)
    next
      case False
      then have l: "last ?xs = k" using plain by (meson last_in_set)
      then have "k \<in> fst ` set env" using False keys by (metis last_in_set)
      then obtain v where "map_of env k = Some v" by (metis map_of_eq_None_iff not_None_eq)
      then show ?thesis using False l assms by (simp add: look cutVal_plain sget_def)
    qed
  qed
  assume "disguised env k"
  then obtain key where key: "key \<in> set ?xs" "CHR ''='' \<in> set key" unfolding disguised_def keys by blast
  then have "key \<le> last ?xs" by (intro sorted_le_last sorted_wrt_filter sorted_sortedKeys)
  moreover have ne: "?xs \<noteq> []" using key(1) by (cases ?xs) auto
  moreover have "cutKey key = k" "cutKey (last ?xs) = k" using keys [THEN iffD1, THEN conjunct2] key(1) last_in_set [OF ne] by blast+
  ultimately have "CHR ''='' \<in> set (last ?xs)" using cut_disguised [OF key(2)] less_longer cutKey_plain by (metis leD)
  then show "\<exists>v. envLookup (overrideEntries env) k = Some v \<and> CHR ''='' \<in> set v"
    using ne cutVal_disguised by (auto simp: look)
qed

text \<open>The managed data directory is what the process reads, whatever the surroundings and the node set.\<close>

lemma ValidateEnv_keys:
  "ValidateEnv r = Inr u \<Longrightarrow> rn_DataDir r \<noteq> '''' \<Longrightarrow> key \<in> fst ` set (rn_Env r) \<Longrightarrow> toUpper (cutKey key) \<noteq> ''TF_DATA_DIR''"
  by (auto simp: ValidateEnv_def list_ex_iff split: if_splits)

lemma override_entry:
  "entry \<in> set (overrideEntries env) \<Longrightarrow> \<exists>key \<in> fst ` set env. entry = key @ CHR ''='' # sget env key"
  unfolding overrideEntries_def by fastforce

lemma runnerEnv_data_dir:
  assumes "runnerEnv environ r = Inr env" "rn_DataDir r \<noteq> ''''"
  shows "env = Some (environ @ dataDirEntry r @ overrideEntries (rn_Env r))"
    and "envLookup (environ @ dataDirEntry r @ overrideEntries (rn_Env r)) ''TF_DATA_DIR'' = Some (rn_DataDir r)"
proof -
  show "env = Some (environ @ dataDirEntry r @ overrideEntries (rn_Env r))"
    using assms by (auto simp: runnerEnv_def split: if_splits)
  have v: "ValidateEnv r = Inr ()" using assms(1) by (auto simp: runnerEnv_def)
  have up: "toUpper ''TF_DATA_DIR'' = ''TF_DATA_DIR''" by code_simp
  have "cutKey entry \<noteq> ''TF_DATA_DIR''" if "entry \<in> set (overrideEntries (rn_Env r))" for entry
    using override_entry [OF that] ValidateEnv_keys [OF v assms(2)] up by (metis cutKey_entry)
  then have "envLookup (overrideEntries (rn_Env r)) ''TF_DATA_DIR'' = None" by (intro envLookup_None) blast
  then show "envLookup (environ @ dataDirEntry r @ overrideEntries (rn_Env r)) ''TF_DATA_DIR'' = Some (rn_DataDir r)"
    using assms(2) by (simp add: envLookup_append dataDirEntry_def envLookup_Cons cutKey_def cutVal_def)
qed

text \<open>Credentials of plugins replace none of the names the engine manages.\<close>

definition managedName :: "string \<Rightarrow> bool" where
  "managedName k \<longleftrightarrow> k = ''TF_DATA_DIR'' \<or> k = ''TF_WORKSPACE'' \<or> hiddenOverride k"

lemma managed_TF:
  assumes "managedName k"
  shows "HasPrefix (toUpper k) ''TF_'' \<and> \<not> HasPrefix (toUpper k) ''TF_TOKEN_'' \<and>
    toUpper k \<noteq> ''TF_HTTP_USERNAME'' \<and> toUpper k \<noteq> ''TF_HTTP_PASSWORD''"
proof -
  have "toUpper ''TF_DATA_DIR'' = ''TF_DATA_DIR''" "toUpper ''TF_WORKSPACE'' = ''TF_WORKSPACE''" by code_simp+
  then have "toUpper k = ''TF_DATA_DIR'' \<or> toUpper k = ''TF_WORKSPACE'' \<or> (\<exists>r. toUpper k = ''TF_CLI_ARGS'' @ r) \<or> (\<exists>r. toUpper k = ''TF_LOG'' @ r)"
    using assms unfolding managedName_def hiddenOverride_def HasPrefix_iff by metis
  then show ?thesis by (auto simp: HasPrefix_def)
qed

lemma allowed_other: "CredentialEnvironmentAllowed key \<Longrightarrow> managedName k \<Longrightarrow> toUpper k \<noteq> toUpper key"
  using managed_TF [of k] by (auto simp: CredentialEnvironmentAllowed_def Let_def split: if_splits)

lemma allowed_plain:
  assumes "CredentialEnvironmentAllowed key"
  shows "CHR ''='' \<notin> set key"
proof
  assume "CHR ''='' \<in> set key"
  then have "toUpperChar CHR ''='' \<in> set (toUpper key)" by (auto simp: toUpper_def)
  then have "CHR ''='' \<in> set (toUpper key)" by (simp add: toUpperChar_def)
  then have "\<not> list_all (\<lambda>c. isEnvChar c \<or> isDigitChar c) (toUpper key)"
    by (force simp: list_all_iff isEnvChar_def isDigitChar_def)
  then show False using assms by (simp add: CredentialEnvironmentAllowed_def Let_def)
qed

lemma envLookup_replace:
  assumes "CredentialEnvironmentAllowed (fst kv)" "managedName k"
  shows "envLookup (replaceEntry env kv) k = envLookup env k"
proof -
  have other: "toUpper k \<noteq> toUpper (fst kv)" using allowed_other assms by blast
  then have "cutKey (fst kv) \<noteq> k" using cutKey_plain [OF allowed_plain [OF assms(1)]] by auto
  then show ?thesis
    using other by (simp add: replaceEntry_def envLookup_append envLookup_single cutKey_entry envLookup_filter)
qed

lemma envLookup_credentials:
  "list_all (\<lambda>kv. CredentialEnvironmentAllowed (fst kv)) extra \<Longrightarrow> managedName k \<Longrightarrow>
   envLookup (foldl replaceEntry env extra) k = envLookup env k"
  by (induction extra arbitrary: env) (auto simp: envLookup_replace)

subsection \<open>What a call starts\<close>

text \<open>Every command started between two states satisfies a predicate.\<close>

definition startedOnly :: "(command \<Rightarrow> bool) \<Rightarrow> procWorld \<Rightarrow> procWorld \<Rightarrow> bool" where
  "startedOnly P w w' \<longleftrightarrow> (\<exists>cs. pw_Started w' = pw_Started w @ cs \<and> list_all P cs)"

interpretation started: effect_order "startedOnly P" for P
proof unfold_locales
  show "startedOnly P w w" for w by (simp add: startedOnly_def)
  show "startedOnly P w w2" if "startedOnly P w w1" "startedOnly P w1 w2" for w w1 w2
    using that unfolding startedOnly_def by (metis append_assoc list_all_append)
qed

lemma started_tick [relatesI]: "relates (startedOnly P) tickP"
  by (auto simp: relates_def tickP_def startedOnly_def)

lemma started_cmd [relatesI]: "P c \<Longrightarrow> relates (startedOnly P) (startCmd host c)"
  by (auto simp: relates_def startCmd_def startedOnly_def)

text \<open>The hook passes on what the lifecycle's checks allow.\<close>

definition hookAllowed :: "procHost \<Rightarrow> bool" where
  "hookAllowed host \<longleftrightarrow> (\<forall>hook n op extra. ph_Hook host = Some hook \<longrightarrow> hook n op = Inr extra \<longrightarrow>
     list_all (\<lambda>kv. CredentialEnvironmentAllowed (fst kv)) extra)"

definition startedBy :: "Runner \<Rightarrow> string list \<Rightarrow> string list \<Rightarrow> command \<Rightarrow> bool" where
  "startedBy r entries args c \<longleftrightarrow> cm_Binary c = rn_Binary r \<and> cm_Dir c = rn_Dir r \<and> cm_Args c = args \<and>
     (\<forall>k. managedName k \<longrightarrow> envLookup (cm_Env c) k = envLookup entries k)"

lemma started_execute:
  assumes "hookAllowed host" "\<And>c. startedBy r entries args c \<Longrightarrow> P c"
  shows "relates (startedOnly P) (execute host r args (Some entries))"
proof -
  have start: "P (commandOf r args (foldl replaceEntry entries extra))"
    if "list_all (\<lambda>kv. CredentialEnvironmentAllowed (fst kv)) extra" for extra
    using that by (intro assms(2)) (simp add: startedBy_def commandOf_def envLookup_credentials)
  show ?thesis
  proof (cases "ph_Hook host")
    case None
    then show ?thesis using start [of "[]"] by (auto simp: execute_def intro: started_cmd)
  next
    case (Some hook)
    then have allowed: "P (commandOf r args (foldl replaceEntry entries extra))" if "hook n op = Inr extra" for n op extra
      using that start assms(1) by (auto simp: hookAllowed_def)
    show ?thesis
      unfolding execute_def Let_def Some option.case
    proof (rule started.bind [OF started_tick])
      fix n
      show "relates (startedOnly P) (case hook n (hookOperation args) of
          Inl e \<Rightarrow> throwE (Joined [ErrNotStarted, e])
        | Inr extra \<Rightarrow> bindE (tryE (startCmd host (commandOf r args (foldl replaceEntry entries extra)))) (\<lambda>res.
            case joinErr [errOf res, ph_Finish host n] of None \<Rightarrow> liftR res | Some e \<Rightarrow> throwE e))"
        using allowed by (cases "hook n (hookOperation args)") (auto intro!: relatesI)
    qed
  qed
qed

lemma started_runArgs:
  assumes "hookAllowed host" "rn_DataDir r \<noteq> ''''"
    and "\<And>c. runnerEnv (ph_Environ host) r = Inr (Some (ph_Environ host @ dataDirEntry r @ overrideEntries (rn_Env r))) \<Longrightarrow>
           startedBy r (ph_Environ host @ dataDirEntry r @ overrideEntries (rn_Env r)) args c \<Longrightarrow> P c"
  shows "relates (startedOnly P) (runArgs host r args)"
proof (cases "runnerEnv (ph_Environ host) r")
  case (Inl e)
  then show ?thesis by (auto simp: runArgs_def relates_def startedOnly_def bindE_def liftR_def)
next
  case (Inr env)
  have e: "env = Some (ph_Environ host @ dataDirEntry r @ overrideEntries (rn_Env r))"
    by (rule runnerEnv_data_dir(1) [OF Inr assms(2)])
  have "relates (startedOnly P) (execute host r args env)"
    unfolding e using assms(3) Inr e by (intro started_execute [OF assms(1)]) blast
  then show ?thesis by (simp add: runArgs_def Inr bindE_def liftR_def)
qed

end
