(* ===== verification/Observation.thy ===== *)
theory Observation
  imports Runner Operations
begin

text \<open>
  Observation of deployed nodes (\<open>internal/engine/observe.go\<close>): a session holds the local lock and a private directory,
  and reads one leaf at a time through the runtime. The plugin lifecycle, the file system, the digest and
  cancellation are parameters; the subprocesses are those of \<open>Runner\<close>.

  The theorem shows what a read can start: only commands that read, in the private data directory and the default
  workspace, and with the logging and argument overrides of the surroundings cleared. It also shows the one way
  around the last point, a quoted environment name of the blueprint that contains an equals sign.
\<close>

subsection \<open>Data\<close>

record Diagnostic =
  dg_Code :: string
  dg_Phase :: string
  dg_Subject :: string
  dg_Message :: string
  dg_Remedy :: string
  dg_Category :: string
  dg_Severity :: string
  dg_RelatedExecutionID :: string

record Observation =
  ob_Node :: string
  ob_Runtime :: string
  ob_Backend :: string
  ob_Identity :: string
  ob_State :: string
  ob_Outputs :: Outputs
  ob_Resources :: nat
  ob_OutputCount :: nat
  ob_Diagnostic :: "Diagnostic option"

text \<open>
  \<open>oh_Prepare\<close> is the prepare event of the plugins, \<^const>\<open>None\<close> without plugins; \<open>oh_Regular\<close> is a \<open>Stat\<close> that finds a
  regular file; \<open>oh_Identity\<close> is the digest.
\<close>

record obsHost =
  oh_Proc :: procHost
  oh_Cancelled :: "nat \<Rightarrow> bool"
  oh_Prepare :: "(nat \<Rightarrow> bool) option"
  oh_Finished :: "nat \<Rightarrow> goErr option"
  oh_Regular :: "string \<Rightarrow> bool"
  oh_Identity :: "string \<Rightarrow> string"

subsection \<open>Sessions\<close>

text \<open>
  The outcomes of loading under the run lock, of preparing the private directory, of the plugin lifecycle and of the
  removal; loading releases its lock when it fails. \<open>se_Dirs\<close> are the private directories left on disk.
\<close>

record sessionHost =
  sh_Load :: "goErr option"
  sh_Prepare :: "goErr option"
  sh_MkdirTemp :: "goErr + string"
  sh_StartPlugins :: "goErr option"
  sh_FinishPlugins :: "goErr option"
  sh_RemoveAll :: "goErr option"

record obsSession =
  se_Locked :: bool
  se_Dir :: string
  se_Dirs :: "string list"

definition closeObservation :: "sessionHost \<Rightarrow> obsSession \<Rightarrow> obsSession \<times> goErr option" where
  "closeObservation h s =
     (if se_Dir s = '''' then (s\<lparr>se_Locked := False\<rparr>, sh_FinishPlugins h)
      else (s\<lparr>se_Locked := False, se_Dir := '''', se_Dirs := (if sh_RemoveAll h = None then remove1 (se_Dir s) (se_Dirs s) else se_Dirs s)\<rparr>,
            joinErr [sh_FinishPlugins h, sh_RemoveAll h]))"

definition abortObservation :: "sessionHost \<Rightarrow> goErr \<Rightarrow> obsSession \<Rightarrow> obsSession \<times> (goErr + unit)" where
  "abortObservation h e s = (case closeObservation h s of (s', closeErr) \<Rightarrow>
     (s', Inl (case closeErr of None \<Rightarrow> Joined [e] | Some e' \<Rightarrow> Joined [e, e'])))"

definition OpenObservation :: "sessionHost \<Rightarrow> obsSession \<Rightarrow> obsSession \<times> (goErr + unit)" where
  "OpenObservation h s =
     (case sh_Load h of
        Some e \<Rightarrow> (s, Inl e)
      | None \<Rightarrow>
          let s1 = s\<lparr>se_Locked := True, se_Dir := ''''\<rparr> in
          (case sh_Prepare h of
             Some e \<Rightarrow> abortObservation h e s1
           | None \<Rightarrow>
               (case sh_MkdirTemp h of
                  Inl e \<Rightarrow> abortObservation h e s1
                | Inr dir \<Rightarrow>
                    let s2 = s1\<lparr>se_Dir := dir, se_Dirs := dir # se_Dirs s1\<rparr> in
                    (case sh_StartPlugins h of
                       Some e \<Rightarrow> abortObservation h e s2
                     | None \<Rightarrow> (s2, Inr ())))))"

text \<open>A session that fails to open, and one that is closed, holds no lock and leaves no directory it could remove.\<close>

lemma open_failure_releases:
  assumes "OpenObservation h s = (s', Inl e)" "\<not> se_Locked s" "sh_RemoveAll h = None" "sh_MkdirTemp h \<noteq> Inr ''''"
  shows "\<not> se_Locked s' \<and> se_Dirs s' = se_Dirs s"
  using assms by (auto simp: OpenObservation_def abortObservation_def closeObservation_def Let_def
      split: option.splits sum.splits prod.splits if_splits)

lemma close_releases:
  assumes "OpenObservation h s = (s1, Inr ())" "closeObservation h' s1 = (s2, err)" "sh_RemoveAll h' = None" "sh_MkdirTemp h \<noteq> Inr ''''"
  shows "\<not> se_Locked s2 \<and> se_Dirs s2 = se_Dirs s"
  using assms by (auto simp: OpenObservation_def abortObservation_def closeObservation_def Let_def
      split: option.splits sum.splits prod.splits if_splits)

subsection \<open>Selecting nodes\<close>

definition observationNames :: "Graph \<Rightarrow> string \<Rightarrow> string list + string list" where
  "observationNames g target =
     (let names = sortedKeys (g_Nodes g) in
      if target = '''' then Inr names
      else if hasKey (g_Nodes g) target then Inr [target]
      else let candidates = filter (\<lambda>name. HasPrefix name (target @ ''.'')) names in
        Inl (if candidates = [] then names else candidates))"

subsection \<open>Reading one node\<close>

definition observationFailure :: "Observation \<Rightarrow> string \<Rightarrow> string \<Rightarrow> string \<Rightarrow> string \<Rightarrow> Observation" where
  "observationFailure result code phase message remedy =
     result\<lparr>ob_State := ''unavailable'',
       ob_Diagnostic := Some \<lparr>dg_Code = code, dg_Phase = phase, dg_Subject = ''node.'' @ ob_Node result, dg_Message = message,
         dg_Remedy = remedy, dg_Category = '''', dg_Severity = '''', dg_RelatedExecutionID = ''''\<rparr>\<rparr>"

definition failE :: "obsHost \<Rightarrow> Observation \<Rightarrow> string \<Rightarrow> string \<Rightarrow> string \<Rightarrow> string \<Rightarrow> (procWorld, Observation) eff" where
  "failE H result code phase message remedy =
     bindE tickP (\<lambda>n. retE
       (if oh_Cancelled H n then observationFailure result ''cancelled'' phase ''observation cancelled'' ''retry the observation''
        else observationFailure result code phase message remedy))"

definition orFailE :: "('w, 'a) eff \<Rightarrow> ('w, 'b) eff \<Rightarrow> ('a \<Rightarrow> ('w, 'b) eff) \<Rightarrow> ('w, 'b) eff" where
  "orFailE m h k = bindE (tryE m) (\<lambda>r. case r of Inl _ \<Rightarrow> h | Inr x \<Rightarrow> k x)"

definition suppress :: "string list \<Rightarrow> string smap \<Rightarrow> string smap" where
  "suppress keys env = foldl (\<lambda>m key. if hiddenOverride key then AList.update key '''' m else m) env keys"

definition readEnv :: "string list \<Rightarrow> string smap \<Rightarrow> string smap" where
  "readEnv environ env =
     (let env1 = suppress (map cutKey environ) env in AList.update ''TF_WORKSPACE'' ''default'' (suppress (map fst env1) env1))"

definition engineRunner :: "'st engine \<Rightarrow> string \<Rightarrow> gNode \<Rightarrow> Runner" where
  "engineRunner E name n =
     \<lparr>rn_Binary = runtimeFor E name, rn_Dir = gn_Dir n, rn_DataDir = Join [en_BaseDir E, ''.terragraph'', ''tfdata'', name],
      rn_Env = gn_Env n\<rparr>"

definition observedState :: "Observation \<Rightarrow> StateObservation \<Rightarrow> Observation" where
  "observedState result s =
     result\<lparr>ob_State := (if \<not> so_Present s then ''absent'' else if \<not> so_Empty s then ''present''
                        else if \<not> so_Determinate s then ''indeterminate'' else ''empty''),
            ob_Resources := so_Resources s, ob_OutputCount := so_Outputs s\<rparr>"

definition markSensitive :: "Schema \<Rightarrow> Outputs \<Rightarrow> Outputs" where
  "markSensitive s outputs =
     map (\<lambda>(key, out). (key, case map_of (sc_OutputDetails s) key of
        Some d \<Rightarrow> if o_Sensitive d then out\<lparr>ro_Sensitive := Some True\<rparr> else out
      | None \<Rightarrow> out)) outputs"

definition backendAddress :: "'st engine \<Rightarrow> gNode \<Rightarrow> string smap \<Rightarrow> string" where
  "backendAddress E n env =
     (let a = sget (effectiveBackendConfig n) ''address''; b = sget env ''TF_HTTP_ADDRESS'' in
      if a \<noteq> '''' then a else if b \<noteq> '''' then b else os_Getenv (en_OS E) ''TF_HTTP_ADDRESS'')"

text \<open>The identity of the state, or the failure of a local state that cannot be used.\<close>

definition stateIdentity :: "obsHost \<Rightarrow> 'st engine \<Rightarrow> Observation \<Rightarrow> gNode \<Rightarrow> string smap \<Rightarrow> (procWorld, Observation) eff + string" where
  "stateIdentity H E result n env =
     (if ob_Backend result \<noteq> ''local'' then Inr (backendAddress E n env)
      else (case localStatePath (en_OS E) n of
              None \<Rightarrow> Inl (failE H result ''backend_indeterminate'' ''prepare'' ''local state identity is unknown'' ''use a literal local state path'')
            | Some path \<Rightarrow>
                if oh_Regular H path then Inr path
                else Inl (failE H result ''local_state_unavailable'' ''prepare'' ''local state is unavailable in this checkout''
                            ''recover the existing state file on this machine; do not create replacement state'')))"

text \<open>The part of \<open>Read\<close> that starts subprocesses.\<close>

definition readRuntime :: "obsHost \<Rightarrow> Observation \<Rightarrow> gNode \<Rightarrow> Schema \<Rightarrow> Runner \<Rightarrow> bool \<Rightarrow> (procWorld, Observation) eff" where
  "readRuntime H result n schema r status =
     orFailE (liftR (ValidateEnv r))
       (failE H result ''invalid_environment'' ''prepare'' ''environment conflicts with the managed data directory''
          ''remove TF_DATA_DIR from the node environment'') (\<lambda>_.
     orFailE (whenE (sc_RequiresTofuFiles schema) (RequireTofuFiles (oh_Proc H) r))
       (failE H result ''unsupported_runtime'' ''prepare'' ''runtime cannot read the selected module files''
          ''install a compatible OpenTofu runtime'') (\<lambda>_.
     orFailE (InitRead (oh_Proc H) r (bn_BackendConfig (gn_Node n)) [])
       (failE H result ''initialization_failed'' ''prepare'' ''read-only backend preparation failed''
          ''check runtime, credentials, existing backend, and committed provider lockfile'') (\<lambda>_.
     if status
     then orFailE (ObserveState (oh_Proc H) r)
            (failE H result ''state_read_failed'' ''read'' ''state could not be observed'' ''check backend access and runtime compatibility'')
            (\<lambda>s. retE (observedState result s))
     else orFailE (readOutputs (oh_Proc H) r)
            (failE H result ''output_read_failed'' ''read'' ''outputs could not be observed'' ''check backend access and runtime compatibility'')
            (\<lambda>outputs. retE (result\<lparr>ob_Outputs := markSensitive schema outputs, ob_State := ''observed''\<rparr>)))))"

definition readPrepared :: "obsHost \<Rightarrow> 'st engine \<Rightarrow> string \<Rightarrow> string \<Rightarrow> bool \<Rightarrow> Observation \<Rightarrow> gNode \<Rightarrow> Schema \<Rightarrow> (procWorld, Observation) eff" where
  "readPrepared H E dir name status result n schema =
     (case EnvironmentValue (ph_Environ (oh_Proc H)) (engineRunner E name n) ''TF_WORKSPACE'' of
        Inl _ \<Rightarrow> failE H result ''invalid_environment'' ''prepare'' ''environment conflicts with the managed data directory''
                   ''remove TF_DATA_DIR from the node environment''
      | Inr workspace \<Rightarrow>
          if workspace \<noteq> None \<and> workspace \<noteq> Some '''' \<and> workspace \<noteq> Some ''default''
          then failE H result ''unsupported_workspace'' ''prepare'' ''observation supports only the default workspace''
                 ''select an independently configured default-workspace node''
          else if ob_Backend result \<noteq> ''local'' \<and> ob_Backend result \<noteq> ''http''
          then failE H result ''unsupported_backend'' ''prepare'' ''backend has no verified read-only preparation capability''
                 ''use the backend's native inspection tools''
          else
            let env = readEnv (ph_Environ (oh_Proc H)) (gn_Env n) in
            (case stateIdentity H E result n env of
               Inl failed \<Rightarrow> failed
             | Inr ident \<Rightarrow>
                 let result = result\<lparr>ob_Identity := oh_Identity H (ob_Backend result @ CHR 0x00 # ident)\<rparr> in
                 if \<not> oh_Regular H (Join [gn_Dir n, ''.terraform.lock.hcl''])
                 then failE H result ''lockfile_required'' ''prepare'' ''dependency lockfile is missing''
                        ''restore the module's committed .terraform.lock.hcl''
                 else readRuntime H result n schema
                   ((engineRunner E name n)\<lparr>rn_DataDir := Join [dir, name], rn_Env := env\<rparr>) status))"

definition readChecked :: "obsHost \<Rightarrow> 'st engine \<Rightarrow> string \<Rightarrow> string \<Rightarrow> bool \<Rightarrow> Observation \<Rightarrow> gNode \<Rightarrow> (procWorld, Observation) eff" where
  "readChecked H E dir name status result n =
     bindE tickP (\<lambda>k.
       if oh_Cancelled H k then failE H result ''cancelled'' ''read'' ''observation cancelled'' ''retry the observation''
       else (case gn_Schema n of
               None \<Rightarrow> failE H result ''module_unavailable'' ''load'' ''module cannot be inspected''
                         ''restore or vendor this node's source and correct its module syntax''
             | Some schema \<Rightarrow>
                 if gn_ObservationError n
                 then failE H result ''module_unavailable'' ''load'' ''module cannot be inspected''
                        ''restore or vendor this node's source and correct its module syntax''
                 else
                   let result = result\<lparr>ob_Backend := (if sc_Backend schema = '''' then ''local'' else sc_Backend schema)\<rparr> in
                   if \<not> sc_BackendConfigKnown schema
                   then failE H result ''backend_indeterminate'' ''prepare'' ''backend configuration is not statically known''
                          ''use literal backend configuration for observation''
                   else readPrepared H E dir name status result n schema))"

text \<open>The deferred event sees the final state; its error is kept for the end of the session.\<close>

definition finishRead :: "obsHost \<Rightarrow> (procWorld, unit) eff" where
  "finishRead H = bindE tickP (\<lambda>k.
     case oh_Finished H k of None \<Rightarrow> retE () | Some e \<Rightarrow> modifyE (\<lambda>w. w\<lparr>pw_Completion := pw_Completion w @ [e]\<rparr>))"

definition Read :: "obsHost \<Rightarrow> 'st engine \<Rightarrow> string \<Rightarrow> string \<Rightarrow> bool \<Rightarrow> (procWorld, Observation) eff" where
  "Read H E dir name status =
     (case map_of (g_Nodes (en_Graph E)) name of
        None \<Rightarrow> throwE (ErrText ''nil dereference'')
      | Some n \<Rightarrow>
          let result = \<lparr>ob_Node = name, ob_Runtime = runtimeFor E name, ob_Backend = '''', ob_Identity = '''', ob_State = ''indeterminate'',
                         ob_Outputs = [], ob_Resources = 0, ob_OutputCount = 0, ob_Diagnostic = None\<rparr> in
          (case oh_Prepare H of
             None \<Rightarrow> readChecked H E dir name status result n
           | Some prepare \<Rightarrow>
               bindE tickP (\<lambda>k.
               bindE (if prepare k then readChecked H E dir name status result n
                      else retE (observationFailure result ''plugin_failed'' ''prepare'' ''plugin rejected observation preparation''
                             ''review the plugin policy and diagnostics'')) (\<lambda>res.
               thenE (finishRead H) (retE res)))))"

subsection \<open>What a read starts\<close>

text \<open>The cleared environment.\<close>

lemma suppress_map: "map_of (suppress keys env) k = (if hiddenOverride k \<and> k \<in> set keys then Some '''' else map_of env k)"
  unfolding suppress_def by (induction keys rule: rev_induct) (auto simp: update_conv')

lemma suppress_keys: "fst ` set (suppress keys env) = fst ` set env \<union> {k \<in> set keys. hiddenOverride k}"
  unfolding suppress_def by (induction keys rule: rev_induct) (auto simp: dom_update)

lemma readEnv_disguised: "disguised (readEnv environ env) k \<longleftrightarrow> disguised env k"
proof -
  have "fst ` set (readEnv environ env) = insert ''TF_WORKSPACE'' (fst ` set env \<union> {k \<in> cutKey ` set environ. hiddenOverride k})"
    by (auto simp: readEnv_def Let_def dom_update suppress_keys)
  then show ?thesis unfolding disguised_def by auto
qed

lemma readEnv_workspace: "map_of (readEnv environ env) ''TF_WORKSPACE'' = Some ''default''"
  by (simp add: readEnv_def Let_def update_conv')

lemma hidden_not_workspace: "hiddenOverride k \<Longrightarrow> k \<noteq> ''TF_WORKSPACE'' \<and> k \<noteq> ''TF_DATA_DIR''"
proof -
  have "\<not> hiddenOverride ''TF_WORKSPACE''" "\<not> hiddenOverride ''TF_DATA_DIR''" by code_simp+
  then show "hiddenOverride k \<Longrightarrow> ?thesis" by auto
qed

lemma readEnv_hidden:
  "hiddenOverride k \<Longrightarrow> map_of (readEnv environ env) k = (if k \<in> fst ` set env \<or> k \<in> cutKey ` set environ then Some '''' else None)"
  using hidden_not_workspace [of k]
  by (auto simp: readEnv_def Let_def update_conv' suppress_map suppress_keys map_of_eq_None_iff image_iff)

text \<open>The variables a started process reads.\<close>

lemma hidden_cleared:
  assumes "hiddenOverride k" "rn_Env r = readEnv environ env"
  shows "envLookup (environ @ dataDirEntry r @ overrideEntries (rn_Env r)) k \<in> {None, Some ''''} \<longleftrightarrow> \<not> disguised env k"
proof (cases "CHR ''='' \<in> set k")
  case True
  then have "cutKey e \<noteq> k" for e by (metis cutKey_no_eq)
  then show ?thesis using envLookup_None by (simp add: disguised_def)
next
  case False
  have data: "envLookup (dataDirEntry r) k = None"
    using hidden_not_workspace [OF assms(1)] by (auto simp: dataDirEntry_def envLookup_single cutKey_def)
  show ?thesis
  proof (cases "disguised env k")
    case True
    then obtain v where "envLookup (overrideEntries (rn_Env r)) k = Some v" "CHR ''='' \<in> set v"
      using envLookup_override(2) [OF False] readEnv_disguised assms(2) by metis
    then show ?thesis using True by (auto simp: envLookup_append)
  next
    case plain: False
    then have "envLookup (overrideEntries (rn_Env r)) k = map_of (readEnv environ env) k"
      using envLookup_override(1) [OF False, of "rn_Env r"] readEnv_disguised assms(2) by auto
    moreover have "envLookup environ k = None" if "k \<notin> cutKey ` set environ"
      using that by (intro envLookup_None) blast
    ultimately show ?thesis
      using plain by (auto simp: envLookup_append data readEnv_hidden [OF assms(1)] split: option.splits if_splits)
  qed
qed

lemma workspace_default:
  assumes "\<not> disguised env ''TF_WORKSPACE''" "rn_Env r = readEnv environ env"
  shows "envLookup (environ @ dataDirEntry r @ overrideEntries (rn_Env r)) ''TF_WORKSPACE'' = Some ''default''"
proof -
  have "envLookup (overrideEntries (rn_Env r)) ''TF_WORKSPACE'' = Some ''default''"
    using envLookup_override(1) [of "''TF_WORKSPACE''" "rn_Env r"] readEnv_workspace readEnv_disguised assms by auto
  then show ?thesis by (simp add: envLookup_append)
qed

text \<open>A disguised workspace is refused before anything starts, because its value contains an equals sign.\<close>

lemma workspace_checked:
  assumes "EnvironmentValue environ r ''TF_WORKSPACE'' = Inr v" "v = None \<or> v = Some '''' \<or> v = Some ''default''"
  shows "\<not> disguised (rn_Env r) ''TF_WORKSPACE''"
proof
  assume d: "disguised (rn_Env r) ''TF_WORKSPACE''"
  then obtain x where x: "envLookup (overrideEntries (rn_Env r)) ''TF_WORKSPACE'' = Some x" "CHR ''='' \<in> set x"
    using envLookup_override(2) [of "''TF_WORKSPACE''"] by auto
  have "rn_Env r \<noteq> []" using d by (auto simp: disguised_def)
  then have "v = Some x"
    using assms(1) x(1) by (auto simp: EnvironmentValue_def runnerEnv_def envLookup_append)
  then show False using x(2) assms(2) by auto
qed

text \<open>Every path cleans to something.\<close>

lemma cleanStep_nonempty: "[] \<notin> set acc \<Longrightarrow> [] \<notin> set (cleanStep b acc c)"
  by (cases acc) (auto simp: cleanStep_def)

lemma clean_nonempty: "[] \<notin> set acc \<Longrightarrow> [] \<notin> set (foldl (cleanStep b) acc cs)"
  by (induction cs arbitrary: acc) (simp_all add: cleanStep_nonempty)

lemma joinWith_nonempty: "cs \<noteq> [] \<Longrightarrow> [] \<notin> set cs \<Longrightarrow> joinWith sep cs \<noteq> []"
  by (induction cs rule: induct_list012) auto

lemma Clean_nonempty: "Clean p \<noteq> ''''"
  using clean_nonempty [of "[]"] joinWith_nonempty by (auto simp: Clean_def Let_def)

lemma Join_nonempty: "d \<noteq> '''' \<Longrightarrow> Join (d # ds) \<noteq> ''''"
  by (simp add: Join_def Clean_nonempty)

text \<open>
  A command a read of the node may start. \<open>c\<close> reads, works on the private data directory and the default workspace,
  and sees a logging or argument override only through a disguised name.
\<close>

definition readingCommand :: "'st engine \<Rightarrow> string \<Rightarrow> string \<Rightarrow> gNode \<Rightarrow> command \<Rightarrow> bool" where
  "readingCommand E dir name n c \<longleftrightarrow>
     cm_Args c \<in> {[''version'', ''-json''], initReadArgs (bn_BackendConfig (gn_Node n)) [], [''state'', ''pull''], [''output'', ''-json'']} \<and>
     cm_Binary c = runtimeFor E name \<and> cm_Dir c = gn_Dir n \<and>
     envLookup (cm_Env c) ''TF_DATA_DIR'' = Some (Join [dir, name]) \<and>
     envLookup (cm_Env c) ''TF_WORKSPACE'' = Some ''default'' \<and>
     (\<forall>k. hiddenOverride k \<longrightarrow> (envLookup (cm_Env c) k \<in> {None, Some ''''} \<longleftrightarrow> \<not> disguised (gn_Env n) k))"

lemma started_orFail [relatesI]:
  "relates (startedOnly P) m \<Longrightarrow> relates (startedOnly P) h \<Longrightarrow> (\<And>x. relates (startedOnly P) (k x)) \<Longrightarrow>
   relates (startedOnly P) (orFailE m h k)"
  unfolding orFailE_def by (intro relatesI)

lemma started_fail [relatesI]: "relates (startedOnly P) (failE H result code phase message remedy)"
  unfolding failE_def by (intro relatesI)

lemma started_readRuntime:
  assumes "\<And>args. args \<in> {[''version'', ''-json''], initReadArgs (bn_BackendConfig (gn_Node n)) [], [''state'', ''pull''], [''output'', ''-json'']} \<Longrightarrow>
    relates (startedOnly P) (runArgs (oh_Proc H) r args)"
  shows "relates (startedOnly P) (readRuntime H result n schema r status)"
  unfolding readRuntime_def RequireTofuFiles_def InitRead_def ObserveState_def readOutputs_def
  by (intro relatesI assms) (auto intro!: relatesI split: prod.split)

lemma started_readPrepared:
  assumes "hookAllowed (oh_Proc H)" "dir \<noteq> ''''"
  shows "relates (startedOnly (readingCommand E dir name n)) (readPrepared H E dir name status result n schema)"
proof -
  let ?env = "readEnv (ph_Environ (oh_Proc H)) (gn_Env n)"
  let ?r = "(engineRunner E name n)\<lparr>rn_DataDir := Join [dir, name], rn_Env := ?env\<rparr>"
  have run: "relates (startedOnly (readingCommand E dir name n)) (runArgs (oh_Proc H) ?r args)"
    if args: "args \<in> {[''version'', ''-json''], initReadArgs (bn_BackendConfig (gn_Node n)) [], [''state'', ''pull''], [''output'', ''-json'']}"
      and plain: "\<not> disguised (gn_Env n) ''TF_WORKSPACE''" for args
  proof (rule started_runArgs [OF assms(1)])
    show dd: "rn_DataDir ?r \<noteq> ''''" using Join_nonempty [OF assms(2)] by simp
    fix c
    let ?entries = "ph_Environ (oh_Proc H) @ dataDirEntry ?r @ overrideEntries (rn_Env ?r)"
    assume e: "runnerEnv (ph_Environ (oh_Proc H)) ?r = Inr (Some ?entries)" and c: "startedBy ?r ?entries args c"
    have m: "envLookup (cm_Env c) k = envLookup ?entries k" if "managedName k" for k
      using c that unfolding startedBy_def by blast
    show "readingCommand E dir name n c"
      using c args runnerEnv_data_dir(2) [OF e dd] workspace_default [OF plain, of ?r "ph_Environ (oh_Proc H)"]
        hidden_cleared [of _ ?r "ph_Environ (oh_Proc H)" "gn_Env n"] m
      unfolding readingCommand_def startedBy_def by (simp add: managedName_def engineRunner_def)
  qed
  show ?thesis
  proof (cases "EnvironmentValue (ph_Environ (oh_Proc H)) (engineRunner E name n) ''TF_WORKSPACE''")
    case (Inl e)
    then show ?thesis by (simp add: readPrepared_def started_fail)
  next
    case (Inr v)
    show ?thesis
    proof (cases "v = None \<or> v = Some '''' \<or> v = Some ''default''")
      case False
      then show ?thesis by (simp add: readPrepared_def Inr started_fail)
    next
      case True
      then have "\<not> disguised (gn_Env n) ''TF_WORKSPACE''"
        using workspace_checked [OF Inr] by (simp add: engineRunner_def)
      then have rt: "relates (startedOnly (readingCommand E dir name n)) (readRuntime H result' n schema ?r status)" for result'
        using run by (intro started_readRuntime) blast
      have ident: "relates (startedOnly (readingCommand E dir name n)) m" if "stateIdentity H E result n ?env = Inl m" for m
        using that by (auto simp: stateIdentity_def started_fail split: if_splits option.splits)
      show ?thesis
        unfolding readPrepared_def Inr Let_def using True ident rt
        by (auto simp: started_fail split: sum.split)
    qed
  qed
qed

lemma started_readChecked:
  assumes "hookAllowed (oh_Proc H)" "dir \<noteq> ''''"
  shows "relates (startedOnly (readingCommand E dir name n)) (readChecked H E dir name status result n)"
  unfolding readChecked_def Let_def by (intro relatesI started_readPrepared assms)

lemma started_finish: "relates (startedOnly P) (finishRead H)"
proof -
  have "relates (startedOnly P) (modifyE (\<lambda>w. w\<lparr>pw_Completion := pw_Completion w @ [e]\<rparr>))" for e
    by (auto simp: relates_def modifyE_def startedOnly_def)
  then show ?thesis unfolding finishRead_def by (intro relatesI)
qed

lemma started_Read:
  assumes "hookAllowed (oh_Proc H)" "dir \<noteq> ''''" "map_of (g_Nodes (en_Graph E)) name = Some n"
  shows "relates (startedOnly (readingCommand E dir name n)) (Read H E dir name status)"
  unfolding Read_def assms(3) option.case Let_def by (intro relatesI started_readChecked started_finish assms)

text \<open>A read always yields an observation; failures are values of it.\<close>

definition returns :: "('w, 'a) eff \<Rightarrow> bool" where
  "returns m \<longleftrightarrow> (\<forall>w. \<exists>w' x. m w = (w', Inr x))"

lemma returns_bind: "returns m \<Longrightarrow> (\<And>x. returns (f x)) \<Longrightarrow> returns (bindE m f)"
  unfolding returns_def bindE_def by (metis (mono_tags, lifting) case_prod_conv sum.case(2))

lemma returns_ret: "returns (retE x)" "returns tickP" "returns (tryE m)"
  by (auto simp: returns_def retE_def tickP_def tryE_def split: prod.split)

lemma returns_orFail: "returns h \<Longrightarrow> (\<And>x. returns (k x)) \<Longrightarrow> returns (orFailE m h k)"
  unfolding orFailE_def by (rule returns_bind) (auto simp: returns_ret split: sum.split)

lemma returns_fail: "returns (failE H result code phase message remedy)"
  unfolding failE_def by (intro returns_bind returns_ret)

lemma returns_readRuntime: "returns (readRuntime H result n schema r status)"
  unfolding readRuntime_def by (auto intro!: returns_orFail returns_fail returns_ret)

lemma returns_readPrepared: "returns (readPrepared H E dir name status result n schema)"
  unfolding readPrepared_def Let_def stateIdentity_def
  by (auto simp: returns_fail returns_readRuntime split: sum.split option.split if_split)

lemma returns_readChecked: "returns (readChecked H E dir name status result n)"
  unfolding readChecked_def Let_def
  by (intro returns_bind) (auto simp: returns_ret returns_fail returns_readPrepared split: option.split)

lemma returns_finish: "returns (finishRead H)"
proof -
  have "returns (modifyE f)" for f :: "procWorld \<Rightarrow> procWorld" by (simp add: returns_def modifyE_def)
  then show ?thesis unfolding finishRead_def by (intro returns_bind) (auto simp: returns_ret split: option.split)
qed

lemma returns_Read: "map_of (g_Nodes (en_Graph E)) name = Some n \<Longrightarrow> returns (Read H E dir name status)"
  unfolding Read_def Let_def thenE_def
  by (auto intro!: returns_bind returns_readChecked returns_finish simp: returns_ret split: option.split)

lemma observationNames_known:
  "observationNames g target = Inr names \<Longrightarrow> name \<in> set names \<Longrightarrow> \<exists>n. map_of (g_Nodes g) name = Some n"
  by (auto simp: observationNames_def Let_def hasKey_def map_of_eq_None_iff split: if_splits dest!: weak_map_of_SomeI)

subsection \<open>A concrete observation\<close>

definition tracedNode :: gNode where
  "tracedNode =
     \<lparr>gn_Node = \<lparr>bn_Inputs = [], bn_Credentials = [], bn_Name = ''net'', bn_Source = ''./net'', bn_BackendConfig = [(''address'', ''http://s'')],
        bn_BackendAddress = None, bn_Vars = [], bn_Runtime = '''', bn_Env = [], bn_Approve = ''''\<rparr>,
      gn_Schema = Some \<lparr>sc_RequiresTofuFiles = False, sc_Variables = [], sc_Outputs = [], sc_OutputDetails = [], sc_Backend = ''http'',
        sc_BackendConfig = [], sc_BackendAttributes = None, sc_BackendConfigKnown = True\<rparr>,
      gn_ObservationError = False, gn_Dir = ''/w/net'', gn_Runtime = None,
      gn_Env = [(''TF_CLI_ARGS'', ''-no-color''), (''TF_LOG=TRACE'', ''x'')], gn_Approve = ''''\<rparr>"

definition tracedEngine :: "(payload executionDir) engine" where
  "tracedEngine = sampleEngine\<lparr>en_Graph := emptyGraph\<lparr>g_Nodes := [(''net'', tracedNode)]\<rparr>\<rparr>"

definition tracedHost :: obsHost where
  "tracedHost =
     \<lparr>oh_Proc = \<lparr>ph_Environ = [''HOME=/root'', ''TF_LOG_PATH=/tmp/log''], ph_Hook = Some (\<lambda>_ _. Inr [(''AWS_SECRET'', ''s'')]),
        ph_Finish = (\<lambda>_. None), ph_Run = (\<lambda>_ _. Inr ''{}''), ph_Outputs = (\<lambda>_. Inr ([], False)),
        ph_State = (\<lambda>_. Inr (\<lparr>sd_Serial = 1, sd_Version = 4, sd_Instances = [2], sd_Outputs = 0\<rparr>, False)),
        ph_Version = (\<lambda>_. Inl (ErrText ''version'')), ph_BelowMinimum = (\<lambda>_. None)\<rparr>,
      oh_Cancelled = (\<lambda>_. False), oh_Prepare = None, oh_Finished = (\<lambda>_. None), oh_Regular = (\<lambda>_. True), oh_Identity = (\<lambda>s. s)\<rparr>"

lemma tracedHost_allowed: "hookAllowed (oh_Proc tracedHost)"
proof -
  have "CredentialEnvironmentAllowed ''AWS_SECRET''" by code_simp
  then show ?thesis by (simp add: hookAllowed_def tracedHost_def)
qed

definition noProcs :: procWorld where
  "noProcs = \<lparr>pw_Clock = 0, pw_Started = [], pw_Completion = []\<rparr>"

subsection \<open>Properties\<close>

text \<open>
  C36: reading an observed node always returns an observation, and every subprocess it starts is one of the four reading
  commands (version, read-only init, state pull, output), run by the node's runtime in its directory with
  the session's private data directory and the default workspace, whatever environment terragraph itself
  has and whatever credentials a plugin adds. A variable that passes runtime arguments or enables logging is
  empty for the process exactly when no environment name of the node carries it before an equals sign: such a
  name is cleared under its own spelling and still reaches the process.
\<close>

theorem observation_reads_only:
  assumes "hookAllowed (oh_Proc H)" "dir \<noteq> ''''"
    and "observationNames (en_Graph E) target = Inr names" "name \<in> set names"
  shows "\<exists>n w' res cs. map_of (g_Nodes (en_Graph E)) name = Some n \<and> Read H E dir name status w = (w', Inr res) \<and>
    pw_Started w' = pw_Started w @ cs \<and> list_all (readingCommand E dir name n) cs"
proof -
  obtain n where n: "map_of (g_Nodes (en_Graph E)) name = Some n"
    using observationNames_known [OF assms(3,4)] by blast
  obtain w' res where run: "Read H E dir name status w = (w', Inr res)"
    using returns_Read [OF n] unfolding returns_def by blast
  have "startedOnly (readingCommand E dir name n) w w'"
    by (rule relatesD [OF started_Read [OF assms(1,2) n] run])
  then show ?thesis using n run unfolding startedOnly_def by blast
qed

theorem observation_reads_only_witness:
  "observationNames (en_Graph tracedEngine) '''' = Inr [''net''] \<and>
   (\<exists>w' res c cs. Read tracedHost tracedEngine ''/w/read'' ''net'' True noProcs = (w', Inr res) \<and> ob_State res = ''present'' \<and>
      pw_Started w' = c # cs \<and> readingCommand tracedEngine ''/w/read'' ''net'' tracedNode c \<and>
      envLookup (cm_Env c) ''TF_LOG'' \<notin> {None, Some ''''} \<and> envLookup (cm_Env c) ''TF_LOG_PATH'' \<in> {None, Some ''''})"
proof -
  let ?run = "Read tracedHost tracedEngine ''/w/read'' ''net'' True noProcs"
  have names: "observationNames (en_Graph tracedEngine) '''' = Inr [''net'']" by code_simp
  have ran: "length (pw_Started (fst ?run)) = 2 \<and> map_sum (\<lambda>_. ()) ob_State (snd ?run) = Inr ''present''" by code_simp
  have none: "pw_Started noProcs = []" and node: "map_of (g_Nodes (en_Graph tracedEngine)) ''net'' = Some tracedNode"
    by (simp_all add: noProcs_def tracedEngine_def)
  obtain w' res cs where r: "?run = (w', Inr res)" "pw_Started w' = cs" "list_all (readingCommand tracedEngine ''/w/read'' ''net'' tracedNode) cs"
    using observation_reads_only [OF tracedHost_allowed _ names, of "''/w/read''" "''net''" True noProcs] node none by auto
  then obtain c rest where cs: "cs = c # rest" using ran r(1,2) by (cases cs) auto
  have c: "readingCommand tracedEngine ''/w/read'' ''net'' tracedNode c" using r(3) cs by simp
  have "hiddenOverride ''TF_LOG''" "hiddenOverride ''TF_LOG_PATH''" "disguised (gn_Env tracedNode) ''TF_LOG''" "\<not> disguised (gn_Env tracedNode) ''TF_LOG_PATH''"
    by code_simp+
  then have "envLookup (cm_Env c) ''TF_LOG'' \<notin> {None, Some ''''} \<and> envLookup (cm_Env c) ''TF_LOG_PATH'' \<in> {None, Some ''''}"
    using c unfolding readingCommand_def by blast
  moreover have "ob_State res = ''present''" using ran r(1) by simp
  ultimately show ?thesis using names r(1,2) cs c by blast
qed

end
