(* ===== verification/Diagnostics.thy ===== *)
theory Diagnostics
  imports Observation
begin

text \<open>
  Diagnostics of failed runs (\<open>internal/engine/diagnostic.go\<close>): the tree of wrapped and joined errors is walked once, and
  every cause that is not already reported becomes one diagnostic with the metadata attached on the way down. The result is
  proved equal to a specification that looks at each cause and the path to it, without the walk's accumulator.
\<close>

subsection \<open>Errors\<close>

text \<open>
  What \<open>errors.Is\<close> can tell of a cause, and the four shapes the walk tells apart. The first argument is the identity
  an excluded error is compared with, \<^const>\<open>None\<close> for a type that is not comparable; \<open>Unwrap\<close> may return nil.
\<close>

datatype errKind = KCancelled | KLockHeld | KConflict | KOther

datatype errTree =
    Cause "nat option" errKind string
  | Wrapped "nat option" string "errTree option"
  | JoinedErrs "nat option" "errTree list"
  | DiagnosticErr "nat option" Diagnostic errTree

fun errIdentity :: "errTree \<Rightarrow> nat option" where
  "errIdentity (Cause i k m) = i"
| "errIdentity (Wrapped i m e) = i"
| "errIdentity (JoinedErrs i es) = i"
| "errIdentity (DiagnosticErr i d e) = i"

fun errMessage :: "errTree \<Rightarrow> string" where
  "errMessage (Cause i k m) = m"
| "errMessage (Wrapped i m e) = m"
| "errMessage (JoinedErrs i es) = joinWith [CHR 0x0A] (map errMessage es)"
| "errMessage (DiagnosticErr i d e) = errMessage e"

definition WithDiagnostic_tree :: "nat \<Rightarrow> errTree option \<Rightarrow> Diagnostic \<Rightarrow> errTree option" where
  "WithDiagnostic_tree i err d =
     map_option (\<lambda>e. DiagnosticErr (Some i) (if dg_Message d = '''' then d\<lparr>dg_Message := errMessage e\<rparr> else d) e) err"

subsection \<open>The walk\<close>

definition inherit :: "Diagnostic \<Rightarrow> Diagnostic \<Rightarrow> Diagnostic" where
  "inherit d current =
     d\<lparr>dg_Subject := (if dg_Subject d = '''' then dg_Subject current else dg_Subject d),
       dg_Phase := (if dg_Phase d = '''' then dg_Phase current else dg_Phase d),
       dg_Category := (if dg_Category d = '''' then dg_Category current else dg_Category d)\<rparr>"

definition classify :: "errKind \<Rightarrow> Diagnostic \<Rightarrow> Diagnostic" where
  "classify k d =
     (case k of
        KCancelled \<Rightarrow> if dg_Category d \<noteq> ''record'' then d\<lparr>dg_Code := ''cancelled'', dg_Category := ''cancelled''\<rparr> else d
      | KLockHeld \<Rightarrow> d\<lparr>dg_Code := ''lock_held'', dg_Category := ''lock'', dg_Remedy := ''wait for the current executor to finish before retrying''\<rparr>
      | KConflict \<Rightarrow> d\<lparr>dg_Code := ''execution_record_conflict'', dg_Category := ''record''\<rparr>
      | KOther \<Rightarrow> d)"

definition causeDiagnostic :: "errKind \<Rightarrow> string \<Rightarrow> Diagnostic \<Rightarrow> Diagnostic" where
  "causeDiagnostic k m current =
     (let d = classify k current;
          d1 = (if dg_Code d = '''' then d\<lparr>dg_Code := ''runtime_failed''\<rparr> else d) in
      if dg_Message d1 = '''' then d1\<lparr>dg_Message := m\<rparr> else d1)"

definition skipped :: "nat list \<Rightarrow> errTree \<Rightarrow> bool" where
  "skipped excluded e \<longleftrightarrow> (case errIdentity e of None \<Rightarrow> False | Some i \<Rightarrow> i \<in> set excluded)"

fun walk :: "nat list \<Rightarrow> errTree \<Rightarrow> Diagnostic \<Rightarrow> Diagnostic list" where
  "walk ex (DiagnosticErr i d e) current =
     (if skipped ex (DiagnosticErr i d e) then [] else walk ex e (inherit d current))"
| "walk ex (JoinedErrs i es) current =
     (if skipped ex (JoinedErrs i es) then [] else concat (map (\<lambda>e. walk ex e (current\<lparr>dg_Message := ''''\<rparr>)) es))"
| "walk ex (Wrapped i m e) current =
     (if skipped ex (Wrapped i m e) then []
      else (case e of
              None \<Rightarrow> []
            | Some e' \<Rightarrow> walk ex e' (if dg_Message current = '''' then current\<lparr>dg_Message := m\<rparr> else current)))"
| "walk ex (Cause i k m) current =
     (if skipped ex (Cause i k m) then [] else [causeDiagnostic k m current])"

definition normalized :: "Diagnostic \<Rightarrow> Diagnostic" where
  "normalized d =
     (let d1 = (if dg_Severity d = '''' then d\<lparr>dg_Severity := ''error''\<rparr> else d) in
      if dg_Category d1 = '''' then d1\<lparr>dg_Category := ''unknown''\<rparr> else d1)"

definition addDiagnostic :: "Diagnostic list \<Rightarrow> Diagnostic \<Rightarrow> Diagnostic list" where
  "addDiagnostic result d = (if normalized d \<in> set result then result else result @ [normalized d])"

definition Diagnostics :: "errTree option \<Rightarrow> Diagnostic \<Rightarrow> nat list \<Rightarrow> Diagnostic list" where
  "Diagnostics err fallback excluded =
     foldl addDiagnostic [] (case err of None \<Rightarrow> [] | Some e \<Rightarrow> walk excluded e fallback)"

subsection \<open>What the diagnostics should be\<close>

text \<open>
  The causes of an error from left to right, each with the errors that enclose it, outermost first. A cause is reported
  unless one of these, or the cause itself, is excluded.
\<close>

fun allCauses :: "errTree \<Rightarrow> (errTree list \<times> errTree) list" where
  "allCauses (Cause i k m) = [([], Cause i k m)]"
| "allCauses (Wrapped i m e) =
     (case e of None \<Rightarrow> [] | Some e' \<Rightarrow> map (\<lambda>(path, c). (Wrapped i m e # path, c)) (allCauses e'))"
| "allCauses (JoinedErrs i es) = concat (map (\<lambda>e. map (\<lambda>(path, c). (JoinedErrs i es # path, c)) (allCauses e)) es)"
| "allCauses (DiagnosticErr i d e) = map (\<lambda>(path, c). (DiagnosticErr i d e # path, c)) (allCauses e)"

definition reportedCauses :: "nat list \<Rightarrow> errTree \<Rightarrow> (errTree list \<times> errTree) list" where
  "reportedCauses ex e = filter (\<lambda>pc. list_all (\<lambda>f. \<not> skipped ex f) (fst pc @ [snd pc])) (allCauses e)"

definition firstNonEmpty :: "string list \<Rightarrow> string" where
  "firstNonEmpty xs = (case filter (\<lambda>x. x \<noteq> '''') xs of x # _ \<Rightarrow> x | [] \<Rightarrow> '''')"

fun attachment :: "errTree \<Rightarrow> Diagnostic option" where
  "attachment (DiagnosticErr i d e) = Some d"
| "attachment e = None"

fun wrapperText :: "errTree \<Rightarrow> string option" where
  "wrapperText (Wrapped i m e) = Some m"
| "wrapperText e = None"

text \<open>
  The metadata of a cause: subject, phase and category are the innermost that are set; the rest is that of the innermost
  attachment. The message is the one attached below the last join, else the text of the outermost wrapper
  there, else the text of the cause.
\<close>

definition attachments :: "Diagnostic \<Rightarrow> errTree list \<Rightarrow> Diagnostic list" where
  "attachments fallback path = fallback # List.map_filter attachment path"

definition innermostSet :: "(Diagnostic \<Rightarrow> string) \<Rightarrow> Diagnostic \<Rightarrow> errTree list \<Rightarrow> string" where
  "innermostSet field fallback path = firstNonEmpty (rev (map field (attachments fallback path)))"

definition contextMessage :: "Diagnostic \<Rightarrow> errTree list \<Rightarrow> string" where
  "contextMessage fallback path =
     (let below = rev (takeWhile (\<lambda>f. wrapperText f \<noteq> None) (rev path));
          attached = (case dropWhile (\<lambda>f. wrapperText f \<noteq> None) (rev path) of
              [] \<Rightarrow> dg_Message fallback
            | f # _ \<Rightarrow> (case attachment f of Some d \<Rightarrow> dg_Message d | None \<Rightarrow> '''')) in
      firstNonEmpty (attached # List.map_filter wrapperText below))"

fun causeKind :: "errTree \<Rightarrow> errKind" where
  "causeKind (Cause i k m) = k"
| "causeKind e = KOther"

definition expectedDiagnostic :: "Diagnostic \<Rightarrow> errTree list \<times> errTree \<Rightarrow> Diagnostic" where
  "expectedDiagnostic fallback pc =
     (let path = fst pc; kind = causeKind (snd pc);
          attached = last (attachments fallback path);
          category = innermostSet dg_Category fallback path;
          named = (case kind of
              KCancelled \<Rightarrow> if category = ''record'' then None else Some (''cancelled'', ''cancelled'')
            | KLockHeld \<Rightarrow> Some (''lock_held'', ''lock'')
            | KConflict \<Rightarrow> Some (''execution_record_conflict'', ''record'')
            | KOther \<Rightarrow> None) in
      \<lparr>dg_Code = firstNonEmpty [(case named of Some (code, _) \<Rightarrow> code | None \<Rightarrow> dg_Code attached), ''runtime_failed''],
       dg_Phase = innermostSet dg_Phase fallback path,
       dg_Subject = innermostSet dg_Subject fallback path,
       dg_Message = firstNonEmpty [contextMessage fallback path, errMessage (snd pc)],
       dg_Remedy = (if kind = KLockHeld then ''wait for the current executor to finish before retrying'' else dg_Remedy attached),
       dg_Category = firstNonEmpty [(case named of Some (_, c) \<Rightarrow> c | None \<Rightarrow> category), ''unknown''],
       dg_Severity = firstNonEmpty [dg_Severity attached, ''error''],
       dg_RelatedExecutionID = dg_RelatedExecutionID attached\<rparr>)"

definition firstOccurrences :: "'a list \<Rightarrow> 'a list" where
  "firstOccurrences xs = rev (remdups (rev xs))"

subsection \<open>The walk finds them\<close>

text \<open>What one enclosing error does to the metadata that is passed down.\<close>

fun frame :: "Diagnostic \<Rightarrow> errTree \<Rightarrow> Diagnostic" where
  "frame c (DiagnosticErr i d e) = inherit d c"
| "frame c (JoinedErrs i es) = c\<lparr>dg_Message := ''''\<rparr>"
| "frame c (Wrapped i m e) = (if dg_Message c = '''' then c\<lparr>dg_Message := m\<rparr> else c)"
| "frame c (Cause i k m) = c\<lparr>dg_Message := ''''\<rparr>"

abbreviation reported :: "nat list \<Rightarrow> errTree list \<times> errTree \<Rightarrow> bool" where
  "reported ex pc \<equiv> list_all (\<lambda>f. \<not> skipped ex f) (fst pc @ [snd pc])"

abbreviation under :: "errTree \<Rightarrow> (errTree list \<times> errTree) list \<Rightarrow> (errTree list \<times> errTree) list" where
  "under f xs \<equiv> map (\<lambda>(path, c). (f # path, c)) xs"

lemma filter_under: "filter (reported ex) (under f xs) = (if skipped ex f then [] else under f (filter (reported ex) xs))"
  by (induction xs) auto

lemma concat_filter_under:
  "filter (reported ex) (concat (map (\<lambda>e. under f (g e)) es)) =
   (if skipped ex f then [] else concat (map (\<lambda>e. under f (filter (reported ex) (g e))) es))"
  by (induction es) (simp_all only: list.map concat.simps filter_append filter_under filter.simps split: if_splits, simp_all)

abbreviation contextOf :: "Diagnostic \<Rightarrow> errTree list \<times> errTree \<Rightarrow> Diagnostic" where
  "contextOf c pc \<equiv> causeDiagnostic (causeKind (snd pc)) (errMessage (snd pc)) (foldl frame c (fst pc))"

lemma map_under: "map (contextOf c) (under f xs) = map (contextOf (frame c f)) xs"
  by (induction xs) auto

lemma map_concat_under:
  "map (contextOf c) (concat (map (\<lambda>e. under f (g e)) es)) = concat (map (\<lambda>e. map (contextOf (frame c f)) (g e)) es)"
  by (induction es) (simp_all only: list.map concat.simps map_append map_under)

lemma walk_causes: "walk ex e c = map (contextOf c) (reportedCauses ex e)"
proof (induction ex e c rule: walk.induct)
  case (2 ex i es c)
  show ?case
  proof (cases "skipped ex (JoinedErrs i es)")
    case True
    then show ?thesis by (simp only: walk.simps allCauses.simps reportedCauses_def concat_filter_under if_True list.map)
  next
    case False
    with 2 have "map (\<lambda>e. walk ex e (c\<lparr>dg_Message := ''''\<rparr>)) es =
        map (\<lambda>e. map (contextOf (frame c (JoinedErrs i es))) (filter (reported ex) (allCauses e))) es"
      by (simp add: reportedCauses_def)
    with False show ?thesis
      by (simp only: walk.simps allCauses.simps reportedCauses_def concat_filter_under map_concat_under if_False)
  qed
next
  case (1 ex i d e c)
  then show ?case
    by (cases "skipped ex (DiagnosticErr i d e)")
      (simp_all only: walk.simps allCauses.simps reportedCauses_def filter_under map_under if_True if_False list.map frame.simps
        not_False_eq_True True_implies_equals)
next
  case (3 ex i m e c)
  then show ?case
    by (cases e; cases "skipped ex (Wrapped i m e)")
      (simp_all only: walk.simps allCauses.simps reportedCauses_def filter_under map_under if_True if_False list.map frame.simps
        option.case filter.simps not_False_eq_True True_implies_equals)
next
  case (4 ex i k m c)
  then show ?case by (simp add: reportedCauses_def)
qed

lemma firstNonEmpty_simps [simp]:
  "firstNonEmpty [] = ''''" "firstNonEmpty (x # xs) = (if x = '''' then firstNonEmpty xs else x)"
  by (simp_all add: firstNonEmpty_def)

lemma map_filter_append: "List.map_filter f (xs @ ys) = List.map_filter f xs @ List.map_filter f ys"
  by (simp add: List.map_filter_def)

lemma map_filter_one: "List.map_filter f [] = []" "List.map_filter f [x] = (case f x of Some y \<Rightarrow> [y] | None \<Rightarrow> [])"
  by (simp_all add: List.map_filter_def split: option.split)

lemma attachments_snoc: "attachments c (path @ [f]) = attachments c path @ (case attachment f of Some d \<Rightarrow> [d] | None \<Rightarrow> [])"
  by (simp add: attachments_def map_filter_append map_filter_one split: option.split)

lemma innermostSet_snoc:
  "innermostSet field c (path @ [f]) =
   (case attachment f of Some d \<Rightarrow> if field d = '''' then innermostSet field c path else field d | None \<Rightarrow> innermostSet field c path)"
  by (simp add: innermostSet_def attachments_snoc split: option.split)

text \<open>The metadata passed down a path.\<close>

lemma context_fields:
  "dg_Subject (foldl frame c path) = innermostSet dg_Subject c path"
  "dg_Phase (foldl frame c path) = innermostSet dg_Phase c path"
  "dg_Category (foldl frame c path) = innermostSet dg_Category c path"
  "dg_Code (foldl frame c path) = dg_Code (last (attachments c path))"
  "dg_Remedy (foldl frame c path) = dg_Remedy (last (attachments c path))"
  "dg_Severity (foldl frame c path) = dg_Severity (last (attachments c path))"
  "dg_RelatedExecutionID (foldl frame c path) = dg_RelatedExecutionID (last (attachments c path))"
proof (induction path rule: rev_induct)
  case Nil
  {
    case 1 show ?case by (simp add: innermostSet_def attachments_def)
  next
    case 2 show ?case by (simp add: innermostSet_def attachments_def)
  next
    case 3 show ?case by (simp add: innermostSet_def attachments_def)
  next
    case 4 show ?case by (simp add: attachments_def)
  next
    case 5 show ?case by (simp add: attachments_def)
  next
    case 6 show ?case by (simp add: attachments_def)
  next
    case 7 show ?case by (simp add: attachments_def)
  }
next
  case (snoc f path)
  {
    case 1 show ?case using snoc by (cases f) (simp_all add: innermostSet_snoc inherit_def)
  next
    case 2 show ?case using snoc by (cases f) (simp_all add: innermostSet_snoc inherit_def)
  next
    case 3 show ?case using snoc by (cases f) (simp_all add: innermostSet_snoc inherit_def)
  next
    case 4 show ?case using snoc by (cases f) (simp_all add: attachments_snoc inherit_def)
  next
    case 5 show ?case using snoc by (cases f) (simp_all add: attachments_snoc inherit_def)
  next
    case 6 show ?case using snoc by (cases f) (simp_all add: attachments_snoc inherit_def)
  next
    case 7 show ?case using snoc by (cases f) (simp_all add: attachments_snoc inherit_def)
  }
qed

lemma firstNonEmpty_snoc: "firstNonEmpty (xs @ [x]) = (if firstNonEmpty xs = '''' then x else firstNonEmpty xs)"
  by (induction xs) simp_all

lemma context_message: "dg_Message (foldl frame c path) = contextMessage c path"
proof (induction path rule: rev_induct)
  case Nil
  show ?case by (simp add: contextMessage_def Let_def map_filter_one)
next
  case (snoc f path)
  show ?case
  proof (cases f)
    case (Wrapped i m e)
    let ?a = "case dropWhile (\<lambda>f. wrapperText f \<noteq> None) (rev path) of [] \<Rightarrow> dg_Message c
      | f # _ \<Rightarrow> (case attachment f of Some d \<Rightarrow> dg_Message d | None \<Rightarrow> '''')"
    let ?b = "List.map_filter wrapperText (rev (takeWhile (\<lambda>f. wrapperText f \<noteq> None) (rev path)))"
    have "contextMessage c (path @ [f]) = firstNonEmpty ((?a # ?b) @ [m])"
      using Wrapped by (simp add: contextMessage_def Let_def map_filter_append map_filter_one)
    also have "\<dots> = (if contextMessage c path = '''' then m else contextMessage c path)"
      unfolding firstNonEmpty_snoc contextMessage_def Let_def ..
    finally show ?thesis using snoc Wrapped by simp
  qed (use snoc in \<open>simp_all add: contextMessage_def Let_def inherit_def map_filter_one\<close>)
qed

lemma expected_normalized: "normalized (contextOf c pc) = expectedDiagnostic c pc"
proof (cases pc)
  case (Pair path e)
  note fields = context_fields [of c path] context_message [of c path]
  show ?thesis
    by (cases "causeKind e")
      (simp_all add: Pair normalized_def causeDiagnostic_def classify_def expectedDiagnostic_def Let_def fields)
qed

lemma firstOccurrences_snoc:
  "firstOccurrences (xs @ [x]) = (if x \<in> set xs then firstOccurrences xs else firstOccurrences xs @ [x])"
  by (simp add: firstOccurrences_def)

lemma addDiagnostic_first: "foldl addDiagnostic [] ds = firstOccurrences (map normalized ds)"
proof (induction ds rule: rev_induct)
  case (snoc d ds)
  have "set (firstOccurrences (map normalized ds)) = normalized ` set ds" by (simp add: firstOccurrences_def)
  with snoc show ?case by (simp add: addDiagnostic_def firstOccurrences_snoc)
qed (simp add: firstOccurrences_def)

subsection \<open>Properties\<close>

text \<open>
  C38: no failure is hidden by the report of another, and each is reported as what it is. The diagnostics of an error are, in
  order and once each, those of its causes outside every excluded, already reported error. A diagnostic names a held lock, a record
  conflict or a cancellation as such (a cancellation while a record is written stays a record failure) and otherwise
  carries the code of the innermost attachment; subject, phase and category are the innermost that are set, and the
  message is the most specific one attached or wrapped below the last join.
\<close>

theorem diagnostics_exact:
  "Diagnostics (Some e) fallback excluded = firstOccurrences (map (expectedDiagnostic fallback) (reportedCauses excluded e)) \<and>
   Diagnostics None fallback excluded = []"
  by (simp add: Diagnostics_def addDiagnostic_first walk_causes comp_def expected_normalized)

end
