(* ===== verification/Module_Inspect.thy ===== *)
theory Module_Inspect
  imports Hcl_Read Observed
begin

text \<open>
  Inspection of a root module (\<open>internal/module/files.go\<close>, \<open>inspect.go\<close>): which configuration files the selected runtime
  reads, and the variables, outputs and backend they declare, override files included.

  The loader of terraform-config-inspect, the HCL parser, the evaluator and the decoders are a record of
  functions. Descriptions and deprecation texts, and the evidence kept only to compare two runtimes, stand beside the
  schema the rest of the model uses.
\<close>

subsection \<open>Files\<close>

record dirEntry =
  de_Name :: string
  de_IsDir :: bool
  de_InfoOk :: bool

record moduleFile =
  mf_Name :: string
  mf_Alias :: string
  mf_Override :: bool

definition configurationExtension :: "string \<Rightarrow> string" where
  "configurationExtension name =
     (case find (HasSuffix name) [''.tf.json'', ''.tofu.json'', ''.tf'', ''.tofu''] of Some ext \<Rightarrow> ext | None \<Rightarrow> '''')"

text \<open>\<open>strings.Replace(ext, old, new, 1)\<close> on an extension that starts with \<open>old\<close> or does not contain it.\<close>

definition swapExtension :: "string \<Rightarrow> string \<Rightarrow> string \<Rightarrow> string" where
  "swapExtension old new ext = (if HasPrefix ext old then new @ drop (length old) ext else ext)"

definition ignoredName :: "string \<Rightarrow> bool" where
  "ignoredName name \<longleftrightarrow> HasPrefix name ''.'' \<or> HasSuffix name ''~'' \<or> HasPrefix name ''#'' \<and> HasSuffix name ''#''"

definition tofuCounterpart :: "string \<Rightarrow> string" where
  "tofuCounterpart name = TrimSuffix name (configurationExtension name) @ swapExtension ''.tf'' ''.tofu'' (configurationExtension name)"

definition isTofuFile :: "string \<Rightarrow> bool" where
  "isTofuFile name = HasPrefix (configurationExtension name) ''.tofu''"

definition selects :: "FileMode \<Rightarrow> dirEntry list \<Rightarrow> dirEntry \<Rightarrow> bool" where
  "selects mode entries e \<longleftrightarrow>
     \<not> de_IsDir e \<and> \<not> ignoredName (de_Name e) \<and> configurationExtension (de_Name e) \<noteq> '''' \<and>
     \<not> (isTofuFile (de_Name e) \<and> mode \<noteq> OpenTofuFiles) \<and>
     \<not> (\<not> isTofuFile (de_Name e) \<and> mode = OpenTofuFiles \<and>
        (\<exists>p \<in> set entries. \<not> de_IsDir p \<and> de_Name p = tofuCounterpart (de_Name e)))"

definition moduleFileOf :: "string \<Rightarrow> moduleFile" where
  "moduleFileOf name =
     (let ext = configurationExtension name; base = TrimSuffix name ext in
      \<lparr>mf_Name = name, mf_Alias = base @ swapExtension ''.tofu'' ''.tf'' ext,
       mf_Override = (base = ''override'' \<or> HasSuffix base ''_override'')\<rparr>)"

definition selectedFiles :: "FileMode \<Rightarrow> dirEntry list \<Rightarrow> goErr + moduleFile list" where
  "selectedFiles mode entries =
     (let chosen = filter (selects mode entries) entries; files = map (moduleFileOf \<circ> de_Name) chosen in
      if list_ex (\<lambda>e. \<not> de_InfoOk e) chosen then Inl (ErrText ''reading module file'')
      else Inr (filter (\<lambda>f. \<not> mf_Override f) files @ filter mf_Override files))"

subsection \<open>Library\<close>

record tfVariable =
  tv_Type :: string
  tv_Description :: string
  tv_Sensitive :: bool
  tv_Deprecated :: string
  tv_Required :: bool

record tfOutput =
  to_Type :: string
  to_Description :: string
  to_Sensitive :: bool
  to_Deprecated :: string

record tfModule =
  tm_Variables :: "tfVariable smap"
  tm_Outputs :: "tfOutput smap"

text \<open>
  \<open>ml_JustAttributes\<close> also says whether there were errors; \<open>ml_DecodeString\<close> gives what the target holds afterwards and
  whether there were errors, \<open>ml_DecodeBool\<close> what a target of the given value holds; \<open>ml_Marshal\<close> is the JSON of the type
  and of the value.
\<close>

record ('b, 'e) modLib =
  ml_ReadDir :: "string \<Rightarrow> goErr + dirEntry list"
  ml_ReadFile :: "string \<Rightarrow> string option"
  ml_LoadModule :: "string \<Rightarrow> moduleFile list \<Rightarrow> goErr + tfModule"
  ml_ParseHCL :: "string \<Rightarrow> 'b option"
  ml_ParseJSON :: "string \<Rightarrow> 'b option"
  ml_Partial :: "hclSchema \<Rightarrow> 'b \<Rightarrow> ('b, 'e) hclContent"
  ml_JustAttributes :: "'b \<Rightarrow> 'e smap \<times> bool"
  ml_Value :: "'e \<Rightarrow> ctyval option"
  ml_ConvertString :: "ctyval \<Rightarrow> string option"
  ml_DecodeString :: "'e \<Rightarrow> string \<times> bool"
  ml_DecodeBool :: "bool \<Rightarrow> 'e \<Rightarrow> bool"
  ml_Source :: "'e \<Rightarrow> string"
  ml_Marshal :: "ctyval \<Rightarrow> (string \<times> string) option"

subsection \<open>Declarations\<close>

text \<open>The schema with descriptions, deprecations and the comparison evidence; \<open>in_HasConfig\<close> is a backend configuration that is not nil.\<close>

record inspected =
  in_Schema :: Schema
  in_Texts :: "(string \<times> string) smap"
  in_HasConfig :: bool
  in_Comparison :: "string smap smap"

record 'e declState =
  ds_Out :: inspected
  ds_Cloud :: bool
  ds_Ports :: "'e smap smap"

definition rootSchema :: hclSchema where
  "rootSchema = \<lparr>sc_Attributes = [], sc_Blocks = [(''variable'', [''name'']), (''output'', [''name'']), (''terraform'', [])]\<rparr>"

definition terraformBackendSchema :: hclSchema where
  "terraformBackendSchema = \<lparr>sc_Attributes = [], sc_Blocks = [(''backend'', [''type'']), (''cloud'', [])]\<rparr>"

definition portMetadataSchema :: hclSchema where
  "portMetadataSchema =
     \<lparr>sc_Attributes = map (\<lambda>a. (a, False)) [''type'', ''description'', ''sensitive'', ''deprecated'', ''default'', ''nullable'', ''ephemeral'', ''const''],
      sc_Blocks = []\<rparr>"

definition expressionIdentity :: "('b, 'e) modLib \<Rightarrow> 'e \<Rightarrow> string" where
  "expressionIdentity L e =
     (case ml_Value L e of
        Some v \<Rightarrow> if isWhollyKnown v
                  then (case ml_Marshal L v of Some (t, j) \<Rightarrow> t @ '':'' @ j | None \<Rightarrow> ''expression:'' @ ml_Source L e)
                  else ''expression:'' @ ml_Source L e
      | None \<Rightarrow> ''expression:'' @ ml_Source L e)"

definition bodyIdentity :: "('b, 'e) modLib \<Rightarrow> 'b \<Rightarrow> string \<Rightarrow> string smap" where
  "bodyIdentity L body src =
     (case ml_JustAttributes L body of (attrs, failed) \<Rightarrow>
        let result = map (\<lambda>(name, e). (name, expressionIdentity L e)) attrs in
        if failed then AList.update ''#source'' src result else result)"

text \<open>A backend attribute is known when it is a string, number or boolean that converts.\<close>

definition backendScalar :: "('b, 'e) modLib \<Rightarrow> 'e \<Rightarrow> string option" where
  "backendScalar L e =
     (case ml_Value L e of
        Some (VString s) \<Rightarrow> ml_ConvertString L (VString s)
      | Some (VNumber n) \<Rightarrow> ml_ConvertString L (VNumber n)
      | Some (VBool b) \<Rightarrow> ml_ConvertString L (VBool b)
      | _ \<Rightarrow> None)"

definition resetBackend :: "'e declState \<Rightarrow> 'e declState" where
  "resetBackend st =
     st\<lparr>ds_Cloud := False,
        ds_Out := (ds_Out st)\<lparr>in_HasConfig := False,
          in_Schema := (in_Schema (ds_Out st))\<lparr>sc_Backend := '''', sc_BackendConfig := [], sc_BackendAttributes := None, sc_BackendConfigKnown := True\<rparr>,
          in_Comparison := AList.delete ''backend'' (AList.delete ''cloud'' (in_Comparison (ds_Out st)))\<rparr>\<rparr>"

definition setComparison :: "string \<Rightarrow> string smap \<Rightarrow> 'e declState \<Rightarrow> 'e declState" where
  "setComparison key v st = st\<lparr>ds_Out := (ds_Out st)\<lparr>in_Comparison := AList.update key v (in_Comparison (ds_Out st))\<rparr>\<rparr>"

definition declareBackend :: "('b, 'e) modLib \<Rightarrow> bool \<Rightarrow> string \<Rightarrow> 'e declState \<Rightarrow> 'b hclBlock \<Rightarrow> goErr + 'e declState" where
  "declareBackend L override src st b =
     (let st1 = (if override then resetBackend st else st) in
      if hb_Type b = ''cloud'' then Inr (setComparison ''cloud'' (bodyIdentity L (hb_Body b) src) (st1\<lparr>ds_Cloud := True\<rparr>))
      else (case hb_Labels b of
              [] \<Rightarrow> Inl (ErrText ''index out of range'')
            | label # _ \<Rightarrow>
                (case ml_JustAttributes L (hb_Body b) of (attrs, failed) \<Rightarrow>
                   let s = (in_Schema (ds_Out st1))\<lparr>sc_Backend := label,
                         sc_BackendConfig := List.map_filter (\<lambda>(name, e). map_option (Pair name) (backendScalar L e)) attrs,
                         sc_BackendAttributes := (if failed then None else Some (map (\<lambda>(name, e). (name, True)) attrs)),
                         sc_BackendConfigKnown := (\<not> failed \<and> list_all (\<lambda>(name, e). backendScalar L e \<noteq> None) attrs)\<rparr> in
                   Inr (setComparison ''backend'' (bodyIdentity L (hb_Body b) src)
                          (st1\<lparr>ds_Out := (ds_Out st1)\<lparr>in_Schema := s, in_HasConfig := True\<rparr>\<rparr>)))))"

definition declarePort :: "bool \<Rightarrow> string \<Rightarrow> 'e smap \<Rightarrow> 'e smap smap \<Rightarrow> 'e smap smap" where
  "declarePort override key attrs ports =
     AList.update key (AList.merge (if override then (case map_of ports key of Some m \<Rightarrow> m | None \<Rightarrow> []) else []) attrs) ports"

definition declareBlock :: "('b, 'e) modLib \<Rightarrow> bool \<Rightarrow> string \<Rightarrow> 'e declState \<Rightarrow> 'b hclBlock \<Rightarrow> goErr + 'e declState" where
  "declareBlock L override src st block =
     (if hb_Type block = ''variable'' \<or> hb_Type block = ''output''
      then (case hb_Labels block of
              [] \<Rightarrow> Inl (ErrText ''index out of range'')
            | label # _ \<Rightarrow>
                Inr (st\<lparr>ds_Ports := declarePort override (hb_Type block @ ''.'' @ label)
                       (hc_Attributes (ml_Partial L portMetadataSchema (hb_Body block))) (ds_Ports st)\<rparr>))
      else foldR (declareBackend L override src) st (hc_Blocks (ml_Partial L terraformBackendSchema (hb_Body block))))"

definition parsedFile :: "('b, 'e) modLib \<Rightarrow> string \<Rightarrow> moduleFile \<Rightarrow> (string \<times> 'b) option" where
  "parsedFile L dir f =
     (case ml_ReadFile L (Join [dir, mf_Name f]) of
        None \<Rightarrow> None
      | Some src \<Rightarrow> map_option (Pair src) (if HasSuffix (mf_Name f) ''.json'' then ml_ParseJSON L src else ml_ParseHCL L src))"

definition declareFile :: "('b, 'e) modLib \<Rightarrow> string \<Rightarrow> 'e declState \<Rightarrow> moduleFile \<Rightarrow> goErr + 'e declState" where
  "declareFile L dir st f =
     (case parsedFile L dir f of
        None \<Rightarrow> Inr st
      | Some (src, body) \<Rightarrow> foldR (declareBlock L (mf_Override f) src) st (hc_Blocks (ml_Partial L rootSchema body)))"

subsection \<open>Ports\<close>

definition attrText :: "('b, 'e) modLib \<Rightarrow> 'e smap \<Rightarrow> string \<Rightarrow> string" where
  "attrText L attrs name =
     (case map_of attrs name of
        None \<Rightarrow> ''''
      | Some e \<Rightarrow> (case ml_DecodeString L e of (v, failed) \<Rightarrow> if name = ''type'' \<and> failed then ml_Source L e else v))"

definition attrBool :: "('b, 'e) modLib \<Rightarrow> 'e smap \<Rightarrow> string \<Rightarrow> bool \<Rightarrow> bool" where
  "attrBool L attrs name unset = (case map_of attrs name of None \<Rightarrow> unset | Some e \<Rightarrow> ml_DecodeBool L unset e)"

definition portVariable :: "('b, 'e) modLib \<Rightarrow> string \<Rightarrow> 'e smap \<Rightarrow> Variable" where
  "portVariable L name attrs =
     \<lparr>v_Name = name, v_Type = attrText L attrs ''type'', v_Sensitive = attrBool L attrs ''sensitive'' False,
      v_Required = (map_of attrs ''default'' = None), v_Nullable = Some (attrBool L attrs ''nullable'' True),
      v_Default = Option.bind (map_of attrs ''default'') (ml_Value L), v_Ephemeral = attrBool L attrs ''ephemeral'' False,
      v_Const = attrBool L attrs ''const'' False\<rparr>"

definition portOutput :: "('b, 'e) modLib \<Rightarrow> string \<Rightarrow> 'e smap \<Rightarrow> Output" where
  "portOutput L name attrs =
     \<lparr>o_Name = name, o_Type = attrText L attrs ''type'', o_Sensitive = attrBool L attrs ''sensitive'' False\<rparr>"

text \<open>\<open>strings.Cut(key, ".")\<close>.\<close>

definition portKind :: "string \<Rightarrow> string" where
  "portKind key = takeWhile (\<lambda>c. c \<noteq> CHR ''.'') key"

definition portName :: "string \<Rightarrow> string" where
  "portName key = tl (dropWhile (\<lambda>c. c \<noteq> CHR ''.'') key)"

definition applyPort :: "('b, 'e) modLib \<Rightarrow> inspected \<Rightarrow> string \<times> 'e smap \<Rightarrow> inspected" where
  "applyPort L out port =
     (case port of (key, attrs) \<Rightarrow>
        let name = portName key; s = in_Schema out;
            out1 = out\<lparr>in_Texts := AList.update key (attrText L attrs ''description'', attrText L attrs ''deprecated'') (in_Texts out)\<rparr> in
        if portKind key = ''variable''
        then let out2 = out1\<lparr>in_Schema := s\<lparr>sc_Variables := AList.update name (portVariable L name attrs) (sc_Variables s)\<rparr>\<rparr> in
          (case map_of attrs ''default'' of
             None \<Rightarrow> out2
           | Some e \<Rightarrow> out2\<lparr>in_Comparison := AList.update key [(''default'', expressionIdentity L e)] (in_Comparison out2)\<rparr>)
        else out1\<lparr>in_Schema := s\<lparr>sc_OutputDetails := AList.update name (portOutput L name attrs) (sc_OutputDetails s)\<rparr>\<rparr>)"

definition inspectDeclarations :: "('b, 'e) modLib \<Rightarrow> string \<Rightarrow> inspected \<Rightarrow> moduleFile list \<Rightarrow> goErr + inspected" where
  "inspectDeclarations L dir out files =
     bindR (foldR (declareFile L dir)
              \<lparr>ds_Out = out\<lparr>in_Schema := (in_Schema out)\<lparr>sc_BackendConfigKnown := True\<rparr>, in_Comparison := []\<rparr>, ds_Cloud = False, ds_Ports = []\<rparr>
              files) (\<lambda>st.
       let out1 = foldl (applyPort L) (ds_Out st) (ds_Ports st) in
       Inr (if sc_Backend (in_Schema out1) = '''' \<and> ds_Cloud st
            then out1\<lparr>in_Schema := (in_Schema out1)\<lparr>sc_Backend := ''cloud''\<rparr>\<rparr> else out1))"

subsection \<open>Inspection\<close>

definition loadedVariable :: "string \<Rightarrow> tfVariable \<Rightarrow> Variable" where
  "loadedVariable name v =
     \<lparr>v_Name = name, v_Type = tv_Type v, v_Sensitive = tv_Sensitive v, v_Required = tv_Required v, v_Nullable = None, v_Default = None,
      v_Ephemeral = False, v_Const = False\<rparr>"

definition loadedSchema :: "moduleFile list \<Rightarrow> tfModule \<Rightarrow> inspected" where
  "loadedSchema files m =
     \<lparr>in_Schema = \<lparr>sc_RequiresTofuFiles = list_ex (\<lambda>f. HasSuffix (mf_Name f) ''.tofu'' \<or> HasSuffix (mf_Name f) ''.tofu.json'') files,
        sc_Variables = map (\<lambda>(name, v). (name, loadedVariable name v)) (tm_Variables m),
        sc_Outputs = map (\<lambda>(name, o'). (name, True)) (tm_Outputs m),
        sc_OutputDetails = map (\<lambda>(name, o'). (name, \<lparr>o_Name = name, o_Type = to_Type o', o_Sensitive = to_Sensitive o'\<rparr>)) (tm_Outputs m),
        sc_Backend = '''', sc_BackendConfig = [], sc_BackendAttributes = None, sc_BackendConfigKnown = False\<rparr>,
      in_Texts = map (\<lambda>(name, v). (''variable.'' @ name, (tv_Description v, tv_Deprecated v))) (tm_Variables m) @
                 map (\<lambda>(name, o'). (''output.'' @ name, (to_Description o', to_Deprecated o'))) (tm_Outputs m),
      in_HasConfig = False, in_Comparison = []\<rparr>"

definition inspectMode :: "('b, 'e) modLib \<Rightarrow> string \<Rightarrow> FileMode \<Rightarrow> goErr + inspected" where
  "inspectMode L dir mode =
     bindR (ml_ReadDir L dir) (\<lambda>entries.
     bindR (selectedFiles mode entries) (\<lambda>files.
     bindR (ml_LoadModule L dir files) (\<lambda>m.
     inspectDeclarations L dir (loadedSchema files m) files)))"

text \<open>\<open>reflect.DeepEqual\<close> on maps and schemas.\<close>

definition sameMap :: "'v smap \<Rightarrow> 'v smap \<Rightarrow> bool" where
  "sameMap m m' \<longleftrightarrow> list_all (\<lambda>k. map_of m k = map_of m' k) (map fst m @ map fst m')"

definition sameOptMap :: "'v smap option \<Rightarrow> 'v smap option \<Rightarrow> bool" where
  "sameOptMap a b = (case (a, b) of (None, None) \<Rightarrow> True | (Some x, Some y) \<Rightarrow> sameMap x y | _ \<Rightarrow> False)"

definition sameSchema :: "Schema \<Rightarrow> Schema \<Rightarrow> bool" where
  "sameSchema a b \<longleftrightarrow>
     sc_RequiresTofuFiles a = sc_RequiresTofuFiles b \<and> sameMap (sc_Variables a) (sc_Variables b) \<and> sameMap (sc_Outputs a) (sc_Outputs b) \<and>
     sameMap (sc_OutputDetails a) (sc_OutputDetails b) \<and> sc_Backend a = sc_Backend b \<and> sameMap (sc_BackendConfig a) (sc_BackendConfig b) \<and>
     sameOptMap (sc_BackendAttributes a) (sc_BackendAttributes b) \<and> sc_BackendConfigKnown a = sc_BackendConfigKnown b"

definition sameComparison :: "string smap smap \<Rightarrow> string smap smap \<Rightarrow> bool" where
  "sameComparison m m' \<longleftrightarrow> list_all (\<lambda>k. sameOptMap (map_of m k) (map_of m' k)) (map fst m @ map fst m')"

definition sameInspected :: "inspected \<Rightarrow> inspected \<Rightarrow> bool" where
  "sameInspected a b \<longleftrightarrow> sameSchema (in_Schema a) (in_Schema b) \<and> sameMap (in_Texts a) (in_Texts b) \<and> in_HasConfig a = in_HasConfig b \<and>
     sameComparison (in_Comparison a) (in_Comparison b)"

definition InspectModule :: "('b, 'e) modLib \<Rightarrow> string \<Rightarrow> FileMode \<Rightarrow> goErr + inspected" where
  "InspectModule L dir mode =
     (if mode = UnknownFiles
      then bindR (inspectMode L dir TerraformFiles) (\<lambda>terraform.
           bindR (inspectMode L dir OpenTofuFiles) (\<lambda>tofu.
             if sameInspected terraform (tofu\<lparr>in_Schema := (in_Schema tofu)\<lparr>sc_RequiresTofuFiles := False\<rparr>\<rparr>) then Inr terraform
             else Inl (ErrText ''runtime binary is ambiguous and Terraform/OpenTofu declarations differ'')))
      else inspectMode L dir mode)"

subsection \<open>The declarations in force\<close>

text \<open>Every port declaration of the selected files, in the order the runtime reads them: override file, port, attributes.\<close>

definition blockDecl :: "('b, 'e) modLib \<Rightarrow> bool \<Rightarrow> 'b hclBlock \<Rightarrow> (bool \<times> string \<times> 'e smap) list" where
  "blockDecl L override block =
     (case hb_Labels block of
        label # _ \<Rightarrow>
          if hb_Type block = ''variable'' \<or> hb_Type block = ''output''
          then [(override, hb_Type block @ ''.'' @ label, hc_Attributes (ml_Partial L portMetadataSchema (hb_Body block)))] else []
      | [] \<Rightarrow> [])"

definition fileDecls :: "('b, 'e) modLib \<Rightarrow> string \<Rightarrow> moduleFile \<Rightarrow> (bool \<times> string \<times> 'e smap) list" where
  "fileDecls L dir f =
     (case parsedFile L dir f of
        None \<Rightarrow> []
      | Some (src, body) \<Rightarrow> concat (map (blockDecl L (mf_Override f)) (hc_Blocks (ml_Partial L rootSchema body))))"

definition portDecls :: "('b, 'e) modLib \<Rightarrow> string \<Rightarrow> moduleFile list \<Rightarrow> (bool \<times> string \<times> 'e smap) list" where
  "portDecls L dir files = concat (map (fileDecls L dir) files)"

text \<open>
  The attribute in force: the last override that sets it; otherwise what the last ordinary declaration says.
\<close>

definition declsOf :: "bool \<Rightarrow> (bool \<times> string \<times> 'e smap) list \<Rightarrow> string \<Rightarrow> 'e smap list" where
  "declsOf override decls key = map (snd \<circ> snd) (filter (\<lambda>(o', k, a). o' = override \<and> k = key) decls)"

definition effectiveAttr :: "(bool \<times> string \<times> 'e smap) list \<Rightarrow> string \<Rightarrow> string \<Rightarrow> 'e option" where
  "effectiveAttr decls key name =
     (let overrides = filter (\<lambda>a. hasKey a name) (declsOf True decls key); ordinary = declsOf False decls key in
      if overrides \<noteq> [] then map_of (last overrides) name else if ordinary \<noteq> [] then map_of (last ordinary) name else None)"

definition primaryFirst :: "(bool \<times> 'a) list \<Rightarrow> bool" where
  "primaryFirst decls \<longleftrightarrow> sorted_wrt (\<lambda>d d'. fst d \<longrightarrow> fst d') decls"

definition declares :: "(bool \<times> string \<times> 'e smap) list \<Rightarrow> string \<Rightarrow> bool" where
  "declares decls key \<longleftrightarrow> (\<exists>o' a. (o', key, a) \<in> set decls)"

definition applyDecl :: "'e smap smap \<Rightarrow> bool \<times> string \<times> 'e smap \<Rightarrow> 'e smap smap" where
  "applyDecl ports d = (case d of (o', key, a) \<Rightarrow> declarePort o' key a ports)"

lemma declareBackend_ports: "declareBackend L o' src st b = Inr st' \<Longrightarrow> ds_Ports st' = ds_Ports st"
  by (auto simp: declareBackend_def Let_def resetBackend_def setComparison_def split: if_splits list.splits prod.splits)

lemma foldR_ports:
  assumes "\<And>st x st'. f st x = Inr st' \<Longrightarrow> ds_Ports st' = foldl applyDecl (ds_Ports st) (g x)"
  shows "foldR f st xs = Inr st' \<Longrightarrow> ds_Ports st' = foldl applyDecl (ds_Ports st) (concat (map g xs))"
  using assms by (induction xs arbitrary: st) auto

lemma declareBlock_ports:
  assumes "declareBlock L o' src st block = Inr st'"
  shows "ds_Ports st' = foldl applyDecl (ds_Ports st) (blockDecl L o' block)"
proof (cases "hb_Type block = ''variable'' \<or> hb_Type block = ''output''")
  case True
  then show ?thesis using assms by (auto simp: declareBlock_def blockDecl_def applyDecl_def split: list.splits)
next
  case False
  then have "foldR (declareBackend L o' src) st (hc_Blocks (ml_Partial L terraformBackendSchema (hb_Body block))) = Inr st'"
    using assms by (simp add: declareBlock_def)
  then have "ds_Ports st' = ds_Ports st"
    by (rule foldR_inv [where I = "\<lambda>s. ds_Ports s = ds_Ports st"]) (auto dest: declareBackend_ports)
  then show ?thesis using False by (auto simp: blockDecl_def split: list.splits)
qed

lemma declareFile_ports:
  assumes "declareFile L dir st f = Inr st'"
  shows "ds_Ports st' = foldl applyDecl (ds_Ports st) (fileDecls L dir f)"
proof (cases "parsedFile L dir f")
  case None
  then show ?thesis using assms by (simp add: declareFile_def fileDecls_def)
next
  case (Some p)
  then show ?thesis
    using assms foldR_ports [of "declareBlock L (mf_Override f) (fst p)" "blockDecl L (mf_Override f)" st _ st', OF declareBlock_ports]
    by (cases p) (auto simp: declareFile_def fileDecls_def)
qed

lemma files_ports:
  "foldR (declareFile L dir) st files = Inr st' \<Longrightarrow> ds_Ports st' = foldl applyDecl (ds_Ports st) (portDecls L dir files)"
  unfolding portDecls_def by (rule foldR_ports [where f = "declareFile L dir"]) (rule declareFile_ports)

text \<open>Ordinary declarations come first, so the folded attributes are those in force.\<close>

lemma applyDecl_lookup:
  "map_of (applyDecl ports (o', key', a)) key =
   (if key = key' then Some (AList.merge (if o' then (case map_of ports key of Some m \<Rightarrow> m | None \<Rightarrow> []) else []) a) else map_of ports key)"
  by (simp add: applyDecl_def declarePort_def update_conv')

lemma declsOf_snoc:
  "declsOf o1 (decls @ [(o2, key', a)]) key = declsOf o1 decls key @ (if o2 = o1 \<and> key' = key then [a] else [])"
  by (simp add: declsOf_def)

lemma declsOf_override: "\<forall>d \<in> set decls. \<not> fst d \<Longrightarrow> declsOf True decls key = []"
  by (induction decls) (auto simp: declsOf_def)

lemma effective_snoc:
  assumes "\<not> o2 \<Longrightarrow> \<forall>d \<in> set decls. \<not> fst d"
  shows "effectiveAttr (decls @ [(o2, key', a)]) key name =
    (if key' \<noteq> key then effectiveAttr decls key name
     else if o2 then (case map_of a name of Some e \<Rightarrow> Some e | None \<Rightarrow> effectiveAttr decls key name)
     else map_of a name)"
  using assms declsOf_override [of decls key]
  by (cases o2) (auto simp: effectiveAttr_def Let_def declsOf_snoc hasKey_def simp del: hasKey_iff split: option.splits)

lemma declares_snoc: "declares (decls @ [(x, key', a)]) key \<longleftrightarrow> declares decls key \<or> key' = key"
  by (auto simp: declares_def)

lemma ports_effective:
  assumes "primaryFirst decls"
  shows "(case map_of (foldl applyDecl [] decls) key of
      None \<Rightarrow> \<not> declares decls key
    | Some attrs \<Rightarrow> declares decls key \<and> (\<forall>name. map_of attrs name = effectiveAttr decls key name))"
  using assms
proof (induction decls rule: rev_induct)
  case Nil
  then show ?case by (simp add: declares_def)
next
  case (snoc d decls)
  obtain o2 key' a where d: "d = (o2, key', a)" by (metis prod_cases3)
  have first: "\<forall>d \<in> set decls. \<not> fst d" if "\<not> o2" using snoc.prems that by (auto simp: primaryFirst_def sorted_wrt_append d)
  have none: "effectiveAttr decls key name = None" if "\<not> declares decls key" for name
  proof -
    have "declsOf o' decls key = []" for o' using that by (auto simp: declsOf_def declares_def filter_empty_conv)
    then show ?thesis by (simp add: effectiveAttr_def)
  qed
  show ?case
    using snoc.IH snoc.prems effective_snoc [of o2 decls key' a key, OF first] none
    by (auto simp: d applyDecl_lookup declares_snoc primaryFirst_def sorted_wrt_append merge_conv' map_add_def split: option.splits)
qed

text \<open>Distinct ports, each named by its kind.\<close>

definition portKeys :: "'e smap smap \<Rightarrow> bool" where
  "portKeys ports \<longleftrightarrow> distinctKeys ports \<and> (\<forall>key \<in> fst ` set ports. \<exists>kind name. kind \<in> {''variable'', ''output''} \<and> key = kind @ ''.'' @ name)"

lemma port_key_cut:
  "kind \<in> {''variable'', ''output''} \<Longrightarrow> portKind (kind @ CHR ''.'' # name) = kind"
  "kind \<in> {''variable'', ''output''} \<Longrightarrow> portName (kind @ CHR ''.'' # name) = name"
  by (auto simp: portKind_def portName_def)

lemma applyDecls_keys:
  "portKeys ports \<Longrightarrow> \<forall>d \<in> set decls. \<exists>kind name. kind \<in> {''variable'', ''output''} \<and> fst (snd d) = kind @ ''.'' @ name \<Longrightarrow>
   portKeys (foldl applyDecl ports decls)"
proof (induction decls arbitrary: ports)
  case (Cons d decls)
  have "portKeys (applyDecl ports d)"
    using Cons.prems by (cases d) (auto simp: portKeys_def applyDecl_def declarePort_def dom_update distinctKeys_def distinct_update)
  then show ?case using Cons by simp
qed simp

lemma blockDecl_keys: "d \<in> set (blockDecl L o' b) \<Longrightarrow> \<exists>kind name. kind \<in> {''variable'', ''output''} \<and> fst (snd d) = kind @ ''.'' @ name"
  by (auto simp: blockDecl_def split: list.splits if_splits)

lemma fileDecls_block: "d \<in> set (fileDecls L dir f) \<Longrightarrow> \<exists>b. d \<in> set (blockDecl L (mf_Override f) b)"
  by (auto simp: fileDecls_def split: option.splits)

lemma portDecls_keys: "d \<in> set (portDecls L dir files) \<Longrightarrow> \<exists>kind name. kind \<in> {''variable'', ''output''} \<and> fst (snd d) = kind @ ''.'' @ name"
proof -
  assume "d \<in> set (portDecls L dir files)"
  then obtain f where "d \<in> set (fileDecls L dir f)" by (auto simp: portDecls_def)
  then obtain b where "d \<in> set (blockDecl L (mf_Override f) b)" using fileDecls_block by blast
  then show ?thesis by (rule blockDecl_keys)
qed

lemma fileDecls_override: "d \<in> set (fileDecls L dir f) \<Longrightarrow> fst d = mf_Override f"
  by (auto simp: blockDecl_def dest!: fileDecls_block split: list.splits if_splits)

lemma same_flag: "\<forall>d \<in> set ds. fst d = b \<Longrightarrow> primaryFirst ds"
  unfolding primaryFirst_def by (induction ds) auto

lemma portDecls_primaryFirst:
  assumes "selectedFiles mode entries = Inr files"
  shows "primaryFirst (portDecls L dir files)"
proof -
  obtain fs where f: "files = filter (\<lambda>f. \<not> mf_Override f) fs @ filter mf_Override fs"
    using assms by (auto simp: selectedFiles_def Let_def split: if_splits)
  have p: "\<forall>d \<in> set (portDecls L dir (filter (\<lambda>f. \<not> mf_Override f) fs)). fst d = False"
    and o: "\<forall>d \<in> set (portDecls L dir (filter mf_Override fs)). fst d = True"
    by (auto simp: portDecls_def dest!: fileDecls_override)
  have "portDecls L dir files = portDecls L dir (filter (\<lambda>f. \<not> mf_Override f) fs) @ portDecls L dir (filter mf_Override fs)"
    by (simp add: portDecls_def f)
  then show ?thesis
    using same_flag [OF p] same_flag [OF o] p by (simp add: primaryFirst_def sorted_wrt_append)
qed

lemma applyPort_other:
  "portKind key \<noteq> ''variable'' \<or> portName key \<noteq> name \<Longrightarrow>
     map_of (sc_Variables (in_Schema (applyPort L out (key, attrs)))) name = map_of (sc_Variables (in_Schema out)) name"
  "portKind key = ''variable'' \<or> portName key \<noteq> name \<Longrightarrow>
     map_of (sc_OutputDetails (in_Schema (applyPort L out (key, attrs)))) name = map_of (sc_OutputDetails (in_Schema out)) name"
  by (auto simp: applyPort_def Let_def update_conv' split: option.splits)

lemma applyPort_self:
  "portKind key = ''variable'' \<Longrightarrow>
     map_of (sc_Variables (in_Schema (applyPort L out (key, attrs)))) (portName key) = Some (portVariable L (portName key) attrs)"
  "portKind key \<noteq> ''variable'' \<Longrightarrow>
     map_of (sc_OutputDetails (in_Schema (applyPort L out (key, attrs)))) (portName key) = Some (portOutput L (portName key) attrs)"
  by (auto simp: applyPort_def Let_def update_conv' split: option.splits)

text \<open>Each port keeps the description its own entry gives, because no other entry has its kind and name.\<close>

lemma applyPorts_lookup:
  assumes "portKeys ports" "map_of ports (kind @ ''.'' @ name) = Some attrs" "kind \<in> {''variable'', ''output''}"
  shows "(kind = ''variable'' \<longrightarrow> map_of (sc_Variables (in_Schema (foldl (applyPort L) out ports))) name = Some (portVariable L name attrs)) \<and>
    (kind = ''output'' \<longrightarrow> map_of (sc_OutputDetails (in_Schema (foldl (applyPort L) out ports))) name = Some (portOutput L name attrs))"
  using assms
proof (induction ports rule: rev_induct)
  case (snoc p ports)
  obtain key a where p: "p = (key, a)" by (cases p)
  obtain kind' name' where key: "kind' \<in> {''variable'', ''output''}" "key = kind' @ ''.'' @ name'"
    using snoc.prems(1) by (auto simp: portKeys_def p)
  have cut: "portKind key = kind'" "portName key = name'" using port_key_cut [OF key(1), of name'] key(2) by simp_all
  show ?case
  proof (cases "key = kind @ ''.'' @ name")
    case True
    then have same: "kind' = kind" "name' = name" using port_key_cut [OF snoc.prems(3), of name] cut by simp_all
    have "kind @ ''.'' @ name \<notin> fst ` set ports" using snoc.prems(1) True by (auto simp: portKeys_def distinctKeys_def p)
    then have "map_of ports key = None" using True by (simp add: map_of_eq_None_iff)
    then have "a = attrs" using snoc.prems(2) True by (simp add: p map_add_def)
    then show ?thesis using applyPort_self [of key] cut same snoc.prems(3) by (auto simp: p)
  next
    case False
    then have look: "map_of ports (kind @ ''.'' @ name) = Some attrs" using snoc.prems(2) by (auto simp: p map_add_def split: if_splits option.splits)
    have "portKeys ports" using snoc.prems(1) by (auto simp: portKeys_def distinctKeys_def)
    then have IH: "(kind = ''variable'' \<longrightarrow> map_of (sc_Variables (in_Schema (foldl (applyPort L) out ports))) name = Some (portVariable L name attrs)) \<and>
      (kind = ''output'' \<longrightarrow> map_of (sc_OutputDetails (in_Schema (foldl (applyPort L) out ports))) name = Some (portOutput L name attrs))"
      using snoc.IH look snoc.prems(3) by blast
    have "kind' \<noteq> kind \<or> name' \<noteq> name" using False key(2) by auto
    then show ?thesis using IH cut key(1) snoc.prems(3) applyPort_other [of key name L _ a] by (auto simp: p)
  qed
qed simp

text \<open>What an inspection in one mode says of the ports its files declare.\<close>

definition portsInForce :: "('b, 'e) modLib \<Rightarrow> string \<Rightarrow> moduleFile list \<Rightarrow> Schema \<Rightarrow> bool" where
  "portsInForce L dir files s \<longleftrightarrow>
     (\<forall>name. declares (portDecls L dir files) (''variable.'' @ name) \<longrightarrow>
        (\<exists>attrs. (\<forall>a. map_of attrs a = effectiveAttr (portDecls L dir files) (''variable.'' @ name) a) \<and>
                 map_of (sc_Variables s) name = Some (portVariable L name attrs))) \<and>
     (\<forall>name. declares (portDecls L dir files) (''output.'' @ name) \<longrightarrow>
        (\<exists>attrs. (\<forall>a. map_of attrs a = effectiveAttr (portDecls L dir files) (''output.'' @ name) a) \<and>
                 map_of (sc_OutputDetails s) name = Some (portOutput L name attrs)))"

lemma inspectMode_ports:
  fixes L :: "('b, 'e) modLib"
  assumes "inspectMode L dir mode = Inr out"
  shows "\<exists>entries files. ml_ReadDir L dir = Inr entries \<and> selectedFiles mode entries = Inr files \<and> portsInForce L dir files (in_Schema out)"
proof -
  obtain entries files m where e: "ml_ReadDir L dir = Inr entries" "selectedFiles mode entries = Inr files"
    and i: "inspectDeclarations L dir (loadedSchema files m) files = Inr out"
    using assms by (auto simp: inspectMode_def)
  let ?decls = "portDecls L dir files"
  obtain st :: "'e declState" where st: "foldl applyDecl [] ?decls = ds_Ports st"
    and out: "sc_Variables (in_Schema out) = sc_Variables (in_Schema (foldl (applyPort L) (ds_Out st) (ds_Ports st)))"
      "sc_OutputDetails (in_Schema out) = sc_OutputDetails (in_Schema (foldl (applyPort L) (ds_Out st) (ds_Ports st)))"
    using i
  proof -
    obtain st where "foldR (declareFile L dir) \<lparr>ds_Out = (loadedSchema files m)\<lparr>in_Schema := (in_Schema (loadedSchema files m))
          \<lparr>sc_BackendConfigKnown := True\<rparr>, in_Comparison := []\<rparr>, ds_Cloud = False, ds_Ports = []\<rparr> files = Inr st"
      and "out \<in> {foldl (applyPort L) (ds_Out st) (ds_Ports st),
        (foldl (applyPort L) (ds_Out st) (ds_Ports st))\<lparr>in_Schema := (in_Schema (foldl (applyPort L) (ds_Out st) (ds_Ports st)))\<lparr>sc_Backend := ''cloud''\<rparr>\<rparr>}"
      using i by (auto simp: inspectDeclarations_def Let_def split: if_splits)
    then show thesis using that [of st] files_ports by force
  qed
  have keys: "portKeys (ds_Ports st)"
    unfolding st [symmetric]
  proof (rule applyDecls_keys)
    show "portKeys []" by (simp add: portKeys_def distinctKeys_def)
    show "\<forall>d \<in> set ?decls. \<exists>kind name. kind \<in> {''variable'', ''output''} \<and> fst (snd d) = kind @ ''.'' @ name"
      using portDecls_keys by blast
  qed
  have lookup: "\<exists>attrs. map_of (ds_Ports st) key = Some attrs \<and> (\<forall>a. map_of attrs a = effectiveAttr ?decls key a)"
    if "declares ?decls key" for key
    using ports_effective [OF portDecls_primaryFirst [OF e(2)], of L dir key] that by (auto simp: st split: option.splits)
  have "portsInForce L dir files (in_Schema out)"
    unfolding portsInForce_def out
  proof (intro conjI allI impI)
    fix name assume "declares ?decls (''variable.'' @ name)"
    then obtain attrs where "map_of (ds_Ports st) (''variable'' @ ''.'' @ name) = Some attrs" "\<forall>a. map_of attrs a = effectiveAttr ?decls (''variable.'' @ name) a"
      using lookup by fastforce
    then show "\<exists>attrs. (\<forall>a. map_of attrs a = effectiveAttr ?decls (''variable.'' @ name) a) \<and>
        map_of (sc_Variables (in_Schema (foldl (applyPort L) (ds_Out st) (ds_Ports st)))) name = Some (portVariable L name attrs)"
      using applyPorts_lookup [OF keys, of "''variable''" name attrs L "ds_Out st"] by blast
  next
    fix name assume "declares ?decls (''output.'' @ name)"
    then obtain attrs where "map_of (ds_Ports st) (''output'' @ ''.'' @ name) = Some attrs" "\<forall>a. map_of attrs a = effectiveAttr ?decls (''output.'' @ name) a"
      using lookup by fastforce
    then show "\<exists>attrs. (\<forall>a. map_of attrs a = effectiveAttr ?decls (''output.'' @ name) a) \<and>
        map_of (sc_OutputDetails (in_Schema (foldl (applyPort L) (ds_Out st) (ds_Ports st)))) name = Some (portOutput L name attrs)"
      using applyPorts_lookup [OF keys, of "''output''" name attrs L "ds_Out st"] by blast
  qed
  then show ?thesis using e by blast
qed

lemma sameMap_lookup:
  assumes "sameMap m m'"
  shows "map_of m k = map_of m' k"
proof (cases "k \<in> fst ` set m \<or> k \<in> fst ` set m'")
  case False
  then have "map_of m k = None" "map_of m' k = None" by (simp_all add: map_of_eq_None_iff)
  then show ?thesis by simp
qed (use assms in \<open>auto simp: sameMap_def list_all_iff\<close>)

lemma sameSchema_ports: "sameSchema a b \<Longrightarrow> portsInForce L dir files b \<Longrightarrow> portsInForce L dir files a"
proof -
  assume "sameSchema a b"
  then have "map_of (sc_Variables a) = map_of (sc_Variables b)" "map_of (sc_OutputDetails a) = map_of (sc_OutputDetails b)"
    unfolding sameSchema_def by (auto intro!: ext sameMap_lookup)
  then show "portsInForce L dir files b \<Longrightarrow> portsInForce L dir files a" by (simp add: portsInForce_def)
qed

subsection \<open>A module with an override\<close>

text \<open>Expressions are texts; a body is its attributes and its blocks.\<close>

datatype demoBody = DemoBody "(string \<times> string) list" "(string \<times> string list \<times> demoBody) list"

definition demoContent :: "hclSchema \<Rightarrow> demoBody \<Rightarrow> (demoBody, string) hclContent" where
  "demoContent schema b = (case b of DemoBody attrs blocks \<Rightarrow>
     \<lparr>hc_Attributes = filter (\<lambda>(k, v). list_ex (\<lambda>(a, r). a = k) (sc_Attributes schema)) attrs,
      hc_Blocks = map (\<lambda>(t, ls, body). \<lparr>hb_Type = t, hb_Labels = ls, hb_Body = body\<rparr>)
        (filter (\<lambda>(t, ls, body). list_ex (\<lambda>(a, r). a = t) (sc_Blocks schema)) blocks)\<rparr>)"

definition demoModules :: "(demoBody, string) modLib" where
  "demoModules =
     \<lparr>ml_ReadDir = (\<lambda>_. Inr (map (\<lambda>n. \<lparr>de_Name = n, de_IsDir = False, de_InfoOk = True\<rparr>) [''main.tf'', ''main_override.tf'', ''notes.md''])),
      ml_ReadFile = Some, ml_LoadModule = (\<lambda>_ _. Inr \<lparr>tm_Variables = [], tm_Outputs = []\<rparr>),
      ml_ParseHCL = (\<lambda>src. Some (DemoBody [] [(''variable'', [''token''],
        if src = ''/m/main.tf'' then DemoBody [(''sensitive'', ''true''), (''default'', ''a'')] [] else DemoBody [(''default'', ''b'')] [])])),
      ml_ParseJSON = (\<lambda>_. None), ml_Partial = demoContent, ml_JustAttributes = (\<lambda>_. ([], False)),
      ml_Value = (\<lambda>e. Some (VString e)), ml_ConvertString = (\<lambda>_. None), ml_DecodeString = (\<lambda>e. (e, False)),
      ml_DecodeBool = (\<lambda>b e. e = ''true''), ml_Source = id, ml_Marshal = (\<lambda>_. None)\<rparr>"

subsection \<open>Properties\<close>

text \<open>
  C10: the schema of an inspected module is the one the runtime will execute. For the selected runtime, and for both runtimes
  when the binary does not tell them apart, every variable and output the selected files declare carries exactly the
  attributes in force: the last override file that sets an attribute decides it, and an attribute no override
  mentions, such as its sensitivity, keeps the value of the last ordinary declaration.
\<close>

theorem inspected_ports_in_force:
  assumes "InspectModule L dir mode = Inr out" "runtime \<in> (if mode = UnknownFiles then {TerraformFiles, OpenTofuFiles} else {mode})"
  shows "\<exists>entries files. ml_ReadDir L dir = Inr entries \<and> selectedFiles runtime entries = Inr files \<and>
    portsInForce L dir files (in_Schema out)"
proof (cases "mode = UnknownFiles")
  case False
  then show ?thesis using assms inspectMode_ports by (auto simp: InspectModule_def)
next
  case True
  then obtain tofu where tofu: "inspectMode L dir TerraformFiles = Inr out" "inspectMode L dir OpenTofuFiles = Inr tofu"
    and "sameInspected out (tofu\<lparr>in_Schema := (in_Schema tofu)\<lparr>sc_RequiresTofuFiles := False\<rparr>\<rparr>)"
    using assms(1) by (auto simp: InspectModule_def split: if_splits)
  then have same: "sameSchema (in_Schema out) ((in_Schema tofu)\<lparr>sc_RequiresTofuFiles := False\<rparr>)" by (simp add: sameInspected_def)
  have "portsInForce L dir files (in_Schema out)" if "portsInForce L dir files (in_Schema tofu)" for files
    using that by (intro sameSchema_ports [OF same]) (simp add: portsInForce_def)
  then show ?thesis using True assms(2) inspectMode_ports [OF tofu(1)] inspectMode_ports [OF tofu(2)] by auto
qed

theorem inspected_ports_in_force_witness:
  "\<exists>out v. InspectModule demoModules ''/m'' UnknownFiles = Inr out \<and> map_of (sc_Variables (in_Schema out)) ''token'' = Some v \<and>
     v_Sensitive v \<and> v_Default v = Some (VString ''b'')"
proof -
  have "isOk (InspectModule demoModules ''/m'' UnknownFiles)" by code_simp
  then obtain out where out: "InspectModule demoModules ''/m'' UnknownFiles = Inr out" by (auto simp: isOk_iff)
  let ?fs = "map moduleFileOf [''main.tf'', ''main_override.tf'']"
  let ?ds = "portDecls demoModules ''/m'' ?fs"
  have files: "bindR (ml_ReadDir demoModules ''/m'') (selectedFiles TerraformFiles) = Inr ?fs" by code_simp
  have "portsInForce demoModules ''/m'' ?fs (in_Schema out)"
    using inspected_ports_in_force [OF out, of TerraformFiles] files by auto
  moreover have ds: "?ds = [(False, ''variable.token'', [(''sensitive'', ''true''), (''default'', ''a'')]), (True, ''variable.token'', [(''default'', ''b'')])]"
    by code_simp
  then have "declares ?ds (''variable.'' @ ''token'')" by (auto simp: declares_def)
  ultimately obtain attrs where a: "\<forall>a. map_of attrs a = effectiveAttr ?ds ''variable.token'' a"
    and v: "map_of (sc_Variables (in_Schema out)) ''token'' = Some (portVariable demoModules ''token'' attrs)"
    unfolding portsInForce_def by fastforce
  have "effectiveAttr ?ds ''variable.token'' ''sensitive'' = Some ''true''" "effectiveAttr ?ds ''variable.token'' ''default'' = Some ''b''"
    unfolding ds by code_simp+
  then have "v_Sensitive (portVariable demoModules ''token'' attrs)" "v_Default (portVariable demoModules ''token'' attrs) = Some (VString ''b'')"
    using a by (simp_all add: portVariable_def attrBool_def demoModules_def)
  then show ?thesis using out v by blast
qed

end
