(* ===== verification/Editor_Context.thy ===== *)
theory Editor_Context
  imports Module_Inspect
begin

text \<open>
  The position of the cursor in an unfinished blueprint (\<open>internal/language/context.go\<close>): which blocks are open at a byte
  offset, which attribute is being written and whether the cursor stands in a literal. The lexer and the parser of the
  HCL library are parameters; the parser also returns a tree for text with errors.
\<close>

subsection \<open>Library\<close>

datatype tokenType =
  TComment | TNewline | TEOF | TEqual | TIdent | TOQuote | TCQuote | TQuotedLit | TStringLit | TOHeredoc | TOBrace | TCBrace | TOther

record token =
  tk_Type :: tokenType
  tk_Start :: nat
  tk_End :: nat
  tk_Bytes :: string

datatype editStep = StepRoot string | StepAttr string nat nat | StepIndex

record 'e editAttr =
  ea_Name :: string
  ea_Start :: nat
  ea_Expr :: 'e

datatype 'e editBody = EditBody (eb_Attributes: "(string \<times> 'e editAttr) list") (eb_Blocks: "'e editBlock list")
and 'e editBlock = EditBlock (ek_Type: string) (ek_Labels: "string list") (ek_LabelRanges: "(nat \<times> nat) list") (ek_OpenEnd: nat)
  (ek_Body: "'e editBody")

text \<open>
  \<open>el_Parse\<close> gives the recovered body and whether there were errors; \<open>el_Variables\<close> the references in an expression;
  \<open>el_Objects\<close> the key expressions of an object; \<open>el_TypeErrors\<close> the errors of a type constraint; \<open>el_ErrorText\<close> the text of a parser error; \<open>el_Abs\<close> the
  absolute path.
\<close>

record ('e, 'b, 'm) editLib =
  el_Lex :: "string \<Rightarrow> token list"
  el_StringLiteral :: "token \<Rightarrow> string"
  el_Parse :: "string \<Rightarrow> ('e editBody \<times> bool) option"
  el_Value :: "'e \<Rightarrow> ctyval option"
  el_Traversal :: "'e \<Rightarrow> editStep list option"
  el_Variables :: "'e \<Rightarrow> editStep list list"
  el_Objects :: "'e \<Rightarrow> 'e list option"
  el_Range :: "'e \<Rightarrow> nat \<times> nat"
  el_ParseExpression :: "string \<Rightarrow> 'e option"
  el_TypeErrors :: "'e \<Rightarrow> string list"
  el_ErrorText :: "parseError \<Rightarrow> string"
  el_ReadDir :: "string \<Rightarrow> (string \<times> bool) list"
  el_ReadFile :: "string \<Rightarrow> string"
  el_Abs :: "string \<Rightarrow> string"
  el_OS :: OS
  el_Modules :: "('b, 'm) modLib"

subsection \<open>Open blocks\<close>

definition contextTokens :: "('e, 'b, 'm) editLib \<Rightarrow> string \<Rightarrow> token list" where
  "contextTokens L text = filter (\<lambda>t. tk_Type t \<noteq> TComment \<and> tk_Type t \<noteq> TNewline \<and> tk_Type t \<noteq> TEOF) (el_Lex L text)"

record openBlock =
  xb_Name :: string
  xb_Label :: string
  xb_Attribute :: string
  xb_At :: nat

definition headerAt :: "('e, 'b, 'm) editLib \<Rightarrow> token list \<Rightarrow> nat \<Rightarrow> openBlock" where
  "headerAt L tokens index =
     (let block = \<lparr>xb_Name = '''', xb_Label = '''', xb_Attribute = '''', xb_At = tk_Start (tokens ! index)\<rparr> in
      if index = 0 then block
      else let previous = tokens ! (index - 1); before = tokens ! (index - 2) in
        if tk_Type previous = TEqual \<and> 2 \<le> index \<and> tk_Type before = TIdent then block\<lparr>xb_Attribute := tk_Bytes before\<rparr>
        else if tk_Type previous = TIdent then
          (if 2 \<le> index \<and> tk_Type before = TIdent then block\<lparr>xb_Name := tk_Bytes before, xb_Label := tk_Bytes previous\<rparr>
           else block\<lparr>xb_Name := tk_Bytes previous\<rparr>)
        else if tk_Type previous = TCQuote then
          let quoted = (2 \<le> index \<and> tk_Type before = TQuotedLit);
              skip = (if quoted then 3 else 2);
              block = (if quoted then block\<lparr>xb_Label := el_StringLiteral L before\<rparr> else block) in
          if skip < index \<and> tk_Type (tokens ! (index - skip)) = TOQuote \<and> tk_Type (tokens ! (index - skip - 1)) = TIdent
          then block\<lparr>xb_Name := tk_Bytes (tokens ! (index - skip - 1))\<rparr> else block
        else block)"

definition stackStep :: "('e, 'b, 'm) editLib \<Rightarrow> token list \<Rightarrow> openBlock list \<Rightarrow> nat \<Rightarrow> openBlock list" where
  "stackStep L tokens stack index =
     (case tk_Type (tokens ! index) of
        TOBrace \<Rightarrow> stack @ [headerAt L tokens index]
      | TCBrace \<Rightarrow> butlast stack
      | _ \<Rightarrow> stack)"

definition indicesBefore :: "token list \<Rightarrow> nat \<Rightarrow> nat list" where
  "indicesBefore tokens offset = takeWhile (\<lambda>i. tk_Start (tokens ! i) < offset) [0 ..< length tokens]"

definition openBlocksAt :: "('e, 'b, 'm) editLib \<Rightarrow> string \<Rightarrow> nat \<Rightarrow> openBlock list" where
  "openBlocksAt L text offset =
     (let tokens = contextTokens L text in foldl (stackStep L tokens) [] (indicesBefore tokens offset))"

definition blockPathAt :: "('e, 'b, 'm) editLib \<Rightarrow> string \<Rightarrow> nat \<Rightarrow> string list" where
  "blockPathAt L text offset = filter (\<lambda>n. n \<noteq> '''') (map xb_Name (openBlocksAt L text offset))"

definition labelOf :: "string \<Rightarrow> openBlock list \<Rightarrow> string" where
  "labelOf name stack = (case find (\<lambda>b. xb_Name b = name) stack of Some b \<Rightarrow> xb_Label b | None \<Rightarrow> '''')"

definition groupAt :: "('e, 'b, 'm) editLib \<Rightarrow> string \<Rightarrow> nat \<Rightarrow> string" where
  "groupAt L text offset = labelOf ''group'' (openBlocksAt L text offset)"

definition nodeAt :: "('e, 'b, 'm) editLib \<Rightarrow> string \<Rightarrow> nat \<Rightarrow> string" where
  "nodeAt L text offset = labelOf ''node'' (openBlocksAt L text offset)"

definition objectAttributeAt :: "('e, 'b, 'm) editLib \<Rightarrow> string \<Rightarrow> nat \<Rightarrow> string \<times> bool" where
  "objectAttributeAt L text offset =
     (let stack = openBlocksAt L text offset in
      if stack = [] then ('''', False) else (xb_Attribute (last stack), xb_Name (last stack) = ''''))"

definition directionAt :: "('e, 'b, 'm) editLib \<Rightarrow> string \<Rightarrow> nat \<Rightarrow> string" where
  "directionAt L text offset =
     (let start = foldl (\<lambda>s b. if xb_Name b \<noteq> '''' then xb_At b else s) 0 (openBlocksAt L text offset);
          tokens = contextTokens L text in
      foldl (\<lambda>direction i.
        if start < tk_Start (tokens ! i) \<and> tk_Type (tokens ! i) = TEqual \<and> 0 < i \<and> tk_Type (tokens ! (i - 1)) = TIdent
        then tk_Bytes (tokens ! (i - 1)) else direction) '''' (indicesBefore tokens offset))"

definition literalAt :: "('e, 'b, 'm) editLib \<Rightarrow> string \<Rightarrow> nat \<Rightarrow> bool" where
  "literalAt L text offset \<longleftrightarrow>
     list_ex (\<lambda>t. tk_Start t < offset \<and> offset \<le> tk_End t \<and>
       (case tk_Type t of
          TComment \<Rightarrow> offset < tk_End t \<or> tk_Bytes t = [] \<or> last (tk_Bytes t) \<noteq> CHR 0x0A
        | TQuotedLit \<Rightarrow> True | TStringLit \<Rightarrow> True | TOQuote \<Rightarrow> True | TOHeredoc \<Rightarrow> True
        | _ \<Rightarrow> False)) (el_Lex L text)"

subsection \<open>Enclosing blocks\<close>

fun closingBrace :: "int \<Rightarrow> nat \<Rightarrow> token list \<Rightarrow> nat" where
  "closingBrace depth otherwise [] = otherwise"
| "closingBrace depth otherwise (t # ts) =
     (case tk_Type t of
        TOBrace \<Rightarrow> closingBrace (depth + 1) otherwise ts
      | TCBrace \<Rightarrow> if depth - 1 = 0 then tk_Start t else closingBrace (depth - 1) otherwise ts
      | _ \<Rightarrow> closingBrace depth otherwise ts)"

definition enclosingNamedBlock :: "('e, 'b, 'm) editLib \<Rightarrow> string \<Rightarrow> nat \<Rightarrow> string \<Rightarrow> (nat \<times> nat) option" where
  "enclosingNamedBlock L text offset name =
     (case filter (\<lambda>b. xb_Name b = name) (openBlocksAt L text offset) of
        [] \<Rightarrow> None
      | bs \<Rightarrow> let start = xb_At (last bs) in
          Some (start, closingBrace 0 (length text) (filter (\<lambda>t. start \<le> tk_Start t) (contextTokens L text))))"

definition slice :: "string \<Rightarrow> nat \<Rightarrow> nat \<Rightarrow> string" where
  "slice text start end = take (end - start) (drop start text)"

definition enclosingSyntaxBlock :: "('e, 'b, 'm) editLib \<Rightarrow> string \<Rightarrow> nat \<Rightarrow> string \<Rightarrow> 'e editBlock option" where
  "enclosingSyntaxBlock L text offset name =
     (case enclosingNamedBlock L text offset name of
        None \<Rightarrow> None
      | Some (start, end) \<Rightarrow>
          let header = name @ '' '' @ (if name = ''use'' then CHR 0x22 # ''instance'' @ CHR 0x22 # '' '' else '''') in
          (case el_Parse L (header @ slice text start end @ ''}'') of
             None \<Rightarrow> None
           | Some (body, _) \<Rightarrow> (case eb_Blocks body of [] \<Rightarrow> None | b # _ \<Rightarrow> Some b)))"

definition literalAttribute :: "('e, 'b, 'm) editLib \<Rightarrow> 'e editBlock \<Rightarrow> string \<Rightarrow> string" where
  "literalAttribute L block name =
     (case map_of (eb_Attributes (ek_Body block)) name of
        None \<Rightarrow> ''''
      | Some attr \<Rightarrow> (case el_Value L (ea_Expr attr) of Some (VString s) \<Rightarrow> s | _ \<Rightarrow> ''''))"

definition useAsAt :: "('e, 'b, 'm) editLib \<Rightarrow> string \<Rightarrow> nat \<Rightarrow> string" where
  "useAsAt L text offset =
     (case enclosingSyntaxBlock L text offset ''use'' of None \<Rightarrow> '''' | Some b \<Rightarrow> literalAttribute L b ''as'')"

fun labelEnd :: "nat \<Rightarrow> token list \<Rightarrow> nat" where
  "labelEnd otherwise [] = otherwise"
| "labelEnd otherwise (t # ts) = (if tk_Type t = TCQuote then tk_Start t else labelEnd otherwise ts)"

definition edgeInputLabelAt :: "('e, 'b, 'm) editLib \<Rightarrow> string \<Rightarrow> nat \<Rightarrow> string list \<Rightarrow> nat option" where
  "edgeInputLabelAt L text offset path =
     (if path = [] \<or> last path \<noteq> ''edge'' then None
      else let tokens = contextTokens L text in
        map_option (\<lambda>i. tk_End (tokens ! i))
          (find (\<lambda>i. tk_Type (tokens ! i) = TOQuote \<and> i \<noteq> 0 \<and> tk_Type (tokens ! (i - 1)) = TIdent \<and> tk_Bytes (tokens ! (i - 1)) = ''input'' \<and>
                   tk_End (tokens ! i) \<le> offset \<and> offset \<le> labelEnd (length text) (drop (Suc i) tokens)) [0 ..< length tokens]))"

end
