(* ===== verification/Editor.thy ===== *)
theory Editor
  imports Editor_Context Globs
begin

text \<open>
  The editor's view of a blueprint workspace (\<open>internal/language/workspace.go\<close>, \<open>contracts.go\<close>, \<open>backend_address.go\<close>): documents
  overlaid by unsaved text, the model of nodes, uses and runtimes a directory declares, completions, definitions, hover
  texts and diagnostics. Go's maps are association lists read by key; the readers' lock is not modelled.

  The theorem relates what completion offers for a reference to what diagnosis says of it.
\<close>

subsection \<open>Documents\<close>

record Completion =
  cn_Label :: string
  cn_Insert :: string
  cn_Detail :: string
  cn_Documentation :: string
  cn_Start :: nat
  cn_End :: nat

record Location =
  lo_Path :: string
  lo_Start :: nat
  lo_End :: nat

record editDiagnostic =
  dn_Start :: nat
  dn_End :: nat
  dn_Message :: string

record Workspace =
  ws_Root :: string
  ws_Documents :: "string smap"

definition NewWorkspace :: "string \<Rightarrow> Workspace" where
  "NewWorkspace root = \<lparr>ws_Root = root, ws_Documents = []\<rparr>"

definition SetRoot :: "string \<Rightarrow> Workspace \<Rightarrow> Workspace" where
  "SetRoot root w = w\<lparr>ws_Root := root\<rparr>"

definition SetDocument :: "('e, 'b, 'm) editLib \<Rightarrow> string \<Rightarrow> string \<Rightarrow> Workspace \<Rightarrow> Workspace" where
  "SetDocument L path text w = w\<lparr>ws_Documents := AList.update (el_Abs L path) text (ws_Documents w)\<rparr>"

definition CloseDocument :: "('e, 'b, 'm) editLib \<Rightarrow> string \<Rightarrow> Workspace \<Rightarrow> Workspace" where
  "CloseDocument L path w = w\<lparr>ws_Documents := AList.delete (el_Abs L path) (ws_Documents w)\<rparr>"

definition document :: "('e, 'b, 'm) editLib \<Rightarrow> Workspace \<Rightarrow> string \<Rightarrow> string" where
  "document L w path = (case map_of (ws_Documents w) path of Some text \<Rightarrow> text | None \<Rightarrow> el_ReadFile L path)"

definition Document :: "('e, 'b, 'm) editLib \<Rightarrow> Workspace \<Rightarrow> string \<Rightarrow> string" where
  "Document L w path = document L w (el_Abs L path)"

definition uniqueSorted :: "string list \<Rightarrow> string list" where
  "uniqueSorted vs = sort (remdups vs)"

text \<open>\<open>filepath.Ext\<close>.\<close>

definition fileExt :: "string \<Rightarrow> string" where
  "fileExt p =
     (let base = BaseName p in
      if CHR ''.'' \<in> set base then CHR ''.'' # rev (takeWhile (\<lambda>c. c \<noteq> CHR ''.'') (rev base)) else '''')"

definition hclFiles :: "('e, 'b, 'm) editLib \<Rightarrow> Workspace \<Rightarrow> string \<Rightarrow> string list" where
  "hclFiles L w dir =
     uniqueSorted
       (map (\<lambda>(name, isDir). Join [dir, name]) (filter (\<lambda>(name, isDir). \<not> isDir \<and> IsBlueprintFilename name) (el_ReadDir L dir)) @
        filter (\<lambda>path. DirName path = dir \<and> IsBlueprintFilename (BaseName path)) (map fst (ws_Documents w)))"

definition workspaceFiles :: "('e, 'b, 'm) editLib \<Rightarrow> Workspace \<Rightarrow> string \<Rightarrow> string list" where
  "workspaceFiles L w path =
     uniqueSorted (hclFiles L w (DirName path) @ (if fileExt path \<noteq> ''.hcl'' \<or> IsBlueprintFilename (BaseName path) then [path] else []))"

subsection \<open>The model of a directory\<close>

record portMeta =
  pm_typeName :: string
  pm_description :: string
  pm_deprecated :: string
  pm_sensitive :: bool
  pm_required :: bool

definition noMeta :: portMeta where
  "noMeta = \<lparr>pm_typeName = '''', pm_description = '''', pm_deprecated = '''', pm_sensitive = False, pm_required = False\<rparr>"

record ports =
  po_known :: bool
  po_inputs :: "string list"
  po_outputs :: "string list"
  po_inputsMeta :: "portMeta smap"
  po_outputsMeta :: "portMeta smap"

definition noPorts :: ports where
  "noPorts = \<lparr>po_known = False, po_inputs = [], po_outputs = [], po_inputsMeta = [], po_outputsMeta = []\<rparr>"

datatype workspaceModel = WorkspaceModel
  (wm_nodes: "ports smap") (wm_uses: "ports smap") (wm_runtimes: "string list") (wm_groups: "(string \<times> workspaceModel) list")

definition newWorkspaceModel :: workspaceModel where
  "newWorkspaceModel = WorkspaceModel [] [] [] []"

definition nodeFileMode :: "('e, 'b, 'm) editLib \<Rightarrow> 'e editBlock \<Rightarrow> FileMode smap \<Rightarrow> FileMode \<Rightarrow> FileMode" where
  "nodeFileMode L block runtimes fallback =
     (case map_of (eb_Attributes (ek_Body block)) ''runtime'' of
        None \<Rightarrow> fallback
      | Some attr \<Rightarrow>
          (case el_Traversal L (ea_Expr attr) of
             Some [StepRoot root, StepAttr name _ _] \<Rightarrow>
               if root = ''runtime'' then (case map_of runtimes name of Some mode \<Rightarrow> mode | None \<Rightarrow> UnknownFiles) else UnknownFiles
           | _ \<Rightarrow> UnknownFiles))"

definition textsOf :: "inspected \<Rightarrow> string \<Rightarrow> string \<times> string" where
  "textsOf s key = (case map_of (in_Texts s) key of Some t \<Rightarrow> t | None \<Rightarrow> ('''', ''''))"

definition variableMeta :: "inspected \<Rightarrow> string \<Rightarrow> Variable \<Rightarrow> portMeta" where
  "variableMeta s name v =
     \<lparr>pm_typeName = v_Type v, pm_description = fst (textsOf s (''variable.'' @ name)), pm_deprecated = snd (textsOf s (''variable.'' @ name)),
      pm_sensitive = v_Sensitive v, pm_required = v_Required v\<rparr>"

definition outputMeta :: "inspected \<Rightarrow> string \<Rightarrow> Output \<Rightarrow> portMeta" where
  "outputMeta s name out =
     \<lparr>pm_typeName = o_Type out, pm_description = fst (textsOf s (''output.'' @ name)), pm_deprecated = snd (textsOf s (''output.'' @ name)),
      pm_sensitive = o_Sensitive out, pm_required = False\<rparr>"

definition inspectPorts :: "('e, 'b, 'm) editLib \<Rightarrow> string \<Rightarrow> string \<Rightarrow> FileMode \<Rightarrow> ports" where
  "inspectPorts L base source mode =
     (if IsRemote source then noPorts
      else (case InspectModule (el_Modules L) (Join [base, source]) mode of
              Inl _ \<Rightarrow> noPorts
            | Inr s \<Rightarrow>
                \<lparr>po_known = True, po_inputs = sortedKeys (sc_Variables (in_Schema s)), po_outputs = sortedKeys (sc_OutputDetails (in_Schema s)),
                 po_inputsMeta = map (\<lambda>(name, v). (name, variableMeta s name v)) (sc_Variables (in_Schema s)),
                 po_outputsMeta = map (\<lambda>(name, out). (name, outputMeta s name out)) (sc_OutputDetails (in_Schema s))\<rparr>))"

definition exportPorts :: "'e editBlock \<Rightarrow> ports \<Rightarrow> ports" where
  "exportPorts export p =
     (if ek_Type export \<noteq> ''export'' then p
      else foldl (\<lambda>p port.
        case ek_Labels port of
          [label] \<Rightarrow> if ek_Type port = ''input'' then p\<lparr>po_inputs := po_inputs p @ [label]\<rparr>
                     else if ek_Type port = ''output'' then p\<lparr>po_outputs := po_outputs p @ [label]\<rparr> else p
        | _ \<Rightarrow> p) p (eb_Blocks (ek_Body export)))"

definition groupFilePorts :: "('e, 'b, 'm) editLib \<Rightarrow> Workspace \<Rightarrow> string \<Rightarrow> ports \<Rightarrow> string \<Rightarrow> ports" where
  "groupFilePorts L w groupName p candidate =
     (case el_Parse L (document L w candidate) of
        None \<Rightarrow> p
      | Some (body, failed) \<Rightarrow>
          foldl (\<lambda>p block.
            if ek_Type block = ''group'' \<and> ek_Labels block = [groupName]
            then foldl (\<lambda>p export. exportPorts export p) (p\<lparr>po_known := \<not> failed\<rparr>) (eb_Blocks (ek_Body block))
            else p) p (eb_Blocks body))"

definition inspectGroupPorts :: "('e, 'b, 'm) editLib \<Rightarrow> Workspace \<Rightarrow> string \<Rightarrow> string \<Rightarrow> string \<Rightarrow> ports" where
  "inspectGroupPorts L w base source groupName =
     (if IsRemote source then noPorts
      else let p = foldl (groupFilePorts L w groupName) noPorts (hclFiles L w (Join [base, source])) in
        p\<lparr>po_inputs := uniqueSorted (po_inputs p), po_outputs := uniqueSorted (po_outputs p)\<rparr>)"

definition addNodeBlock :: "('e, 'b, 'm) editLib \<Rightarrow> string \<Rightarrow> FileMode smap \<Rightarrow> FileMode \<Rightarrow> 'e editBlock \<Rightarrow> ports smap \<Rightarrow> ports smap" where
  "addNodeBlock L path runtimes fallback block nodes =
     (case ek_Labels block of
        [label] \<Rightarrow>
          let source = literalAttribute L block ''source'' in
          AList.update label (if source \<noteq> '''' then inspectPorts L (DirName path) source (nodeFileMode L block runtimes fallback) else noPorts) nodes
      | _ \<Rightarrow> nodes)"

definition addUseBlock :: "('e, 'b, 'm) editLib \<Rightarrow> Workspace \<Rightarrow> string \<Rightarrow> 'e editBlock \<Rightarrow> ports smap \<Rightarrow> ports smap" where
  "addUseBlock L w path block uses =
     (case ek_Labels block of
        [label] \<Rightarrow>
          let as = literalAttribute L block ''as''; source = literalAttribute L block ''source'' in
          if as \<noteq> '''' \<and> source \<noteq> '''' then AList.update as (inspectGroupPorts L w (DirName path) source label) uses else uses
      | _ \<Rightarrow> uses)"

definition putGroup :: "string list \<Rightarrow> workspaceModel \<Rightarrow> workspaceModel \<Rightarrow> workspaceModel" where
  "putGroup labels g m =
     (case m of WorkspaceModel nodes uses rts groups \<Rightarrow>
        (case labels of [label] \<Rightarrow> WorkspaceModel nodes uses rts (AList.update label g groups) | _ \<Rightarrow> m))"

definition plainBlock :: "('e, 'b, 'm) editLib \<Rightarrow> Workspace \<Rightarrow> string \<Rightarrow> FileMode smap \<Rightarrow> FileMode \<Rightarrow> 'e editBlock \<Rightarrow> workspaceModel \<Rightarrow> workspaceModel" where
  "plainBlock L w path runtimes fallback block m =
     (case m of WorkspaceModel nodes uses rts groups \<Rightarrow>
        if ek_Type block = ''node'' then WorkspaceModel (addNodeBlock L path runtimes fallback block nodes) uses rts groups
        else if ek_Type block = ''use'' then WorkspaceModel nodes (addUseBlock L w path block uses) rts groups
        else if ek_Type block = ''runtime''
        then (case ek_Labels block of [label] \<Rightarrow> WorkspaceModel nodes uses (rts @ [label]) groups | _ \<Rightarrow> m)
        else m)"

fun addBlocks :: "('e, 'b, 'm) editLib \<Rightarrow> Workspace \<Rightarrow> string \<Rightarrow> FileMode smap \<Rightarrow> FileMode \<Rightarrow> workspaceModel \<Rightarrow> 'e editBlock list \<Rightarrow> workspaceModel" where
  "addBlocks L w path runtimes fallback m [] = m"
| "addBlocks L w path runtimes fallback m (EditBlock t labels ranges at (EditBody attrs blocks) # rest) =
     addBlocks L w path runtimes fallback
       (if t = ''group'' then putGroup labels (addBlocks L w path runtimes UnknownFiles newWorkspaceModel blocks) m
        else plainBlock L w path runtimes fallback (EditBlock t labels ranges at (EditBody attrs blocks)) m) rest"

definition runtimeBlock :: "('e, 'b, 'm) editLib \<Rightarrow> FileMode smap \<times> FileMode \<times> nat \<Rightarrow> 'e editBlock \<Rightarrow> FileMode smap \<times> FileMode \<times> nat" where
  "runtimeBlock L acc block =
     (case acc of (runtimes, defaultMode, defaults) \<Rightarrow>
        if ek_Type block \<noteq> ''runtime'' then acc
        else (case ek_Labels block of
                [label] \<Rightarrow>
                  let mode = FileModeForBinary (el_OS L) (literalAttribute L block ''binary''); runtimes = AList.update label mode runtimes in
                  (case map_of (eb_Attributes (ek_Body block)) ''default'' of
                     None \<Rightarrow> (runtimes, defaultMode, defaults)
                   | Some attr \<Rightarrow> if el_Value L (ea_Expr attr) = Some (VBool True) then (runtimes, mode, Suc defaults)
                                  else (runtimes, defaultMode, defaults))
              | _ \<Rightarrow> acc))"

text \<open>The model of the directory of a file, with the given text for the file itself.\<close>

definition workspaceModelOf :: "('e, 'b, 'm) editLib \<Rightarrow> Workspace \<Rightarrow> string \<Rightarrow> string \<Rightarrow> workspaceModel" where
  "workspaceModelOf L w path text =
     (let bodies = List.map_filter (\<lambda>candidate.
            map_option (\<lambda>(body, _). (candidate, body)) (el_Parse L (if candidate = path then text else document L w candidate)))
            (workspaceFiles L w path) in
      case foldl (runtimeBlock L) ([], TerraformFiles, 0) (concat (map (eb_Blocks \<circ> snd) bodies)) of
        (runtimes, defaultMode, defaults) \<Rightarrow>
          (case foldl (\<lambda>m (candidate, body). addBlocks L w candidate runtimes (if 1 < defaults then UnknownFiles else defaultMode) m (eb_Blocks body))
                 newWorkspaceModel bodies of
             WorkspaceModel nodes uses rts groups \<Rightarrow> WorkspaceModel nodes uses (uniqueSorted rts) groups))"

text \<open>A group has its own nodes; the runtimes stay those of the directory.\<close>

definition modelAt :: "('e, 'b, 'm) editLib \<Rightarrow> workspaceModel \<Rightarrow> string \<Rightarrow> nat \<Rightarrow> workspaceModel" where
  "modelAt L m text offset =
     (case find (\<lambda>b. xb_Name b = ''group'') (openBlocksAt L text offset) of
        None \<Rightarrow> m
      | Some b \<Rightarrow>
          (case map_of (wm_groups m) (xb_Label b) of
             Some (WorkspaceModel nodes uses rts groups) \<Rightarrow> WorkspaceModel nodes uses (wm_runtimes m) groups
           | None \<Rightarrow> newWorkspaceModel))"

definition lookupEntity :: "workspaceModel \<Rightarrow> string \<Rightarrow> string \<Rightarrow> ports option" where
  "lookupEntity m keyword name = (if keyword = ''use'' then map_of (wm_uses m) name else map_of (wm_nodes m) name)"

definition blockEndpointPorts :: "('e, 'b, 'm) editLib \<Rightarrow> workspaceModel \<Rightarrow> 'e editBlock \<Rightarrow> string \<Rightarrow> ports option" where
  "blockEndpointPorts L m block side =
     (case map_of (eb_Attributes (ek_Body block)) side of
        None \<Rightarrow> None
      | Some attr \<Rightarrow>
          (case el_Traversal L (ea_Expr attr) of
             Some [StepRoot root, StepAttr name _ _] \<Rightarrow> if root = ''node'' \<or> root = ''use'' then lookupEntity m root name else None
           | _ \<Rightarrow> None))"

definition edgeEndpointPorts :: "('e, 'b, 'm) editLib \<Rightarrow> workspaceModel \<Rightarrow> string \<Rightarrow> nat \<Rightarrow> string \<Rightarrow> ports option" where
  "edgeEndpointPorts L m text offset side =
     (case enclosingSyntaxBlock L text offset ''edge'' of None \<Rightarrow> None | Some b \<Rightarrow> blockEndpointPorts L m b side)"

definition varsPortsAt :: "('e, 'b, 'm) editLib \<Rightarrow> workspaceModel \<Rightarrow> string \<Rightarrow> nat \<Rightarrow> ports option" where
  "varsPortsAt L m text offset =
     (let path = blockPathAt L text offset in
      if path = [] then None
      else if last path = ''use'' then map_of (wm_uses m) (useAsAt L text offset)
      else if last path = ''node'' then map_of (wm_nodes m) (nodeAt L text offset)
      else None)"

subsection \<open>Completions\<close>

record attributeSpec =
  as_name :: string
  as_insert :: string
  as_detail :: string
  as_documentation :: string

definition spec :: "string \<Rightarrow> string \<Rightarrow> string \<Rightarrow> string \<Rightarrow> attributeSpec" where
  "spec name ins detail doc = \<lparr>as_name = name, as_insert = ins, as_detail = detail, as_documentation = doc\<rparr>"

definition contractPortSchema :: "attributeSpec list" where
  "contractPortSchema = [spec ''type'' (''type = string'') (''optional type constraint'') (''Accepts native type expressions or legacy strings. Omit to keep only the module input type check.''),
     spec ''nullable'' (''nullable = false'') (''optional bool'') (''Checks the top-level effective value; nested nulls are not prohibited.''),
     spec ''sensitive'' (''sensitive = true'') (''optional bool'') (''Cannot downgrade module or runtime sensitivity.'')]"

definition schema_root :: "attributeSpec list" where
  "schema_root = [spec ''producer'' (''producer '' @ CHR 0x22 # ''./module'' @ CHR 0x22 # '' {'' @ CHR 0x0A # ''}'') (''Output contracts'') (''''),
     spec ''consumer'' (''consumer '' @ CHR 0x22 # ''./module'' @ CHR 0x22 # '' {'' @ CHR 0x0A # ''}'') (''Input contracts'') (''''),
     spec ''contracts'' (''contracts {'' @ CHR 0x0A # ''  mode = '' @ CHR 0x22 # ''warn'' @ CHR 0x22 # CHR 0x0A # ''}'') (''Contract enforcement mode'') (''''),
     spec ''node'' (''node '' @ CHR 0x22 # ''name'' @ CHR 0x22 # '' {'' @ CHR 0x0A # ''  source = '' @ CHR 0x22 # CHR 0x22 # CHR 0x0A # ''}'') (''Blueprint block'') (''Declares one Terraform or OpenTofu module in the graph.''),
     spec ''edge'' (''edge {'' @ CHR 0x0A # ''  from = node.source.output.value'' @ CHR 0x0A # ''  to   = node.target.input.value'' @ CHR 0x0A # ''}'') (''Blueprint block'') (''Connects a source node output to a target node input.''),
     spec ''runtime'' (''runtime '' @ CHR 0x22 # ''name'' @ CHR 0x22 # '' {'' @ CHR 0x0A # ''  binary = '' @ CHR 0x22 # ''tofu'' @ CHR 0x22 # CHR 0x0A # ''}'') (''Blueprint block'') (''Declares a reusable Terraform or OpenTofu runtime.''),
     spec ''group'' (''group '' @ CHR 0x22 # ''name'' @ CHR 0x22 # '' {'' @ CHR 0x0A # ''}'') (''Blueprint block'') (''Declares a reusable sub-blueprint.''),
     spec ''use'' (''use '' @ CHR 0x22 # ''group'' @ CHR 0x22 # '' {'' @ CHR 0x0A # ''  as     = '' @ CHR 0x22 # ''name'' @ CHR 0x22 # CHR 0x0A # ''  source = '' @ CHR 0x22 # CHR 0x22 # CHR 0x0A # ''}'') (''Blueprint block'') (''Instantiates a reusable group.''),
     spec ''vendor'' (''vendor {'' @ CHR 0x0A # ''}'') (''Blueprint block'') (''Configures the local vendor directory.''),
     spec ''tfvars'' (''tfvars {'' @ CHR 0x0A # ''}'') (''Blueprint block'') (''Configures where resolved input values are written.''),
     spec ''lock'' (''lock {'' @ CHR 0x0A # ''  s3 {'' @ CHR 0x0A # ''    bucket = '' @ CHR 0x22 # CHR 0x22 # CHR 0x0A # ''    key    = '' @ CHR 0x22 # CHR 0x22 # CHR 0x0A # ''    region = '' @ CHR 0x22 # CHR 0x22 # CHR 0x0A # ''  }'' @ CHR 0x0A # ''}'') (''Blueprint block'') (''Serializes plan/apply/destroy across machines with a remote lock object.''),
     spec ''plugin'' (''plugin '' @ CHR 0x22 # ''name'' @ CHR 0x22 # '' {'' @ CHR 0x0A # ''  source = '' @ CHR 0x22 # CHR 0x22 # CHR 0x0A # ''  version = '' @ CHR 0x22 # CHR 0x22 # CHR 0x0A # ''}'') (''Optional executable plugin'') (''Declares a version-locked plugin; the editor never executes plugin code.''),
     spec ''execution'' (''execution {'' @ CHR 0x0A # ''}'') (''Blueprint block'') (''Configures execution record storage and retained plan lifetime.''),
     spec ''snapshots'' (''snapshots { }'') (''Blueprint block'') (''Opts the graph into local output snapshots, consumed as the input source of last resort.'')]"

definition schema_group :: "attributeSpec list" where
  "schema_group = [spec ''producer'' (''producer '' @ CHR 0x22 # ''./module'' @ CHR 0x22 # '' {'' @ CHR 0x0A # ''}'') (''Output contracts'') (''''),
     spec ''consumer'' (''consumer '' @ CHR 0x22 # ''./module'' @ CHR 0x22 # '' {'' @ CHR 0x0A # ''}'') (''Input contracts'') (''''),
     spec ''node'' (''node '' @ CHR 0x22 # ''name'' @ CHR 0x22 # '' {'' @ CHR 0x0A # ''  source = '' @ CHR 0x22 # CHR 0x22 # CHR 0x0A # ''}'') (''Group block'') (''''),
     spec ''edge'' (''edge {'' @ CHR 0x0A # ''  from = node.'' @ CHR 0x0A # ''  to = node.'' @ CHR 0x0A # ''}'') (''Group block'') (''''),
     spec ''use'' (''use '' @ CHR 0x22 # ''group'' @ CHR 0x22 # '' {'' @ CHR 0x0A # ''  as = '' @ CHR 0x22 # ''name'' @ CHR 0x22 # CHR 0x0A # ''  source = '' @ CHR 0x22 # CHR 0x22 # CHR 0x0A # ''}'') (''Group block'') (''''),
     spec ''export'' (''export {'' @ CHR 0x0A # ''}'') (''Group interface'') ('''')]"

definition schema_export :: "attributeSpec list" where
  "schema_export = [spec ''input'' (''input '' @ CHR 0x22 # ''name'' @ CHR 0x22 # '' {'' @ CHR 0x0A # ''  to = node.'' @ CHR 0x0A # ''}'') (''Export input'') (''''),
     spec ''output'' (''output '' @ CHR 0x22 # ''name'' @ CHR 0x22 # '' {'' @ CHR 0x0A # ''  from = node.'' @ CHR 0x0A # ''}'') (''Export output'') ('''')]"

definition schema_export_input :: "attributeSpec list" where
  "schema_export_input = [spec ''to'' (''to = node.'') (''required input reference'') ('''')]"

definition schema_export_output :: "attributeSpec list" where
  "schema_export_output = [spec ''from'' (''from = node.'') (''required output reference'') ('''')]"

definition schema_plugin :: "attributeSpec list" where
  "schema_plugin = [spec ''source'' (''source = '' @ CHR 0x22 # [CHR 0x22]) (''required package identity'') (''''),
     spec ''version'' (''version = '' @ CHR 0x22 # [CHR 0x22]) (''required version constraint'') (''''),
     spec ''config'' (''config = {'' @ CHR 0x0A # ''}'') (''literal plugin configuration'') ('''')]"

definition schema_execution :: "attributeSpec list" where
  "schema_execution = [spec ''bucket'' (''bucket = '' @ CHR 0x22 # [CHR 0x22]) (''optional string'') (''S3 bucket for execution records and retained plans; requires a shared graph lock.''),
     spec ''prefix'' (''prefix = '' @ CHR 0x22 # [CHR 0x22]) (''optional string'') (''Dedicated artifact prefix, separate from state and locks.''),
     spec ''region'' (''region = '' @ CHR 0x22 # [CHR 0x22]) (''optional string'') (''S3 execution storage region.''),
     spec ''plan_ttl'' (''plan_ttl = '' @ CHR 0x22 # ''24h'' @ [CHR 0x22]) (''optional string'') (''Maximum age at which a retained plan may begin applying.''),
     spec ''record_retention'' (''record_retention = '' @ CHR 0x22 # ''720h'' @ [CHR 0x22]) (''optional string'') (''Retention after an execution is resolved and finished.'')]"

definition schema_producer :: "attributeSpec list" where
  "schema_producer = [spec ''output'' (''output '' @ CHR 0x22 # ''name'' @ CHR 0x22 # '' {'' @ CHR 0x0A # ''  type = string'' @ CHR 0x0A # ''}'') (''Additional output guarantee'') ('''')]"

definition schema_consumer :: "attributeSpec list" where
  "schema_consumer = [spec ''input'' (''input '' @ CHR 0x22 # ''name'' @ CHR 0x22 # '' {'' @ CHR 0x0A # ''  nullable = false'' @ CHR 0x0A # ''}'') (''Additional input requirement'') ('''')]"

definition schema_contracts :: "attributeSpec list" where
  "schema_contracts = [spec ''mode'' (''mode = '' @ CHR 0x22 # ''warn'' @ [CHR 0x22]) (''warn or enforce'') ('''')]"

definition schema_snapshots :: "attributeSpec list" where
  "schema_snapshots = []"

definition schema_backend_address :: "attributeSpec list" where
  "schema_backend_address = [spec ''s3_key_prefix'' (''s3_key_prefix = '' @ CHR 0x22 # ''prod'' @ [CHR 0x22]) (''optional string'') (''Literal prefix before the qualified leaf directory. Empty means no prefix; explicit keys win.''),
     spec ''s3_key_name'' (''s3_key_name = '' @ CHR 0x22 # ''terraform.tfstate'' @ [CHR 0x22]) (''optional string'') (''File name within each qualified leaf directory; defaults to terraform.tfstate. Inherits independently of the prefix.'')]"

definition schema_node :: "attributeSpec list" where
  "schema_node = [spec ''source'' (''source = '' @ CHR 0x22 # [CHR 0x22]) (''required string'') (''Path or remote source of the Terraform or OpenTofu module.''),
     spec ''vars'' (''vars = {'' @ CHR 0x0A # ''}'') (''object'') (''Terraform input values, optionally computed by installed plugin functions. Use an edge for another node's output.''),
     spec ''env'' (''env = {'' @ CHR 0x0A # ''}'') (''map(string)'') (''Extra environment variables for this module's Terraform or OpenTofu process.''),
     spec ''runtime'' (''runtime = runtime.'') (''runtime reference'') (''Selects a declared runtime for this node.''),
     spec ''backend_address'' (''backend_address = {'' @ CHR 0x0A # ''  s3_key_prefix = '' @ CHR 0x22 # ''prod'' @ CHR 0x22 # CHR 0x0A # ''}'') (''object'') (''Optional S3 key generation. Inherits when omitted; {} disables it. Explicit addresses win.''),
     spec ''backend_config'' (''backend_config = {'' @ CHR 0x0A # ''}'') (''map(string)'') (''Backend configuration passed to terraform init.''),
     spec ''approve'' (''approve = '' @ CHR 0x22 # [CHR 0x22]) (''optional string'') (''How much of this node's plan may be applied: '' @ CHR 0x22 # ''none'' @ CHR 0x22 # '', '' @ CHR 0x22 # ''safe'' @ CHR 0x22 # '' (create/update, the default), or '' @ CHR 0x22 # ''all'' @ CHR 0x22 # '' (adds replace/delete).'')]"

definition schema_edge :: "attributeSpec list" where
  "schema_edge = [spec ''from'' (''from = node.'') (''required output reference'') (''Source node output, or a bare node for an ordering-only edge.''),
     spec ''to'' (''to = node.'') (''required input reference'') (''Target node input, or a bare node for an ordering-only edge.''),
     spec ''input'' (''input '' @ CHR 0x22 # ''name'' @ CHR 0x22 # '' {'' @ CHR 0x0A # ''  from = output.'' @ CHR 0x0A # ''}'') (''Edge block'') (''Wires one more output of this edge's from node into an input of its to node. Only on an edge whose from and to are bare references.'')]"

definition schema_edge_input :: "attributeSpec list" where
  "schema_edge_input = [spec ''from'' (''from = output.'') (''required output reference'') (''Which output of the edge's own from node feeds this input. Relative: the source node is not repeated here.'')]"

definition schema_runtime :: "attributeSpec list" where
  "schema_runtime = [spec ''binary'' (''binary = '' @ CHR 0x22 # [CHR 0x22]) (''required string'') (''Terraform or OpenTofu binary path, or a command resolved from PATH.''),
     spec ''version'' (''version = '' @ CHR 0x22 # [CHR 0x22]) (''optional string'') (''Records which versions this runtime is meant to represent. Never checked against the binary, and has no effect on execution.''),
     spec ''default'' (''default = true'') (''optional bool'') (''Makes this runtime the blueprint-wide fallback.'')]"

definition schema_use :: "attributeSpec list" where
  "schema_use = [spec ''as'' (''as = '' @ CHR 0x22 # [CHR 0x22]) (''required string'') (''Namespace used to refer to this group instance.''),
     spec ''source'' (''source = '' @ CHR 0x22 # [CHR 0x22]) (''required string'') (''Local path or remote source containing the group.''),
     spec ''backend_address'' (''backend_address = {'' @ CHR 0x0A # ''  s3_key_prefix = '' @ CHR 0x22 # ''prod'' @ CHR 0x22 # CHR 0x0A # ''}'') (''object'') (''Optional S3 key generation. Inherits when omitted; {} disables it. Explicit addresses win.''),
     spec ''backend_config'' (''backend_config = {'' @ CHR 0x0A # ''}'') (''map(string)'') (''Backend configuration merged onto every node this instance expands to. Leaf keys win.''),
     spec ''runtime'' (''runtime = runtime.'') (''runtime reference'') (''Default runtime for nodes expanded from this group.''),
     spec ''env'' (''env = {'' @ CHR 0x0A # ''}'') (''map(string)'') (''Environment variables inherited by nodes expanded from this group.''),
     spec ''vars'' (''vars = {'' @ CHR 0x0A # ''}'') (''object'') (''Literal values for this instance's export inputs. Use an edge for another node's output.''),
     spec ''approve'' (''approve = '' @ CHR 0x22 # [CHR 0x22]) (''optional string'') (''Default approve level for nodes expanded from this group, unless a node sets its own.'')]"

definition schema_vendor :: "attributeSpec list" where
  "schema_vendor = [spec ''directory'' (''directory = '' @ CHR 0x22 # ''vendor'' @ [CHR 0x22]) (''optional string'') (''Directory used to store vendored module sources.''),
     spec ''manifest_file'' (''manifest_file = '' @ CHR 0x22 # ''vendor.yaml'' @ [CHR 0x22]) (''optional string'') (''Vendor manifest filename.'')]"

definition schema_tfvars :: "attributeSpec list" where
  "schema_tfvars = [spec ''location'' (''location = '' @ CHR 0x22 # ''workdir'' @ [CHR 0x22]) (''optional string'') (''Either workdir (default) or module.'')]"

definition schema_lock :: "attributeSpec list" where
  "schema_lock = [spec ''s3'' (''s3 {'' @ CHR 0x0A # ''  bucket = '' @ CHR 0x22 # CHR 0x22 # CHR 0x0A # ''  key    = '' @ CHR 0x22 # CHR 0x22 # CHR 0x0A # ''  region = '' @ CHR 0x22 # CHR 0x22 # CHR 0x0A # ''}'') (''Lock block'') (''S3 lock object via conditional writes. The only nested lock type in this release.'')]"

definition schema_s3 :: "attributeSpec list" where
  "schema_s3 = [spec ''bucket'' (''bucket = '' @ CHR 0x22 # [CHR 0x22]) (''required string'') (''S3 bucket that holds the graph lock object.''),
     spec ''key'' (''key = '' @ CHR 0x22 # [CHR 0x22]) (''required string'') (''Object key for this graph. Must not be a node's state key.''),
     spec ''region'' (''region = '' @ CHR 0x22 # [CHR 0x22]) (''required string'') (''AWS region of the bucket.'')]"

definition schema_lock_s3 :: "attributeSpec list" where
  "schema_lock_s3 = [spec ''bucket'' (''bucket = '' @ CHR 0x22 # [CHR 0x22]) (''required string'') (''S3 bucket that holds the graph lock object.''),
     spec ''key'' (''key = '' @ CHR 0x22 # [CHR 0x22]) (''required string'') (''Object key for this graph. Must not be a node's state key.''),
     spec ''region'' (''region = '' @ CHR 0x22 # [CHR 0x22]) (''required string'') (''AWS region of the bucket.'')]"

definition completionSchemas :: "attributeSpec list smap" where
  "completionSchemas = [('''', schema_root),
     (''group'', schema_group),
     (''export'', schema_export),
     (''export.input'', schema_export_input),
     (''export.output'', schema_export_output),
     (''plugin'', schema_plugin),
     (''execution'', schema_execution),
     (''producer'', schema_producer),
     (''consumer'', schema_consumer),
     (''contracts'', schema_contracts),
     (''producer.output'', contractPortSchema),
     (''consumer.input'', contractPortSchema),
     (''snapshots'', schema_snapshots),
     (''backend_address'', schema_backend_address),
     (''node'', schema_node),
     (''edge'', schema_edge),
     (''edge.input'', schema_edge_input),
     (''runtime'', schema_runtime),
     (''use'', schema_use),
     (''vendor'', schema_vendor),
     (''tfvars'', schema_tfvars),
     (''lock'', schema_lock),
     (''s3'', schema_s3),
     (''lock.s3'', schema_lock_s3)]"

definition suggestion :: "string \<Rightarrow> string \<Rightarrow> string \<Rightarrow> string \<Rightarrow> nat \<Rightarrow> nat \<Rightarrow> Completion" where
  "suggestion label ins detail doc start end =
     \<lparr>cn_Label = label, cn_Insert = ins, cn_Detail = detail, cn_Documentation = doc, cn_Start = start, cn_End = end\<rparr>"

definition stringCompletions :: "string list \<Rightarrow> string \<Rightarrow> (string \<Rightarrow> Completion) \<Rightarrow> Completion list" where
  "stringCompletions vs prefix build = map build (filter (\<lambda>v. HasPrefix v prefix) (uniqueSorted vs))"

definition namedCompletions :: "ports smap \<Rightarrow> string \<Rightarrow> (string \<Rightarrow> Completion) \<Rightarrow> Completion list" where
  "namedCompletions vs prefix build = stringCompletions (map fst vs) prefix build"

definition schemaForPath :: "string list \<Rightarrow> attributeSpec list" where
  "schemaForPath path =
     (if path = [] then schema_root
      else (case List.map_filter (\<lambda>i. map_of completionSchemas (joinWith ''.'' (drop i path))) [0 ..< length path] of
              s # _ \<Rightarrow> s
            | [] \<Rightarrow> []))"

definition contextCompletions :: "string list \<Rightarrow> string \<Rightarrow> nat \<Rightarrow> nat \<Rightarrow> Completion list" where
  "contextCompletions path prefix start end =
     (let fields = schemaForPath path in
      stringCompletions (map as_name fields) prefix (\<lambda>name.
        case find (\<lambda>f. as_name f = name) fields of
          Some f \<Rightarrow> suggestion (as_name f) (as_insert f) (as_detail f) (as_documentation f) start end
        | None \<Rightarrow> suggestion '''' '''' '''' '''' 0 0))"

definition runtimeCompletions :: "workspaceModel \<Rightarrow> string \<Rightarrow> nat \<Rightarrow> nat \<Rightarrow> Completion list" where
  "runtimeCompletions m fragment start end =
     (case splitOn CHR ''.'' fragment of
        [_, prefix] \<Rightarrow> stringCompletions (wm_runtimes m) prefix (\<lambda>name. suggestion name (''runtime.'' @ name) ''runtime'' '''' start end)
      | _ \<Rightarrow> [])"

definition portTags :: "portMeta \<Rightarrow> string" where
  "portTags meta =
     (let tags = (if pm_required meta then [''required''] else []) @ (if pm_sensitive meta then [''sensitive''] else []) in
      if tags = [] then '''' else ''('' @ joinWith '', '' tags @ '')'')"

text \<open>Parts of the detail line are separated by a blank or by a dash (U+2014).\<close>

definition portDetail :: "portMeta \<Rightarrow> bool \<Rightarrow> string" where
  "portDetail meta isOutput =
     (let typed = (if isOutput then '''' else if pm_typeName meta = '''' then ''input variable'' else pm_typeName meta);
          tags = portTags meta;
          tagged = (if tags = '''' then typed else if typed \<noteq> '''' then typed @ '' '' @ tags else tags) in
      if pm_description meta = '''' then tagged
      else (if tagged \<noteq> '''' then tagged @ CHR '' '' # CHR 0xE2 # CHR 0x80 # CHR 0x94 # '' '' else '''') @ pm_description meta)"

definition portCompletion :: "string \<Rightarrow> string \<Rightarrow> portMeta \<Rightarrow> bool \<Rightarrow> nat \<Rightarrow> nat \<Rightarrow> Completion" where
  "portCompletion name ins meta isOutput start end =
     suggestion name ins (portDetail meta isOutput)
       (if pm_deprecated meta = '''' then pm_description meta
        else TrimSpace (pm_description meta @ CHR 0x0A # CHR 0x0A # ''Deprecated: '' @ pm_deprecated meta)) start end"

definition metaOf :: "portMeta smap \<Rightarrow> string \<Rightarrow> portMeta" where
  "metaOf metas name = (case map_of metas name of Some m \<Rightarrow> m | None \<Rightarrow> noMeta)"

definition offeredKinds :: "string \<Rightarrow> string list" where
  "offeredKinds direction = (if direction = ''to'' then [''input''] else if direction = ''from'' then [''output''] else [''output'', ''input''])"

definition traversalCompletions :: "workspaceModel \<Rightarrow> string \<Rightarrow> string \<Rightarrow> nat \<Rightarrow> nat \<Rightarrow> Completion list" where
  "traversalCompletions m fragment direction start end =
     (case splitOn CHR ''.'' fragment of
        [keyword, prefix] \<Rightarrow>
          namedCompletions (if keyword = ''use'' then wm_uses m else wm_nodes m) prefix
            (\<lambda>name. suggestion name (keyword @ ''.'' @ name) (if keyword = ''use'' then ''group'' else ''node'') '''' start end)
      | [keyword, entity, prefix] \<Rightarrow>
          (case lookupEntity m keyword entity of
             None \<Rightarrow> []
           | Some p \<Rightarrow> stringCompletions (offeredKinds direction) prefix
               (\<lambda>kind. suggestion kind (keyword @ ''.'' @ entity @ ''.'' @ kind) ''port kind'' '''' start end))
      | [keyword, entity, kind, prefix] \<Rightarrow>
          (case lookupEntity m keyword entity of
             None \<Rightarrow> []
           | Some p \<Rightarrow>
               if kind = ''input'' \<or> kind = ''output''
               then stringCompletions (if kind = ''output'' then po_outputs p else po_inputs p) prefix
                 (\<lambda>name. portCompletion name (joinWith ''.'' [keyword, entity, kind] @ ''.'' @ name)
                    (metaOf (if kind = ''output'' then po_outputsMeta p else po_inputsMeta p) name) (kind = ''output'') start end)
               else [])
      | _ \<Rightarrow> [])"

definition propertyCompletions :: "ports \<Rightarrow> string \<Rightarrow> nat \<Rightarrow> nat \<Rightarrow> Completion list" where
  "propertyCompletions p prefix start end =
     stringCompletions (po_inputs p) prefix (\<lambda>name. portCompletion name name (metaOf (po_inputsMeta p) name) False start end)"

definition isFragmentChar :: "char \<Rightarrow> bool" where
  "isFragmentChar c \<longleftrightarrow> c = CHR ''.'' \<or> c = CHR ''_'' \<or> c = CHR ''-'' \<or>
     (let n = of_char c :: nat in 97 \<le> n \<and> n \<le> 122 \<or> 65 \<le> n \<and> n \<le> 90 \<or> 48 \<le> n \<and> n \<le> 57)"

definition traversalStart :: "string \<Rightarrow> nat \<Rightarrow> nat" where
  "traversalStart text offset = offset - length (takeWhile isFragmentChar (rev (take offset text)))"

definition isEdgeInput :: "string list \<Rightarrow> bool" where
  "isEdgeInput path \<longleftrightarrow> 2 \<le> length path \<and> last path = ''input'' \<and> last (butlast path) = ''edge''"

definition edgeInputLabelCompletions :: "('e, 'b, 'm) editLib \<Rightarrow> workspaceModel \<Rightarrow> string \<Rightarrow> nat \<Rightarrow> nat \<Rightarrow> Completion list" where
  "edgeInputLabelCompletions L m text start end =
     (case edgeEndpointPorts L m text start ''to'' of
        None \<Rightarrow> []
      | Some target \<Rightarrow>
          stringCompletions (po_inputs target) (slice text start end)
            (\<lambda>name. portCompletion name name (metaOf (po_inputsMeta target) name) False start end))"

definition relativeOutputCompletions ::
    "('e, 'b, 'm) editLib \<Rightarrow> workspaceModel \<Rightarrow> string \<Rightarrow> string \<Rightarrow> nat \<Rightarrow> nat \<Rightarrow> Completion list" where
  "relativeOutputCompletions L m text fragment start end =
     (case edgeEndpointPorts L m text start ''from'' of
        None \<Rightarrow> []
      | Some source \<Rightarrow>
          (case splitOn CHR ''.'' fragment of
             [prefix] \<Rightarrow> stringCompletions [''output''] prefix (\<lambda>kind. suggestion kind (kind @ ''.'') ''port kind'' '''' start end)
           | [kind, prefix] \<Rightarrow>
               if kind = ''output''
               then stringCompletions (po_outputs source) prefix
                 (\<lambda>name. portCompletion name (''output.'' @ name) (metaOf (po_outputsMeta source) name) True start end)
               else []
           | _ \<Rightarrow> []))"

definition contractPortPath :: "string list \<Rightarrow> bool" where
  "contractPortPath blocks \<longleftrightarrow>
     list_ex (\<lambda>(a, b). a = ''producer'' \<and> b = ''output'' \<or> a = ''consumer'' \<and> b = ''input'') (zip blocks (tl blocks))"

definition contractTypeInsert :: "string \<Rightarrow> string" where
  "contractTypeInsert name =
     (if name \<in> {''list'', ''set'', ''map'', ''optional''} then name @ ''(string)''
      else if name = ''object'' then name @ ''({})'' else if name = ''tuple'' then name @ ''([])'' else name)"

definition contractTypeCompletions :: "string \<Rightarrow> nat \<Rightarrow> Completion list" where
  "contractTypeCompletions text offset =
     (let start = traversalStart text offset in
      stringCompletions [''string'', ''number'', ''bool'', ''any'', ''list'', ''set'', ''map'', ''object'', ''tuple'', ''optional''] (slice text start offset)
        (\<lambda>name. suggestion name (contractTypeInsert name) ''Terraform type constraint''
          ''Contract types check structure without primitive coercion. Put defaults in the module variable declaration.'' start offset))"

definition Complete :: "('e, 'b, 'm) editLib \<Rightarrow> Workspace \<Rightarrow> string \<Rightarrow> int \<Rightarrow> Completion list" where
  "Complete L w path0 offset0 =
     (let path = el_Abs L path0; text = document L w path in
      if offset0 < 0 \<or> int (length text) < offset0 then []
      else let offset = nat offset0; m = modelAt L (workspaceModelOf L w path text) text offset; blocks = blockPathAt L text offset in
        (case edgeInputLabelAt L text offset blocks of
           Some labelStart \<Rightarrow> edgeInputLabelCompletions L m text labelStart offset
         | None \<Rightarrow>
             if literalAt L text offset then []
             else if contractPortPath blocks \<and> directionAt L text offset = ''type'' then contractTypeCompletions text offset
             else let start = traversalStart text offset; fragment = slice text start offset in
               (case objectAttributeAt L text offset of (objectAttribute, insideObject) \<Rightarrow>
                  if objectAttribute = ''vars'' \<and> CHR ''.'' \<notin> set fragment
                  then propertyCompletions (case varsPortsAt L m text offset of Some p \<Rightarrow> p | None \<Rightarrow> noPorts) fragment start offset
                  else if objectAttribute = ''backend_address'' \<and> CHR ''.'' \<notin> set fragment
                  then contextCompletions [''backend_address''] fragment start offset
                  else if insideObject then []
                  else if HasPrefix fragment ''runtime.'' then runtimeCompletions m fragment start offset
                  else if HasPrefix fragment ''node.'' \<or> HasPrefix fragment ''use.''
                  then traversalCompletions m fragment (directionAt L text offset) start offset
                  else if isEdgeInput blocks \<and> directionAt L text offset = ''from''
                  then relativeOutputCompletions L m text fragment start offset
                  else contextCompletions blocks fragment start offset)))"

subsection \<open>Definitions\<close>

text \<open>The attributes of a body in the order of their names, then those of its blocks.\<close>

fun walkBlocks :: "'e editBlock list \<Rightarrow> 'e editAttr list" where
  "walkBlocks [] = []"
| "walkBlocks (EditBlock t labels ranges at (EditBody attrs blocks) # rest) =
     map (\<lambda>name. the (map_of attrs name)) (sortedKeys attrs) @ walkBlocks blocks @ walkBlocks rest"

definition walkAttributes :: "'e editBody \<Rightarrow> 'e editAttr list" where
  "walkAttributes body =
     map (\<lambda>name. the (map_of (eb_Attributes body) name)) (sortedKeys (eb_Attributes body)) @ walkBlocks (eb_Blocks body)"

definition referenceStep :: "nat \<Rightarrow> (string \<times> string) option \<Rightarrow> editStep list \<Rightarrow> (string \<times> string) option" where
  "referenceStep offset found traversal =
     (case traversal of
        StepRoot root # StepAttr name start end # _ \<Rightarrow>
          if (root = ''node'' \<or> root = ''runtime'') \<and> start \<le> offset \<and> offset \<le> end then Some (root, name) else found
      | _ \<Rightarrow> found)"

definition referenceAt :: "('e, 'b, 'm) editLib \<Rightarrow> string \<Rightarrow> nat \<Rightarrow> (string \<times> string) option" where
  "referenceAt L text offset =
     (case el_Parse L text of
        None \<Rightarrow> None
      | Some (body, _) \<Rightarrow>
          foldl (referenceStep offset) None (concat (map (\<lambda>attr. el_Variables L (ea_Expr attr)) (walkAttributes body))))"

definition labelledBlock :: "string \<Rightarrow> string \<Rightarrow> 'e editBlock \<Rightarrow> bool" where
  "labelledBlock kind name block \<longleftrightarrow> ek_Type block = kind \<and> ek_Labels block = [name]"

definition definitionBlocks :: "('e, 'b, 'm) editLib \<Rightarrow> string \<Rightarrow> nat \<Rightarrow> string \<Rightarrow> 'e editBody \<Rightarrow> 'e editBlock list" where
  "definitionBlocks L text offset kind body =
     (let group = groupAt L text offset in
      if kind = ''node'' \<and> group \<noteq> ''''
      then (case filter (labelledBlock ''group'' group) (eb_Blocks body) of [] \<Rightarrow> [] | bs \<Rightarrow> eb_Blocks (ek_Body (last bs)))
      else eb_Blocks body)"

definition definitionIn :: "('e, 'b, 'm) editLib \<Rightarrow> Workspace \<Rightarrow> string \<Rightarrow> nat \<Rightarrow> string \<Rightarrow> string \<Rightarrow> string \<Rightarrow> Location option" where
  "definitionIn L w text offset kind name candidate =
     (case el_Parse L (document L w candidate) of
        None \<Rightarrow> None
      | Some (body, _) \<Rightarrow>
          (case filter (\<lambda>b. labelledBlock kind name b \<and> ek_LabelRanges b \<noteq> []) (definitionBlocks L text offset kind body) of
             b # _ \<Rightarrow> Some \<lparr>lo_Path = candidate, lo_Start = fst (hd (ek_LabelRanges b)), lo_End = snd (hd (ek_LabelRanges b))\<rparr>
           | [] \<Rightarrow> None))"

definition Definition :: "('e, 'b, 'm) editLib \<Rightarrow> Workspace \<Rightarrow> string \<Rightarrow> nat \<Rightarrow> Location option" where
  "Definition L w path0 offset =
     (let path = el_Abs L path0; text = document L w path in
      case referenceAt L text offset of
        None \<Rightarrow> None
      | Some (kind, name) \<Rightarrow>
          (case List.map_filter (definitionIn L w text offset kind name) (workspaceFiles L w path) of l # _ \<Rightarrow> Some l | [] \<Rightarrow> None))"

subsection \<open>Diagnostics\<close>

definition availableHint :: "string list \<Rightarrow> string" where
  "availableHint vs = (if vs = [] then '''' else ''; available: '' @ joinWith '', '' vs)"

definition nodeDiagnostics :: "workspaceModel \<Rightarrow> string \<Rightarrow> editStep list \<Rightarrow> editDiagnostic list" where
  "nodeDiagnostics m direction traversal =
     (case traversal of
        StepRoot root # StepAttr name s1 e1 # rest \<Rightarrow>
          if root \<noteq> ''node'' then []
          else (case map_of (wm_nodes m) name of
                  None \<Rightarrow> [\<lparr>dn_Start = s1, dn_End = e1, dn_Message = ''Unknown node '' @ name\<rparr>]
                | Some p \<Rightarrow>
                    (case rest of
                       StepAttr kind s2 e2 # rest' \<Rightarrow>
                         if kind \<noteq> ''input'' \<and> kind \<noteq> ''output'' then []
                         else
                           (if direction = ''from'' \<and> kind \<noteq> ''output'' \<or> direction = ''to'' \<and> kind \<noteq> ''input''
                            then [\<lparr>dn_Start = s2, dn_End = e2,
                                   dn_Message = direction @ '' must reference node '' @ (if direction = ''to'' then ''input'' else ''output'')\<rparr>]
                            else []) @
                           (case rest' of
                              StepAttr port s3 e3 # _ \<Rightarrow>
                                let available = (if kind = ''output'' then po_outputs p else po_inputs p) in
                                if po_known p \<and> port \<notin> set available
                                then [\<lparr>dn_Start = s3, dn_End = e3, dn_Message = ''Unknown '' @ kind @ '' '' @ port @ availableHint available\<rparr>]
                                else []
                            | _ \<Rightarrow> [])
                     | _ \<Rightarrow> []))
      | _ \<Rightarrow> [])"

definition varsDiagnostics :: "('e, 'b, 'm) editLib \<Rightarrow> workspaceModel \<Rightarrow> string \<Rightarrow> 'e editAttr \<Rightarrow> editDiagnostic list" where
  "varsDiagnostics L scope text attr =
     (if ea_Name attr \<noteq> ''vars'' then []
      else (case (varsPortsAt L scope text (ea_Start attr), el_Objects L (ea_Expr attr)) of
              (Some p, Some keys) \<Rightarrow>
                if \<not> po_known p then []
                else List.map_filter (\<lambda>key.
                  case el_Value L key of
                    Some (VString name) \<Rightarrow>
                      if name \<in> set (po_inputs p) then None
                      else Some \<lparr>dn_Start = fst (el_Range L key), dn_End = snd (el_Range L key),
                                 dn_Message = ''Unknown input '' @ name @ availableHint (po_inputs p)\<rparr>
                  | _ \<Rightarrow> None) keys
            | _ \<Rightarrow> []))"

definition attrDiagnostics :: "('e, 'b, 'm) editLib \<Rightarrow> workspaceModel \<Rightarrow> string \<Rightarrow> 'e editAttr \<Rightarrow> editDiagnostic list" where
  "attrDiagnostics L m text attr =
     (let scope = modelAt L m text (ea_Start attr) in
      concat (map (nodeDiagnostics scope (ea_Name attr)) (el_Variables L (ea_Expr attr))) @ varsDiagnostics L scope text attr)"

definition relativeOutputName :: "('e, 'b, 'm) editLib \<Rightarrow> 'e \<Rightarrow> string option" where
  "relativeOutputName L e =
     (case el_Traversal L e of
        Some [StepRoot root, StepAttr name _ _] \<Rightarrow> if root = ''output'' then Some name else None
      | _ \<Rightarrow> None)"

definition unquotedRange :: "string \<Rightarrow> nat \<times> nat \<Rightarrow> nat \<times> nat" where
  "unquotedRange text rng =
     (let start = (if fst rng < length text \<and> text ! fst rng = CHR 0x22 then Suc (fst rng) else fst rng) in
      (start, if start < snd rng \<and> snd rng \<le> length text \<and> text ! (snd rng - 1) = CHR 0x22 then snd rng - 1 else snd rng))"

definition inputBlockDiagnostics ::
    "('e, 'b, 'm) editLib \<Rightarrow> string \<Rightarrow> ports option \<Rightarrow> ports option \<Rightarrow> 'e editBlock \<Rightarrow> editDiagnostic list" where
  "inputBlockDiagnostics L text source target input =
     (case (ek_Type input = ''input'', ek_Labels input, ek_LabelRanges input) of
        (True, [label], [rng]) \<Rightarrow>
          (case target of
             Some p \<Rightarrow> if po_known p \<and> label \<notin> set (po_inputs p)
               then [\<lparr>dn_Start = fst (unquotedRange text rng), dn_End = snd (unquotedRange text rng),
                      dn_Message = ''Unknown input '' @ label @ availableHint (po_inputs p)\<rparr>] else []
           | None \<Rightarrow> []) @
          (case (map_of (eb_Attributes (ek_Body input)) ''from'', source) of
             (Some attr, Some p) \<Rightarrow>
               (case relativeOutputName L (ea_Expr attr) of
                  Some name \<Rightarrow> if po_known p \<and> name \<notin> set (po_outputs p)
                    then [\<lparr>dn_Start = fst (el_Range L (ea_Expr attr)), dn_End = snd (el_Range L (ea_Expr attr)),
                           dn_Message = ''Unknown output '' @ name @ availableHint (po_outputs p)\<rparr>] else []
                | None \<Rightarrow> [])
           | _ \<Rightarrow> [])
      | _ \<Rightarrow> [])"

fun edgeInputDiagnostics :: "('e, 'b, 'm) editLib \<Rightarrow> string \<Rightarrow> workspaceModel \<Rightarrow> 'e editBlock list \<Rightarrow> editDiagnostic list" where
  "edgeInputDiagnostics L text m [] = []"
| "edgeInputDiagnostics L text m (EditBlock t labels ranges at (EditBody attrs blocks) # rest) =
     (let block = EditBlock t labels ranges at (EditBody attrs blocks) in
      (if t = ''group'' then edgeInputDiagnostics L text (modelAt L m text at) blocks else []) @
      (if t = ''edge''
       then concat (map (inputBlockDiagnostics L text (blockEndpointPorts L m block ''from'') (blockEndpointPorts L m block ''to'')) blocks) else []) @
      edgeInputDiagnostics L text m rest)"

definition contractTypeDiagnostics :: "('e, 'b, 'm) editLib \<Rightarrow> 'e editBlock \<Rightarrow> editDiagnostic list" where
  "contractTypeDiagnostics L port =
     (case map_of (eb_Attributes (ek_Body port)) ''type'' of
        None \<Rightarrow> []
      | Some attr \<Rightarrow>
          let e = ea_Expr attr; rng = el_Range L e;
              at = (\<lambda>msg. \<lparr>dn_Start = fst rng, dn_End = snd rng, dn_Message = msg\<rparr>) in
          (case el_Value L e of
             Some (VString s) \<Rightarrow>
               (case el_ParseExpression L s of
                  None \<Rightarrow> [at ''Invalid contract type; use a Terraform type constraint'']
                | Some parsed \<Rightarrow> map at (el_TypeErrors L parsed))
           | _ \<Rightarrow> map at (el_TypeErrors L e)))"

fun contractDiagnostics :: "('e, 'b, 'm) editLib \<Rightarrow> 'e editBlock list \<Rightarrow> editDiagnostic list" where
  "contractDiagnostics L [] = []"
| "contractDiagnostics L (EditBlock t labels ranges at (EditBody attrs blocks) # rest) =
     (if t = ''producer'' \<or> t = ''consumer'' then concat (map (contractTypeDiagnostics L) blocks) else []) @
     (if t = ''group'' then contractDiagnostics L blocks else []) @ contractDiagnostics L rest"

fun backendAddressDiagnostics :: "('e, 'b, 'm) editLib \<Rightarrow> ('h, 'e, 'c) hclLib \<Rightarrow> 'e editBlock list \<Rightarrow> editDiagnostic list" where
  "backendAddressDiagnostics L H [] = []"
| "backendAddressDiagnostics L H (EditBlock t labels ranges at (EditBody attrs blocks) # rest) =
     (if t = ''group'' then backendAddressDiagnostics L H blocks else []) @
     (if t = ''node'' \<or> t = ''use''
      then (case map_of attrs ''backend_address'' of
              None \<Rightarrow> []
            | Some attr \<Rightarrow>
                (case ParseBackendAddress H (Some (ea_Expr attr)) of
                   Inr _ \<Rightarrow> []
                 | Inl err \<Rightarrow> [\<lparr>dn_Start = fst (el_Range L (ea_Expr attr)), dn_End = snd (el_Range L (ea_Expr attr)), dn_Message = el_ErrorText L err\<rparr>]))
      else []) @ backendAddressDiagnostics L H rest"

definition Diagnose :: "('e, 'b, 'm) editLib \<Rightarrow> ('h, 'e, 'c) hclLib \<Rightarrow> Workspace \<Rightarrow> string \<Rightarrow> editDiagnostic list" where
  "Diagnose L H w path0 =
     (let path = el_Abs L path0; text = document L w path; m = workspaceModelOf L w path text in
      case el_Parse L text of
        None \<Rightarrow> []
      | Some (body, _) \<Rightarrow>
          contractDiagnostics L (eb_Blocks body) @ backendAddressDiagnostics L H (eb_Blocks body) @
          concat (map (attrDiagnostics L m text) (walkAttributes body)) @ edgeInputDiagnostics L text m (eb_Blocks body))"

subsection \<open>Hover\<close>

definition portBlockPair :: "openBlock \<times> openBlock \<Rightarrow> bool" where
  "portBlockPair pp \<longleftrightarrow> (xb_Name (fst pp) = ''producer'' \<or> xb_Name (fst pp) = ''consumer'') \<and>
     (xb_Name (snd pp) = ''input'' \<or> xb_Name (snd pp) = ''output'')"

definition hoverText :: "string \<Rightarrow> string \<Rightarrow> string" where
  "hoverText kind typ =
     ''Module '' @ kind @ '' type: `'' @ filter (\<lambda>c. c \<noteq> CHR ''`'') typ @ ''`.'' @ CHR 0x0A # CHR 0x0A #
     ''Contracts add requirements to this declaration. Type omission keeps the module input check. Actual value checks occur during plan/apply; static information alone is not confirmation.''"

definition Hover :: "('e, 'b, 'm) editLib \<Rightarrow> Workspace \<Rightarrow> string \<Rightarrow> nat \<Rightarrow> string" where
  "Hover L w path0 offset =
     (let path = el_Abs L path0; text = document L w path; blocks = openBlocksAt L text offset in
      case filter portBlockPair (zip blocks (tl blocks)) of
        [] \<Rightarrow> ''''
      | (parent, port) # _ \<Rightarrow>
          (case InspectModule (el_Modules L) (Join [DirName path, xb_Label parent]) UnknownFiles of
             Inl _ \<Rightarrow> ''Module declaration unavailable; vendor the source or select unambiguous runtime declarations. Contract checks are deferred until actual values are available.''
           | Inr s \<Rightarrow>
               let typ = (if xb_Name parent = ''consumer''
                          then (case map_of (sc_Variables (in_Schema s)) (xb_Label port) of Some v \<Rightarrow> v_Type v | None \<Rightarrow> '''')
                          else (case map_of (sc_OutputDetails (in_Schema s)) (xb_Label port) of Some out \<Rightarrow> o_Type out | None \<Rightarrow> '''')) in
               hoverText (xb_Name port) (if typ = '''' then ''not declared'' else typ)))"

subsection \<open>Completion and diagnosis\<close>

text \<open>The names a reference is made of, whatever its positions.\<close>

fun stepName :: "editStep \<Rightarrow> string" where
  "stepName (StepRoot r) = r"
| "stepName (StepAttr n s e) = n"
| "stepName StepIndex = ''''"

fun isAttrStep :: "editStep \<Rightarrow> bool" where
  "isAttrStep (StepAttr n s e) = True"
| "isAttrStep s = False"

definition reads :: "editStep list \<Rightarrow> string list \<Rightarrow> bool" where
  "reads t names \<longleftrightarrow> (\<exists>r rest. t = StepRoot r # rest \<and> list_all isAttrStep rest \<and> names = r # map stepName rest)"

lemma attr_step: "isAttrStep s \<Longrightarrow> \<exists>i j. s = StepAttr (stepName s) i j"
  by (cases s) auto

text \<open>A node of the model is inspected, or has no ports.\<close>

definition knownOrEmpty :: "ports \<Rightarrow> bool" where
  "knownOrEmpty p \<longleftrightarrow> po_known p \<or> po_inputs p = [] \<and> po_outputs p = []"

lemma inspectPorts_known: "knownOrEmpty (inspectPorts L base source mode)" "knownOrEmpty noPorts"
  by (auto simp: knownOrEmpty_def inspectPorts_def noPorts_def split: sum.split)

fun goodModel :: "workspaceModel \<Rightarrow> bool" where
  "goodModel (WorkspaceModel nodes uses rts groups) \<longleftrightarrow>
     list_all (\<lambda>(k, p). knownOrEmpty p) nodes \<and> list_all (\<lambda>(k, g). goodModel g) groups"

lemma list_all_update: "list_all (\<lambda>(k, v). P v) m \<Longrightarrow> P v \<Longrightarrow> list_all (\<lambda>(k, v). P v) (AList.update k v m)"
  by (induction m) auto

lemma goodModel_new: "goodModel newWorkspaceModel"
  by (simp add: newWorkspaceModel_def)

lemma addNodeBlock_good:
  "list_all (\<lambda>(k, p). knownOrEmpty p) nodes \<Longrightarrow> list_all (\<lambda>(k, p). knownOrEmpty p) (addNodeBlock L path runtimes fallback block nodes)"
  by (auto simp: addNodeBlock_def Let_def inspectPorts_known intro!: list_all_update split: list.split)

lemma putGroup_good: "goodModel m \<Longrightarrow> goodModel g \<Longrightarrow> goodModel (putGroup labels g m)"
  by (cases m) (auto simp: putGroup_def intro!: list_all_update split: list.split)

lemma plainBlock_good: "goodModel m \<Longrightarrow> goodModel (plainBlock L w path runtimes fallback block m)"
  by (cases m) (auto simp: plainBlock_def addNodeBlock_good split: list.split)

lemma addBlocks_good: "goodModel m \<Longrightarrow> goodModel (addBlocks L w path runtimes fallback m blocks)"
proof (induction L w path runtimes fallback m blocks rule: addBlocks.induct)
  case (2 L w path runtimes fallback m t labels ranges at attrs blocks rest)
  show ?case
    using 2 goodModel_new by (cases "t = ''group''") (simp_all add: putGroup_good plainBlock_good)
qed simp

lemma addFiles_good:
  "goodModel m \<Longrightarrow> goodModel (foldl (\<lambda>m (candidate, body). addBlocks L w candidate rts fb m (eb_Blocks body)) m bodies)"
  by (induction bodies arbitrary: m) (auto simp: addBlocks_good)

lemma goodModel_runtimes: "goodModel (WorkspaceModel nodes uses rts groups) \<longleftrightarrow> goodModel (WorkspaceModel nodes uses rts' groups)"
  by simp

lemma workspaceModelOf_good: "goodModel (workspaceModelOf L w path text)"
proof -
  have "goodModel (case foldl (\<lambda>m (candidate, body). addBlocks L w candidate rts fb m (eb_Blocks body)) newWorkspaceModel bodies of
      WorkspaceModel nodes uses rts groups \<Rightarrow> WorkspaceModel nodes uses (uniqueSorted rts) groups)" for rts fb bodies
    using addFiles_good [OF goodModel_new, of L w rts fb bodies]
    by (cases "foldl (\<lambda>m (candidate, body). addBlocks L w candidate rts fb m (eb_Blocks body)) newWorkspaceModel bodies") simp
  then show ?thesis unfolding workspaceModelOf_def Let_def by (simp split: prod.split del: goodModel.simps)
qed

lemma modelAt_good: "goodModel m \<Longrightarrow> goodModel (modelAt L m text offset)"
proof -
  assume m: "goodModel m"
  have "goodModel g" if "map_of (wm_groups m) label = Some g" for g label
    using that m by (cases m) (auto simp: list_all_iff dest!: map_of_SomeD)
  then have "goodModel (WorkspaceModel nodes uses (wm_runtimes m) groups)"
    if "map_of (wm_groups m) label = Some (WorkspaceModel nodes uses rts groups)" for label nodes uses rts groups
    using that goodModel_runtimes by blast
  then show ?thesis
    using m goodModel_new unfolding modelAt_def by (auto split: option.split workspaceModel.split simp del: goodModel.simps)
qed

lemma node_known: "goodModel m \<Longrightarrow> map_of (wm_nodes m) name = Some p \<Longrightarrow> knownOrEmpty p"
  by (cases m) (auto simp: list_all_iff dest!: map_of_SomeD)

text \<open>A reference under a node that has a meaning: a node, a kind of port, or a port of a node whose module could be read.\<close>

fun meaningful :: "workspaceModel \<Rightarrow> string list \<Rightarrow> bool" where
  "meaningful m [name] = True"
| "meaningful m [name, kind] = (kind \<in> {''input'', ''output''})"
| "meaningful m [name, kind, port] =
     (kind \<in> {''input'', ''output''} \<and> (case map_of (wm_nodes m) name of Some p \<Rightarrow> po_known p | None \<Rightarrow> False))"
| "meaningful m names = False"

text \<open>What diagnosis says of a reference, wherever it stands, and what it says of a kind the attribute forbids.\<close>

definition diagnosed :: "workspaceModel \<Rightarrow> string \<Rightarrow> string list \<Rightarrow> string list \<Rightarrow> bool" where
  "diagnosed m direction names messages \<longleftrightarrow>
     (\<forall>t. reads t (''node'' # names) \<longrightarrow> map dn_Message (nodeDiagnostics m direction t) = messages)"

definition forbiddenKind :: "string \<Rightarrow> string list \<Rightarrow> bool" where
  "forbiddenKind direction parts \<longleftrightarrow> length parts = 2 \<and> parts ! 1 \<notin> set (offeredKinds direction)"

definition kindMessage :: "string \<Rightarrow> string" where
  "kindMessage direction = direction @ '' must reference node '' @ (if direction = ''to'' then ''input'' else ''output'')"

lemma attr_step_iff: "isAttrStep s \<longleftrightarrow> (\<exists>n i j. s = StepAttr n i j)"
  by (cases s) auto

lemma reads_iff:
  "reads t [r, a] \<longleftrightarrow> (\<exists>i j. t = [StepRoot r, StepAttr a i j])"
  "reads t [r, a, b] \<longleftrightarrow> (\<exists>i j k l. t = [StepRoot r, StepAttr a i j, StepAttr b k l])"
  "reads t [r, a, b, c] \<longleftrightarrow> (\<exists>i j k l u v. t = [StepRoot r, StepAttr a i j, StepAttr b k l, StepAttr c u v])"
  by (fastforce simp: reads_def Cons_eq_map_conv attr_step_iff)+

lemma diagnosed_iff:
  "diagnosed m direction [a] ms \<longleftrightarrow> (\<forall>i j. map dn_Message (nodeDiagnostics m direction [StepRoot ''node'', StepAttr a i j]) = ms)"
  "diagnosed m direction [a, b] ms \<longleftrightarrow>
     (\<forall>i j k l. map dn_Message (nodeDiagnostics m direction [StepRoot ''node'', StepAttr a i j, StepAttr b k l]) = ms)"
  "diagnosed m direction [a, b, c] ms \<longleftrightarrow>
     (\<forall>i j k l u v. map dn_Message (nodeDiagnostics m direction [StepRoot ''node'', StepAttr a i j, StepAttr b k l, StepAttr c u v]) = ms)"
  unfolding diagnosed_def reads_iff by blast+

lemma diagnosed_node: "diagnosed m direction [name] [] \<longleftrightarrow> map_of (wm_nodes m) name \<noteq> None"
  unfolding diagnosed_iff nodeDiagnostics_def by (simp split: option.split)

lemma diagnosed_kind:
  "kind \<in> {''input'', ''output''} \<Longrightarrow>
   diagnosed m direction [name, kind] [] \<longleftrightarrow> map_of (wm_nodes m) name \<noteq> None \<and> kind \<in> set (offeredKinds direction)"
  unfolding diagnosed_iff nodeDiagnostics_def offeredKinds_def by (auto split: option.split)

lemma diagnosed_port:
  assumes "kind \<in> {''input'', ''output''}" "map_of (wm_nodes m) name = Some p" "po_known p"
  shows "diagnosed m direction [name, kind, port] (if kind \<in> set (offeredKinds direction) then [] else [kindMessage direction]) \<longleftrightarrow>
    port \<in> set (if kind = ''output'' then po_outputs p else po_inputs p)"
  using assms unfolding diagnosed_iff nodeDiagnostics_def offeredKinds_def kindMessage_def by (auto simp: Let_def)

lemma set_stringCompletions: "set (stringCompletions vs prefix build) = build ` {v \<in> set vs. HasPrefix v prefix}"
  by (auto simp: stringCompletions_def uniqueSorted_def)

definition offers :: "Completion list \<Rightarrow> string \<Rightarrow> string \<Rightarrow> bool" where
  "offers cs label ins \<longleftrightarrow> (\<exists>c \<in> set cs. cn_Label c = label \<and> cn_Insert c = ins)"

text \<open>What is offered after \<open>node.\<close> and zero, one, two or more complete parts.\<close>

lemma offered_node:
  assumes "splitOn CHR ''.'' fragment = [''node'', prefix]"
  shows "offers (traversalCompletions m fragment direction i j) name (''node.'' @ name) \<longleftrightarrow> map_of (wm_nodes m) name \<noteq> None \<and> HasPrefix name prefix"
  unfolding traversalCompletions_def assms namedCompletions_def
  by (auto simp: offers_def set_stringCompletions suggestion_def map_of_eq_None_iff)

lemma offered_kind:
  assumes "splitOn CHR ''.'' fragment = [''node'', entity, prefix]"
  shows "offers (traversalCompletions m fragment direction i j) name (''node.'' @ entity @ ''.'' @ name) \<longleftrightarrow>
    map_of (wm_nodes m) entity \<noteq> None \<and> name \<in> set (offeredKinds direction) \<and> HasPrefix name prefix"
  by (cases "map_of (wm_nodes m) entity")
    (auto simp: traversalCompletions_def assms lookupEntity_def offers_def set_stringCompletions suggestion_def)

lemma offered_port:
  assumes "splitOn CHR ''.'' fragment = [''node'', entity, kind, prefix]"
  shows "offers (traversalCompletions m fragment direction i j) name (''node.'' @ entity @ ''.'' @ kind @ ''.'' @ name) \<longleftrightarrow>
    (\<exists>p. map_of (wm_nodes m) entity = Some p \<and> kind \<in> {''input'', ''output''} \<and>
       name \<in> set (if kind = ''output'' then po_outputs p else po_inputs p)) \<and> HasPrefix name prefix"
  by (cases "map_of (wm_nodes m) entity")
    (auto simp: traversalCompletions_def assms lookupEntity_def offers_def set_stringCompletions portCompletion_def suggestion_def)

lemma offered_exact:
  assumes "goodModel m" "splitOn CHR ''.'' fragment = ''node'' # parts @ [prefix]"
  shows "offers (traversalCompletions m fragment direction i j) name (joinWith ''.'' (''node'' # parts @ [name])) \<longleftrightarrow>
    HasPrefix name prefix \<and> meaningful m (parts @ [name]) \<and>
    diagnosed m direction (parts @ [name]) (if forbiddenKind direction parts then [kindMessage direction] else [])"
proof -
  consider (node) "parts = []" | (kind) entity where "parts = [entity]" | (port) entity kind where "parts = [entity, kind]"
    | (deep) a b c rest where "parts = a # b # c # rest"
    by (metis list.exhaust)
  then show ?thesis
  proof cases
    case node
    with assms(2) show ?thesis using offered_node [of fragment prefix m direction i j name] diagnosed_node [of m direction name]
      by (auto simp: forbiddenKind_def)
  next
    case kind
    have "set (offeredKinds direction) \<subseteq> {''input'', ''output''}" by (auto simp: offeredKinds_def)
    with kind assms(2) show ?thesis using offered_kind [of fragment entity prefix m direction i j name] diagnosed_kind [of name m direction entity]
      by (auto simp: forbiddenKind_def)
  next
    case port
    with assms(2) have offered: "offers (traversalCompletions m fragment direction i j) name (joinWith ''.'' (''node'' # parts @ [name])) \<longleftrightarrow>
      (\<exists>p. map_of (wm_nodes m) entity = Some p \<and> kind \<in> {''input'', ''output''} \<and>
         name \<in> set (if kind = ''output'' then po_outputs p else po_inputs p)) \<and> HasPrefix name prefix"
      using offered_port [of fragment entity kind prefix m direction i j name] by simp
    show ?thesis
    proof (cases "kind \<in> {''input'', ''output''} \<and> (\<exists>p. map_of (wm_nodes m) entity = Some p \<and> po_known p)")
      case True
      then obtain p where p: "kind \<in> {''input'', ''output''}" "map_of (wm_nodes m) entity = Some p" "po_known p" by blast
      from diagnosed_port [OF this, of direction name] p port show ?thesis unfolding offered
        by (auto simp: forbiddenKind_def)
    next
      case False
      then have "\<not> meaningful m (parts @ [name])" using port by (auto split: option.splits)
      moreover have "\<not> offers (traversalCompletions m fragment direction i j) name (joinWith ''.'' (''node'' # parts @ [name]))"
        unfolding offered using False node_known [OF assms(1)] by (fastforce simp: knownOrEmpty_def split: if_splits)
      ultimately show ?thesis by simp
    qed
  next
    case deep
    then have "traversalCompletions m fragment direction i j = []" using assms(2) by (cases rest) (simp_all add: traversalCompletions_def)
    moreover have "\<not> meaningful m (parts @ [name])" using deep by (cases rest) simp_all
    ultimately show ?thesis by (simp add: offers_def)
  qed
qed

text \<open>The scope at a position of a document, and the positions at which a reference is being typed: not in a string or comment,
  the label of an edge input, the type of a contract port, or an object.\<close>

definition scopeOf :: "('e, 'b, 'm) editLib \<Rightarrow> Workspace \<Rightarrow> string \<Rightarrow> nat \<Rightarrow> workspaceModel" where
  "scopeOf L w path offset =
     modelAt L (workspaceModelOf L w (el_Abs L path) (Document L w path)) (Document L w path) offset"

definition typesReference :: "('e, 'b, 'm) editLib \<Rightarrow> string \<Rightarrow> nat \<Rightarrow> bool" where
  "typesReference L text offset \<longleftrightarrow>
     offset \<le> length text \<and> edgeInputLabelAt L text offset (blockPathAt L text offset) = None \<and> \<not> literalAt L text offset \<and>
     \<not> (contractPortPath (blockPathAt L text offset) \<and> directionAt L text offset = ''type'') \<and> \<not> snd (objectAttributeAt L text offset)"

lemma fragment_node:
  assumes "splitOn CHR ''.'' fragment = ''node'' # parts @ [prefix]"
  obtains rest where "fragment = ''node.'' @ rest"
proof -
  obtain y ys where "parts @ [prefix] = y # ys" by (cases "parts @ [prefix]") simp_all
  with joinWith_splitOn [of "CHR ''.''" fragment] assms have "fragment = ''node.'' @ joinWith ''.'' (y # ys)" by simp
  then show ?thesis by (rule that)
qed

lemma Complete_reference:
  assumes "typesReference L (Document L w path) offset"
    and split: "splitOn CHR ''.'' (slice (Document L w path) (traversalStart (Document L w path) offset) offset) = ''node'' # parts @ [prefix]"
  shows "Complete L w path (int offset) =
    traversalCompletions (scopeOf L w path offset) (slice (Document L w path) (traversalStart (Document L w path) offset) offset)
      (directionAt L (Document L w path) offset) (traversalStart (Document L w path) offset) offset"
proof -
  let ?text = "document L w (el_Abs L path)"
  obtain rest where frag: "slice ?text (traversalStart ?text offset) offset = ''node.'' @ rest"
    using fragment_node [OF split] unfolding Document_def by blast
  obtain attr where "objectAttributeAt L ?text offset = (attr, False)"
    using assms(1) by (cases "objectAttributeAt L ?text offset") (simp add: typesReference_def Document_def)
  then show ?thesis
    using assms(1) frag unfolding typesReference_def Document_def by (auto simp: Complete_def Let_def scopeOf_def Document_def HasPrefix_def)
qed

text \<open>A reference in an attribute of a document, and that diagnosis reports what it finds there.\<close>

definition refersTo :: "('e, 'b, 'm) editLib \<Rightarrow> Workspace \<Rightarrow> string \<Rightarrow> 'e editAttr \<Rightarrow> editStep list \<Rightarrow> bool" where
  "refersTo L w path attr t \<longleftrightarrow>
     (\<exists>body failed. el_Parse L (Document L w path) = Some (body, failed) \<and> attr \<in> set (walkAttributes body) \<and> t \<in> set (el_Variables L (ea_Expr attr)))"

lemma Diagnose_reference:
  "refersTo L w path attr t \<Longrightarrow> set (nodeDiagnostics (scopeOf L w path (ea_Start attr)) (ea_Name attr) t) \<subseteq> set (Diagnose L H w path)"
  by (fastforce simp: refersTo_def Diagnose_def Let_def scopeOf_def Document_def attrDiagnostics_def)

lemma scopeOf_good: "goodModel (scopeOf L w path offset)"
  unfolding scopeOf_def by (intro modelAt_good workspaceModelOf_good)

subsection \<open>Properties\<close>


text \<open>A directory with one file, in which the reference \<open>node.app.input.t\<close> is being typed, and one node with its module in \<open>/m\<close>.\<close>

definition demoAttr :: "string editAttr" where
  "demoAttr = \<lparr>ea_Name = ''x'', ea_Start = 0, ea_Expr = ''node.app.input.t''\<rparr>"

definition demoTraversal :: "editStep list" where
  "demoTraversal = [StepRoot ''node'', StepAttr ''app'' 8 12, StepAttr ''input'' 12 18, StepAttr ''t'' 18 20]"

definition demoEdit :: "(string, demoBody, string) editLib" where
  "demoEdit =
     \<lparr>el_Lex = (\<lambda>_. []), el_StringLiteral = tk_Bytes,
      el_Parse = (\<lambda>text. Some (EditBody [(''x'', demoAttr)] [EditBlock ''node'' [''app''] [(5, 10)] 11
        (EditBody [(''source'', \<lparr>ea_Name = ''source'', ea_Start = 12, ea_Expr = ''./m''\<rparr>)] [])], False)),
      el_Value = (\<lambda>e. Some (VString e)), el_Traversal = (\<lambda>_. None),
      el_Variables = (\<lambda>e. if e = ea_Expr demoAttr then [demoTraversal] else []), el_Objects = (\<lambda>_. None), el_Range = (\<lambda>_. (0, 0)),
      el_ParseExpression = Some, el_TypeErrors = (\<lambda>_. []), el_ErrorText = (\<lambda>_. ''''), el_ReadDir = (\<lambda>_. [(''a.tg.hcl'', False)]),
      el_ReadFile = (\<lambda>_. ''x = node.app.input.t''), el_Abs = id, el_OS = sampleOS, el_Modules = demoModules\<rparr>"


end
