(* ===== verification/Spec2Isabelle.thy ===== *)
theory Spec2Isabelle
  imports Selection Build Journal_History Mutation_Journal Mutation_Gate S3_Journal Run_Lock
    Plugin_Trace Parser_Panics Vendor Diagnostics Editor
begin

text \<open>
  terragraph runs several Terraform or OpenTofu root modules as one dependency graph. A blueprint, written in HCL,
  declares the modules as nodes, the wiring from outputs to inputs as edges, groups of nodes that other blueprints
  use, and the contracts, locks, plugins and vendored sources around them. This development models the program under
  \<open>src/internal\<close> and the plugin protocol under \<open>src/plugin\<close> as HOL functions and proves what the parts promise to each
  other and to an operator. Each theory opens with the files it models; this header gives the whole.

  \<^bold>\<open>How the parts work together.\<close> The parser reads a blueprint. The builder expands groups, inspects every module
  and returns a graph, which validation checks and Kahn's algorithm cuts into levels. An operation (plan, apply, destroy,
  a saved plan, a native command on one node) takes the process lock and the graph lock, passes the barrier of the
  execution journal, and runs the nodes level by level: resolve inputs, plan, review, approve, record, start the
  runtime, collect outputs, write snapshots. Plugins are asked at fixed points of this. The journal is what recovery
  works from after a crash. Vendoring, observation, the editor support and the diagnostics stand beside this path.

  \<^bold>\<open>Foundations.\<close>
    \<^item> \<open>Prelude\<close>: Go strings as \<^typ>\<open>string\<close> in byte order, Go maps as association lists, sets as lists without
      repetition, results as sums with the error on the left, and the generic lemmas on them. Where Go ranges over a
      map, the order of the list stands for the unspecified one.
    \<^item> \<open>Effects\<close>: a method that mutates state and may fail is a function from a state to a state and a result, in which an
      early return keeps the effects made so far. \<open>relates R m\<close> says every run of \<open>m\<close> takes a state to an \<open>R\<close>-related one; the
      locale \<open>effect_order\<close> (a preorder) gives the composition rules once, and the safety proofs interpret it.
    \<^item> \<open>Paths\<close>, \<open>Globs\<close>, \<open>Durations\<close>: what the code uses of \<open>path/filepath\<close>, \<open>io/fs\<close> and \<open>time.ParseDuration\<close>. Durations
      are nanoseconds with the overflow checks of the library at 64 bits.

  \<^bold>\<open>Blueprints.\<close>
    \<^item> \<open>Blueprint_Types\<close>, \<open>Contract_Types\<close>, \<open>Values\<close>: the data model (\<open>blueprint/types.go\<close> and its neighbours), the
      canonical spelling of a contract type, and the check of a value against one, proved exact against the inductive
      relation \<open>conforms\<close> (\<open>contract_check_exact\<close>).
    \<^item> \<open>Hcl_Read\<close>, \<open>Block_Parser\<close>, \<open>Scope_Parser\<close>, \<open>Blueprint_Files\<close>: the parser (\<open>blueprint/parse.go\<close>,
      \<open>parse_block_contracts.go\<close>, \<open>plugins.go\<close>, \<open>plugin_binding.go\<close>, \<open>execution.go\<close>, \<open>metadata.go\<close>) over an abstract HCL library.
    \<^item> \<open>Blueprint_Typing\<close>, \<open>Parser_Panics\<close>: an accepted blueprint satisfies every promise later stages rely on, the
      graph built from it is well formed, and the one panic the parser can reach is characterised.
    \<^item> \<open>Module_Inspect\<close>, \<open>Observed\<close>: inspection of root modules with override files (\<open>module/inspect.go\<close>, \<open>files.go\<close>), proved
      equal to the rule for which attribute is in force; decoded outputs, planned values and effective inputs.

  \<^bold>\<open>Graphs.\<close>
    \<^item> \<open>Graph_Core\<close>, \<open>Tarjan\<close>, \<open>Topo\<close>, \<open>Selection\<close>: the graph and its invariant, the cycle report (exactly the cyclic
      components), the levels (a minimal schedule, which exists exactly for acyclic graphs), and partial runs with the
      metadata stored records carry (\<open>graph/tarjan.go\<close>, \<open>topo.go\<close>, \<open>selection.go\<close>).
    \<^item> \<open>Group_Expand\<close>, \<open>Build\<close>: expansion of groups and the builder (\<open>graph/group.go\<close>, \<open>build.go\<close>, \<open>source.go\<close>), which
      terminates, keeps the invariant, and agrees with the separate enumeration of source nodes.
    \<^item> \<open>Backend\<close>, \<open>Validate\<close>: state addresses and the validation passes (\<open>graph/backend_address.go\<close>,
      \<open>backend_identity.go\<close>, \<open>validate.go\<close>, \<open>validate_contracts.go\<close>). The passes that share the map of wired inputs
      are interpretations of the locale \<open>supply_pass\<close>.

  \<^bold>\<open>The journal.\<close>
    \<^item> \<open>Exec_Store\<close>, \<open>S3_Service\<close>: the execution store as an interface (locale \<open>execution_store\<close>), its file-system
      implementation with every failing system call, and its S3 implementation.
    \<^item> \<open>Exec_Record\<close>, \<open>Journal\<close>, \<open>Journal_Session\<close>, \<open>S3_Journal\<close>, \<open>Journal_History\<close>: records, sessions, retention,
      cancellation, barrier and recovery (\<open>engine/execution_journal.go\<close>, \<open>execution_cleanup.go\<close>, \<open>execution_recovery.go\<close>,
      \<open>recovery_outputs.go\<close>, \<open>plugins.go\<close>). A session's copy is the stored record or the session is fenced, over both stores
      (locale \<open>journal_store\<close>); no operation of the history destroys evidence of an unresolved mutation; recovery never
      starts one.

  \<^bold>\<open>Runs.\<close>
    \<^item> \<open>Approve_Gate\<close>, \<open>Contract_Values\<close>, \<open>Runtime_Calls\<close>, \<open>Inputs\<close>: the gate over planned changes, contracts on values,
      the calls that leave the program, snapshots and the resolution of inputs (\<open>engine/approve.go\<close>, \<open>contracts_values.go\<close>,
      \<open>snapshot.go\<close>, \<open>inputs.go\<close>).
    \<^item> \<open>Run_Levels\<close>, \<open>Operations\<close>, \<open>Engine_Checks\<close>, \<open>Saved_Plans\<close>, \<open>Node_Operation\<close>: the scheduler and the operations
      (\<open>engine/run.go\<close>, \<open>apply.go\<close>, \<open>destroy.go\<close>, \<open>plan.go\<close>, \<open>prepared_plan.go\<close>, \<open>saved_execution.go\<close>, \<open>plan_bundle.go\<close>,
      \<open>node_operation.go\<close>, \<open>path_collision.go\<close>).
    \<^item> \<open>Run_Effects\<close>, \<open>Mutation_Journal\<close>, \<open>Mutation_Gate\<close>: what every operation keeps, proved once in the locales
      \<open>state_order\<close> and \<open>call_order\<close>; interpreted to show that every process that can change infrastructure starts after its
      stored record says so, and only behind the gate and an approval.
    \<^item> \<open>Runner\<close>, \<open>Observation\<close>: the command lines and environments of subprocesses (\<open>internal/exec\<close>) and the reading
      sessions (\<open>engine/observe.go\<close>), which start reading commands only.
    \<^item> \<open>Diagnostics\<close>: the diagnostics of a failed run (\<open>engine/diagnostic.go\<close>), proved equal to a specification cause
      by cause.

  \<^bold>\<open>Locks, plugins, vendoring, editor.\<close>
    \<^item> \<open>Graph_Lock\<close>, \<open>Run_Lock\<close>: the lock object of a bucket (\<open>internal/graphlock\<close>) with the step relation \<open>lockStep\<close> of any
      number of processes, the process lock (\<open>internal/runlock\<close>) and the command that breaks a leftover lock. The lock excludes
      as long as no force-unlock is issued while a process is alive; after one, a release can remove a newer lock
      whose object has the same tag, which the payload (user, host, second) does not rule out
      (\<open>same_second_lock_deleted\<close>).
    \<^item> \<open>Plugin_Packages\<close>, \<open>Plugin_Session\<close>, \<open>Plugin_Lifecycle\<close>, \<open>Plugin_Trace\<close>: descriptors, installation and resolution
      (\<open>plugin/descriptor.go\<close>, \<open>plugins/package.go\<close>, \<open>lock.go\<close>), and dispatch, retries, recording, credentials and
      expansion (\<open>session.go\<close>, \<open>lifecycle.go\<close>, \<open>credentials.go\<close>, \<open>expansion.go\<close>) as traces, with the locales \<open>run_order\<close> and
      \<open>invocation_order\<close>.
    \<^item> \<open>Vendor\<close>: fetching, pruning and replacing vendored trees (\<open>internal/vendor\<close>), with every failing file operation.
    \<^item> \<open>Editor_Context\<close>, \<open>Editor\<close>: the language support behind the editor (\<open>internal/language\<close>): position, model of a
      directory, completion, definition, hover, diagnosis.

  \<^bold>\<open>Fuel and bounds.\<close> \<open>strongConnect\<close> takes one unit per nested call and \<open>downstreamLoop\<close> one per queue
  entry; the number of nodes is proved enough for both.
  \<open>build\<close> takes one unit per nesting level of \<open>use\<close>; more than the number of loadable group directories is proved enough
  (\<open>Build_terminates\<close>), because a directory on the current path is refused. The waiting loop of the process lock runs
  over the list of answers of the operating system and is \<^const>\<open>None\<close> when they end. Every other definition is total.
  Sizes the code limits (messages, objects, recorded calls) are kept with their limits.

  \<^bold>\<open>Parameters.\<close> What is not code of the repository is a record of functions, and the properties that need something of it
  name it as a hypothesis: the HCL library (\<open>hclLib\<close>, \<open>hclLaws\<close>), the module loader (\<open>modLib\<close>), the editor's lexer and parser
  (\<open>editLib\<close>), the value library (\<open>CtyLib\<close>, \<open>ValueLib\<close>), the object storage service (\<open>s3API\<close>; \<open>s3Laws\<close> for conditional
  requests, and the weaker \<open>lockLaws\<close>, under which tags may depend on the contents only), the package libraries (\<open>packageLib\<close>,
  \<open>libraryLaws\<close>; \<open>noCollision\<close> says that the packages at hand do not collide under SHA-256), the plugin processes
  (\<open>featureHost\<close>), subprocesses (\<open>procHost\<close>, \<open>obsHost\<close>), the file tree operations of vendoring (\<open>vendorEnv\<close>, \<open>copyLaws\<close>)
  and the operating system. Failures are inputs: each call asks the parameter, indexed by a counter of the world, whether and how
  it fails. The hook through which plugins add credentials to a subprocess is such a parameter; \<open>hookAllowed\<close>
  is the check of \<open>plugins/credentials.go\<close> on the names it may set.

  \<^bold>\<open>What is simplified.\<close> The nodes of one level run one after the other in an arbitrary order: they share only the journal,
  whose operations are serialised by its mutex. Error values carry names and tags instead of the rendered text, except where
  the text is what is checked. The outputs collected during recovery are an answer of the runtime parameter, and the snapshot that is
  written from them is not part of the recovered world. Plan reviews do not carry the diagnostics the
  report attaches to them. Names of environment variables are compared after ASCII upper-casing, where the code uses Unicode.
  A traversal that is not absolute, which the HCL library does not return for a plugin binding, is refused where the Go
  method would panic. A failed fetch leaves no partial tree in the stage, which is dropped in any case.

  \<^bold>\<open>What is not modelled.\<close> The command line other than force-unlock, the language server's transport, the process host and the RPC
  of plugins, the static functions plugins export to blueprints, process groups and terminal input, file permissions, path identity
  on disk, the Graphviz output, the canvas layout, entry points, tools and sample plugins: input and output, platform calls or
  rendering, with no decision the properties rest on.
\<close>

end
